(* ===== verification/Prelude.thy ===== *)
theory Prelude
  imports Main "HOL-Library.Multiset" "HOL-Library.AList" "HOL-Library.Char_ord" "HOL-Library.List_Lexorder" "HOL-Library.Product_Lexorder"
begin

text \<open>
  Shared vocabulary of the development: the Python string operations the backend uses, sorted
  key lists (\<open>sorted(set(...))\<close> in the code), first occurrences, and the collections of simplification rules.

  Strings are lists of ASCII characters. On them \<open>str.casefold\<close> is ASCII lower-casing,
  \<open>str.strip\<close> removes the ASCII white space characters of Python (tab to carriage return, the
  four separators 28 to 31 and blank), and the order of \<open>sorted\<close> is the lexicographic order
  of the code points.
\<close>

named_theorems text_simps \<open>evaluation of the string helpers\<close>
named_theorems key_simps \<open>sets, lengths and order of sorted key lists\<close>

subsection \<open>Python strings\<close>

definition is_space :: "char \<Rightarrow> bool" where
  "is_space c \<longleftrightarrow> (let n = (of_char c :: nat) in (9 \<le> n \<and> n \<le> 13) \<or> (28 \<le> n \<and> n \<le> 32))"

definition lower_char :: "char \<Rightarrow> char" where
  "lower_char c = (let n = (of_char c :: nat) in if 65 \<le> n \<and> n \<le> 90 then char_of (n + 32) else c)"

definition upper_char :: "char \<Rightarrow> char" where
  "upper_char c = (let n = (of_char c :: nat) in if 97 \<le> n \<and> n \<le> 122 then char_of (n - 32) else c)"

definition casefold :: "string \<Rightarrow> string" where
  "casefold s = map lower_char s"

definition upper :: "string \<Rightarrow> string" where
  "upper s = map upper_char s"

definition lstrip_by :: "(char \<Rightarrow> bool) \<Rightarrow> string \<Rightarrow> string" where
  "lstrip_by p s = dropWhile p s"

definition strip_by :: "(char \<Rightarrow> bool) \<Rightarrow> string \<Rightarrow> string" where
  "strip_by p s = rev (dropWhile p (rev (dropWhile p s)))"

definition strip :: "string \<Rightarrow> string" where
  "strip s = strip_by is_space s"

text \<open>\<open>(value or "")\<close> on an optional string.\<close>

definition or_empty :: "string option \<Rightarrow> string" where
  "or_empty v = (case v of None \<Rightarrow> [] | Some s \<Rightarrow> s)"

text \<open>\<open>str.split\<close> on a separator, and \<open>re.split\<close> on a class of single characters.\<close>

fun split_on :: "(char \<Rightarrow> bool) \<Rightarrow> string \<Rightarrow> string list" where
  "split_on p [] = [[]]"
| "split_on p (c # cs) =
     (if p c then [] # split_on p cs
      else (case split_on p cs of [] \<Rightarrow> [[c]] | w # ws \<Rightarrow> (c # w) # ws))"

fun join :: "string \<Rightarrow> string list \<Rightarrow> string" where
  "join sep [] = []"
| "join sep [w] = w"
| "join sep (w # ws) = w @ sep @ join sep ws"

definition starts_with :: "string \<Rightarrow> string \<Rightarrow> bool" where
  "starts_with p s \<longleftrightarrow> take (length p) s = p"

definition ends_with :: "string \<Rightarrow> string \<Rightarrow> bool" where
  "ends_with suffix s \<longleftrightarrow> length suffix \<le> length s \<and> drop (length s - length suffix) s = suffix"

text \<open>\<open>repr\<close> of a text without quotes and backslashes.\<close>

definition quoted :: "string \<Rightarrow> string" where
  "quoted s = CHR 0x27 # s @ [CHR 0x27]"

definition digit_char :: "int \<Rightarrow> char" where
  "digit_char d = char_of (48 + d)"

text \<open>The decimal digits of a non-negative integer, and \<open>str(i)\<close>.\<close>

function dec_str :: "int \<Rightarrow> string" where
  "dec_str n = (if n < 10 then [digit_char n] else dec_str (n div 10) @ [digit_char (n mod 10)])"
  by pat_completeness auto
termination
  by (relation "measure nat") auto

declare dec_str.simps [simp del]

definition int_str :: "int \<Rightarrow> string" where
  "int_str i = (if i < 0 then CHR ''-'' # dec_str (- i) else dec_str i)"

definition nat_str :: "nat \<Rightarrow> string" where
  "nat_str n = dec_str (int n)"

text \<open>A decimal number padded with zeros on the left, as \<open>%0wd\<close> prints it.\<close>

definition zpad :: "nat \<Rightarrow> int \<Rightarrow> string" where
  "zpad w n = (let s = dec_str n in replicate (w - length s) CHR ''0'' @ s)"

lemma casefold_Nil [simp]: "casefold [] = []"
  by (simp add: casefold_def)

lemma strip_Nil [simp]: "strip [] = []"
  by (simp add: strip_def strip_by_def)

lemma or_empty_simps [simp]: "or_empty None = []" "or_empty (Some s) = s"
  by (simp_all add: or_empty_def)

lemma lower_char_idem [simp]: "lower_char (lower_char c) = lower_char c"
  by (simp add: lower_char_def Let_def)

lemma casefold_idem [simp]: "casefold (casefold s) = casefold s"
  by (simp add: casefold_def)

lemma split_on_not_Nil [simp]: "split_on p s \<noteq> []"
  by (induction s) (auto split: list.splits)

declare lower_char_def [text_simps] is_space_def [text_simps] casefold_def [text_simps]
  strip_def [text_simps] strip_by_def [text_simps]

subsection \<open>Sorted key lists\<close>

text \<open>\<open>sorted(set(xs))\<close>: the distinct elements in ascending order.\<close>

definition sorted_keys :: "'a::linorder list \<Rightarrow> 'a list" where
  "sorted_keys xs = sort (remdups xs)"

lemma set_sorted_keys [simp, key_simps]: "set (sorted_keys xs) = set xs"
  by (simp add: sorted_keys_def)

lemma sorted_sorted_keys [simp, key_simps]: "sorted (sorted_keys xs)"
  by (simp add: sorted_keys_def)

lemma distinct_sorted_keys [simp, key_simps]: "distinct (sorted_keys xs)"
  by (simp add: sorted_keys_def)

lemma length_sorted_keys [key_simps]: "length (sorted_keys xs) = card (set xs)"
  by (simp add: sorted_keys_def length_remdups_card_conv)

lemma sorted_keys_Nil_iff [simp]: "sorted_keys xs = [] \<longleftrightarrow> xs = []"
  by (metis set_sorted_keys set_empty)

lemma sorted_keys_Nil [simp]: "sorted_keys [] = []"
  by simp

text \<open>Two key lists with the same elements are the same list: results that are
  \<open>sorted(set(...))\<close> do not depend on the order in which the code met the keys.\<close>

lemma sorted_keys_cong: "set xs = set ys \<Longrightarrow> sorted_keys xs = sorted_keys ys"
  by (rule sorted_distinct_set_unique) simp_all

lemma sorted_keys_fixed: "sorted xs \<Longrightarrow> distinct xs \<Longrightarrow> sorted_keys xs = xs"
  by (rule sorted_distinct_set_unique) simp_all

lemma sort_mset_cong: "mset xs = mset ys \<Longrightarrow> sort xs = sort (ys :: 'a::linorder list)"
  by (rule properties_for_sort) simp_all

text \<open>\<open>dict.setdefault(key, value)\<close> over a list of pairs keeps the first value of each key.\<close>

definition setdefaults :: "('k \<times> 'v) list \<Rightarrow> ('k \<times> 'v) list" where
  "setdefaults kvs = fold (\<lambda>(k, v) acc. if k \<in> fst ` set acc then acc else acc @ [(k, v)]) kvs []"

lemma setdefaults_append:
  "setdefaults (kvs @ [(k, v)]) =
     (if k \<in> fst ` set (setdefaults kvs) then setdefaults kvs else setdefaults kvs @ [(k, v)])"
  by (simp add: setdefaults_def)

lemma keys_setdefaults [simp]: "fst ` set (setdefaults kvs) = fst ` set kvs"
  and distinct_setdefaults [simp]: "distinct (map fst (setdefaults kvs))"
proof -
  have "fst ` set (setdefaults kvs) = fst ` set kvs \<and> distinct (map fst (setdefaults kvs))"
  proof (induction kvs rule: rev_induct)
    case (snoc p kvs)
    obtain k v where p: "p = (k, v)" by (cases p)
    show ?case
    proof (cases "k \<in> fst ` set (setdefaults kvs)")
      case True
      then show ?thesis using snoc.IH by (simp add: p setdefaults_append insert_absorb)
    next
      case False
      then show ?thesis using snoc.IH by (simp add: p setdefaults_append)
    qed
  qed (simp add: setdefaults_def)
  then show "fst ` set (setdefaults kvs) = fst ` set kvs" "distinct (map fst (setdefaults kvs))"
    by simp_all
qed

lemma setdefaults_subset: "set (setdefaults kvs) \<subseteq> set kvs"
proof (induction kvs rule: rev_induct)
  case (snoc p kvs)
  then show ?case by (cases p) (auto simp: setdefaults_append split: if_splits)
qed (simp add: setdefaults_def)

lemma length_setdefaults: "length (setdefaults kvs) = card (fst ` set kvs)"
proof -
  have "length (setdefaults kvs) = length (map fst (setdefaults kvs))" by simp
  also have "\<dots> = card (set (map fst (setdefaults kvs)))"
    by (rule distinct_card [symmetric]) simp
  finally show ?thesis by simp
qed

text \<open>\<open>next((x for x in xs if p x), None)\<close>.\<close>

definition first_match :: "('a \<Rightarrow> bool) \<Rightarrow> 'a list \<Rightarrow> 'a option" where
  "first_match p xs = find p xs"

subsection \<open>Insertion-ordered dictionaries\<close>

text \<open>A dict whose order matters is the list of its items. \<open>upsert k f\<close> replaces the value of
  \<open>k\<close> by \<open>f\<close> of the old value; a new key goes to the end.\<close>

fun upsert :: "'k \<Rightarrow> ('v option \<Rightarrow> 'v) \<Rightarrow> ('k \<times> 'v) list \<Rightarrow> ('k \<times> 'v) list" where
  "upsert k f [] = [(k, f None)]"
| "upsert k f ((k', v) # kvs) =
     (if k' = k then (k, f (Some v)) # kvs else (k', v) # upsert k f kvs)"

lemma map_of_upsert [simp]: "map_of (upsert k f m) = (map_of m)(k \<mapsto> f (map_of m k))"
  by (induction m) auto

lemma keys_upsert [simp]: "fst ` set (upsert k f m) = insert k (fst ` set m)"
  by (induction k f m rule: upsert.induct) (simp_all add: insert_commute)

lemma distinct_upsert [simp]: "distinct (map fst m) \<Longrightarrow> distinct (map fst (upsert k f m))"
proof (induction m)
  case (Cons p m)
  then show ?case using keys_upsert [of k f m] by (cases p) auto
qed simp

text \<open>Grouping by key: \<open>setdefault(key, []).append(value)\<close> over a list.\<close>

definition group_by :: "('a \<Rightarrow> 'k) \<Rightarrow> 'a list \<Rightarrow> ('k \<times> 'a list) list" where
  "group_by key xs =
     fold (\<lambda>x. upsert (key x) (\<lambda>old. (case old of None \<Rightarrow> [] | Some ys \<Rightarrow> ys) @ [x])) xs []"

end
