(* ===== verification/PyFloat.thy ===== *)
theory PyFloat
  imports Prelude Complex_Main "HOL-Library.Log_Nat"
begin

text \<open>
  Python's \<open>float\<close>: IEEE binary64 with rounding to nearest even. A finite float is the rational
  number it stands for; every arithmetic operation computes the exact rational result and rounds
  it with \<open>fl\<close>. The precision (53 bits) and the gradual underflow (least exponent -1074) are
  kept, the overflow threshold is not: values stay below \<open>2 ^ 1024\<close> in this program, whose floats
  are percentages, days and story points. Signed zeros compare equal in Python and are one value here.
\<close>

type_synonym pyfloat = rat

named_theorems float_simps \<open>evaluation of float operations\<close>

subsection \<open>Rounding to an integer, ties to even\<close>

definition rne :: "rat \<Rightarrow> int" where
  "rne x = (let f = \<lfloor>x\<rfloor>; r = x - of_int f in
     if r < 1 / 2 then f else if r > 1 / 2 then f + 1 else if even f then f else f + 1)"

lemma rne_floor: "\<lfloor>x\<rfloor> \<le> rne x" and rne_floor1: "rne x \<le> \<lfloor>x\<rfloor> + 1"
  by (simp_all add: rne_def Let_def)

lemma rne_of_int [simp]: "rne (of_int k) = k"
  by (simp add: rne_def)

lemma rne_numeral [simp]: "rne (numeral k) = numeral k" "rne 0 = 0" "rne 1 = 1"
  using rne_of_int [of "numeral k"] rne_of_int [of 0] rne_of_int [of 1] by simp_all

lemma rne_mono: "x \<le> y \<Longrightarrow> rne x \<le> rne y"
proof (cases "\<lfloor>x\<rfloor> = \<lfloor>y\<rfloor>")
  case True
  assume "x \<le> y"
  then have "x - of_int \<lfloor>y\<rfloor> \<le> y - of_int \<lfloor>y\<rfloor>" by simp
  with True show ?thesis by (auto simp: rne_def Let_def)
next
  case False
  assume "x \<le> y"
  then have "\<lfloor>x\<rfloor> \<le> \<lfloor>y\<rfloor>" by (rule floor_mono)
  with False have "\<lfloor>x\<rfloor> + 1 \<le> \<lfloor>y\<rfloor>" by simp
  with rne_floor1 [of x] rne_floor [of y] show ?thesis by linarith
qed

lemma rne_error: "\<bar>of_int (rne x) - x\<bar> \<le> 1 / 2"
  using of_int_floor_le [of x] real_of_int_floor_add_one_gt [of "0::real"]
    floor_correct [of x]
  by (auto simp: rne_def Let_def abs_le_iff)

lemma rne_minus: "rne (- x) = - rne x"
proof (cases "x = of_int \<lfloor>x\<rfloor>")
  case True
  then have "- x = of_int (- \<lfloor>x\<rfloor>)" by simp
  then show ?thesis using True rne_of_int by metis
next
  case False
  have lt: "of_int \<lfloor>x\<rfloor> < x" using False of_int_floor_le [of x] by linarith
  have gt: "x < of_int \<lfloor>x\<rfloor> + 1" using floor_correct [of x] by simp
  have fm: "\<lfloor>- x\<rfloor> = - \<lfloor>x\<rfloor> - 1"
    by (rule floor_unique) (use lt gt in auto)
  show ?thesis
    by (auto simp: rne_def Let_def fm)
qed

subsection \<open>The binary exponent\<close>

text \<open>\<open>flog b x\<close> is the exponent \<open>e\<close> with \<open>b ^ e \<le> x < b ^ (e + 1)\<close>.\<close>

definition flog :: "nat \<Rightarrow> rat \<Rightarrow> int" where
  "flog b x = (if 1 \<le> x then int (floorlog b (nat \<lfloor>x\<rfloor>)) - 1
     else - int (floorlog b (nat (\<lceil>1 / x\<rceil> - 1))))"

lemma powi_le_iff: "1 < (a :: rat) \<Longrightarrow> a powi m \<le> a powi n \<longleftrightarrow> m \<le> n"
  by (meson less_le_not_le linorder_not_le power_int_increasing power_int_strict_increasing
      less_imp_le)

lemma powi_less_iff: "1 < (a :: rat) \<Longrightarrow> a powi m < a powi n \<longleftrightarrow> m < n"
  by (simp add: powi_le_iff flip: linorder_not_le)

lemma nat_floor_range:
  assumes "1 \<le> x"
  shows "0 < nat \<lfloor>x\<rfloor>" "of_nat (nat \<lfloor>x\<rfloor>) \<le> x" "x < of_nat (nat \<lfloor>x\<rfloor>) + 1"
proof -
  have f: "1 \<le> \<lfloor>x\<rfloor>" using assms by (simp add: le_floor_iff)
  then show "0 < nat \<lfloor>x\<rfloor>" by simp
  from f have eq: "(of_nat (nat \<lfloor>x\<rfloor>) :: 'a) = of_int \<lfloor>x\<rfloor>" by (simp add: of_nat_nat)
  show "of_nat (nat \<lfloor>x\<rfloor>) \<le> x" "x < of_nat (nat \<lfloor>x\<rfloor>) + 1"
    unfolding eq using floor_correct [of x] by simp_all
qed

lemma floorlog_range:
  assumes "1 < b" and "0 < n"
  shows "b ^ (floorlog b n - 1) \<le> n" and "n < b ^ floorlog b n" and "0 < floorlog b n"
  using floorlog_bounds [OF assms(2,1)] floorlog_bounds [OF assms(2,1)] floorlog_eq_zero_iff [of b n] assms
  by auto

lemma flog_ge:
  assumes b: "1 < b" and x: "0 < x"
  shows "(of_nat b :: rat) powi flog b x \<le> x" and "x < of_nat b powi (flog b x + 1)"
proof -
  have b0: "(of_nat b :: rat) \<noteq> 0" using b by simp
  have "of_nat b powi flog b x \<le> x \<and> x < of_nat b powi (flog b x + 1)"
  proof (cases "1 \<le> x")
    case True
    define n where "n = nat \<lfloor>x\<rfloor>"
    define e where "e = floorlog b n"
    have n: "0 < n" "of_nat n \<le> x" "x < of_nat n + 1"
      using nat_floor_range [OF True] by (simp_all add: n_def)
    have e: "b ^ (e - 1) \<le> n" "n < b ^ e" "0 < e"
      using floorlog_range [OF b n(1)] by (simp_all add: e_def)
    have fe: "flog b x = int (e - 1)" "int (e - 1) + 1 = int e"
      using True e(3) by (simp_all add: flog_def n_def e_def)
    have "(of_nat (b ^ (e - 1)) :: rat) \<le> of_nat n" using e(1) by (simp only: of_nat_le_iff)
    then have "of_nat (b ^ (e - 1)) \<le> x" using n(2) by (rule order_trans)
    then have "(of_nat b ^ (e - 1) :: rat) \<le> x" by (simp only: of_nat_power)
    moreover have "(of_nat (n + 1) :: rat) \<le> of_nat (b ^ e)" using e(2) by (simp only: of_nat_le_iff)
    ultimately show ?thesis unfolding fe power_int_of_nat using n(2,3) by simp
  next
    case False
    define n where "n = nat (\<lceil>1 / x\<rceil> - 1)"
    define e where "e = floorlog b n"
    have "1 < 1 / x" using False x by simp
    then have c: "2 \<le> \<lceil>1 / x\<rceil>" by (simp add: less_ceiling_iff)
    have n: "0 < n" using c by (simp add: n_def)
    have "0 \<le> \<lceil>1 / x\<rceil> - 1" using c by linarith
    then have "(of_nat n :: rat) = of_int (\<lceil>1 / x\<rceil> - 1)" unfolding n_def by (rule of_nat_nat)
    then have n2: "of_nat n < 1 / x" "1 / x \<le> of_nat n + 1"
      using ceiling_correct [of "1 / x"] by simp_all
    have e: "b ^ (e - 1) \<le> n" "n < b ^ e" "0 < e"
      using floorlog_range [OF b n] by (simp_all add: e_def)
    have fe: "flog b x = - int e" "- int e + 1 = - int (e - 1)"
      using False e(3) by (simp_all add: flog_def n_def e_def)
    have "(of_nat (b ^ (e - 1)) :: rat) \<le> of_nat n" using e(1) by (simp only: of_nat_le_iff)
    then have "of_nat (b ^ (e - 1)) < 1 / x" using n2(1) by (rule le_less_trans)
    then have l: "of_nat b ^ (e - 1) < 1 / x" by (simp only: of_nat_power)
    have "(of_nat (n + 1) :: rat) \<le> of_nat (b ^ e)" using e(2) by (simp only: of_nat_le_iff)
    then have u: "1 / x \<le> of_nat b ^ e" using n2(2) by simp
    have "1 / (of_nat b ^ e) \<le> x" using u x b by (simp add: field_simps)
    moreover have "x < 1 / (of_nat b ^ (e - 1))" using l x b by (simp add: field_simps)
    ultimately show ?thesis unfolding fe power_int_minus power_int_of_nat by (simp add: inverse_eq_divide)
  qed
  then show "(of_nat b :: rat) powi flog b x \<le> x" and "x < of_nat b powi (flog b x + 1)" by simp_all
qed

lemma flog_unique:
  assumes "1 < b" and "of_nat b powi e \<le> x" and "x < of_nat b powi (e + 1)"
  shows "flog b x = e"
proof -
  have b1: "1 < (of_nat b :: rat)" using assms(1) by simp
  have "0 < (of_nat b :: rat) powi e" using b1 by (simp add: zero_less_power_int)
  then have x: "0 < x" using assms(2) by simp
  have "of_nat b powi e < (of_nat b :: rat) powi (flog b x + 1)"
    using assms(2) flog_ge(2) [OF assms(1) x] by simp
  moreover have "of_nat b powi flog b x < (of_nat b :: rat) powi (e + 1)"
    using assms(3) flog_ge(1) [OF assms(1) x] by simp
  ultimately show ?thesis using b1 by (simp add: powi_less_iff)
qed

lemma flog_mono:
  assumes "1 < b" and "0 < x" and "x \<le> y"
  shows "flog b x \<le> flog b y"
proof -
  have b1: "1 < (of_nat b :: rat)" using assms(1) by simp
  have "(of_nat b :: rat) powi flog b x < of_nat b powi (flog b y + 1)"
    using flog_ge(1) [OF assms(1,2)] flog_ge(2) [OF assms(1), of y] assms by simp
  then show ?thesis using b1 by (simp add: powi_less_iff)
qed

subsection \<open>Rounding to a double\<close>

text \<open>The weight of the last bit: 52 places below the leading one, never below \<open>2 ^ -1074\<close>.\<close>

definition ulp_exp :: "rat \<Rightarrow> int" where
  "ulp_exp x = max (flog 2 \<bar>x\<bar> - 52) (- 1074)"

definition fl :: "rat \<Rightarrow> pyfloat" where
  "fl x = (if x = 0 then 0
     else let u = 2 powi ulp_exp x in of_int (rne (x / u)) * u)"

definition is_double :: "rat \<Rightarrow> bool" where
  "is_double x \<longleftrightarrow> fl x = x"

lemma fl_0 [simp]: "fl 0 = 0"
  by (simp add: fl_def)

lemma ulp_exp_minus [simp]: "ulp_exp (- x) = ulp_exp x"
  by (simp add: ulp_exp_def)

lemma fl_minus: "fl (- x) = - fl x"
  by (simp add: fl_def Let_def rne_minus)

lemma fl_grid:
  assumes "x = of_int m * 2 powi k" and "\<bar>m\<bar> \<le> 2 ^ 53" and "- 1074 \<le> k"
  shows "fl x = x"
proof (cases "m = 0")
  case True
  then show ?thesis using assms(1) by simp
next
  case False
  define q where "q = ulp_exp x"
  have x0: "0 < \<bar>x\<bar>" using assms(1) False by simp
  have "2 powi flog 2 \<bar>x\<bar> \<le> \<bar>x\<bar>" using flog_ge(1) [of 2, OF _ x0] by simp
  also have "\<bar>x\<bar> = of_int \<bar>m\<bar> * 2 powi k" using assms(1) by (simp add: abs_mult)
  also have "(of_int \<bar>m\<bar> :: rat) \<le> of_int (2 ^ 53)" using assms(2) by (simp only: of_int_le_iff)
  then have "(of_int \<bar>m\<bar> :: rat) * 2 powi k \<le> 2 powi 53 * 2 powi k"
    by (intro mult_right_mono) simp_all
  also have "\<dots> = (2 :: rat) powi (53 + k)" by (simp add: power_int_add)
  finally have le: "flog 2 \<bar>x\<bar> \<le> 53 + k" by (simp add: powi_le_iff)
  have "\<exists>j :: int. x / 2 powi q = of_int j"
  proof (cases "q \<le> k")
    case True
    then have "(2 :: rat) powi k = of_int (2 ^ nat (k - q)) * 2 powi q"
      by (simp add: power_int_add [symmetric] flip: power_int_of_nat)
    then have "x / 2 powi q = of_int (m * 2 ^ nat (k - q))" using assms(1) by simp
    then show ?thesis by blast
  next
    case False
    then have q: "q = k + 1" and f: "flog 2 \<bar>x\<bar> = 53 + k"
      using le assms(3) by (auto simp: q_def ulp_exp_def)
    have "(2 :: rat) powi (53 + k) \<le> of_int \<bar>m\<bar> * 2 powi k"
      using flog_ge(1) [of 2, OF _ x0] unfolding f by (simp add: assms(1) abs_mult)
    then have "(of_int (2 ^ 53) :: rat) \<le> of_int \<bar>m\<bar>" by (simp add: power_int_add)
    then have "\<bar>m\<bar> = 2 ^ 53" using assms(2) by (simp only: of_int_le_iff)
    then have "m = 2 ^ 53 \<or> m = - (2 ^ 53)" by arith
    then have "x / 2 powi q = of_int (2 ^ 52) \<or> x / 2 powi q = of_int (- (2 ^ 52))"
      using assms(1) by (auto simp: q power_int_add)
    then show ?thesis by blast
  qed
  then obtain j :: int where "x / 2 powi q = of_int j" by blast
  then show ?thesis by (simp add: fl_def Let_def flip: q_def) (simp add: field_simps)
qed

lemma fl_of_int: "\<bar>m\<bar> \<le> 2 ^ 53 \<Longrightarrow> fl (of_int m) = of_int m"
  using fl_grid [of "of_int m" m 0] by simp

lemma fl_numeral: "numeral m \<le> (2 ^ 53 :: int) \<Longrightarrow> fl (numeral m) = numeral m"
  using fl_of_int [of "numeral m"] by simp

lemma fl_1 [simp]: "fl 1 = 1"
  using fl_of_int [of 1] by simp

lemma fl_pow2: "- 1074 \<le> k \<Longrightarrow> fl (2 powi k) = 2 powi k"
  using fl_grid [of "2 powi k" 1 k] by simp

lemma fl_nonneg: "0 \<le> x \<Longrightarrow> 0 \<le> fl x"
  using rne_mono [of 0 "x / 2 powi ulp_exp x"] by (simp add: fl_def Let_def)

lemma scaled_bound: "x \<noteq> 0 \<Longrightarrow> \<bar>x / 2 powi ulp_exp x\<bar> < 2 ^ 53"
proof -
  assume "x \<noteq> 0"
  then have "\<bar>x\<bar> < 2 powi (flog 2 \<bar>x\<bar> + 1)" using flog_ge(2) [of 2 "\<bar>x\<bar>"] by simp
  also have "\<dots> \<le> 2 powi (53 + ulp_exp x)" by (simp add: powi_le_iff ulp_exp_def)
  also have "\<dots> = 2 ^ 53 * 2 powi ulp_exp x" by (simp add: power_int_add)
  finally show ?thesis by (simp add: field_simps)
qed

lemma fl_idem [simp]: "fl (fl x) = fl x"
proof (cases "x = 0")
  case False
  define m where "m = rne (x / 2 powi ulp_exp x)"
  have b: "x / 2 powi ulp_exp x \<le> of_int (2 ^ 53)" "of_int (- (2 ^ 53)) \<le> x / 2 powi ulp_exp x"
    using abs_le_D1 [OF less_imp_le [OF scaled_bound [OF False]]]
      abs_le_D2 [OF less_imp_le [OF scaled_bound [OF False]]] by simp_all
  have "m \<le> 2 ^ 53" "- (2 ^ 53) \<le> m"
    using rne_mono [OF b(1)] rne_mono [OF b(2)] unfolding rne_of_int m_def by simp_all
  moreover have "fl x = of_int m * 2 powi ulp_exp x" using False by (simp add: fl_def Let_def m_def)
  ultimately show ?thesis by (intro fl_grid) (auto simp: ulp_exp_def)
qed simp

lemma is_double_fl [simp]: "is_double (fl x)"
  by (simp add: is_double_def)

lemma fl_mono_pos:
  assumes "0 < x" and "x \<le> y"
  shows "fl x \<le> fl y"
proof (cases "ulp_exp x = ulp_exp y")
  case True
  have "rne (x / 2 powi ulp_exp y) \<le> rne (y / 2 powi ulp_exp y)"
    using assms by (intro rne_mono divide_right_mono) simp_all
  then show ?thesis using assms True by (simp add: fl_def Let_def)
next
  case False
  have m: "flog 2 x \<le> flog 2 y" using assms by (intro flog_mono) simp_all
  with False have uy: "ulp_exp y = flog 2 y - 52" and lt: "ulp_exp x < ulp_exp y"
    and fx: "flog 2 x < flog 2 y" and ux: "ulp_exp x \<le> flog 2 y"
    using assms by (auto simp: ulp_exp_def max_def split: if_splits)
  define B :: rat where "B = 2 powi flog 2 y"
  have "x < 2 powi (flog 2 x + 1)" using flog_ge(2) [of 2 x] assms by simp
  also have "\<dots> \<le> B" using fx by (simp add: B_def powi_le_iff)
  finally have xB: "x \<le> B" by simp
  have By: "B \<le> y" using flog_ge(1) [of 2 y] assms by (simp add: B_def)
  have Bx: "B / 2 powi ulp_exp x = of_int (2 ^ nat (flog 2 y - ulp_exp x))"
    using ux by (simp add: B_def power_int_diff flip: power_int_of_nat)
  have "x / 2 powi ulp_exp x \<le> B / 2 powi ulp_exp x" using xB by (intro divide_right_mono) simp_all
  then have "rne (x / 2 powi ulp_exp x) \<le> 2 ^ nat (flog 2 y - ulp_exp x)"
    using rne_mono rne_of_int unfolding Bx by metis
  then have "(of_int (rne (x / 2 powi ulp_exp x)) :: rat) \<le> of_int (2 ^ nat (flog 2 y - ulp_exp x))"
    by (simp only: of_int_le_iff)
  then have l: "fl x \<le> B" using assms Bx by (simp add: fl_def Let_def field_simps)
  have Byy: "B / 2 powi ulp_exp y = of_int (2 ^ 52)" by (simp add: B_def uy power_int_diff)
  have "B / 2 powi ulp_exp y \<le> y / 2 powi ulp_exp y" using By by (intro divide_right_mono) simp_all
  then have "2 ^ 52 \<le> rne (y / 2 powi ulp_exp y)"
    using rne_mono rne_of_int unfolding Byy by metis
  then have "(of_int (2 ^ 52) :: rat) \<le> of_int (rne (y / 2 powi ulp_exp y))"
    by (simp only: of_int_le_iff)
  then have "B \<le> fl y" using assms Byy by (simp add: fl_def Let_def field_simps)
  with l show ?thesis by simp
qed

lemma fl_mono: "x \<le> y \<Longrightarrow> fl x \<le> fl y"
proof -
  assume xy: "x \<le> y"
  consider "0 < x" | "x \<le> 0" "0 \<le> y" | "y < 0" using xy by linarith
  then show ?thesis
  proof cases
    case 1
    then show ?thesis using xy by (rule fl_mono_pos)
  next
    case 2
    then show ?thesis using fl_nonneg [of "- x"] fl_nonneg [of y] by (simp add: fl_minus)
  next
    case 3
    then show ?thesis using fl_mono_pos [of "- y" "- x"] xy by (simp add: fl_minus)
  qed
qed

lemma fl_error: "x \<noteq> 0 \<Longrightarrow> \<bar>fl x - x\<bar> \<le> 2 powi (ulp_exp x - 1)"
proof -
  assume "x \<noteq> 0"
  define u :: rat where "u = 2 powi ulp_exp x"
  have u: "0 < u" by (simp add: u_def)
  have "\<bar>of_int (rne (x / u)) - x / u\<bar> * u \<le> 1 / 2 * u"
    using u by (intro mult_right_mono rne_error) simp
  also have "\<bar>of_int (rne (x / u)) - x / u\<bar> * u = \<bar>of_int (rne (x / u)) * u - x\<bar>"
    using u by (simp add: abs_mult_pos field_simps)
  finally show ?thesis using \<open>x \<noteq> 0\<close>
    by (simp add: fl_def Let_def power_int_diff flip: u_def)
qed

lemma fl_upper:
  assumes "1 \<le> x"
  shows "fl x \<le> x * (1 + 1 / 2 ^ 53)"
proof -
  have f: "0 \<le> flog 2 x"
    using flog_mono [of 2 1 x] flog_unique [of 2 0 1] assms by simp
  then have "ulp_exp x = flog 2 x - 52" using assms by (simp add: ulp_exp_def)
  then have "fl x - x \<le> 2 powi (flog 2 x - 53)" using fl_error [of x] assms by (simp add: abs_le_iff)
  also have "\<dots> = 2 powi flog 2 x / 2 ^ 53" by (simp add: power_int_diff)
  also have "\<dots> \<le> x / 2 ^ 53" using flog_ge(1) [of 2 x] assms by (intro divide_right_mono) simp_all
  finally show ?thesis by (simp add: field_simps)
qed

subsection \<open>Arithmetic and \<open>round\<close>\<close>

definition fadd :: "pyfloat \<Rightarrow> pyfloat \<Rightarrow> pyfloat" where "fadd x y = fl (x + y)"
definition fsub :: "pyfloat \<Rightarrow> pyfloat \<Rightarrow> pyfloat" where "fsub x y = fl (x - y)"
definition fmul :: "pyfloat \<Rightarrow> pyfloat \<Rightarrow> pyfloat" where "fmul x y = fl (x * y)"
definition fdiv :: "pyfloat \<Rightarrow> pyfloat \<Rightarrow> pyfloat" where "fdiv x y = fl (x / y)"

text \<open>\<open>float(n)\<close>, the conversion of an integer operand of a float operation.\<close>

definition fint :: "int \<Rightarrow> pyfloat" where "fint n = fl (of_int n)"

text \<open>\<open>sum(xs)\<close> on floats: the left-to-right sum of Python 3.11, which the repository pins.\<close>

definition fsum :: "pyfloat list \<Rightarrow> pyfloat" where "fsum xs = foldl fadd 0 xs"

text \<open>\<open>round(x, n)\<close>: the exact value rounded to \<open>n\<close> decimals, ties to even, then to a double.\<close>

definition py_round :: "nat \<Rightarrow> pyfloat \<Rightarrow> pyfloat" where
  "py_round n x = fl (of_int (rne (x * 10 ^ n)) / 10 ^ n)"

definition clamp :: "pyfloat \<Rightarrow> pyfloat \<Rightarrow> pyfloat \<Rightarrow> pyfloat" where
  "clamp v lo hi = max lo (min hi v)"

text \<open>\<open>round(100.0 * a / b, 2)\<close> for two integer counts.\<close>

definition pct2 :: "int \<Rightarrow> int \<Rightarrow> pyfloat" where
  "pct2 a b = py_round 2 (fdiv (fmul 100 (fint a)) (fint b))"

lemmas float_ops = fadd_def fsub_def fmul_def fdiv_def fint_def

declare float_ops [float_simps] fsum_def [float_simps] py_round_def [float_simps]
  clamp_def [float_simps] pct2_def [float_simps]

subsection \<open>Monotone roundings\<close>

text \<open>
  What the metric code relies on when it rounds: the rounding is monotone and it keeps the values
  of a grid. Both the rounding of a float operation and \<open>round(x, n)\<close> are such roundings.
\<close>

locale grid_rounding =
  fixes r :: "rat \<Rightarrow> rat" and on_grid :: "rat \<Rightarrow> bool"
  assumes mono: "x \<le> y \<Longrightarrow> r x \<le> r y"
    and fixed: "on_grid x \<Longrightarrow> r x = x"
begin

lemma upper: "x \<le> c \<Longrightarrow> on_grid c \<Longrightarrow> r x \<le> c"
  using mono [of x c] fixed [of c] by simp

lemma lower: "c \<le> x \<Longrightarrow> on_grid c \<Longrightarrow> c \<le> r x"
  using mono [of c x] fixed [of c] by simp

lemma between: "lo \<le> x \<Longrightarrow> x \<le> hi \<Longrightarrow> on_grid lo \<Longrightarrow> on_grid hi \<Longrightarrow> lo \<le> r x \<and> r x \<le> hi"
  using upper [of x hi] lower [of lo x] by simp

lemma above_grid: "on_grid c \<Longrightarrow> c < r x \<Longrightarrow> c < x"
  using upper [of x c] by (meson not_less)

end

interpretation dbl: grid_rounding fl is_double
  by unfold_locales (simp_all add: fl_mono is_double_def)

definition on_decimals :: "nat \<Rightarrow> rat \<Rightarrow> bool" where
  "on_decimals n x \<longleftrightarrow> py_round n x = x"

lemma py_round_mono: "x \<le> y \<Longrightarrow> py_round n x \<le> py_round n y"
  unfolding py_round_def
  by (intro fl_mono divide_right_mono) (simp_all add: rne_mono)

interpretation dec: grid_rounding "py_round n" "on_decimals n" for n
  by unfold_locales (simp_all add: py_round_mono on_decimals_def)

lemma is_double_int: "\<bar>m\<bar> \<le> 2 ^ 53 \<Longrightarrow> is_double (of_int m)"
  by (simp add: is_double_def fl_of_int)

lemma is_double_numeral: "numeral m \<le> (2 ^ 53 :: int) \<Longrightarrow> is_double (numeral m)"
  using is_double_int [of "numeral m"] by simp

lemma is_double_0 [simp]: "is_double 0" and is_double_1 [simp]: "is_double 1"
  and is_double_100 [simp]: "is_double 100"
  using is_double_numeral [of "num.Bit0 (num.Bit0 (num.Bit1 (num.Bit0 (num.Bit0 (num.Bit1 num.One)))))"]
  by (simp_all add: is_double_def)

lemma on_decimals_int: "\<bar>m\<bar> \<le> 2 ^ 53 \<Longrightarrow> on_decimals n (of_int m)"
proof -
  assume m: "\<bar>m\<bar> \<le> 2 ^ 53"
  have "rne (of_int m * 10 ^ n) = m * 10 ^ n" using rne_of_int [of "m * 10 ^ n"] by simp
  then show ?thesis using m by (simp add: on_decimals_def py_round_def fl_of_int)
qed

lemma on_decimals_0 [simp]: "on_decimals n 0" and on_decimals_100 [simp]: "on_decimals n 100"
  using on_decimals_int [of 0 n] on_decimals_int [of 100 n] by simp_all

lemma is_double_py_round [simp]: "is_double (py_round n x)"
  by (simp add: py_round_def)

lemma clamp_range: "lo \<le> hi \<Longrightarrow> lo \<le> clamp v lo hi \<and> clamp v lo hi \<le> hi"
  by (simp add: clamp_def)

lemma fint_mono: "a \<le> b \<Longrightarrow> fint a \<le> fint b"
  by (simp add: fint_def fl_mono)

lemma fint_nonneg: "0 \<le> n \<Longrightarrow> 0 \<le> fint n"
  by (simp add: fint_def fl_nonneg)

lemma fint_pos: "0 < n \<Longrightarrow> 1 \<le> fint n"
  using fint_mono [of 1 n] by (simp add: fint_def)

lemma fdiv_fmul_100:
  assumes "0 \<le> a" and "a \<le> b" and "0 < b"
  shows "0 \<le> fdiv (fmul 100 (fint a)) (fint b)" and "fdiv (fmul 100 (fint a)) (fint b) \<le> fl (100 + 1 / 2 ^ 40)"
proof -
  have b1: "1 \<le> fint b" and ab: "fint a \<le> fint b" and a0: "0 \<le> fint a"
    using assms by (simp_all add: fint_pos fint_mono fint_nonneg)
  have "0 \<le> fmul 100 (fint a)" using a0 by (simp add: fmul_def fl_nonneg)
  then show "0 \<le> fdiv (fmul 100 (fint a)) (fint b)" using b1 by (simp add: fdiv_def fl_nonneg)
  have "fmul 100 (fint a) \<le> fl (100 * fint b)" unfolding fmul_def using ab by (intro fl_mono) simp
  also have "\<dots> \<le> 100 * fint b * (1 + 1 / 2 ^ 53)" using b1 by (intro fl_upper) simp
  finally have "fmul 100 (fint a) / fint b \<le> 100 * (1 + 1 / 2 ^ 53)"
    using b1 by (simp add: divide_le_eq mult.commute mult.left_commute)
  also have "\<dots> \<le> 100 + 1 / 2 ^ 40" by simp
  finally show "fdiv (fmul 100 (fint a)) (fint b) \<le> fl (100 + 1 / 2 ^ 40)"
    unfolding fdiv_def by (rule fl_mono)
qed

lemma py_round_100_slack: "py_round 2 (fl (100 + 1 / 2 ^ 40)) = 100"
  by code_simp

text \<open>A part of a whole is a percentage between 0 and 100, whatever the rounding errors.\<close>

lemma pct2_range:
  assumes "0 \<le> a" and "a \<le> b" and "0 < b"
  shows "0 \<le> pct2 a b \<and> pct2 a b \<le> 100"
proof -
  note q = fdiv_fmul_100 [OF assms]
  have "0 \<le> pct2 a b" unfolding pct2_def by (rule dec.lower [OF q(1)]) simp
  moreover have "pct2 a b \<le> 100"
    unfolding pct2_def using py_round_mono [OF q(2), of 2] py_round_100_slack by simp
  ultimately show ?thesis by simp
qed

lemma pct2_nonneg: "0 \<le> a \<Longrightarrow> 0 < b \<Longrightarrow> 0 \<le> pct2 a b"
  unfolding pct2_def fdiv_def fmul_def
  by (intro dec.lower fl_nonneg divide_nonneg_nonneg mult_nonneg_nonneg fint_nonneg) simp_all

subsection \<open>Numbers of the host language\<close>

text \<open>A Python object that can stand where the code expects a number.\<close>

datatype py_number = PyBool bool | PyInt int | PyFloat pyfloat | PyInf bool | PyNaN

fun is_finite_number :: "py_number \<Rightarrow> bool" where
  "is_finite_number (PyInf neg) = False"
| "is_finite_number PyNaN = False"
| "is_finite_number n = True"

text \<open>The value of a finite number; the two infinities and NaN have none.\<close>

fun number_value :: "py_number \<Rightarrow> rat" where
  "number_value (PyBool b) = (if b then 1 else 0)"
| "number_value (PyInt i) = of_int i"
| "number_value (PyFloat x) = x"
| "number_value n = 0"

subsection \<open>Printing\<close>

text \<open>\<open>f"{x:.nf}"\<close>: the exact value rounded to \<open>n\<close> decimals, ties to even.\<close>

definition format_fixed :: "nat \<Rightarrow> pyfloat \<Rightarrow> string" where
  "format_fixed n x = (let m = rne (\<bar>x\<bar> * 10 ^ n); q = m div 10 ^ n; r = m mod 10 ^ n in
     (if x < 0 then ''-'' else []) @ dec_str q @ (if n = 0 then [] else CHR ''.'' # zpad n r))"

text \<open>\<open>repr(x)\<close> of a float between \<open>10 ^ -4\<close> and \<open>10 ^ 16\<close>: the fewest significant digits that
  read back as the same double. Zero prints as \<open>0.0\<close>.\<close>

definition sig_digits :: "nat \<Rightarrow> pyfloat \<Rightarrow> int" where
  "sig_digits n x = rne (x * 10 powi (int n - 1 - flog 10 x))"

definition reads_back :: "pyfloat \<Rightarrow> nat \<Rightarrow> bool" where
  "reads_back x n \<longleftrightarrow> fl (of_int (sig_digits n x) * 10 powi (flog 10 x + 1 - int n)) = x"

definition repr_decimals :: "pyfloat \<Rightarrow> nat" where
  "repr_decimals x = (case find (reads_back x) [1..<18] of
       Some n \<Rightarrow> nat (max 1 (int n - 1 - flog 10 x))
     | None \<Rightarrow> nat (max 1 (16 - flog 10 x)))"

definition py_repr :: "pyfloat \<Rightarrow> string" where
  "py_repr x = (if x = 0 then ''0.0''
     else if x < 0 then CHR ''-'' # format_fixed (repr_decimals (- x)) (- x)
     else format_fixed (repr_decimals x) x)"

text \<open>\<open>statistics.median\<close> of a non-empty list.\<close>

definition median :: "pyfloat list \<Rightarrow> pyfloat" where
  "median xs = (let s = sort xs; n = length s in
     if odd n then s ! (n div 2) else fdiv (fadd (s ! (n div 2 - 1)) (s ! (n div 2))) 2)"

lemma is_double_twice: "is_double x \<Longrightarrow> is_double (x + x)"
proof (cases "x = 0")
  case False
  assume x: "is_double x"
  define m where "m = rne (x / 2 powi ulp_exp x)"
  have b: "x / 2 powi ulp_exp x \<le> of_int (2 ^ 53)" "of_int (- (2 ^ 53)) \<le> x / 2 powi ulp_exp x"
    using abs_le_D1 [OF less_imp_le [OF scaled_bound [OF False]]]
      abs_le_D2 [OF less_imp_le [OF scaled_bound [OF False]]] by simp_all
  have m: "m \<le> 2 ^ 53" "- (2 ^ 53) \<le> m"
    using rne_mono [OF b(1)] rne_mono [OF b(2)] unfolding rne_of_int m_def by simp_all
  have "x = of_int m * 2 powi ulp_exp x"
    using x False by (simp add: is_double_def fl_def Let_def m_def)
  then have "x + x = of_int m * 2 powi (ulp_exp x + 1)"
    by (simp add: power_int_add)
  then have "fl (x + x) = x + x"
    by (rule fl_grid) (use m in \<open>auto simp: ulp_exp_def\<close>)
  then show ?thesis by (simp add: is_double_def)
qed simp

lemma median_range:
  assumes "xs \<noteq> []" and "\<And>x. x \<in> set xs \<Longrightarrow> lo \<le> x \<and> x \<le> hi"
    and "is_double lo" and "is_double hi"
  shows "lo \<le> median xs \<and> median xs \<le> hi"
proof -
  define s where "s = sort xs"
  have len: "length s = length xs" by (simp add: s_def)
  have s: "lo \<le> s ! i \<and> s ! i \<le> hi" if "i < length xs" for i
    using that assms(2) len nth_mem [of i s] by (simp add: s_def)
  have n: "0 < length xs" using assms(1) by simp
  show ?thesis
  proof (cases "odd (length xs)")
    case True
    then show ?thesis using s [of "length xs div 2"] n by (simp add: median_def Let_def len flip: s_def)
  next
    case False
    define a where "a = s ! (length xs div 2 - 1)"
    define b where "b = s ! (length xs div 2)"
    have "length xs div 2 - 1 < length xs" "length xs div 2 < length xs" using n by arith+
    then have ab: "lo + lo \<le> a + b" "a + b \<le> hi + hi"
      using s [of "length xs div 2 - 1"] s [of "length xs div 2"] unfolding a_def b_def
      by (simp_all add: add_mono)
    have "lo \<le> fdiv (fadd a b) 2 \<and> fdiv (fadd a b) 2 \<le> hi"
      using dbl.between [OF ab is_double_twice [OF assms(3)] is_double_twice [OF assms(4)]]
      unfolding fdiv_def fadd_def by (intro dbl.between) (use assms in auto)
    then show ?thesis using False by (simp add: median_def Let_def len a_def b_def flip: s_def)
  qed
qed

subsection \<open>Exact integer arithmetic\<close>

text \<open>Sums of integers that stay below \<open>2 ^ 53\<close> are exact.\<close>

lemma fadd_ints: "\<bar>a + b\<bar> \<le> 2 ^ 53 \<Longrightarrow> fadd (of_int a) (of_int b) = of_int (a + b)"
  unfolding fadd_def of_int_add [symmetric] by (rule fl_of_int)

lemma fsub_ints: "\<bar>a - b\<bar> \<le> 2 ^ 53 \<Longrightarrow> fsub (of_int a) (of_int b) = of_int (a - b)"
  unfolding fsub_def of_int_diff [symmetric] by (rule fl_of_int)

lemma foldl_fadd_ints:
  assumes "0 \<le> a" and "\<And>k. k \<in> set ks \<Longrightarrow> 0 \<le> k" and "a + sum_list ks \<le> 2 ^ 53"
  shows "foldl fadd (of_int a) (map of_int ks) = of_int (a + sum_list ks)"
  using assms
proof (induction ks arbitrary: a)
  case (Cons k ks)
  have s: "0 \<le> sum_list ks" using Cons.prems(2) by (intro sum_list_nonneg) simp
  then have "fadd (of_int a) (of_int k) = of_int (a + k)"
    using Cons.prems by (intro fadd_ints) simp
  then show ?case using Cons.IH [of "a + k"] Cons.prems by (simp add: add.assoc)
qed simp

lemma fsum_ints:
  assumes "\<And>k. k \<in> set ks \<Longrightarrow> 0 \<le> k" and "sum_list ks \<le> 2 ^ 53"
  shows "fsum (map of_int ks) = of_int (sum_list ks)"
  using foldl_fadd_ints [of 0 ks] assms by (simp add: fsum_def)

lemma py_round_int: "\<bar>m\<bar> \<le> 2 ^ 53 \<Longrightarrow> py_round n (of_int m) = of_int m"
  using on_decimals_int by (simp add: on_decimals_def)

text \<open>Between two doubles of the same weight there is no third one.\<close>

lemma is_double_step:
  assumes "is_double x" and "of_int k * 2 powi q < x" and "q \<le> ulp_exp x"
  shows "of_int (k + 1) * 2 powi q \<le> x"
proof (cases "x = 0")
  case True
  have q: "0 \<le> (2 :: rat) powi q" by simp
  have "(of_int k :: rat) < 0"
  proof (rule ccontr)
    assume "\<not> of_int k < (0 :: rat)"
    then have "0 \<le> of_int k * (2 :: rat) powi q" using q by (intro mult_nonneg_nonneg) simp_all
    then show False using assms(2) True by simp
  qed
  then have "k + 1 \<le> 0" by simp
  then have "(of_int (k + 1) :: rat) \<le> 0" by (simp only: of_int_le_0_iff)
  then show ?thesis using True by (simp add: mult_nonpos_nonneg)
next
  case False
  define m where "m = rne (x / 2 powi ulp_exp x)"
  define j where "j = m * 2 ^ nat (ulp_exp x - q)"
  have "x = of_int m * 2 powi ulp_exp x"
    using assms(1) False by (simp add: is_double_def fl_def Let_def m_def)
  also have "(2 :: rat) powi ulp_exp x = of_int (2 ^ nat (ulp_exp x - q)) * 2 powi q"
    using assms(3) by (simp add: power_int_add [symmetric] flip: power_int_of_nat)
  finally have x: "x = of_int j * 2 powi q" by (simp add: j_def)
  then have "(of_int k :: rat) < of_int j" using assms(2) by (simp add: mult_less_cancel_right)
  then have "k + 1 \<le> j" by simp
  then have "(of_int (k + 1) :: rat) \<le> of_int j" by (simp only: of_int_le_iff)
  then show ?thesis unfolding x by (intro mult_right_mono) simp_all
qed

lemma ulp_exp_mono: "0 < x \<Longrightarrow> x \<le> y \<Longrightarrow> ulp_exp x \<le> ulp_exp y"
  using flog_mono [of 2 x y] by (auto simp: ulp_exp_def)

lemma is_double_next:
  assumes "is_double x" and "c < x" and "0 < c" and "c = of_int k * 2 powi ulp_exp c"
  shows "c + 2 powi ulp_exp c \<le> x"
proof -
  have "of_int (k + 1) * 2 powi ulp_exp c \<le> x"
    by (rule is_double_step) (use assms ulp_exp_mono [of c x] in simp_all)
  then show ?thesis using assms(4) by (simp add: distrib_right)
qed

subsection \<open>Sums and shares of floats\<close>

lemma fl_upper_small:
  assumes "1 / 128 \<le> x"
  shows "fl x \<le> x * (1 + 1 / 2 ^ 53)"
proof -
  have "flog 2 (1 / 128) = - 7" by (rule flog_unique) simp_all
  then have f: "- 7 \<le> flog 2 x" using flog_mono [of 2 "1 / 128" x] assms by simp
  then have "ulp_exp x = flog 2 x - 52" using assms by (simp add: ulp_exp_def)
  then have "fl x - x \<le> 2 powi (flog 2 x - 53)" using fl_error [of x] assms by (simp add: abs_le_iff)
  also have "\<dots> = 2 powi flog 2 x / 2 ^ 53" by (simp add: power_int_diff)
  also have "\<dots> \<le> x / 2 ^ 53" using flog_ge(1) [of 2 x] assms by (intro divide_right_mono) simp_all
  finally show ?thesis by (simp add: field_simps)
qed

lemma share_slack:
  assumes "0 \<le> a" and "a \<le> b" and "1 / 128 \<le> b"
  shows "0 \<le> fdiv (fmul 100 a) b" and "fdiv (fmul 100 a) b \<le> fl (100 + 1 / 2 ^ 40)"
proof -
  show "0 \<le> fdiv (fmul 100 a) b" using assms by (simp add: fdiv_def fmul_def fl_nonneg)
  have "fmul 100 a \<le> fl (100 * b)" unfolding fmul_def using assms by (intro fl_mono) simp
  also have "\<dots> \<le> 100 * b * (1 + 1 / 2 ^ 53)" using assms by (intro fl_upper_small) simp
  finally have "fmul 100 a / b \<le> 100 * (1 + 1 / 2 ^ 53)"
    using assms by (simp add: divide_le_eq mult.commute mult.left_commute)
  also have "\<dots> \<le> 100 + 1 / 2 ^ 40" by simp
  finally show "fdiv (fmul 100 a) b \<le> fl (100 + 1 / 2 ^ 40)" unfolding fdiv_def by (rule fl_mono)
qed

text \<open>\<open>round(100.0 * a / b, 2)\<close> of a part and its whole is a percentage.\<close>

lemma share_range:
  assumes "0 \<le> a" and "a \<le> b" and "1 / 128 \<le> b"
  shows "0 \<le> py_round 2 (fdiv (fmul 100 a) b) \<and> py_round 2 (fdiv (fmul 100 a) b) \<le> 100"
proof
  note q = share_slack [OF assms]
  show "0 \<le> py_round 2 (fdiv (fmul 100 a) b)" by (rule dec.lower [OF q(1)]) simp
  show "py_round 2 (fdiv (fmul 100 a) b) \<le> 100"
    using py_round_mono [OF q(2), of 2] py_round_100_slack by simp
qed

lemma py_round_pos:
  assumes "0 < py_round 2 x"
  shows "1 / 128 \<le> py_round 2 x"
proof -
  have "0 < rne (x * 10 ^ 2)"
  proof (rule ccontr)
    assume "\<not> 0 < rne (x * 10 ^ 2)"
    then have "of_int (rne (x * 10 ^ 2)) / 10 ^ 2 \<le> (0 :: rat)" by simp
    then have "py_round 2 x \<le> fl 0" unfolding py_round_def by (rule fl_mono)
    with assms show False by simp
  qed
  then have "(1 :: rat) \<le> of_int (rne (x * 10 ^ 2))" by simp
  then have "(1 / 128 :: rat) \<le> of_int (rne (x * 10 ^ 2)) / 10 ^ 2" by simp
  moreover have "is_double (1 / 128)" by code_simp
  ultimately show ?thesis unfolding py_round_def by (intro dbl.lower)
qed

lemma fadd_ge:
  assumes "is_double a" and "0 \<le> b"
  shows "a \<le> fadd a b"
  unfolding fadd_def using assms by (intro dbl.lower) simp_all

lemma fadd_ge2:
  assumes "is_double b" and "0 \<le> a"
  shows "b \<le> fadd a b"
  unfolding fadd_def using assms by (intro dbl.lower) simp_all

lemma foldl_fadd_double: "is_double a \<Longrightarrow> is_double (foldl fadd a xs)"
  by (induction xs arbitrary: a) (simp_all add: fadd_def)

lemma is_double_fsum [simp]: "is_double (fsum xs)"
  by (simp add: fsum_def foldl_fadd_double)

lemma foldl_fadd_ge:
  assumes "is_double a" and "0 \<le> a" and "\<And>x. x \<in> set xs \<Longrightarrow> 0 \<le> x \<and> is_double x"
  shows "a \<le> foldl fadd a xs \<and> (\<forall>x \<in> set xs. x \<le> foldl fadd a xs)"
  using assms
proof (induction xs arbitrary: a)
  case (Cons y ys)
  have y: "0 \<le> y" "is_double y" using Cons.prems(3) by auto
  have a: "a \<le> fadd a y" "y \<le> fadd a y" using Cons.prems y by (simp_all add: fadd_ge fadd_ge2)
  have "fadd a y \<le> foldl fadd (fadd a y) ys \<and> (\<forall>x \<in> set ys. x \<le> foldl fadd (fadd a y) ys)"
    using Cons.prems a by (intro Cons.IH) (auto simp: fadd_def intro: order_trans)
  with a show ?case by auto
qed simp

lemma fsum_ge:
  assumes "\<And>x. x \<in> set xs \<Longrightarrow> 0 \<le> x \<and> is_double x"
  shows "0 \<le> fsum xs" and "y \<in> set xs \<Longrightarrow> y \<le> fsum xs"
  using foldl_fadd_ge [of 0 xs] assms by (simp_all add: fsum_def)

text \<open>Rounding to two decimals twice changes nothing.\<close>

lemma on_decimals_round:
  assumes "\<bar>x\<bar> \<le> 2 ^ 43"
  shows "on_decimals 2 (py_round 2 x)"
proof -
  define m where "m = rne (x * 10 ^ 2)"
  define q :: rat where "q = of_int m / 10 ^ 2"
  have "\<bar>of_int m - x * 10 ^ 2\<bar> \<le> (1 / 2 :: rat)" unfolding m_def by (rule rne_error)
  then have "of_int m - x * 100 \<le> 1 / 2" "x * 100 - of_int m \<le> (1 / 2 :: rat)"
    by (simp_all only: abs_le_iff) simp_all
  moreover have "of_int m = q * 100" by (simp add: q_def)
  ultimately have "\<bar>q - x\<bar> \<le> 1" unfolding abs_le_iff by linarith
  moreover have "\<bar>x\<bar> \<le> 8796093022208" using assms by simp
  ultimately have "\<bar>q\<bar> < 17592186044416" by linarith
  then have qb: "\<bar>q\<bar> < 2 ^ 44" by simp
  have "\<bar>fl q - q\<bar> \<le> 2 powi (- 9)"
  proof (cases "q = 0")
    case False
    have "flog 2 \<bar>q\<bar> < 44"
    proof (rule ccontr)
      assume "\<not> flog 2 \<bar>q\<bar> < 44"
      then have "(2 :: rat) powi 44 \<le> 2 powi flog 2 \<bar>q\<bar>"
        using powi_le_iff [of 2 44 "flog 2 \<bar>q\<bar>"] by simp
      also have "\<dots> \<le> \<bar>q\<bar>" using flog_ge(1) [of 2 "\<bar>q\<bar>"] False by simp
      finally show False using qb by simp
    qed
    then have "ulp_exp q - 1 \<le> - 9" by (simp add: ulp_exp_def)
    then have "(2 :: rat) powi (ulp_exp q - 1) \<le> 2 powi (- 9)" using powi_le_iff [of 2 "ulp_exp q - 1" "- 9"] by simp
    with fl_error [OF False] show ?thesis by linarith
  qed simp
  then have "\<bar>fl q * 10 ^ 2 - of_int m\<bar> < (1 / 2 :: rat)"
    by (simp add: q_def abs_less_iff abs_le_iff field_simps)
  moreover have "\<bar>of_int (rne (fl q * 10 ^ 2)) - fl q * 10 ^ 2\<bar> \<le> (1 / 2 :: rat)" by (rule rne_error)
  ultimately have "\<bar>of_int (rne (fl q * 10 ^ 2)) - of_int m\<bar> < (1 :: rat)" by linarith
  then have "\<bar>rne (fl q * 10 ^ 2) - m\<bar> < 1"
    by (simp only: of_int_diff [symmetric] of_int_abs [symmetric] of_int_less_1_iff)
  then have "rne (fl q * 10 ^ 2) = m" by simp
  then show ?thesis unfolding on_decimals_def py_round_def m_def [symmetric] q_def [symmetric]
    by (simp add: q_def)
qed

end
