(* ===== verification/PyTime.thy ===== *)
theory PyTime
  imports PyFloat
begin

text \<open>
  Python's \<open>datetime\<close>: a wall clock (microseconds since 0001-01-01T00:00) with an optional UTC
  offset. The services coerce every timestamp with \<open>_coerce_utc\<close> before they compare or subtract;
  the result is an instant, \<open>utc\<close>, the wall clock in UTC. \<open>isoformat\<close> is the text the evidence
  holds and, for scope events, the text they are sorted by.
\<close>

record py_datetime =
  wall_clock :: int
  utc_offset :: "int option"

type_synonym utc = int

definition naive :: "int \<Rightarrow> py_datetime" where
  "naive w = \<lparr>wall_clock = w, utc_offset = None\<rparr>"

definition aware :: "int \<Rightarrow> int \<Rightarrow> py_datetime" where
  "aware w off = \<lparr>wall_clock = w, utc_offset = Some off\<rparr>"

text \<open>A naive time is read as UTC, an aware one is converted.\<close>

definition to_utc :: "py_datetime \<Rightarrow> utc" where
  "to_utc d = (case utc_offset d of None \<Rightarrow> wall_clock d | Some off \<Rightarrow> wall_clock d - off)"

definition coerce_utc :: "py_datetime option \<Rightarrow> utc option" where
  "coerce_utc v = (case v of None \<Rightarrow> None | Some d \<Rightarrow> Some (to_utc d))"

lemma coerce_utc_simps [simp]:
  "coerce_utc None = None" "coerce_utc (Some d) = Some (to_utc d)"
  "coerce_utc v = None \<longleftrightarrow> v = None"
  by (simp_all add: coerce_utc_def split: option.splits)

lemma to_utc_simps [simp]: "to_utc (naive w) = w" "to_utc (aware w off) = w - off"
  by (simp_all add: to_utc_def naive_def aware_def)

subsection \<open>Durations\<close>

definition seconds_us :: int where "seconds_us = 1000000"
definition day_us :: int where "day_us = 86400 * 1000000"

text \<open>\<open>timedelta.total_seconds\<close> divides the microseconds by \<open>10 ^ 6\<close>, correctly rounded.\<close>

definition total_seconds :: "int \<Rightarrow> pyfloat" where
  "total_seconds us = fl (of_int us / 1000000)"

definition duration_days :: "utc \<Rightarrow> utc \<Rightarrow> pyfloat" where
  "duration_days started ended = fdiv (total_seconds (ended - started)) 86400"

lemma total_seconds_mono: "a \<le> b \<Longrightarrow> total_seconds a \<le> total_seconds b"
  unfolding total_seconds_def by (intro fl_mono divide_right_mono) simp_all

lemma total_seconds_0 [simp]: "total_seconds 0 = 0"
  by (simp add: total_seconds_def)

lemma duration_days_nonneg: "started \<le> ended \<Longrightarrow> 0 \<le> duration_days started ended"
  using total_seconds_mono [of 0 "ended - started"]
  by (simp add: duration_days_def fdiv_def fl_nonneg)

subsection \<open>Calendar date and \<open>isoformat\<close>\<close>

text \<open>The proleptic Gregorian date of a day number (day 0 is 0001-01-01), by the 400-, 100-, 4- and
  1-year cycles of the standard library.\<close>

definition days_before_month :: "int \<Rightarrow> int" where
  "days_before_month m = [0, 0, 31, 59, 90, 120, 151, 181, 212, 243, 273, 304, 334] ! nat m"

definition days_in_month :: "int \<Rightarrow> int" where
  "days_in_month m = [0, 31, 28, 31, 30, 31, 30, 31, 31, 30, 31, 30, 31] ! nat m"

definition civil_of_days :: "int \<Rightarrow> int \<times> int \<times> int" where
  "civil_of_days d =
    (let n400 = d div 146097; r400 = d mod 146097;
         n100 = r400 div 36524; r100 = r400 mod 36524;
         n4 = r100 div 1461; r4 = r100 mod 1461;
         n1 = r4 div 365; n = r4 mod 365;
         year = n400 * 400 + 1 + n100 * 100 + n4 * 4 + n1
     in if n1 = 4 \<or> n100 = 4 then (year - 1, 12, 31)
        else let leap = (n1 = 3 \<and> (n4 \<noteq> 24 \<or> n100 = 3));
                 m = (n + 50) div 32;
                 p = days_before_month m + (if m > 2 \<and> leap then 1 else 0)
             in if p > n
                then let m' = m - 1;
                         p' = p - (days_in_month m' + (if m' = 2 \<and> leap then 1 else 0))
                     in (year, m', n - p' + 1)
                else (year, m, n - p + 1))"

definition isoformat_utc :: "utc \<Rightarrow> string" where
  "isoformat_utc t =
    (let d = t div day_us; us = t mod day_us; s = us div seconds_us; frac = us mod seconds_us
     in case civil_of_days d of (y, mo, da) \<Rightarrow>
       zpad 4 y @ ''-'' @ zpad 2 mo @ ''-'' @ zpad 2 da @ ''T'' @
       zpad 2 (s div 3600) @ '':'' @ zpad 2 (s mod 3600 div 60) @ '':'' @ zpad 2 (s mod 60) @
       (if frac = 0 then [] else CHR ''.'' # zpad 6 frac) @ ''+00:00'')"

end
