(* ===== verification/Store.thy ===== *)
theory Store
  imports PyTime
begin

text \<open>
  The stored Jira evidence the services compute from: the rows of the tables \<open>issues\<close>,
  \<open>issue_history\<close>, \<open>issue_sprints\<close>, \<open>sprints\<close> and \<open>releases\<close>, and the queries of the analytics
  and availability services over them. A table is the list of its rows; a query is a filter of that
  list, sorted where the code asks for an order. Text columns order by code point.
\<close>

subsection \<open>Rows\<close>

record issue =
  issue_key :: string
  issue_summary :: string
  issue_type :: "string option"
  issue_status :: "string option"
  issue_priority :: "string option"
  issue_assignee :: "string option"
  issue_assignee_id :: "string option"
  issue_story_points :: "py_number option"
  issue_release_id :: "string option"
  issue_is_blocker :: bool
  issue_created_at :: "py_datetime option"
  issue_updated_at :: "py_datetime option"
  issue_blocker_flag :: "bool option"
  issue_changelog_complete :: bool

text \<open>\<open>changed_at\<close> is \<open>None\<close> where the stored value is not a timestamp.\<close>

record issue_history =
  hist_id :: nat
  hist_issue_key :: string
  hist_field_name :: string
  hist_old_value :: "string option"
  hist_new_value :: "string option"
  hist_changed_at :: "py_datetime option"

record issue_sprint =
  link_issue_key :: string
  link_sprint_id :: string

record sprint =
  sprint_id :: string
  sprint_name :: string
  sprint_state :: string
  sprint_project_key :: string
  sprint_board_id :: "string option"
  sprint_start_date :: "py_datetime option"
  sprint_end_date :: "py_datetime option"
  sprint_complete_date :: "py_datetime option"
  sprint_goal :: "string option"

record release =
  release_id :: string
  release_name :: string
  release_project_key :: string
  release_description :: "string option"
  release_status :: "string option"
  release_start_date :: "py_datetime option"
  release_release_date :: "py_datetime option"

record store =
  issues :: "issue list"
  histories :: "issue_history list"
  issue_sprints :: "issue_sprint list"
  sprints :: "sprint list"
  releases :: "release list"

subsection \<open>Queries\<close>

text \<open>The uniqueness constraints of the tables and the foreign key of the membership table.\<close>

definition wf_store :: "store \<Rightarrow> bool" where
  "wf_store db \<longleftrightarrow> distinct (map issue_key (issues db))
     \<and> distinct (map (\<lambda>l. (link_issue_key l, link_sprint_id l)) (issue_sprints db))
     \<and> distinct (map sprint_id (sprints db))
     \<and> distinct (map release_id (releases db))
     \<and> (\<forall>l \<in> set (issue_sprints db). link_issue_key l \<in> issue_key ` set (issues db))"

definition find_sprint :: "store \<Rightarrow> string \<Rightarrow> sprint option" where
  "find_sprint db sid = find (\<lambda>s. sprint_id s = sid) (sprints db)"

definition find_release :: "store \<Rightarrow> string \<Rightarrow> release option" where
  "find_release db rid = find (\<lambda>r. release_id r = rid) (releases db)"

definition order_issues :: "issue list \<Rightarrow> issue list" where
  "order_issues xs = sort_key issue_key xs"

definition release_issues :: "store \<Rightarrow> string \<Rightarrow> issue list" where
  "release_issues db rid = order_issues (filter (\<lambda>i. issue_release_id i = Some rid) (issues db))"

definition sprint_issue_keys :: "store \<Rightarrow> string \<Rightarrow> string list" where
  "sprint_issue_keys db sid =
     map link_issue_key (filter (\<lambda>l. link_sprint_id l = sid) (issue_sprints db))"

definition list_sprint_issues :: "store \<Rightarrow> string \<Rightarrow> issue list" where
  "list_sprint_issues db sid =
     order_issues (filter (\<lambda>i. issue_key i \<in> set (sprint_issue_keys db sid)) (issues db))"

lemma set_order_issues [simp]: "set (order_issues xs) = set xs"
  by (simp add: order_issues_def)

lemma length_order_issues [simp]: "length (order_issues xs) = length xs"
  by (simp add: order_issues_def)

lemma order_issues_sorted [simp]: "sorted (map issue_key (order_issues xs))"
  by (simp add: order_issues_def)

lemma distinct_keys_order_issues:
  "distinct (map issue_key xs) \<Longrightarrow> distinct (map issue_key (order_issues xs))"
  by (simp add: order_issues_def distinct_map distinct_sort)

lemma distinct_sprint_issue_keys: "wf_store db \<Longrightarrow> distinct (sprint_issue_keys db sid)"
proof -
  assume "wf_store db"
  then have "distinct (map (\<lambda>l. (link_issue_key l, link_sprint_id l)) (issue_sprints db))"
    by (simp add: wf_store_def)
  then show ?thesis
    unfolding sprint_issue_keys_def distinct_map
    by (auto simp: inj_on_def dest: distinct_filter)
qed

lemma list_sprint_issues_keys:
  assumes "wf_store db"
  shows "map issue_key (list_sprint_issues db sid) = sorted_keys (sprint_issue_keys db sid)"
proof (rule sorted_distinct_set_unique)
  have "distinct (map issue_key (issues db))" using assms by (simp add: wf_store_def)
  then show "distinct (map issue_key (list_sprint_issues db sid))"
    unfolding list_sprint_issues_def
    by (intro distinct_keys_order_issues) (simp add: distinct_map_filter)
  show "set (map issue_key (list_sprint_issues db sid)) = set (sorted_keys (sprint_issue_keys db sid))"
    using assms by (auto simp: list_sprint_issues_def wf_store_def sprint_issue_keys_def image_iff) metis
qed (simp_all add: list_sprint_issues_def)

end
