(* ===== verification/FieldMapper.thy ===== *)
theory FieldMapper
  imports Store
begin

text \<open>
  \<open>JiraFieldMapper\<close> (services/jira_field_mapper.py) and the classification part of \<open>Settings\<close>
  (config.py): comma separated settings become sets of normalised values, and an issue's status, type
  and severity are classified by membership. A \<open>frozenset\<close> is a finite HOL set.
\<close>

subsection \<open>Settings\<close>

record settings =
  jira_field_story_points :: string
  jira_field_severity :: string
  jira_field_release :: string
  jira_field_sprint :: string
  jira_field_blocker :: string
  jira_blocker_true_values :: string
  jira_changelog_fix_version_fields :: string
  jira_changelog_sprint_fields :: string
  jira_done_statuses :: string
  jira_in_progress_statuses :: string
  jira_high_severity_values :: string
  jira_bug_issue_types :: string
  jira_blocker_issue_types :: string
  jira_blocker_severity_values :: string
  jira_blocked_statuses :: string

definition default_settings :: settings where
  "default_settings = \<lparr>
     jira_field_story_points = [],
     jira_field_severity = ''priority'',
     jira_field_release = ''fixVersions'',
     jira_field_sprint = [],
     jira_field_blocker = [],
     jira_blocker_true_values = ''true,yes,1,blocker'',
     jira_changelog_fix_version_fields = ''fix version,fixversion'',
     jira_changelog_sprint_fields = ''sprint'',
     jira_done_statuses = ''done,closed,resolved'',
     jira_in_progress_statuses = ''in progress,in development,in review,in testing'',
     jira_high_severity_values = ''high,highest,critical'',
     jira_bug_issue_types = ''bug'',
     jira_blocker_issue_types = ''blocker,incident'',
     jira_blocker_severity_values = ''blocker,highest,critical'',
     jira_blocked_statuses = ''blocked''\<rparr>"

definition csv_to_set :: "string \<Rightarrow> string set" where
  "csv_to_set value = set (map (\<lambda>item. casefold (strip item))
     (filter (\<lambda>item. strip item \<noteq> []) (split_on (\<lambda>c. c = CHR '','') value)))"

definition set_done_statuses :: "settings \<Rightarrow> string set" where
  "set_done_statuses s = csv_to_set (jira_done_statuses s)"

definition set_in_progress_statuses :: "settings \<Rightarrow> string set" where
  "set_in_progress_statuses s = csv_to_set (jira_in_progress_statuses s)"

definition required_classification_sets :: "settings \<Rightarrow> (string \<times> string set) list" where
  "required_classification_sets s =
     [(''JIRA_DONE_STATUSES'', set_done_statuses s),
      (''JIRA_IN_PROGRESS_STATUSES'', set_in_progress_statuses s),
      (''JIRA_HIGH_SEVERITY_VALUES'', csv_to_set (jira_high_severity_values s)),
      (''JIRA_BUG_ISSUE_TYPES'', csv_to_set (jira_bug_issue_types s))]"

definition validate_classification_settings :: "settings \<Rightarrow> string + unit" where
  "validate_classification_settings s =
    (let missing = map fst (filter (\<lambda>(name, vals). vals = {}) (required_classification_sets s))
     in if missing \<noteq> [] then Inl (''Classification settings must not be empty: '' @ join '', '' missing)
        else let overlapping = sorted_list_of_set (set_done_statuses s \<inter> set_in_progress_statuses s)
          in if overlapping \<noteq> []
             then Inl (''JIRA_DONE_STATUSES and JIRA_IN_PROGRESS_STATUSES must not overlap: ''
                       @ join '', '' overlapping)
             else Inr ())"

subsection \<open>The mapping\<close>

record field_mapping =
  story_points_field :: string
  severity_field :: string
  release_field :: string
  sprint_field :: string
  blocker_field :: string
  blocker_true_values :: "string set"
  changelog_fix_version_fields :: "string set"
  changelog_sprint_fields :: "string set"
  done_statuses :: "string set"
  in_progress_statuses :: "string set"
  high_severity_values :: "string set"
  bug_issue_types :: "string set"
  blocker_issue_types :: "string set"
  blocker_severity_values :: "string set"
  blocked_statuses :: "string set"

definition or_default :: "string \<Rightarrow> string \<Rightarrow> string" where
  "or_default s d = (if s = [] then d else s)"

definition make_mapping :: "settings \<Rightarrow> field_mapping" where
  "make_mapping s =
    (let rel = or_default (strip (jira_field_release s)) ''fixVersions'';
         spr = strip (jira_field_sprint s)
     in \<lparr>story_points_field = strip (jira_field_story_points s),
         severity_field = or_default (strip (jira_field_severity s)) ''priority'',
         release_field = rel,
         sprint_field = spr,
         blocker_field = strip (jira_field_blocker s),
         blocker_true_values = csv_to_set (jira_blocker_true_values s),
         changelog_fix_version_fields =
           insert (casefold rel) (csv_to_set (jira_changelog_fix_version_fields s)),
         changelog_sprint_fields =
           (if spr \<noteq> [] then insert (casefold spr) (csv_to_set (jira_changelog_sprint_fields s))
            else csv_to_set (jira_changelog_sprint_fields s)),
         done_statuses = set_done_statuses s,
         in_progress_statuses = set_in_progress_statuses s,
         high_severity_values = csv_to_set (jira_high_severity_values s),
         bug_issue_types = csv_to_set (jira_bug_issue_types s),
         blocker_issue_types = csv_to_set (jira_blocker_issue_types s),
         blocker_severity_values = csv_to_set (jira_blocker_severity_values s),
         blocked_statuses = csv_to_set (jira_blocked_statuses s)\<rparr>)"

subsection \<open>Requested fields\<close>

definition dedupe :: "string list \<Rightarrow> string list" where
  "dedupe vals = rev (fst (fold (\<lambda>v (res, seen). if v \<in> seen then (res, seen)
                                             else (v # res, insert v seen)) vals ([], {})))"

lemma dedupe_fold:
  assumes "set res = seen" and "distinct res"
  shows "set (fst (fold (\<lambda>v (res, seen). if v \<in> seen then (res, seen) else (v # res, insert v seen))
           xs (res, seen))) = set xs \<union> set res
    \<and> distinct (fst (fold (\<lambda>v (res, seen). if v \<in> seen then (res, seen) else (v # res, insert v seen))
           xs (res, seen)))"
  using assms
proof (induction xs arbitrary: res seen)
  case (Cons a xs)
  show ?case
  proof (cases "a \<in> seen")
    case True
    then show ?thesis using Cons.IH [OF Cons.prems] Cons.prems by auto
  next
    case False
    then show ?thesis using Cons.IH [of "a # res" "insert a seen"] Cons.prems by simp
  qed
qed simp

lemma set_dedupe [simp]: "set (dedupe xs) = set xs" and distinct_dedupe [simp]: "distinct (dedupe xs)"
  using dedupe_fold [of "[]" "{}" xs] by (simp_all add: dedupe_def)

definition base_issue_fields :: "field_mapping \<Rightarrow> string list" where
  "base_issue_fields m = [''summary'', ''status'', ''issuetype'', ''assignee'', ''created'', ''updated'',
     release_field m, severity_field m] @ (if sprint_field m \<noteq> [] then [sprint_field m] else [])"

definition search_issue_fields :: "field_mapping \<Rightarrow> string list" where
  "search_issue_fields m = dedupe (base_issue_fields m)"

definition detail_issue_fields :: "field_mapping \<Rightarrow> string list" where
  "detail_issue_fields m = dedupe (base_issue_fields m
     @ (if story_points_field m \<noteq> [] then [story_points_field m] else [])
     @ (if blocker_field m \<noteq> [] then [blocker_field m] else []))"

subsection \<open>Classification of values\<close>

text \<open>\<open>(value or "").strip().casefold()\<close>; the same expression is \<open>_normalize_text\<close> of the
  analytics service.\<close>

definition normalize_text :: "string option \<Rightarrow> string" where
  "normalize_text v = casefold (strip (or_empty v))"

definition is_fix_version_field :: "field_mapping \<Rightarrow> string \<Rightarrow> bool" where
  "is_fix_version_field m f \<longleftrightarrow> casefold (strip f) \<in> changelog_fix_version_fields m"

definition is_sprint_field :: "field_mapping \<Rightarrow> string \<Rightarrow> bool" where
  "is_sprint_field m f \<longleftrightarrow> casefold (strip f) \<in> changelog_sprint_fields m"

definition is_relevant_history_field :: "field_mapping \<Rightarrow> string \<Rightarrow> bool" where
  "is_relevant_history_field m f \<longleftrightarrow>
    (let n = casefold (strip f)
     in n \<in> {''status'', ''assignee'', ''priority'', ''issuetype'', ''issue type'',
             casefold (severity_field m), casefold (blocker_field m)}
        \<or> is_fix_version_field m n \<or> is_sprint_field m n)"

definition is_done_status :: "field_mapping \<Rightarrow> string option \<Rightarrow> bool" where
  "is_done_status m v \<longleftrightarrow> normalize_text v \<in> done_statuses m"

definition is_in_progress_status :: "field_mapping \<Rightarrow> string option \<Rightarrow> bool" where
  "is_in_progress_status m v \<longleftrightarrow> normalize_text v \<in> in_progress_statuses m"

definition is_high_severity :: "field_mapping \<Rightarrow> string option \<Rightarrow> bool" where
  "is_high_severity m v \<longleftrightarrow> normalize_text v \<in> high_severity_values m"

definition is_bug :: "field_mapping \<Rightarrow> string option \<Rightarrow> bool" where
  "is_bug m v \<longleftrightarrow> normalize_text v \<in> bug_issue_types m"

definition parse_blocker_flag :: "field_mapping \<Rightarrow> string option \<Rightarrow> bool option" where
  "parse_blocker_flag m v =
    (let n = normalize_text v in if n = [] then None else Some (n \<in> blocker_true_values m))"

definition classify_blocker ::
  "field_mapping \<Rightarrow> string option \<Rightarrow> string option \<Rightarrow> string option \<Rightarrow> bool option \<Rightarrow> bool" where
  "classify_blocker m ty sev st flag =
    (case flag of
       Some b \<Rightarrow> b \<and> \<not> is_done_status m st
     | None \<Rightarrow> (normalize_text ty \<in> blocker_issue_types m
                 \<or> normalize_text sev \<in> blocker_severity_values m
                 \<or> normalize_text st \<in> blocked_statuses m)
               \<and> \<not> is_done_status m st)"

subsection \<open>Sprint fields of the legacy text form\<close>

text \<open>\<open>value.find(c)\<close> and \<open>value.rfind(c)\<close> of a character that occurs.\<close>

definition after_first :: "char \<Rightarrow> string \<Rightarrow> string" where
  "after_first c s = drop 1 (dropWhile (\<lambda>x. x \<noteq> c) s)"

definition index_of :: "char \<Rightarrow> string \<Rightarrow> nat" where
  "index_of c s = length (takeWhile (\<lambda>x. x \<noteq> c) s)"

definition last_index_of :: "char \<Rightarrow> string \<Rightarrow> nat" where
  "last_index_of c s = length s - 1 - index_of c (rev s)"

definition parse_legacy_sprint_string :: "string \<Rightarrow> (string \<times> string) list" where
  "parse_legacy_sprint_string v =
    (if CHR ''['' \<notin> set v \<or> CHR '']'' \<notin> set v then []
     else let content = drop (index_of CHR ''['' v + 1) (take (last_index_of CHR '']'' v) v)
       in fold (\<lambda>part acc. if CHR ''='' \<notin> set part then acc
                  else AList.update (strip (takeWhile (\<lambda>x. x \<noteq> CHR ''='') part))
                         (strip (after_first CHR ''='' part)) acc)
            (split_on (\<lambda>c. c = CHR '','') content) [])"

subsection \<open>Laws the metric services rely on\<close>

text \<open>
  A usable classifier: under a valid mapping a blank status is neither done nor in progress, no
  status is both, and the classification looks at the normalised text only.
\<close>

locale status_classifier =
  fixes valid :: "'m \<Rightarrow> bool"
    and is_done :: "'m \<Rightarrow> string option \<Rightarrow> bool"
    and is_active :: "'m \<Rightarrow> string option \<Rightarrow> bool"
  assumes blank_not_done: "valid m \<Longrightarrow> normalize_text v = [] \<Longrightarrow> \<not> is_done m v"
    and blank_not_active: "valid m \<Longrightarrow> normalize_text v = [] \<Longrightarrow> \<not> is_active m v"
    and exclusive: "valid m \<Longrightarrow> \<not> (is_done m v \<and> is_active m v)"
    and by_text: "normalize_text v = normalize_text w \<Longrightarrow> is_done m v = is_done m w"
begin

lemma done_has_text: "valid m \<Longrightarrow> is_done m v \<Longrightarrow> normalize_text v \<noteq> []"
  using blank_not_done by blast

lemma active_has_text: "valid m \<Longrightarrow> is_active m v \<Longrightarrow> normalize_text v \<noteq> []"
  using blank_not_active by blast

lemma three_way:
  assumes "valid m" and "normalize_text v \<noteq> []"
  shows "(is_done m v \<and> \<not> is_active m v) \<or> (\<not> is_done m v \<and> is_active m v)
    \<or> (\<not> is_done m v \<and> \<not> is_active m v)"
  using exclusive [OF assms(1)] by blast

lemma done_None: "valid m \<Longrightarrow> \<not> is_done m None"
  by (rule blank_not_done) (simp_all add: normalize_text_def)

end

definition valid_mapping :: "field_mapping \<Rightarrow> bool" where
  "valid_mapping m \<longleftrightarrow> [] \<notin> done_statuses m \<and> [] \<notin> in_progress_statuses m
     \<and> done_statuses m \<inter> in_progress_statuses m = {}"

interpretation mapper: status_classifier valid_mapping is_done_status is_in_progress_status
  by unfold_locales (auto simp: valid_mapping_def is_done_status_def is_in_progress_status_def)

lemma csv_to_set_nonblank: "[] \<notin> csv_to_set v"
  by (auto simp: csv_to_set_def casefold_def)

lemma finite_csv_to_set [simp]: "finite (csv_to_set v)"
  by (simp add: csv_to_set_def)

text \<open>Settings that pass the startup validation give a valid mapping.\<close>

lemma validated_settings_mapping:
  assumes "validate_classification_settings s = Inr ()"
  shows "valid_mapping (make_mapping s)"
proof -
  have "set_done_statuses s \<inter> set_in_progress_statuses s = {}"
    using assms
    by (auto simp: validate_classification_settings_def Let_def set_done_statuses_def split: if_splits)
  then show ?thesis
    by (simp add: valid_mapping_def make_mapping_def Let_def set_done_statuses_def
        set_in_progress_statuses_def csv_to_set_nonblank)
qed

lemma classify_blocker_open: "classify_blocker m ty sev st flag \<Longrightarrow> \<not> is_done_status m st"
  by (auto simp: classify_blocker_def split: option.splits)

text \<open>The mapping of the default settings, evaluated.\<close>

definition default_mapping :: field_mapping where
  "default_mapping = \<lparr>story_points_field = [], severity_field = ''priority'', release_field = ''fixVersions'',
     sprint_field = [], blocker_field = [], blocker_true_values = {''true'', ''yes'', ''1'', ''blocker''},
     changelog_fix_version_fields = {''fixversions'', ''fix version'', ''fixversion''},
     changelog_sprint_fields = {''sprint''}, done_statuses = {''done'', ''closed'', ''resolved''},
     in_progress_statuses = {''in progress'', ''in development'', ''in review'', ''in testing''},
     high_severity_values = {''high'', ''highest'', ''critical''}, bug_issue_types = {''bug''},
     blocker_issue_types = {''blocker'', ''incident''},
     blocker_severity_values = {''blocker'', ''highest'', ''critical''},
     blocked_statuses = {''blocked''}\<rparr>"

lemma default_mapping: "make_mapping default_settings = default_mapping"
  by code_simp

lemma valid_default_mapping: "valid_mapping default_mapping"
  by (simp add: valid_mapping_def default_mapping_def)

end
