(* ===== verification/Catalog.thy ===== *)
theory Catalog
  imports FieldMapper
begin

text \<open>
  The metric catalog (metric_catalog.py): its record types, the release and the sprint inventory
  entry by entry, the validation the module runs when it is imported, and the lookups the services
  take their thresholds and coverage limits from. A failed validation or lookup is a value
  \<open>Inl\<close> with the message of the exception.
\<close>

named_theorems catalog_simps \<open>threshold and coverage values of the catalog\<close>

subsection \<open>Vocabulary\<close>

datatype metric_scope = Release_Scope | Sprint_Scope
datatype metric_category = Delivery | Quality | Flow | Risk | Snapshot
datatype metric_unit = Tickets | Events | Percent | Days | Score | Gates
datatype metric_format = Format_integer | Format_decimal_1 | Format_decimal_2 | Format_decimal_4
  | Format_percent_2
datatype metric_severity = Watch | Critical
datatype metric_comparison = GT | GTE | LT | LTE
datatype metric_api_location = Metric_values | Response_field | Chart_only
datatype partial_value_policy = Confirmed_minimum | Calculated_from_available_data | Unavailable
  | Not_supported

text \<open>The severity order of the validation: critical before watch.\<close>

fun severity_order :: "metric_severity \<Rightarrow> nat" where
  "severity_order Critical = 0"
| "severity_order Watch = 1"

instantiation metric_severity :: linorder
begin

definition "s \<le> t \<longleftrightarrow> severity_order s \<le> severity_order t"
definition "s < t \<longleftrightarrow> severity_order s < severity_order t"

instance
proof
  fix s t :: metric_severity
  show "s \<le> t \<Longrightarrow> t \<le> s \<Longrightarrow> s = t"
    by (cases s; cases t) (simp_all add: less_eq_metric_severity_def)
qed (auto simp: less_eq_metric_severity_def less_metric_severity_def)

end

record metric_threshold =
  th_severity :: metric_severity
  th_comparison :: metric_comparison
  th_value :: py_number
  th_meaning :: string

record metric_availability_metadata =
  av_dependencies :: "string list"
  av_partial_value_policy :: partial_value_policy
  av_supports_not_applicable :: bool
  av_evidence_fields :: "string list"
  av_minimum_coverage_pct :: "py_number option"

record metric_definition =
  md_key :: string
  md_scope :: metric_scope
  md_api_field :: string
  md_label :: string
  md_description :: string
  md_category :: metric_category
  md_unit :: metric_unit
  md_formatting :: metric_format
  md_display_order :: nat
  md_thresholds :: "metric_threshold list"
  md_severity_meaning :: string
  md_availability :: metric_availability_metadata
  md_historical_series :: bool
  md_signal_participation :: bool
  md_confidence_participation :: bool
  md_chart_participation :: bool
  md_report_participation :: bool
  md_ruleset_version :: int
  md_api_location :: metric_api_location

definition ruleset_version_const :: int where "ruleset_version_const = 5"
definition catalog_version :: int where "catalog_version = 3"

definition no_approved_severity :: string where
  "no_approved_severity = ''No product-rule severity classification applies to this metric.''"

definition no_breach_is_healthy :: string where
  "no_breach_is_healthy = ''No matching threshold is healthy; the most severe matching threshold wins.''"

subsection \<open>The inventory\<close>

definition release_open_blockers :: metric_definition where
  "release_open_blockers = \<lparr>
     md_key = ''release.open_blockers'', md_scope = Release_Scope, md_api_field = ''open_blockers'',
     md_label = ''Open blockers'',
     md_description = ''Current release tickets classified as blockers that are not done.'',
     md_category = Risk, md_unit = Tickets, md_formatting = Format_integer, md_display_order = 1,
     md_thresholds = [\<lparr>th_severity = Critical, th_comparison = GT, th_value = PyInt 0,
        th_meaning = ''Any open blocker is a hard RED release condition.''\<rparr>],
     md_severity_meaning = no_breach_is_healthy,
     md_availability = \<lparr>av_dependencies = [''ticket_count'', ''release_assignment''],
       av_partial_value_policy = Confirmed_minimum, av_supports_not_applicable = False,
       av_evidence_fields = [''metric_issue_keys.open_blockers'',
         ''calculation_provenance.metric_evidence.open_blockers''],
       av_minimum_coverage_pct = None\<rparr>,
     md_historical_series = True, md_signal_participation = True,
     md_confidence_participation = True, md_chart_participation = True,
     md_report_participation = True, md_ruleset_version = ruleset_version_const,
     md_api_location = Metric_values\<rparr>"

definition release_open_high_severity_bugs :: metric_definition where
  "release_open_high_severity_bugs = \<lparr>
     md_key = ''release.open_high_severity_bugs'', md_scope = Release_Scope,
       md_api_field = ''open_high_severity_bugs'',
     md_label = ''Open high-severity bugs'',
     md_description = ''Current release bugs with configured high severity that are not done.'',
     md_category = Quality, md_unit = Tickets, md_formatting = Format_integer, md_display_order = 2,
     md_thresholds = [\<lparr>th_severity = Critical, th_comparison = GT, th_value = PyInt 1,
        th_meaning = ''More than one open high-severity bug is a hard RED release condition.''\<rparr>,
       \<lparr>th_severity = Watch, th_comparison = GT, th_value = PyInt 0,
        th_meaning = ''One open high-severity bug is a hard YELLOW release condition.''\<rparr>],
     md_severity_meaning = no_breach_is_healthy,
     md_availability = \<lparr>av_dependencies = [''ticket_count'', ''release_assignment''],
       av_partial_value_policy = Confirmed_minimum, av_supports_not_applicable = False,
       av_evidence_fields = [''metric_issue_keys.open_high_severity_bugs'',
         ''calculation_provenance.metric_evidence.open_high_severity_bugs''],
       av_minimum_coverage_pct = None\<rparr>,
     md_historical_series = True, md_signal_participation = True,
     md_confidence_participation = True, md_chart_participation = True,
     md_report_participation = True, md_ruleset_version = ruleset_version_const,
     md_api_location = Metric_values\<rparr>"

definition release_scope_completed_pct :: metric_definition where
  "release_scope_completed_pct = \<lparr>
     md_key = ''release.scope_completed_pct'', md_scope = Release_Scope,
       md_api_field = ''scope_completed_pct'',
     md_label = ''Scope completed'',
     md_description = ''Percentage of current release tickets whose status is done.'',
     md_category = Delivery, md_unit = Percent, md_formatting = Format_percent_2, md_display_order = 3,
     md_thresholds = [],
     md_severity_meaning = no_approved_severity,
     md_availability = \<lparr>av_dependencies = [''ticket_count'', ''release_assignment''],
       av_partial_value_policy = Unavailable, av_supports_not_applicable = False,
       av_evidence_fields = [''calculation_provenance.metric_evidence.scope_completed_pct''],
       av_minimum_coverage_pct = None\<rparr>,
     md_historical_series = True, md_signal_participation = False,
     md_confidence_participation = False, md_chart_participation = True,
     md_report_participation = True, md_ruleset_version = ruleset_version_const,
     md_api_location = Metric_values\<rparr>"

definition release_completed_tickets :: metric_definition where
  "release_completed_tickets = \<lparr>
     md_key = ''release.completed_tickets'', md_scope = Release_Scope, md_api_field = ''completed_tickets'',
     md_label = ''Completed tickets'',
     md_description = ''Current release tickets whose status is done.'',
     md_category = Delivery, md_unit = Tickets, md_formatting = Format_integer, md_display_order = 4,
     md_thresholds = [],
     md_severity_meaning = no_approved_severity,
     md_availability = \<lparr>av_dependencies = [''ticket_count'', ''release_assignment''],
       av_partial_value_policy = Confirmed_minimum, av_supports_not_applicable = False,
       av_evidence_fields = [''metric_issue_keys.completed_tickets'',
         ''calculation_provenance.metric_evidence.completed_tickets''],
       av_minimum_coverage_pct = None\<rparr>,
     md_historical_series = True, md_signal_participation = False,
     md_confidence_participation = False, md_chart_participation = True,
     md_report_participation = True, md_ruleset_version = ruleset_version_const,
     md_api_location = Metric_values\<rparr>"

definition release_scope_churn_7d_pct :: metric_definition where
  "release_scope_churn_7d_pct = \<lparr>
     md_key = ''release.scope_churn_7d_pct'', md_scope = Release_Scope, md_api_field = ''scope_churn_7d_pct'',
     md_label = ''Scope churn 7d'',
     md_description = ''Release addition and removal events per 100 distinct observed-scope tickets in the inclusive seven-day window.'',
     md_category = Risk, md_unit = Percent, md_formatting = Format_percent_2, md_display_order = 5,
     md_thresholds = [\<lparr>th_severity = Critical, th_comparison = GT, th_value = PyFloat 20,
        th_meaning = ''Scope churn above 20% is a hard RED release condition.''\<rparr>,
       \<lparr>th_severity = Watch, th_comparison = GT, th_value = PyFloat 10,
        th_meaning = ''Scope churn above 10% is a hard YELLOW release condition.''\<rparr>],
     md_severity_meaning = no_breach_is_healthy,
     md_availability = \<lparr>av_dependencies = [''ticket_count'', ''history_changelog'',
       ''release_assignment''],
       av_partial_value_policy = Unavailable, av_supports_not_applicable = False,
       av_evidence_fields = [''calculation_provenance.metric_evidence.scope_churn_7d_pct''],
       av_minimum_coverage_pct = None\<rparr>,
     md_historical_series = True, md_signal_participation = True,
     md_confidence_participation = True, md_chart_participation = True,
     md_report_participation = True, md_ruleset_version = ruleset_version_const,
     md_api_location = Metric_values\<rparr>"

definition release_scope_added_7d_count :: metric_definition where
  "release_scope_added_7d_count = \<lparr>
     md_key = ''release.scope_added_7d_count'', md_scope = Release_Scope,
       md_api_field = ''scope_added_7d_count'',
     md_label = ''Scope added 7d'',
     md_description = ''Distinct addition events into the release in the inclusive seven-day window, including repeated additions of one ticket.'',
     md_category = Snapshot, md_unit = Events, md_formatting = Format_integer, md_display_order = 6,
     md_thresholds = [],
     md_severity_meaning = no_approved_severity,
     md_availability = \<lparr>av_dependencies = [''ticket_count'', ''history_changelog'',
       ''release_assignment''],
       av_partial_value_policy = Confirmed_minimum, av_supports_not_applicable = False,
       av_evidence_fields = [''calculation_provenance.issue_key_evidence.scope_added_7d'',
         ''calculation_provenance.metric_evidence.scope_added_7d_count''],
       av_minimum_coverage_pct = None\<rparr>,
     md_historical_series = True, md_signal_participation = False,
     md_confidence_participation = False, md_chart_participation = True,
     md_report_participation = True, md_ruleset_version = ruleset_version_const,
     md_api_location = Metric_values\<rparr>"

definition release_scope_removed_7d_count :: metric_definition where
  "release_scope_removed_7d_count = \<lparr>
     md_key = ''release.scope_removed_7d_count'', md_scope = Release_Scope,
       md_api_field = ''scope_removed_7d_count'',
     md_label = ''Scope removed 7d'',
     md_description = ''Distinct removal events from the release in the inclusive seven-day window, including repeated removals of one ticket.'',
     md_category = Snapshot, md_unit = Events, md_formatting = Format_integer, md_display_order = 7,
     md_thresholds = [],
     md_severity_meaning = no_approved_severity,
     md_availability = \<lparr>av_dependencies = [''ticket_count'', ''history_changelog'',
       ''release_assignment''],
       av_partial_value_policy = Confirmed_minimum, av_supports_not_applicable = False,
       av_evidence_fields = [''calculation_provenance.issue_key_evidence.scope_removed_7d'',
         ''calculation_provenance.metric_evidence.scope_removed_7d_count''],
       av_minimum_coverage_pct = None\<rparr>,
     md_historical_series = True, md_signal_participation = False,
     md_confidence_participation = False, md_chart_participation = True,
     md_report_participation = True, md_ruleset_version = ruleset_version_const,
     md_api_location = Metric_values\<rparr>"

definition release_median_cycle_time_days :: metric_definition where
  "release_median_cycle_time_days = \<lparr>
     md_key = ''release.median_cycle_time_days'', md_scope = Release_Scope,
       md_api_field = ''median_cycle_time_days'',
     md_label = ''Median cycle time'',
     md_description = ''Median days from the first valid in-progress transition to the first later done transition.'',
     md_category = Flow, md_unit = Days, md_formatting = Format_decimal_4, md_display_order = 8,
     md_thresholds = [\<lparr>th_severity = Watch, th_comparison = GT, th_value = PyFloat 7,
        th_meaning = ''Median cycle time above seven days is a hard YELLOW release condition.''\<rparr>],
     md_severity_meaning = no_breach_is_healthy,
     md_availability = \<lparr>av_dependencies = [''ticket_count'', ''completed_tickets'',
       ''history_changelog'', ''release_assignment''],
       av_partial_value_policy = Unavailable, av_supports_not_applicable = False,
       av_evidence_fields = [''calculation_provenance.metric_evidence.median_cycle_time_days''],
       av_minimum_coverage_pct = None\<rparr>,
     md_historical_series = True, md_signal_participation = True,
     md_confidence_participation = True, md_chart_participation = True,
     md_report_participation = True, md_ruleset_version = ruleset_version_const,
     md_api_location = Metric_values\<rparr>"

definition release_reopen_rate_pct :: metric_definition where
  "release_reopen_rate_pct = \<lparr>
     md_key = ''release.reopen_rate_pct'', md_scope = Release_Scope, md_api_field = ''reopen_rate_pct'',
     md_label = ''Reopen events per 100 eligible tickets'',
     md_description = ''Distinct done-to-not-done transitions per 100 eligible release tickets.'',
     md_category = Quality, md_unit = Percent, md_formatting = Format_percent_2, md_display_order = 9,
     md_thresholds = [\<lparr>th_severity = Critical, th_comparison = GT, th_value = PyFloat 15,
        th_meaning = ''A reopen event rate above 15 is a hard RED release condition.''\<rparr>,
       \<lparr>th_severity = Watch, th_comparison = GT, th_value = PyFloat 10,
        th_meaning = ''A reopen event rate above 10 is a hard YELLOW release condition.''\<rparr>],
     md_severity_meaning = no_breach_is_healthy,
     md_availability = \<lparr>av_dependencies = [''ticket_count'', ''history_changelog'',
       ''release_assignment''],
       av_partial_value_policy = Unavailable, av_supports_not_applicable = False,
       av_evidence_fields = [''calculation_provenance.metric_evidence.reopen_rate_pct''],
       av_minimum_coverage_pct = None\<rparr>,
     md_historical_series = True, md_signal_participation = True,
     md_confidence_participation = True, md_chart_participation = True,
     md_report_participation = True, md_ruleset_version = ruleset_version_const,
     md_api_location = Metric_values\<rparr>"

definition release_confidence_score :: metric_definition where
  "release_confidence_score = \<lparr>
     md_key = ''release.confidence_score'', md_scope = Release_Scope, md_api_field = ''confidence_score'',
     md_label = ''Release confidence'',
     md_description = ''Release confidence after subtracting approved weighted risk points from 100.'',
     md_category = Risk, md_unit = Score, md_formatting = Format_decimal_1, md_display_order = 10,
     md_thresholds = [\<lparr>th_severity = Critical, th_comparison = LTE, th_value = PyFloat 60,
        th_meaning = ''A release confidence score at or below 60 is RED.''\<rparr>,
       \<lparr>th_severity = Watch, th_comparison = LTE, th_value = PyFloat 90,
        th_meaning = ''A release confidence score above 60 and at or below 90 is YELLOW.''\<rparr>],
     md_severity_meaning = ''Scores above 90 are GREEN; the most severe matching threshold wins.'',
     md_availability = \<lparr>av_dependencies = [''ticket_count'', ''release_assignment''],
       av_partial_value_policy = Unavailable, av_supports_not_applicable = False,
       av_evidence_fields = [''calculation_provenance.component_inputs'',
         ''calculation_provenance.component_outputs.risk_points'',
         ''calculation_provenance.component_outputs.confidence_breakdown''],
       av_minimum_coverage_pct = None\<rparr>,
     md_historical_series = True, md_signal_participation = True,
     md_confidence_participation = True, md_chart_participation = True,
     md_report_participation = True, md_ruleset_version = ruleset_version_const,
     md_api_location = Response_field\<rparr>"

definition release_gates_passed_count :: metric_definition where
  "release_gates_passed_count = \<lparr>
     md_key = ''release.gates_passed_count'', md_scope = Release_Scope, md_api_field = ''gates_passed_count'',
     md_label = ''Gates passed'',
     md_description = ''Number of the five approved release-readiness gates that pass.'',
     md_category = Delivery, md_unit = Gates, md_formatting = Format_integer, md_display_order = 11,
     md_thresholds = [],
     md_severity_meaning = no_approved_severity,
     md_availability = \<lparr>av_dependencies = [''ticket_count'', ''release_assignment''],
       av_partial_value_policy = Unavailable, av_supports_not_applicable = False,
       av_evidence_fields = [''calculation_provenance.component_outputs.release_gates''],
       av_minimum_coverage_pct = None\<rparr>,
     md_historical_series = True, md_signal_participation = False,
     md_confidence_participation = False, md_chart_participation = True,
     md_report_participation = True, md_ruleset_version = ruleset_version_const,
     md_api_location = Chart_only\<rparr>"

definition release_readiness_pct :: metric_definition where
  "release_readiness_pct = \<lparr>
     md_key = ''release.readiness_pct'', md_scope = Release_Scope, md_api_field = ''readiness_pct'',
     md_label = ''Readiness'',
     md_description = ''Percentage of the five approved release-readiness gates that pass.'',
     md_category = Delivery, md_unit = Percent, md_formatting = Format_percent_2, md_display_order = 12,
     md_thresholds = [],
     md_severity_meaning = no_approved_severity,
     md_availability = \<lparr>av_dependencies = [''ticket_count'', ''release_assignment''],
       av_partial_value_policy = Unavailable, av_supports_not_applicable = False,
       av_evidence_fields = [''calculation_provenance.component_outputs.release_gates'',
         ''calculation_provenance.component_outputs.readiness_pct''],
       av_minimum_coverage_pct = None\<rparr>,
     md_historical_series = True, md_signal_participation = False,
     md_confidence_participation = False, md_chart_participation = True,
     md_report_participation = True, md_ruleset_version = ruleset_version_const,
     md_api_location = Chart_only\<rparr>"

definition release_metrics :: "metric_definition list" where
  "release_metrics = [release_open_blockers,
     release_open_high_severity_bugs,
     release_scope_completed_pct,
     release_completed_tickets,
     release_scope_churn_7d_pct,
     release_scope_added_7d_count,
     release_scope_removed_7d_count,
     release_median_cycle_time_days,
     release_reopen_rate_pct,
     release_confidence_score,
     release_gates_passed_count,
     release_readiness_pct]"

definition sprint_committed_scope :: metric_definition where
  "sprint_committed_scope = \<lparr>
     md_key = ''sprint.committed_scope'', md_scope = Sprint_Scope, md_api_field = ''committed_scope'',
     md_label = ''Current sprint scope'',
     md_description = ''Distinct tickets currently assigned to the sprint at snapshot time.'',
     md_category = Delivery, md_unit = Tickets, md_formatting = Format_integer, md_display_order = 1,
     md_thresholds = [],
     md_severity_meaning = no_approved_severity,
     md_availability = \<lparr>av_dependencies = [''ticket_count'', ''sprint_assignment''],
       av_partial_value_policy = Not_supported, av_supports_not_applicable = False,
       av_evidence_fields = [''calculation_provenance.metric_evidence.committed_scope''],
       av_minimum_coverage_pct = None\<rparr>,
     md_historical_series = False, md_signal_participation = False,
     md_confidence_participation = True, md_chart_participation = False,
     md_report_participation = True, md_ruleset_version = ruleset_version_const,
     md_api_location = Metric_values\<rparr>"

definition sprint_completed_scope_pct :: metric_definition where
  "sprint_completed_scope_pct = \<lparr>
     md_key = ''sprint.completed_scope_pct'', md_scope = Sprint_Scope, md_api_field = ''completed_scope_pct'',
     md_label = ''Completed scope'',
     md_description = ''Percentage of current sprint tickets whose status is done.'',
     md_category = Delivery, md_unit = Percent, md_formatting = Format_percent_2, md_display_order = 2,
     md_thresholds = [],
     md_severity_meaning = no_approved_severity,
     md_availability = \<lparr>av_dependencies = [''ticket_count'', ''ticket_status'', ''sprint_assignment''],
       av_partial_value_policy = Unavailable, av_supports_not_applicable = False,
       av_evidence_fields = [''calculation_provenance.metric_evidence.completed_scope_pct''],
       av_minimum_coverage_pct = None\<rparr>,
     md_historical_series = False, md_signal_participation = False,
     md_confidence_participation = False, md_chart_participation = True,
     md_report_participation = True, md_ruleset_version = ruleset_version_const,
     md_api_location = Metric_values\<rparr>"

definition sprint_scope_creep_pct :: metric_definition where
  "sprint_scope_creep_pct = \<lparr>
     md_key = ''sprint.scope_creep_pct'', md_scope = Sprint_Scope, md_api_field = ''scope_creep_pct'',
     md_label = ''Scope creep'',
     md_description = ''Post-start sprint addition and removal events per 100 initial-commitment tickets.'',
     md_category = Delivery, md_unit = Percent, md_formatting = Format_percent_2, md_display_order = 3,
     md_thresholds = [\<lparr>th_severity = Critical, th_comparison = GT, th_value = PyFloat 20,
        th_meaning = ''Scope creep above 20% is critical.''\<rparr>,
       \<lparr>th_severity = Watch, th_comparison = GT, th_value = PyFloat 10,
        th_meaning = ''Scope creep above 10% through 20% is watch.''\<rparr>],
     md_severity_meaning = ''Values at or below 10% are healthy; the most severe matching threshold wins.'',
     md_availability = \<lparr>av_dependencies = [''sprint_duration'',
       ''project_changelog_completeness'', ''sprint_assignment''],
       av_partial_value_policy = Unavailable, av_supports_not_applicable = False,
       av_evidence_fields = [''scope_movement.evidence'',
         ''calculation_provenance.metric_evidence.scope_creep_pct''],
       av_minimum_coverage_pct = None\<rparr>,
     md_historical_series = True, md_signal_participation = False,
     md_confidence_participation = True, md_chart_participation = True,
     md_report_participation = True, md_ruleset_version = ruleset_version_const,
     md_api_location = Metric_values\<rparr>"

definition sprint_open_blockers :: metric_definition where
  "sprint_open_blockers = \<lparr>
     md_key = ''sprint.open_blockers'', md_scope = Sprint_Scope, md_api_field = ''open_blockers'',
     md_label = ''Open blockers'',
     md_description = ''Current sprint tickets classified as blockers that are not done.'',
     md_category = Risk, md_unit = Tickets, md_formatting = Format_integer, md_display_order = 4,
     md_thresholds = [],
     md_severity_meaning = no_approved_severity,
     md_availability = \<lparr>av_dependencies = [''ticket_count'', ''sprint_assignment''],
       av_partial_value_policy = Confirmed_minimum, av_supports_not_applicable = False,
       av_evidence_fields = [''metric_issue_keys.open_blockers'',
         ''calculation_provenance.metric_evidence.open_blockers''],
       av_minimum_coverage_pct = None\<rparr>,
     md_historical_series = False, md_signal_participation = False,
     md_confidence_participation = True, md_chart_participation = True,
     md_report_participation = True, md_ruleset_version = ruleset_version_const,
     md_api_location = Metric_values\<rparr>"

definition sprint_open_high_severity_bugs :: metric_definition where
  "sprint_open_high_severity_bugs = \<lparr>
     md_key = ''sprint.open_high_severity_bugs'', md_scope = Sprint_Scope,
       md_api_field = ''open_high_severity_bugs'',
     md_label = ''Open high-severity bugs'',
     md_description = ''Current sprint bugs with configured high severity that are not done.'',
     md_category = Quality, md_unit = Tickets, md_formatting = Format_integer, md_display_order = 5,
     md_thresholds = [],
     md_severity_meaning = no_approved_severity,
     md_availability = \<lparr>av_dependencies = [''ticket_count'', ''sprint_assignment''],
       av_partial_value_policy = Confirmed_minimum, av_supports_not_applicable = False,
       av_evidence_fields = [''metric_issue_keys.open_high_severity_bugs'',
         ''calculation_provenance.metric_evidence.open_high_severity_bugs''],
       av_minimum_coverage_pct = None\<rparr>,
     md_historical_series = False, md_signal_participation = False,
     md_confidence_participation = False, md_chart_participation = True,
     md_report_participation = True, md_ruleset_version = ruleset_version_const,
     md_api_location = Metric_values\<rparr>"

definition sprint_bugs_created_during_sprint :: metric_definition where
  "sprint_bugs_created_during_sprint = \<lparr>
     md_key = ''sprint.bugs_created_during_sprint'', md_scope = Sprint_Scope,
       md_api_field = ''bugs_created_during_sprint'',
     md_label = ''Bugs created during sprint'',
     md_description = ''Sprint bugs created within the approved inclusive sprint time window.'',
     md_category = Quality, md_unit = Tickets, md_formatting = Format_integer, md_display_order = 6,
     md_thresholds = [],
     md_severity_meaning = no_approved_severity,
     md_availability = \<lparr>av_dependencies = [''ticket_count'', ''sprint_assignment''],
       av_partial_value_policy = Confirmed_minimum, av_supports_not_applicable = False,
       av_evidence_fields = [''metric_issue_keys.bugs_created_during_sprint'',
         ''metric_issue_keys.bugs_created_during_sprint_missing_created_at'',
         ''calculation_provenance.metric_evidence.bugs_created_during_sprint''],
       av_minimum_coverage_pct = None\<rparr>,
     md_historical_series = False, md_signal_participation = False,
     md_confidence_participation = False, md_chart_participation = True,
     md_report_participation = True, md_ruleset_version = ruleset_version_const,
     md_api_location = Metric_values\<rparr>"

definition sprint_in_progress_count :: metric_definition where
  "sprint_in_progress_count = \<lparr>
     md_key = ''sprint.in_progress_count'', md_scope = Sprint_Scope, md_api_field = ''in_progress_count'',
     md_label = ''In progress'',
     md_description = ''Current sprint tickets in a configured in-progress status.'',
     md_category = Snapshot, md_unit = Tickets, md_formatting = Format_integer, md_display_order = 7,
     md_thresholds = [],
     md_severity_meaning = no_approved_severity,
     md_availability = \<lparr>av_dependencies = [''ticket_count'', ''ticket_status'', ''sprint_assignment''],
       av_partial_value_policy = Confirmed_minimum, av_supports_not_applicable = False,
       av_evidence_fields = [''calculation_provenance.metric_evidence.in_progress_count''],
       av_minimum_coverage_pct = None\<rparr>,
     md_historical_series = False, md_signal_participation = False,
     md_confidence_participation = False, md_chart_participation = False,
     md_report_participation = True, md_ruleset_version = ruleset_version_const,
     md_api_location = Metric_values\<rparr>"

definition sprint_not_started_count :: metric_definition where
  "sprint_not_started_count = \<lparr>
     md_key = ''sprint.not_started_count'', md_scope = Sprint_Scope, md_api_field = ''not_started_count'',
     md_label = ''Not started'',
     md_description = ''Known-status sprint tickets in neither done nor configured in-progress states.'',
     md_category = Snapshot, md_unit = Tickets, md_formatting = Format_integer, md_display_order = 8,
     md_thresholds = [],
     md_severity_meaning = no_approved_severity,
     md_availability = \<lparr>av_dependencies = [''ticket_count'', ''ticket_status'', ''sprint_assignment''],
       av_partial_value_policy = Confirmed_minimum, av_supports_not_applicable = False,
       av_evidence_fields = [''calculation_provenance.metric_evidence.not_started_count''],
       av_minimum_coverage_pct = None\<rparr>,
     md_historical_series = False, md_signal_participation = False,
     md_confidence_participation = False, md_chart_participation = False,
     md_report_participation = True, md_ruleset_version = ruleset_version_const,
     md_api_location = Metric_values\<rparr>"

definition sprint_rollover_count :: metric_definition where
  "sprint_rollover_count = \<lparr>
     md_key = ''sprint.rollover_count'', md_scope = Sprint_Scope, md_api_field = ''rollover_count'',
     md_label = ''Unfinished closed-sprint scope'',
     md_description = ''Current non-done tickets in a closed sprint; it does not prove movement to another sprint.'',
     md_category = Delivery, md_unit = Tickets, md_formatting = Format_integer, md_display_order = 9,
     md_thresholds = [],
     md_severity_meaning = no_approved_severity,
     md_availability = \<lparr>av_dependencies = [''ticket_count'', ''ticket_status'', ''sprint_assignment''],
       av_partial_value_policy = Confirmed_minimum, av_supports_not_applicable = True,
       av_evidence_fields = [''calculation_provenance.metric_evidence.rollover_count''],
       av_minimum_coverage_pct = None\<rparr>,
     md_historical_series = False, md_signal_participation = False,
     md_confidence_participation = False, md_chart_participation = True,
     md_report_participation = True, md_ruleset_version = ruleset_version_const,
     md_api_location = Metric_values\<rparr>"

definition sprint_median_cycle_time_days :: metric_definition where
  "sprint_median_cycle_time_days = \<lparr>
     md_key = ''sprint.median_cycle_time_days'', md_scope = Sprint_Scope,
       md_api_field = ''median_cycle_time_days'',
     md_label = ''Median cycle time'',
     md_description = ''Median days from the first valid in-progress transition to the first later done transition.'',
     md_category = Flow, md_unit = Days, md_formatting = Format_decimal_4, md_display_order = 10,
     md_thresholds = [],
     md_severity_meaning = no_approved_severity,
     md_availability = \<lparr>av_dependencies = [''ticket_count'', ''completed_tickets'',
       ''history_changelog'', ''sprint_assignment''],
       av_partial_value_policy = Unavailable, av_supports_not_applicable = False,
       av_evidence_fields = [''calculation_provenance.metric_evidence.median_cycle_time_days''],
       av_minimum_coverage_pct = None\<rparr>,
     md_historical_series = False, md_signal_participation = False,
     md_confidence_participation = False, md_chart_participation = True,
     md_report_participation = True, md_ruleset_version = ruleset_version_const,
     md_api_location = Metric_values\<rparr>"

definition sprint_reopen_rate_pct :: metric_definition where
  "sprint_reopen_rate_pct = \<lparr>
     md_key = ''sprint.reopen_rate_pct'', md_scope = Sprint_Scope, md_api_field = ''reopen_rate_pct'',
     md_label = ''Reopen events per 100 eligible tickets'',
     md_description = ''Distinct done-to-not-done transitions per 100 eligible sprint tickets.'',
     md_category = Quality, md_unit = Percent, md_formatting = Format_percent_2, md_display_order = 11,
     md_thresholds = [],
     md_severity_meaning = no_approved_severity,
     md_availability = \<lparr>av_dependencies = [''ticket_count'', ''history_changelog'',
       ''sprint_assignment''],
       av_partial_value_policy = Unavailable, av_supports_not_applicable = False,
       av_evidence_fields = [''calculation_provenance.metric_evidence.reopen_rate_pct''],
       av_minimum_coverage_pct = None\<rparr>,
     md_historical_series = False, md_signal_participation = False,
     md_confidence_participation = False, md_chart_participation = True,
     md_report_participation = True, md_ruleset_version = ruleset_version_const,
     md_api_location = Metric_values\<rparr>"

definition sprint_workload_concentration_pct :: metric_definition where
  "sprint_workload_concentration_pct = \<lparr>
     md_key = ''sprint.workload_concentration_pct'', md_scope = Sprint_Scope,
       md_api_field = ''workload_concentration_pct'',
     md_label = ''Workload concentration'',
     md_description = ''Share of included active sprint story points owned by the top assignee.'',
     md_category = Risk, md_unit = Percent, md_formatting = Format_percent_2, md_display_order = 12,
     md_thresholds = [\<lparr>th_severity = Critical, th_comparison = GT, th_value = PyFloat 50,
        th_meaning = ''Workload concentration above 50% is critical.''\<rparr>,
       \<lparr>th_severity = Watch, th_comparison = GTE, th_value = PyFloat 35,
        th_meaning = ''Workload concentration from 35% through 50% is watch.''\<rparr>],
     md_severity_meaning = ''Values below 35% are healthy; the most severe matching threshold wins.'',
     md_availability = \<lparr>av_dependencies = [''ticket_count'', ''ticket_status'', ''story_points'',
       ''assignee_identity'', ''sprint_assignment''],
       av_partial_value_policy = Calculated_from_available_data, av_supports_not_applicable = True,
       av_evidence_fields = [''workload_distribution.evidence'',
         ''calculation_provenance.metric_evidence.workload_concentration_pct''],
       av_minimum_coverage_pct = Some (PyFloat 50)\<rparr>,
     md_historical_series = False, md_signal_participation = False,
     md_confidence_participation = False, md_chart_participation = False,
     md_report_participation = True, md_ruleset_version = ruleset_version_const,
     md_api_location = Metric_values\<rparr>"

definition sprint_delivery_confidence_score :: metric_definition where
  "sprint_delivery_confidence_score = \<lparr>
     md_key = ''sprint.delivery_confidence_score'', md_scope = Sprint_Scope,
       md_api_field = ''delivery_confidence_score'',
     md_label = ''Delivery confidence'',
     md_description = ''Composite score from progress alignment, velocity fit, blocker health, and scope stability.'',
     md_category = Delivery, md_unit = Score, md_formatting = Format_decimal_2, md_display_order = 13,
     md_thresholds = [],
     md_severity_meaning = no_approved_severity,
     md_availability = \<lparr>av_dependencies = [''ticket_count'', ''story_points'', ''ticket_status'',
       ''blocker_classification'', ''sprint_duration'', ''project_changelog_completeness'',
       ''sprint_assignment''],
       av_partial_value_policy = Calculated_from_available_data, av_supports_not_applicable = False,
       av_evidence_fields = [''story_point_coverage'',
         ''delivery_confidence'',
         ''calculation_provenance.delivery_confidence_prerequisites'',
         ''calculation_provenance.component_inputs'',
         ''calculation_provenance.component_outputs.components''],
       av_minimum_coverage_pct = Some (PyFloat 50)\<rparr>,
     md_historical_series = True, md_signal_participation = False,
     md_confidence_participation = True, md_chart_participation = True,
     md_report_participation = True, md_ruleset_version = ruleset_version_const,
     md_api_location = Metric_values\<rparr>"

definition sprint_metrics :: "metric_definition list" where
  "sprint_metrics = [sprint_committed_scope,
     sprint_completed_scope_pct,
     sprint_scope_creep_pct,
     sprint_open_blockers,
     sprint_open_high_severity_bugs,
     sprint_bugs_created_during_sprint,
     sprint_in_progress_count,
     sprint_not_started_count,
     sprint_rollover_count,
     sprint_median_cycle_time_days,
     sprint_reopen_rate_pct,
     sprint_workload_concentration_pct,
     sprint_delivery_confidence_score]"

definition metric_catalog :: "metric_definition list" where
  "metric_catalog = release_metrics @ sprint_metrics"

subsection \<open>Validation at import\<close>

fun scope_name :: "metric_scope \<Rightarrow> string" where
  "scope_name Release_Scope = ''release''"
| "scope_name Sprint_Scope = ''sprint''"

fun scope_title :: "metric_scope \<Rightarrow> string" where
  "scope_title Release_Scope = ''Release''"
| "scope_title Sprint_Scope = ''Sprint''"

definition coverage_in_range :: "py_number \<Rightarrow> bool" where
  "coverage_in_range v \<longleftrightarrow> is_finite_number v \<and> 0 \<le> number_value v \<and> number_value v \<le> 100"

text \<open>The checks of one definition, in the order of the code; \<open>Some\<close> is the raised message.\<close>

definition definition_error ::
  "metric_scope \<Rightarrow> string set \<Rightarrow> string set \<Rightarrow> metric_definition \<Rightarrow> string option" where
  "definition_error scope keys seen d =
    (let key = quoted (md_key d); sevs = map th_severity (md_thresholds d) in
     if md_scope d \<noteq> scope \<or> md_key d \<noteq> scope_name scope @ ''.'' @ md_api_field d
     then Some (''Metric key '' @ key @ '' does not match its scope and API field.'')
     else if md_key d \<in> keys then Some (''Duplicate metric key '' @ key @ ''.'')
     else if md_api_field d \<in> seen
     then Some (''Duplicate '' @ scope_name scope @ '' API metric field '' @ quoted (md_api_field d) @ ''.'')
     else if md_label d = [] \<or> md_description d = [] \<or> md_severity_meaning d = []
     then Some (''Metric '' @ key @ '' has incomplete presentation metadata.'')
     else if av_dependencies (md_availability d) = []
     then Some (''Metric '' @ key @ '' has no availability dependencies.'')
     else if av_evidence_fields (md_availability d) = []
     then Some (''Metric '' @ key @ '' has no evidence metadata.'')
     else if md_ruleset_version d \<noteq> ruleset_version_const
     then Some (''Metric '' @ key @ '' does not use the current ruleset version.'')
     else if md_api_location d = Chart_only \<and> \<not> md_chart_participation d
     then Some (''Chart-only metric '' @ key @ '' must participate in charts.'')
     else if (case av_minimum_coverage_pct (md_availability d) of
                None \<Rightarrow> False | Some v \<Rightarrow> \<not> coverage_in_range v)
     then Some (''Metric '' @ key @ '' has invalid minimum coverage.'')
     else if \<not> distinct sevs then Some (''Metric '' @ key @ '' repeats a threshold severity.'')
     else if sevs \<noteq> sort sevs then Some (''Metric '' @ key @ '' thresholds must be most severe first.'')
     else if \<not> list_all (\<lambda>t. is_finite_number (th_value t)) (md_thresholds d)
     then Some (''Metric '' @ key @ '' has a non-finite threshold.'')
     else None)"

text \<open>The inner loop: the keys seen so far over both scopes and the API fields of this scope.\<close>

fun check_definitions ::
  "metric_scope \<Rightarrow> metric_definition list \<Rightarrow> string set \<Rightarrow> string set \<Rightarrow> string + string set" where
  "check_definitions scope [] keys seen = Inr keys"
| "check_definitions scope (d # ds) keys seen =
     (case definition_error scope keys seen d of
        Some msg \<Rightarrow> Inl msg
      | None \<Rightarrow> check_definitions scope ds (insert (md_key d) keys) (insert (md_api_field d) seen))"

definition check_scope ::
  "metric_scope \<Rightarrow> metric_definition list \<Rightarrow> string set \<Rightarrow> string + string set" where
  "check_scope scope ds keys =
    (if map md_display_order ds \<noteq> [1..<Suc (length ds)]
     then Inl (scope_title scope @ '' metric display order must be contiguous.'')
     else check_definitions scope ds keys {})"

definition validate_catalog ::
  "int \<Rightarrow> metric_definition list \<Rightarrow> metric_definition list \<Rightarrow> string + unit" where
  "validate_catalog version rel spr =
    (if version < 1 then Inl ''Metric catalog version must be positive.''
     else case check_scope Release_Scope rel {} of
         Inl msg \<Rightarrow> Inl msg
       | Inr keys \<Rightarrow> (case check_scope Sprint_Scope spr keys of Inl msg \<Rightarrow> Inl msg | Inr _ \<Rightarrow> Inr ()))"

subsection \<open>Lookups\<close>

text \<open>\<open>{metric.key: metric for metric in METRIC_CATALOG}\<close>: a later entry replaces an earlier one.\<close>

definition metric_by_key :: "metric_definition list \<Rightarrow> string \<Rightarrow> metric_definition option" where
  "metric_by_key cat key = map_of (rev (map (\<lambda>d. (md_key d, d)) cat)) key"

definition metric_threshold_of ::
  "metric_definition list \<Rightarrow> string \<Rightarrow> metric_severity \<Rightarrow> string + metric_threshold" where
  "metric_threshold_of cat key sev =
    (case metric_by_key cat key of
       None \<Rightarrow> Inl key
     | Some d \<Rightarrow> (case find (\<lambda>t. th_severity t = sev) (md_thresholds d) of
           Some t \<Rightarrow> Inr t
         | None \<Rightarrow> Inl (''Metric '' @ quoted key @ '' has no '' @
             quoted (case sev of Critical \<Rightarrow> ''critical'' | Watch \<Rightarrow> ''watch'') @ '' threshold.'')))"

definition metric_threshold_value ::
  "metric_definition list \<Rightarrow> string \<Rightarrow> metric_severity \<Rightarrow> string + py_number" where
  "metric_threshold_value cat key sev = map_sum id th_value (metric_threshold_of cat key sev)"

definition metric_minimum_coverage_pct ::
  "metric_definition list \<Rightarrow> string \<Rightarrow> string + py_number" where
  "metric_minimum_coverage_pct cat key =
    (case metric_by_key cat key of
       None \<Rightarrow> Inl key
     | Some d \<Rightarrow> (case av_minimum_coverage_pct (md_availability d) of
           None \<Rightarrow> Inl (''Metric '' @ quoted key @ '' has no minimum coverage threshold.'')
         | Some v \<Rightarrow> Inr v))"

definition metrics_for_scope :: "metric_definition list \<Rightarrow> metric_scope \<Rightarrow> metric_definition list" where
  "metrics_for_scope cat scope = filter (\<lambda>d. md_scope d = scope) cat"

definition metric_api_fields ::
  "metric_definition list \<Rightarrow> metric_scope \<Rightarrow> metric_api_location option \<Rightarrow> bool option \<Rightarrow> string list"
where
  "metric_api_fields cat scope loc chart =
     map md_api_field (filter (\<lambda>d. (loc = None \<or> loc = Some (md_api_location d))
         \<and> (chart = None \<or> chart = Some (md_chart_participation d)))
       (metrics_for_scope cat scope))"

text \<open>The module-level constants are looked up when the modules are imported; a missing entry would
  stop the import, and \<open>threshold_consts\<close> below shows that none is missing.\<close>

definition imported_value :: "string + py_number \<Rightarrow> py_number" where
  "imported_value r = (case r of Inr v \<Rightarrow> v | Inl _ \<Rightarrow> PyNaN)"

definition threshold_const :: "string \<Rightarrow> metric_severity \<Rightarrow> py_number" where
  "threshold_const key sev = imported_value (metric_threshold_value metric_catalog key sev)"

definition coverage_const :: "string \<Rightarrow> py_number" where
  "coverage_const key = imported_value (metric_minimum_coverage_pct metric_catalog key)"

lemma threshold_consts [catalog_simps]:
  "threshold_const ''release.open_blockers'' Critical = PyInt 0"
  "threshold_const ''release.open_high_severity_bugs'' Critical = PyInt 1"
  "threshold_const ''release.open_high_severity_bugs'' Watch = PyInt 0"
  "threshold_const ''release.scope_churn_7d_pct'' Critical = PyFloat 20"
  "threshold_const ''release.scope_churn_7d_pct'' Watch = PyFloat 10"
  "threshold_const ''release.reopen_rate_pct'' Critical = PyFloat 15"
  "threshold_const ''release.reopen_rate_pct'' Watch = PyFloat 10"
  "threshold_const ''release.median_cycle_time_days'' Watch = PyFloat 7"
  "threshold_const ''release.confidence_score'' Critical = PyFloat 60"
  "threshold_const ''release.confidence_score'' Watch = PyFloat 90"
  "threshold_const ''sprint.workload_concentration_pct'' Critical = PyFloat 50"
  "threshold_const ''sprint.workload_concentration_pct'' Watch = PyFloat 35"
  "coverage_const ''sprint.delivery_confidence_score'' = PyFloat 50"
  by code_simp+

text \<open>The threshold values the API publishes; the band bounds are one above the band maxima.\<close>

definition release_threshold_metadata :: "(string \<times> py_number) list" where
  "release_threshold_metadata =
    (let red_max = number_value (threshold_const ''release.confidence_score'' Critical);
         yellow_max = number_value (threshold_const ''release.confidence_score'' Watch)
     in [(''open_blockers_red'', threshold_const ''release.open_blockers'' Critical),
         (''open_high_severity_bugs_red'', threshold_const ''release.open_high_severity_bugs'' Critical),
         (''open_high_severity_bugs_yellow'', threshold_const ''release.open_high_severity_bugs'' Watch),
         (''scope_churn_7d_pct_red'', threshold_const ''release.scope_churn_7d_pct'' Critical),
         (''scope_churn_7d_pct_yellow'', threshold_const ''release.scope_churn_7d_pct'' Watch),
         (''reopen_rate_pct_red'', threshold_const ''release.reopen_rate_pct'' Critical),
         (''reopen_rate_pct_yellow'', threshold_const ''release.reopen_rate_pct'' Watch),
         (''median_cycle_time_days_yellow'', threshold_const ''release.median_cycle_time_days'' Watch),
         (''confidence_score_red_max'', PyFloat red_max),
         (''confidence_score_yellow_min'', PyFloat (fadd red_max 1)),
         (''confidence_score_yellow_max'', PyFloat yellow_max),
         (''confidence_score_green_min'', PyFloat (fadd yellow_max 1))])"

subsection \<open>What the validation guarantees\<close>

text \<open>The facts about one accepted definition.\<close>

definition valid_definition :: "metric_scope \<Rightarrow> metric_definition \<Rightarrow> bool" where
  "valid_definition scope d \<longleftrightarrow> md_scope d = scope
     \<and> md_key d = scope_name scope @ ''.'' @ md_api_field d
     \<and> md_label d \<noteq> [] \<and> md_description d \<noteq> []
     \<and> av_dependencies (md_availability d) \<noteq> [] \<and> av_evidence_fields (md_availability d) \<noteq> []
     \<and> md_ruleset_version d = ruleset_version_const
     \<and> (md_api_location d = Chart_only \<longrightarrow> md_chart_participation d)
     \<and> pred_option coverage_in_range (av_minimum_coverage_pct (md_availability d))
     \<and> distinct (map th_severity (md_thresholds d)) \<and> sorted (map th_severity (md_thresholds d))
     \<and> list_all (\<lambda>t. is_finite_number (th_value t)) (md_thresholds d)"

lemma definition_error_None:
  assumes "definition_error scope keys seen d = None"
  shows "valid_definition scope d" and "md_key d \<notin> keys"
proof -
  have "sevs = sort sevs \<Longrightarrow> sorted sevs" for sevs :: "metric_severity list"
    by (metis sorted_sort)
  then show "valid_definition scope d" using assms
    by (auto simp: definition_error_def valid_definition_def Let_def split: if_splits option.splits)
  show "md_key d \<notin> keys" using assms by (auto simp: definition_error_def Let_def split: if_splits)
qed

lemma check_definitions_Inr:
  assumes "check_definitions scope ds keys seen = Inr keys'"
  shows "list_all (valid_definition scope) ds \<and> distinct (map md_key ds)
    \<and> md_key ` set ds \<inter> keys = {} \<and> keys' = keys \<union> md_key ` set ds"
  using assms
proof (induction scope ds keys seen rule: check_definitions.induct)
  case (2 scope d ds keys seen)
  from "2.prems" have e: "definition_error scope keys seen d = None"
    by (simp split: option.splits)
  note IH = "2.IH" [OF e]
  show ?case using IH "2.prems" e definition_error_None [OF e] by auto
qed simp

lemma check_scope_Inr:
  assumes "check_scope scope ds keys = Inr keys'"
  shows "map md_display_order ds = [1..<Suc (length ds)] \<and> list_all (valid_definition scope) ds
    \<and> distinct (map md_key ds) \<and> md_key ` set ds \<inter> keys = {} \<and> keys' = keys \<union> md_key ` set ds"
proof -
  have o: "map md_display_order ds = [1..<Suc (length ds)]"
    using assms unfolding check_scope_def by (metis (no_types, lifting) Inr_not_Inl)
  with assms have "check_definitions scope ds keys {} = Inr keys'"
    unfolding check_scope_def by (simp only: not_True_eq_False if_False simp_thms)
  from check_definitions_Inr [OF this] o show ?thesis by simp
qed

lemma validate_catalog_scopes:
  assumes "validate_catalog version rel spr = Inr ()"
  obtains keys keys' where "check_scope Release_Scope rel {} = Inr keys"
    and "check_scope Sprint_Scope spr keys = Inr keys'"
  using assms by (auto simp: validate_catalog_def split: if_splits sum.splits)

lemma metric_by_key_distinct:
  assumes "distinct (map md_key cat)" and "d \<in> set cat"
  shows "metric_by_key cat (md_key d) = Some d"
proof -
  have "distinct (map fst (rev (map (\<lambda>d. (md_key d, d)) cat)))"
    using assms(1) by (simp add: rev_map [symmetric] comp_def)
  moreover have "(md_key d, d) \<in> set (rev (map (\<lambda>d. (md_key d, d)) cat))" using assms(2) by simp
  ultimately show ?thesis unfolding metric_by_key_def by (rule map_of_is_SomeI)
qed

text \<open>The catalog of the repository passes its import validation.\<close>

theorem catalog_import_succeeds:
  "validate_catalog catalog_version release_metrics sprint_metrics = Inr ()"
  by code_simp

text \<open>C40: Whatever catalog the validation accepts, all keys are distinct over both scopes, so a lookup
  by the key of an entry finds that entry; every definition is well formed (key made of scope and API
  field, finite thresholds with the most severe first, coverage limit between 0 and 100) and the entries
  of a scope are numbered 1, 2, ... in order.\<close>

theorem validate_catalog_sound:
  assumes "validate_catalog version rel spr = Inr ()"
  shows "list_all (valid_definition Release_Scope) rel \<and> list_all (valid_definition Sprint_Scope) spr
    \<and> map md_display_order rel = [1..<Suc (length rel)]
    \<and> map md_display_order spr = [1..<Suc (length spr)]
    \<and> (\<forall>d \<in> set (rel @ spr). metric_by_key (rel @ spr) (md_key d) = Some d)"
proof -
  obtain keys keys' where r: "check_scope Release_Scope rel {} = Inr keys"
    and s: "check_scope Sprint_Scope spr keys = Inr keys'"
    using assms by (rule validate_catalog_scopes)
  have "distinct (map md_key (rel @ spr))"
    using check_scope_Inr [OF r] check_scope_Inr [OF s] by auto
  then show ?thesis
    using check_scope_Inr [OF r] check_scope_Inr [OF s] by (auto intro: metric_by_key_distinct)
qed

lemma validate_catalog_sound_witness:
  "metric_by_key (release_metrics @ sprint_metrics) (md_key release_open_blockers)
     = Some release_open_blockers"
proof -
  have "validate_catalog catalog_version release_metrics sprint_metrics = Inr ()" by code_simp
  from validate_catalog_sound [OF this] show ?thesis by (simp add: release_metrics_def)
qed

end
