(* ===== verification/Signals.thy ===== *)
theory Signals
  imports Catalog
begin

text \<open>
  The release signal rules of services/signal_service.py: risk points, confidence score and its band,
  the hard rules with their reasons, and the readiness details (gates, risks, primary risk). A Python
  dict of results is a record or, where its insertion order matters, a list of pairs.
\<close>

named_theorems signal_simps \<open>evaluation of the release rules\<close>

subsection \<open>Thresholds and weights\<close>

definition OPEN_BLOCKERS_RED_THRESHOLD :: py_number where
  "OPEN_BLOCKERS_RED_THRESHOLD = threshold_const ''release.open_blockers'' Critical"

definition HIGH_SEVERITY_BUGS_RED_THRESHOLD :: py_number where
  "HIGH_SEVERITY_BUGS_RED_THRESHOLD = threshold_const ''release.open_high_severity_bugs'' Critical"

definition HIGH_SEVERITY_BUGS_YELLOW_THRESHOLD :: py_number where
  "HIGH_SEVERITY_BUGS_YELLOW_THRESHOLD = threshold_const ''release.open_high_severity_bugs'' Watch"

definition SCOPE_CHURN_RED_THRESHOLD :: pyfloat where
  "SCOPE_CHURN_RED_THRESHOLD =
     fdiv (number_value (threshold_const ''release.scope_churn_7d_pct'' Critical)) 100"

definition SCOPE_CHURN_YELLOW_THRESHOLD :: pyfloat where
  "SCOPE_CHURN_YELLOW_THRESHOLD =
     fdiv (number_value (threshold_const ''release.scope_churn_7d_pct'' Watch)) 100"

definition REOPEN_RATE_RED_THRESHOLD :: pyfloat where
  "REOPEN_RATE_RED_THRESHOLD =
     fdiv (number_value (threshold_const ''release.reopen_rate_pct'' Critical)) 100"

definition REOPEN_RATE_YELLOW_THRESHOLD :: pyfloat where
  "REOPEN_RATE_YELLOW_THRESHOLD =
     fdiv (number_value (threshold_const ''release.reopen_rate_pct'' Watch)) 100"

definition CYCLE_TIME_YELLOW_THRESHOLD_DAYS :: pyfloat where
  "CYCLE_TIME_YELLOW_THRESHOLD_DAYS =
     number_value (threshold_const ''release.median_cycle_time_days'' Watch)"

definition CONFIDENCE_SCORE_RED_MAX :: pyfloat where
  "CONFIDENCE_SCORE_RED_MAX = number_value (threshold_const ''release.confidence_score'' Critical)"

definition CONFIDENCE_SCORE_YELLOW_MAX :: pyfloat where
  "CONFIDENCE_SCORE_YELLOW_MAX = number_value (threshold_const ''release.confidence_score'' Watch)"

text \<open>\<open>THRESHOLD * 100\<close>, as the risk points and the gates compare percentages.\<close>

definition scope_churn_red_pct :: pyfloat where
  "scope_churn_red_pct = fmul SCOPE_CHURN_RED_THRESHOLD 100"
definition scope_churn_yellow_pct :: pyfloat where
  "scope_churn_yellow_pct = fmul SCOPE_CHURN_YELLOW_THRESHOLD 100"
definition reopen_rate_red_pct :: pyfloat where
  "reopen_rate_red_pct = fmul REOPEN_RATE_RED_THRESHOLD 100"
definition reopen_rate_yellow_pct :: pyfloat where
  "reopen_rate_yellow_pct = fmul REOPEN_RATE_YELLOW_THRESHOLD 100"

lemma int_thresholds [signal_simps]:
  "OPEN_BLOCKERS_RED_THRESHOLD = PyInt 0"
  "HIGH_SEVERITY_BUGS_RED_THRESHOLD = PyInt 1"
  "HIGH_SEVERITY_BUGS_YELLOW_THRESHOLD = PyInt 0"
  by (simp_all add: OPEN_BLOCKERS_RED_THRESHOLD_def HIGH_SEVERITY_BUGS_RED_THRESHOLD_def
      HIGH_SEVERITY_BUGS_YELLOW_THRESHOLD_def catalog_simps)

lemma ratio_thresholds:
  "SCOPE_CHURN_RED_THRESHOLD = fl (20 / 100)"
  "SCOPE_CHURN_YELLOW_THRESHOLD = fl (10 / 100)"
  "REOPEN_RATE_RED_THRESHOLD = fl (15 / 100)"
  "REOPEN_RATE_YELLOW_THRESHOLD = fl (10 / 100)"
  by (simp_all only: SCOPE_CHURN_RED_THRESHOLD_def SCOPE_CHURN_YELLOW_THRESHOLD_def
      REOPEN_RATE_RED_THRESHOLD_def REOPEN_RATE_YELLOW_THRESHOLD_def catalog_simps number_value.simps
      fdiv_def)

lemma float_thresholds [signal_simps]:
  "CYCLE_TIME_YELLOW_THRESHOLD_DAYS = 7"
  "CONFIDENCE_SCORE_RED_MAX = 60"
  "CONFIDENCE_SCORE_YELLOW_MAX = 90"
  by (simp_all add: CYCLE_TIME_YELLOW_THRESHOLD_DAYS_def CONFIDENCE_SCORE_RED_MAX_def
      CONFIDENCE_SCORE_YELLOW_MAX_def catalog_simps)

lemma fl_percent_roundtrip:
  "fl (fl (20 / 100) * 100) = 20" "fl (fl (10 / 100) * 100) = 10" "fl (fl (15 / 100) * 100) = 15"
  by code_simp+

text \<open>Dividing a threshold by 100 and multiplying it again gives the same percentage.\<close>

lemma pct_thresholds [signal_simps]:
  "scope_churn_red_pct = 20" "scope_churn_yellow_pct = 10"
  "reopen_rate_red_pct = 15" "reopen_rate_yellow_pct = 10"
  by (simp_all only: scope_churn_red_pct_def scope_churn_yellow_pct_def reopen_rate_red_pct_def
      reopen_rate_yellow_pct_def ratio_thresholds fmul_def fl_percent_roundtrip)

definition RISK_WEIGHTS :: "(string \<times> pyfloat) list" where
  "RISK_WEIGHTS =
    [(''open_blockers'', 28), (''open_high_severity_bugs_red'', 18),
     (''open_high_severity_bugs_yellow'', 9), (''scope_churn_7d_pct_red'', 8),
     (''scope_churn_7d_pct_yellow'', 4), (''reopen_rate_pct_red'', 6),
     (''reopen_rate_pct_yellow'', 3), (''median_cycle_time_days_yellow'', 4)]"

definition risk_weight :: "string \<Rightarrow> pyfloat" where
  "risk_weight name = the (map_of RISK_WEIGHTS name)"

lemma risk_weights [signal_simps]:
  "risk_weight ''open_blockers'' = 28"
  "risk_weight ''open_high_severity_bugs_red'' = 18"
  "risk_weight ''open_high_severity_bugs_yellow'' = 9"
  "risk_weight ''scope_churn_7d_pct_red'' = 8"
  "risk_weight ''scope_churn_7d_pct_yellow'' = 4"
  "risk_weight ''reopen_rate_pct_red'' = 6"
  "risk_weight ''reopen_rate_pct_yellow'' = 3"
  "risk_weight ''median_cycle_time_days_yellow'' = 4"
  by (simp_all add: risk_weight_def RISK_WEIGHTS_def)

subsection \<open>Risk points and confidence score\<close>

text \<open>The five inputs that every rule of the service takes.\<close>

record release_inputs =
  open_blockers :: int
  open_high_severity_bugs :: int
  scope_churn_7d_pct :: "pyfloat option"
  reopen_rate_pct :: "pyfloat option"
  median_cycle_time_days :: "pyfloat option"

definition above :: "pyfloat option \<Rightarrow> pyfloat \<Rightarrow> bool" where
  "above v t \<longleftrightarrow> (case v of None \<Rightarrow> False | Some x \<Rightarrow> x > t)"

lemma above_simps [simp]: "above None t = False" "above (Some x) t = (x > t)"
  by (simp_all add: above_def)

definition int_above :: "int \<Rightarrow> py_number \<Rightarrow> bool" where
  "int_above n t \<longleftrightarrow> of_int n > number_value t"

lemma int_above_simps [simp]: "int_above n (PyInt t) \<longleftrightarrow> n > t"
  by (simp add: int_above_def)

definition compute_release_risk_points :: "release_inputs \<Rightarrow> (string \<times> pyfloat) list" where
  "compute_release_risk_points r =
     (if int_above (open_blockers r) OPEN_BLOCKERS_RED_THRESHOLD
      then [(''open_blockers'', risk_weight ''open_blockers'')] else [])
   @ (if int_above (open_high_severity_bugs r) HIGH_SEVERITY_BUGS_RED_THRESHOLD
      then [(''open_high_severity_bugs'', risk_weight ''open_high_severity_bugs_red'')]
      else if int_above (open_high_severity_bugs r) HIGH_SEVERITY_BUGS_YELLOW_THRESHOLD
      then [(''open_high_severity_bugs'', risk_weight ''open_high_severity_bugs_yellow'')] else [])
   @ (if above (scope_churn_7d_pct r) scope_churn_red_pct
      then [(''scope_churn_7d_pct'', risk_weight ''scope_churn_7d_pct_red'')]
      else if above (scope_churn_7d_pct r) scope_churn_yellow_pct
      then [(''scope_churn_7d_pct'', risk_weight ''scope_churn_7d_pct_yellow'')] else [])
   @ (if above (reopen_rate_pct r) reopen_rate_red_pct
      then [(''reopen_rate_pct'', risk_weight ''reopen_rate_pct_red'')]
      else if above (reopen_rate_pct r) reopen_rate_yellow_pct
      then [(''reopen_rate_pct'', risk_weight ''reopen_rate_pct_yellow'')] else [])
   @ (if above (median_cycle_time_days r) CYCLE_TIME_YELLOW_THRESHOLD_DAYS
      then [(''median_cycle_time_days'', risk_weight ''median_cycle_time_days_yellow'')] else [])"

definition compute_release_confidence_score :: "release_inputs \<Rightarrow> pyfloat" where
  "compute_release_confidence_score r =
     py_round 1 (max 0 (fsub 100 (fsum (map snd (compute_release_risk_points r)))))"

subsection \<open>Signals\<close>

text \<open>The three levels that \<open>SEVERITY_RANK\<close> orders, and the stored signal values.\<close>

datatype level = GREEN | YELLOW | RED

datatype signal = Level level | INCONCLUSIVE | SIGNAL_NOT_COMPUTED

fun severity_rank :: "level \<Rightarrow> nat" where
  "severity_rank GREEN = 0"
| "severity_rank YELLOW = 1"
| "severity_rank RED = 2"

instantiation level :: linorder
begin

definition "a \<le> b \<longleftrightarrow> severity_rank a \<le> severity_rank b"
definition "a < b \<longleftrightarrow> severity_rank a < severity_rank b"

instance
proof
  fix a b :: level
  show "a \<le> b \<Longrightarrow> b \<le> a \<Longrightarrow> a = b"
    by (cases a; cases b) (simp_all add: less_eq_level_def)
qed (auto simp: less_eq_level_def less_level_def)

end

definition signal_from_confidence_score :: "pyfloat \<Rightarrow> level" where
  "signal_from_confidence_score s =
    (if s \<le> CONFIDENCE_SCORE_RED_MAX then RED
     else if s \<le> CONFIDENCE_SCORE_YELLOW_MAX then YELLOW else GREEN)"

definition most_severe_signal :: "level \<Rightarrow> level \<Rightarrow> level" where
  "most_severe_signal a b = max a b"

subsection \<open>Hard rules\<close>

record reason_detail =
  rd_metric_name :: string
  rd_level :: level
  rd_value :: py_number
  rd_comparison :: string
  rd_threshold :: py_number
  rd_message :: string

definition gt_detail :: "string \<Rightarrow> level \<Rightarrow> py_number \<Rightarrow> py_number \<Rightarrow> string \<Rightarrow> reason_detail" where
  "gt_detail name lvl v t msg = \<lparr>rd_metric_name = name, rd_level = lvl, rd_value = v,
     rd_comparison = ''>'', rd_threshold = t, rd_message = msg\<rparr>"

lemma gt_detail_sel [simp]:
  "rd_metric_name (gt_detail n l v t m) = n" "rd_level (gt_detail n l v t m) = l"
  by (simp_all add: gt_detail_def)

text \<open>\<open>str\<close> of a threshold or count as the f-strings print it.\<close>

fun number_str :: "py_number \<Rightarrow> string" where
  "number_str (PyBool b) = (if b then ''True'' else ''False'')"
| "number_str (PyInt i) = int_str i"
| "number_str (PyFloat x) = py_repr x"
| "number_str (PyInf neg) = (if neg then ''-inf'' else ''inf'')"
| "number_str PyNaN = ''nan''"

definition pct_message :: "string \<Rightarrow> pyfloat \<Rightarrow> pyfloat \<Rightarrow> string" where
  "pct_message label v t = label @ '': '' @ format_fixed 1 v @ ''% > '' @ format_fixed 0 t @ ''%''"

definition red_details :: "release_inputs \<Rightarrow> reason_detail list" where
  "red_details r =
     (if int_above (open_blockers r) OPEN_BLOCKERS_RED_THRESHOLD
      then [gt_detail ''open_blockers'' RED (PyInt (open_blockers r)) OPEN_BLOCKERS_RED_THRESHOLD
             (''Open blockers: '' @ int_str (open_blockers r) @ '' > ''
              @ number_str OPEN_BLOCKERS_RED_THRESHOLD)] else [])
   @ (if int_above (open_high_severity_bugs r) HIGH_SEVERITY_BUGS_RED_THRESHOLD
      then [gt_detail ''open_high_severity_bugs'' RED (PyInt (open_high_severity_bugs r))
             HIGH_SEVERITY_BUGS_RED_THRESHOLD
             (''High-severity bugs: '' @ int_str (open_high_severity_bugs r) @ '' > ''
              @ number_str HIGH_SEVERITY_BUGS_RED_THRESHOLD)] else [])
   @ (case scope_churn_7d_pct r of None \<Rightarrow> [] | Some v \<Rightarrow>
        (if fdiv v 100 > SCOPE_CHURN_RED_THRESHOLD
         then [gt_detail ''scope_churn_7d_pct'' RED (PyFloat v) (PyFloat scope_churn_red_pct)
                (pct_message ''Scope churn'' v scope_churn_red_pct)] else []))
   @ (case reopen_rate_pct r of None \<Rightarrow> [] | Some v \<Rightarrow>
        (if fdiv v 100 > REOPEN_RATE_RED_THRESHOLD
         then [gt_detail ''reopen_rate_pct'' RED (PyFloat v) (PyFloat reopen_rate_red_pct)
                (pct_message ''Reopen events per 100 eligible tickets'' v reopen_rate_red_pct)] else []))"

definition yellow_details :: "release_inputs \<Rightarrow> reason_detail list" where
  "yellow_details r =
     (if int_above (open_high_severity_bugs r) HIGH_SEVERITY_BUGS_YELLOW_THRESHOLD
         \<and> \<not> int_above (open_high_severity_bugs r) HIGH_SEVERITY_BUGS_RED_THRESHOLD
      then [gt_detail ''open_high_severity_bugs'' YELLOW (PyInt (open_high_severity_bugs r))
             HIGH_SEVERITY_BUGS_YELLOW_THRESHOLD
             (''High-severity bugs present: '' @ int_str (open_high_severity_bugs r) @ '' > ''
              @ number_str HIGH_SEVERITY_BUGS_YELLOW_THRESHOLD)] else [])
   @ (case scope_churn_7d_pct r of None \<Rightarrow> [] | Some v \<Rightarrow>
        (if SCOPE_CHURN_YELLOW_THRESHOLD < fdiv v 100 \<and> fdiv v 100 \<le> SCOPE_CHURN_RED_THRESHOLD
         then [gt_detail ''scope_churn_7d_pct'' YELLOW (PyFloat v) (PyFloat scope_churn_yellow_pct)
                (pct_message ''Scope churn'' v scope_churn_yellow_pct)] else []))
   @ (case reopen_rate_pct r of None \<Rightarrow> [] | Some v \<Rightarrow>
        (if REOPEN_RATE_YELLOW_THRESHOLD < fdiv v 100 \<and> fdiv v 100 \<le> REOPEN_RATE_RED_THRESHOLD
         then [gt_detail ''reopen_rate_pct'' YELLOW (PyFloat v) (PyFloat reopen_rate_yellow_pct)
                (pct_message ''Reopen events per 100 eligible tickets'' v reopen_rate_yellow_pct)]
         else []))
   @ (case median_cycle_time_days r of None \<Rightarrow> [] | Some v \<Rightarrow>
        (if v > CYCLE_TIME_YELLOW_THRESHOLD_DAYS
         then [gt_detail ''median_cycle_time_days'' YELLOW (PyFloat v)
                (PyFloat CYCLE_TIME_YELLOW_THRESHOLD_DAYS)
                (''Median cycle time: '' @ format_fixed 1 v @ ''d > ''
                 @ format_fixed 1 CYCLE_TIME_YELLOW_THRESHOLD_DAYS @ ''d'')] else []))"

definition hard_rule_signal :: "release_inputs \<Rightarrow> level" where
  "hard_rule_signal r = (if red_details r \<noteq> [] then RED else if yellow_details r \<noteq> [] then YELLOW else GREEN)"

definition no_major_risk :: string where
  "no_major_risk = ''No major risk indicators''"

definition evaluate_signal_with_details ::
  "release_inputs \<Rightarrow> signal \<times> string list \<times> reason_detail list" where
  "evaluate_signal_with_details r =
    (let details = red_details r @ yellow_details r;
         hard = hard_rule_signal r;
         sig = (if scope_churn_7d_pct r = None \<or> reopen_rate_pct r = None
                   \<or> median_cycle_time_days r = None
                then (if hard = RED then Level RED else INCONCLUSIVE)
                else Level (most_severe_signal hard
                       (signal_from_confidence_score (compute_release_confidence_score r))));
         reasons = map rd_message details
     in (sig, if reasons = [] then [no_major_risk] else reasons, details))"

subsection \<open>Readiness details\<close>

record release_gate =
  gate_metric_name :: string
  gate_label :: string
  gate_passed :: bool
  gate_value :: "py_number option"
  gate_comparison :: string
  gate_threshold :: py_number

definition le_gate :: "string \<Rightarrow> string \<Rightarrow> bool \<Rightarrow> py_number option \<Rightarrow> py_number \<Rightarrow> release_gate" where
  "le_gate name label passed v t = \<lparr>gate_metric_name = name, gate_label = label,
     gate_passed = passed, gate_value = v, gate_comparison = ''<='', gate_threshold = t\<rparr>"

lemma le_gate_sel [simp]:
  "gate_metric_name (le_gate n l p v t) = n" "gate_passed (le_gate n l p v t) = p"
  by (simp_all add: le_gate_def)

definition release_gates :: "release_inputs \<Rightarrow> release_gate list" where
  "release_gates r =
     [le_gate ''open_blockers'' ''No blockers''
        (\<not> int_above (open_blockers r) OPEN_BLOCKERS_RED_THRESHOLD)
        (Some (PyInt (open_blockers r))) OPEN_BLOCKERS_RED_THRESHOLD,
      le_gate ''open_high_severity_bugs''
        (''High severity bugs <= '' @ number_str HIGH_SEVERITY_BUGS_RED_THRESHOLD)
        (\<not> int_above (open_high_severity_bugs r) HIGH_SEVERITY_BUGS_RED_THRESHOLD)
        (Some (PyInt (open_high_severity_bugs r))) HIGH_SEVERITY_BUGS_RED_THRESHOLD]
   @ (case scope_churn_7d_pct r of None \<Rightarrow> [] | Some v \<Rightarrow>
        [le_gate ''scope_churn_7d_pct'' (''Scope churn <= '' @ format_fixed 0 scope_churn_red_pct @ ''%'')
           (v \<le> scope_churn_red_pct) (Some (PyFloat v)) (PyFloat scope_churn_red_pct)])
   @ (case reopen_rate_pct r of None \<Rightarrow> [] | Some v \<Rightarrow>
        [le_gate ''reopen_rate_pct''
           (''Reopen events per 100 eligible tickets <= '' @ format_fixed 0 reopen_rate_red_pct @ ''%'')
           (v \<le> reopen_rate_red_pct) (Some (PyFloat v)) (PyFloat reopen_rate_red_pct)])
   @ [le_gate ''median_cycle_time_days''
        (''Cycle time <= '' @ format_fixed 0 CYCLE_TIME_YELLOW_THRESHOLD_DAYS @ ''d'')
        (\<not> above (median_cycle_time_days r) CYCLE_TIME_YELLOW_THRESHOLD_DAYS)
        (map_option PyFloat (median_cycle_time_days r)) (PyFloat CYCLE_TIME_YELLOW_THRESHOLD_DAYS)]"

datatype risk_level = CRITICAL_RISK | WARNING_RISK

record risk_item =
  ri_metric_name :: string
  ri_level :: risk_level
  ri_message :: string
  ri_value :: py_number
  ri_contribution_pct :: pyfloat

definition mk_risk :: "string \<Rightarrow> risk_level \<Rightarrow> string \<Rightarrow> py_number \<Rightarrow> risk_item" where
  "mk_risk name lvl msg v = \<lparr>ri_metric_name = name, ri_level = lvl, ri_message = msg,
     ri_value = v, ri_contribution_pct = 0\<rparr>"

definition critical_risk_items :: "release_inputs \<Rightarrow> risk_item list" where
  "critical_risk_items r =
     (if int_above (open_blockers r) OPEN_BLOCKERS_RED_THRESHOLD
      then [mk_risk ''open_blockers'' CRITICAL_RISK
             (int_str (open_blockers r) @ '' blockers remain open'') (PyInt (open_blockers r))] else [])
   @ (if int_above (open_high_severity_bugs r) HIGH_SEVERITY_BUGS_RED_THRESHOLD
      then [mk_risk ''open_high_severity_bugs'' CRITICAL_RISK
             (int_str (open_high_severity_bugs r) @ '' high severity bugs remain unresolved'')
             (PyInt (open_high_severity_bugs r))] else [])"

definition warning_items :: "release_inputs \<Rightarrow> risk_item list" where
  "warning_items r =
     (if \<not> int_above (open_high_severity_bugs r) HIGH_SEVERITY_BUGS_RED_THRESHOLD
         \<and> int_above (open_high_severity_bugs r) HIGH_SEVERITY_BUGS_YELLOW_THRESHOLD
      then [mk_risk ''open_high_severity_bugs'' WARNING_RISK
             (int_str (open_high_severity_bugs r) @ '' high severity bug remains unresolved'')
             (PyInt (open_high_severity_bugs r))] else [])
   @ (case scope_churn_7d_pct r of None \<Rightarrow> [] | Some v \<Rightarrow>
        (if v > scope_churn_red_pct \<or> v > scope_churn_yellow_pct
         then [mk_risk ''scope_churn_7d_pct'' WARNING_RISK
                (''Scope churn increased to '' @ format_fixed 0 v @ ''%'') (PyFloat v)] else []))
   @ (case reopen_rate_pct r of None \<Rightarrow> [] | Some v \<Rightarrow>
        (if v > reopen_rate_red_pct \<or> v > reopen_rate_yellow_pct
         then [mk_risk ''reopen_rate_pct'' WARNING_RISK
                ''Reopen events per 100 eligible tickets exceed target'' (PyFloat v)] else []))
   @ (case median_cycle_time_days r of None \<Rightarrow> [] | Some v \<Rightarrow>
        (if v > CYCLE_TIME_YELLOW_THRESHOLD_DAYS
         then [mk_risk ''median_cycle_time_days'' WARNING_RISK ''Median cycle time exceeds target''
                (PyFloat v)] else []))"

text \<open>The share of each metric in the risk points, in percent; empty when there are none.\<close>

definition contribution_by_metric :: "release_inputs \<Rightarrow> (string \<times> pyfloat) list" where
  "contribution_by_metric r =
    (let rp = compute_release_risk_points r; total = fsum (map snd rp)
     in if total > 0 then map (\<lambda>(name, points). (name, py_round 1 (fmul (fdiv points total) 100))) rp
        else [])"

definition contribution_of :: "release_inputs \<Rightarrow> string \<Rightarrow> pyfloat" where
  "contribution_of r name = (case map_of (contribution_by_metric r) name of None \<Rightarrow> 0 | Some v \<Rightarrow> v)"

definition with_contribution :: "release_inputs \<Rightarrow> risk_item \<Rightarrow> risk_item" where
  "with_contribution r item = item\<lparr>ri_contribution_pct := contribution_of r (ri_metric_name item)\<rparr>"

text \<open>\<open>max(d, key=...)\<close> on a dict: the first key with the greatest value.\<close>

fun first_max :: "('a \<Rightarrow> 'b::linorder) \<Rightarrow> 'a \<Rightarrow> 'a list \<Rightarrow> 'a" where
  "first_max f best [] = best"
| "first_max f best (x # xs) = first_max f (if f x > f best then x else best) xs"

definition label_by_metric :: "string \<Rightarrow> string" where
  "label_by_metric name =
    the (map_of [(''open_blockers'', ''Open blockers''),
                 (''open_high_severity_bugs'', ''High severity bugs''),
                 (''scope_churn_7d_pct'', ''Scope churn''),
                 (''reopen_rate_pct'', ''Reopen events per 100 eligible tickets''),
                 (''median_cycle_time_days'', ''Cycle time'')] name)"

record primary_risk =
  pr_metric_name :: string
  pr_label :: string
  pr_message :: string
  pr_contribution_pct :: pyfloat

definition primary_risk_of :: "release_inputs \<Rightarrow> primary_risk option" where
  "primary_risk_of r =
    (case compute_release_risk_points r of
       [] \<Rightarrow> None
     | p # ps \<Rightarrow>
        (let name = fst (first_max snd p ps); c = contribution_of r name
         in Some \<lparr>pr_metric_name = name, pr_label = label_by_metric name,
              pr_message = label_by_metric name @ '' contribute '' @ format_fixed 0 c
                @ ''% of total release risk.'',
              pr_contribution_pct = c\<rparr>))"

fun status_label :: "signal \<Rightarrow> string" where
  "status_label (Level RED) = ''NOT READY FOR RELEASE''"
| "status_label (Level YELLOW) = ''RELEASE NEEDS ATTENTION''"
| "status_label (Level GREEN) = ''READY FOR RELEASE''"
| "status_label INCONCLUSIVE = ''INCONCLUSIVE''"
| "status_label SIGNAL_NOT_COMPUTED = ''NOT COMPUTED''"

fun status_summary :: "signal \<Rightarrow> string" where
  "status_summary (Level RED) = ''Current release confidence is in the red band.''"
| "status_summary (Level YELLOW) = ''Current release confidence is in the yellow band.''"
| "status_summary (Level GREEN) = ''Current release confidence is in the green band.''"
| "status_summary INCONCLUSIVE =
     ''Release status is inconclusive because required metric inputs are unavailable or incomplete.''"
| "status_summary SIGNAL_NOT_COMPUTED =
     ''Release signal is not computed because no tickets are assigned to this release.''"

record readiness =
  rn_signal :: signal
  rn_status_label :: string
  rn_confidence_score :: "pyfloat option"
  rn_summary :: string
  rn_release_gates :: "release_gate list"
  rn_critical_risks :: "risk_item list"
  rn_warnings :: "risk_item list"
  rn_primary_risk :: "primary_risk option"

definition build_release_readiness_details :: "release_inputs \<Rightarrow> readiness" where
  "build_release_readiness_details r =
    (let sig = fst (evaluate_signal_with_details r)
     in \<lparr>rn_signal = sig,
         rn_status_label = status_label sig,
         rn_confidence_score =
           (if scope_churn_7d_pct r \<noteq> None \<and> reopen_rate_pct r \<noteq> None
               \<and> median_cycle_time_days r \<noteq> None
            then Some (compute_release_confidence_score r) else None),
         rn_summary = status_summary sig,
         rn_release_gates = release_gates r,
         rn_critical_risks = map (with_contribution r) (critical_risk_items r),
         rn_warnings = map (with_contribution r) (warning_items r),
         rn_primary_risk = primary_risk_of r\<rparr>)"

subsection \<open>The score is an exact integer\<close>

text \<open>Every weight is a small integer, so neither the sum of the points nor the final rounding
  loses anything.\<close>

fun int_points :: "release_inputs \<Rightarrow> int list" where
  "int_points r =
     (if open_blockers r > 0 then [28] else [])
   @ (if open_high_severity_bugs r > 1 then [18] else if open_high_severity_bugs r > 0 then [9] else [])
   @ (if above (scope_churn_7d_pct r) 20 then [8] else if above (scope_churn_7d_pct r) 10 then [4] else [])
   @ (if above (reopen_rate_pct r) 15 then [6] else if above (reopen_rate_pct r) 10 then [3] else [])
   @ (if above (median_cycle_time_days r) 7 then [4] else [])"

lemma risk_points_ints: "map snd (compute_release_risk_points r) = map of_int (int_points r)"
  by (simp add: compute_release_risk_points_def signal_simps)

lemma int_points_bounds:
  "k \<in> set (int_points r) \<Longrightarrow> 0 < k" "0 \<le> sum_list (int_points r)" "sum_list (int_points r) \<le> 64"
  by (auto split: if_splits)

declare int_points.simps [simp del]

lemma fsum_risk_points:
  "fsum (map snd (compute_release_risk_points r)) = of_int (sum_list (int_points r))"
  unfolding risk_points_ints
proof (rule fsum_ints)
  fix k assume "k \<in> set (int_points r)"
  then show "0 \<le> k" by (rule less_imp_le [OF int_points_bounds(1)])
next
  show "sum_list (int_points r) \<le> 2 ^ 53" using int_points_bounds(3) [of r] by simp
qed

lemma confidence_score_int:
  "compute_release_confidence_score r = of_int (100 - sum_list (int_points r))"
proof -
  define k where "k = sum_list (int_points r)"
  have k: "0 \<le> k" "k \<le> 64" using int_points_bounds(2,3) [of r] by (simp_all add: k_def)
  have "fsub 100 (of_int k) = of_int (100 - k)" using fsub_ints [of 100 k] k by simp
  moreover have "(0 :: rat) \<le> of_int (100 - k)" using k by (simp only: of_int_0_le_iff)
  ultimately show ?thesis using py_round_int [of "100 - k" 1] k
    by (simp add: compute_release_confidence_score_def fsum_risk_points max_def flip: k_def)
qed

lemma int_points_Nil_iff: "int_points r = [] \<longleftrightarrow> compute_release_risk_points r = []"
  using arg_cong [OF risk_points_ints [of r], of length] by auto

subsection \<open>Ratios and percentages\<close>

text \<open>The hard rules divide the percentage by 100 and compare with the threshold divided by 100,
  the risk points compare percentages. On doubles both comparisons agree.\<close>

lemma ratio_above:
  assumes "is_double x" and "0 < c" and "c = of_int k * 2 powi ulp_exp c"
    and "fl (c / 100) < fl ((c + 2 powi ulp_exp c) / 100)"
  shows "fl (c / 100) < fdiv x 100 \<longleftrightarrow> c < x"
proof
  assume "c < x"
  then have "c + 2 powi ulp_exp c \<le> x" using assms by (intro is_double_next)
  then have "fl ((c + 2 powi ulp_exp c) / 100) \<le> fdiv x 100"
    unfolding fdiv_def by (intro fl_mono divide_right_mono) simp_all
  then show "fl (c / 100) < fdiv x 100" using assms(4) by simp
next
  assume l: "fl (c / 100) < fdiv x 100"
  show "c < x"
  proof (rule ccontr)
    assume "\<not> c < x"
    then have "fdiv x 100 \<le> fl (c / 100)" unfolding fdiv_def by (intro fl_mono divide_right_mono) simp_all
    with l show False by simp
  qed
qed

lemma threshold_grid:
  "(20 :: rat) = of_int (20 * 2 ^ 48) * 2 powi ulp_exp 20"
  "(15 :: rat) = of_int (15 * 2 ^ 49) * 2 powi ulp_exp 15"
  "(10 :: rat) = of_int (10 * 2 ^ 49) * 2 powi ulp_exp 10"
  by code_simp+

lemma threshold_steps:
  "fl (20 / 100) < fl ((20 + 2 powi ulp_exp 20) / 100)"
  "fl (15 / 100) < fl ((15 + 2 powi ulp_exp 15) / 100)"
  "fl (10 / 100) < fl ((10 + 2 powi ulp_exp 10) / 100)"
  by code_simp+

lemma ratio_above_thresholds:
  assumes "is_double x"
  shows "SCOPE_CHURN_RED_THRESHOLD < fdiv x 100 \<longleftrightarrow> 20 < x"
    and "SCOPE_CHURN_YELLOW_THRESHOLD < fdiv x 100 \<longleftrightarrow> 10 < x"
    and "REOPEN_RATE_RED_THRESHOLD < fdiv x 100 \<longleftrightarrow> 15 < x"
    and "REOPEN_RATE_YELLOW_THRESHOLD < fdiv x 100 \<longleftrightarrow> 10 < x"
  unfolding ratio_thresholds
  using ratio_above [OF assms _ threshold_grid(1) threshold_steps(1)]
    ratio_above [OF assms _ threshold_grid(2) threshold_steps(2)]
    ratio_above [OF assms _ threshold_grid(3) threshold_steps(3)] by simp_all

text \<open>Inputs as the metrics produce them: rounded percentages and days are doubles.\<close>

definition double_inputs :: "release_inputs \<Rightarrow> bool" where
  "double_inputs r \<longleftrightarrow> pred_option is_double (scope_churn_7d_pct r)
     \<and> pred_option is_double (reopen_rate_pct r) \<and> pred_option is_double (median_cycle_time_days r)"

definition red_metrics :: "release_inputs \<Rightarrow> string list" where
  "red_metrics r = (if open_blockers r > 0 then [''open_blockers''] else [])
     @ (if open_high_severity_bugs r > 1 then [''open_high_severity_bugs''] else [])
     @ (if above (scope_churn_7d_pct r) 20 then [''scope_churn_7d_pct''] else [])
     @ (if above (reopen_rate_pct r) 15 then [''reopen_rate_pct''] else [])"

definition yellow_metrics :: "release_inputs \<Rightarrow> string list" where
  "yellow_metrics r =
       (if open_high_severity_bugs r > 0 \<and> \<not> open_high_severity_bugs r > 1
        then [''open_high_severity_bugs''] else [])
     @ (if above (scope_churn_7d_pct r) 10 \<and> \<not> above (scope_churn_7d_pct r) 20
        then [''scope_churn_7d_pct''] else [])
     @ (if above (reopen_rate_pct r) 10 \<and> \<not> above (reopen_rate_pct r) 15
        then [''reopen_rate_pct''] else [])
     @ (if above (median_cycle_time_days r) 7 then [''median_cycle_time_days''] else [])"

lemma map_if_detail:
  "map rd_metric_name (if P then [gt_detail n l v t m] else []) = (if P then [n] else [])"
  by simp

lemma red_details_metrics:
  assumes "double_inputs r"
  shows "map rd_metric_name (red_details r) = red_metrics r"
  using assms unfolding red_details_def red_metrics_def map_append
  by (cases "scope_churn_7d_pct r"; cases "reopen_rate_pct r")
    (simp_all add: map_if_detail double_inputs_def ratio_above_thresholds int_thresholds
      del: map_append split del: if_split)

lemma ratio_upto_thresholds:
  assumes "is_double x"
  shows "fdiv x 100 \<le> SCOPE_CHURN_RED_THRESHOLD \<longleftrightarrow> \<not> 20 < x"
    and "fdiv x 100 \<le> REOPEN_RATE_RED_THRESHOLD \<longleftrightarrow> \<not> 15 < x"
  using ratio_above_thresholds(1,3) [OF assms] by (simp_all add: linorder_not_less [symmetric])

lemma yellow_details_metrics:
  assumes "double_inputs r"
  shows "map rd_metric_name (yellow_details r) = yellow_metrics r"
  using assms unfolding yellow_details_def yellow_metrics_def map_append
  by (cases "scope_churn_7d_pct r"; cases "reopen_rate_pct r"; cases "median_cycle_time_days r")
    (simp_all add: map_if_detail double_inputs_def ratio_above_thresholds
      ratio_upto_thresholds signal_simps del: map_append split del: if_split)

subsection \<open>Properties of the rules\<close>

lemma risk_point_metrics:
  "map fst (compute_release_risk_points r) =
     (if open_blockers r > 0 then [''open_blockers''] else [])
   @ (if open_high_severity_bugs r > 0 then [''open_high_severity_bugs''] else [])
   @ (if above (scope_churn_7d_pct r) 10 then [''scope_churn_7d_pct''] else [])
   @ (if above (reopen_rate_pct r) 10 then [''reopen_rate_pct''] else [])
   @ (if above (median_cycle_time_days r) 7 then [''median_cycle_time_days''] else [])"
proof -
  have "above v 20 \<Longrightarrow> above v 10" "above v 15 \<Longrightarrow> above v 10" for v
    by (cases v; simp)+
  then show ?thesis by (simp add: compute_release_risk_points_def signal_simps)
qed

lemma risk_points_Nil_iff:
  assumes "double_inputs r"
  shows "compute_release_risk_points r = [] \<longleftrightarrow> red_details r = [] \<and> yellow_details r = []"
proof -
  have a: "above v 20 \<Longrightarrow> above v 10" "above v 15 \<Longrightarrow> above v 10" for v
    by (cases v; simp)+
  have "compute_release_risk_points r = [] \<longleftrightarrow> map fst (compute_release_risk_points r) = []" by simp
  also have "\<dots> \<longleftrightarrow> red_metrics r = [] \<and> yellow_metrics r = []"
    unfolding risk_point_metrics red_metrics_def yellow_metrics_def by (auto dest: a)
  also have "\<dots> \<longleftrightarrow> red_details r = [] \<and> yellow_details r = []"
    using red_details_metrics [OF assms] yellow_details_metrics [OF assms] by (metis map_is_Nil_conv)
  finally show ?thesis .
qed

text \<open>Without a red detail the points stay below 40, and without any detail there are none.\<close>

lemma points_without_red:
  assumes "double_inputs r" and "red_details r = []"
  shows "sum_list (int_points r) \<le> 20"
proof -
  have "red_metrics r = []" using red_details_metrics [OF assms(1)] assms(2) by simp
  then show ?thesis by (auto simp: red_metrics_def int_points.simps split: if_splits)
qed

lemma band_of_score:
  "signal_from_confidence_score (compute_release_confidence_score r)
    = (if sum_list (int_points r) \<ge> 40 then RED else if sum_list (int_points r) \<ge> 10 then YELLOW
       else GREEN)"
proof -
  have "of_int (100 - n) \<le> (60 :: rat) \<longleftrightarrow> n \<ge> 40" "of_int (100 - n) \<le> (90 :: rat) \<longleftrightarrow> n \<ge> 10" for n
    using of_int_le_iff [of "100 - n" 60, where 'a = rat]
      of_int_le_iff [of "100 - n" 90, where 'a = rat] by auto
  then show ?thesis by (simp add: signal_from_confidence_score_def confidence_score_int signal_simps)
qed

lemma band_le_hard_rules:
  assumes "double_inputs r"
  shows "signal_from_confidence_score (compute_release_confidence_score r) \<le> hard_rule_signal r"
proof (cases "red_details r = []")
  case False
  then show ?thesis by (cases "signal_from_confidence_score (compute_release_confidence_score r)")
      (simp_all add: hard_rule_signal_def less_eq_level_def)
next
  case True
  then have p: "sum_list (int_points r) \<le> 20" using points_without_red [OF assms] by simp
  show ?thesis
  proof (cases "yellow_details r = []")
    case True
    then have "int_points r = []"
      using \<open>red_details r = []\<close> risk_points_Nil_iff [OF assms] int_points_Nil_iff by simp
    then show ?thesis by (simp add: band_of_score less_eq_level_def)
  qed (use p True in \<open>simp add: band_of_score hard_rule_signal_def less_eq_level_def\<close>)
qed

definition inputs_known :: "release_inputs \<Rightarrow> bool" where
  "inputs_known r \<longleftrightarrow> scope_churn_7d_pct r \<noteq> None \<and> reopen_rate_pct r \<noteq> None
     \<and> median_cycle_time_days r \<noteq> None"

lemma signal_of_known:
  "inputs_known r \<Longrightarrow> fst (evaluate_signal_with_details r)
     = Level (max (hard_rule_signal r) (signal_from_confidence_score (compute_release_confidence_score r)))"
  by (auto simp: evaluate_signal_with_details_def inputs_known_def most_severe_signal_def Let_def)

lemma signal_of_unknown:
  "\<not> inputs_known r \<Longrightarrow> fst (evaluate_signal_with_details r)
     = (if hard_rule_signal r = RED then Level RED else INCONCLUSIVE)"
  by (auto simp: evaluate_signal_with_details_def inputs_known_def Let_def)

lemma hard_rule_RED_iff: "hard_rule_signal r = RED \<longleftrightarrow> red_details r \<noteq> []"
  by (simp add: hard_rule_signal_def)

text \<open>A concrete release, used by the witnesses: two open blockers, one severe bug, churn 12.5 percent,
  no reopened ticket and a median cycle time of 8 days.\<close>

definition sample_inputs :: release_inputs where
  "sample_inputs = \<lparr>open_blockers = 2, open_high_severity_bugs = 1, scope_churn_7d_pct = Some (25 / 2),
     reopen_rate_pct = Some 0, median_cycle_time_days = Some 8\<rparr>"

lemma sample_doubles: "double_inputs sample_inputs"
proof -
  have "is_double (25 / 2)" "is_double 0" "is_double 8" by code_simp+
  then show ?thesis by (simp add: double_inputs_def sample_inputs_def)
qed

lemma sample_known: "inputs_known sample_inputs"
  by (simp add: inputs_known_def sample_inputs_def)

text \<open>The confidence score is exactly 100 minus the integer risk points, whatever the inputs: no
  rounding error, between 36 and 100, and 100 exactly when no rule adds a point.\<close>

theorem confidence_score_exact:
  "\<exists>k. compute_release_confidence_score r = of_int k \<and> 36 \<le> k \<and> k \<le> 100
     \<and> (k = 100 \<longleftrightarrow> compute_release_risk_points r = [])"
proof (intro exI conjI)
  let ?k = "100 - sum_list (int_points r)"
  show "compute_release_confidence_score r = of_int ?k" by (rule confidence_score_int)
  show "36 \<le> ?k" "?k \<le> 100" using int_points_bounds(2,3) [of r] by simp_all
  have "sum_list ks = 0 \<longleftrightarrow> ks = []" if "\<And>k. k \<in> set ks \<Longrightarrow> 0 < k" for ks :: "int list"
    using that by (cases ks) (auto simp: add_nonneg_eq_0_iff less_imp_le sum_list_nonneg dest: less_imp_le)
  from this [OF int_points_bounds(1)] show "?k = 100 \<longleftrightarrow> compute_release_risk_points r = []"
    by (simp add: int_points_Nil_iff)
qed



text \<open>Green is given only to a release with every input known and no risk point at all, and always
  to such a release; red exactly when a red rule fires, whether or not inputs are missing; with a missing
  input and no red rule the signal is inconclusive, never green or yellow.\<close>

theorem signal_cases:
  assumes "double_inputs r"
  shows "(fst (evaluate_signal_with_details r) = Level GREEN \<longleftrightarrow>
            inputs_known r \<and> compute_release_risk_points r = [])
       \<and> (fst (evaluate_signal_with_details r) = Level RED \<longleftrightarrow> red_details r \<noteq> [])
       \<and> (fst (evaluate_signal_with_details r) = INCONCLUSIVE \<longleftrightarrow>
            \<not> inputs_known r \<and> red_details r = [])"
  using band_le_hard_rules [OF assms]
  by (cases "inputs_known r"; simp add: signal_of_known signal_of_unknown max_absorb1
      risk_points_Nil_iff [OF assms] hard_rule_signal_def)

lemma signal_cases_witness:
  "fst (evaluate_signal_with_details sample_inputs) = Level RED"
proof -
  have "red_details sample_inputs \<noteq> []"
    by (simp add: red_details_def sample_inputs_def signal_simps)
  with signal_cases [OF sample_doubles] show ?thesis by blast
qed

text \<open>A red signal is the failure of a release gate other than the cycle time gate: the gates, which
  compare percentages, and the red rules, which compare ratios, never disagree.\<close>

theorem gates_agree_with_red:
  assumes "double_inputs r"
  shows "fst (evaluate_signal_with_details r) = Level RED \<longleftrightarrow>
    (\<exists>g \<in> set (release_gates r). gate_metric_name g \<noteq> ''median_cycle_time_days'' \<and> \<not> gate_passed g)"
proof -
  have "red_details r \<noteq> [] \<longleftrightarrow> red_metrics r \<noteq> []"
    using red_details_metrics [OF assms] by (metis map_is_Nil_conv)
  moreover have "fst (evaluate_signal_with_details r) = Level RED \<longleftrightarrow> red_details r \<noteq> []"
    using band_le_hard_rules [OF assms]
    by (cases "inputs_known r"; simp add: signal_of_known signal_of_unknown max_absorb1 hard_rule_signal_def)
  moreover have "red_metrics r \<noteq> [] \<longleftrightarrow>
    (\<exists>g \<in> set (release_gates r). gate_metric_name g \<noteq> ''median_cycle_time_days'' \<and> \<not> gate_passed g)"
    by (cases "scope_churn_7d_pct r"; cases "reopen_rate_pct r")
      (auto simp: red_metrics_def release_gates_def signal_simps not_less)
  ultimately show ?thesis by simp
qed

lemma gates_agree_with_red_witness:
  "(fst (evaluate_signal_with_details sample_inputs) = Level RED) =
    (\<exists>g \<in> set (release_gates sample_inputs).
       gate_metric_name g \<noteq> ''median_cycle_time_days'' \<and> \<not> gate_passed g)"
  by (rule gates_agree_with_red [OF sample_doubles])

text \<open>More risk in every input, where each one is known.\<close>

definition riskier :: "release_inputs \<Rightarrow> release_inputs \<Rightarrow> bool" where
  "riskier a b \<longleftrightarrow> open_blockers a \<le> open_blockers b
     \<and> open_high_severity_bugs a \<le> open_high_severity_bugs b
     \<and> (\<forall>t. above (scope_churn_7d_pct a) t \<longrightarrow> above (scope_churn_7d_pct b) t)
     \<and> (\<forall>t. above (reopen_rate_pct a) t \<longrightarrow> above (reopen_rate_pct b) t)
     \<and> (\<forall>t. above (median_cycle_time_days a) t \<longrightarrow> above (median_cycle_time_days b) t)"

lemma above_mono: "x \<le> y \<Longrightarrow> above (Some x) t \<Longrightarrow> above (Some y) t"
  by simp

lemma above_both: "above v 20 \<Longrightarrow> above v 10" "above v 15 \<Longrightarrow> above v 10"
  by (cases v; simp)+

lemma riskier_points:
  assumes "riskier a b"
  shows "sum_list (int_points a) \<le> sum_list (int_points b)"
proof -
  have "(if P then p else if Q then q else 0) \<le> (if P' then p else if Q' then q else (0 :: int))"
    if "P \<Longrightarrow> P'" "Q \<Longrightarrow> Q'" "P' \<Longrightarrow> Q'" "0 \<le> q" "q \<le> p" for P P' Q Q' p q
    using that by auto
  note step = this
  have sum: "sum_list (int_points r) = (if open_blockers r > 0 then 28 else if open_blockers r > 0 then 28 else 0)
    + (if open_high_severity_bugs r > 1 then 18 else if open_high_severity_bugs r > 0 then 9 else 0)
    + (if above (scope_churn_7d_pct r) 20 then 8 else if above (scope_churn_7d_pct r) 10 then 4 else 0)
    + (if above (reopen_rate_pct r) 15 then 6 else if above (reopen_rate_pct r) 10 then 3 else 0)
    + (if above (median_cycle_time_days r) 7 then 4 else if above (median_cycle_time_days r) 7 then 4 else 0)"
    for r by (simp add: int_points.simps)
  show ?thesis unfolding sum
    by (intro add_mono step; use assms above_both in \<open>auto simp: riskier_def\<close>)
qed

text \<open>C12: The score is monotone: whenever every input of one release is at least as bad as the same
  input of another (an unknown ratio counts as no risk), its confidence score is no higher and its band
  is at least as severe.\<close>

theorem confidence_antitone:
  assumes "riskier a b"
  shows "compute_release_confidence_score b \<le> compute_release_confidence_score a
    \<and> signal_from_confidence_score (compute_release_confidence_score a)
       \<le> signal_from_confidence_score (compute_release_confidence_score b)"
proof
  show "compute_release_confidence_score b \<le> compute_release_confidence_score a"
    using riskier_points [OF assms] by (simp only: confidence_score_int of_int_le_iff)
  show "signal_from_confidence_score (compute_release_confidence_score a)
       \<le> signal_from_confidence_score (compute_release_confidence_score b)"
    using riskier_points [OF assms] by (simp add: band_of_score less_eq_level_def)
qed

definition worse_inputs :: release_inputs where
  "worse_inputs = sample_inputs\<lparr>open_high_severity_bugs := 2, reopen_rate_pct := Some 20\<rparr>"

lemma confidence_antitone_witness:
  "compute_release_confidence_score worse_inputs \<le> compute_release_confidence_score sample_inputs"
proof -
  have "riskier sample_inputs worse_inputs"
    by (simp add: riskier_def worse_inputs_def sample_inputs_def)
  from confidence_antitone [OF this] show ?thesis by blast
qed

lemma map_if_risk: "map ri_metric_name (if P then [mk_risk n l m v] else []) = (if P then [n] else [])"
  by (simp add: mk_risk_def)

lemma with_contribution_name [simp]: "ri_metric_name (with_contribution r i) = ri_metric_name i"
  by (simp add: with_contribution_def)

lemma critical_metrics:
  "map ri_metric_name (critical_risk_items r) =
     (if open_blockers r > 0 then [''open_blockers''] else [])
   @ (if open_high_severity_bugs r > 1 then [''open_high_severity_bugs''] else [])"
  by (simp add: critical_risk_items_def mk_risk_def signal_simps)

lemma warning_metrics:
  "map ri_metric_name (warning_items r) =
     (if \<not> open_high_severity_bugs r > 1 \<and> open_high_severity_bugs r > 0
      then [''open_high_severity_bugs''] else [])
   @ (if above (scope_churn_7d_pct r) 10 then [''scope_churn_7d_pct''] else [])
   @ (if above (reopen_rate_pct r) 10 then [''reopen_rate_pct''] else [])
   @ (if above (median_cycle_time_days r) 7 then [''median_cycle_time_days''] else [])"
proof -
  have "x > (20::rat) \<or> x > 10 \<longleftrightarrow> x > 10" "x > (15::rat) \<or> x > 10 \<longleftrightarrow> x > 10" for x by auto
  then show ?thesis
    unfolding warning_items_def map_append
    by (cases "scope_churn_7d_pct r"; cases "reopen_rate_pct r"; cases "median_cycle_time_days r")
      (simp_all add: map_if_risk signal_simps del: map_append split del: if_split)
qed

text \<open>The readiness details list as critical risks followed by warnings exactly the metrics that add
  risk points, each once and in the order of the points.\<close>

theorem risks_are_risk_points:
  "map ri_metric_name (rn_critical_risks (build_release_readiness_details r)
     @ rn_warnings (build_release_readiness_details r)) = map fst (compute_release_risk_points r)
   \<and> distinct (map fst (compute_release_risk_points r))"
proof
  show "map ri_metric_name (rn_critical_risks (build_release_readiness_details r)
     @ rn_warnings (build_release_readiness_details r)) = map fst (compute_release_risk_points r)"
    by (simp add: build_release_readiness_details_def Let_def comp_def critical_metrics [unfolded comp_def]
        warning_metrics risk_point_metrics)
  show "distinct (map fst (compute_release_risk_points r))"
    unfolding risk_point_metrics by simp
qed

subsection \<open>Primary risk\<close>

lemma first_max_in: "first_max f x xs \<in> set (x # xs)"
  by (induction xs arbitrary: x) auto

lemma first_max_ge: "y \<in> set (x # xs) \<Longrightarrow> f y \<le> f (first_max f x xs)"
proof (induction xs arbitrary: x y)
  case (Cons a xs)
  let ?m = "if f a > f x then a else x"
  have "f x \<le> f ?m" "f a \<le> f ?m" by auto
  moreover have "f ?m \<le> f (first_max f ?m xs)" by (rule Cons.IH) simp
  moreover have "y \<in> set xs \<Longrightarrow> f y \<le> f (first_max f ?m xs)" by (rule Cons.IH) simp
  ultimately show ?case using Cons.prems by auto
qed simp

text \<open>The primary risk exists exactly when some metric adds risk points; it is one of those
  metrics and none has more points.\<close>

theorem primary_risk_maximal:
  "case primary_risk_of r of
     None \<Rightarrow> compute_release_risk_points r = []
   | Some p \<Rightarrow> (\<exists>w. (pr_metric_name p, w) \<in> set (compute_release_risk_points r)
       \<and> (\<forall>(n, v) \<in> set (compute_release_risk_points r). v \<le> w))"
proof (cases "compute_release_risk_points r")
  case Nil
  then show ?thesis by (simp add: primary_risk_of_def)
next
  case (Cons q qs)
  define m where "m = first_max snd q qs"
  have "(fst m, snd m) \<in> set (q # qs)" using first_max_in [of snd q qs] by (simp add: m_def)
  moreover have "\<forall>(n, v) \<in> set (q # qs). v \<le> snd m"
    using first_max_ge [of _ q qs snd] unfolding m_def by (metis (no_types, lifting) case_prodI2 snd_conv)
  ultimately have "\<exists>w. (fst m, w) \<in> set (q # qs) \<and> (\<forall>(n, v) \<in> set (q # qs). v \<le> w)" by blast
  then show ?thesis unfolding primary_risk_of_def Cons by (simp add: Let_def m_def [symmetric])
qed

lemma primary_risk_maximal_witness:
  "\<exists>w. (pr_metric_name (the (primary_risk_of sample_inputs)), w)
      \<in> set (compute_release_risk_points sample_inputs)"
proof -
  have "compute_release_risk_points sample_inputs \<noteq> []"
    by (simp add: compute_release_risk_points_def sample_inputs_def signal_simps)
  with primary_risk_maximal [of sample_inputs] show ?thesis
    by (auto split: option.splits)
qed

end
