(* ===== verification/StoryPoints.thy ===== *)
theory StoryPoints
  imports Catalog
begin

text \<open>
  Story points in services/analytics_service.py: which stored values count, the coverage of a set of
  issues, and the workload distribution of a sprint with its evidence (the method
  \<open>_compute_workload_distribution\<close>). The local closure \<open>evidence\<close> of that method is the record
  update of \<open>base_evidence\<close>.
\<close>

subsection \<open>Computation status\<close>

datatype computation_status = COMPUTED | PARTIAL | NOT_COMPUTED | NOT_APPLICABLE | STATUS_INCONCLUSIVE

subsection \<open>What a metric result promises\<close>

text \<open>A value is given exactly in the computed state, and never while evidence is missing.\<close>

locale evidence_metric =
  fixes status :: "'r \<Rightarrow> computation_status" and metric :: "'r \<Rightarrow> pyfloat option"
    and missing :: "'r \<Rightarrow> string list" and produced :: "'r \<Rightarrow> bool"
  assumes value_iff: "produced r \<Longrightarrow> metric r \<noteq> None \<longleftrightarrow> status r = COMPUTED"
    and complete: "produced r \<Longrightarrow> status r = COMPUTED \<Longrightarrow> missing r = []"
    and nonneg: "produced r \<Longrightarrow> metric r = Some v \<Longrightarrow> 0 \<le> v"
begin

lemma value_complete: "produced r \<Longrightarrow> metric r = Some v \<Longrightarrow> missing r = []"
  using value_iff complete by (metis option.distinct(1))

lemma missing_no_value: "produced r \<Longrightarrow> missing r \<noteq> [] \<Longrightarrow> metric r = None"
  using value_complete by (metis not_None_eq)

end

subsection \<open>Valid story points and their coverage\<close>

fun valid_story_points :: "py_number option \<Rightarrow> pyfloat option" where
  "valid_story_points (Some (PyInt i)) = (if fint i < 0 then None else Some (fint i))"
| "valid_story_points (Some (PyFloat x)) = (if x < 0 then None else Some x)"
| "valid_story_points _ = None"

definition story_points :: "issue \<Rightarrow> pyfloat" where
  "story_points i = (case valid_story_points (issue_story_points i) of None \<Rightarrow> 0 | Some v \<Rightarrow> v)"

definition is_pointed :: "issue \<Rightarrow> bool" where
  "is_pointed i \<longleftrightarrow> valid_story_points (issue_story_points i) \<noteq> None"

record story_point_coverage =
  cov_total_ticket_count :: int
  cov_pointed_ticket_count :: int
  cov_unpointed_ticket_count :: int
  cov_coverage_pct :: pyfloat
  cov_unpointed_issue_keys :: "string list"

definition story_point_coverage_of :: "issue list \<Rightarrow> story_point_coverage" where
  "story_point_coverage_of xs =
    (let unpointed = sort (map issue_key (filter (\<lambda>i. \<not> is_pointed i) xs));
         total = int (length xs);
         n = int (length unpointed);
         pointed = total - n
     in \<lparr>cov_total_ticket_count = total, cov_pointed_ticket_count = pointed,
         cov_unpointed_ticket_count = n,
         cov_coverage_pct = (if total = 0 then 0 else pct2 pointed total),
         cov_unpointed_issue_keys = unpointed\<rparr>)"

definition MIN_STORY_POINT_COVERAGE_PCT :: pyfloat where
  "MIN_STORY_POINT_COVERAGE_PCT = number_value (coverage_const ''sprint.delivery_confidence_score'')"

lemma min_coverage [simp]: "MIN_STORY_POINT_COVERAGE_PCT = 50"
  by (simp add: MIN_STORY_POINT_COVERAGE_PCT_def catalog_simps)

lemma valid_story_points_nonneg: "valid_story_points v = Some x \<Longrightarrow> 0 \<le> x"
  by (induction v rule: valid_story_points.induct) (auto split: if_splits)

lemma story_points_nonneg [simp]: "0 \<le> story_points i"
  by (auto simp: story_points_def dest: valid_story_points_nonneg split: option.splits)

lemma pointed_count: "cov_pointed_ticket_count (story_point_coverage_of xs) = int (length (filter is_pointed xs))"
  using sum_length_filter_compl [of is_pointed xs] by (simp add: story_point_coverage_of_def Let_def)

lemma coverage_range: "0 \<le> cov_coverage_pct (story_point_coverage_of xs)
    \<and> cov_coverage_pct (story_point_coverage_of xs) \<le> 100"
proof (cases "xs = []")
  case False
  then show ?thesis
    using pct2_range [of "int (length xs) - int (length (filter (\<lambda>i. \<not> is_pointed i) xs))" "int (length xs)"]
    by (simp add: story_point_coverage_of_def Let_def)
qed (simp add: story_point_coverage_of_def)

subsection \<open>Assignee buckets\<close>

record workload_bucket =
  wb_labels :: "string list"
  wb_story_points :: pyfloat
  wb_issue_keys :: "string list"

text \<open>The bucket of an issue, its label, and whether only the display name identifies the assignee.\<close>

definition bucket_of :: "issue \<Rightarrow> string \<times> string \<times> bool" where
  "bucket_of i =
    (let display_name = strip (or_empty (issue_assignee i)); stable_id = strip (or_empty (issue_assignee_id i))
     in if display_name = [] \<and> stable_id = [] then (''unassigned'', ''Unassigned'', False)
        else if stable_id \<noteq> []
        then (''jira:'' @ stable_id, if display_name \<noteq> [] then display_name else stable_id, False)
        else (''display:'' @ casefold display_name, display_name, True))"

definition bucket_key :: "issue \<Rightarrow> string" where "bucket_key i = fst (bucket_of i)"
definition bucket_label :: "issue \<Rightarrow> string" where "bucket_label i = fst (snd (bucket_of i))"
definition uses_name_fallback :: "issue \<Rightarrow> bool" where "uses_name_fallback i = snd (snd (bucket_of i))"

definition add_to_bucket :: "issue \<times> pyfloat \<Rightarrow> workload_bucket option \<Rightarrow> workload_bucket" where
  "add_to_bucket ip old =
    (let b = (case old of None \<Rightarrow> \<lparr>wb_labels = [], wb_story_points = 0, wb_issue_keys = []\<rparr> | Some b \<Rightarrow> b)
     in b\<lparr>wb_labels := wb_labels b @ [bucket_label (fst ip)],
          wb_story_points := fadd (wb_story_points b) (snd ip),
          wb_issue_keys := wb_issue_keys b @ [issue_key (fst ip)]\<rparr>)"

definition workload_buckets :: "(issue \<times> pyfloat) list \<Rightarrow> (string \<times> workload_bucket) list" where
  "workload_buckets included = fold (\<lambda>ip. upsert (bucket_key (fst ip)) (add_to_bucket ip)) included []"

record assignee_total =
  at_assignee_key :: string
  at_assignee :: string
  at_story_points :: pyfloat
  at_issue_keys :: "string list"

definition assignee_total_of :: "string \<times> workload_bucket \<Rightarrow> assignee_total" where
  "assignee_total_of kb = \<lparr>at_assignee_key = fst kb,
     at_assignee = hd (sorted_keys (map strip (wb_labels (snd kb)))),
     at_story_points = py_round 2 (wb_story_points (snd kb)),
     at_issue_keys = sort (wb_issue_keys (snd kb))\<rparr>"

definition assignee_totals_of :: "(string \<times> workload_bucket) list \<Rightarrow> assignee_total list" where
  "assignee_totals_of buckets =
     sort_key (\<lambda>t. (casefold (at_assignee t), at_assignee_key t)) (map assignee_total_of buckets)"

definition top_assignee_of :: "assignee_total list \<Rightarrow> assignee_total" where
  "top_assignee_of totals =
     hd (sort_key (\<lambda>t. (- at_story_points t, casefold (at_assignee t), at_assignee_key t)) totals)"

subsection \<open>Workload distribution of a sprint\<close>

datatype risk_band = Healthy_Band | Watch_Band | Critical_Band

record workload_evidence =
  we_calculation_status :: computation_status
  we_workload_concentration_pct :: "pyfloat option"
  we_current_scope_issue_keys :: "string list"
  we_active_issue_keys :: "string list"
  we_included_active_issue_keys :: "string list"
  we_excluded_active_issue_keys :: "string list"
  we_missing_status_issue_keys :: "string list"
  we_fallback_issue_keys :: "string list"
  we_assignee_totals :: "assignee_total list"
  we_total_active_points :: "pyfloat option"
  we_top_assignee :: "assignee_total option"
  we_risk_band :: "risk_band option"
  we_story_point_coverage :: story_point_coverage

record workload_result =
  wr_status :: computation_status
  wr_value :: "pyfloat option"
  wr_explanations :: "string list"
  wr_missing_issue_keys :: "string list"
  wr_evidence :: workload_evidence

definition has_status :: "issue \<Rightarrow> bool" where
  "has_status i \<longleftrightarrow> normalize_text (issue_status i) \<noteq> []"

definition active_issues_of :: "field_mapping \<Rightarrow> issue list \<Rightarrow> issue list" where
  "active_issues_of fm xs = filter (\<lambda>i. has_status i \<and> \<not> is_done_status fm (issue_status i)) xs"

definition missing_status_keys :: "issue list \<Rightarrow> string list" where
  "missing_status_keys xs = sort (map issue_key (filter (\<lambda>i. \<not> has_status i) xs))"

definition base_evidence ::
  "field_mapping \<Rightarrow> issue list \<Rightarrow> computation_status \<Rightarrow> workload_evidence" where
  "base_evidence fm xs st =
    \<lparr>we_calculation_status = st, we_workload_concentration_pct = None,
     we_current_scope_issue_keys = map issue_key xs,
     we_active_issue_keys = sort (map issue_key (active_issues_of fm xs)),
     we_included_active_issue_keys = [], we_excluded_active_issue_keys = [],
     we_missing_status_issue_keys = missing_status_keys xs,
     we_fallback_issue_keys = [], we_assignee_totals = [], we_total_active_points = None,
     we_top_assignee = None, we_risk_band = None,
     we_story_point_coverage = story_point_coverage_of xs\<rparr>"

definition included_issues :: "issue list \<Rightarrow> (issue \<times> pyfloat) list" where
  "included_issues active = map (\<lambda>i. (i, story_points i)) (filter is_pointed active)"

definition WORKLOAD_CRITICAL_PCT :: pyfloat where
  "WORKLOAD_CRITICAL_PCT = number_value (threshold_const ''sprint.workload_concentration_pct'' Critical)"

definition WORKLOAD_WATCH_PCT :: pyfloat where
  "WORKLOAD_WATCH_PCT = number_value (threshold_const ''sprint.workload_concentration_pct'' Watch)"

definition risk_band_of :: "pyfloat \<Rightarrow> risk_band" where
  "risk_band_of c = (if c > WORKLOAD_CRITICAL_PCT then Critical_Band
     else if c \<ge> WORKLOAD_WATCH_PCT then Watch_Band else Healthy_Band)"

definition workload_explanations :: "story_point_coverage \<Rightarrow> string list \<Rightarrow> string list \<Rightarrow> string list" where
  "workload_explanations cov excluded fallback =
     (if cov_coverage_pct cov < 100
      then [''Workload distribution is partial because current-sprint story-point coverage is ''
              @ py_repr (cov_coverage_pct cov) @ ''%, below 100%.'',
            (if excluded \<noteq> []
             then ''Unpointed active tickets are excluded: '' @ join '', '' excluded @ ''.''
             else ''No active ticket is excluded, but incomplete current-sprint coverage still ''
                  @ ''makes the result partial.'')]
      else [])
   @ (if fallback \<noteq> []
      then [''Workload distribution is partial because normalized assignee display-name ''
             @ ''fallback is used for: '' @ join '', '' fallback @ ''.'']
      else [])"

definition workload_inconclusive_explanations :: "issue list \<Rightarrow> string list" where
  "workload_inconclusive_explanations xs =
     (if cov_coverage_pct (story_point_coverage_of xs) < MIN_STORY_POINT_COVERAGE_PCT
      then [''Workload distribution is inconclusive because fewer than 50% of current-sprint ''
             @ ''tickets have valid story points.''] else [])
   @ (if missing_status_keys xs \<noteq> []
      then [''Workload distribution is inconclusive because current-sprint tickets are ''
             @ ''missing status: '' @ join '', '' (missing_status_keys xs) @ ''.''] else [])"

text \<open>The part of the method that has active pointed issues to distribute.\<close>

definition distribute_workload :: "field_mapping \<Rightarrow> issue list \<Rightarrow> workload_result" where
  "distribute_workload fm xs =
    (let active = active_issues_of fm xs;
         cov = story_point_coverage_of xs;
         included = included_issues active;
         excluded = sort (map issue_key (filter (\<lambda>i. \<not> is_pointed i) active));
         fallback = sort (map issue_key (filter uses_name_fallback (map fst included)));
         totals = assignee_totals_of (workload_buckets included);
         total = py_round 2 (fsum (map at_story_points totals));
         ev = (\<lambda>st. (base_evidence fm xs st)\<lparr>
           we_included_active_issue_keys := sort (map issue_key (map fst included)),
           we_excluded_active_issue_keys := excluded, we_fallback_issue_keys := fallback,
           we_assignee_totals := totals, we_total_active_points := Some total\<rparr>)
     in if total \<le> 0
        then \<lparr>wr_status = NOT_COMPUTED, wr_value = None,
              wr_explanations =
                [''Workload distribution is not computed because included active story points sum to zero.''],
              wr_missing_issue_keys = excluded @ fallback, wr_evidence = ev NOT_COMPUTED\<rparr>
        else let top = top_assignee_of totals;
                 pct = py_round 2 (fdiv (fmul 100 (at_story_points top)) total);
                 st = (if cov_coverage_pct cov < 100 \<or> fallback \<noteq> [] then PARTIAL else COMPUTED)
             in \<lparr>wr_status = st, wr_value = Some pct,
                 wr_explanations = workload_explanations cov excluded fallback,
                 wr_missing_issue_keys = sorted_keys (excluded @ fallback),
                 wr_evidence = (ev st)\<lparr>we_workload_concentration_pct := Some pct,
                   we_top_assignee := Some top, we_risk_band := Some (risk_band_of pct)\<rparr>\<rparr>)"

definition workload_of_issues :: "field_mapping \<Rightarrow> issue list \<Rightarrow> workload_result" where
  "workload_of_issues fm xs =
    (if xs = []
     then \<lparr>wr_status = NOT_COMPUTED, wr_value = None,
           wr_explanations = [''Workload distribution is not computed because the sprint has no tickets.''],
           wr_missing_issue_keys = [], wr_evidence = base_evidence fm xs NOT_COMPUTED\<rparr>
     else if workload_inconclusive_explanations xs \<noteq> []
     then \<lparr>wr_status = STATUS_INCONCLUSIVE, wr_value = None,
           wr_explanations = workload_inconclusive_explanations xs,
           wr_missing_issue_keys = sorted_keys
             (cov_unpointed_issue_keys (story_point_coverage_of xs) @ missing_status_keys xs),
           wr_evidence = base_evidence fm xs STATUS_INCONCLUSIVE\<rparr>
     else if active_issues_of fm xs = []
     then \<lparr>wr_status = NOT_APPLICABLE, wr_value = None,
           wr_explanations =
             [''Workload distribution does not apply because the sprint has no active tickets.''],
           wr_missing_issue_keys = [], wr_evidence = base_evidence fm xs NOT_APPLICABLE\<rparr>
     else distribute_workload fm xs)"

definition compute_workload_distribution :: "store \<Rightarrow> field_mapping \<Rightarrow> string \<Rightarrow> workload_result" where
  "compute_workload_distribution db fm sid = workload_of_issues fm (list_sprint_issues db sid)"

subsection \<open>Buckets partition the included issues\<close>

definition bucket_keys_mset :: "(string \<times> workload_bucket) list \<Rightarrow> string multiset" where
  "bucket_keys_mset m = (\<Sum>b \<leftarrow> m. mset (wb_issue_keys (snd b)))"

lemma bucket_keys_mset_upsert:
  "bucket_keys_mset (upsert k (add_to_bucket ip) m) = add_mset (issue_key (fst ip)) (bucket_keys_mset m)"
  by (induction k "add_to_bucket ip" m rule: upsert.induct)
    (auto simp: bucket_keys_mset_def add_to_bucket_def Let_def)

lemma workload_buckets_mset:
  "bucket_keys_mset (workload_buckets inc) = mset (map (issue_key \<circ> fst) inc)"
proof -
  have "bucket_keys_mset (fold (\<lambda>ip. upsert (bucket_key (fst ip)) (add_to_bucket ip)) inc m)
      = mset (map (issue_key \<circ> fst) inc) + bucket_keys_mset m" for m
    by (induction inc arbitrary: m) (auto simp: bucket_keys_mset_upsert)
  from this [of "[]"] show ?thesis by (simp add: workload_buckets_def bucket_keys_mset_def)
qed

text \<open>One bucket per key, holding what the included issues of that key put there, in order.\<close>

definition bucket_of_issues :: "(issue \<times> pyfloat) list \<Rightarrow> workload_bucket option" where
  "bucket_of_issues inc = fold (\<lambda>ip old. Some (add_to_bucket ip old)) inc None"

lemma workload_buckets_lookup:
  "map_of (workload_buckets inc) k = bucket_of_issues (filter (\<lambda>ip. bucket_key (fst ip) = k) inc)"
proof -
  have "map_of (fold (\<lambda>ip. upsert (bucket_key (fst ip)) (add_to_bucket ip)) inc m) k
      = fold (\<lambda>ip old. Some (add_to_bucket ip old)) (filter (\<lambda>ip. bucket_key (fst ip) = k) inc) (map_of m k)"
    for m by (induction inc arbitrary: m) auto
  from this [of "[]"] show ?thesis by (simp add: workload_buckets_def bucket_of_issues_def)
qed

lemma distinct_workload_buckets: "distinct (map fst (workload_buckets inc))"
proof -
  have "distinct (map fst m) \<Longrightarrow>
      distinct (map fst (fold (\<lambda>ip. upsert (bucket_key (fst ip)) (add_to_bucket ip)) inc m))" for m
    by (induction inc arbitrary: m) auto
  then show ?thesis by (simp add: workload_buckets_def)
qed

lemma hd_sort_key_min:
  assumes "x \<in> set xs"
  shows "hd (sort_key f xs) \<in> set xs \<and> f (hd (sort_key f xs)) \<le> f x"
proof -
  define ys where "ys = sort_key f xs"
  have s: "sorted (map f ys)" and m: "set ys = set xs" by (simp_all add: ys_def)
  from assms m obtain y zs where c: "ys = y # zs" by (cases ys) auto
  with m assms have "x = y \<or> x \<in> set zs" by auto
  then have "f y \<le> f x" using s c by auto
  then show ?thesis using m c by (auto simp flip: ys_def)
qed

lemma top_assignee_max:
  assumes "t \<in> set totals"
  shows "top_assignee_of totals \<in> set totals"
    and "at_story_points t \<le> at_story_points (top_assignee_of totals)"
proof -
  note h = hd_sort_key_min [OF assms, of "\<lambda>t. (- at_story_points t, casefold (at_assignee t), at_assignee_key t)"]
  then show "top_assignee_of totals \<in> set totals" by (simp add: top_assignee_of_def)
  from h show "at_story_points t \<le> at_story_points (top_assignee_of totals)"
    by (auto simp: top_assignee_of_def less_eq_prod_def)
qed

lemma totals_mset:
  "mset (concat (map at_issue_keys (assignee_totals_of m))) = bucket_keys_mset m"
proof -
  have "mset (concat xss) = (\<Sum>xs \<leftarrow> xss. mset xs)" for xss :: "string list list"
    by (induction xss) auto
  moreover have "mset (map at_issue_keys (assignee_totals_of m)) = mset (map (sort \<circ> wb_issue_keys \<circ> snd) m)"
    by (simp add: assignee_totals_of_def assignee_total_of_def comp_def image_mset.compositionality)
  then have "(\<Sum>xs \<leftarrow> map at_issue_keys (assignee_totals_of m). mset xs)
      = (\<Sum>xs \<leftarrow> map (sort \<circ> wb_issue_keys \<circ> snd) m. mset xs)"
    unfolding sum_mset_sum_list [symmetric] mset_map by simp
  ultimately show ?thesis by (simp add: bucket_keys_mset_def comp_def)
qed

lemma bucket_points_bounds:
  assumes "\<And>ip. ip \<in> set inc \<Longrightarrow> 0 \<le> snd ip \<and> snd ip \<le> 2 ^ 20"
    and "bucket_of_issues inc = Some b" and "length inc \<le> 2 ^ 20"
  shows "0 \<le> wb_story_points b \<and> wb_story_points b \<le> 2 ^ 43"
proof -
  define le where "le k b \<longleftrightarrow> 0 \<le> wb_story_points b \<and> wb_story_points b \<le> of_int (int k * 2 ^ 20)"
    for k and b :: workload_bucket
  have step: "le (Suc k) (add_to_bucket ip (Some b))"
    if "le k b" "0 \<le> snd ip" "snd ip \<le> 2 ^ 20" "Suc k \<le> 2 ^ 20" for k and b :: workload_bucket and ip :: "issue \<times> pyfloat"
  proof -
    have "wb_story_points b + snd ip \<le> of_int (int k * 2 ^ 20) + 2 ^ 20"
      using that unfolding le_def by (intro add_mono) simp_all
    also have "\<dots> = of_int (int (Suc k) * 2 ^ 20)" by (simp add: algebra_simps)
    finally have "fadd (wb_story_points b) (snd ip) \<le> of_int (int (Suc k) * 2 ^ 20)"
      unfolding fadd_def using that(4) by (intro dbl.upper is_double_int) simp_all
    moreover have "0 \<le> fadd (wb_story_points b) (snd ip)"
      using that by (simp add: fadd_def le_def fl_nonneg)
    ultimately show ?thesis by (simp add: le_def add_to_bucket_def Let_def)
  qed
  have fold: "le (k + length xs) b'"
    if "\<forall>ip \<in> set xs. 0 \<le> snd ip \<and> snd ip \<le> 2 ^ 20" "le k b" "k + length xs \<le> 2 ^ 20"
      "fold (\<lambda>ip old. Some (add_to_bucket ip old)) xs (Some b) = Some b'"
    for xs :: "(issue \<times> pyfloat) list" and k b b'
    using that
  proof (induction xs arbitrary: k b)
    case (Cons x xs)
    have "le (Suc k) (add_to_bucket x (Some b))" using Cons.prems by (intro step) auto
    from Cons.IH [OF _ this] Cons.prems show ?case by simp
  qed simp
  define empty where "empty = \<lparr>wb_labels = [], wb_story_points = 0, wb_issue_keys = []\<rparr>"
  have e: "add_to_bucket ip None = add_to_bucket ip (Some empty)" for ip
    by (simp add: add_to_bucket_def empty_def)
  from assms(2) obtain x xs where x: "inc = x # xs" by (cases inc) (auto simp: bucket_of_issues_def)
  have "fold (\<lambda>ip old. Some (add_to_bucket ip old)) inc (Some empty) = Some b"
    using assms(2) e by (simp add: bucket_of_issues_def x)
  moreover have "le 0 empty" by (simp add: le_def empty_def)
  ultimately have "le (length inc) b" using fold [of inc 0 empty b] assms by simp
  moreover have "(of_int (int (length inc) * 2 ^ 20) :: rat) \<le> of_int (2 ^ 20 * 2 ^ 20)"
    using assms(3) by (simp only: of_int_le_iff) simp
  ultimately show ?thesis by (simp add: le_def)
qed

lemma included_fst: "map fst (included_issues active) = filter is_pointed active"
  by (simp add: included_issues_def comp_def)

lemma included_keys:
  "map (issue_key \<circ> fst) (included_issues active) = map issue_key (filter is_pointed active)"
  by (simp add: included_issues_def)

lemma assignee_totals_set: "set (assignee_totals_of m) = assignee_total_of ` set m"
  by (simp add: assignee_totals_of_def)

lemma bucket_issues_range:
  assumes "\<forall>i \<in> set xs. story_points i \<le> 2 ^ 20" and "length xs \<le> 2 ^ 20"
    and "(k, b) \<in> set (workload_buckets (included_issues (active_issues_of fm xs)))"
  shows "0 \<le> wb_story_points b \<and> wb_story_points b \<le> 2 ^ 43"
proof -
  let ?inc = "included_issues (active_issues_of fm xs)"
  let ?sel = "filter (\<lambda>ip. bucket_key (fst ip) = k) ?inc"
  have "map_of (workload_buckets ?inc) k = Some b"
    using assms(3) distinct_workload_buckets by (simp add: map_of_is_SomeI)
  then have "bucket_of_issues ?sel = Some b" by (simp add: workload_buckets_lookup)
  moreover have "length ?sel \<le> 2 ^ 20"
  proof -
    have "length ?sel \<le> length ?inc" by simp
    also have "\<dots> \<le> length (active_issues_of fm xs)" by (simp add: included_issues_def)
    also have "\<dots> \<le> length xs" by (simp add: active_issues_of_def)
    finally show ?thesis using assms(2) by simp
  qed
  moreover have "ip \<in> set ?sel \<Longrightarrow> 0 \<le> snd ip \<and> snd ip \<le> 2 ^ 20" for ip
    using assms(1) by (auto simp: included_issues_def active_issues_of_def)
  ultimately show ?thesis by (intro bucket_points_bounds)
qed

lemma workload_share:
  assumes "\<And>t. t \<in> set totals \<Longrightarrow> 0 \<le> at_story_points t \<and> is_double (at_story_points t)
      \<and> on_decimals 2 (at_story_points t)"
    and "0 < py_round 2 (fsum (map at_story_points totals))" and "t \<in> set totals"
  shows "0 \<le> py_round 2 (fdiv (fmul 100 (at_story_points t)) (py_round 2 (fsum (map at_story_points totals))))
    \<and> py_round 2 (fdiv (fmul 100 (at_story_points t)) (py_round 2 (fsum (map at_story_points totals)))) \<le> 100"
proof (rule share_range)
  show "0 \<le> at_story_points t" using assms by simp
  have "at_story_points t \<le> fsum (map at_story_points totals)"
    using assms by (intro fsum_ge(2)) auto
  then show "at_story_points t \<le> py_round 2 (fsum (map at_story_points totals))"
    using assms by (intro dec.lower) simp_all
  show "1 / 128 \<le> py_round 2 (fsum (map at_story_points totals))"
    by (rule py_round_pos [OF assms(2)])
qed

lemma workload_value_cases:
  assumes "wr_value (workload_of_issues fm xs) = Some pct"
  shows "workload_of_issues fm xs = distribute_workload fm xs"
    and "0 < py_round 2 (fsum (map at_story_points
           (assignee_totals_of (workload_buckets (included_issues (active_issues_of fm xs))))))"
  using assms by (simp_all add: workload_of_issues_def distribute_workload_def Let_def split: if_splits)

text \<open>The workload distribution loses and duplicates nothing: the issue keys of the assignee totals
  are together exactly the included active issues, and the included and the excluded active issues are
  together exactly the active ones.\<close>

theorem workload_totals_partition:
  "let ev = wr_evidence (workload_of_issues fm xs)
   in mset (concat (map at_issue_keys (we_assignee_totals ev))) = mset (we_included_active_issue_keys ev)
     \<and> (we_total_active_points ev = None \<or>
         mset (we_included_active_issue_keys ev) + mset (we_excluded_active_issue_keys ev)
           = mset (we_active_issue_keys ev))"
proof -
  have part: "mset (map issue_key (filter p ys)) + mset (map issue_key (filter (\<lambda>i. \<not> p i) ys))
      = mset (map issue_key ys)" for p and ys :: "issue list"
    by (induction ys) simp_all
  have "mset (concat (map at_issue_keys (assignee_totals_of (workload_buckets inc))))
      = mset (map issue_key (map fst inc))" for inc
    by (simp add: totals_mset workload_buckets_mset comp_def)
  then show ?thesis using part
    by (simp add: workload_of_issues_def distribute_workload_def base_evidence_def Let_def included_fst
        included_keys del: mset_map)
qed

text \<open>Where a workload concentration is reported it belongs to an assignee with the most points, it is
  a percentage between 0 and 100 and the risk band is the one of that percentage, for sprints of at
  most \<open>2 ^ 20\<close> issues of at most \<open>2 ^ 20\<close> points.\<close>

theorem workload_concentration_correct:
  assumes "\<forall>i \<in> set xs. story_points i \<le> 2 ^ 20" and "length xs \<le> 2 ^ 20"
    and "wr_value (workload_of_issues fm xs) = Some pct"
  shows "0 \<le> pct \<and> pct \<le> 100
    \<and> we_risk_band (wr_evidence (workload_of_issues fm xs)) = Some (risk_band_of pct)
    \<and> (\<exists>top. we_top_assignee (wr_evidence (workload_of_issues fm xs)) = Some top
        \<and> top \<in> set (we_assignee_totals (wr_evidence (workload_of_issues fm xs)))
        \<and> (\<forall>t \<in> set (we_assignee_totals (wr_evidence (workload_of_issues fm xs))).
             at_story_points t \<le> at_story_points top))"
proof -
  define totals where
    "totals = assignee_totals_of (workload_buckets (included_issues (active_issues_of fm xs)))"
  define total where "total = py_round 2 (fsum (map at_story_points totals))"
  note c = workload_value_cases [OF assms(3)]
  have pos: "0 < total" using c(2) by (simp add: total_def totals_def)
  have r: "workload_of_issues fm xs = distribute_workload fm xs" by (rule c(1))
  have range: "0 \<le> at_story_points t \<and> is_double (at_story_points t) \<and> on_decimals 2 (at_story_points t)"
    if "t \<in> set totals" for t
  proof -
    from that obtain k b where kb: "(k, b) \<in> set (workload_buckets (included_issues (active_issues_of fm xs)))"
      and t: "t = assignee_total_of (k, b)" by (auto simp: totals_def assignee_totals_set)
    have "0 \<le> wb_story_points b \<and> wb_story_points b \<le> 2 ^ 43"
      by (rule bucket_issues_range [OF assms(1,2) kb])
    then show ?thesis unfolding t assignee_total_of_def
      by (simp add: dec.lower on_decimals_round abs_of_nonneg)
  qed
  have "totals \<noteq> []" using pos by (auto simp: total_def fsum_def py_round_def)
  then obtain t0 where t0: "t0 \<in> set totals" by (cases totals) auto
  have pct: "pct = py_round 2 (fdiv (fmul 100 (at_story_points (top_assignee_of totals))) total)"
    and fields: "we_assignee_totals (wr_evidence (workload_of_issues fm xs)) = totals"
      "we_top_assignee (wr_evidence (workload_of_issues fm xs)) = Some (top_assignee_of totals)"
      "we_risk_band (wr_evidence (workload_of_issues fm xs)) = Some (risk_band_of pct)"
    using assms(3) pos unfolding r
    by (simp_all add: distribute_workload_def Let_def totals_def total_def)
  have "0 \<le> pct \<and> pct \<le> 100"
    unfolding pct total_def using range top_assignee_max(1) [OF t0] pos
    by (intro workload_share) (simp_all add: total_def)
  then show ?thesis using fields top_assignee_max [of _ totals] t0 by auto
qed

text \<open>Two active issues of two people and a finished one.\<close>

definition sample_issue :: "string \<Rightarrow> string \<Rightarrow> string \<Rightarrow> int \<Rightarrow> issue" where
  "sample_issue key status assignee points =
    \<lparr>issue_key = key, issue_summary = ''work'', issue_type = Some ''Story'', issue_status = Some status,
     issue_priority = Some ''Medium'', issue_assignee = Some assignee, issue_assignee_id = Some assignee,
     issue_story_points = Some (PyInt points), issue_release_id = Some ''R1'', issue_is_blocker = False,
     issue_created_at = None, issue_updated_at = None, issue_blocker_flag = None,
     issue_changelog_complete = True\<rparr>"

definition sample_issues :: "issue list" where
  "sample_issues = [sample_issue ''P-1'' ''To Do'' ''ann'' 3, sample_issue ''P-2'' ''In Progress'' ''bob'' 1,
     sample_issue ''P-3'' ''Done'' ''bob'' 5]"

lemma workload_concentration_correct_witness:
  "wr_value (workload_of_issues default_mapping sample_issues) = Some 75
   \<and> we_risk_band (wr_evidence (workload_of_issues default_mapping sample_issues)) = Some Critical_Band"
proof -
  have w: "workload_inconclusive_explanations sample_issues = []" by code_simp
  have a: "active_issues_of default_mapping sample_issues = take 2 sample_issues" by code_simp
  have t: "assignee_totals_of (workload_buckets (included_issues (take 2 sample_issues))) =
      [\<lparr>at_assignee_key = ''jira:ann'', at_assignee = ''ann'', at_story_points = 3, at_issue_keys = [''P-1'']\<rparr>,
       \<lparr>at_assignee_key = ''jira:bob'', at_assignee = ''bob'', at_story_points = 1, at_issue_keys = [''P-2'']\<rparr>]"
    by code_simp
  have s: "py_round 2 (fsum [3, 1]) = 4" "py_round 2 (fdiv (fmul 100 3) 4) = 75" by code_simp+
  have "top_assignee_of (assignee_totals_of (workload_buckets (included_issues (take 2 sample_issues)))) =
      \<lparr>at_assignee_key = ''jira:ann'', at_assignee = ''ann'', at_story_points = 3, at_issue_keys = [''P-1'']\<rparr>"
    unfolding t by code_simp
  then have v: "wr_value (workload_of_issues default_mapping sample_issues) = Some 75"
    by (simp add: workload_of_issues_def distribute_workload_def Let_def w a t s)
      (simp add: sample_issues_def)
  have p: "\<forall>i \<in> set sample_issues. story_points i \<le> 2 ^ 20" by code_simp
  have l: "length sample_issues \<le> 2 ^ 20" by (simp add: sample_issues_def)
  have b: "risk_band_of 75 = Critical_Band" by code_simp
  from workload_concentration_correct [OF p l v] v b show ?thesis by simp
qed

end
