(* ===== verification/ScopeMovement.thy ===== *)
theory ScopeMovement
  imports StoryPoints
begin

text \<open>
  Scope movement in services/analytics_service.py: which changelog values refer to a sprint or a release,
  the effective window of a sprint, the scope at sprint start, the seven-day scope churn of a release
  and the scope creep of a sprint. \<open>re.finditer\<close> on the structured sprint values is a matcher that
  returns the successes of each part in the order in which backtracking tries them.
\<close>

subsection \<open>Sprint window\<close>

definition compute_time_elapsed_pct :: "sprint \<Rightarrow> py_datetime \<Rightarrow> pyfloat option" where
  "compute_time_elapsed_pct s snapshot_at =
    (case (coerce_utc (sprint_start_date s), coerce_utc (sprint_end_date s)) of
       (Some start_at, Some end_at) \<Rightarrow>
         (if end_at \<le> start_at then None
          else Some (clamp (fdiv (fmul 100 (total_seconds (to_utc snapshot_at - start_at)))
                                 (total_seconds (end_at - start_at))) 0 100))
     | _ \<Rightarrow> None)"

definition is_closed :: "sprint \<Rightarrow> bool" where
  "is_closed s \<longleftrightarrow> casefold (strip (sprint_state s)) = ''closed''"

definition effective_sprint_window_end :: "sprint \<Rightarrow> py_datetime \<Rightarrow> utc" where
  "effective_sprint_window_end s snapshot_at =
    (if is_closed s
     then (case coerce_utc (sprint_complete_date s) of
             Some t \<Rightarrow> t
           | None \<Rightarrow> (case coerce_utc (sprint_end_date s) of Some t \<Rightarrow> t | None \<Rightarrow> to_utc snapshot_at))
     else (case coerce_utc (sprint_end_date s) of
             Some t \<Rightarrow> min t (to_utc snapshot_at)
           | None \<Rightarrow> to_utc snapshot_at))"

lemma time_elapsed_range:
  "compute_time_elapsed_pct s t = Some p \<Longrightarrow> 0 \<le> p \<and> p \<le> 100"
  by (auto simp: compute_time_elapsed_pct_def clamp_range split: option.splits if_splits)

lemma window_end_open: "\<not> is_closed s \<Longrightarrow> effective_sprint_window_end s t \<le> to_utc t"
  by (simp add: effective_sprint_window_end_def split: option.splits)

subsection \<open>Changelog values that refer to a sprint\<close>

definition is_quote :: "char \<Rightarrow> bool" where
  "is_quote c \<longleftrightarrow> c = CHR 0x27 \<or> c = CHR 0x22"

definition is_token_separator :: "char \<Rightarrow> bool" where
  "is_token_separator c \<longleftrightarrow> c \<in> {CHR '','', CHR '';'', CHR ''['', CHR '']'', CHR ''{'', CHR ''}''}"

definition unquote :: "string \<Rightarrow> string" where
  "unquote token = strip_by is_quote (strip token)"

definition value_tokens :: "string \<Rightarrow> string list" where
  "value_tokens v = map unquote (filter (\<lambda>t. strip t \<noteq> []) (split_on is_token_separator v))"

text \<open>The parts of the regular expression, each with the remaining inputs it can leave, greedy first.\<close>

fun opt_quote :: "string \<Rightarrow> string list" where
  "opt_quote [] = [[]]"
| "opt_quote (c # cs) = (if is_quote c then [cs, c # cs] else [c # cs])"

fun spaces :: "string \<Rightarrow> string list" where
  "spaces [] = [[]]"
| "spaces (c # cs) = (if is_space c then spaces cs @ [c # cs] else [c # cs])"

definition field_start :: "bool \<Rightarrow> string \<Rightarrow> string list" where
  "field_start at_start s = (if at_start then [s] else [])
     @ (case s of [] \<Rightarrow> []
        | c # cs \<Rightarrow> (if c = CHR '','' \<or> c = CHR ''['' \<or> c = CHR ''{'' \<or> is_space c then [cs] else []))"

definition field_key :: "string \<Rightarrow> (string \<times> string) list" where
  "field_key s = (if starts_with ''id'' s then [(''id'', drop 2 s)] else [])
     @ (if starts_with ''name'' s then [(''name'', drop 4 s)] else [])"

definition field_separator :: "string \<Rightarrow> string list" where
  "field_separator s = (case s of [] \<Rightarrow> []
     | c # cs \<Rightarrow> (if c = CHR '':'' \<or> c = CHR ''='' then [cs] else []))"

definition is_value_char :: "char \<Rightarrow> bool" where
  "is_value_char c \<longleftrightarrow> c \<noteq> CHR '','' \<and> c \<noteq> CHR '']'' \<and> c \<noteq> CHR ''}''"

definition field_value :: "string \<Rightarrow> (string \<times> string) list" where
  "field_value s = (case takeWhile is_value_char s of [] \<Rightarrow> [] | v \<Rightarrow> [(v, dropWhile is_value_char s)])"

definition match_field :: "bool \<Rightarrow> string \<Rightarrow> ((string \<times> string) \<times> string) list" where
  "match_field at_start s0 =
    [((k, v), s8). s1 \<leftarrow> field_start at_start s0, s2 \<leftarrow> opt_quote s1, (k, s3) \<leftarrow> field_key s2,
       s4 \<leftarrow> opt_quote s3, s5 \<leftarrow> spaces s4, s6 \<leftarrow> field_separator s5, s7 \<leftarrow> spaces s6,
       s7' \<leftarrow> opt_quote s7, (v, s8) \<leftarrow> field_value s7']"

lemma opt_quote_length: "t \<in> set (opt_quote s) \<Longrightarrow> length t \<le> length s"
  by (cases s) (auto split: if_splits)

lemma spaces_length: "t \<in> set (spaces s) \<Longrightarrow> length t \<le> length s"
  by (induction s) (auto split: if_splits)

lemma field_start_length: "t \<in> set (field_start b s) \<Longrightarrow> length t \<le> length s"
  by (auto simp: field_start_def split: if_splits list.splits)

lemma field_key_length: "(k, t) \<in> set (field_key s) \<Longrightarrow> length t \<le> length s"
  by (auto simp: field_key_def split: if_splits)

lemma field_separator_length: "t \<in> set (field_separator s) \<Longrightarrow> length t < length s"
  by (auto simp: field_separator_def split: if_splits list.splits)

lemma field_value_length: "(v, t) \<in> set (field_value s) \<Longrightarrow> length t \<le> length s"
  by (auto simp: field_value_def length_dropWhile_le split: list.splits)

lemma match_field_shorter: "(kv, rest) \<in> set (match_field b s) \<Longrightarrow> length rest < length s"
  by (force simp: match_field_def dest!: opt_quote_length spaces_length field_start_length field_key_length
      field_separator_length field_value_length)

text \<open>\<open>re.finditer\<close>: the leftmost match, then on from its end.\<close>

function find_fields :: "bool \<Rightarrow> string \<Rightarrow> (string \<times> string) list" where
  "find_fields at_start s =
    (case match_field at_start s of
       (kv, rest) # _ \<Rightarrow> kv # find_fields False rest
     | [] \<Rightarrow> (case s of [] \<Rightarrow> [] | c # cs \<Rightarrow> find_fields False cs))"
  by pat_completeness auto
termination
proof (relation "measure (\<lambda>(b, s). length s)")
  fix b s x kvr rest kv xs
  assume "match_field b s = x # xs" "(kv, rest) = x"
  then have "(kv, rest) \<in> set (match_field b s)" by simp
  then show "((False, rest), (b, s)) \<in> measure (\<lambda>(b, s). length s)"
    by (simp add: match_field_shorter)
qed simp_all

declare find_fields.simps [simp del]

definition history_value_references_sprint :: "string option \<Rightarrow> sprint \<Rightarrow> bool" where
  "history_value_references_sprint value s =
    (case value of None \<Rightarrow> False
     | Some raw \<Rightarrow>
        (let v = casefold (strip raw);
             expected_id = casefold (strip (sprint_id s));
             expected_name = casefold (strip (sprint_name s))
         in v = expected_id \<or> v = expected_name
            \<or> expected_id \<in> set (value_tokens v) \<or> expected_name \<in> set (value_tokens v)
            \<or> (\<exists>(k, w) \<in> set (find_fields True v).
                 k = ''id'' \<and> unquote w = expected_id \<or> k = ''name'' \<and> unquote w = expected_name)))"

definition history_value_references_release :: "string option \<Rightarrow> string \<Rightarrow> bool" where
  "history_value_references_release value normalized =
    (normalized \<noteq> [] \<and> (case value of None \<Rightarrow> False | Some v \<Rightarrow> casefold (strip v) = normalized))"

end
