(* ===== verification/ScopeMetrics.thy ===== *)
theory ScopeMetrics
  imports ScopeMovement
begin

text \<open>
  The scope metrics over the stored history: initial scope flags, bugs created in the sprint, seven-day
  release scope churn and sprint scope creep. \<open>membership_log\<close> is what all of them need of the way a
  changelog value refers to a sprint or a release; both are instances.
\<close>

subsection \<open>Queries on the history\<close>

text \<open>\<open>LIKE\<close> with its two wildcards; the project key is put into the pattern as it is.\<close>

primrec sql_like :: "string \<Rightarrow> string \<Rightarrow> bool" where
  "sql_like [] s \<longleftrightarrow> s = []"
| "sql_like (p # ps) s \<longleftrightarrow>
     (if p = CHR ''%'' then list_ex (\<lambda>k. sql_like ps (drop k s)) [0..<Suc (length s)]
      else case s of [] \<Rightarrow> False | c # cs \<Rightarrow> (p = CHR ''_'' \<or> p = c) \<and> sql_like ps cs)"

definition issue_key_matches_project :: "string \<Rightarrow> string \<Rightarrow> bool" where
  "issue_key_matches_project key project_key \<longleftrightarrow> sql_like (upper project_key @ ''-%'') (upper key)"

definition hist_utc :: "issue_history \<Rightarrow> utc option" where
  "hist_utc h = coerce_utc (hist_changed_at h)"

definition hist_time :: "issue_history \<Rightarrow> utc" where
  "hist_time h = (case hist_utc h of None \<Rightarrow> 0 | Some t \<Rightarrow> t)"

definition changed_within :: "(utc \<Rightarrow> bool) \<Rightarrow> issue_history \<Rightarrow> bool" where
  "changed_within P h \<longleftrightarrow> (case hist_utc h of None \<Rightarrow> False | Some t \<Rightarrow> P t)"

definition is_sprint_entry :: "field_mapping \<Rightarrow> issue_history \<Rightarrow> bool" where
  "is_sprint_entry fm h \<longleftrightarrow> casefold (hist_field_name h) \<in> changelog_sprint_fields fm"

lemma like_suffix_any: "sql_like ''%'' s"
  by (auto simp: list_ex_iff intro!: bexI [of _ "length s"])

lemma like_prefix: "sql_like (p @ ''%'') (p @ s)"
  by (induction p) (use like_suffix_any in \<open>auto simp: list_ex_iff simp del: upt_Suc intro!: bexI [of _ 1]\<close>)

text \<open>A key of the project always matches; without wildcards in the project key nothing else does.\<close>

lemma like_plain:
  assumes "CHR ''%'' \<notin> set p" and "CHR ''_'' \<notin> set p"
  shows "sql_like (p @ ''%'') s \<longleftrightarrow> starts_with p s"
  using assms
proof (induction p arbitrary: s)
  case (Cons c p)
  then show ?case by (cases s) (auto simp: starts_with_def)
qed (use like_suffix_any in \<open>simp add: starts_with_def\<close>)

subsection \<open>Membership logs\<close>

text \<open>\<open>refs v\<close>: the changelog value refers to the scope. An entry moves the issue when its two values
  differ in that; a chain is a log in which each move starts from the state the previous one left.\<close>

definition changes_membership :: "(string option \<Rightarrow> bool) \<Rightarrow> issue_history \<Rightarrow> bool" where
  "changes_membership refs h \<longleftrightarrow> refs (hist_old_value h) \<noteq> refs (hist_new_value h)"

fun membership_chain :: "(string option \<Rightarrow> bool) \<Rightarrow> bool \<Rightarrow> issue_history list \<Rightarrow> bool \<Rightarrow> bool" where
  "membership_chain refs b [] b' \<longleftrightarrow> b = b'"
| "membership_chain refs b (h # hs) b' \<longleftrightarrow>
     (if changes_membership refs h
      then refs (hist_old_value h) = b \<and> membership_chain refs (refs (hist_new_value h)) hs b'
      else membership_chain refs b hs b')"

definition is_addition :: "(string option \<Rightarrow> bool) \<Rightarrow> issue_history \<Rightarrow> bool" where
  "is_addition refs h \<longleftrightarrow> \<not> refs (hist_old_value h) \<and> refs (hist_new_value h)"

definition is_removal :: "(string option \<Rightarrow> bool) \<Rightarrow> issue_history \<Rightarrow> bool" where
  "is_removal refs h \<longleftrightarrow> refs (hist_old_value h) \<and> \<not> refs (hist_new_value h)"

locale membership_log =
  fixes refs :: "string option \<Rightarrow> bool"
  assumes absent: "\<not> refs None"
begin

lemma change_cases: "changes_membership refs h \<longleftrightarrow> is_addition refs h \<or> is_removal refs h"
  by (auto simp: changes_membership_def is_addition_def is_removal_def)

lemma not_both: "\<not> (is_addition refs h \<and> is_removal refs h)"
  by (auto simp: is_addition_def is_removal_def)

lemma cleared_is_removal: "hist_new_value h = None \<Longrightarrow> changes_membership refs h \<Longrightarrow> is_removal refs h"
  by (auto simp: changes_membership_def is_removal_def absent)

lemma chain_start:
  "membership_chain refs b hs b' \<Longrightarrow>
     b = (case find (changes_membership refs) hs of None \<Rightarrow> b' | Some h \<Rightarrow> refs (hist_old_value h))"
  by (induction hs arbitrary: b) (auto split: if_splits)

lemma chain_net:
  "membership_chain refs b hs b' \<Longrightarrow>
     int (length (filter (is_addition refs) hs)) - int (length (filter (is_removal refs) hs))
       = of_bool b' - of_bool b"
proof (induction hs arbitrary: b)
  case (Cons h hs)
  show ?case
  proof (cases "changes_membership refs h")
    case True
    then show ?thesis using Cons.prems Cons.IH [of "refs (hist_new_value h)"]
      by (auto simp: changes_membership_def is_addition_def is_removal_def)
  next
    case False
    then show ?thesis using Cons.prems Cons.IH [of b] by (auto simp: change_cases)
  qed
qed simp

end

interpretation sprint_log: membership_log "\<lambda>v. history_value_references_sprint v s" for s
  by unfold_locales (simp add: history_value_references_sprint_def)

interpretation release_log: membership_log "\<lambda>v. history_value_references_release v r" for r
  by unfold_locales (simp add: history_value_references_release_def)

subsection \<open>Scope at sprint start\<close>

definition sprint_entries ::
  "store \<Rightarrow> field_mapping \<Rightarrow> string list \<Rightarrow> utc \<Rightarrow> utc \<Rightarrow> issue_history list" where
  "sprint_entries db fm keys start_at end_at =
     filter (\<lambda>h. hist_issue_key h \<in> set keys \<and> is_sprint_entry fm h
        \<and> changed_within (\<lambda>t. start_at < t \<and> t \<le> end_at) h) (histories db)"

definition compute_sprint_initial_scope_flags ::
  "store \<Rightarrow> field_mapping \<Rightarrow> sprint \<Rightarrow> string list \<Rightarrow> py_datetime \<Rightarrow> (string \<times> bool) list" where
  "compute_sprint_initial_scope_flags db fm s keys snapshot_at =
    (let flags = map (\<lambda>k. (k, True)) (dedupe keys) in
     case coerce_utc (sprint_start_date s) of
       None \<Rightarrow> flags
     | Some start_at \<Rightarrow>
        (let upper = effective_sprint_window_end s snapshot_at in
         if upper \<le> start_at then flags
         else fold (\<lambda>h m. if history_value_references_sprint (hist_old_value h) s
                              \<noteq> history_value_references_sprint (hist_new_value h) s
                            then upsert (hist_issue_key h)
                                   (\<lambda>_. history_value_references_sprint (hist_old_value h) s) m
                            else m)
                (sort_key (\<lambda>h. (hist_issue_key h, - hist_time h, - int (hist_id h)))
                   (sprint_entries db fm keys start_at upper)) flags))"

subsection \<open>Bugs created in the sprint\<close>

record bugs_created_result =
  bc_status :: computation_status
  bc_issue_keys :: "string list"
  bc_missing_created_at_issue_keys :: "string list"

definition compute_bugs_created_during_sprint ::
  "store \<Rightarrow> field_mapping \<Rightarrow> sprint \<Rightarrow> py_datetime \<Rightarrow> bugs_created_result" where
  "compute_bugs_created_during_sprint db fm s snapshot_at =
    (case coerce_utc (sprint_start_date s) of
       None \<Rightarrow> \<lparr>bc_status = NOT_COMPUTED, bc_issue_keys = [], bc_missing_created_at_issue_keys = []\<rparr>
     | Some start_at \<Rightarrow>
        (let upper = effective_sprint_window_end s snapshot_at in
         if upper < start_at
         then \<lparr>bc_status = COMPUTED, bc_issue_keys = [], bc_missing_created_at_issue_keys = []\<rparr>
         else let bugs = filter (\<lambda>i. case issue_type i of None \<Rightarrow> False
                                     | Some t \<Rightarrow> casefold t \<in> bug_issue_types fm)
                            (list_sprint_issues db (sprint_id s));
                  missing = sort (map issue_key (filter (\<lambda>i. issue_created_at i = None) bugs));
                  found = sort (map issue_key (filter (\<lambda>i. case coerce_utc (issue_created_at i) of
                              None \<Rightarrow> False | Some t \<Rightarrow> start_at \<le> t \<and> t \<le> upper) bugs))
              in \<lparr>bc_status = (if missing \<noteq> [] then PARTIAL else COMPUTED), bc_issue_keys = found,
                   bc_missing_created_at_issue_keys = missing\<rparr>))"

subsection \<open>Release scope churn\<close>

record scope_event =
  se_history_id :: nat
  se_issue_key :: string
  se_changed_at :: string
  se_from_value :: "string option"
  se_to_value :: "string option"

definition scope_event_of :: "issue_history \<Rightarrow> scope_event" where
  "scope_event_of h = \<lparr>se_history_id = hist_id h, se_issue_key = hist_issue_key h,
     se_changed_at = isoformat_utc (hist_time h),
     se_from_value = hist_old_value h, se_to_value = hist_new_value h\<rparr>"

type_synonym event_identity = "string \<times> utc \<times> string \<times> string"

definition event_identity_of :: "issue_history \<Rightarrow> event_identity" where
  "event_identity_of h = (hist_issue_key h, hist_time h,
     normalize_text (hist_old_value h), normalize_text (hist_new_value h))"

definition event_order :: "scope_event \<Rightarrow> string \<times> nat \<times> string" where
  "event_order e = (se_changed_at e, se_history_id e, se_issue_key e)"

definition sort_events :: "scope_event list \<Rightarrow> scope_event list" where
  "sort_events es = sort_key event_order es"

definition event_keys :: "scope_event list \<Rightarrow> string list" where
  "event_keys es = sorted_keys (map se_issue_key es)"

text \<open>\<open>setdefault(event_identity, event)\<close>: the first row of each identity.\<close>

definition distinct_events :: "issue_history list \<Rightarrow> scope_event list" where
  "distinct_events hs = sort_events (map snd (setdefaults (map (\<lambda>h. (event_identity_of h, scope_event_of h)) hs)))"

record churn_evidence =
  ch_calculation_status :: computation_status
  ch_scope_churn_7d_pct :: "pyfloat option"
  ch_window_start :: string
  ch_window_end :: string
  ch_synchronized_project_issue_keys :: "string list"
  ch_current_scope_issue_keys :: "string list"
  ch_observed_scope_issue_keys :: "string list"
  ch_observed_scope_denominator :: int
  ch_scope_change_event_count :: int
  ch_scope_addition_event_count :: int
  ch_scope_removal_event_count :: int
  ch_net_scope_change :: int
  ch_scope_addition_events :: "scope_event list"
  ch_scope_removal_events :: "scope_event list"
  ch_churned_issue_keys :: "string list"
  ch_added_issue_keys :: "string list"
  ch_removed_issue_keys :: "string list"
  ch_incomplete_issue_keys :: "string list"
  ch_configured_changelog_aliases :: "string list"
  ch_normalized_release_value :: string

record churn_result =
  cr_status :: computation_status
  cr_scope_churn_7d_pct :: "pyfloat option"
  cr_scope_added_7d_count :: int
  cr_scope_removed_7d_count :: int
  cr_explanations :: "string list"
  cr_missing_issue_keys :: "string list"
  cr_evidence :: churn_evidence

definition release_project_issues :: "store \<Rightarrow> string \<Rightarrow> string \<Rightarrow> issue list" where
  "release_project_issues db rid project_key =
     order_issues (filter (\<lambda>i. issue_release_id i = Some rid
        \<or> issue_key_matches_project (issue_key i) project_key) (issues db))"

definition churn_entries :: "store \<Rightarrow> field_mapping \<Rightarrow> string list \<Rightarrow> utc \<Rightarrow> issue_history list" where
  "churn_entries db fm keys window_end =
     filter (\<lambda>h. is_fix_version_field fm (hist_field_name h))
       (sort_key (\<lambda>h. (hist_issue_key h, hist_time h, hist_id h))
         (filter (\<lambda>h. hist_issue_key h \<in> set keys
            \<and> changed_within (\<lambda>t. window_end - 7 * day_us \<le> t \<and> t \<le> window_end) h) (histories db)))"

definition compute_release_scope_churn_7d ::
  "store \<Rightarrow> string \<Rightarrow> string \<Rightarrow> string \<Rightarrow> field_mapping \<Rightarrow> py_datetime \<Rightarrow> churn_result" where
  "compute_release_scope_churn_7d db rid project_key rname fm snapshot_at =
    (let window_end = to_utc snapshot_at;
         window_start = window_end - 7 * day_us;
         rel = casefold (strip rname);
         project_issues = release_project_issues db rid project_key;
         project_keys = map issue_key project_issues;
         current = map issue_key (release_issues db rid);
         incomplete = map issue_key (filter (\<lambda>i. \<not> issue_changelog_complete i) project_issues);
         entries = churn_entries db fm project_keys window_end;
         refs = (\<lambda>v. history_value_references_release v rel);
         additions = distinct_events (filter (is_addition refs) entries);
         removals = distinct_events (filter (is_removal refs) entries);
         added_keys = event_keys additions;
         removed_keys = event_keys removals;
         churned = sorted_keys (added_keys @ removed_keys);
         observed = sorted_keys (current @ churned);
         denominator = int (length observed);
         added = int (length additions);
         removed = int (length removals);
         (status, pct, explanations) =
           (if incomplete \<noteq> []
            then (PARTIAL, None,
              [''Scope churn is partial because Jira changelog ingestion is incomplete for ''
               @ nat_str (length incomplete) @ '' project ticket(s). Addition ''
               @ ''and removal event counts are confirmed minima; the percentage is unavailable.''])
            else if denominator = 0
            then (NOT_COMPUTED, None,
              [''Scope churn is not computed because no current or changed release scope was ''
               @ ''observed in the seven-day window.''])
            else (COMPUTED, Some (pct2 (added + removed) denominator), []))
     in \<lparr>cr_status = status, cr_scope_churn_7d_pct = pct, cr_scope_added_7d_count = added,
         cr_scope_removed_7d_count = removed, cr_explanations = explanations,
         cr_missing_issue_keys = incomplete,
         cr_evidence = \<lparr>ch_calculation_status = status, ch_scope_churn_7d_pct = pct,
           ch_window_start = isoformat_utc window_start, ch_window_end = isoformat_utc window_end,
           ch_synchronized_project_issue_keys = project_keys, ch_current_scope_issue_keys = current,
           ch_observed_scope_issue_keys = observed, ch_observed_scope_denominator = denominator,
           ch_scope_change_event_count = added + removed, ch_scope_addition_event_count = added,
           ch_scope_removal_event_count = removed, ch_net_scope_change = added - removed,
           ch_scope_addition_events = additions, ch_scope_removal_events = removals,
           ch_churned_issue_keys = churned, ch_added_issue_keys = added_keys,
           ch_removed_issue_keys = removed_keys, ch_incomplete_issue_keys = incomplete,
           ch_configured_changelog_aliases = sorted_list_of_set (changelog_fix_version_fields fm),
           ch_normalized_release_value = rel\<rparr>\<rparr>)"

subsection \<open>Sprint scope creep\<close>

record creep_evidence =
  ce_calculation_status :: computation_status
  ce_scope_creep_pct :: "pyfloat option"
  ce_window_start :: "string option"
  ce_window_end :: string
  ce_current_scope_issue_keys :: "string list"
  ce_project_issue_keys :: "string list"
  ce_initial_commitment_count :: int
  ce_scope_change_count :: int
  ce_scope_added_count :: int
  ce_scope_removed_count :: int
  ce_net_scope_change :: int
  ce_scope_change_issue_keys :: "string list"
  ce_scope_added_issue_keys :: "string list"
  ce_scope_removed_issue_keys :: "string list"
  ce_scope_addition_events :: "scope_event list"
  ce_scope_removal_events :: "scope_event list"
  ce_incomplete_history_issue_keys :: "string list"
  ce_sprint_id :: string
  ce_sprint_name :: string
  ce_sprint_changelog_fields :: "string list"

record creep_result =
  cp_status :: computation_status
  cp_value :: "pyfloat option"
  cp_explanations :: "string list"
  cp_missing_issue_keys :: "string list"
  cp_evidence :: creep_evidence

definition current_scope_keys :: "store \<Rightarrow> sprint \<Rightarrow> string list" where
  "current_scope_keys db s = sorted_keys (sprint_issue_keys db (sprint_id s))"

definition sprint_project_issues :: "store \<Rightarrow> sprint \<Rightarrow> issue list" where
  "sprint_project_issues db s =
     order_issues (filter (\<lambda>i. issue_key_matches_project (issue_key i) (sprint_project_key s)) (issues db))"

definition incomplete_history_keys :: "issue list \<Rightarrow> string list" where
  "incomplete_history_keys xs = sort (map issue_key (filter (\<lambda>i. \<not> issue_changelog_complete i) xs))"

definition initial_commitment :: "nat \<Rightarrow> nat \<Rightarrow> nat \<Rightarrow> int" where
  "initial_commitment current added removed = max (int current - int added + int removed) 0"

text \<open>The closure \<open>build_result\<close> of the method.\<close>

definition build_creep_result ::
  "store \<Rightarrow> field_mapping \<Rightarrow> sprint \<Rightarrow> py_datetime \<Rightarrow> computation_status \<Rightarrow> pyfloat option \<Rightarrow> string list
     \<Rightarrow> scope_event list \<Rightarrow> scope_event list \<Rightarrow> creep_result" where
  "build_creep_result db fm s snapshot_at status v explanations additions removals =
    (let current = current_scope_keys db s;
         project_issues = sprint_project_issues db s;
         incomplete = incomplete_history_keys project_issues;
         added = int (length additions); removed = int (length removals);
         added_keys = event_keys additions; removed_keys = event_keys removals
     in \<lparr>cp_status = status, cp_value = v, cp_explanations = explanations,
         cp_missing_issue_keys = incomplete,
         cp_evidence = \<lparr>ce_calculation_status = status, ce_scope_creep_pct = v,
           ce_window_start = map_option isoformat_utc (coerce_utc (sprint_start_date s)),
           ce_window_end = isoformat_utc (effective_sprint_window_end s snapshot_at),
           ce_current_scope_issue_keys = current, ce_project_issue_keys = map issue_key project_issues,
           ce_initial_commitment_count =
             initial_commitment (length current) (length additions) (length removals),
           ce_scope_change_count = added + removed, ce_scope_added_count = added,
           ce_scope_removed_count = removed, ce_net_scope_change = added - removed,
           ce_scope_change_issue_keys = sorted_keys (added_keys @ removed_keys),
           ce_scope_added_issue_keys = added_keys, ce_scope_removed_issue_keys = removed_keys,
           ce_scope_addition_events = additions, ce_scope_removal_events = removals,
           ce_incomplete_history_issue_keys = incomplete, ce_sprint_id = sprint_id s,
           ce_sprint_name = sprint_name s,
           ce_sprint_changelog_fields = sorted_list_of_set (changelog_sprint_fields fm)\<rparr>\<rparr>)"

definition creep_entries :: "store \<Rightarrow> field_mapping \<Rightarrow> sprint \<Rightarrow> utc \<Rightarrow> utc \<Rightarrow> issue_history list" where
  "creep_entries db fm s start_at window_end =
     sort_key (\<lambda>h. (hist_time h, hist_id h, hist_issue_key h))
       (sprint_entries db fm (map issue_key (sprint_project_issues db s)) start_at window_end)"

definition compute_sprint_scope_creep ::
  "store \<Rightarrow> field_mapping \<Rightarrow> sprint \<Rightarrow> py_datetime \<Rightarrow> creep_result" where
  "compute_sprint_scope_creep db fm s snapshot_at =
    (let build = build_creep_result db fm s snapshot_at;
         window_end = effective_sprint_window_end s snapshot_at;
         incomplete = incomplete_history_keys (sprint_project_issues db s);
         current = current_scope_keys db s;
         refs = (\<lambda>v. history_value_references_sprint v s)
     in case coerce_utc (sprint_start_date s) of
          None \<Rightarrow> build NOT_COMPUTED None
            [''Scope creep is not computed because the sprint start time is missing.''] [] []
        | Some start_at \<Rightarrow>
           (if window_end < start_at
            then build NOT_COMPUTED None
              [''Scope creep is not computed because the effective sprint window ends before sprint start.'']
              [] []
            else
              (let entries = creep_entries db fm s start_at window_end;
                   additions = map scope_event_of (filter (is_addition refs) entries);
                   removals = map scope_event_of (filter (is_removal refs) entries);
                   initial = initial_commitment (length current) (length additions) (length removals)
               in if incomplete \<noteq> []
                  then build PARTIAL None
                    [''Scope creep is partial because sprint-membership changelog history is incomplete for: ''
                     @ join '', '' incomplete
                     @ ''. Addition and removal event counts are confirmed minimums.''] additions removals
                  else if current = [] \<and> additions = [] \<and> removals = []
                  then build NOT_COMPUTED None
                    [''Scope creep is not computed because no current or changed sprint scope is available.'']
                    [] []
                  else if initial = 0
                  then build NOT_COMPUTED None
                    [''Scope creep is not computed because the reconstructed initial commitment is zero.'']
                    additions removals
                  else build COMPUTED
                    (Some (pct2 (int (length additions) + int (length removals)) initial)) []
                    additions removals)))"

subsection \<open>The flags are the scope at sprint start\<close>

text \<open>The entries of one issue in the sprint window, oldest first.\<close>

definition issue_log :: "issue_history list \<Rightarrow> string \<Rightarrow> issue_history list" where
  "issue_log hs k = sort_key (\<lambda>h. (hist_time h, hist_id h)) (filter (\<lambda>h. hist_issue_key h = k) hs)"

definition set_flag :: "(string option \<Rightarrow> bool) \<Rightarrow> issue_history \<Rightarrow> (string \<times> bool) list \<Rightarrow> (string \<times> bool) list"
where
  "set_flag refs h m = (if refs (hist_old_value h) \<noteq> refs (hist_new_value h)
     then upsert (hist_issue_key h) (\<lambda>_. refs (hist_old_value h)) m else m)"

lemma fold_set_flag:
  "map_of (fold (set_flag refs) hs m) k =
    (case find (changes_membership refs) (rev (filter (\<lambda>h. hist_issue_key h = k) hs)) of
       None \<Rightarrow> map_of m k | Some h \<Rightarrow> Some (refs (hist_old_value h)))"
proof (induction hs arbitrary: m)
  case (Cons h hs)
  have f: "find P (xs @ [x]) = (case find P xs of None \<Rightarrow> (if P x then Some x else None) | Some y \<Rightarrow> Some y)"
    for P and xs :: "issue_history list" and x by (induction xs) auto
  have step: "map_of (set_flag refs h m) k =
      (if hist_issue_key h = k \<and> changes_membership refs h then Some (refs (hist_old_value h)) else map_of m k)"
    by (simp add: set_flag_def changes_membership_def)
  show ?case unfolding fold_simps Cons.IH step by (simp add: f split: option.splits)
qed simp

lemma rev_sort_key:
  assumes "inj_on f (set ys)"
    and "\<And>x y. x \<in> set ys \<Longrightarrow> y \<in> set ys \<Longrightarrow> g x \<le> g y \<Longrightarrow> f y \<le> f x"
  shows "rev (sort_key g ys) = sort_key f ys"
proof (rule sort_key_inj_key_eq [symmetric])
  have "sorted_wrt (\<lambda>x y. g x \<le> g y) (sort_key g ys)"
    using sorted_sort_key [of g ys] by (simp only: sorted_map)
  then have "sorted_wrt (\<lambda>x y. f y \<le> f x) (sort_key g ys)"
    by (rule sorted_wrt_mono_rel [rotated]) (use assms(2) in simp)
  then show "sorted (map f (rev (sort_key g ys)))"
    by (simp only: sorted_map sorted_wrt_rev)
qed (use assms(1) in simp_all)

lemma rev_issue_log:
  assumes "distinct (map hist_id hs)"
  shows "rev (filter (\<lambda>h. hist_issue_key h = k)
      (sort_key (\<lambda>h. (hist_issue_key h, - hist_time h, - int (hist_id h))) hs)) = issue_log hs k"
  unfolding issue_log_def filter_sort
proof (rule rev_sort_key)
  have "inj_on hist_id (set hs)" using assms by (simp add: distinct_map)
  then show "inj_on (\<lambda>h. (hist_time h, hist_id h)) (set (filter (\<lambda>h. hist_issue_key h = k) hs))"
    by (simp add: inj_on_def)
  fix x y
  assume "x \<in> set (filter (\<lambda>h. hist_issue_key h = k) hs)" "y \<in> set (filter (\<lambda>h. hist_issue_key h = k) hs)"
    and "(hist_issue_key x, - hist_time x, - int (hist_id x))
      \<le> (hist_issue_key y, - hist_time y, - int (hist_id y))"
  then show "(hist_time y, hist_id y) \<le> (hist_time x, hist_id x)" by (simp add: less_eq_prod_def)
qed

lemma map_of_const_flags: "k \<in> set ks \<Longrightarrow> map_of (map (\<lambda>k. (k, b)) ks) k = Some b"
  by (induction ks) auto

text \<open>C8: The initial scope flags recover the membership at sprint start: for a listed issue whose
  changelog in the window is consistent (each change starts from the state the previous one left) and
  ends in the sprint, the flag is the state in which that changelog begins.\<close>

theorem initial_scope_flags_recover:
  assumes "distinct (map hist_id (histories db))" and "k \<in> set keys"
    and "coerce_utc (sprint_start_date s) = Some start_at"
    and "start_at < effective_sprint_window_end s snapshot_at"
    and "membership_chain (\<lambda>v. history_value_references_sprint v s) b
      (issue_log (sprint_entries db fm keys start_at (effective_sprint_window_end s snapshot_at)) k) True"
  shows "map_of (compute_sprint_initial_scope_flags db fm s keys snapshot_at) k = Some b"
proof -
  let ?refs = "\<lambda>v. history_value_references_sprint v s"
  let ?hs = "sprint_entries db fm keys start_at (effective_sprint_window_end s snapshot_at)"
  let ?flags = "map (\<lambda>k. (k, True)) (dedupe keys)"
  have "compute_sprint_initial_scope_flags db fm s keys snapshot_at
      = fold (set_flag ?refs) (sort_key (\<lambda>h. (hist_issue_key h, - hist_time h, - int (hist_id h))) ?hs) ?flags"
    using assms(3,4)
    by (simp add: compute_sprint_initial_scope_flags_def Let_def set_flag_def [abs_def] not_le)
  moreover have "distinct (map hist_id ?hs)"
    using assms(1) by (simp add: sprint_entries_def distinct_map_filter)
  ultimately have "map_of (compute_sprint_initial_scope_flags db fm s keys snapshot_at) k =
    (case find (changes_membership ?refs) (issue_log ?hs k) of
       None \<Rightarrow> Some True | Some h \<Rightarrow> Some (?refs (hist_old_value h)))"
    using map_of_const_flags [of k "dedupe keys" True] assms(2)
    by (simp only: fold_set_flag rev_issue_log set_dedupe)
  moreover have "b = (case find (changes_membership ?refs) (issue_log ?hs k) of
       None \<Rightarrow> True | Some h \<Rightarrow> ?refs (hist_old_value h))"
    by (rule sprint_log.chain_start [OF assms(5)])
  ultimately show ?thesis by (auto split: option.splits)
qed

subsection \<open>Churn counts movements, not rows\<close>

definition in_churn_window :: "store \<Rightarrow> string \<Rightarrow> string \<Rightarrow> field_mapping \<Rightarrow> py_datetime \<Rightarrow> issue_history \<Rightarrow> bool"
where
  "in_churn_window db rid project_key fm snapshot_at h \<longleftrightarrow>
     hist_issue_key h \<in> issue_key ` set (release_project_issues db rid project_key)
     \<and> is_fix_version_field fm (hist_field_name h)
     \<and> changed_within (\<lambda>t. to_utc snapshot_at - 7 * day_us \<le> t \<and> t \<le> to_utc snapshot_at) h"

text \<open>The movements of one kind: the identities of the rows of the window that make it.\<close>

definition churn_movements ::
  "(issue_history \<Rightarrow> bool) \<Rightarrow> store \<Rightarrow> string \<Rightarrow> string \<Rightarrow> field_mapping \<Rightarrow> py_datetime \<Rightarrow> event_identity set"
where
  "churn_movements P db rid project_key fm snapshot_at =
     event_identity_of ` {h \<in> set (histories db). in_churn_window db rid project_key fm snapshot_at h \<and> P h}"

lemma length_distinct_events: "length (distinct_events hs) = card (event_identity_of ` set hs)"
  by (simp add: distinct_events_def sort_events_def length_setdefaults image_image)

lemma set_distinct_events_keys:
  "set (event_keys (distinct_events hs)) = hist_issue_key ` set hs"
proof
  have m: "set (map snd (setdefaults (map (\<lambda>h. (event_identity_of h, scope_event_of h)) hs)))
      \<subseteq> scope_event_of ` set hs"
    using setdefaults_subset [of "map (\<lambda>h. (event_identity_of h, scope_event_of h)) hs"] by fastforce
  then show "set (event_keys (distinct_events hs)) \<subseteq> hist_issue_key ` set hs"
    by (auto simp: event_keys_def distinct_events_def sort_events_def scope_event_of_def)
  show "hist_issue_key ` set hs \<subseteq> set (event_keys (distinct_events hs))"
  proof
    fix k assume "k \<in> hist_issue_key ` set hs"
    then obtain h where h: "h \<in> set hs" "k = hist_issue_key h" by auto
    define kvs where "kvs = map (\<lambda>h. (event_identity_of h, scope_event_of h)) hs"
    have "event_identity_of h \<in> fst ` set (setdefaults kvs)" using h by (force simp: kvs_def)
    then obtain e where e: "(event_identity_of h, e) \<in> set (setdefaults kvs)"
      by (metis (no_types, lifting) imageE prod.collapse)
    then have "(event_identity_of h, e) \<in> set kvs" using setdefaults_subset by blast
    then obtain h' where h': "event_identity_of h' = event_identity_of h" "e = scope_event_of h'"
      by (auto simp: kvs_def)
    then have "se_issue_key e = k" using h(2) by (simp add: event_identity_of_def scope_event_of_def)
    moreover have "e \<in> snd ` set (setdefaults kvs)" using e by force
    ultimately show "k \<in> set (event_keys (distinct_events hs))"
      by (auto simp: event_keys_def distinct_events_def sort_events_def image_image simp flip: kvs_def)
  qed
qed

lemma churn_entries_set:
  "set (filter P (churn_entries db fm (map issue_key (release_project_issues db rid project_key))
      (to_utc snapshot_at)))
    = {h \<in> set (histories db). in_churn_window db rid project_key fm snapshot_at h \<and> P h}"
  by (auto simp: churn_entries_def in_churn_window_def)

definition release_refs :: "string \<Rightarrow> string option \<Rightarrow> bool" where
  "release_refs rname v = history_value_references_release v (casefold (strip rname))"

lemma churn_counts:
  "cr_scope_added_7d_count (compute_release_scope_churn_7d db rid pk rname fm t)
     = int (card (churn_movements (is_addition (release_refs rname)) db rid pk fm t))"
  "cr_scope_removed_7d_count (compute_release_scope_churn_7d db rid pk rname fm t)
     = int (card (churn_movements (is_removal (release_refs rname)) db rid pk fm t))"
  by (simp_all add: compute_release_scope_churn_7d_def Let_def length_distinct_events
      churn_entries_set [symmetric] churn_movements_def release_refs_def [abs_def] case_prod_unfold)

definition observed_scope :: "store \<Rightarrow> string \<Rightarrow> string \<Rightarrow> string \<Rightarrow> field_mapping \<Rightarrow> py_datetime \<Rightarrow> string set" where
  "observed_scope db rid pk rname fm t = issue_key ` set (release_issues db rid)
     \<union> fst ` churn_movements (changes_membership (release_refs rname)) db rid pk fm t"

lemma observed_scope_keys:
  "set (ch_observed_scope_issue_keys (cr_evidence (compute_release_scope_churn_7d db rid pk rname fm t)))
     = observed_scope db rid pk rname fm t"
proof -
  let ?E = "churn_entries db fm (map issue_key (release_project_issues db rid pk)) (to_utc t)"
  let ?R = "release_refs rname"
  have "fst ` event_identity_of ` A = hist_issue_key ` A" for A
    by (force simp: event_identity_of_def)
  moreover have "set (filter (is_addition ?R) ?E) \<union> set (filter (is_removal ?R) ?E)
      = set (filter (changes_membership ?R) ?E)"
    by (auto simp: changes_membership_def is_addition_def is_removal_def)
  ultimately have "hist_issue_key ` set (filter (is_addition ?R) ?E) \<union> hist_issue_key ` set (filter (is_removal ?R) ?E)
      = fst ` churn_movements (changes_membership ?R) db rid pk fm t"
    unfolding churn_movements_def churn_entries_set [symmetric] by (simp flip: image_Un)
  then show ?thesis
    unfolding observed_scope_def
    by (simp add: compute_release_scope_churn_7d_def Let_def set_distinct_events_keys
        release_refs_def [abs_def] case_prod_unfold)
qed

lemma churn_status_parts:
  "cr_missing_issue_keys (compute_release_scope_churn_7d db rid pk rname fm t)
     = map issue_key (filter (\<lambda>i. \<not> issue_changelog_complete i) (release_project_issues db rid pk))"
  "(cr_status (compute_release_scope_churn_7d db rid pk rname fm t),
    cr_scope_churn_7d_pct (compute_release_scope_churn_7d db rid pk rname fm t)) =
      (if filter (\<lambda>i. \<not> issue_changelog_complete i) (release_project_issues db rid pk) \<noteq> []
       then (PARTIAL, None)
       else if int (card (observed_scope db rid pk rname fm t)) = 0 then (NOT_COMPUTED, None)
       else (COMPUTED, Some (pct2
         (int (card (churn_movements (is_addition (release_refs rname)) db rid pk fm t))
          + int (card (churn_movements (is_removal (release_refs rname)) db rid pk fm t)))
         (int (card (observed_scope db rid pk rname fm t))))))"
proof -
  let ?r = "compute_release_scope_churn_7d db rid pk rname fm t"
  let ?obs = "ch_observed_scope_issue_keys (cr_evidence ?r)"
  show m: "cr_missing_issue_keys ?r = map issue_key
      (filter (\<lambda>i. \<not> issue_changelog_complete i) (release_project_issues db rid pk))"
    by (simp add: compute_release_scope_churn_7d_def Let_def case_prod_unfold)
  have "distinct ?obs" by (simp add: compute_release_scope_churn_7d_def Let_def case_prod_unfold)
  then have n: "int (length ?obs) = int (card (observed_scope db rid pk rname fm t))"
    by (simp add: distinct_card [symmetric] observed_scope_keys [symmetric])
  have s: "(cr_status ?r, cr_scope_churn_7d_pct ?r) =
      (if cr_missing_issue_keys ?r \<noteq> [] then (PARTIAL, None)
       else if int (length ?obs) = 0 then (NOT_COMPUTED, None)
       else (COMPUTED, Some (pct2 (cr_scope_added_7d_count ?r + cr_scope_removed_7d_count ?r) (int (length ?obs)))))"
    by (simp add: compute_release_scope_churn_7d_def Let_def case_prod_unfold)
  show "(cr_status ?r, cr_scope_churn_7d_pct ?r) =
      (if filter (\<lambda>i. \<not> issue_changelog_complete i) (release_project_issues db rid pk) \<noteq> []
       then (PARTIAL, None)
       else if int (card (observed_scope db rid pk rname fm t)) = 0 then (NOT_COMPUTED, None)
       else (COMPUTED, Some (pct2
         (int (card (churn_movements (is_addition (release_refs rname)) db rid pk fm t))
          + int (card (churn_movements (is_removal (release_refs rname)) db rid pk fm t)))
         (int (card (observed_scope db rid pk rname fm t))))))"
    using s unfolding n m churn_counts map_is_Nil_conv .
qed

text \<open>C9: The churn result by its parts: the counts are the numbers of distinct movements in the window,
  the percentage is their total over the observed scope (current issues and moved ones) and is given
  exactly when no project issue has an incomplete changelog and the observed scope is not empty;
  otherwise the status says which of the two is missing.\<close>

theorem scope_churn_result:
  "let r = compute_release_scope_churn_7d db rid pk rname fm t;
       a = int (card (churn_movements (is_addition (release_refs rname)) db rid pk fm t));
       d = int (card (churn_movements (is_removal (release_refs rname)) db rid pk fm t));
       incomplete = filter (\<lambda>i. \<not> issue_changelog_complete i) (release_project_issues db rid pk);
       n = int (card (observed_scope db rid pk rname fm t))
   in cr_scope_added_7d_count r = a \<and> cr_scope_removed_7d_count r = d
     \<and> cr_missing_issue_keys r = map issue_key incomplete
     \<and> (cr_status r, cr_scope_churn_7d_pct r) =
         (if incomplete \<noteq> [] then (PARTIAL, None) else if n = 0 then (NOT_COMPUTED, None)
          else (COMPUTED, Some (pct2 (a + d) n)))"
  unfolding Let_def by (intro conjI churn_counts churn_status_parts)

lemma churn_movements_dups:
  assumes "\<forall>d \<in> set dups. \<exists>h \<in> set (histories db). d = h\<lparr>hist_id := hist_id d\<rparr>"
    and Q: "\<And>h n. Q (h\<lparr>hist_id := n\<rparr>) = Q h"
  shows "churn_movements Q (db\<lparr>histories := histories db @ dups\<rparr>) rid pk fm t = churn_movements Q db rid pk fm t"
proof
  let ?db = "db\<lparr>histories := histories db @ dups\<rparr>"
  have W: "in_churn_window ?db rid pk fm t (h\<lparr>hist_id := n\<rparr>) = in_churn_window db rid pk fm t h" for h n
    by (simp add: in_churn_window_def release_project_issues_def changed_within_def hist_utc_def)
  have W': "in_churn_window ?db rid pk fm t h = in_churn_window db rid pk fm t h" for h
    by (simp add: in_churn_window_def release_project_issues_def)
  have I: "event_identity_of (h\<lparr>hist_id := n\<rparr>) = event_identity_of h" for h n
    by (simp add: event_identity_of_def hist_time_def hist_utc_def)
  show "churn_movements Q db rid pk fm t \<subseteq> churn_movements Q ?db rid pk fm t"
    unfolding churn_movements_def W' by auto
  show "churn_movements Q ?db rid pk fm t \<subseteq> churn_movements Q db rid pk fm t"
  proof
    fix e assume "e \<in> churn_movements Q ?db rid pk fm t"
    then obtain h where h: "h \<in> set (histories db) \<union> set dups" "in_churn_window ?db rid pk fm t h" "Q h"
      "e = event_identity_of h" by (auto simp: churn_movements_def)
    then obtain h' n where "h' \<in> set (histories db)" "h = h' \<or> h = h'\<lparr>hist_id := n\<rparr>"
      using assms(1) by blast
    with h have "h' \<in> set (histories db)" "in_churn_window db rid pk fm t h'" "Q h'" "e = event_identity_of h'"
      using W W' Q I by metis+
    then show "e \<in> churn_movements Q db rid pk fm t" by (auto simp: churn_movements_def)
  qed
qed

text \<open>Ingesting a changelog row again, under a new history id, changes none of the churn counts, the
  percentage or the status.\<close>

theorem scope_churn_idempotent:
  assumes "\<forall>d \<in> set dups. \<exists>h \<in> set (histories db). d = h\<lparr>hist_id := hist_id d\<rparr>"
  shows "let r = compute_release_scope_churn_7d db rid pk rname fm t;
           r' = compute_release_scope_churn_7d (db\<lparr>histories := histories db @ dups\<rparr>) rid pk rname fm t
       in cr_scope_added_7d_count r' = cr_scope_added_7d_count r
         \<and> cr_scope_removed_7d_count r' = cr_scope_removed_7d_count r
         \<and> (cr_status r', cr_scope_churn_7d_pct r') = (cr_status r, cr_scope_churn_7d_pct r)"
proof -
  let ?db = "db\<lparr>histories := histories db @ dups\<rparr>"
  have eq: "churn_movements Q ?db rid pk fm t = churn_movements Q db rid pk fm t"
    if "\<And>h n. Q (h\<lparr>hist_id := n\<rparr>) = Q h" for Q
    by (rule churn_movements_dups [OF assms that])
  have e: "churn_movements (is_addition (release_refs rname)) ?db rid pk fm t
        = churn_movements (is_addition (release_refs rname)) db rid pk fm t"
      "churn_movements (is_removal (release_refs rname)) ?db rid pk fm t
        = churn_movements (is_removal (release_refs rname)) db rid pk fm t"
      "churn_movements (changes_membership (release_refs rname)) ?db rid pk fm t
        = churn_movements (changes_membership (release_refs rname)) db rid pk fm t"
    by (rule eq; simp add: is_addition_def is_removal_def changes_membership_def)+
  have o: "observed_scope ?db rid pk rname fm t = observed_scope db rid pk rname fm t"
    by (simp add: observed_scope_def e release_issues_def)
  have p: "release_project_issues ?db rid pk = release_project_issues db rid pk"
    by (simp add: release_project_issues_def)
  show ?thesis unfolding Let_def churn_counts churn_status_parts e o p by simp
qed

subsection \<open>The reconstructed commitment of a sprint\<close>

lemma length_by_keys:
  assumes "finite K" and "\<forall>x \<in> set xs. f x \<in> K"
  shows "length xs = (\<Sum>k \<in> K. length (filter (\<lambda>x. f x = k) xs))"
  using assms(2)
proof (induction xs)
  case (Cons x xs)
  have "(\<Sum>k \<in> K. length (filter (\<lambda>y. f y = k) (x # xs)))
      = (\<Sum>k \<in> K. (if f x = k then 1 else 0) + length (filter (\<lambda>y. f y = k) xs))"
    by (intro sum.cong) auto
  also have "\<dots> = 1 + length xs"
    using Cons assms(1) by (simp add: sum.distrib sum.delta')
  finally show ?case by simp
qed simp

lemma filter_issue_log:
  "length (filter P (issue_log hs k)) = length (filter (\<lambda>h. hist_issue_key h = k) (filter P hs))"
  by (simp add: issue_log_def filter_sort conj_commute)

lemma creep_entries_sum:
  "length (filter P (creep_entries db fm s a e)) =
    (\<Sum>k \<in> issue_key ` set (sprint_project_issues db s).
       length (filter P (issue_log (creep_entries db fm s a e) k)))"
  unfolding filter_issue_log
  by (rule length_by_keys) (auto simp: creep_entries_def sprint_entries_def)

lemma creep_initial_commitment:
  assumes "coerce_utc (sprint_start_date s) = Some start_at"
    and "start_at \<le> effective_sprint_window_end s t"
  shows "ce_initial_commitment_count (cp_evidence (compute_sprint_scope_creep db fm s t)) =
     initial_commitment (length (current_scope_keys db s))
       (length (filter (is_addition (\<lambda>v. history_value_references_sprint v s))
         (creep_entries db fm s start_at (effective_sprint_window_end s t))))
       (length (filter (is_removal (\<lambda>v. history_value_references_sprint v s))
         (creep_entries db fm s start_at (effective_sprint_window_end s t))))"
  using assms by (auto simp: compute_sprint_scope_creep_def Let_def build_creep_result_def)

text \<open>The reconstructed initial commitment is the number of issues that were in the sprint when it
  started: if every project issue has a consistent membership log in the sprint window, from its state
  at sprint start to its present membership, the count of the evidence is the number of issues that
  started in.\<close>

theorem initial_commitment_correct:
  assumes "coerce_utc (sprint_start_date s) = Some start_at"
    and "start_at \<le> effective_sprint_window_end s t"
    and "set (current_scope_keys db s) \<subseteq> issue_key ` set (sprint_project_issues db s)"
    and "\<forall>k \<in> issue_key ` set (sprint_project_issues db s).
      membership_chain (\<lambda>v. history_value_references_sprint v s) (started k)
        (issue_log (creep_entries db fm s start_at (effective_sprint_window_end s t)) k)
        (k \<in> set (current_scope_keys db s))"
  shows "ce_initial_commitment_count (cp_evidence (compute_sprint_scope_creep db fm s t))
    = int (card {k \<in> issue_key ` set (sprint_project_issues db s). started k})"
proof -
  let ?K = "issue_key ` set (sprint_project_issues db s)"
  let ?E = "creep_entries db fm s start_at (effective_sprint_window_end s t)"
  let ?R = "\<lambda>v. history_value_references_sprint v s"
  let ?C = "current_scope_keys db s"
  let ?add = "length (filter (is_addition ?R) ?E)"
  let ?rem = "length (filter (is_removal ?R) ?E)"
  have "int ?add - int ?rem = (\<Sum>k \<in> ?K. int (length (filter (is_addition ?R) (issue_log ?E k)))
      - int (length (filter (is_removal ?R) (issue_log ?E k))))"
    unfolding sum_subtractf creep_entries_sum [of _ db fm s] by simp
  also have "\<dots> = (\<Sum>k \<in> ?K. of_bool (k \<in> set ?C) - of_bool (started k))"
    using assms(4) by (intro sum.cong refl sprint_log.chain_net) blast
  also have "\<dots> = int (card (?K \<inter> set ?C)) - int (card {k \<in> ?K. started k})"
    by (simp add: sum_subtractf sum.If_cases of_bool_def Int_def)
  also have "?K \<inter> set ?C = set ?C" using assms(3) by blast
  also have "card (set ?C) = length ?C" by (rule distinct_card) (simp add: current_scope_keys_def)
  finally have "int (length ?C) - int ?add + int ?rem = int (card {k \<in> ?K. started k})" by simp
  then show ?thesis
    unfolding creep_initial_commitment [OF assms(1,2)] initial_commitment_def by simp
qed

lemma build_creep_sel:
  "cp_status (build_creep_result db fm s t st v ex as rs) = st"
  "cp_value (build_creep_result db fm s t st v ex as rs) = v"
  "cp_missing_issue_keys (build_creep_result db fm s t st v ex as rs)
     = incomplete_history_keys (sprint_project_issues db s)"
  "ce_scope_creep_pct (cp_evidence (build_creep_result db fm s t st v ex as rs)) = v"
  "ce_calculation_status (cp_evidence (build_creep_result db fm s t st v ex as rs)) = st"
  "ce_scope_added_count (cp_evidence (build_creep_result db fm s t st v ex as rs)) = int (length as)"
  "ce_scope_removed_count (cp_evidence (build_creep_result db fm s t st v ex as rs)) = int (length rs)"
  "ce_scope_change_count (cp_evidence (build_creep_result db fm s t st v ex as rs))
     = int (length as) + int (length rs)"
  "ce_initial_commitment_count (cp_evidence (build_creep_result db fm s t st v ex as rs))
     = initial_commitment (length (current_scope_keys db s)) (length as) (length rs)"
  by (simp_all add: build_creep_result_def Let_def)

lemma initial_commitment_nonneg: "0 \<le> initial_commitment a b c"
  by (simp add: initial_commitment_def)

text \<open>The branches of the method, with the two event lists and the commitment named.\<close>

definition creep_additions :: "store \<Rightarrow> field_mapping \<Rightarrow> sprint \<Rightarrow> utc \<Rightarrow> utc \<Rightarrow> scope_event list" where
  "creep_additions db fm s a e = map scope_event_of
     (filter (is_addition (\<lambda>v. history_value_references_sprint v s)) (creep_entries db fm s a e))"

definition creep_removals :: "store \<Rightarrow> field_mapping \<Rightarrow> sprint \<Rightarrow> utc \<Rightarrow> utc \<Rightarrow> scope_event list" where
  "creep_removals db fm s a e = map scope_event_of
     (filter (is_removal (\<lambda>v. history_value_references_sprint v s)) (creep_entries db fm s a e))"

definition creep_commitment :: "store \<Rightarrow> field_mapping \<Rightarrow> sprint \<Rightarrow> utc \<Rightarrow> utc \<Rightarrow> int" where
  "creep_commitment db fm s a e = initial_commitment (length (current_scope_keys db s))
     (length (creep_additions db fm s a e)) (length (creep_removals db fm s a e))"

lemma creep_commitment_nonneg: "0 \<le> creep_commitment db fm s a e"
  by (simp add: creep_commitment_def initial_commitment_nonneg)

lemma creep_status_parts:
  assumes "r = compute_sprint_scope_creep db fm s t"
  shows "(cp_status r, cp_value r) =
    (case coerce_utc (sprint_start_date s) of
       None \<Rightarrow> (NOT_COMPUTED, None)
     | Some a \<Rightarrow> let e = effective_sprint_window_end s t;
           as = creep_additions db fm s a e; rs = creep_removals db fm s a e; n = creep_commitment db fm s a e
         in if e < a then (NOT_COMPUTED, None)
            else if cp_missing_issue_keys r \<noteq> [] then (PARTIAL, None)
            else if current_scope_keys db s = [] \<and> as = [] \<and> rs = [] \<or> n = 0 then (NOT_COMPUTED, None)
            else (COMPUTED, Some (pct2 (int (length as) + int (length rs)) n)))"
proof (cases "coerce_utc (sprint_start_date s)")
  case (Some a)
  let ?e = "effective_sprint_window_end s t"
  note fold = creep_additions_def [of db fm s a ?e, symmetric] creep_removals_def [of db fm s a ?e, symmetric]
    creep_commitment_def [of db fm s a ?e, symmetric]
  show ?thesis unfolding assms compute_sprint_scope_creep_def Let_def Some option.case fold
    by (auto simp: build_creep_sel)
qed (simp add: assms compute_sprint_scope_creep_def Let_def build_creep_sel)

lemma creep_evidence_parts:
  assumes "r = compute_sprint_scope_creep db fm s t" and "cp_status r = COMPUTED"
    and "coerce_utc (sprint_start_date s) = Some a"
  shows "ce_scope_change_count (cp_evidence r) =
      int (length (creep_additions db fm s a (effective_sprint_window_end s t)))
      + int (length (creep_removals db fm s a (effective_sprint_window_end s t)))"
    and "ce_initial_commitment_count (cp_evidence r) =
      creep_commitment db fm s a (effective_sprint_window_end s t)"
proof -
  let ?e = "effective_sprint_window_end s t"
  note flds = creep_additions_def [of db fm s a ?e, symmetric] creep_removals_def [of db fm s a ?e, symmetric]
  show "ce_scope_change_count (cp_evidence r) =
      int (length (creep_additions db fm s a ?e)) + int (length (creep_removals db fm s a ?e))"
    "ce_initial_commitment_count (cp_evidence r) = creep_commitment db fm s a ?e"
    using assms(2) unfolding assms(1) compute_sprint_scope_creep_def Let_def assms(3) option.case flds
    by (auto simp: build_creep_sel creep_commitment_def split: if_splits)
qed

text \<open>Both scope metrics keep the contract of \<open>evidence_metric\<close>.\<close>

interpretation scope_churn: evidence_metric cr_status cr_scope_churn_7d_pct cr_missing_issue_keys
  "\<lambda>r. \<exists>db rid pk rname fm t. r = compute_release_scope_churn_7d db rid pk rname fm t"
proof
  fix r :: churn_result and v
  assume "\<exists>db rid pk rname fm t. r = compute_release_scope_churn_7d db rid pk rname fm t"
  then obtain db rid pk rname fm t where r: "r = compute_release_scope_churn_7d db rid pk rname fm t" by blast
  note sel = churn_status_parts [of db rid pk rname fm t, folded r]
  show "cr_scope_churn_7d_pct r \<noteq> None \<longleftrightarrow> cr_status r = COMPUTED"
    using sel(2) by (simp split: if_splits)
  show "cr_status r = COMPUTED \<Longrightarrow> cr_missing_issue_keys r = []"
    using sel by (simp split: if_splits)
  assume "cr_scope_churn_7d_pct r = Some v"
  then show "0 \<le> v" using sel(2) by (auto split: if_splits intro!: pct2_nonneg)
qed

interpretation scope_creep: evidence_metric cp_status cp_value cp_missing_issue_keys
  "\<lambda>r. \<exists>db fm s t. r = compute_sprint_scope_creep db fm s t"
proof
  fix r :: creep_result and v
  assume "\<exists>db fm s t. r = compute_sprint_scope_creep db fm s t"
  then obtain db fm s t where r: "r = compute_sprint_scope_creep db fm s t" by blast
  note sel = creep_status_parts [OF r] and n = creep_commitment_nonneg
  show "cp_value r \<noteq> None \<longleftrightarrow> cp_status r = COMPUTED"
    using sel by (simp add: Let_def split: if_splits option.splits)
  show "cp_status r = COMPUTED \<Longrightarrow> cp_missing_issue_keys r = []"
    using sel by (simp add: Let_def split: if_splits option.splits)
  assume "cp_value r = Some v"
  then show "0 \<le> v" using sel n
    by (auto simp: Let_def order.not_eq_order_implies_strict split: if_splits option.splits intro!: pct2_nonneg)
qed

text \<open>A scope creep percentage is given exactly when the status is computed; it is then the number of
  movements over a positive initial commitment and no project issue has an incomplete changelog. An
  incomplete changelog makes the result partial as soon as the sprint window exists.\<close>

theorem scope_creep_contract:
  "let r = compute_sprint_scope_creep db fm s t; ev = cp_evidence r
   in (cp_value r = None \<longleftrightarrow> cp_status r \<noteq> COMPUTED)
     \<and> (cp_status r = COMPUTED \<longrightarrow> cp_missing_issue_keys r = [] \<and> 0 < ce_initial_commitment_count ev
           \<and> cp_value r = Some (pct2 (ce_scope_change_count ev) (ce_initial_commitment_count ev)))
     \<and> (cp_status r = PARTIAL \<longleftrightarrow> cp_missing_issue_keys r \<noteq> []
           \<and> (\<exists>a. coerce_utc (sprint_start_date s) = Some a \<and> a \<le> effective_sprint_window_end s t))"
proof -
  define r where "r = compute_sprint_scope_creep db fm s t"
  note sel = creep_status_parts [OF r_def]
  have "0 < ce_initial_commitment_count (cp_evidence r)
      \<and> cp_value r = Some (pct2 (ce_scope_change_count (cp_evidence r)) (ce_initial_commitment_count (cp_evidence r)))"
    if c: "cp_status r = COMPUTED"
  proof (cases "coerce_utc (sprint_start_date s)")
    case (Some a)
    show ?thesis
      using sel c creep_evidence_parts [OF r_def c Some] creep_commitment_nonneg
        [of db fm s a "effective_sprint_window_end s t"]
      by (simp add: Some Let_def split: if_splits)
  qed (use sel c in simp)
  moreover have "cp_status r = PARTIAL \<longleftrightarrow> cp_missing_issue_keys r \<noteq> []
      \<and> (\<exists>a. coerce_utc (sprint_start_date s) = Some a \<and> a \<le> effective_sprint_window_end s t)"
    using sel by (auto simp: Let_def split: if_splits option.splits)
  moreover have "cp_value r = None \<longleftrightarrow> cp_status r \<noteq> COMPUTED"
    using scope_creep.value_iff [of r] r_def by blast
  moreover have "cp_status r = COMPUTED \<Longrightarrow> cp_missing_issue_keys r = []"
    using scope_creep.complete [of r] r_def by blast
  ultimately show ?thesis unfolding Let_def r_def [symmetric] by blast
qed

subsection \<open>A small project\<close>

definition day_of :: "int \<Rightarrow> py_datetime option" where
  "day_of n = Some (naive (n * day_us))"

definition sample_sprint :: sprint where
  "sample_sprint = \<lparr>sprint_id = ''7'', sprint_name = ''Sprint 7'', sprint_state = ''active'',
     sprint_project_key = ''P'', sprint_board_id = None, sprint_start_date = day_of 10,
     sprint_end_date = day_of 24, sprint_complete_date = None, sprint_goal = None\<rparr>"

definition sample_move :: "nat \<Rightarrow> string \<Rightarrow> string \<Rightarrow> string option \<Rightarrow> string option \<Rightarrow> int \<Rightarrow> issue_history" where
  "sample_move n key field old new day = \<lparr>hist_id = n, hist_issue_key = key, hist_field_name = field,
     hist_old_value = old, hist_new_value = new, hist_changed_at = day_of day\<rparr>"

text \<open>P-1 is in the sprint from the start, P-2 joins on day 13, P-3 leaves on day 12.\<close>

definition sample_store :: store where
  "sample_store = \<lparr>issues = sample_issues,
     histories = [sample_move 1 ''P-3'' ''Sprint'' (Some ''Sprint 7'') None 12,
       sample_move 2 ''P-2'' ''Sprint'' None (Some ''Sprint 7'') 13,
       sample_move 3 ''P-2'' ''Fix Version'' None (Some ''1.0'') 14],
     issue_sprints = [\<lparr>link_issue_key = ''P-1'', link_sprint_id = ''7''\<rparr>,
       \<lparr>link_issue_key = ''P-2'', link_sprint_id = ''7''\<rparr>],
     sprints = [sample_sprint], releases = []\<rparr>"

definition sample_now :: py_datetime where "sample_now = naive (15 * day_us)"

lemma sample_window: "effective_sprint_window_end sample_sprint sample_now = 15 * day_us"
  by code_simp

lemma sample_start: "coerce_utc (sprint_start_date sample_sprint) = Some (10 * day_us)"
  by code_simp

lemma initial_scope_flags_recover_witness:
  "map_of (compute_sprint_initial_scope_flags sample_store default_mapping sample_sprint [''P-1'', ''P-2'']
     sample_now) ''P-2'' = Some False"
proof (rule initial_scope_flags_recover [OF _ _ sample_start])
  show "distinct (map hist_id (histories sample_store))" by code_simp
  show "10 * day_us < effective_sprint_window_end sample_sprint sample_now" by code_simp
  show "membership_chain (\<lambda>v. history_value_references_sprint v sample_sprint) False
    (issue_log (sprint_entries sample_store default_mapping [''P-1'', ''P-2''] (10 * day_us)
      (effective_sprint_window_end sample_sprint sample_now)) ''P-2'') True"
    unfolding sample_window by code_simp
qed simp

lemma sample_project: "map issue_key (sprint_project_issues sample_store sample_sprint) = [''P-1'', ''P-2'', ''P-3'']"
  by code_simp

definition sample_entries :: "issue_history list" where
  "sample_entries = [sample_move 1 ''P-3'' ''Sprint'' (Some ''Sprint 7'') None 12,
     sample_move 2 ''P-2'' ''Sprint'' None (Some ''Sprint 7'') 13]"

lemma sample_entries:
  "creep_entries sample_store default_mapping sample_sprint (10 * day_us) (15 * day_us) = sample_entries"
  unfolding creep_entries_def sprint_entries_def sample_project by code_simp

lemma initial_commitment_correct_witness:
  "ce_initial_commitment_count (cp_evidence
     (compute_sprint_scope_creep sample_store default_mapping sample_sprint sample_now)) = 2"
proof -
  have k: "issue_key ` set (sprint_project_issues sample_store sample_sprint) = {''P-1'', ''P-2'', ''P-3''}"
    using arg_cong [OF sample_project, of set] by simp
  have "current_scope_keys sample_store sample_sprint = [''P-1'', ''P-2'']" by code_simp
  then have c: "set (current_scope_keys sample_store sample_sprint) = {''P-1'', ''P-2''}" by simp
  let ?chain = "\<lambda>b k. membership_chain (\<lambda>v. history_value_references_sprint v sample_sprint) b
    (issue_log sample_entries k)"
  have "?chain True ''P-1'' True" "?chain False ''P-2'' True" "?chain True ''P-3'' False" by code_simp+
  note chain = this [folded sample_entries]
  have "ce_initial_commitment_count (cp_evidence
      (compute_sprint_scope_creep sample_store default_mapping sample_sprint sample_now))
    = int (card {k \<in> issue_key ` set (sprint_project_issues sample_store sample_sprint). k \<in> {''P-1'', ''P-3''}})"
    by (rule initial_commitment_correct [OF sample_start])
      (use chain in \<open>simp_all add: k c sample_window day_us_def\<close>)
  moreover have "{k \<in> {''P-1'', ''P-2'', ''P-3''}. k \<in> {''P-1'', ''P-3''}} = {''P-1'', ''P-3''}" by auto
  ultimately show ?thesis by (simp add: k)
qed

lemma scope_creep_contract_witness:
  "cp_status (compute_sprint_scope_creep sample_store default_mapping sample_sprint sample_now) = PARTIAL
    \<longleftrightarrow> cp_missing_issue_keys (compute_sprint_scope_creep sample_store default_mapping sample_sprint sample_now) \<noteq> []"
proof -
  have "10 * day_us \<le> effective_sprint_window_end sample_sprint sample_now"
    by (simp add: sample_window day_us_def)
  with scope_creep_contract [of sample_store default_mapping sample_sprint sample_now] sample_start
  show ?thesis unfolding Let_def by blast
qed

lemma scope_churn_idempotent_witness:
  "cr_scope_added_7d_count (compute_release_scope_churn_7d
      (sample_store\<lparr>histories := histories sample_store @ [sample_move 9 ''P-2'' ''Fix Version'' None (Some ''1.0'') 14]\<rparr>)
      ''R1'' ''P'' ''1.0'' default_mapping sample_now)
    = cr_scope_added_7d_count (compute_release_scope_churn_7d sample_store ''R1'' ''P'' ''1.0'' default_mapping sample_now)"
proof -
  have "\<forall>d \<in> set [sample_move 9 ''P-2'' ''Fix Version'' None (Some ''1.0'') 14].
      \<exists>h \<in> set (histories sample_store). d = h\<lparr>hist_id := hist_id d\<rparr>"
    by (simp add: sample_store_def sample_move_def)
  from scope_churn_idempotent [OF this, of "''R1''" "''P''" "''1.0''" default_mapping sample_now]
  show ?thesis unfolding Let_def by blast
qed

end
