(* ===== verification/FlowMetrics.thy ===== *)
theory FlowMetrics
  imports ScopeMetrics
begin

text \<open>
  Flow metrics of services/analytics_service.py: the status history of the scoped issues, the median
  cycle time with the reason for every issue that is left out, and the reopen event rate. The loop
  over the issues of the cycle time is the function \<open>cycle_outcome\<close> of one issue and the lists of the
  issues with each outcome.
\<close>

subsection \<open>Status histories\<close>

definition load_status_histories :: "store \<Rightarrow> string list \<Rightarrow> string \<Rightarrow> issue_history list" where
  "load_status_histories db keys k =
     filter (\<lambda>h. hist_issue_key h = k \<and> normalize_text (Some (hist_field_name h)) = ''status'')
       (sort_key (\<lambda>h. (hist_issue_key h, hist_time h, hist_id h))
         (filter (\<lambda>h. hist_issue_key h \<in> set keys) (histories db)))"

lemma set_load_status_histories:
  "k \<in> set keys \<Longrightarrow> set (load_status_histories db keys k) =
     {h \<in> set (histories db). hist_issue_key h = k \<and> normalize_text (Some (hist_field_name h)) = ''status''}"
  by (auto simp: load_status_histories_def)

subsection \<open>Cycle time\<close>

datatype cycle_outcome =
  Missing_Status | Not_Done | Incomplete_History | Invalid_Timestamp | No_In_Progress | No_Later_Done
| Included utc utc

definition entered_at :: "(string option \<Rightarrow> bool) \<Rightarrow> issue_history \<Rightarrow> utc option" where
  "entered_at P h = (if P (hist_new_value h) then hist_utc h else None)"

definition started_candidates :: "field_mapping \<Rightarrow> issue_history list \<Rightarrow> utc list" where
  "started_candidates fm hs = sort (List.map_filter (entered_at (is_in_progress_status fm)) hs)"

definition ended_candidates :: "field_mapping \<Rightarrow> issue_history list \<Rightarrow> utc \<Rightarrow> utc list" where
  "ended_candidates fm hs started =
     sort (filter (\<lambda>t. t > started) (List.map_filter (entered_at (is_done_status fm)) hs))"

definition relevant_invalid_timestamp :: "field_mapping \<Rightarrow> issue_history list \<Rightarrow> bool" where
  "relevant_invalid_timestamp fm hs = list_ex (\<lambda>h. hist_changed_at h = None
     \<and> (is_in_progress_status fm (hist_new_value h) \<or> is_done_status fm (hist_new_value h))) hs"

definition cycle_outcome_of :: "field_mapping \<Rightarrow> issue_history list \<Rightarrow> issue \<Rightarrow> cycle_outcome" where
  "cycle_outcome_of fm hs i =
    (if normalize_text (issue_status i) = [] then Missing_Status
     else if \<not> is_done_status fm (issue_status i) then Not_Done
     else if \<not> issue_changelog_complete i then Incomplete_History
     else if relevant_invalid_timestamp fm hs then Invalid_Timestamp
     else case started_candidates fm hs of
            [] \<Rightarrow> No_In_Progress
          | started # _ \<Rightarrow>
             (case ended_candidates fm hs started of
                [] \<Rightarrow> No_Later_Done
              | ended # _ \<Rightarrow> Included started ended))"

record included_issue =
  in_issue_key :: string
  in_start_at :: string
  in_end_at :: string
  in_duration_days :: pyfloat

record cycle_evidence =
  cy_scoped_issue_keys :: "string list"
  cy_included_issues :: "included_issue list"
  cy_missing_status_issue_keys :: "string list"
  cy_incomplete_history_issue_keys :: "string list"
  cy_no_in_progress_issue_keys :: "string list"
  cy_no_later_done_issue_keys :: "string list"
  cy_invalid_timestamp_issue_keys :: "string list"

record cycle_result =
  ct_status :: computation_status
  ct_value :: "pyfloat option"
  ct_available :: bool
  ct_explanations :: "string list"
  ct_missing_issue_keys :: "string list"
  ct_evidence :: cycle_evidence

definition cycle_spans :: "field_mapping \<Rightarrow> (string \<Rightarrow> issue_history list) \<Rightarrow> issue list \<Rightarrow> (string \<times> utc \<times> utc) list"
where
  "cycle_spans fm hist xs = List.map_filter (\<lambda>i. case cycle_outcome_of fm (hist (issue_key i)) i of
       Included a e \<Rightarrow> Some (issue_key i, a, e) | _ \<Rightarrow> None) (sort_key issue_key xs)"

definition keys_with_outcome ::
  "cycle_outcome \<Rightarrow> field_mapping \<Rightarrow> (string \<Rightarrow> issue_history list) \<Rightarrow> issue list \<Rightarrow> string list" where
  "keys_with_outcome oc fm hist xs =
     map issue_key (filter (\<lambda>i. cycle_outcome_of fm (hist (issue_key i)) i = oc) (sort_key issue_key xs))"

definition evaluate_cycle_time ::
  "field_mapping \<Rightarrow> (string \<Rightarrow> issue_history list) \<Rightarrow> issue list \<Rightarrow> cycle_result" where
  "evaluate_cycle_time fm hist xs =
    (let missing_status = keys_with_outcome Missing_Status fm hist xs;
         incomplete = keys_with_outcome Incomplete_History fm hist xs;
         spans = cycle_spans fm hist xs;
         durations = map (\<lambda>(k, a, e). duration_days a e) spans;
         partial = sorted_keys (missing_status @ incomplete);
         (status, v) =
           (if partial \<noteq> [] then (PARTIAL, None)
            else if durations \<noteq> [] then (COMPUTED, Some (py_round 4 (median durations)))
            else (NOT_COMPUTED, None))
     in \<lparr>ct_status = status, ct_value = v, ct_available = (status = COMPUTED),
         ct_explanations =
           (if missing_status \<noteq> []
            then [''Median cycle time is partial because current status is missing for: ''
                  @ join '', '' missing_status @ ''.''] else [])
         @ (if incomplete \<noteq> []
            then [''Median cycle time is partial because Jira changelog history is incomplete for: ''
                  @ join '', '' incomplete @ ''.''] else [])
         @ (if status = NOT_COMPUTED
            then [''Median cycle time is not computed because complete evidence contains no valid ''
                  @ ''in-progress-to-done transition pair.''] else []),
         ct_missing_issue_keys = partial,
         ct_evidence = \<lparr>cy_scoped_issue_keys = sort (map issue_key xs),
           cy_included_issues = map (\<lambda>(k, a, e). \<lparr>in_issue_key = k, in_start_at = isoformat_utc a,
              in_end_at = isoformat_utc e, in_duration_days = py_round 4 (duration_days a e)\<rparr>) spans,
           cy_missing_status_issue_keys = missing_status,
           cy_incomplete_history_issue_keys = incomplete,
           cy_no_in_progress_issue_keys = keys_with_outcome No_In_Progress fm hist xs,
           cy_no_later_done_issue_keys = keys_with_outcome No_Later_Done fm hist xs,
           cy_invalid_timestamp_issue_keys = keys_with_outcome Invalid_Timestamp fm hist xs\<rparr>\<rparr>)"

subsection \<open>Reopen event rate\<close>

type_synonym reopen_identity = "string \<times> utc \<times> string \<times> string"

text \<open>A transition from a done status to a named status that is not done.\<close>

definition reopen_identity_of :: "field_mapping \<Rightarrow> string \<Rightarrow> issue_history \<Rightarrow> reopen_identity option" where
  "reopen_identity_of fm k h =
    (case hist_utc h of
       None \<Rightarrow> None
     | Some t \<Rightarrow>
        (if is_done_status fm (hist_old_value h) \<and> normalize_text (hist_new_value h) \<noteq> []
            \<and> \<not> is_done_status fm (hist_new_value h)
         then Some (k, t, normalize_text (hist_old_value h), normalize_text (hist_new_value h)) else None))"

definition reopen_candidates ::
  "field_mapping \<Rightarrow> (string \<Rightarrow> issue_history list) \<Rightarrow> string list \<Rightarrow> reopen_identity list" where
  "reopen_candidates fm hist keys = concat (map (\<lambda>k. List.map_filter (reopen_identity_of fm k) (hist k)) keys)"

definition reached_done_keys :: "field_mapping \<Rightarrow> (string \<Rightarrow> issue_history list) \<Rightarrow> string list \<Rightarrow> string list" where
  "reached_done_keys fm hist keys =
     filter (\<lambda>k. list_ex (\<lambda>h. is_done_status fm (hist_new_value h)) (hist k)) keys"

record reopen_event =
  re_issue_key :: string
  re_transition_at :: string
  re_old_status :: string
  re_new_status :: string

record reopen_evidence =
  rp_scoped_issue_keys :: "string list"
  rp_eligible_issue_keys :: "string list"
  rp_eligible_ticket_count :: int
  rp_reopen_events :: "reopen_event list"
  rp_reopen_event_count :: int
  rp_event_count_by_issue :: "(string \<times> int) list"
  rp_multiple_reopen_issue_keys :: "string list"
  rp_repeated_event_explanations :: "string list"
  rp_missing_status_issue_keys :: "string list"
  rp_missing_status_affecting_issue_keys :: "string list"
  rp_incomplete_history_issue_keys :: "string list"

record reopen_result =
  rr_status :: computation_status
  rr_value :: "pyfloat option"
  rr_available :: bool
  rr_explanations :: "string list"
  rr_missing_issue_keys :: "string list"
  rr_confirmed_eligible_ticket_count :: int
  rr_confirmed_reopen_event_count :: int
  rr_evidence :: reopen_evidence

definition count_by_issue :: "reopen_identity list \<Rightarrow> (string \<times> int) list" where
  "count_by_issue events =
     fold (\<lambda>e. upsert (fst e) (\<lambda>old. (case old of None \<Rightarrow> 0 | Some n \<Rightarrow> n) + 1)) events []"

definition repeated_explanation :: "(string \<times> int) list \<Rightarrow> string \<Rightarrow> string" where
  "repeated_explanation counts k =
     ''Ticket '' @ k @ '' was counted '' @ int_str (the (map_of counts k)) @ '' times because it was ''
     @ ''reopened '' @ int_str (the (map_of counts k)) @ '' times.''"

definition eligible_keys :: "field_mapping \<Rightarrow> (string \<Rightarrow> issue_history list) \<Rightarrow> issue list \<Rightarrow> string list" where
  "eligible_keys fm hist xs = sorted_keys (map issue_key (filter (\<lambda>i. is_done_status fm (issue_status i)) xs)
     @ reached_done_keys fm hist (sort (map issue_key xs)))"

definition reopen_events_of ::
  "field_mapping \<Rightarrow> (string \<Rightarrow> issue_history list) \<Rightarrow> issue list \<Rightarrow> reopen_identity list" where
  "reopen_events_of fm hist xs =
     filter (\<lambda>e. fst e \<in> set (eligible_keys fm hist xs))
       (sorted_keys (reopen_candidates fm hist (sort (map issue_key xs))))"

definition evaluate_reopen_event_rate ::
  "field_mapping \<Rightarrow> (string \<Rightarrow> issue_history list) \<Rightarrow> issue list \<Rightarrow> reopen_result" where
  "evaluate_reopen_event_rate fm hist xs =
    (let scoped = sort (map issue_key xs);
         missing_status = sort (map issue_key (filter (\<lambda>i. normalize_text (issue_status i) = []) xs));
         incomplete = sort (map issue_key (filter (\<lambda>i. \<not> issue_changelog_complete i) xs));
         reached = reached_done_keys fm hist scoped;
         eligible = eligible_keys fm hist xs;
         affecting = sorted_keys (filter (\<lambda>k. k \<notin> set reached) missing_status);
         events = reopen_events_of fm hist xs;
         counts = count_by_issue events;
         multiple = sort (map fst (filter (\<lambda>(k, n). n > 1) counts));
         repeated = map (repeated_explanation counts) multiple;
         partial = sorted_keys (affecting @ incomplete);
         event_count = int (length events);
         eligible_count = int (length eligible);
         (status, v) =
           (if partial \<noteq> [] then (PARTIAL, None)
            else if eligible_count > 0 then (COMPUTED, Some (pct2 event_count eligible_count))
            else (NOT_COMPUTED, None))
     in \<lparr>rr_status = status, rr_value = v, rr_available = (status = COMPUTED),
         rr_explanations =
           (if affecting \<noteq> []
            then [''Reopen event rate is partial because current status could change eligibility for: ''
                  @ join '', '' affecting @ ''.''] else [])
         @ (if incomplete \<noteq> []
            then [''Reopen event rate is partial because Jira changelog history is incomplete for: ''
                  @ join '', '' incomplete @ ''.''] else [])
         @ (if status = NOT_COMPUTED
            then [''Reopen event rate is not computed because no scoped ticket has reached done.''] else [])
         @ repeated,
         rr_missing_issue_keys = partial,
         rr_confirmed_eligible_ticket_count = eligible_count,
         rr_confirmed_reopen_event_count = event_count,
         rr_evidence = \<lparr>rp_scoped_issue_keys = scoped, rp_eligible_issue_keys = eligible,
           rp_eligible_ticket_count = eligible_count,
           rp_reopen_events = map (\<lambda>(k, t, old, new). \<lparr>re_issue_key = k, re_transition_at = isoformat_utc t,
              re_old_status = old, re_new_status = new\<rparr>) events,
           rp_reopen_event_count = event_count, rp_event_count_by_issue = counts,
           rp_multiple_reopen_issue_keys = multiple, rp_repeated_event_explanations = repeated,
           rp_missing_status_issue_keys = missing_status,
           rp_missing_status_affecting_issue_keys = affecting,
           rp_incomplete_history_issue_keys = incomplete\<rparr>\<rparr>)"

subsection \<open>Evaluation of a scope\<close>

definition evaluate_release_flow_metrics ::
  "store \<Rightarrow> string \<Rightarrow> field_mapping \<Rightarrow> cycle_result \<times> reopen_result" where
  "evaluate_release_flow_metrics db rid fm =
    (let xs = release_issues db rid; hist = load_status_histories db (map issue_key xs)
     in (evaluate_cycle_time fm hist xs, evaluate_reopen_event_rate fm hist xs))"

definition evaluate_sprint_flow_metrics ::
  "store \<Rightarrow> string \<Rightarrow> field_mapping \<Rightarrow> cycle_result \<times> reopen_result" where
  "evaluate_sprint_flow_metrics db sid fm =
    (let xs = list_sprint_issues db sid; hist = load_status_histories db (map issue_key xs)
     in (evaluate_cycle_time fm hist xs, evaluate_reopen_event_rate fm hist xs))"

subsection \<open>Cycle time is an interval\<close>

lemma set_map_filter: "set (List.map_filter f xs) = {y. \<exists>x \<in> set xs. f x = Some y}"
  by (induction xs) (auto simp: List.map_filter_simps split: option.splits)

definition entry_times :: "(string option \<Rightarrow> bool) \<Rightarrow> issue_history set \<Rightarrow> utc set" where
  "entry_times P H = {t. \<exists>h \<in> H. P (hist_new_value h) \<and> hist_utc h = Some t}"

lemma set_map_filter_entered: "set (List.map_filter (entered_at P) hs) = entry_times P (set hs)"
  by (auto simp: set_map_filter entered_at_def entry_times_def split: if_splits)

lemma cycle_outcome_Included:
  assumes "cycle_outcome_of fm hs i = Included a e"
  shows "a \<in> entry_times (is_in_progress_status fm) (set hs)"
    and "e \<in> entry_times (is_done_status fm) (set hs)" and "a < e"
    and "\<And>t. t \<in> entry_times (is_in_progress_status fm) (set hs) \<Longrightarrow> a \<le> t"
    and "\<And>t. t \<in> entry_times (is_done_status fm) (set hs) \<Longrightarrow> a < t \<Longrightarrow> e \<le> t"
proof -
  obtain as es where s: "started_candidates fm hs = a # as" "ended_candidates fm hs a = e # es"
    using assms by (auto simp: cycle_outcome_of_def split: if_splits list.splits)
  have 1: "set (started_candidates fm hs) = entry_times (is_in_progress_status fm) (set hs)"
    by (simp add: started_candidates_def set_map_filter_entered)
  have 2: "set (ended_candidates fm hs a) = {t \<in> entry_times (is_done_status fm) (set hs). a < t}"
    by (auto simp: ended_candidates_def set_map_filter_entered)
  have o: "sorted (a # as)" "sorted (e # es)"
    unfolding s [symmetric] by (simp_all add: started_candidates_def ended_candidates_def)
  show "a \<in> entry_times (is_in_progress_status fm) (set hs)" using 1 s by auto
  show "e \<in> entry_times (is_done_status fm) (set hs)" "a < e" using 2 s by auto
  show "a \<le> t" if "t \<in> entry_times (is_in_progress_status fm) (set hs)" for t
    using that o(1) 1 s by auto
  show "e \<le> t" if "t \<in> entry_times (is_done_status fm) (set hs)" "a < t" for t
    using that o(2) 2 s by auto
qed

lemma span_Some:
  "(case oc of Included a e \<Rightarrow> Some (k, a, e) | _ \<Rightarrow> None) = Some z
     \<longleftrightarrow> (\<exists>a e. oc = Included a e \<and> z = (k, a, e))"
  by (cases oc) auto

lemma cycle_spans_iff:
  "(k, a, e) \<in> set (cycle_spans fm hist xs) \<longleftrightarrow>
     (\<exists>i \<in> set xs. k = issue_key i \<and> cycle_outcome_of fm (hist (issue_key i)) i = Included a e)"
  by (auto simp: cycle_spans_def set_map_filter span_Some)

lemma cycle_spans_pos: "(k, a, e) \<in> set (cycle_spans fm hist xs) \<Longrightarrow> a < e"
  by (auto simp: cycle_spans_iff dest: cycle_outcome_Included(3))

lemma durations_nonneg:
  "d \<in> set (map (\<lambda>(k, a, e). duration_days a e) (cycle_spans fm hist xs)) \<Longrightarrow> 0 \<le> d"
  by (auto dest!: cycle_spans_pos intro: duration_days_nonneg)

lemma is_double_duration [simp]: "is_double (duration_days a e)"
  by (simp add: duration_days_def fdiv_def)

text \<open>The median of non-negative durations, rounded, is not negative.\<close>

lemma rounded_median_nonneg:
  assumes "xs \<noteq> []" and "\<And>x. x \<in> set xs \<Longrightarrow> 0 \<le> x"
  shows "0 \<le> py_round n (median xs)"
proof (rule dec.lower)
  show "0 \<le> median xs"
  proof -
    define s where "s = sort xs"
    have s: "0 \<le> s ! i" if "i < length xs" for i
      using that assms(2) nth_mem [of i s] by (simp add: s_def)
    have "length xs div 2 - 1 < length xs" "length xs div 2 < length xs" using assms(1) by (cases xs; simp)+
    moreover have "length s = length xs" by (simp add: s_def)
    ultimately show ?thesis using s
      by (simp add: median_def Let_def s_def [symmetric] fdiv_def fadd_def fl_nonneg)
  qed
qed simp

lemma cycle_time_sel:
  "ct_missing_issue_keys (evaluate_cycle_time fm hist xs) =
     sorted_keys (keys_with_outcome Missing_Status fm hist xs @ keys_with_outcome Incomplete_History fm hist xs)"
  "(ct_status (evaluate_cycle_time fm hist xs), ct_value (evaluate_cycle_time fm hist xs)) =
     (if ct_missing_issue_keys (evaluate_cycle_time fm hist xs) \<noteq> [] then (PARTIAL, None)
      else if cycle_spans fm hist xs \<noteq> []
      then (COMPUTED, Some (py_round 4 (median (map (\<lambda>(k, a, e). duration_days a e) (cycle_spans fm hist xs)))))
      else (NOT_COMPUTED, None))"
  by (simp_all add: evaluate_cycle_time_def Let_def case_prod_unfold)

lemma reopen_sel:
  "(rr_status (evaluate_reopen_event_rate fm hist xs), rr_value (evaluate_reopen_event_rate fm hist xs)) =
     (if rr_missing_issue_keys (evaluate_reopen_event_rate fm hist xs) \<noteq> [] then (PARTIAL, None)
      else if eligible_keys fm hist xs \<noteq> []
      then (COMPUTED, Some (pct2 (int (length (reopen_events_of fm hist xs))) (int (length (eligible_keys fm hist xs)))))
      else (NOT_COMPUTED, None))"
  by (simp add: evaluate_reopen_event_rate_def Let_def case_prod_unfold)

interpretation cycle_time: evidence_metric ct_status ct_value ct_missing_issue_keys
  "\<lambda>r. \<exists>fm hist xs. r = evaluate_cycle_time fm hist xs"
proof
  fix r :: cycle_result and v
  assume "\<exists>fm hist xs. r = evaluate_cycle_time fm hist xs"
  then obtain fm hist xs where r: "r = evaluate_cycle_time fm hist xs" by blast
  note sel = cycle_time_sel(2) [of fm hist xs, folded r]
  show "ct_value r \<noteq> None \<longleftrightarrow> ct_status r = COMPUTED" using sel by (simp split: if_splits)
  show "ct_status r = COMPUTED \<Longrightarrow> ct_missing_issue_keys r = []" using sel by (simp split: if_splits)
  assume "ct_value r = Some v"
  then have v: "v = py_round 4 (median (map (\<lambda>(k, a, e). duration_days a e) (cycle_spans fm hist xs)))"
    and n: "cycle_spans fm hist xs \<noteq> []" using sel by (simp_all split: if_splits)
  show "0 \<le> v" unfolding v
    by (rule rounded_median_nonneg) (use n durations_nonneg in \<open>blast | simp\<close>)+
qed

interpretation reopen_rate: evidence_metric rr_status rr_value rr_missing_issue_keys
  "\<lambda>r. \<exists>fm hist xs. r = evaluate_reopen_event_rate fm hist xs"
proof
  fix r :: reopen_result and v
  assume "\<exists>fm hist xs. r = evaluate_reopen_event_rate fm hist xs"
  then obtain fm hist xs where r: "r = evaluate_reopen_event_rate fm hist xs" by blast
  note sel = reopen_sel [of fm hist xs, folded r]
  show "rr_value r \<noteq> None \<longleftrightarrow> rr_status r = COMPUTED" using sel by (simp split: if_splits)
  show "rr_status r = COMPUTED \<Longrightarrow> rr_missing_issue_keys r = []" using sel by (simp split: if_splits)
  assume "rr_value r = Some v"
  then show "0 \<le> v" using sel by (auto split: if_splits intro!: pct2_nonneg)
qed

subsection \<open>Only the set of recorded changes matters\<close>

definition least_of :: "utc \<Rightarrow> utc set \<Rightarrow> bool" where
  "least_of a S \<longleftrightarrow> a \<in> S \<and> (\<forall>t \<in> S. a \<le> t)"

lemma least_of_unique: "least_of a S \<Longrightarrow> least_of b S \<Longrightarrow> a = b"
  by (simp add: least_of_def order_antisym)

lemma sort_Cons_least: "sort xs = a # ys \<Longrightarrow> least_of a (set xs)"
  by (metis least_of_def list.set_intros(1) set_ConsD set_sort sorted_simps(2) sorted_sort order_refl)

lemma set_started [simp]: "set (started_candidates fm hs) = entry_times (is_in_progress_status fm) (set hs)"
  by (simp add: started_candidates_def set_map_filter_entered)

lemma set_ended [simp]: "set (ended_candidates fm hs a) = {t \<in> entry_times (is_done_status fm) (set hs). a < t}"
  by (auto simp: ended_candidates_def set_map_filter_entered)

lemma started_least:
  assumes "started_candidates fm hs = a # as"
  shows "least_of a (entry_times (is_in_progress_status fm) (set hs))"
  using sort_Cons_least [OF assms [unfolded started_candidates_def]] by (simp add: set_map_filter_entered)

lemma ended_least:
  assumes "ended_candidates fm hs a = e # es"
  shows "least_of e {t \<in> entry_times (is_done_status fm) (set hs). a < t}"
  using sort_Cons_least [OF assms [unfolded ended_candidates_def]]
  by (simp add: set_map_filter_entered conj_commute)

lemma started_Cons_iff:
  "(\<exists>as. started_candidates fm hs = a # as) \<longleftrightarrow>
     least_of a (entry_times (is_in_progress_status fm) (set hs))"
proof
  assume "\<exists>as. started_candidates fm hs = a # as"
  then show "least_of a (entry_times (is_in_progress_status fm) (set hs))"
    by (auto dest: started_least)
next
  assume l: "least_of a (entry_times (is_in_progress_status fm) (set hs))"
  then have "a \<in> set (started_candidates fm hs)" by (simp add: least_of_def)
  then obtain b bs where b: "started_candidates fm hs = b # bs" by (cases "started_candidates fm hs") auto
  then have "least_of b (entry_times (is_in_progress_status fm) (set hs))"
    by (rule started_least)
  with l b show "\<exists>as. started_candidates fm hs = a # as" by (auto dest: least_of_unique)
qed

lemma ended_Cons_iff:
  "(\<exists>es. ended_candidates fm hs a = e # es) \<longleftrightarrow>
     least_of e {t \<in> entry_times (is_done_status fm) (set hs). a < t}"
proof
  assume "\<exists>es. ended_candidates fm hs a = e # es"
  then show "least_of e {t \<in> entry_times (is_done_status fm) (set hs). a < t}"
    by (auto dest: ended_least)
next
  assume l: "least_of e {t \<in> entry_times (is_done_status fm) (set hs). a < t}"
  then have "e \<in> set (ended_candidates fm hs a)" by (simp add: least_of_def)
  then obtain b bs where b: "ended_candidates fm hs a = b # bs" by (cases "ended_candidates fm hs a") auto
  then have "least_of b {t \<in> entry_times (is_done_status fm) (set hs). a < t}"
    by (rule ended_least)
  with l b show "\<exists>es. ended_candidates fm hs a = e # es" by (auto dest: least_of_unique)
qed

lemma cycle_outcome_Included_iff:
  "cycle_outcome_of fm hs i = Included a e \<longleftrightarrow>
     normalize_text (issue_status i) \<noteq> [] \<and> is_done_status fm (issue_status i)
     \<and> issue_changelog_complete i \<and> \<not> relevant_invalid_timestamp fm hs
     \<and> least_of a (entry_times (is_in_progress_status fm) (set hs))
     \<and> least_of e {t \<in> entry_times (is_done_status fm) (set hs). a < t}"
  unfolding started_Cons_iff [symmetric] ended_Cons_iff [symmetric]
  by (auto simp: cycle_outcome_of_def split: list.splits)

text \<open>An issue contributes to the cycle time exactly when it has a status, is done, has a complete
  changelog and no relevant entry without a time; its interval then runs from the earliest entry into
  an in-progress status to the earliest later entry into a done status, whatever the order and the
  multiplicity of the rows.\<close>

theorem cycle_outcome_spec:
  "cycle_outcome_of fm hs i = Included a e \<longleftrightarrow>
     normalize_text (issue_status i) \<noteq> [] \<and> is_done_status fm (issue_status i)
     \<and> issue_changelog_complete i \<and> \<not> relevant_invalid_timestamp fm hs
     \<and> least_of a (entry_times (is_in_progress_status fm) (set hs))
     \<and> least_of e {t \<in> entry_times (is_done_status fm) (set hs). a < t}"
  by (rule cycle_outcome_Included_iff)

text \<open>The recorded change of a row, without its id; ingestion may repeat and reorder rows.\<close>

definition row_content ::
  "issue_history \<Rightarrow> string \<times> string \<times> string option \<times> string option \<times> py_datetime option" where
  "row_content h = (hist_issue_key h, hist_field_name h, hist_old_value h, hist_new_value h, hist_changed_at h)"

definition same_rows :: "issue_history list \<Rightarrow> issue_history list \<Rightarrow> bool" where
  "same_rows hs hs' \<longleftrightarrow> row_content ` set hs = row_content ` set hs'"

lemma same_rows_sym: "same_rows hs hs' \<Longrightarrow> same_rows hs' hs"
  by (simp add: same_rows_def)

lemma same_rowsD: "same_rows hs hs' \<Longrightarrow> h \<in> set hs \<Longrightarrow> \<exists>h' \<in> set hs'. row_content h' = row_content h"
  unfolding same_rows_def by (metis imageE imageI)

text \<open>The image of the rows under anything that does not look at the id.\<close>

lemma rows_image:
  assumes "same_rows hs hs'" and inv: "\<And>h h'. row_content h' = row_content h \<Longrightarrow> f h' = f h"
  shows "f ` set hs = f ` set hs'"
proof -
  have "f ` set hs \<subseteq> f ` set hs'" if s: "same_rows hs hs'" for hs hs'
  proof
    fix y assume "y \<in> f ` set hs"
    then obtain h where h: "h \<in> set hs" "y = f h" by blast
    then obtain h' where "h' \<in> set hs'" "row_content h' = row_content h" using same_rowsD [OF s] by blast
    with h inv [of h' h] show "y \<in> f ` set hs'" by (metis imageI)
  qed
  from this [OF assms(1)] this [OF same_rows_sym [OF assms(1)]] show ?thesis by blast
qed

lemma entry_times_image: "entry_times P H = {t. Some t \<in> entered_at P ` H}"
  by (force simp: entry_times_def entered_at_def split: if_splits)

lemma entry_times_cong:
  assumes "same_rows hs hs'"
  shows "entry_times P (set hs) = entry_times P (set hs')"
  unfolding entry_times_image
  by (subst rows_image [OF assms]) (simp_all add: row_content_def entered_at_def hist_utc_def)

lemma list_ex_image: "list_ex P hs \<longleftrightarrow> True \<in> P ` set hs"
  by (auto simp: list_ex_iff)

lemma list_ex_rows:
  assumes "same_rows hs hs'" and "\<And>h h'. row_content h' = row_content h \<Longrightarrow> P h' = P h"
  shows "list_ex P hs = list_ex P hs'"
  unfolding list_ex_image by (subst rows_image [OF assms]) simp_all

lemma relevant_invalid_cong:
  "same_rows hs hs' \<Longrightarrow> relevant_invalid_timestamp fm hs = relevant_invalid_timestamp fm hs'"
  unfolding relevant_invalid_timestamp_def by (erule list_ex_rows) (simp add: row_content_def)

lemma started_Nil_iff: "started_candidates fm hs = [] \<longleftrightarrow> entry_times (is_in_progress_status fm) (set hs) = {}"
  by (metis set_empty set_started)

lemma cycle_outcome_cong:
  assumes "same_rows hs hs'"
  shows "cycle_outcome_of fm hs i = cycle_outcome_of fm hs' i"
proof -
  have inc: "cycle_outcome_of fm hs i = Included a e \<longleftrightarrow> cycle_outcome_of fm hs' i = Included a e" for a e
    by (simp add: cycle_outcome_Included_iff entry_times_cong [OF assms] relevant_invalid_cong [OF assms])
  have nil: "started_candidates fm hs = [] \<longleftrightarrow> started_candidates fm hs' = []"
    by (simp add: started_Nil_iff entry_times_cong [OF assms])
  show ?thesis
  proof (cases "\<exists>a e. cycle_outcome_of fm hs i = Included a e")
    case True
    then show ?thesis using inc by metis
  next
    case False
    moreover from False have "\<nexists>a e. cycle_outcome_of fm hs' i = Included a e" using inc by blast
    ultimately show ?thesis using nil
      by (auto simp: cycle_outcome_of_def relevant_invalid_cong [OF assms] split: list.splits if_splits)
  qed
qed

lemma set_map_filter_image: "set (List.map_filter f xs) = {y. Some y \<in> f ` set xs}"
  by (force simp: set_map_filter)

lemma reopen_identities_cong:
  assumes "same_rows hs hs'"
  shows "set (List.map_filter (reopen_identity_of fm k) hs) = set (List.map_filter (reopen_identity_of fm k) hs')"
  unfolding set_map_filter_image
  by (subst rows_image [OF assms]) (auto simp: row_content_def reopen_identity_of_def hist_utc_def split: option.splits)

definition same_histories :: "(string \<Rightarrow> issue_history list) \<Rightarrow> (string \<Rightarrow> issue_history list) \<Rightarrow> string set \<Rightarrow> bool"
where
  "same_histories hist hist' K \<longleftrightarrow> (\<forall>k \<in> K. same_rows (hist k) (hist' k))"

lemma reached_done_cong:
  assumes "same_histories hist hist' (set keys)"
  shows "reached_done_keys fm hist keys = reached_done_keys fm hist' keys"
  unfolding reached_done_keys_def
proof (rule filter_cong [OF refl])
  fix k assume "k \<in> set keys"
  then have "same_rows (hist k) (hist' k)" using assms by (simp add: same_histories_def)
  then show "list_ex (\<lambda>h. is_done_status fm (hist_new_value h)) (hist k)
    = list_ex (\<lambda>h. is_done_status fm (hist_new_value h)) (hist' k)"
    by (rule list_ex_rows) (simp add: row_content_def)
qed

lemma reopen_candidates_cong:
  assumes "same_histories hist hist' (set keys)"
  shows "set (reopen_candidates fm hist keys) = set (reopen_candidates fm hist' keys)"
  using assms reopen_identities_cong by (force simp: reopen_candidates_def same_histories_def)

lemma evaluate_cong:
  assumes "same_histories hist hist' (issue_key ` set xs)"
  shows "evaluate_cycle_time fm hist xs = evaluate_cycle_time fm hist' xs"
    and "evaluate_reopen_event_rate fm hist xs = evaluate_reopen_event_rate fm hist' xs"
proof -
  have oc: "cycle_outcome_of fm (hist (issue_key i)) i = cycle_outcome_of fm (hist' (issue_key i)) i"
    if "i \<in> set xs" for i
    using assms that by (intro cycle_outcome_cong) (simp add: same_histories_def)
  have k: "keys_with_outcome c fm hist xs = keys_with_outcome c fm hist' xs" for c
    unfolding keys_with_outcome_def using oc by (intro arg_cong [where f = "map issue_key"] filter_cong) auto
  have s: "cycle_spans fm hist xs = cycle_spans fm hist' xs"
    unfolding cycle_spans_def List.map_filter_def comp_def using oc
    by (intro map_cong filter_cong) auto
  show "evaluate_cycle_time fm hist xs = evaluate_cycle_time fm hist' xs"
    unfolding evaluate_cycle_time_def k s ..
  have h: "same_histories hist hist' (set (sort (map issue_key xs)))" using assms by simp
  have r: "reached_done_keys fm hist (sort (map issue_key xs)) = reached_done_keys fm hist' (sort (map issue_key xs))"
    by (rule reached_done_cong [OF h])
  have el: "eligible_keys fm hist xs = eligible_keys fm hist' xs" by (simp add: eligible_keys_def r)
  have "sorted_keys (reopen_candidates fm hist (sort (map issue_key xs)))
      = sorted_keys (reopen_candidates fm hist' (sort (map issue_key xs)))"
    by (rule sorted_keys_cong [OF reopen_candidates_cong [OF h]])
  then have e: "reopen_events_of fm hist xs = reopen_events_of fm hist' xs"
    by (simp add: reopen_events_of_def el)
  show "evaluate_reopen_event_rate fm hist xs = evaluate_reopen_event_rate fm hist' xs"
    unfolding evaluate_reopen_event_rate_def Let_def r el e ..
qed

lemma loaded_histories_same:
  assumes "same_rows (histories db) (histories db')"
  shows "same_histories (load_status_histories db keys) (load_status_histories db' keys) (set keys)"
proof -
  let ?P = "\<lambda>k h. hist_issue_key h = k \<and> normalize_text (Some (hist_field_name h)) = ''status''"
  have "(\<lambda>h. (?P k h, row_content h)) ` set (histories db) = (\<lambda>h. (?P k h, row_content h)) ` set (histories db')" for k
    by (rule rows_image [OF assms]) (simp add: row_content_def)
  moreover have "row_content ` {h \<in> H. ?P k h} = {r. (True, r) \<in> (\<lambda>h. (?P k h, row_content h)) ` H}" for k H
    by force
  ultimately have "row_content ` {h \<in> set (histories db). ?P k h} = row_content ` {h \<in> set (histories db'). ?P k h}" for k
    by simp
  then show ?thesis by (simp add: same_histories_def same_rows_def set_load_status_histories)
qed

text \<open>The flow metrics of a release and of a sprint, with all their evidence, depend only on the set of
  recorded changes: repeating, reordering or renumbering history rows changes nothing.\<close>

theorem flow_metrics_row_independent:
  assumes "same_rows (histories db) (histories db')" and "issues db' = issues db"
    and "issue_sprints db' = issue_sprints db"
  shows "evaluate_release_flow_metrics db' rid fm = evaluate_release_flow_metrics db rid fm
    \<and> evaluate_sprint_flow_metrics db' sid fm = evaluate_sprint_flow_metrics db sid fm"
proof -
  have x: "release_issues db' rid = release_issues db rid" "list_sprint_issues db' sid = list_sprint_issues db sid"
    by (simp_all add: release_issues_def list_sprint_issues_def sprint_issue_keys_def assms)
  have s: "same_histories (load_status_histories db' (map issue_key xs))
      (load_status_histories db (map issue_key xs)) (issue_key ` set xs)" for xs
    using loaded_histories_same [OF same_rows_sym [OF assms(1)], of "map issue_key xs"] by simp
  show ?thesis
    by (simp add: evaluate_release_flow_metrics_def evaluate_sprint_flow_metrics_def Let_def x
        evaluate_cong [OF s])
qed

lemma flow_metrics_row_independent_witness:
  "evaluate_sprint_flow_metrics (sample_store\<lparr>histories := rev (histories sample_store)\<rparr>) ''7'' default_mapping
    = evaluate_sprint_flow_metrics sample_store ''7'' default_mapping"
  by (rule conjunct2 [OF flow_metrics_row_independent [of _ _ "''R1''"]]) (simp_all add: same_rows_def)

text \<open>The reopen rate counts each distinct reopening of an eligible ticket once: the events are in strict
  order, their number is the sum of the counts by issue, the value is that number per hundred eligible
  tickets and is given exactly when no scoped issue lacks evidence and some ticket is eligible.\<close>

theorem reopen_rate_result:
  "let r = evaluate_reopen_event_rate fm hist xs; ev = reopen_events_of fm hist xs
   in set ev = {e \<in> set (reopen_candidates fm hist (map issue_key xs)). fst e \<in> set (eligible_keys fm hist xs)}
     \<and> distinct ev \<and> sorted ev
     \<and> rr_confirmed_reopen_event_count r = int (length ev)
     \<and> rr_confirmed_reopen_event_count r = sum_list (map snd (rp_event_count_by_issue (rr_evidence r)))
     \<and> (rr_status r, rr_value r) =
         (if rr_missing_issue_keys r \<noteq> [] then (PARTIAL, None)
          else if eligible_keys fm hist xs = [] then (NOT_COMPUTED, None)
          else (COMPUTED, Some (pct2 (int (length ev)) (int (length (eligible_keys fm hist xs))))))"
proof -
  let ?ev = "reopen_events_of fm hist xs"
  have upsert_sum: "sum_list (map snd (upsert k (\<lambda>old. (case old of None \<Rightarrow> 0 | Some n \<Rightarrow> n) + 1) m))
      = sum_list (map snd m) + (1 :: int)" for k :: string and m
    by (induction k "\<lambda>old. (case old of None \<Rightarrow> 0 | Some n \<Rightarrow> n) + (1 :: int)" m rule: upsert.induct) auto
  have "sum_list (map snd (fold (\<lambda>e. upsert (fst e) (\<lambda>old. (case old of None \<Rightarrow> 0 | Some n \<Rightarrow> n) + 1)) es m))
      = sum_list (map snd m) + int (length es)" for es :: "reopen_identity list" and m
    by (induction es arbitrary: m) (simp_all add: upsert_sum)
  from this [of ?ev "[]"] have c: "sum_list (map snd (count_by_issue ?ev)) = int (length ?ev)"
    by (simp add: count_by_issue_def)
  have e: "set ?ev = {e \<in> set (reopen_candidates fm hist (map issue_key xs)). fst e \<in> set (eligible_keys fm hist xs)}"
    by (auto simp: reopen_events_of_def reopen_candidates_def)
  have "distinct ?ev" "sorted ?ev" by (simp_all add: reopen_events_of_def sorted_wrt_filter)
  moreover have "rr_confirmed_reopen_event_count (evaluate_reopen_event_rate fm hist xs) = int (length ?ev)"
    "rp_event_count_by_issue (rr_evidence (evaluate_reopen_event_rate fm hist xs)) = count_by_issue ?ev"
    by (simp_all add: evaluate_reopen_event_rate_def Let_def case_prod_unfold)
  ultimately show ?thesis using e c reopen_sel [of fm hist xs] unfolding Let_def by auto
qed

end
