(* ===== verification/Classification.thy ===== *)
theory Classification
  imports FlowMetrics
begin

text \<open>
  The classification and work state evaluators of services/metric_availability_service.py: open
  blockers, open high-severity bugs, completed scope and completed tickets from the present state of a
  set of issues, the sprint scope and work state counts, and the prerequisites of delivery confidence.
  One pass of the loop of \<open>_evaluate_classification_metrics\<close> over an issue is its \<open>blocker_class_of\<close> and
  \<open>high_bug_class_of\<close>; the lists it appends to are the issues of each class.
\<close>

subsection \<open>Results and evidence\<close>

datatype evidence_value = Ev_Keys "string list" | Ev_Int int | Ev_Text "string option" | Ev_Bool bool

record metric_result =
  mr_value :: "py_number option"
  mr_status :: computation_status
  mr_available :: bool
  mr_explanations :: "string list"
  mr_missing_issue_keys :: "string list"
  mr_evidence :: "(string \<times> evidence_value) list"

definition UNAVAILABLE_REASON_NO_TICKETS :: string where
  "UNAVAILABLE_REASON_NO_TICKETS = ''No tickets are available for this scope.''"

definition has_text :: "string option \<Rightarrow> bool" where
  "has_text v \<longleftrightarrow> strip (or_empty v) \<noteq> []"

lemma has_text_normalize: "has_text v \<longleftrightarrow> normalize_text v \<noteq> []"
  by (simp add: has_text_def normalize_text_def casefold_def)

subsection \<open>Classes of one issue\<close>

datatype blocker_class = Blocker_Missing_Status | Blocker_Evaluated | Blocker_Matching
  | Blocker_Indeterminate bool bool

definition blocker_class_of :: "field_mapping \<Rightarrow> issue \<Rightarrow> blocker_class" where
  "blocker_class_of fm i =
    (if \<not> has_text (issue_status i) then Blocker_Missing_Status
     else case issue_blocker_flag i of
       Some flag \<Rightarrow>
         (if classify_blocker fm (issue_type i) (issue_priority i) (issue_status i) (Some flag)
          then Blocker_Matching else Blocker_Evaluated)
     | None \<Rightarrow>
         (if is_done_status fm (issue_status i) then Blocker_Evaluated
          else let missing_type = (blocker_issue_types fm \<noteq> {} \<and> \<not> has_text (issue_type i));
                   missing_severity = (blocker_severity_values fm \<noteq> {} \<and> \<not> has_text (issue_priority i))
               in if classify_blocker fm (issue_type i) (issue_priority i) (issue_status i) None
                  then Blocker_Matching
                  else if missing_type \<or> missing_severity
                  then Blocker_Indeterminate missing_type missing_severity
                  else Blocker_Evaluated))"

datatype high_bug_class = Bug_Missing_Type | Bug_Missing_Severity | Bug_Missing_Status
  | Bug_Evaluated | Bug_Matching

definition high_bug_class_of :: "field_mapping \<Rightarrow> issue \<Rightarrow> high_bug_class" where
  "high_bug_class_of fm i =
    (if \<not> has_text (issue_type i) then Bug_Missing_Type
     else if \<not> is_bug fm (issue_type i) then Bug_Evaluated
     else if \<not> has_text (issue_priority i) then Bug_Missing_Severity
     else if \<not> is_high_severity fm (issue_priority i) then Bug_Evaluated
     else if \<not> has_text (issue_status i) then Bug_Missing_Status
     else if is_done_status fm (issue_status i) then Bug_Evaluated
     else Bug_Matching)"

definition is_completed :: "field_mapping \<Rightarrow> issue \<Rightarrow> bool" where
  "is_completed fm i \<longleftrightarrow> has_text (issue_status i) \<and> is_done_status fm (issue_status i)"

definition keys_where :: "(issue \<Rightarrow> bool) \<Rightarrow> issue list \<Rightarrow> string list" where
  "keys_where P xs = map issue_key (filter P xs)"

definition blocker_evaluated_class :: "blocker_class \<Rightarrow> bool" where
  "blocker_evaluated_class c \<longleftrightarrow> c = Blocker_Evaluated \<or> c = Blocker_Matching"

definition blocker_missing_type :: "blocker_class \<Rightarrow> bool" where
  "blocker_missing_type c = (case c of Blocker_Indeterminate t s \<Rightarrow> t | _ \<Rightarrow> False)"

definition blocker_missing_severity :: "blocker_class \<Rightarrow> bool" where
  "blocker_missing_severity c = (case c of Blocker_Indeterminate t s \<Rightarrow> s | _ \<Rightarrow> False)"

subsection \<open>The four classification metrics\<close>

definition partial_if :: "bool \<Rightarrow> computation_status" where
  "partial_if p = (if p then PARTIAL else COMPUTED)"

definition count_text :: "string list \<Rightarrow> string" where
  "count_text ks = nat_str (length ks)"

definition no_tickets_result :: "(string \<times> evidence_value) list \<Rightarrow> metric_result" where
  "no_tickets_result ev = \<lparr>mr_value = None, mr_status = NOT_COMPUTED, mr_available = False,
     mr_explanations = [UNAVAILABLE_REASON_NO_TICKETS], mr_missing_issue_keys = [], mr_evidence = ev\<rparr>"

definition open_blockers_result :: "field_mapping \<Rightarrow> issue list \<Rightarrow> metric_result" where
  "open_blockers_result fm xs =
    (let cl = blocker_class_of fm;
         matching = keys_where (\<lambda>i. cl i = Blocker_Matching) xs;
         indeterminate = keys_where (\<lambda>i. \<not> blocker_evaluated_class (cl i)) xs;
         missing = sorted_keys indeterminate
     in \<lparr>mr_value = Some (PyInt (int (length matching))), mr_status = partial_if (missing \<noteq> []),
         mr_available = True,
         mr_explanations = (if missing \<noteq> []
           then [''Open blockers are a confirmed minimum because blocker classification is ''
                 @ ''incomplete for '' @ count_text missing @ '' ticket(s). Additional blockers may exist.'']
           else []),
         mr_missing_issue_keys = missing,
         mr_evidence =
           [(''evaluated_issue_keys'', Ev_Keys (keys_where (\<lambda>i. blocker_evaluated_class (cl i)) xs)),
            (''matching_issue_keys'', Ev_Keys matching),
            (''missing_status_issue_keys'', Ev_Keys (keys_where (\<lambda>i. cl i = Blocker_Missing_Status) xs)),
            (''missing_issue_type_issue_keys'', Ev_Keys (keys_where (\<lambda>i. blocker_missing_type (cl i)) xs)),
            (''missing_severity_issue_keys'', Ev_Keys (keys_where (\<lambda>i. blocker_missing_severity (cl i)) xs)),
            (''indeterminate_blocker_issue_keys'', Ev_Keys indeterminate)]\<rparr>)"

definition open_high_severity_bugs_result :: "field_mapping \<Rightarrow> issue list \<Rightarrow> metric_result" where
  "open_high_severity_bugs_result fm xs =
    (let cl = high_bug_class_of fm;
         matching = keys_where (\<lambda>i. cl i = Bug_Matching) xs;
         no_type = keys_where (\<lambda>i. cl i = Bug_Missing_Type) xs;
         no_severity = keys_where (\<lambda>i. cl i = Bug_Missing_Severity) xs;
         no_status = keys_where (\<lambda>i. cl i = Bug_Missing_Status) xs;
         missing = sorted_keys (no_type @ no_severity @ no_status)
     in \<lparr>mr_value = Some (PyInt (int (length matching))), mr_status = partial_if (missing \<noteq> []),
         mr_available = True,
         mr_explanations = (if missing \<noteq> []
           then [''Open high-severity bugs are a confirmed minimum because classification is ''
                 @ ''incomplete for '' @ count_text missing
                 @ '' ticket(s). Additional high-severity bugs may exist.'']
           else []),
         mr_missing_issue_keys = missing,
         mr_evidence =
           [(''evaluated_issue_keys'', Ev_Keys (keys_where (\<lambda>i. cl i = Bug_Evaluated \<or> cl i = Bug_Matching) xs)),
            (''matching_issue_keys'', Ev_Keys matching),
            (''missing_status_issue_keys'', Ev_Keys no_status),
            (''missing_issue_type_issue_keys'', Ev_Keys no_type),
            (''missing_severity_issue_keys'', Ev_Keys no_severity)]\<rparr>)"

definition status_evidence :: "field_mapping \<Rightarrow> issue list \<Rightarrow> (string \<times> evidence_value) list" where
  "status_evidence fm xs =
     [(''evaluated_issue_keys'', Ev_Keys (keys_where (\<lambda>i. has_text (issue_status i)) xs)),
      (''matching_issue_keys'', Ev_Keys (keys_where (is_completed fm) xs)),
      (''missing_status_issue_keys'', Ev_Keys (keys_where (\<lambda>i. \<not> has_text (issue_status i)) xs))]"

definition scope_completed_pct_result :: "field_mapping \<Rightarrow> issue list \<Rightarrow> metric_result" where
  "scope_completed_pct_result fm xs =
    (let missing = keys_where (\<lambda>i. \<not> has_text (issue_status i)) xs
     in \<lparr>mr_value = (if missing \<noteq> [] then None
           else Some (PyFloat (pct2 (int (length (keys_where (is_completed fm) xs))) (int (length xs))))),
         mr_status = partial_if (missing \<noteq> []), mr_available = (missing = []),
         mr_explanations = (if missing \<noteq> []
           then [''Scope completed is unavailable because '' @ count_text missing @ '' ticket(s) have no status.'']
           else []),
         mr_missing_issue_keys = missing, mr_evidence = status_evidence fm xs\<rparr>)"

definition completed_tickets_result :: "field_mapping \<Rightarrow> issue list \<Rightarrow> metric_result" where
  "completed_tickets_result fm xs =
    (let missing = keys_where (\<lambda>i. \<not> has_text (issue_status i)) xs
     in \<lparr>mr_value = Some (PyInt (int (length (keys_where (is_completed fm) xs)))),
         mr_status = partial_if (missing \<noteq> []), mr_available = True,
         mr_explanations = (if missing \<noteq> []
           then [''Completed tickets are a confirmed minimum because '' @ count_text missing
                 @ '' ticket(s) have no status. Additional completed tickets may exist.'']
           else []),
         mr_missing_issue_keys = missing, mr_evidence = status_evidence fm xs\<rparr>)"

definition evaluate_classification_metrics ::
  "field_mapping \<Rightarrow> issue list \<Rightarrow> (string \<times> metric_result) list" where
  "evaluate_classification_metrics fm xs =
    (if xs = []
     then map (\<lambda>name. (name, no_tickets_result
            [(''evaluated_issue_keys'', Ev_Keys []), (''matching_issue_keys'', Ev_Keys [])]))
            [''open_blockers'', ''open_high_severity_bugs'', ''scope_completed_pct'', ''completed_tickets'']
     else [(''open_blockers'', open_blockers_result fm xs),
           (''open_high_severity_bugs'', open_high_severity_bugs_result fm xs),
           (''scope_completed_pct'', scope_completed_pct_result fm xs),
           (''completed_tickets'', completed_tickets_result fm xs)])"

definition result_of :: "(string \<times> metric_result) list \<Rightarrow> string \<Rightarrow> metric_result" where
  "result_of rs name = the (map_of rs name)"

definition evaluate_release_classification_metrics ::
  "store \<Rightarrow> string \<Rightarrow> field_mapping \<Rightarrow> (string \<times> metric_result) list" where
  "evaluate_release_classification_metrics db rid fm =
     evaluate_classification_metrics fm (release_issues db rid)"

definition evaluate_sprint_classification_metrics ::
  "store \<Rightarrow> string \<Rightarrow> field_mapping \<Rightarrow> (string \<times> metric_result) list" where
  "evaluate_sprint_classification_metrics db sid fm =
    (let rs = evaluate_classification_metrics fm (list_sprint_issues db sid)
     in map (\<lambda>name. (name, result_of rs name)) [''open_blockers'', ''open_high_severity_bugs''])"

subsection \<open>Sprint scope and work state\<close>

definition scope_issues :: "store \<Rightarrow> string list \<Rightarrow> issue list" where
  "scope_issues db keys = order_issues (filter (\<lambda>i. issue_key i \<in> set keys) (issues db))"

definition evidence_keys :: "(string \<times> evidence_value) list \<Rightarrow> string \<Rightarrow> string list" where
  "evidence_keys ev name = (case map_of ev name of Some (Ev_Keys ks) \<Rightarrow> ks | _ \<Rightarrow> [])"

definition evaluate_sprint_scope_metrics ::
  "store \<Rightarrow> string \<Rightarrow> field_mapping \<Rightarrow> (string \<times> metric_result) list" where
  "evaluate_sprint_scope_metrics db sid fm =
    (let keys = sorted_keys (sprint_issue_keys db sid);
         r = result_of (evaluate_classification_metrics fm (scope_issues db keys)) ''scope_completed_pct'';
         r1 = (if mr_status r = PARTIAL
               then r\<lparr>mr_explanations := [''Completed scope is unavailable because ''
                      @ count_text (mr_missing_issue_keys r) @ '' current sprint ticket(s) have no status.'']\<rparr>
               else r);
         completed = r1\<lparr>mr_evidence := mr_evidence r1 @
           [(''current_scope_issue_keys'', Ev_Keys keys), (''current_scope_count'', Ev_Int (int (length keys))),
            (''completed_issue_keys'', Ev_Keys (evidence_keys (mr_evidence r1) ''matching_issue_keys''))]\<rparr>;
         has_scope = (keys \<noteq> [])
     in [(''committed_scope'',
           \<lparr>mr_value = (if has_scope then Some (PyInt (int (length keys))) else None),
            mr_status = (if has_scope then COMPUTED else NOT_COMPUTED), mr_available = has_scope,
            mr_explanations = (if has_scope then [] else [UNAVAILABLE_REASON_NO_TICKETS]),
            mr_missing_issue_keys = [],
            mr_evidence = [(''current_scope_issue_keys'', Ev_Keys keys),
              (''current_scope_count'', Ev_Int (int (length keys)))]\<rparr>),
         (''completed_scope_pct'', completed)])"

definition common_evidence :: "string list \<Rightarrow> string list \<Rightarrow> (string \<times> evidence_value) list" where
  "common_evidence keys missing =
     [(''current_scope_issue_keys'', Ev_Keys keys), (''current_scope_count'', Ev_Int (int (length keys))),
      (''missing_status_issue_keys'', Ev_Keys missing)]"

definition confirmed_minimum_text :: "string \<Rightarrow> string list \<Rightarrow> string list" where
  "confirmed_minimum_text label missing = (if missing \<noteq> []
     then [label @ '' is partial because '' @ count_text missing
           @ '' current sprint ticket(s) have no status. '' @ ''The returned value is a confirmed minimum.'']
     else [])"

definition count_result :: "string list \<Rightarrow> string list \<Rightarrow> string \<Rightarrow> string list \<Rightarrow> metric_result" where
  "count_result keys missing label matching =
    (if keys = [] then no_tickets_result (common_evidence keys missing @ [(''matching_issue_keys'', Ev_Keys [])])
     else \<lparr>mr_value = Some (PyInt (int (length matching))), mr_status = partial_if (missing \<noteq> []),
           mr_available = True, mr_explanations = confirmed_minimum_text label missing,
           mr_missing_issue_keys = missing,
           mr_evidence = common_evidence keys missing @ [(''matching_issue_keys'', Ev_Keys matching)]\<rparr>)"

definition rollover_result :: "string \<Rightarrow> string list \<Rightarrow> string list \<Rightarrow> string list \<Rightarrow> metric_result" where
  "rollover_result state keys missing unfinished =
    (let ev = common_evidence keys missing @ [(''sprint_state'', Ev_Text (Some state)),
           (''applicable'', Ev_Bool (state = ''closed'')), (''unfinished_issue_keys'', Ev_Keys unfinished)]
     in if state \<noteq> ''closed''
        then \<lparr>mr_value = None, mr_status = NOT_APPLICABLE, mr_available = False,
              mr_explanations = [''Unfinished closed-sprint scope applies only to closed sprints.''],
              mr_missing_issue_keys = [], mr_evidence = ev\<rparr>
        else if keys = [] then no_tickets_result ev
        else \<lparr>mr_value = Some (PyInt (int (length unfinished))), mr_status = partial_if (missing \<noteq> []),
              mr_available = True,
              mr_explanations = confirmed_minimum_text ''Unfinished closed-sprint scope'' missing,
              mr_missing_issue_keys = missing, mr_evidence = ev\<rparr>)"

text \<open>\<open>ValueError\<close> with its message, when the sprint is not stored.\<close>

definition sprint_not_found :: "string \<Rightarrow> string" where
  "sprint_not_found sid = ''Sprint not found: '' @ quoted sid"

definition sorted_keys_where :: "(issue \<Rightarrow> bool) \<Rightarrow> issue list \<Rightarrow> string list" where
  "sorted_keys_where P xs = sort (map issue_key (filter P xs))"

definition evaluate_sprint_work_state_metrics ::
  "store \<Rightarrow> string \<Rightarrow> field_mapping \<Rightarrow> string + (string \<times> metric_result) list" where
  "evaluate_sprint_work_state_metrics db sid fm =
    (case find_sprint db sid of
       None \<Rightarrow> Inl (sprint_not_found sid)
     | Some s \<Rightarrow>
        (let keys = sorted_keys (sprint_issue_keys db sid);
             xs = scope_issues db keys;
             missing = sorted_keys_where (\<lambda>i. \<not> has_text (issue_status i)) xs;
             in_progress = sorted_keys_where (\<lambda>i. has_text (issue_status i)
               \<and> is_in_progress_status fm (issue_status i)) xs;
             not_started = sorted_keys_where (\<lambda>i. has_text (issue_status i)
               \<and> \<not> is_done_status fm (issue_status i) \<and> \<not> is_in_progress_status fm (issue_status i)) xs;
             unfinished = sorted_keys_where (\<lambda>i. has_text (issue_status i)
               \<and> \<not> is_done_status fm (issue_status i)) xs
         in Inr [(''in_progress_count'', count_result keys missing ''In-progress count'' in_progress),
                 (''not_started_count'', count_result keys missing ''Not-started count'' not_started),
                 (''rollover_count'',
                    rollover_result (casefold (strip (sprint_state s))) keys missing unfinished)]))"

subsection \<open>Prerequisites of delivery confidence\<close>

record prerequisites_evidence =
  pe_pointed_missing_status_issue_keys :: "string list"
  pe_incomplete_blocker_classification_issue_keys :: "string list"
  pe_sprint_start_at :: "string option"
  pe_sprint_end_at :: "string option"
  pe_sprint_duration_valid :: bool
  pe_project_issue_keys :: "string list"
  pe_incomplete_project_sprint_history_issue_keys :: "string list"

record delivery_prerequisites =
  dp_status :: computation_status
  dp_available :: bool
  dp_explanations :: "string list"
  dp_missing_issue_keys :: "string list"
  dp_evidence :: prerequisites_evidence

fun has_valid_story_points :: "py_number option \<Rightarrow> bool" where
  "has_valid_story_points None \<longleftrightarrow> False"
| "has_valid_story_points (Some n) \<longleftrightarrow> is_finite_number n \<and> number_value n \<ge> 0"

definition in_project :: "sprint \<Rightarrow> issue \<Rightarrow> bool" where
  "in_project s i \<longleftrightarrow> starts_with (casefold (strip (sprint_project_key s)) @ ''-'') (casefold (issue_key i))"

definition duration_reason :: "utc option \<Rightarrow> utc option \<Rightarrow> string option" where
  "duration_reason start_at end_at =
    (case (start_at, end_at) of
       (None, None) \<Rightarrow> Some (''Delivery confidence is inconclusive because sprint duration requires both ''
          @ ''a start time and an end time.'')
     | (None, Some _) \<Rightarrow>
          Some ''Delivery confidence is inconclusive because sprint duration is missing its start time.''
     | (Some _, None) \<Rightarrow>
          Some ''Delivery confidence is inconclusive because sprint duration is missing its end time.''
     | (Some a, Some e) \<Rightarrow>
          (if e \<le> a then Some (''Delivery confidence is inconclusive because sprint duration is invalid: ''
             @ ''the end time must be later than the start time.'') else None))"

definition keys_explanation :: "string \<Rightarrow> string list \<Rightarrow> string list" where
  "keys_explanation text keys = (if keys \<noteq> [] then [text @ join '', '' keys @ ''.''] else [])"

definition evaluate_sprint_delivery_confidence_prerequisites ::
  "store \<Rightarrow> string \<Rightarrow> field_mapping \<Rightarrow> (string \<times> metric_result) list option
     \<Rightarrow> string + delivery_prerequisites" where
  "evaluate_sprint_delivery_confidence_prerequisites db sid fm classification =
    (case find_sprint db sid of
       None \<Rightarrow> Inl (sprint_not_found sid)
     | Some s \<Rightarrow>
        (let xs = list_sprint_issues db sid;
             pointed_missing = sorted_keys_where (\<lambda>i. has_valid_story_points (issue_story_points i)
               \<and> \<not> has_text (issue_status i)) xs;
             evaluated = (case classification of None \<Rightarrow> evaluate_classification_metrics fm xs
               | Some rs \<Rightarrow> (if rs = [] then evaluate_classification_metrics fm xs else rs));
             blocker_missing = sort (mr_missing_issue_keys (result_of evaluated ''open_blockers''));
             start_at = coerce_utc (sprint_start_date s);
             end_at = coerce_utc (sprint_end_date s);
             project_issues = order_issues (issues db);
             incomplete = sorted_keys_where (\<lambda>i. in_project s i \<and> \<not> issue_changelog_complete i) project_issues;
             explanations =
               keys_explanation (''Delivery confidence is inconclusive because pointed current-sprint tickets ''
                 @ ''are missing status: '') pointed_missing
             @ keys_explanation (''Delivery confidence is inconclusive because blocker classification is incomplete ''
                 @ ''for current-sprint tickets: '') blocker_missing
             @ (case duration_reason start_at end_at of None \<Rightarrow> [] | Some r \<Rightarrow> [r])
             @ keys_explanation (''Delivery confidence is inconclusive because sprint-membership changelog history ''
                 @ ''is incomplete for synchronized project tickets: '') incomplete
         in Inr \<lparr>dp_status = (if explanations = [] then COMPUTED else NOT_COMPUTED),
             dp_available = (explanations = []), dp_explanations = explanations,
             dp_missing_issue_keys = sorted_keys (pointed_missing @ blocker_missing @ incomplete),
             dp_evidence = \<lparr>pe_pointed_missing_status_issue_keys = pointed_missing,
               pe_incomplete_blocker_classification_issue_keys = blocker_missing,
               pe_sprint_start_at = map_option isoformat_utc start_at,
               pe_sprint_end_at = map_option isoformat_utc end_at,
               pe_sprint_duration_valid = (start_at \<noteq> None \<and> end_at \<noteq> None \<and> the end_at > the start_at),
               pe_project_issue_keys = sorted_keys_where (in_project s) project_issues,
               pe_incomplete_project_sprint_history_issue_keys = incomplete\<rparr>\<rparr>))"

subsection \<open>Confirmed minima\<close>

text \<open>\<open>fills i j\<close>: \<open>j\<close> is \<open>i\<close> with text put into fields that had none.\<close>

definition fills :: "issue \<Rightarrow> issue \<Rightarrow> bool" where
  "fills i j \<longleftrightarrow> issue_key j = issue_key i \<and> issue_blocker_flag j = issue_blocker_flag i
     \<and> (has_text (issue_status i) \<longrightarrow> issue_status j = issue_status i)
     \<and> (has_text (issue_type i) \<longrightarrow> issue_type j = issue_type i)
     \<and> (has_text (issue_priority i) \<longrightarrow> issue_priority j = issue_priority i)"

lemma make_mapping_nonblank:
  "[] \<notin> blocker_issue_types (make_mapping s)" "[] \<notin> blocker_severity_values (make_mapping s)"
  "[] \<notin> done_statuses (make_mapping s)" "[] \<notin> bug_issue_types (make_mapping s)"
  by (simp_all add: make_mapping_def Let_def csv_to_set_nonblank set_done_statuses_def)

lemma no_text_normalize: "\<not> has_text v \<Longrightarrow> normalize_text v = []"
  by (simp add: has_text_normalize)

lemma classify_None:
  "classify_blocker fm ty sev st None \<longleftrightarrow>
     (normalize_text ty \<in> blocker_issue_types fm \<or> normalize_text sev \<in> blocker_severity_values fm
      \<or> normalize_text st \<in> blocked_statuses fm) \<and> \<not> is_done_status fm st"
  by (simp add: classify_blocker_def Let_def)

lemma classify_fills:
  assumes "fills i j" and "has_text (issue_status i)"
    and "classify_blocker (make_mapping s) (issue_type i) (issue_priority i) (issue_status i) None"
  shows "classify_blocker (make_mapping s) (issue_type j) (issue_priority j) (issue_status j) None"
proof -
  have st: "issue_status j = issue_status i" using assms by (simp add: fills_def)
  have "normalize_text (issue_type i) \<in> blocker_issue_types (make_mapping s) \<Longrightarrow> issue_type j = issue_type i"
    using assms(1) no_text_normalize [of "issue_type i"] make_mapping_nonblank(1) [of s]
    by (auto simp: fills_def)
  moreover have "normalize_text (issue_priority i) \<in> blocker_severity_values (make_mapping s)
      \<Longrightarrow> issue_priority j = issue_priority i"
    using assms(1) no_text_normalize [of "issue_priority i"] make_mapping_nonblank(2) [of s]
    by (auto simp: fills_def)
  ultimately show ?thesis using assms(3) by (auto simp: classify_None st)
qed

lemma classify_fills_back:
  assumes "fills i j" and "has_text (issue_status i)"
    and "blocker_issue_types fm \<noteq> {} \<Longrightarrow> has_text (issue_type i)"
    and "blocker_severity_values fm \<noteq> {} \<Longrightarrow> has_text (issue_priority i)"
    and "classify_blocker fm (issue_type j) (issue_priority j) (issue_status j) None"
  shows "classify_blocker fm (issue_type i) (issue_priority i) (issue_status i) None"
  using assms by (auto simp: classify_None fills_def)

lemma blocker_class_fills:
  assumes "fills i j"
  shows "blocker_class_of (make_mapping s) i = Blocker_Matching \<Longrightarrow>
           blocker_class_of (make_mapping s) j = Blocker_Matching"
    and "blocker_class_of (make_mapping s) j = Blocker_Matching \<Longrightarrow>
           blocker_class_of (make_mapping s) i = Blocker_Matching
           \<or> \<not> blocker_evaluated_class (blocker_class_of (make_mapping s) i)"
proof -
  have f: "issue_blocker_flag j = issue_blocker_flag i"
    "has_text (issue_status i) \<Longrightarrow> issue_status j = issue_status i" using assms by (simp_all add: fills_def)
  have flag: "classify_blocker fm ty sev st (Some b) \<longleftrightarrow> b \<and> \<not> is_done_status fm st" for fm ty sev st b
    by (simp add: classify_blocker_def)
  show "blocker_class_of (make_mapping s) j = Blocker_Matching"
    if m: "blocker_class_of (make_mapping s) i = Blocker_Matching"
  proof -
    have st: "has_text (issue_status i)" using m by (auto simp: blocker_class_of_def split: if_splits)
    show ?thesis
    proof (cases "issue_blocker_flag i")
      case None
      then have "classify_blocker (make_mapping s) (issue_type i) (issue_priority i) (issue_status i) None"
        using m st by (auto simp: blocker_class_of_def Let_def split: if_splits)
      from classify_fills [OF assms st this] show ?thesis
        using None st f m by (auto simp: blocker_class_of_def Let_def classify_None split: if_splits)
    next
      case (Some b)
      then show ?thesis using m st f by (auto simp: blocker_class_of_def flag split: if_splits)
    qed
  qed
  show "blocker_class_of (make_mapping s) i = Blocker_Matching
      \<or> \<not> blocker_evaluated_class (blocker_class_of (make_mapping s) i)"
    if m: "blocker_class_of (make_mapping s) j = Blocker_Matching"
  proof (rule disjCI)
    assume "\<not> \<not> blocker_evaluated_class (blocker_class_of (make_mapping s) i)"
    then have e: "blocker_evaluated_class (blocker_class_of (make_mapping s) i)" by simp
    then have st: "has_text (issue_status i)"
      by (auto simp: blocker_class_of_def blocker_evaluated_class_def split: if_splits)
    show "blocker_class_of (make_mapping s) i = Blocker_Matching"
    proof (cases "issue_blocker_flag i")
      case None
      then have "classify_blocker (make_mapping s) (issue_type j) (issue_priority j) (issue_status j) None"
        using m f by (auto simp: blocker_class_of_def Let_def split: if_splits)
      moreover have "\<not> is_done_status (make_mapping s) (issue_status i)"
        using m None f st by (auto simp: blocker_class_of_def split: if_splits)
      ultimately show ?thesis using e None st classify_fills_back [OF assms st, of "make_mapping s"]
        by (auto simp: blocker_class_of_def blocker_evaluated_class_def Let_def split: if_splits)
    next
      case (Some b)
      then show ?thesis using m st f by (auto simp: blocker_class_of_def flag split: if_splits)
    qed
  qed
qed

definition bug_missing_class :: "high_bug_class \<Rightarrow> bool" where
  "bug_missing_class c \<longleftrightarrow> c = Bug_Missing_Type \<or> c = Bug_Missing_Severity \<or> c = Bug_Missing_Status"

lemma bug_class_fills:
  assumes "fills i j"
  shows "high_bug_class_of fm i = Bug_Matching \<Longrightarrow> high_bug_class_of fm j = Bug_Matching"
    and "high_bug_class_of fm j = Bug_Matching \<Longrightarrow>
           high_bug_class_of fm i = Bug_Matching \<or> bug_missing_class (high_bug_class_of fm i)"
  using assms by (auto simp: high_bug_class_of_def fills_def bug_missing_class_def split: if_splits)

lemma completed_fills:
  assumes "fills i j"
  shows "is_completed fm i \<Longrightarrow> is_completed fm j"
    and "is_completed fm j \<Longrightarrow> is_completed fm i \<or> \<not> has_text (issue_status i)"
  using assms by (auto simp: is_completed_def fills_def)

lemma count_fills:
  assumes "\<And>i. i \<in> set xs \<Longrightarrow> P i \<Longrightarrow> P (f i)"
    and "\<And>i. i \<in> set xs \<Longrightarrow> P (f i) \<Longrightarrow> P i \<or> M i"
  shows "length (keys_where P xs) \<le> length (keys_where P (map f xs))
    \<and> length (keys_where P (map f xs)) \<le> length (keys_where P xs) + length (keys_where M xs)"
  using assms
proof (induction xs)
  case (Cons x xs)
  then have "length (keys_where P xs) \<le> length (keys_where P (map f xs))
    \<and> length (keys_where P (map f xs)) \<le> length (keys_where P xs) + length (keys_where M xs)" by auto
  then show ?case using Cons.prems [of x] by (auto simp: keys_where_def)
qed (simp add: keys_where_def)

lemma keys_where_distinct: "distinct (map issue_key xs) \<Longrightarrow> distinct (keys_where P xs)"
  by (simp add: keys_where_def distinct_map_filter)

lemma length_sorted_keys_where:
  "distinct (map issue_key xs) \<Longrightarrow> length (sorted_keys (keys_where P xs)) = length (keys_where P xs)"
  by (simp add: length_sorted_keys distinct_card keys_where_distinct)

lemma bug_missing_length:
  assumes "distinct (map issue_key xs)"
  shows "length (keys_where (\<lambda>i. bug_missing_class (high_bug_class_of fm i)) xs)
    = length (mr_missing_issue_keys (open_high_severity_bugs_result fm xs))"
proof -
  have "set (keys_where (\<lambda>i. bug_missing_class (high_bug_class_of fm i)) xs)
      = set (mr_missing_issue_keys (open_high_severity_bugs_result fm xs))"
    by (auto simp: keys_where_def open_high_severity_bugs_result_def Let_def bug_missing_class_def)
  moreover have "distinct (mr_missing_issue_keys (open_high_severity_bugs_result fm xs))"
    by (simp add: open_high_severity_bugs_result_def Let_def)
  ultimately show ?thesis using keys_where_distinct [OF assms] by (metis distinct_card)
qed

text \<open>The counts of open blockers, open high-severity bugs and completed tickets are confirmed minima:
  whatever status, type or severity the issues without one are given later, the count does not go down,
  and it goes up by at most the number of issues that were reported as missing evidence. With none
  reported it is exact.\<close>

theorem confirmed_minimum:
  assumes "xs \<noteq> []" and "distinct (map issue_key xs)" and "\<forall>i \<in> set xs. fills i (f i)"
    and "name \<in> {''open_blockers'', ''open_high_severity_bugs'', ''completed_tickets''}"
  shows "\<exists>n m. mr_value (result_of (evaluate_classification_metrics (make_mapping s) xs) name) = Some (PyInt n)
    \<and> mr_value (result_of (evaluate_classification_metrics (make_mapping s) (map f xs)) name) = Some (PyInt m)
    \<and> n \<le> m
    \<and> m \<le> n + int (length (mr_missing_issue_keys
          (result_of (evaluate_classification_metrics (make_mapping s) xs) name)))"
proof -
  let ?fm = "make_mapping s"
  let ?B = "\<lambda>i. blocker_class_of ?fm i = Blocker_Matching"
  let ?H = "\<lambda>i. high_bug_class_of ?fm i = Bug_Matching"
  have r: "result_of (evaluate_classification_metrics ?fm ys) ''open_blockers'' = open_blockers_result ?fm ys"
    "result_of (evaluate_classification_metrics ?fm ys) ''open_high_severity_bugs''
       = open_high_severity_bugs_result ?fm ys"
    "result_of (evaluate_classification_metrics ?fm ys) ''completed_tickets'' = completed_tickets_result ?fm ys"
    if "ys \<noteq> []" for ys
    using that by (simp_all add: result_of_def evaluate_classification_metrics_def)
  have f: "map f xs \<noteq> []" using assms(1) by simp
  have b: "length (keys_where ?B xs) \<le> length (keys_where ?B (map f xs))
      \<and> length (keys_where ?B (map f xs)) \<le> length (keys_where ?B xs)
         + length (keys_where (\<lambda>i. \<not> blocker_evaluated_class (blocker_class_of ?fm i)) xs)"
    by (rule count_fills) (use assms(3) blocker_class_fills in blast)+
  have h: "length (keys_where ?H xs) \<le> length (keys_where ?H (map f xs))
      \<and> length (keys_where ?H (map f xs)) \<le> length (keys_where ?H xs)
         + length (keys_where (\<lambda>i. bug_missing_class (high_bug_class_of ?fm i)) xs)"
    by (rule count_fills) (use assms(3) bug_class_fills in blast)+
  have c: "length (keys_where (is_completed ?fm) xs) \<le> length (keys_where (is_completed ?fm) (map f xs))
      \<and> length (keys_where (is_completed ?fm) (map f xs)) \<le> length (keys_where (is_completed ?fm) xs)
         + length (keys_where (\<lambda>i. \<not> has_text (issue_status i)) xs)"
    by (rule count_fills) (use assms(3) completed_fills in blast)+
  consider "name = ''open_blockers''" | "name = ''open_high_severity_bugs''" | "name = ''completed_tickets''"
    using assms(4) by blast
  then show ?thesis
  proof cases
    case 1
    then show ?thesis using b assms(1,2)
      by (simp add: r f open_blockers_result_def Let_def length_sorted_keys_where)
  next
    case 2
    then show ?thesis using h assms(1) bug_missing_length [OF assms(2), of ?fm]
      by (simp add: r f) (simp add: open_high_severity_bugs_result_def Let_def)
  next
    case 3
    then show ?thesis using c assms(1) by (simp add: r f completed_tickets_result_def Let_def)
  qed
qed

definition unclassified_issue :: issue where
  "unclassified_issue = (sample_issue ''P-9'' [] ''ann'' 1)\<lparr>issue_status := None\<rparr>"

definition set_open :: "issue \<Rightarrow> issue" where
  "set_open i = (if has_text (issue_status i) then i else i\<lparr>issue_status := Some ''Blocked''\<rparr>)"

lemma confirmed_minimum_witness:
  "\<exists>n m. mr_value (result_of (evaluate_classification_metrics (make_mapping default_settings)
        [unclassified_issue]) ''open_blockers'') = Some (PyInt n)
    \<and> mr_value (result_of (evaluate_classification_metrics (make_mapping default_settings)
        (map set_open [unclassified_issue])) ''open_blockers'') = Some (PyInt m) \<and> n \<le> m"
proof -
  have "\<forall>i \<in> set [unclassified_issue]. fills i (set_open i)" by (simp add: fills_def set_open_def)
  from confirmed_minimum [OF _ _ this, of "''open_blockers''" default_settings] show ?thesis by auto
qed

subsection \<open>Work states partition the scope\<close>

lemma sorted_keys_where_length: "length (sorted_keys_where P xs) = length (filter P xs)"
  by (simp add: sorted_keys_where_def)

lemma length_filter_split:
  "(\<And>x. x \<in> set xs \<Longrightarrow> P x \<longleftrightarrow> Q x \<or> R x) \<Longrightarrow> (\<And>x. x \<in> set xs \<Longrightarrow> \<not> (Q x \<and> R x)) \<Longrightarrow>
     length (filter P xs) = length (filter Q xs) + length (filter R xs)"
  by (induction xs) auto

lemma scope_issues_length:
  assumes "wf_store db"
  shows "length (scope_issues db (sorted_keys (sprint_issue_keys db sid))) = length (sprint_issue_keys db sid)"
proof -
  have "scope_issues db (sorted_keys (sprint_issue_keys db sid)) = list_sprint_issues db sid"
    by (simp add: scope_issues_def list_sprint_issues_def)
  moreover have "length (list_sprint_issues db sid) = length (sorted_keys (sprint_issue_keys db sid))"
    using arg_cong [OF list_sprint_issues_keys [OF assms, of sid], of length] by simp
  ultimately show ?thesis using distinct_sprint_issue_keys [OF assms, of sid]
    by (simp add: length_sorted_keys distinct_card)
qed

definition int_value :: "metric_result \<Rightarrow> int" where
  "int_value r = (case mr_value r of Some (PyInt n) \<Rightarrow> n | _ \<Rightarrow> 0)"

text \<open>For settings that pass the start-up validation the work states of a sprint split its scope: the
  unfinished issues of a closed sprint are exactly the ones in progress and the ones not started, and
  together with the completed ones and the ones without status they make up the committed scope.\<close>

theorem work_states_partition:
  assumes "wf_store db" and "find_sprint db sid = Some s" and "is_closed s"
    and "sprint_issue_keys db sid \<noteq> []" and "validate_classification_settings cfg = Inr ()"
  shows "\<exists>rs. evaluate_sprint_work_state_metrics db sid (make_mapping cfg) = Inr rs
    \<and> int_value (result_of rs ''rollover_count'')
        = int_value (result_of rs ''in_progress_count'') + int_value (result_of rs ''not_started_count'')
    \<and> int (length (sprint_issue_keys db sid)) = int_value (result_of rs ''rollover_count'')
        + int (length (mr_missing_issue_keys (result_of rs ''rollover_count'')))
        + int_value (result_of (evaluate_classification_metrics (make_mapping cfg) (list_sprint_issues db sid))
            ''completed_tickets'')"
proof -
  let ?fm = "make_mapping cfg"
  define xs where "xs = scope_issues db (sorted_keys (sprint_issue_keys db sid))"
  have xs: "xs = list_sprint_issues db sid" by (simp add: xs_def scope_issues_def list_sprint_issues_def)
  have len: "length xs = length (sprint_issue_keys db sid)"
    unfolding xs_def by (rule scope_issues_length [OF assms(1)])
  then have ne: "xs \<noteq> []" using assms(4) by auto
  have v: "valid_mapping ?fm" by (rule validated_settings_mapping [OF assms(5)])
  have ex: "\<not> (is_done_status ?fm st \<and> is_in_progress_status ?fm st)" for st
    using mapper.exclusive [OF v] by blast
  let ?S = "\<lambda>i. has_text (issue_status i)"
  have u: "length (filter (\<lambda>i. ?S i \<and> \<not> is_done_status ?fm (issue_status i)) xs)
      = length (filter (\<lambda>i. ?S i \<and> is_in_progress_status ?fm (issue_status i)) xs)
      + length (filter (\<lambda>i. ?S i \<and> \<not> is_done_status ?fm (issue_status i)
          \<and> \<not> is_in_progress_status ?fm (issue_status i)) xs)"
    by (rule length_filter_split) (use ex in auto)
  have "length xs = length (filter ?S xs) + length (filter (\<lambda>i. \<not> ?S i) xs)"
    by (simp add: sum_length_filter_compl)
  moreover have "length (filter ?S xs) = length (filter (\<lambda>i. ?S i \<and> \<not> is_done_status ?fm (issue_status i)) xs)
      + length (filter (is_completed ?fm) xs)"
    by (rule length_filter_split) (auto simp: is_completed_def)
  ultimately have t: "length xs = length (filter (\<lambda>i. ?S i \<and> \<not> is_done_status ?fm (issue_status i)) xs)
      + length (filter (\<lambda>i. \<not> ?S i) xs) + length (filter (is_completed ?fm) xs)" by simp
  have c: "int_value (result_of (evaluate_classification_metrics ?fm xs) ''completed_tickets'')
      = int (length (filter (is_completed ?fm) xs))"
    using ne by (simp add: int_value_def result_of_def evaluate_classification_metrics_def
        completed_tickets_result_def Let_def keys_where_def)
  have cl: "casefold (strip (sprint_state s)) = ''closed''" using assms(3) by (simp add: is_closed_def)
  show ?thesis unfolding evaluate_sprint_work_state_metrics_def assms(2) option.case Let_def cl
    unfolding xs_def [symmetric] xs [symmetric]
    using u t len c assms(4)
    by (simp add: result_of_def count_result_def rollover_result_def int_value_def Let_def
        sorted_keys_where_length)
qed

lemma sort_Nil_iff: "sort xs = [] \<longleftrightarrow> xs = []"
  by (metis length_0_conv length_sort)

lemma fint_neg: "i < 0 \<Longrightarrow> fint i < 0"
  using fint_mono [of i "- 1"] by (simp add: fint_def fl_minus)

lemma fint_nonneg_iff: "0 \<le> fint i \<longleftrightarrow> 0 \<le> i"
  using fint_neg [of i] fint_nonneg [of i] by linarith

text \<open>Available prerequisites are what the delivery confidence relies on: the sprint exists and has a
  start before its end, so the elapsed time is defined at every instant, every pointed issue of the
  sprint has a status and no blocker classification is incomplete.\<close>

theorem prerequisites_sound:
  assumes "evaluate_sprint_delivery_confidence_prerequisites db sid fm None = Inr p" and "dp_available p"
  shows "\<exists>s. find_sprint db sid = Some s \<and> (\<forall>t. compute_time_elapsed_pct s t \<noteq> None)
    \<and> (\<forall>i \<in> set (list_sprint_issues db sid). is_pointed i \<longrightarrow> has_text (issue_status i))
    \<and> mr_missing_issue_keys (result_of (evaluate_classification_metrics fm (list_sprint_issues db sid))
        ''open_blockers'') = []"
proof -
  obtain s where s: "find_sprint db sid = Some s"
    using assms(1) by (auto simp: evaluate_sprint_delivery_confidence_prerequisites_def split: option.splits)
  have e: "dp_explanations p = []"
    using assms by (auto simp: evaluate_sprint_delivery_confidence_prerequisites_def s Let_def)
  let ?m = "sorted_keys_where (\<lambda>i. has_valid_story_points (issue_story_points i) \<and> \<not> has_text (issue_status i))
    (list_sprint_issues db sid)"
  have parts: "?m = []" "duration_reason (coerce_utc (sprint_start_date s)) (coerce_utc (sprint_end_date s)) = None"
    "mr_missing_issue_keys (result_of (evaluate_classification_metrics fm (list_sprint_issues db sid))
        ''open_blockers'') = []"
    using assms(1) e
    by (auto simp: evaluate_sprint_delivery_confidence_prerequisites_def s Let_def keys_explanation_def
        sort_Nil_iff split: if_splits option.splits)
  obtain a b where ab: "coerce_utc (sprint_start_date s) = Some a" "coerce_utc (sprint_end_date s) = Some b" "a < b"
    using parts(2) by (auto simp: duration_reason_def split: option.splits if_splits)
  then have t: "compute_time_elapsed_pct s t \<noteq> None" for t by (simp add: compute_time_elapsed_pct_def)
  have "is_pointed i \<Longrightarrow> has_valid_story_points (issue_story_points i)" for i
    unfolding is_pointed_def
    by (cases "issue_story_points i" rule: valid_story_points.cases)
      (auto split: if_splits simp: not_less fint_nonneg_iff)
  with parts(1) have "\<forall>i \<in> set (list_sprint_issues db sid). is_pointed i \<longrightarrow> has_text (issue_status i)"
    by (auto simp: sorted_keys_where_def filter_empty_conv sort_Nil_iff)
  with s t parts(3) show ?thesis by blast
qed

definition closed_store :: store where
  "closed_store = sample_store\<lparr>sprints := [sample_sprint\<lparr>sprint_state := ''closed''\<rparr>]\<rparr>"

lemma work_states_partition_witness:
  "\<exists>rs. evaluate_sprint_work_state_metrics closed_store ''7'' (make_mapping default_settings) = Inr rs
    \<and> int_value (result_of rs ''rollover_count'')
        = int_value (result_of rs ''in_progress_count'') + int_value (result_of rs ''not_started_count'')"
proof -
  have w: "wf_store closed_store" by code_simp
  have f: "find_sprint closed_store ''7'' = Some (sample_sprint\<lparr>sprint_state := ''closed''\<rparr>)" by code_simp
  have c: "is_closed (sample_sprint\<lparr>sprint_state := ''closed''\<rparr>)" by code_simp
  have k: "sprint_issue_keys closed_store ''7'' \<noteq> []" by code_simp
  have v: "validate_classification_settings default_settings = Inr ()" by code_simp
  show ?thesis using work_states_partition [OF w f c k v] by blast
qed

lemma prerequisites_sound_witness:
  "\<forall>t. compute_time_elapsed_pct sample_sprint t \<noteq> None"
proof -
  have f: "find_sprint sample_store ''7'' = Some sample_sprint" by code_simp
  have "case evaluate_sprint_delivery_confidence_prerequisites sample_store ''7'' default_mapping None of
      Inl e \<Rightarrow> False | Inr p \<Rightarrow> dp_available p"
    by code_simp
  then obtain p where "evaluate_sprint_delivery_confidence_prerequisites sample_store ''7'' default_mapping None = Inr p"
    "dp_available p" by (auto split: sum.splits)
  from prerequisites_sound [OF this] f show ?thesis by auto
qed

end
