(* ===== verification/DeliveryConfidence.thy ===== *)
theory DeliveryConfidence
  imports Classification
begin

text \<open>
  The delivery confidence of a sprint in services/analytics_service.py: the velocity baseline sprints
  (\<open>_list_velocity_baseline_sprints\<close>), the four component scores and \<open>_compute_delivery_confidence\<close>
  with its inputs. The \<open>RuntimeError\<close> and the \<open>TypeError\<close> of \<open>float(None)\<close> are the values \<open>Inl\<close>; an
  empty \<open>sum\<close> is the integer 0 of Python, here the float 0.
\<close>

subsection \<open>Records\<close>

record velocity_baseline_evidence =
  vb_sprint_id :: string
  vb_coverage_pct :: pyfloat
  vb_status :: computation_status
  vb_completed_points :: pyfloat

record confidence_components =
  cc_progress_alignment :: pyfloat
  cc_velocity_fit :: pyfloat
  cc_blocker_penalty :: pyfloat
  cc_scope_stability :: pyfloat

record confidence_inputs =
  ci_committed_issue_count :: int
  ci_pointed_issue_count :: int
  ci_committed_effective_points :: pyfloat
  ci_completed_effective_points :: pyfloat
  ci_remaining_effective_points :: pyfloat
  ci_completed_scope_pct :: pyfloat
  ci_time_elapsed_pct :: pyfloat
  ci_historical_velocity :: "pyfloat option"
  ci_baseline_sprint_count :: int
  ci_baseline_sprints :: "velocity_baseline_evidence list"
  ci_velocity_status :: computation_status
  ci_remaining_capacity_points :: "pyfloat option"
  ci_blocked_issue_ratio :: pyfloat
  ci_initial_commitment_count :: int
  ci_scope_change_count :: int
  ci_scope_added_count :: int
  ci_scope_removed_count :: int
  ci_scope_stability_index :: pyfloat
  ci_scope_change_issue_keys :: "string list"
  ci_scope_added_issue_keys :: "string list"
  ci_scope_removed_issue_keys :: "string list"

record delivery_confidence_result =
  dc_status :: computation_status
  dc_score :: "pyfloat option"
  dc_components :: "confidence_components option"
  dc_inputs :: "confidence_inputs option"
  dc_coverage :: story_point_coverage
  dc_prerequisites :: delivery_prerequisites
  dc_explanations :: "string list"

subsection \<open>Weights and component scores\<close>

definition W_PROGRESS :: pyfloat where "W_PROGRESS = fl (4 / 10)"
definition W_VELOCITY :: pyfloat where "W_VELOCITY = fl (3 / 10)"
definition W_BLOCKER :: pyfloat where "W_BLOCKER = fl (2 / 10)"
definition W_SCOPE :: pyfloat where "W_SCOPE = fl (1 / 10)"

definition weighted_score :: "confidence_components \<Rightarrow> pyfloat" where
  "weighted_score c = py_round 2 (fsum
     [fmul (cc_progress_alignment c) W_PROGRESS, fmul (cc_velocity_fit c) W_VELOCITY,
      fmul (cc_blocker_penalty c) W_BLOCKER, fmul (cc_scope_stability c) W_SCOPE])"

definition score_progress_alignment :: "pyfloat \<Rightarrow> pyfloat \<Rightarrow> pyfloat" where
  "score_progress_alignment completed_scope_pct time_elapsed_pct =
    (if time_elapsed_pct \<le> 0 then 100
     else clamp (fdiv (fmul 100 completed_scope_pct) time_elapsed_pct) 0 100)"

definition score_velocity_fit :: "pyfloat \<Rightarrow> pyfloat option \<Rightarrow> nat \<Rightarrow> pyfloat" where
  "score_velocity_fit remaining capacity baseline_sprint_count =
    (if remaining \<le> 0 then 100
     else if baseline_sprint_count = 0 then 50
     else case capacity of
       None \<Rightarrow> 50
     | Some c \<Rightarrow> if c \<le> 0 then 0 else clamp (fdiv (fmul 100 c) remaining) 0 100)"

text \<open>\<open>a / b\<close> on two integers is rounded once.\<close>

definition int_ratio :: "int \<Rightarrow> int \<Rightarrow> pyfloat" where
  "int_ratio a b = fl (of_int a / of_int b)"

definition blocked_issue_ratio :: "int \<Rightarrow> int \<Rightarrow> pyfloat" where
  "blocked_issue_ratio open_blockers committed =
     (if committed = 0 then 0 else int_ratio open_blockers committed)"

definition score_blocker_penalty :: "pyfloat \<Rightarrow> pyfloat" where
  "score_blocker_penalty ratio = clamp (fmul 100 (fsub 1 ratio)) 0 100"

definition score_scope_stability :: "pyfloat \<Rightarrow> pyfloat" where
  "score_scope_stability creep_pct = clamp (fsub 100 creep_pct) 0 100"

subsection \<open>Velocity baseline\<close>

definition HISTORICAL_VELOCITY_SPRINT_COUNT :: nat where
  "HISTORICAL_VELOCITY_SPRINT_COUNT = 3"

definition candidate_date :: "sprint \<Rightarrow> utc option" where
  "candidate_date s = (case coerce_utc (sprint_complete_date s) of
     Some t \<Rightarrow> Some t | None \<Rightarrow> coerce_utc (sprint_end_date s))"

definition is_baseline_candidate :: "sprint \<Rightarrow> sprint \<Rightarrow> bool" where
  "is_baseline_candidate target s \<longleftrightarrow>
     sprint_project_key s = sprint_project_key target \<and> casefold (sprint_state s) = ''closed''
     \<and> sprint_id s \<noteq> sprint_id target"

definition dated_candidate :: "sprint \<Rightarrow> sprint \<Rightarrow> (utc \<times> sprint) option" where
  "dated_candidate target s =
    (case candidate_date s of
       None \<Rightarrow> None
     | Some d \<Rightarrow>
        (case coerce_utc (sprint_start_date target) of
           Some start_at \<Rightarrow> if d > start_at then None else Some (d, s)
         | None \<Rightarrow> Some (d, s)))"

text \<open>\<open>sort(reverse=True)\<close>.\<close>

definition sort_reverse :: "('a \<Rightarrow> 'k::linorder) \<Rightarrow> 'a list \<Rightarrow> 'a list" where
  "sort_reverse key xs = rev (sort_key key (rev xs))"

definition sprint_coverage :: "store \<Rightarrow> string \<Rightarrow> story_point_coverage" where
  "sprint_coverage db sid = story_point_coverage_of (list_sprint_issues db sid)"

definition has_baseline_coverage :: "store \<Rightarrow> sprint \<Rightarrow> bool" where
  "has_baseline_coverage db s \<longleftrightarrow>
     cov_coverage_pct (sprint_coverage db (sprint_id s)) \<ge> MIN_STORY_POINT_COVERAGE_PCT"

definition list_velocity_baseline_sprints :: "store \<Rightarrow> sprint \<Rightarrow> sprint list" where
  "list_velocity_baseline_sprints db target =
    (let candidates = filter (is_baseline_candidate target) (sprints db);
         dated = sort_reverse (\<lambda>(d, s). (d, sprint_id s)) (List.map_filter (dated_candidate target) candidates)
     in take HISTORICAL_VELOCITY_SPRINT_COUNT (filter (has_baseline_coverage db) (map snd dated)))"

definition compute_completed_effective_points_for_sprint ::
  "store \<Rightarrow> string \<Rightarrow> field_mapping \<Rightarrow> pyfloat" where
  "compute_completed_effective_points_for_sprint db sid fm =
     fsum (map story_points (filter (\<lambda>i. is_done_status fm (issue_status i)) (list_sprint_issues db sid)))"

definition coverage_status :: "pyfloat \<Rightarrow> computation_status" where
  "coverage_status pct = (if pct = 100 then COMPUTED else PARTIAL)"

definition baseline_evidence :: "store \<Rightarrow> field_mapping \<Rightarrow> sprint \<Rightarrow> velocity_baseline_evidence" where
  "baseline_evidence db fm s =
    (let pct = cov_coverage_pct (sprint_coverage db (sprint_id s))
     in \<lparr>vb_sprint_id = sprint_id s, vb_coverage_pct = pct, vb_status = coverage_status pct,
         vb_completed_points = py_round 2 (compute_completed_effective_points_for_sprint db (sprint_id s) fm)\<rparr>)"

definition historical_velocity_of :: "velocity_baseline_evidence list \<Rightarrow> pyfloat option" where
  "historical_velocity_of ev =
    (if ev = [] then None
     else Some (py_round 2 (fdiv (fsum (map vb_completed_points ev)) (fint (int (length ev))))))"

definition velocity_status_of :: "velocity_baseline_evidence list \<Rightarrow> computation_status" where
  "velocity_status_of ev =
    (if ev = [] then NOT_COMPUTED else if \<exists>e \<in> set ev. vb_status e = PARTIAL then PARTIAL else COMPUTED)"

subsection \<open>The confidence of a sprint\<close>

definition no_confidence ::
  "computation_status \<Rightarrow> story_point_coverage \<Rightarrow> delivery_prerequisites \<Rightarrow> string list
     \<Rightarrow> delivery_confidence_result" where
  "no_confidence status coverage prerequisites explanations =
     \<lparr>dc_status = status, dc_score = None, dc_components = None, dc_inputs = None, dc_coverage = coverage,
      dc_prerequisites = prerequisites, dc_explanations = explanations\<rparr>"

definition low_coverage_explanations :: "story_point_coverage \<Rightarrow> string list" where
  "low_coverage_explanations c =
    (if cov_coverage_pct c < MIN_STORY_POINT_COVERAGE_PCT
     then [''Delivery confidence is inconclusive because fewer than 50% of the sprint tickets have story ''
       @ ''points. At least 50% of the tickets inside the sprint must have story points to calculate ''
       @ ''delivery confidence. Ideally, all tickets should have story points.'']
     else [])"

definition creep_explanations :: "delivery_prerequisites \<Rightarrow> creep_result \<Rightarrow> string list" where
  "creep_explanations p creep =
    (if cp_status creep = COMPUTED \<or> \<not> dp_available p then []
     else [''Delivery confidence is inconclusive because Scope creep is unavailable: ''
       @ (case cp_explanations creep of e # _ \<Rightarrow> e | [] \<Rightarrow> ''the metric was not computed.'')])"

definition partial_coverage_explanations :: "story_point_coverage \<Rightarrow> string list" where
  "partial_coverage_explanations c =
     [''Delivery confidence is partial because '' @ int_str (cov_pointed_ticket_count c) @ '' of ''
        @ int_str (cov_total_ticket_count c) @ '' sprint tickets ''
        @ ''have story points. Point-based calculations use tickets with available story points, ''
        @ ''while blocker and scope calculations use the complete sprint scope.'',
      ''When all sprint tickets have story points, delivery confidence uses the complete sprint ''
        @ ''scope and returns the accurate value for the documented model. The PARTIAL label and ''
        @ ''these remarks are then removed.'']"

definition velocity_explanations :: "computation_status \<Rightarrow> string list" where
  "velocity_explanations status =
    (if status = NOT_COMPUTED
     then [''Historical velocity is unavailable because no eligible closed sprint has at least 50% story-point coverage.'']
     else if status = PARTIAL
     then [''Historical velocity is partial because at least one contributing baseline sprint has incomplete story-point coverage.'']
     else [])"

definition completed_scope_pct_of :: "pyfloat \<Rightarrow> pyfloat \<Rightarrow> pyfloat" where
  "completed_scope_pct_of completed committed =
     (if committed = 0 then 100 else fdiv (fmul 100 completed) committed)"

definition remaining_capacity :: "pyfloat option \<Rightarrow> pyfloat \<Rightarrow> pyfloat option" where
  "remaining_capacity velocity elapsed =
     map_option (\<lambda>v. py_round 2 (fmul v (clamp (fdiv (fsub 100 elapsed) 100) 0 1))) velocity"

text \<open>The computation past the early returns, from the pointed issues, the elapsed time and the creep value.\<close>

definition score_delivery_confidence ::
  "store \<Rightarrow> field_mapping \<Rightarrow> int \<Rightarrow> delivery_prerequisites \<Rightarrow> creep_result \<Rightarrow> issue list
     \<Rightarrow> velocity_baseline_evidence list \<Rightarrow> pyfloat \<Rightarrow> pyfloat \<Rightarrow> delivery_confidence_result" where
  "score_delivery_confidence db fm open_blockers prerequisites creep xs baseline elapsed creep_pct =
    (let coverage = story_point_coverage_of xs;
         pointed = filter is_pointed xs;
         status = coverage_status (cov_coverage_pct coverage);
         committed = fsum (map story_points pointed);
         completed = fsum (map story_points (filter (\<lambda>i. is_done_status fm (issue_status i)) pointed));
         remaining = max (fsub committed completed) 0;
         completed_pct = completed_scope_pct_of completed committed;
         velocity = historical_velocity_of baseline;
         capacity = remaining_capacity velocity elapsed;
         velocity_status = velocity_status_of baseline;
         blocked = blocked_issue_ratio open_blockers (int (length xs));
         ev = cp_evidence creep;
         components = \<lparr>
           cc_progress_alignment = py_round 2 (score_progress_alignment completed_pct elapsed),
           cc_velocity_fit = py_round 2 (score_velocity_fit remaining capacity (length baseline)),
           cc_blocker_penalty = py_round 2 (score_blocker_penalty blocked),
           cc_scope_stability = py_round 2 (score_scope_stability creep_pct)\<rparr>
     in \<lparr>dc_status = (if velocity_status = PARTIAL then PARTIAL else status),
         dc_score = Some (weighted_score components), dc_components = Some components,
         dc_inputs = Some \<lparr>
           ci_committed_issue_count = int (length xs),
           ci_pointed_issue_count = cov_pointed_ticket_count coverage,
           ci_committed_effective_points = py_round 2 committed,
           ci_completed_effective_points = py_round 2 completed,
           ci_remaining_effective_points = py_round 2 remaining,
           ci_completed_scope_pct = py_round 2 completed_pct, ci_time_elapsed_pct = py_round 2 elapsed,
           ci_historical_velocity = velocity, ci_baseline_sprint_count = int (length baseline),
           ci_baseline_sprints = baseline, ci_velocity_status = velocity_status,
           ci_remaining_capacity_points = capacity, ci_blocked_issue_ratio = py_round 4 blocked,
           ci_initial_commitment_count = ce_initial_commitment_count ev,
           ci_scope_change_count = ce_scope_change_count ev,
           ci_scope_added_count = ce_scope_added_count ev,
           ci_scope_removed_count = ce_scope_removed_count ev,
           ci_scope_stability_index = py_round 4 (fdiv creep_pct 100),
           ci_scope_change_issue_keys = ce_scope_change_issue_keys ev,
           ci_scope_added_issue_keys = ce_scope_added_issue_keys ev,
           ci_scope_removed_issue_keys = ce_scope_removed_issue_keys ev\<rparr>,
         dc_coverage = coverage, dc_prerequisites = prerequisites,
         dc_explanations = (if status = PARTIAL then partial_coverage_explanations coverage else [])
           @ velocity_explanations velocity_status\<rparr>)"

datatype confidence_error = Runtime_Error string | Type_Error

definition compute_delivery_confidence ::
  "store \<Rightarrow> sprint \<Rightarrow> py_datetime \<Rightarrow> field_mapping \<Rightarrow> int \<Rightarrow> delivery_prerequisites \<Rightarrow> creep_result
     \<Rightarrow> confidence_error + delivery_confidence_result" where
  "compute_delivery_confidence db s snapshot_at fm open_blockers prerequisites creep =
    (let xs = list_sprint_issues db (sprint_id s);
         coverage = story_point_coverage_of xs;
         low = low_coverage_explanations coverage;
         unstable = creep_explanations prerequisites creep
     in if xs = []
        then Inr (no_confidence NOT_COMPUTED coverage prerequisites
          [''Delivery confidence is not computed because the sprint has no tickets to evaluate.''])
        else if low \<noteq> [] \<or> \<not> dp_available prerequisites \<or> unstable \<noteq> []
        then Inr (no_confidence STATUS_INCONCLUSIVE coverage prerequisites
          (low @ dp_explanations prerequisites @ unstable))
        else case compute_time_elapsed_pct s snapshot_at of
               None \<Rightarrow> Inl (Runtime_Error ''Valid sprint duration did not produce elapsed time.'')
             | Some elapsed \<Rightarrow>
                (case cp_value creep of
                   None \<Rightarrow> Inl Type_Error
                 | Some creep_pct \<Rightarrow> Inr (score_delivery_confidence db fm open_blockers prerequisites creep xs
                     (map (baseline_evidence db fm) (list_velocity_baseline_sprints db s)) elapsed creep_pct)))"

subsection \<open>The velocity baseline\<close>

text \<open>A sprint the baseline may use, and the order in which candidates are preferred.\<close>

definition eligible_baseline :: "store \<Rightarrow> sprint \<Rightarrow> sprint \<Rightarrow> bool" where
  "eligible_baseline db target s \<longleftrightarrow> s \<in> set (sprints db) \<and> is_baseline_candidate target s
     \<and> (\<exists>d. candidate_date s = Some d \<and> (\<forall>start_at. coerce_utc (sprint_start_date target) = Some start_at \<longrightarrow> d \<le> start_at))
     \<and> 50 \<le> cov_coverage_pct (sprint_coverage db (sprint_id s))"

definition recency :: "sprint \<Rightarrow> utc \<times> string" where
  "recency s = (the (candidate_date s), sprint_id s)"

lemma dated_candidate_Some:
  "dated_candidate target s = Some p \<longleftrightarrow>
     (\<exists>d. p = (d, s) \<and> candidate_date s = Some d
        \<and> (\<forall>start_at. coerce_utc (sprint_start_date target) = Some start_at \<longrightarrow> d \<le> start_at))"
  by (auto simp: dated_candidate_def split: option.splits)

lemma set_sort_reverse [simp]: "set (sort_reverse key xs) = set xs"
  by (simp add: sort_reverse_def)

lemma length_sort_reverse [simp]: "length (sort_reverse key xs) = length xs"
  by (simp add: sort_reverse_def)

lemma sort_reverse_sorted: "sorted_wrt (\<lambda>a b. key b \<le> key a) (sort_reverse key xs)"
proof -
  have "sorted_wrt (\<lambda>a b. key a \<le> key b) (sort_key key (rev xs))"
    using sorted_sort_key [of key "rev xs"] by (simp only: sorted_map)
  then show ?thesis unfolding sort_reverse_def sorted_wrt_rev .
qed

lemma distinct_sort_reverse [simp]: "distinct (map f (sort_reverse key xs)) = distinct (map f xs)"
  by (metis distinct_map distinct_rev mset_rev mset_sort set_sort_reverse sort_reverse_def mset_eq_imp_distinct_iff)

lemma set_map_filter_Some: "y \<in> set (List.map_filter g xs) \<longleftrightarrow> (\<exists>x \<in> set xs. g x = Some y)"
  by (induction xs) (auto split: option.splits)

lemma distinct_map_filter_fst:
  assumes "\<And>x y. g x = Some y \<Longrightarrow> h y = f x"
  shows "distinct (map f xs) \<Longrightarrow> distinct (map h (List.map_filter g xs))"
proof (induction xs)
  case (Cons x xs)
  have "f x \<notin> h ` set (List.map_filter g xs)"
    using Cons.prems assms by (auto simp: set_map_filter_Some)
  with Cons assms [of x] show ?case by (auto split: option.splits)
qed simp

text \<open>The first \<open>n\<close> of a list sorted downwards are its best \<open>n\<close>.\<close>

lemma take_best:
  assumes "sorted_wrt (\<lambda>a b. k b \<le> k a) xs" and "x \<in> set xs" and "x \<notin> set (take n xs)"
  shows "length (take n xs) = n" and "b \<in> set (take n xs) \<Longrightarrow> k x \<le> k b"
proof -
  have "set xs = set (take n xs) \<union> set (drop n xs)" by (metis append_take_drop_id set_append)
  then have x: "x \<in> set (drop n xs)" using assms(2,3) by simp
  then have "n < length xs" by (cases "n < length xs") simp_all
  then show "length (take n xs) = n" by simp
  have "sorted_wrt (\<lambda>a b. k b \<le> k a) (take n xs @ drop n xs)" using assms(1) by simp
  then show "k x \<le> k b" if "b \<in> set (take n xs)" using that x unfolding sorted_wrt_append by blast
qed

lemma baseline_pool:
  fixes db target
  defines "ps \<equiv> sort_reverse (\<lambda>(d, s). (d, sprint_id s))
      (List.map_filter (dated_candidate target) (filter (is_baseline_candidate target) (sprints db)))"
  defines "pool \<equiv> filter (has_baseline_coverage db) (map snd ps)"
  shows "set pool = {s. eligible_baseline db target s}"
    and "sorted_wrt (\<lambda>a b. recency b \<le> recency a) pool"
    and "wf_store db \<Longrightarrow> distinct (map sprint_id pool)"
proof -
  have ps: "p \<in> set ps \<longleftrightarrow> (\<exists>s \<in> set (sprints db). is_baseline_candidate target s \<and> dated_candidate target s = Some p)" for p
    by (simp add: ps_def set_map_filter_Some) blast
  show "set pool = {s. eligible_baseline db target s}"
    by (force simp: pool_def eligible_baseline_def has_baseline_coverage_def ps dated_candidate_Some)
  have "sorted_wrt (\<lambda>a b. (case b of (d, s) \<Rightarrow> (d, sprint_id s)) \<le> (case a of (d, s) \<Rightarrow> (d, sprint_id s))) ps"
    unfolding ps_def by (rule sort_reverse_sorted)
  moreover have "(case p of (d, s) \<Rightarrow> (d, sprint_id s)) = recency (snd p)" if "p \<in> set ps" for p
    using that by (auto simp: ps dated_candidate_Some recency_def)
  ultimately have "sorted_wrt (\<lambda>a b. recency (snd b) \<le> recency (snd a)) ps"
    by (smt (verit) sorted_wrt_mono_rel)
  then show "sorted_wrt (\<lambda>a b. recency b \<le> recency a) pool"
    unfolding pool_def by (intro sorted_wrt_filter) (simp add: sorted_wrt_map)
  assume "wf_store db"
  then have "distinct (map sprint_id (filter (is_baseline_candidate target) (sprints db)))"
    by (simp add: wf_store_def distinct_map_filter)
  then have "distinct (map (\<lambda>p. sprint_id (snd p))
      (List.map_filter (dated_candidate target) (filter (is_baseline_candidate target) (sprints db))))"
    by (rule distinct_map_filter_fst [rotated]) (auto simp: dated_candidate_Some)
  then have "distinct (map (\<lambda>p. sprint_id (snd p)) ps)" by (simp add: ps_def)
  then show "distinct (map sprint_id pool)"
    unfolding pool_def by (intro distinct_map_filter) (simp add: comp_def)
qed

text \<open>The velocity baseline is made of at most three different sprints, each of them closed, of the same
  project, not the sprint itself, not finished after its start and with at least half of its issues
  pointed. Whenever such a sprint is left out, three have been taken and none of them is less recent.\<close>

theorem velocity_baseline_best:
  fixes target :: sprint
  assumes "wf_store db"
  defines "bs \<equiv> list_velocity_baseline_sprints db target"
  shows "length bs \<le> 3 \<and> distinct (map sprint_id bs) \<and> (\<forall>b \<in> set bs. eligible_baseline db target b)
    \<and> (\<forall>s. eligible_baseline db target s \<and> s \<notin> set bs \<longrightarrow>
         length bs = 3 \<and> (\<forall>b \<in> set bs. recency s \<le> recency b))"
proof -
  define pool where "pool = filter (has_baseline_coverage db) (map snd (sort_reverse (\<lambda>(d, s). (d, sprint_id s))
      (List.map_filter (dated_candidate target) (filter (is_baseline_candidate target) (sprints db)))))"
  note pool = baseline_pool [of db target, folded pool_def]
  have bs: "bs = take 3 pool"
    by (simp add: bs_def pool_def list_velocity_baseline_sprints_def HISTORICAL_VELOCITY_SPRINT_COUNT_def)
  have "distinct (map sprint_id bs)"
    using pool(3) [OF assms(1)] by (simp add: bs flip: take_map)
  moreover have "\<forall>b \<in> set bs. eligible_baseline db target b"
    using pool(1) by (auto simp: bs dest: in_set_takeD)
  moreover have "length bs = 3 \<and> (\<forall>b \<in> set bs. recency s \<le> recency b)"
    if "eligible_baseline db target s" "s \<notin> set bs" for s
    using take_best [OF pool(2), of s 3] that pool(1) by (auto simp: bs)
  ultimately show ?thesis by (auto simp: bs)
qed

subsection \<open>The result always exists\<close>

lemma prerequisites_time:
  assumes "evaluate_sprint_delivery_confidence_prerequisites db sid fm classification = Inr p"
    and "find_sprint db sid = Some s"
  shows "dp_available p \<longleftrightarrow> dp_explanations p = []"
    and "dp_available p \<Longrightarrow> compute_time_elapsed_pct s t \<noteq> None"
proof -
  show e: "dp_available p \<longleftrightarrow> dp_explanations p = []"
    using assms by (auto simp: evaluate_sprint_delivery_confidence_prerequisites_def Let_def)
  assume "dp_available p"
  then have "duration_reason (coerce_utc (sprint_start_date s)) (coerce_utc (sprint_end_date s)) = None"
    using assms e by (auto simp: evaluate_sprint_delivery_confidence_prerequisites_def Let_def split: option.splits)
  then obtain a b where "coerce_utc (sprint_start_date s) = Some a" "coerce_utc (sprint_end_date s) = Some b" "a < b"
    by (auto simp: duration_reason_def split: option.splits if_splits)
  then show "compute_time_elapsed_pct s t \<noteq> None" by (simp add: compute_time_elapsed_pct_def)
qed

lemma score_parts:
  fixes db fm n p creep xs bl elapsed v
  defines "r \<equiv> score_delivery_confidence db fm n p creep xs bl elapsed v"
  shows "dc_status r = (if velocity_status_of bl = PARTIAL then PARTIAL
           else coverage_status (cov_coverage_pct (story_point_coverage_of xs)))"
    and "dc_score r \<noteq> None"
    and "dc_status r = PARTIAL \<Longrightarrow> dc_explanations r \<noteq> []"
    and "dc_status r = COMPUTED \<Longrightarrow> dc_explanations r = velocity_explanations (velocity_status_of bl)"
proof -
  show s: "dc_status r = (if velocity_status_of bl = PARTIAL then PARTIAL
      else coverage_status (cov_coverage_pct (story_point_coverage_of xs)))"
    by (simp add: r_def score_delivery_confidence_def Let_def)
  show "dc_score r \<noteq> None" by (simp add: r_def score_delivery_confidence_def Let_def)
  have e: "dc_explanations r = (if coverage_status (cov_coverage_pct (story_point_coverage_of xs)) = PARTIAL
      then partial_coverage_explanations (story_point_coverage_of xs) else [])
      @ velocity_explanations (velocity_status_of bl)"
    by (simp add: r_def score_delivery_confidence_def Let_def)
  show "dc_explanations r \<noteq> []" if "dc_status r = PARTIAL"
    using that unfolding s e by (auto simp: partial_coverage_explanations_def velocity_explanations_def split: if_splits)
  show "dc_explanations r = velocity_explanations (velocity_status_of bl)" if "dc_status r = COMPUTED"
    using that unfolding s e by (auto split: if_splits)
qed

lemma coverage_status_cases: "coverage_status x = COMPUTED \<or> coverage_status x = PARTIAL"
  by (simp add: coverage_status_def)

lemma compute_delivery_confidence_cases:
  fixes db s
  defines "xs \<equiv> list_sprint_issues db (sprint_id s)"
  shows "compute_delivery_confidence db s t fm n p creep =
    (if xs = [] then Inr (no_confidence NOT_COMPUTED (story_point_coverage_of xs) p
       [''Delivery confidence is not computed because the sprint has no tickets to evaluate.''])
     else if cov_coverage_pct (story_point_coverage_of xs) < 50 \<or> \<not> dp_available p \<or> cp_status creep \<noteq> COMPUTED
     then Inr (no_confidence STATUS_INCONCLUSIVE (story_point_coverage_of xs) p
       (low_coverage_explanations (story_point_coverage_of xs) @ dp_explanations p @ creep_explanations p creep))
     else case compute_time_elapsed_pct s t of
            None \<Rightarrow> Inl (Runtime_Error ''Valid sprint duration did not produce elapsed time.'')
          | Some elapsed \<Rightarrow> (case cp_value creep of None \<Rightarrow> Inl Type_Error
             | Some v \<Rightarrow> Inr (score_delivery_confidence db fm n p creep xs
                 (map (baseline_evidence db fm) (list_velocity_baseline_sprints db s)) elapsed v)))"
proof -
  have "low_coverage_explanations c \<noteq> [] \<longleftrightarrow> cov_coverage_pct c < 50" for c
    by (simp add: low_coverage_explanations_def)
  moreover have "\<not> dp_available p \<or> creep_explanations p creep \<noteq> [] \<longleftrightarrow> \<not> dp_available p \<or> cp_status creep \<noteq> COMPUTED"
    by (simp add: creep_explanations_def)
  ultimately show ?thesis unfolding compute_delivery_confidence_def Let_def xs_def by simp
qed


subsection \<open>Range and monotonicity of the score\<close>

definition below :: "confidence_components \<Rightarrow> confidence_components \<Rightarrow> bool" where
  "below c d \<longleftrightarrow> cc_progress_alignment c \<le> cc_progress_alignment d \<and> cc_velocity_fit c \<le> cc_velocity_fit d
     \<and> cc_blocker_penalty c \<le> cc_blocker_penalty d \<and> cc_scope_stability c \<le> cc_scope_stability d"

definition all_components :: "pyfloat \<Rightarrow> confidence_components" where
  "all_components v = \<lparr>cc_progress_alignment = v, cc_velocity_fit = v, cc_blocker_penalty = v, cc_scope_stability = v\<rparr>"

lemma weights_nonneg: "0 \<le> W_PROGRESS" "0 \<le> W_VELOCITY" "0 \<le> W_BLOCKER" "0 \<le> W_SCOPE"
  by (simp_all add: W_PROGRESS_def W_VELOCITY_def W_BLOCKER_def W_SCOPE_def fl_nonneg)

lemma fadd_mono: "a \<le> c \<Longrightarrow> b \<le> d \<Longrightarrow> fadd a b \<le> fadd c d"
  by (simp add: fadd_def fl_mono)

lemma fmul_mono: "0 \<le> w \<Longrightarrow> a \<le> b \<Longrightarrow> fmul a w \<le> fmul b w"
  by (simp add: fmul_def fl_mono mult_right_mono)

lemma weighted_mono: "below c d \<Longrightarrow> weighted_score c \<le> weighted_score d"
  by (auto simp: weighted_score_def below_def fsum_def weights_nonneg
      intro!: py_round_mono fadd_mono fmul_mono)

lemma weighted_extremes: "weighted_score (all_components 0) = 0" "weighted_score (all_components 100) = 100"
  by (simp add: weighted_score_def all_components_def fsum_def fadd_def fmul_def py_round_def) code_simp

lemma weighted_range:
  "below (all_components 0) c \<Longrightarrow> below c (all_components 100) \<Longrightarrow> 0 \<le> weighted_score c \<and> weighted_score c \<le> 100"
  using weighted_mono weighted_extremes by metis

lemma round_range: "0 \<le> x \<Longrightarrow> x \<le> 100 \<Longrightarrow> 0 \<le> py_round 2 x \<and> py_round 2 x \<le> 100"
  by (simp add: dec.between)

lemma score_component_ranges:
  "0 \<le> py_round 2 (score_progress_alignment a b) \<and> py_round 2 (score_progress_alignment a b) \<le> 100"
  "0 \<le> py_round 2 (score_velocity_fit r c k) \<and> py_round 2 (score_velocity_fit r c k) \<le> 100"
  "0 \<le> py_round 2 (score_blocker_penalty x) \<and> py_round 2 (score_blocker_penalty x) \<le> 100"
  "0 \<le> py_round 2 (score_scope_stability x) \<and> py_round 2 (score_scope_stability x) \<le> 100"
  by (intro round_range; simp add: score_progress_alignment_def score_velocity_fit_def
      score_blocker_penalty_def score_scope_stability_def clamp_range split: option.splits)+

definition components_of :: "delivery_confidence_result \<Rightarrow> confidence_components" where
  "components_of r = the (dc_components r)"

lemma score_components_range:
  fixes db fm n p creep xs bl elapsed v
  defines "r \<equiv> score_delivery_confidence db fm n p creep xs bl elapsed v"
  shows "below (all_components 0) (components_of r) \<and> below (components_of r) (all_components 100)
    \<and> dc_score r = Some (weighted_score (components_of r))"
  by (simp add: r_def components_of_def score_delivery_confidence_def Let_def below_def all_components_def
      score_component_ranges)

lemma blocker_penalty_antitone:
  assumes "n \<le> m" and "0 \<le> c"
  shows "score_blocker_penalty (blocked_issue_ratio m c) \<le> score_blocker_penalty (blocked_issue_ratio n c)"
proof -
  have "blocked_issue_ratio n c \<le> blocked_issue_ratio m c"
    using assms by (simp add: blocked_issue_ratio_def int_ratio_def fl_mono divide_right_mono)
  then have "fsub 1 (blocked_issue_ratio m c) \<le> fsub 1 (blocked_issue_ratio n c)"
    by (simp add: fsub_def fl_mono)
  then have "fmul 100 (fsub 1 (blocked_issue_ratio m c)) \<le> fmul 100 (fsub 1 (blocked_issue_ratio n c))"
    by (simp add: fmul_def fl_mono)
  then show ?thesis by (simp add: score_blocker_penalty_def clamp_def min.coboundedI2 max.coboundedI2)
qed

lemma score_more_blockers:
  "n \<le> m \<Longrightarrow> below (components_of (score_delivery_confidence db fm m p creep xs bl elapsed v))
     (components_of (score_delivery_confidence db fm n p creep xs bl elapsed v))"
  by (simp add: components_of_def score_delivery_confidence_def Let_def below_def py_round_mono
      blocker_penalty_antitone)

lemma scored_result:
  assumes "compute_delivery_confidence db s t fm n p creep = Inr r" and "dc_score r = Some v"
  shows "\<exists>e c. compute_time_elapsed_pct s t = Some e \<and> cp_value creep = Some c
    \<and> r = score_delivery_confidence db fm n p creep (list_sprint_issues db (sprint_id s))
        (map (baseline_evidence db fm) (list_velocity_baseline_sprints db s)) e c"
  using assms unfolding compute_delivery_confidence_cases
  by (auto simp: no_confidence_def split: if_splits option.splits)

text \<open>C36: A delivery confidence score is a percentage between 0 and 100, and so is each of its components;
  for the same sprint, prerequisites and scope creep a larger number of open blockers never gives a
  higher score.\<close>

theorem delivery_confidence_range:
  assumes "compute_delivery_confidence db s t fm n p creep = Inr r" and "dc_score r = Some v"
    and "compute_delivery_confidence db s t fm m p creep = Inr r'" and "dc_score r' = Some v'"
    and "n \<le> m"
  shows "0 \<le> v' \<and> v' \<le> v \<and> v \<le> 100
    \<and> below (all_components 0) (components_of r) \<and> below (components_of r) (all_components 100)"
proof -
  let ?xs = "list_sprint_issues db (sprint_id s)"
  let ?bl = "map (baseline_evidence db fm) (list_velocity_baseline_sprints db s)"
  obtain e c where r: "compute_time_elapsed_pct s t = Some e" "cp_value creep = Some c"
    "r = score_delivery_confidence db fm n p creep ?xs ?bl e c"
    using scored_result [OF assms(1,2)] by blast
  have r': "r' = score_delivery_confidence db fm m p creep ?xs ?bl e c"
    using scored_result [OF assms(3,4)] r(1,2) by auto
  note a = score_components_range [of db fm n p creep ?xs ?bl e c, folded r(3)]
  note b = score_components_range [of db fm m p creep ?xs ?bl e c, folded r']
  have "v = weighted_score (components_of r)" "v' = weighted_score (components_of r')"
    using a b assms(2,4) by simp_all
  moreover have "below (components_of r') (components_of r)"
    unfolding r(3) r' by (rule score_more_blockers [OF assms(5)])
  ultimately show ?thesis using a b weighted_mono weighted_range by auto
qed

subsection \<open>A sprint with a baseline\<close>

definition past_sprint :: sprint where
  "past_sprint = sample_sprint\<lparr>sprint_id := ''6'', sprint_state := ''Closed'', sprint_start_date := day_of 1,
     sprint_end_date := day_of 9\<rparr>"

definition baseline_store :: store where
  "baseline_store = sample_store\<lparr>sprints := [past_sprint, sample_sprint],
     issue_sprints := issue_sprints sample_store @ [\<lparr>link_issue_key = ''P-3'', link_sprint_id = ''6''\<rparr>]\<rparr>"

lemma velocity_baseline_best_witness:
  "past_sprint \<in> set (list_velocity_baseline_sprints baseline_store sample_sprint)"
proof -
  have w: "wf_store baseline_store" by code_simp
  have "coerce_utc (sprint_start_date sample_sprint) = Some (10 * day_us)" by code_simp
  moreover have "candidate_date past_sprint = Some (9 * day_us)" by code_simp
  moreover have "is_baseline_candidate sample_sprint past_sprint" by code_simp
  moreover have "50 \<le> cov_coverage_pct (sprint_coverage baseline_store (sprint_id past_sprint))" by code_simp
  moreover have "past_sprint \<in> set (sprints baseline_store)" by (simp add: baseline_store_def)
  ultimately have "eligible_baseline baseline_store sample_sprint past_sprint"
    by (simp add: eligible_baseline_def day_us_def)
  moreover have "length (list_velocity_baseline_sprints baseline_store sample_sprint) \<noteq> 3" by code_simp
  ultimately show ?thesis using velocity_baseline_best [OF w, of sample_sprint] by blast
qed

definition sample_prerequisites :: delivery_prerequisites where
  "sample_prerequisites = (case evaluate_sprint_delivery_confidence_prerequisites baseline_store ''7'' default_mapping None of
     Inr p \<Rightarrow> p)"


definition sample_creep :: creep_result where
  "sample_creep = build_creep_result baseline_store default_mapping sample_sprint sample_now COMPUTED (Some 25) [] [] []"

lemma sample_confidence:
  "\<exists>r v. compute_delivery_confidence baseline_store sample_sprint sample_now default_mapping n sample_prerequisites
     sample_creep = Inr r \<and> dc_score r = Some v"
proof -
  have x: "list_sprint_issues baseline_store (sprint_id sample_sprint) \<noteq> []" by code_simp
  have c: "50 \<le> cov_coverage_pct (story_point_coverage_of (list_sprint_issues baseline_store (sprint_id sample_sprint)))"
    by code_simp
  have a: "dp_available sample_prerequisites" by code_simp
  obtain e where e: "compute_time_elapsed_pct sample_sprint sample_now = Some e"
    by (auto simp: compute_time_elapsed_pct_def sample_sprint_def day_of_def day_us_def coerce_utc_def
        to_utc_def naive_def split: option.splits)
  have "cp_status sample_creep = COMPUTED" "cp_value sample_creep = Some 25"
    by (simp_all add: sample_creep_def build_creep_result_def Let_def)
  then show ?thesis unfolding compute_delivery_confidence_cases using x c a e
    by (simp add: score_components_range)
qed

lemma delivery_confidence_range_witness:
  "\<exists>r r' v v'. compute_delivery_confidence baseline_store sample_sprint sample_now default_mapping 0
       sample_prerequisites sample_creep = Inr r \<and> dc_score r = Some v
     \<and> compute_delivery_confidence baseline_store sample_sprint sample_now default_mapping 2
       sample_prerequisites sample_creep = Inr r' \<and> dc_score r' = Some v' \<and> v' \<le> v"
proof -
  obtain r v where r: "compute_delivery_confidence baseline_store sample_sprint sample_now default_mapping 0
      sample_prerequisites sample_creep = Inr r" "dc_score r = Some v" using sample_confidence by blast
  obtain r' v' where r': "compute_delivery_confidence baseline_store sample_sprint sample_now default_mapping 2
      sample_prerequisites sample_creep = Inr r'" "dc_score r' = Some v'" using sample_confidence by blast
  show ?thesis using r r' delivery_confidence_range [OF r r'] by auto
qed

end
