(* ===== verification/Availability.thy ===== *)
theory Availability
  imports DeliveryConfidence Results
begin

text \<open>
  Metric availability in services/metric_availability_service.py with the item type of
  schemas/availability.py: the dependency rules of the catalog, the overrides by the computed results,
  and the computation state. A result dict enters only with its status, explanations and missing issue
  keys (\<open>metric_summary\<close>); the item constructor raises the pydantic validation error on a status that is
  not one of its four literals.
\<close>

subsection \<open>Items\<close>

datatype availability_error = Value_Error string | Key_Error string | Validation_Error

record availability_context =
  has_tickets :: bool
  has_story_points :: bool
  has_completed_tickets :: bool
  has_release_scope :: bool
  has_sprint_scope :: bool
  has_changelog :: bool

record availability_item =
  ai_status :: computation_status
  ai_available :: bool
  ai_reason :: "string option"
  ai_explanations :: "string list"
  ai_missing_issue_keys :: "string list"
  ai_depends_on :: "string list"

record metric_availability =
  ma_context :: availability_context
  ma_metrics :: "(string \<times> availability_item) list"

record metric_summary =
  ms_status :: computation_status
  ms_explanations :: "string list"
  ms_missing_issue_keys :: "string list"

type_synonym items = "(string \<times> availability_item) list"

definition new_item ::
  "computation_status \<Rightarrow> bool \<Rightarrow> string option \<Rightarrow> string list \<Rightarrow> string list \<Rightarrow> string list
     \<Rightarrow> availability_error + availability_item" where
  "new_item status available reason explanations missing depends_on =
    (if status = STATUS_INCONCLUSIVE then Inl Validation_Error
     else Inr \<lparr>ai_status = status, ai_available = available, ai_reason = reason,
       ai_explanations = explanations, ai_missing_issue_keys = missing, ai_depends_on = depends_on\<rparr>)"

definition set_item ::
  "string \<Rightarrow> (availability_error + availability_item) \<Rightarrow> items \<Rightarrow> availability_error + items" where
  "set_item name item items = and_then item (\<lambda>i. Inr (put name i items))"

definition lookup :: "(string \<times> 'v) list \<Rightarrow> string \<Rightarrow> availability_error + 'v" where
  "lookup d name = (case map_of d name of None \<Rightarrow> Inl (Key_Error name) | Some v \<Rightarrow> Inr v)"

definition first_explanation :: "string list \<Rightarrow> string option" where
  "first_explanation es = (case es of [] \<Rightarrow> None | e # _ \<Rightarrow> Some e)"

subsection \<open>Dependencies\<close>

definition UNAVAILABLE_REASON_NO_STORY_POINTS :: string where
  "UNAVAILABLE_REASON_NO_STORY_POINTS =
     ''Delivery confidence requires at least 50% of sprint tickets to have valid story points.''"

definition UNAVAILABLE_REASON_NO_CHANGELOG :: string where
  "UNAVAILABLE_REASON_NO_CHANGELOG = ''No Jira changelog history is available for this scope.''"

definition UNAVAILABLE_REASON_NOT_COMPUTED :: string where
  "UNAVAILABLE_REASON_NOT_COMPUTED = ''Metrics have not been computed yet.''"

definition metric_dependencies :: "metric_definition list \<Rightarrow> (string \<times> string list) list" where
  "metric_dependencies ds = fold (\<lambda>d. put (md_api_field d) (av_dependencies (md_availability d))) ds []"

definition RELEASE_METRIC_DEPENDENCIES :: "(string \<times> string list) list" where
  "RELEASE_METRIC_DEPENDENCIES = metric_dependencies release_metrics"

definition SPRINT_METRIC_DEPENDENCIES :: "(string \<times> string list) list" where
  "SPRINT_METRIC_DEPENDENCIES = metric_dependencies sprint_metrics"

definition dependency_available :: "availability_context \<Rightarrow> string \<Rightarrow> availability_error + bool" where
  "dependency_available c d =
    (if d = ''ticket_count'' then Inr (has_tickets c)
     else if d = ''ticket_status'' then Inr (has_tickets c)
     else if d = ''story_points'' then Inr (has_story_points c)
     else if d = ''completed_tickets'' then Inr (has_completed_tickets c)
     else if d = ''history_changelog'' then Inr (has_changelog c)
     else if d = ''release_assignment'' then Inr (has_release_scope c)
     else if d = ''sprint_assignment'' then Inr (has_sprint_scope c)
     else if d \<in> {''blocker_classification'', ''sprint_duration'', ''project_changelog_completeness'',
                  ''assignee_identity''} then Inr True
     else Inl (Value_Error (''Unknown metric dependency: '' @ d)))"

definition unavailable_reasons :: "(string \<times> string) list" where
  "unavailable_reasons =
    [(''ticket_count'', UNAVAILABLE_REASON_NO_TICKETS),
     (''ticket_status'', UNAVAILABLE_REASON_NO_TICKETS),
     (''story_points'', UNAVAILABLE_REASON_NO_STORY_POINTS),
     (''completed_tickets'', ''No completed tickets are available for this scope.''),
     (''history_changelog'', UNAVAILABLE_REASON_NO_CHANGELOG),
     (''release_assignment'', UNAVAILABLE_REASON_NO_TICKETS),
     (''sprint_assignment'', UNAVAILABLE_REASON_NO_TICKETS),
     (''blocker_classification'', ''Blocker classification is incomplete.''),
     (''sprint_duration'', ''Sprint duration is missing or invalid.''),
     (''project_changelog_completeness'', ''Project sprint-membership changelog history is incomplete.''),
     (''assignee_identity'', ''Assignee identity evidence is incomplete.'')]"

fun dependencies_available :: "availability_context \<Rightarrow> string list \<Rightarrow> availability_error + bool" where
  "dependencies_available c [] = Inr True"
| "dependencies_available c (d # ds) =
     and_then (dependency_available c d) (\<lambda>a. if a then dependencies_available c ds else Inr False)"

fun first_unavailable_reason :: "availability_context \<Rightarrow> string list \<Rightarrow> availability_error + string option" where
  "first_unavailable_reason c [] = Inr None"
| "first_unavailable_reason c (d # ds) =
     and_then (dependency_available c d) (\<lambda>a.
       if a then first_unavailable_reason c ds
       else and_then (lookup unavailable_reasons d) (\<lambda>r. Inr (Some r)))"

definition dependency_item :: "availability_context \<Rightarrow> string list \<Rightarrow> availability_error + availability_item" where
  "dependency_item c ds =
     and_then (dependencies_available c ds) (\<lambda>available.
     and_then (first_unavailable_reason c ds) (\<lambda>reason.
       new_item (if available then COMPUTED else NOT_COMPUTED) available reason
         (case reason of Some r \<Rightarrow> if r \<noteq> [] then [r] else [] | None \<Rightarrow> []) [] ds))"

definition classification_item ::
  "(string \<times> string list) list \<Rightarrow> string \<Rightarrow> metric_result \<Rightarrow> availability_error + availability_item" where
  "classification_item deps name r =
     and_then (lookup deps name) (\<lambda>ds.
       new_item (mr_status r) (mr_available r) (first_explanation (mr_explanations r)) (mr_explanations r)
         (mr_missing_issue_keys r) ds)"

definition build_metric_availability_items ::
  "availability_context \<Rightarrow> (string \<times> string list) list \<Rightarrow> (string \<times> metric_result) list
     \<Rightarrow> availability_error + items" where
  "build_metric_availability_items c deps results =
     and_then (fold_ok (\<lambda>(name, ds). set_item name (dependency_item c ds)) deps [])
       (fold_ok (\<lambda>(name, r). set_item name (classification_item deps name r)) results)"

subsection \<open>Overrides by computed results\<close>

definition reason_unless :: "bool \<Rightarrow> string list \<Rightarrow> string option" where
  "reason_unless available es = (if \<not> available then first_explanation es else None)"

definition apply_scope_churn_availability :: "metric_summary \<Rightarrow> items \<Rightarrow> availability_error + items" where
  "apply_scope_churn_availability r =
     fold_ok (\<lambda>name. set_item name (new_item (ms_status r)
         (ms_status r = COMPUTED \<or> (ms_status r = PARTIAL \<and> name \<noteq> ''scope_churn_7d_pct''))
         (first_explanation (ms_explanations r)) (ms_explanations r) (sort (ms_missing_issue_keys r))
         [''project_changelog_completeness'', ''observed_release_scope'']))
       [''scope_churn_7d_pct'', ''scope_added_7d_count'', ''scope_removed_7d_count'']"

definition override_item ::
  "string \<Rightarrow> computation_status \<Rightarrow> bool \<Rightarrow> string list \<Rightarrow> string list \<Rightarrow> items \<Rightarrow> availability_error + items" where
  "override_item name status available es missing items =
     and_then (lookup items name) (\<lambda>old.
       set_item name (new_item status available (reason_unless available es) es (sort missing)
         (ai_depends_on old)) items)"

definition apply_flow_metric_availability ::
  "(string \<times> metric_summary) list \<Rightarrow> items \<Rightarrow> availability_error + items" where
  "apply_flow_metric_availability results =
     fold_ok (\<lambda>name items. and_then (lookup results name) (\<lambda>r.
         override_item name (ms_status r) (ms_status r = COMPUTED) (ms_explanations r)
           (ms_missing_issue_keys r) items))
       [''median_cycle_time_days'', ''reopen_rate_pct'']"

definition apply_results ::
  "string list \<Rightarrow> (string \<times> metric_result) list \<Rightarrow> items \<Rightarrow> availability_error + items" where
  "apply_results names results =
     fold_ok (\<lambda>name items. and_then (lookup results name) (\<lambda>r.
         override_item name (mr_status r) (mr_available r) (mr_explanations r) (mr_missing_issue_keys r) items))
       names"

definition apply_sprint_scope_metric_availability ::
  "(string \<times> metric_result) list \<Rightarrow> items \<Rightarrow> availability_error + items" where
  "apply_sprint_scope_metric_availability = apply_results [''committed_scope'', ''completed_scope_pct'']"

definition apply_sprint_work_state_metric_availability ::
  "(string \<times> metric_result) list \<Rightarrow> items \<Rightarrow> availability_error + items" where
  "apply_sprint_work_state_metric_availability =
     apply_results [''in_progress_count'', ''not_started_count'', ''rollover_count'']"

definition sprint_item ::
  "string \<Rightarrow> computation_status \<Rightarrow> bool \<Rightarrow> string option \<Rightarrow> string list \<Rightarrow> string list \<Rightarrow> items
     \<Rightarrow> availability_error + items" where
  "sprint_item name status available reason es missing items =
     and_then (lookup SPRINT_METRIC_DEPENDENCIES name) (\<lambda>ds.
       set_item name (new_item status available reason es missing ds) items)"

definition apply_scope_creep_availability :: "metric_summary \<Rightarrow> items \<Rightarrow> availability_error + items" where
  "apply_scope_creep_availability r =
     sprint_item ''scope_creep_pct'' (ms_status r) (ms_status r = COMPUTED)
       (reason_unless (ms_status r = COMPUTED) (ms_explanations r)) (ms_explanations r)
       (sort (ms_missing_issue_keys r))"

definition apply_delivery_confidence_prerequisite_availability ::
  "delivery_prerequisites \<Rightarrow> items \<Rightarrow> availability_error + items" where
  "apply_delivery_confidence_prerequisite_availability p items =
    (if dp_available p then Inr items
     else sprint_item ''delivery_confidence_score'' NOT_COMPUTED False (first_explanation (dp_explanations p))
       (dp_explanations p) (sort (dp_missing_issue_keys p)) items)"

definition apply_delivery_confidence_result_availability ::
  "delivery_confidence_result \<Rightarrow> metric_summary option \<Rightarrow> items \<Rightarrow> availability_error + items" where
  "apply_delivery_confidence_result_availability r creep items =
    (if dc_status r \<noteq> STATUS_INCONCLUSIVE then Inr items
     else and_then (lookup items ''delivery_confidence_score'') (\<lambda>old.
       sprint_item ''delivery_confidence_score'' NOT_COMPUTED False (first_explanation (dc_explanations r))
         (dc_explanations r)
         (sorted_keys (ai_missing_issue_keys old
           @ (case creep of None \<Rightarrow> [] | Some c \<Rightarrow> ms_missing_issue_keys c))) items))"

definition apply_workload_distribution_availability :: "metric_summary \<Rightarrow> items \<Rightarrow> availability_error + items" where
  "apply_workload_distribution_availability r =
    (let available = (ms_status r = COMPUTED \<or> ms_status r = PARTIAL)
     in sprint_item ''workload_concentration_pct''
          (if ms_status r = STATUS_INCONCLUSIVE then NOT_COMPUTED else ms_status r) available
          (reason_unless available (ms_explanations r)) (ms_explanations r) (sort (ms_missing_issue_keys r)))"

subsection \<open>Release availability\<close>

text \<open>The conditions of the counting queries: \<open>story_points >= 0\<close> holds for an infinite value too, and
  \<open>lower(status) IN ...\<close> does not strip.\<close>

fun sql_has_story_points :: "py_number option \<Rightarrow> bool" where
  "sql_has_story_points None \<longleftrightarrow> False"
| "sql_has_story_points (Some (PyInf neg)) \<longleftrightarrow> \<not> neg"
| "sql_has_story_points (Some PyNaN) \<longleftrightarrow> False"
| "sql_has_story_points (Some n) \<longleftrightarrow> 0 \<le> number_value n"

definition sql_is_done :: "field_mapping \<Rightarrow> issue \<Rightarrow> bool" where
  "sql_is_done fm i \<longleftrightarrow> (case issue_status i of None \<Rightarrow> False | Some st \<Rightarrow> casefold st \<in> done_statuses fm)"

definition count_where :: "('a \<Rightarrow> bool) \<Rightarrow> 'a list \<Rightarrow> int" where
  "count_where P xs = int (length (filter P xs))"

definition release_context :: "store \<Rightarrow> string \<Rightarrow> field_mapping \<Rightarrow> availability_context" where
  "release_context db rid fm =
    (let xs = release_issues db rid; total = int (length xs);
         changelog = count_where (\<lambda>h. hist_issue_key h \<in> issue_key ` set xs) (histories db)
     in \<lparr>has_tickets = (total > 0),
         has_story_points = (count_where (\<lambda>i. sql_has_story_points (issue_story_points i)) xs > 0),
         has_completed_tickets = (count_where (sql_is_done fm) xs > 0),
         has_release_scope = (total > 0), has_sprint_scope = False, has_changelog = (changelog > 0)\<rparr>)"

text \<open>The results that make release confidence unavailable, by metric.\<close>

definition summary_of :: "metric_result \<Rightarrow> metric_summary" where
  "summary_of r = \<lparr>ms_status = mr_status r, ms_explanations = mr_explanations r,
     ms_missing_issue_keys = mr_missing_issue_keys r\<rparr>"

definition unavailable_results ::
  "(string \<times> metric_result) list \<Rightarrow> metric_summary option \<Rightarrow> (string \<times> metric_summary) list option
     \<Rightarrow> (string \<times> metric_summary) list" where
  "unavailable_results classification churn flow =
    (let d1 = map (\<lambda>name. (name, summary_of (result_of classification name)))
           (filter (\<lambda>name. mr_status (result_of classification name) = PARTIAL)
              [''open_blockers'', ''open_high_severity_bugs'']);
         d2 = (case churn of
                 None \<Rightarrow> d1
               | Some r \<Rightarrow> if ms_status r = PARTIAL then put ''scope_churn_7d_pct'' r d1 else d1);
         fs = filter (\<lambda>(name, r). ms_status r \<noteq> COMPUTED) (case flow of None \<Rightarrow> [] | Some fs \<Rightarrow> fs)
     in fold (\<lambda>(name, r). put name r) fs d2)"

definition missing_of :: "(string \<times> metric_summary) list \<Rightarrow> string list \<Rightarrow> string list" where
  "missing_of results names =
     sorted_keys (concat (map (\<lambda>name. ms_missing_issue_keys (the (map_of results name))) names))"

definition status_over :: "(string \<times> metric_summary) list \<Rightarrow> string list \<Rightarrow> computation_status" where
  "status_over results names =
     (if \<exists>name \<in> set names. ms_status (the (map_of results name)) = PARTIAL then PARTIAL else NOT_COMPUTED)"

definition release_item ::
  "string \<Rightarrow> computation_status \<Rightarrow> string \<Rightarrow> string list \<Rightarrow> items \<Rightarrow> availability_error + items" where
  "release_item name status explanation missing items =
     and_then (lookup RELEASE_METRIC_DEPENDENCIES name) (\<lambda>ds.
       set_item name (new_item status False (Some explanation) [explanation] missing ds) items)"

definition apply_unavailable_confidence ::
  "(string \<times> metric_summary) list \<Rightarrow> items \<Rightarrow> availability_error + items" where
  "apply_unavailable_confidence results items =
    (if results = [] then Inr items
     else
      (let names = sorted_keys (map fst results);
           explanation = ''Release confidence is unavailable because required metric inputs are ''
             @ ''unavailable for: '' @ join '', '' names @ ''.'';
           readiness = filter (\<lambda>name. name \<noteq> ''median_cycle_time_days''
             \<or> ms_status (the (map_of results name)) = PARTIAL) names;
           readiness_explanation = ''Release readiness is unavailable because required gate inputs are ''
             @ ''unavailable for: '' @ join '', '' readiness @ ''.''
       in and_then (release_item ''confidence_score'' (status_over results names) explanation
              (missing_of results names) items)
            (if readiness = [] then Inr
             else fold_ok (\<lambda>name. release_item name (status_over results readiness) readiness_explanation
                    (missing_of results readiness))
                  [''gates_passed_count'', ''readiness_pct''])))"

definition build_release_availability ::
  "store \<Rightarrow> string \<Rightarrow> field_mapping \<Rightarrow> metric_summary option \<Rightarrow> (string \<times> metric_summary) list option
     \<Rightarrow> availability_error + metric_availability" where
  "build_release_availability db rid fm churn flow =
    (let c = release_context db rid fm;
         classification = evaluate_classification_metrics fm (release_issues db rid)
     in and_then (build_metric_availability_items c RELEASE_METRIC_DEPENDENCIES classification) (\<lambda>items.
        and_then (case churn of None \<Rightarrow> Inr items | Some r \<Rightarrow> apply_scope_churn_availability r items) (\<lambda>items.
        and_then (case flow of None \<Rightarrow> Inr items | Some rs \<Rightarrow> apply_flow_metric_availability rs items) (\<lambda>items.
        and_then (apply_unavailable_confidence (unavailable_results classification churn flow) items) (\<lambda>items.
          Inr \<lparr>ma_context = c, ma_metrics = items\<rparr>)))))"

subsection \<open>Sprint availability\<close>

definition sprint_context :: "store \<Rightarrow> string \<Rightarrow> field_mapping \<Rightarrow> availability_context" where
  "sprint_context db sid fm =
    (let xs = list_sprint_issues db sid; keys = sprint_issue_keys db sid; total = int (length keys);
         pointed = count_where (\<lambda>i. sql_has_story_points (issue_story_points i)) xs;
         changelog = count_where (\<lambda>h. hist_issue_key h \<in> set keys) (histories db)
     in \<lparr>has_tickets = (total > 0),
         has_story_points = (total > 0
           \<and> fdiv (fmul 100 (fint pointed)) (fint total) \<ge> MIN_STORY_POINT_COVERAGE_PCT),
         has_completed_tickets = (count_where (sql_is_done fm) xs > 0),
         has_release_scope = False, has_sprint_scope = (total > 0), has_changelog = (changelog > 0)\<rparr>)"

definition value_error :: "string + 'a \<Rightarrow> availability_error + 'a" where
  "value_error r = (case r of Inl e \<Rightarrow> Inl (Value_Error e) | Inr a \<Rightarrow> Inr a)"

text \<open>\<open>results or evaluate(...)\<close>: an absent or empty dict is recomputed.\<close>

definition or_compute ::
  "(string \<times> 'r) list option \<Rightarrow> availability_error + (string \<times> 'r) list
     \<Rightarrow> availability_error + (string \<times> 'r) list" where
  "or_compute given fresh = (case given of Some (r # rs) \<Rightarrow> Inr (r # rs) | _ \<Rightarrow> fresh)"

definition if_given :: "('a \<Rightarrow> items \<Rightarrow> availability_error + items) \<Rightarrow> 'a option \<Rightarrow> items
     \<Rightarrow> availability_error + items" where
  "if_given f r items = (case r of None \<Rightarrow> Inr items | Some x \<Rightarrow> f x items)"

record sprint_results =
  sr_flow :: "(string \<times> metric_summary) list option"
  sr_scope :: "(string \<times> metric_result) list option"
  sr_work_state :: "(string \<times> metric_result) list option"
  sr_scope_creep :: "metric_summary option"
  sr_delivery_confidence :: "delivery_confidence_result option"
  sr_workload :: "metric_summary option"

definition build_sprint_availability ::
  "store \<Rightarrow> string \<Rightarrow> field_mapping \<Rightarrow> sprint_results \<Rightarrow> availability_error + metric_availability" where
  "build_sprint_availability db sid fm rs =
    (let c = sprint_context db sid fm;
         classification = evaluate_classification_metrics fm (list_sprint_issues db sid);
         shown = map (\<lambda>name. (name, result_of classification name)) [''open_blockers'', ''open_high_severity_bugs'']
     in and_then (build_metric_availability_items c SPRINT_METRIC_DEPENDENCIES shown) (\<lambda>items.
        and_then (or_compute (sr_scope rs) (Inr (evaluate_sprint_scope_metrics db sid fm))) (\<lambda>scope.
        and_then (apply_sprint_scope_metric_availability scope items) (\<lambda>items.
        and_then (or_compute (sr_work_state rs)
            (value_error (evaluate_sprint_work_state_metrics db sid fm))) (\<lambda>work_state.
        and_then (apply_sprint_work_state_metric_availability work_state items) (\<lambda>items.
        and_then (if_given apply_scope_creep_availability (sr_scope_creep rs) items) (\<lambda>items.
        and_then (if_given apply_flow_metric_availability (sr_flow rs) items) (\<lambda>items.
        and_then (if_given apply_workload_distribution_availability (sr_workload rs) items) (\<lambda>items.
        and_then (case sr_delivery_confidence rs of
            Some r \<Rightarrow> Inr (dc_prerequisites r)
          | None \<Rightarrow> value_error (evaluate_sprint_delivery_confidence_prerequisites db sid fm (Some classification)))
          (\<lambda>prerequisites.
        and_then (if has_story_points c
            then apply_delivery_confidence_prerequisite_availability prerequisites items else Inr items) (\<lambda>items.
        and_then (if has_story_points c
            then if_given (\<lambda>r. apply_delivery_confidence_result_availability r (sr_scope_creep rs))
                   (sr_delivery_confidence rs) items
            else Inr items) (\<lambda>items.
          Inr \<lparr>ma_context = c, ma_metrics = items\<rparr>))))))))))))"

subsection \<open>Computation state\<close>

definition first_metric_unavailable_reason :: "metric_availability \<Rightarrow> string option" where
  "first_metric_unavailable_reason a =
    (let items = map snd (ma_metrics a)
     in case find (\<lambda>i. ai_status i = PARTIAL \<and> ai_explanations i \<noteq> []) items of
          Some i \<Rightarrow> Some (hd (ai_explanations i))
        | None \<Rightarrow>
           (if \<exists>i \<in> set items. \<not> ai_available i \<and> ai_reason i = Some UNAVAILABLE_REASON_NO_STORY_POINTS
            then Some UNAVAILABLE_REASON_NO_STORY_POINTS
            else case find (\<lambda>i. ai_status i \<noteq> NOT_APPLICABLE \<and> \<not> ai_available i \<and> or_empty (ai_reason i) \<noteq> []) items of
                   Some i \<Rightarrow> ai_reason i
                 | None \<Rightarrow> None))"

definition computation_state :: "metric_availability \<Rightarrow> bool \<Rightarrow> string \<Rightarrow> computation_status \<times> string option" where
  "computation_state a is_computed empty_scope_reason =
    (if \<not> has_tickets (ma_context a) then (NOT_COMPUTED, Some empty_scope_reason)
     else if \<not> is_computed then (NOT_COMPUTED, Some UNAVAILABLE_REASON_NOT_COMPUTED)
     else case first_metric_unavailable_reason a of
            Some r \<Rightarrow> (PARTIAL, Some r)
          | None \<Rightarrow> (COMPUTED, None))"

end
