(* ===== verification/AvailabilityContract.thy ===== *)
theory AvailabilityContract
  imports Availability
begin

text \<open>
  What metric availability promises: it never raises on the results the program computes, it has one
  item per catalog metric in catalog order, a computed metric is available and an unavailable one gives
  its reason. The locale \<open>availability_table\<close> states what the dependency table of a scope must provide;
  the tables of the two catalogs are its interpretations.
\<close>

subsection \<open>The contract of an item and of a result\<close>

definition explained :: "string list \<Rightarrow> bool" where
  "explained es \<longleftrightarrow> es \<noteq> [] \<and> hd es \<noteq> []"

definition item_ok :: "availability_item \<Rightarrow> bool" where
  "item_ok i \<longleftrightarrow> ai_status i \<noteq> STATUS_INCONCLUSIVE \<and> (ai_status i = COMPUTED \<longrightarrow> ai_available i)
     \<and> (ai_available i \<or> (explained (ai_explanations i) \<and> ai_reason i = Some (hd (ai_explanations i))))"

definition items_inv :: "(string \<times> string list) list \<Rightarrow> items \<Rightarrow> bool" where
  "items_inv deps items \<longleftrightarrow> map fst items = map fst deps \<and> (\<forall>i \<in> snd ` set items. item_ok i)"

definition result_ok :: "metric_result \<Rightarrow> bool" where
  "result_ok r \<longleftrightarrow> mr_status r \<noteq> STATUS_INCONCLUSIVE \<and> (mr_status r = COMPUTED \<longrightarrow> mr_available r)
     \<and> (mr_available r \<or> explained (mr_explanations r))"

definition summary_ok :: "metric_summary \<Rightarrow> bool" where
  "summary_ok r \<longleftrightarrow> ms_status r \<noteq> STATUS_INCONCLUSIVE \<and> (ms_status r \<noteq> COMPUTED \<longrightarrow> explained (ms_explanations r))"

lemma explained_Cons [simp]: "explained (e # es) \<longleftrightarrow> e \<noteq> []"
  by (simp add: explained_def)

lemma first_explanation_explained: "explained es \<Longrightarrow> first_explanation es = Some (hd es)"
  by (cases es) (simp_all add: explained_def first_explanation_def)

lemma map_of_items: "items_inv deps items \<Longrightarrow> map_of items name = Some i \<Longrightarrow> item_ok i"
  by (force simp: items_inv_def dest: map_of_SomeD)

lemma items_inv_put:
  assumes "items_inv deps items" and "item_ok i" and "name \<in> fst ` set deps"
  shows "items_inv deps (put name i items)"
proof -
  have k: "name \<in> fst ` set items"
    using assms(1,3) by (metis items_inv_def list.set_map)
  have "snd ` set (put name i items) \<subseteq> insert i (snd ` set items)"
    unfolding put_def by (induction items) (force split: if_splits)+
  then have "\<forall>j \<in> snd ` set (put name i items). item_ok j"
    using assms(1,2) unfolding items_inv_def by blast
  then show ?thesis using assms(1) put_keys [OF k] unfolding items_inv_def by metis
qed

text \<open>An operation on the items that always succeeds and keeps them well formed.\<close>

definition keeps :: "(string \<times> string list) list \<Rightarrow> (items \<Rightarrow> availability_error + items) \<Rightarrow> bool" where
  "keeps deps f \<longleftrightarrow> (\<forall>items. items_inv deps items \<longrightarrow> (\<exists>items'. f items = Inr items' \<and> items_inv deps items'))"

lemma keepsD: "keeps deps f \<Longrightarrow> items_inv deps items \<Longrightarrow> \<exists>items'. f items = Inr items' \<and> items_inv deps items'"
  by (simp add: keeps_def)

lemma keeps_Inr [simp]: "keeps deps Inr"
  by (simp add: keeps_def)

lemma keeps_fold: "(\<And>x. x \<in> set xs \<Longrightarrow> keeps deps (f x)) \<Longrightarrow> keeps deps (fold_ok f xs)"
  unfolding keeps_def using fold_ok_total [of xs "items_inv deps" f] by blast

lemma keeps_set_item:
  assumes "name \<in> fst ` set deps" and "item = Inr i" and "item_ok i"
  shows "keeps deps (set_item name item)"
  using assms items_inv_put by (simp add: keeps_def set_item_def)

lemma keeps_override:
  assumes "name \<in> fst ` set deps" and "status \<noteq> STATUS_INCONCLUSIVE" and "status = COMPUTED \<longrightarrow> available"
    and "available \<or> explained es"
  shows "keeps deps (override_item name status available es missing)"
  unfolding keeps_def
proof (intro allI impI)
  fix items assume i: "items_inv deps items"
  then have "name \<in> fst ` set items" using assms(1) by (metis items_inv_def list.set_map)
  then obtain old where "map_of items name = Some old" by (metis domIff dom_map_of_conv_image_fst not_None_eq)
  moreover have "item_ok \<lparr>ai_status = status, ai_available = available, ai_reason = reason_unless available es,
      ai_explanations = es, ai_missing_issue_keys = ms, ai_depends_on = ds\<rparr>" for ms ds
    using assms(2-4) by (auto simp: item_ok_def reason_unless_def first_explanation_explained)
  ultimately show "\<exists>items'. override_item name status available es missing items = Inr items' \<and> items_inv deps items'"
    using assms(1,2) i by (simp add: override_item_def lookup_def new_item_def set_item_def items_inv_put)
qed

subsection \<open>Dependency tables\<close>

locale availability_table =
  fixes deps :: "(string \<times> string list) list"
  assumes distinct_metrics: "distinct (map fst deps)"
    and known: "(name, ds) \<in> set deps \<Longrightarrow> set ds \<subseteq> fst ` set unavailable_reasons"
begin

lemma dependency_known:
  assumes "d \<in> fst ` set unavailable_reasons"
  shows "\<exists>b r. dependency_available c d = Inr b \<and> lookup unavailable_reasons d = Inr r \<and> r \<noteq> []"
  using assms by (auto simp: unavailable_reasons_def dependency_available_def lookup_def
      UNAVAILABLE_REASON_NO_TICKETS_def UNAVAILABLE_REASON_NO_STORY_POINTS_def UNAVAILABLE_REASON_NO_CHANGELOG_def)

lemma dependencies_known:
  assumes "set ds \<subseteq> fst ` set unavailable_reasons"
  shows "\<exists>a r. dependencies_available c ds = Inr a \<and> first_unavailable_reason c ds = Inr r
    \<and> (if a then r = None else \<exists>s. r = Some s \<and> s \<noteq> [])"
  using assms
proof (induction ds)
  case (Cons d ds)
  obtain b r where d: "dependency_available c d = Inr b" "lookup unavailable_reasons d = Inr r" "r \<noteq> []"
    using dependency_known [of d c] Cons.prems by auto
  obtain a s where ds: "dependencies_available c ds = Inr a" "first_unavailable_reason c ds = Inr s"
    "if a then s = None else \<exists>t. s = Some t \<and> t \<noteq> []" using Cons by auto
  show ?case using d ds
    by (intro exI [of _ "b \<and> a"] exI [of _ "if b then s else Some r"]) (auto split: if_splits)
qed (auto intro: exI [of _ True])

lemma dependency_item_ok:
  assumes "set ds \<subseteq> fst ` set unavailable_reasons"
  shows "\<exists>i. dependency_item c ds = Inr i \<and> item_ok i"
proof -
  obtain a r where "dependencies_available c ds = Inr a" "first_unavailable_reason c ds = Inr r"
    "if a then r = None else \<exists>s. r = Some s \<and> s \<noteq> []" using dependencies_known [OF assms, of c] by blast
  then show ?thesis by (cases a) (auto simp: dependency_item_def new_item_def item_ok_def)
qed

lemma initial_items:
  assumes "distinct (map fst ds)" and "fst ` set ds \<inter> fst ` set acc = {}" and "set ds \<subseteq> set deps"
    and "\<forall>i \<in> snd ` set acc. item_ok i"
  shows "\<exists>items. fold_ok (\<lambda>(name, ds). set_item name (dependency_item c ds)) ds acc = Inr items
    \<and> map fst items = map fst acc @ map fst ds \<and> (\<forall>i \<in> snd ` set items. item_ok i)"
  using assms
proof (induction ds arbitrary: acc)
  case (Cons p ds)
  obtain name xs where p: "p = (name, xs)" by (cases p)
  obtain i where i: "dependency_item c xs = Inr i" "item_ok i"
    using dependency_item_ok [OF known [of name xs], of c] Cons.prems(3) p by auto
  have "put name i acc = acc @ [(name, i)]" using Cons.prems(2) p by (intro put_new) auto
  moreover have "fst ` set ds \<inter> fst ` set (acc @ [(name, i)]) = {}"
    using Cons.prems(1,2) p by auto
  ultimately show ?case
    using Cons.IH [of "acc @ [(name, i)]"] Cons.prems i p by (auto simp: set_item_def)
qed simp

text \<open>The items of the dependency rules with the classification results over them.\<close>

lemma build_items:
  assumes "\<And>name r. (name, r) \<in> set results \<Longrightarrow> name \<in> fst ` set deps \<and> result_ok r"
  shows "\<exists>items. build_metric_availability_items c deps results = Inr items \<and> items_inv deps items"
proof -
  obtain items where items: "fold_ok (\<lambda>(name, ds). set_item name (dependency_item c ds)) deps [] = Inr items"
    "items_inv deps items"
    using initial_items [OF distinct_metrics, of "[]" c] by (auto simp: items_inv_def)
  have "keeps deps (fold_ok (\<lambda>(name, r). set_item name (classification_item deps name r)) results)"
  proof (rule keeps_fold)
    fix p assume p: "p \<in> set results"
    obtain name r where nr: "p = (name, r)" by (cases p)
    have n: "name \<in> fst ` set deps" and r: "result_ok r" using assms p nr by auto
    then obtain ds where "map_of deps name = Some ds" by (metis domIff dom_map_of_conv_image_fst not_None_eq)
    then obtain i where "classification_item deps name r = Inr i" "item_ok i"
      using r by (auto simp: classification_item_def lookup_def new_item_def item_ok_def result_ok_def
          first_explanation_explained)
    then show "keeps deps (case p of (name, r) \<Rightarrow> set_item name (classification_item deps name r))"
      using keeps_set_item [OF n] nr by simp
  qed
  then show ?thesis using items by (auto simp: build_metric_availability_items_def keeps_def)
qed

lemma keeps_results:
  assumes "set names \<subseteq> fst ` set deps"
    and "\<And>name. name \<in> set names \<Longrightarrow> \<exists>r. map_of results name = Some r \<and> result_ok r"
  shows "keeps deps (apply_results names results)"
  unfolding apply_results_def
proof (rule keeps_fold)
  fix name assume n: "name \<in> set names"
  then obtain r where "map_of results name = Some r" "result_ok r" using assms(2) by blast
  then show "keeps deps (\<lambda>items. and_then (lookup results name) (\<lambda>r.
      override_item name (mr_status r) (mr_available r) (mr_explanations r) (mr_missing_issue_keys r) items))"
    using keeps_override [of name deps "mr_status r" "mr_available r" "mr_explanations r"] subsetD [OF assms(1) n]
    by (simp add: lookup_def result_ok_def)
qed

lemma keeps_flow:
  assumes "{''median_cycle_time_days'', ''reopen_rate_pct''} \<subseteq> fst ` set deps"
    and "\<And>name. name \<in> {''median_cycle_time_days'', ''reopen_rate_pct''} \<Longrightarrow>
      \<exists>r. map_of results name = Some r \<and> summary_ok r"
  shows "keeps deps (apply_flow_metric_availability results)"
  unfolding apply_flow_metric_availability_def
proof (rule keeps_fold)
  fix name assume n: "name \<in> set [''median_cycle_time_days'', ''reopen_rate_pct'']"
  then obtain r where "map_of results name = Some r" "summary_ok r" using assms(2) by auto
  then show "keeps deps (\<lambda>items. and_then (lookup results name) (\<lambda>r.
      override_item name (ms_status r) (ms_status r = COMPUTED) (ms_explanations r) (ms_missing_issue_keys r) items))"
    using keeps_override [of name deps "ms_status r" "ms_status r = COMPUTED" "ms_explanations r"]
      subsetD [OF assms(1), of name] n
    by (cases "ms_status r = COMPUTED") (simp_all add: lookup_def summary_ok_def)
qed

end

lemma release_metric_names:
  "map fst RELEASE_METRIC_DEPENDENCIES = map md_api_field release_metrics" by code_simp

lemma sprint_metric_names:
  "map fst SPRINT_METRIC_DEPENDENCIES = map md_api_field sprint_metrics" by code_simp

interpretation release_table: availability_table RELEASE_METRIC_DEPENDENCIES
proof
  show "distinct (map fst RELEASE_METRIC_DEPENDENCIES)" by code_simp
  have "\<forall>p \<in> set RELEASE_METRIC_DEPENDENCIES. set (snd p) \<subseteq> set (map fst unavailable_reasons)" by code_simp
  then show "(name, ds) \<in> set RELEASE_METRIC_DEPENDENCIES \<Longrightarrow> set ds \<subseteq> fst ` set unavailable_reasons" for name ds
    by fastforce
qed

interpretation sprint_table: availability_table SPRINT_METRIC_DEPENDENCIES
proof
  show "distinct (map fst SPRINT_METRIC_DEPENDENCIES)" by code_simp
  have "\<forall>p \<in> set SPRINT_METRIC_DEPENDENCIES. set (snd p) \<subseteq> set (map fst unavailable_reasons)" by code_simp
  then show "(name, ds) \<in> set SPRINT_METRIC_DEPENDENCIES \<Longrightarrow> set ds \<subseteq> fst ` set unavailable_reasons" for name ds
    by fastforce
qed

subsection \<open>The results of the program keep the contract\<close>

definition churn_summary :: "churn_result \<Rightarrow> metric_summary" where
  "churn_summary r = \<lparr>ms_status = cr_status r, ms_explanations = cr_explanations r,
     ms_missing_issue_keys = cr_missing_issue_keys r\<rparr>"

definition creep_summary :: "creep_result \<Rightarrow> metric_summary" where
  "creep_summary r = \<lparr>ms_status = cp_status r, ms_explanations = cp_explanations r,
     ms_missing_issue_keys = cp_missing_issue_keys r\<rparr>"

definition workload_summary :: "workload_result \<Rightarrow> metric_summary" where
  "workload_summary r = \<lparr>ms_status = wr_status r, ms_explanations = wr_explanations r,
     ms_missing_issue_keys = wr_missing_issue_keys r\<rparr>"

definition flow_summaries :: "cycle_result \<times> reopen_result \<Rightarrow> (string \<times> metric_summary) list" where
  "flow_summaries cr =
     [(''median_cycle_time_days'', \<lparr>ms_status = ct_status (fst cr), ms_explanations = ct_explanations (fst cr),
         ms_missing_issue_keys = ct_missing_issue_keys (fst cr)\<rparr>),
      (''reopen_rate_pct'', \<lparr>ms_status = rr_status (snd cr), ms_explanations = rr_explanations (snd cr),
         ms_missing_issue_keys = rr_missing_issue_keys (snd cr)\<rparr>)]"

lemma partial_if_ok: "partial_if b \<noteq> STATUS_INCONCLUSIVE" "partial_if b = COMPUTED \<longleftrightarrow> \<not> b"
  by (simp_all add: partial_if_def)

lemma classification_results_ok:
  "result_ok (no_tickets_result ev)" "result_ok (open_blockers_result fm xs)"
  "result_ok (open_high_severity_bugs_result fm xs)" "result_ok (scope_completed_pct_result fm xs)"
  "result_ok (completed_tickets_result fm xs)"
  by (simp_all add: result_ok_def no_tickets_result_def open_blockers_result_def
      open_high_severity_bugs_result_def scope_completed_pct_result_def completed_tickets_result_def
      Let_def partial_if_ok UNAVAILABLE_REASON_NO_TICKETS_def)

lemma classification_ok:
  "(name, r) \<in> set (evaluate_classification_metrics fm xs) \<Longrightarrow>
     name \<in> {''open_blockers'', ''open_high_severity_bugs'', ''scope_completed_pct'', ''completed_tickets''} \<and> result_ok r"
  unfolding evaluate_classification_metrics_def using classification_results_ok
  by (cases "xs = []") auto

lemma churn_summary_ok: "summary_ok (churn_summary (compute_release_scope_churn_7d db rid pk rname fm t))"
  by (simp add: summary_ok_def churn_summary_def compute_release_scope_churn_7d_def Let_def case_prod_unfold)

lemma creep_summary_ok: "summary_ok (creep_summary (compute_sprint_scope_creep db fm s t))"
  by (simp add: summary_ok_def creep_summary_def compute_sprint_scope_creep_def Let_def
      build_creep_result_def split: option.splits)

lemma sorted_keys_append_Nil: "sorted_keys (xs @ ys) \<noteq> [] \<longleftrightarrow> xs \<noteq> [] \<or> ys \<noteq> []"
  by simp

lemma explained_append: "explained (xs @ ys) \<longleftrightarrow> (if xs = [] then explained ys else hd xs \<noteq> [])"
  by (cases xs) (auto simp: explained_def)

lemma cycle_ok:
  fixes fm hist xs
  defines "r \<equiv> evaluate_cycle_time fm hist xs"
  shows "ct_status r \<noteq> STATUS_INCONCLUSIVE \<and> (ct_status r \<noteq> COMPUTED \<longrightarrow> explained (ct_explanations r))"
  unfolding r_def evaluate_cycle_time_def Let_def case_prod_unfold
  by (simp add: explained_append)

lemma reopen_ok:
  fixes fm hist xs
  defines "r \<equiv> evaluate_reopen_event_rate fm hist xs"
  shows "rr_status r \<noteq> STATUS_INCONCLUSIVE \<and> (rr_status r \<noteq> COMPUTED \<longrightarrow> explained (rr_explanations r))"
  unfolding r_def evaluate_reopen_event_rate_def Let_def case_prod_unfold
  by (simp add: explained_append)

lemma flow_summaries_ok:
  "(name, r) \<in> set (flow_summaries (evaluate_cycle_time fm hist xs, evaluate_reopen_event_rate fm hist xs))
     \<Longrightarrow> summary_ok r"
  using cycle_ok reopen_ok by (auto simp: flow_summaries_def summary_ok_def)

subsection \<open>Operations that leave a metric alone\<close>

definition frame :: "string \<Rightarrow> (items \<Rightarrow> availability_error + items) \<Rightarrow> bool" where
  "frame n f \<longleftrightarrow> (\<forall>items items'. f items = Inr items' \<longrightarrow> map_of items' n = map_of items n)"

lemma frameD: "frame n f \<Longrightarrow> f items = Inr items' \<Longrightarrow> map_of items' n = map_of items n"
  by (simp add: frame_def)

lemma frame_Inr [simp]: "frame n Inr"
  by (simp add: frame_def)

lemma frame_fold: "(\<And>x. x \<in> set xs \<Longrightarrow> frame n (f x)) \<Longrightarrow> frame n (fold_ok f xs)"
proof (induction xs)
  case (Cons x xs)
  then have "frame n (f x)" "frame n (fold_ok f xs)" by simp_all
  then show ?case by (auto simp: frame_def and_then_Inr_iff)
qed (simp add: frame_def)

lemma set_item_Inr: "set_item name item items = Inr items' \<longleftrightarrow> (\<exists>i. item = Inr i \<and> items' = put name i items)"
  by (auto simp: set_item_def and_then_Inr_iff)

lemma frame_set_item: "n \<noteq> name \<Longrightarrow> frame n (set_item name item)"
  by (auto simp: frame_def set_item_Inr)

lemma frame_override: "n \<noteq> name \<Longrightarrow> frame n (override_item name status available es missing)"
  by (auto simp: frame_def override_item_def and_then_Inr_iff set_item_Inr)

lemma frame_churn:
  "n \<notin> {''scope_churn_7d_pct'', ''scope_added_7d_count'', ''scope_removed_7d_count''} \<Longrightarrow>
     frame n (apply_scope_churn_availability r)"
  unfolding apply_scope_churn_availability_def by (rule frame_fold) (auto intro: frame_set_item)

lemma frame_flow:
  assumes "n \<notin> {''median_cycle_time_days'', ''reopen_rate_pct''}"
  shows "frame n (apply_flow_metric_availability rs)"
  unfolding apply_flow_metric_availability_def
proof (rule frame_fold)
  fix name assume "name \<in> set [''median_cycle_time_days'', ''reopen_rate_pct'']"
  then have "frame n (override_item name s a es ms)" for s a es ms
    using assms by (auto intro: frame_override)
  then show "frame n (\<lambda>items. and_then (lookup rs name) (\<lambda>r.
      override_item name (ms_status r) (ms_status r = COMPUTED) (ms_explanations r) (ms_missing_issue_keys r) items))"
    by (auto simp: frame_def and_then_Inr_iff)
qed

lemma frame_release_item: "n \<noteq> name \<Longrightarrow> frame n (release_item name status e missing)"
  by (auto simp: frame_def release_item_def and_then_Inr_iff set_item_Inr)

lemma release_item_get:
  "release_item name status e missing items = Inr items' \<Longrightarrow>
     \<exists>i. map_of items' name = Some i \<and> \<not> ai_available i"
  by (auto simp: release_item_def and_then_Inr_iff set_item_Inr new_item_def split: if_splits)

text \<open>The item of a metric that no classification result sets is the one of its dependencies.\<close>

lemma initial_map_of:
  assumes "fold_ok (\<lambda>(name, ds). set_item name (dependency_item c ds)) deps acc = Inr items"
    and "distinct (map fst deps)"
  shows "(\<forall>ds. map_of deps n = Some ds \<longrightarrow> (\<exists>i. dependency_item c ds = Inr i \<and> map_of items n = Some i))
    \<and> (n \<notin> fst ` set deps \<longrightarrow> map_of items n = map_of acc n)"
  using assms
proof (induction deps arbitrary: acc)
  case (Cons p deps)
  obtain m xs where p: "p = (m, xs)" by (cases p)
  obtain i where i: "dependency_item c xs = Inr i"
    "fold_ok (\<lambda>(name, ds). set_item name (dependency_item c ds)) deps (put m i acc) = Inr items"
    using Cons.prems p by (auto simp: and_then_Inr_iff set_item_Inr)
  show ?case using Cons.IH [OF i(2)] Cons.prems(2) p i(1) by auto
qed simp

lemma build_items_get:
  assumes "build_metric_availability_items c deps results = Inr items" and "distinct (map fst deps)"
    and "map_of deps n = Some ds" and "n \<notin> fst ` set results"
  shows "\<exists>i. dependency_item c ds = Inr i \<and> map_of items n = Some i"
proof -
  obtain items0 where items0: "fold_ok (\<lambda>(name, ds). set_item name (dependency_item c ds)) deps [] = Inr items0"
    "fold_ok (\<lambda>(name, r). set_item name (classification_item deps name r)) results items0 = Inr items"
    using assms(1) by (auto simp: build_metric_availability_items_def and_then_Inr_iff)
  have "frame n (fold_ok (\<lambda>(name, r). set_item name (classification_item deps name r)) results)"
    by (rule frame_fold) (use assms(4) in \<open>force intro!: frame_set_item\<close>)
  from frameD [OF this items0(2)] initial_map_of [OF items0(1) assms(2), of n] assms(3)
  show ?thesis by simp
qed

subsection \<open>Release availability\<close>

lemma release_names: "{''open_blockers'', ''open_high_severity_bugs'', ''scope_completed_pct'', ''completed_tickets'',
    ''scope_churn_7d_pct'', ''scope_added_7d_count'', ''scope_removed_7d_count'', ''median_cycle_time_days'',
    ''reopen_rate_pct'', ''confidence_score'', ''gates_passed_count'', ''readiness_pct''}
  \<subseteq> fst ` set RELEASE_METRIC_DEPENDENCIES"
  unfolding list.set_map [symmetric] release_metric_names by code_simp

lemma keeps_churn: "summary_ok r \<Longrightarrow> keeps RELEASE_METRIC_DEPENDENCIES (apply_scope_churn_availability r)"
  unfolding apply_scope_churn_availability_def
  by (rule keeps_fold, rule keeps_set_item)
    (use release_names in \<open>auto simp: new_item_def summary_ok_def item_ok_def first_explanation_explained\<close>)

lemma keeps_release_item:
  assumes "name \<in> fst ` set RELEASE_METRIC_DEPENDENCIES" and "status \<noteq> COMPUTED" "status \<noteq> STATUS_INCONCLUSIVE"
    and "e \<noteq> []"
  shows "keeps RELEASE_METRIC_DEPENDENCIES (release_item name status e missing)"
proof -
  obtain ds where "map_of RELEASE_METRIC_DEPENDENCIES name = Some ds"
    using assms(1) by (metis domIff dom_map_of_conv_image_fst not_None_eq)
  then have "release_item name status e missing = set_item name (new_item status False (Some e) [e] missing ds)"
    by (auto simp: release_item_def lookup_def)
  then show ?thesis
    using keeps_set_item [OF assms(1), of "new_item status False (Some e) [e] missing ds"] assms(2-4)
    by (simp add: new_item_def item_ok_def)
qed

lemma status_over: "status_over rs ns \<noteq> COMPUTED" "status_over rs ns \<noteq> STATUS_INCONCLUSIVE"
  by (simp_all add: status_over_def)

lemma keeps_and_then: "keeps deps f \<Longrightarrow> keeps deps g \<Longrightarrow> keeps deps (\<lambda>items. and_then (f items) g)"
  by (force simp: keeps_def)

lemma keeps_if: "(\<not> b \<Longrightarrow> keeps deps f) \<Longrightarrow> keeps deps (if b then Inr else f)"
  by simp

lemma keeps_unavailable: "keeps RELEASE_METRIC_DEPENDENCIES (apply_unavailable_confidence results)"
proof (cases "results = []")
  case False
  have n: "name \<in> fst ` set RELEASE_METRIC_DEPENDENCIES"
    if "name \<in> set [''confidence_score'', ''gates_passed_count'', ''readiness_pct'']" for name
    using that release_names by auto
  show ?thesis unfolding apply_unavailable_confidence_def if_not_P [OF False] Let_def
    by (intro keeps_and_then keeps_if keeps_fold keeps_release_item status_over n) simp_all
qed (simp add: apply_unavailable_confidence_def keeps_def)

lemma build_release_availability_keeps:
  assumes "\<forall>r. churn = Some r \<longrightarrow> summary_ok r"
    and "\<forall>rs. flow = Some rs \<longrightarrow> (\<forall>name \<in> {''median_cycle_time_days'', ''reopen_rate_pct''}.
      \<exists>r. map_of rs name = Some r \<and> summary_ok r)"
  shows "\<exists>a. build_release_availability db rid fm churn flow = Inr a
    \<and> ma_context a = release_context db rid fm \<and> items_inv RELEASE_METRIC_DEPENDENCIES (ma_metrics a)"
proof -
  let ?D = RELEASE_METRIC_DEPENDENCIES
  obtain items where i: "build_metric_availability_items (release_context db rid fm) ?D
      (evaluate_classification_metrics fm (release_issues db rid)) = Inr items" "items_inv ?D items"
    using release_table.build_items [of "evaluate_classification_metrics fm (release_issues db rid)"]
      classification_ok release_names by blast
  have "keeps ?D (\<lambda>items. case churn of None \<Rightarrow> Inr items | Some r \<Rightarrow> apply_scope_churn_availability r items)"
    using assms(1) keeps_churn by (cases churn) (simp_all add: keeps_def)
  moreover have "keeps ?D (\<lambda>items. case flow of None \<Rightarrow> Inr items | Some rs \<Rightarrow> apply_flow_metric_availability rs items)"
  proof (cases flow)
    case (Some rs)
    have "keeps ?D (apply_flow_metric_availability rs)"
      by (rule release_table.keeps_flow) (use assms(2) Some release_names in auto)
    then show ?thesis by (simp add: Some keeps_def)
  qed (simp add: keeps_def)
  ultimately have "keeps ?D (\<lambda>items.
      and_then (case churn of None \<Rightarrow> Inr items | Some r \<Rightarrow> apply_scope_churn_availability r items) (\<lambda>items.
      and_then (case flow of None \<Rightarrow> Inr items | Some rs \<Rightarrow> apply_flow_metric_availability rs items)
        (apply_unavailable_confidence (unavailable_results
          (evaluate_classification_metrics fm (release_issues db rid)) churn flow))))"
    by (intro keeps_and_then keeps_unavailable)
  from keepsD [OF this i(2)] i(1) show ?thesis
    unfolding build_release_availability_def Let_def by (force simp: and_then_Inr_iff)
qed

lemma flow_summaries_get:
  "\<forall>name \<in> {''median_cycle_time_days'', ''reopen_rate_pct''}.
     \<exists>r. map_of (flow_summaries (evaluate_release_flow_metrics db rid fm)) name = Some r \<and> summary_ok r"
  "\<forall>name \<in> {''median_cycle_time_days'', ''reopen_rate_pct''}.
     \<exists>r. map_of (flow_summaries (evaluate_sprint_flow_metrics db sid fm)) name = Some r \<and> summary_ok r"
  using cycle_ok reopen_ok
  by (auto simp: flow_summaries_def evaluate_release_flow_metrics_def evaluate_sprint_flow_metrics_def
      Let_def summary_ok_def)

text \<open>C11: On the scope churn and flow results that the program computes for a release, availability raises
  nothing (no unknown dependency, no missing key, no status outside the four of the schema) and has one
  item for each metric of the release catalog, in catalog order; a computed metric is available, and a
  metric that is not available gives its first explanation as its reason.\<close>

theorem release_availability_total:
  "\<exists>a. build_release_availability db rid fm
        (Some (churn_summary (compute_release_scope_churn_7d db rid pk rname fm t)))
        (Some (flow_summaries (evaluate_release_flow_metrics db rid fm))) = Inr a
     \<and> map fst (ma_metrics a) = map md_api_field release_metrics
     \<and> (\<forall>i \<in> snd ` set (ma_metrics a). item_ok i)"
proof -
  have "\<exists>a. build_release_availability db rid fm
        (Some (churn_summary (compute_release_scope_churn_7d db rid pk rname fm t)))
        (Some (flow_summaries (evaluate_release_flow_metrics db rid fm))) = Inr a
     \<and> ma_context a = release_context db rid fm \<and> items_inv RELEASE_METRIC_DEPENDENCIES (ma_metrics a)"
    by (rule build_release_availability_keeps)
      (use churn_summary_ok flow_summaries_get(1) in auto)
  then show ?thesis by (auto simp: items_inv_def release_metric_names)
qed

subsection \<open>When the release confidence is available\<close>

definition confidence_inputs_known ::
  "(string \<times> metric_result) list \<Rightarrow> metric_summary \<Rightarrow> (string \<times> metric_summary) list \<Rightarrow> bool" where
  "confidence_inputs_known classification churn flow \<longleftrightarrow>
     mr_status (result_of classification ''open_blockers'') \<noteq> PARTIAL
     \<and> mr_status (result_of classification ''open_high_severity_bugs'') \<noteq> PARTIAL
     \<and> ms_status churn \<noteq> PARTIAL \<and> (\<forall>r \<in> snd ` set flow. ms_status r = COMPUTED)"

lemma put_not_Nil: "put k v m \<noteq> []"
  unfolding put_def by (cases m) (auto split: if_splits)

lemma fold_put_not_Nil: "m \<noteq> [] \<Longrightarrow> fold (\<lambda>(name, r). put name r) fs m \<noteq> []"
  by (induction fs arbitrary: m) (simp_all add: put_not_Nil case_prod_unfold)

lemma fold_put_Nil: "fold (\<lambda>(name, r). put name r) fs d = [] \<longleftrightarrow> fs = [] \<and> d = []"
proof (cases fs)
  case (Cons p fs')
  have "fold (\<lambda>(name, r). put name r) fs' (put (fst p) (snd p) d) \<noteq> []"
    by (rule fold_put_not_Nil) (rule put_not_Nil)
  then show ?thesis by (simp add: Cons case_prod_unfold)
qed simp

lemma unavailable_results_Nil:
  "unavailable_results classification (Some churn) (Some flow) = [] \<longleftrightarrow> confidence_inputs_known classification churn flow"
proof -
  have f: "filter (\<lambda>(name, r). ms_status r \<noteq> COMPUTED) flow = [] \<longleftrightarrow> (\<forall>r \<in> snd ` set flow. ms_status r = COMPUTED)"
    by (auto simp: filter_empty_conv)
  show ?thesis unfolding unavailable_results_def Let_def fold_put_Nil confidence_inputs_known_def option.case f
    by (cases "mr_status (result_of classification ''open_blockers'') = PARTIAL";
        cases "mr_status (result_of classification ''open_high_severity_bugs'') = PARTIAL";
        cases "ms_status churn = PARTIAL") (simp_all add: put_not_Nil)
qed

lemma confidence_dependencies: "map_of RELEASE_METRIC_DEPENDENCIES ''confidence_score'' = Some [''ticket_count'', ''release_assignment'']"
  "map_of RELEASE_METRIC_DEPENDENCIES ''readiness_pct'' = Some [''ticket_count'', ''release_assignment'']"
  by code_simp+

lemma release_dependency_item:
  "dependency_item (release_context db rid fm) [''ticket_count'', ''release_assignment''] = Inr i \<Longrightarrow>
     ai_available i \<longleftrightarrow> release_issues db rid \<noteq> []"
  by (auto simp: dependency_item_def new_item_def dependency_available_def release_context_def Let_def
      and_then_Inr_iff split: if_splits)

lemma unavailable_confidence_item:
  assumes "apply_unavailable_confidence results items = Inr items'" and "results \<noteq> []"
  shows "\<exists>i. map_of items' ''confidence_score'' = Some i \<and> \<not> ai_available i"
proof -
  have fr: "frame ''confidence_score'' (if rd then Inr else fold_ok (\<lambda>name. release_item name st e ms)
      [''gates_passed_count'', ''readiness_pct''])" for rd st e ms
    by (cases rd) (auto intro!: frame_fold frame_release_item simp del: fold_ok.simps)
  show ?thesis
    using assms(1) unfolding apply_unavailable_confidence_def Let_def if_not_P [OF assms(2)] and_then_Inr_iff
    by (elim exE conjE) (drule release_item_get, drule frameD [OF fr], simp)
qed

lemma confidence_item:
  assumes "build_release_availability db rid fm (Some churn) (Some flow) = Inr a"
    and "map_of (ma_metrics a) ''confidence_score'' = Some i"
  shows "ai_available i \<longleftrightarrow> release_issues db rid \<noteq> []
    \<and> confidence_inputs_known (evaluate_classification_metrics fm (release_issues db rid)) churn flow"
proof -
  let ?cl = "evaluate_classification_metrics fm (release_issues db rid)"
  let ?c = "release_context db rid fm"
  obtain i1 i2 i3 where items: "build_metric_availability_items ?c RELEASE_METRIC_DEPENDENCIES ?cl = Inr i1"
    "apply_scope_churn_availability churn i1 = Inr i2" "apply_flow_metric_availability flow i2 = Inr i3"
    "apply_unavailable_confidence (unavailable_results ?cl (Some churn) (Some flow)) i3 = Inr (ma_metrics a)"
    using assms(1) by (auto simp: build_release_availability_def Let_def and_then_Inr_iff)
  have "''confidence_score'' \<notin> fst ` set ?cl" using classification_ok by force
  from build_items_get [OF items(1) release_table.distinct_metrics confidence_dependencies(1) this]
  obtain d where d: "dependency_item ?c [''ticket_count'', ''release_assignment''] = Inr d"
    "map_of i1 ''confidence_score'' = Some d" by blast
  have "map_of i3 ''confidence_score'' = Some d"
    using frameD [OF frame_churn items(2)] frameD [OF frame_flow items(3)] d(2) by simp
  then show ?thesis
    using items(4) assms(2) release_dependency_item [OF d(1)] unavailable_results_Nil [of ?cl churn flow]
      unavailable_confidence_item [OF items(4)]
    by (cases "confidence_inputs_known ?cl churn flow") (auto simp: apply_unavailable_confidence_def)
qed

subsection \<open>Sprint availability\<close>

lemma sprint_names: "{''open_blockers'', ''open_high_severity_bugs'', ''committed_scope'', ''completed_scope_pct'',
    ''in_progress_count'', ''not_started_count'', ''rollover_count'', ''scope_creep_pct'', ''median_cycle_time_days'',
    ''reopen_rate_pct'', ''workload_concentration_pct'', ''delivery_confidence_score''}
  \<subseteq> fst ` set SPRINT_METRIC_DEPENDENCIES"
  unfolding list.set_map [symmetric] sprint_metric_names by code_simp

lemma keeps_sprint_item:
  assumes "name \<in> fst ` set SPRINT_METRIC_DEPENDENCIES" and "status \<noteq> STATUS_INCONCLUSIVE"
    and "status = COMPUTED \<longrightarrow> available" and "available \<or> (explained es \<and> reason = Some (hd es))"
  shows "keeps SPRINT_METRIC_DEPENDENCIES (sprint_item name status available reason es missing)"
proof -
  obtain ds where "map_of SPRINT_METRIC_DEPENDENCIES name = Some ds"
    using assms(1) by (metis domIff dom_map_of_conv_image_fst not_None_eq)
  then have "sprint_item name status available reason es missing
      = set_item name (new_item status available reason es missing ds)"
    by (auto simp: sprint_item_def lookup_def)
  then show ?thesis
    using keeps_set_item [OF assms(1), of "new_item status available reason es missing ds"] assms(2-4)
    by (simp add: new_item_def item_ok_def)
qed

lemma scope_metrics_ok:
  "\<exists>r. map_of (evaluate_sprint_scope_metrics db sid fm) ''committed_scope'' = Some r \<and> result_ok r"
  "\<exists>r. map_of (evaluate_sprint_scope_metrics db sid fm) ''completed_scope_pct'' = Some r \<and> result_ok r"
proof -
  show "\<exists>r. map_of (evaluate_sprint_scope_metrics db sid fm) ''committed_scope'' = Some r \<and> result_ok r"
    by (simp add: evaluate_sprint_scope_metrics_def Let_def result_ok_def UNAVAILABLE_REASON_NO_TICKETS_def)
  have "result_ok (result_of (evaluate_classification_metrics fm xs) ''scope_completed_pct'')" for xs
    using classification_results_ok by (simp add: result_of_def evaluate_classification_metrics_def)
  then show "\<exists>r. map_of (evaluate_sprint_scope_metrics db sid fm) ''completed_scope_pct'' = Some r \<and> result_ok r"
    by (simp add: evaluate_sprint_scope_metrics_def Let_def result_ok_def)
qed

lemma count_result_ok: "result_ok (count_result keys missing label matching)"
  by (simp add: count_result_def result_ok_def no_tickets_result_def partial_if_ok UNAVAILABLE_REASON_NO_TICKETS_def)

lemma rollover_result_ok: "result_ok (rollover_result state keys missing unfinished)"
  by (simp add: rollover_result_def Let_def result_ok_def no_tickets_result_def partial_if_ok
      UNAVAILABLE_REASON_NO_TICKETS_def)

lemma work_state_ok:
  assumes "evaluate_sprint_work_state_metrics db sid fm = Inr ws"
    and "name \<in> {''in_progress_count'', ''not_started_count'', ''rollover_count''}"
  shows "\<exists>r. map_of ws name = Some r \<and> result_ok r"
  using assms count_result_ok rollover_result_ok
  by (auto simp: evaluate_sprint_work_state_metrics_def Let_def split: option.splits)

lemma workload_summary_ok:
  "ms_status (workload_summary (compute_workload_distribution db fm sid)) = COMPUTED
   \<or> ms_status (workload_summary (compute_workload_distribution db fm sid)) = PARTIAL
   \<or> explained (ms_explanations (workload_summary (compute_workload_distribution db fm sid)))"
  by (simp add: workload_summary_def compute_workload_distribution_def workload_of_issues_def
      distribute_workload_def Let_def workload_inconclusive_explanations_def)

text \<open>A list of explanations that is empty or starts with a text.\<close>

definition neat :: "string list \<Rightarrow> bool" where
  "neat es \<longleftrightarrow> es = [] \<or> explained es"

lemma neat_append: "neat xs \<Longrightarrow> neat ys \<Longrightarrow> neat (xs @ ys)"
  by (auto simp: neat_def explained_append) (auto simp: explained_def)

lemma neat_keys: "text \<noteq> [] \<Longrightarrow> neat (keys_explanation text keys)"
  by (simp add: neat_def keys_explanation_def)

lemma neat_duration: "neat (case duration_reason a b of None \<Rightarrow> [] | Some r \<Rightarrow> [r])"
  by (auto simp: neat_def duration_reason_def split: option.splits)

lemma neat_creep: "neat (creep_explanations p creep)" and neat_low: "neat (low_coverage_explanations c)"
  by (simp_all add: neat_def creep_explanations_def low_coverage_explanations_def)

lemma prerequisites_neat:
  assumes "evaluate_sprint_delivery_confidence_prerequisites db sid fm cl = Inr p"
  shows "neat (dp_explanations p)" and "dp_available p \<longleftrightarrow> dp_explanations p = []"
proof -
  obtain s where s: "find_sprint db sid = Some s"
    using assms by (auto simp: evaluate_sprint_delivery_confidence_prerequisites_def split: option.splits)
  show "neat (dp_explanations p)"
    using assms unfolding evaluate_sprint_delivery_confidence_prerequisites_def s option.case Let_def sum.inject
    by (elim subst) (simp only: delivery_prerequisites.select_convs, intro neat_append neat_keys neat_duration,
        simp_all)
  show "dp_available p \<longleftrightarrow> dp_explanations p = []"
    by (rule prerequisites_time(1) [OF assms s])
qed

lemma inconclusive_explained:
  assumes "compute_delivery_confidence db s t fm n p creep = Inr r" and "dc_status r = STATUS_INCONCLUSIVE"
    and "neat (dp_explanations p)" and "dp_available p \<longleftrightarrow> dp_explanations p = []"
  shows "explained (dc_explanations r)"
proof -
  have s: "dc_status (score_delivery_confidence db fm n p creep xs bl e v) \<noteq> STATUS_INCONCLUSIVE" for xs bl e v
    unfolding score_parts(1) by (simp add: coverage_status_def)
  let ?low = "low_coverage_explanations (story_point_coverage_of (list_sprint_issues db (sprint_id s)))"
  have e: "dc_explanations r = ?low @ dp_explanations p @ creep_explanations p creep"
    "?low \<noteq> [] \<or> \<not> dp_available p \<or> creep_explanations p creep \<noteq> []"
    using assms(1,2) s unfolding compute_delivery_confidence_def Let_def
    by (auto simp: no_confidence_def split: if_splits option.splits)
  have "neat (dc_explanations r)" unfolding e(1) by (intro neat_append neat_low neat_creep assms(3))
  then show ?thesis using e assms(4) by (auto simp: neat_def)
qed

lemma keeps_creep: "summary_ok r \<Longrightarrow> keeps SPRINT_METRIC_DEPENDENCIES (apply_scope_creep_availability r)"
  unfolding apply_scope_creep_availability_def
  by (rule keeps_sprint_item)
    (use sprint_names in \<open>auto simp: summary_ok_def reason_unless_def first_explanation_explained\<close>)

lemma keeps_workload:
  assumes "ms_status r = COMPUTED \<or> ms_status r = PARTIAL \<or> explained (ms_explanations r)"
  shows "keeps SPRINT_METRIC_DEPENDENCIES (apply_workload_distribution_availability r)"
  unfolding apply_workload_distribution_availability_def Let_def
  by (rule keeps_sprint_item)
    (use sprint_names assms in \<open>auto simp: reason_unless_def first_explanation_explained\<close>)

lemma keeps_prerequisites:
  assumes "\<not> dp_available p \<longrightarrow> explained (dp_explanations p)"
  shows "keeps SPRINT_METRIC_DEPENDENCIES (apply_delivery_confidence_prerequisite_availability p)"
proof (cases "dp_available p")
  case False
  have "keeps SPRINT_METRIC_DEPENDENCIES (sprint_item ''delivery_confidence_score'' NOT_COMPUTED False
      (first_explanation (dp_explanations p)) (dp_explanations p) (sort (dp_missing_issue_keys p)))"
    by (rule keeps_sprint_item) (use sprint_names assms False in \<open>auto simp: first_explanation_explained\<close>)
  then show ?thesis using False
    by (simp add: keeps_def apply_delivery_confidence_prerequisite_availability_def)
qed (simp add: keeps_def apply_delivery_confidence_prerequisite_availability_def)

lemma keeps_confidence_result:
  assumes "dc_status r = STATUS_INCONCLUSIVE \<longrightarrow> explained (dc_explanations r)"
  shows "keeps SPRINT_METRIC_DEPENDENCIES (apply_delivery_confidence_result_availability r creep)"
proof (cases "dc_status r = STATUS_INCONCLUSIVE")
  case True
  then have e: "explained (dc_explanations r)" using assms by blast
  have k: "keeps SPRINT_METRIC_DEPENDENCIES (sprint_item ''delivery_confidence_score'' NOT_COMPUTED False
      (first_explanation (dc_explanations r)) (dc_explanations r) ms)" for ms
    by (rule keeps_sprint_item) (use sprint_names e in \<open>simp_all add: first_explanation_explained\<close>)
  show ?thesis unfolding keeps_def
  proof (intro allI impI)
    fix items assume i: "items_inv SPRINT_METRIC_DEPENDENCIES items"
    then have "fst ` set items = fst ` set SPRINT_METRIC_DEPENDENCIES" by (metis items_inv_def list.set_map)
    then have "''delivery_confidence_score'' \<in> fst ` set items" using sprint_names by simp
    then obtain old where "lookup items ''delivery_confidence_score'' = Inr old"
      unfolding lookup_def by (metis domIff dom_map_of_conv_image_fst option.case_eq_if)
    then show "\<exists>items'. apply_delivery_confidence_result_availability r creep items = Inr items'
        \<and> items_inv SPRINT_METRIC_DEPENDENCIES items'"
      unfolding apply_delivery_confidence_result_availability_def using True keepsD [OF k i]
      by (simp only: simp_thms if_False and_then_simps)
  qed
qed (simp add: keeps_def apply_delivery_confidence_result_availability_def)

text \<open>The results of one recomputation of a sprint, as availability receives them.\<close>

definition own_results ::
  "store \<Rightarrow> sprint \<Rightarrow> py_datetime \<Rightarrow> field_mapping \<Rightarrow> (string \<times> metric_result) list
     \<Rightarrow> delivery_confidence_result \<Rightarrow> sprint_results" where
  "own_results db s t fm work_state r =
     \<lparr>sr_flow = Some (flow_summaries (evaluate_sprint_flow_metrics db (sprint_id s) fm)),
      sr_scope = Some (evaluate_sprint_scope_metrics db (sprint_id s) fm), sr_work_state = Some work_state,
      sr_scope_creep = Some (creep_summary (compute_sprint_scope_creep db fm s t)),
      sr_delivery_confidence = Some r,
      sr_workload = Some (workload_summary (compute_workload_distribution db fm (sprint_id s)))\<rparr>"

lemma or_compute_ok: "rs \<noteq> [] \<Longrightarrow> or_compute (Some rs) fresh = Inr rs"
  by (cases rs) (simp_all add: or_compute_def)

lemma sprint_classification_ok:
  assumes "(name, r) \<in> set (map (\<lambda>name. (name, result_of (evaluate_classification_metrics fm xs) name))
      [''open_blockers'', ''open_high_severity_bugs''])"
  shows "name \<in> fst ` set SPRINT_METRIC_DEPENDENCIES \<and> result_ok r"
proof -
  have "result_ok (result_of (evaluate_classification_metrics fm xs) ''open_blockers'')"
    "result_ok (result_of (evaluate_classification_metrics fm xs) ''open_high_severity_bugs'')"
    using classification_results_ok by (simp_all add: result_of_def evaluate_classification_metrics_def)
  then show ?thesis using assms sprint_names by auto
qed

lemma keeps_own_results:
  assumes "find_sprint db sid = Some s" and "evaluate_sprint_work_state_metrics db sid fm = Inr ws"
    and "evaluate_sprint_delivery_confidence_prerequisites db sid fm cl = Inr p"
    and "compute_delivery_confidence db s t fm n p creep = Inr r"
  shows "keeps SPRINT_METRIC_DEPENDENCIES (apply_sprint_scope_metric_availability (evaluate_sprint_scope_metrics db sid fm))"
    and "keeps SPRINT_METRIC_DEPENDENCIES (apply_sprint_work_state_metric_availability ws)"
    and "keeps SPRINT_METRIC_DEPENDENCIES (apply_scope_creep_availability (creep_summary (compute_sprint_scope_creep db fm s t)))"
    and "keeps SPRINT_METRIC_DEPENDENCIES (apply_flow_metric_availability (flow_summaries (evaluate_sprint_flow_metrics db sid fm)))"
    and "keeps SPRINT_METRIC_DEPENDENCIES (apply_workload_distribution_availability (workload_summary (compute_workload_distribution db fm sid)))"
    and "keeps SPRINT_METRIC_DEPENDENCIES (apply_delivery_confidence_prerequisite_availability p)"
    and "keeps SPRINT_METRIC_DEPENDENCIES (apply_delivery_confidence_result_availability r c)"
proof -
  show "keeps SPRINT_METRIC_DEPENDENCIES (apply_sprint_scope_metric_availability (evaluate_sprint_scope_metrics db sid fm))"
    unfolding apply_sprint_scope_metric_availability_def
    by (rule sprint_table.keeps_results) (use sprint_names scope_metrics_ok in auto)
  show "keeps SPRINT_METRIC_DEPENDENCIES (apply_sprint_work_state_metric_availability ws)"
    unfolding apply_sprint_work_state_metric_availability_def
    by (rule sprint_table.keeps_results) (use sprint_names work_state_ok [OF assms(2)] in auto)
  show "keeps SPRINT_METRIC_DEPENDENCIES (apply_scope_creep_availability (creep_summary (compute_sprint_scope_creep db fm s t)))"
    by (rule keeps_creep) (rule creep_summary_ok)
  show "keeps SPRINT_METRIC_DEPENDENCIES (apply_flow_metric_availability (flow_summaries (evaluate_sprint_flow_metrics db sid fm)))"
    by (rule sprint_table.keeps_flow) (use sprint_names flow_summaries_get(2) in auto)
  show "keeps SPRINT_METRIC_DEPENDENCIES (apply_workload_distribution_availability (workload_summary (compute_workload_distribution db fm sid)))"
    by (rule keeps_workload) (rule workload_summary_ok)
  note p = prerequisites_neat [OF assms(3)]
  show "keeps SPRINT_METRIC_DEPENDENCIES (apply_delivery_confidence_prerequisite_availability p)"
    by (rule keeps_prerequisites) (use p in \<open>auto simp: neat_def\<close>)
  show "keeps SPRINT_METRIC_DEPENDENCIES (apply_delivery_confidence_result_availability r c)"
    by (rule keeps_confidence_result) (use inconclusive_explained [OF assms(4) _ p] in blast)
qed

lemma confidence_prerequisites:
  assumes "compute_delivery_confidence db s t fm n p creep = Inr r"
  shows "dc_prerequisites r = p"
proof -
  have "dc_prerequisites (score_delivery_confidence db fm n p creep xs bl e v) = p" for xs bl e v
    by (simp add: score_delivery_confidence_def Let_def)
  then show ?thesis using assms unfolding compute_delivery_confidence_cases
    by (auto simp: no_confidence_def split: if_splits option.splits)
qed

lemma release_availability_total_witness:
  "\<exists>a. build_release_availability baseline_store ''R1'' default_mapping
        (Some (churn_summary (compute_release_scope_churn_7d baseline_store ''R1'' ''LHP'' ''1.0'' default_mapping sample_now)))
        (Some (flow_summaries (evaluate_release_flow_metrics baseline_store ''R1'' default_mapping))) = Inr a
     \<and> map fst (ma_metrics a) = map md_api_field release_metrics"
  using release_availability_total [of baseline_store "''R1''" default_mapping "''LHP''" "''1.0''" sample_now] by blast

lemma own_availability:
  assumes "find_sprint db sid = Some s" and "evaluate_sprint_work_state_metrics db sid fm = Inr ws"
    and "evaluate_sprint_delivery_confidence_prerequisites db sid fm cl = Inr p"
    and "compute_delivery_confidence db s t fm n p (compute_sprint_scope_creep db fm s t) = Inr r"
  shows "\<exists>a. build_sprint_availability db sid fm (own_results db s t fm ws r) = Inr a
    \<and> map fst (ma_metrics a) = map md_api_field sprint_metrics
    \<and> (\<forall>i \<in> snd ` set (ma_metrics a). item_ok i)"
proof -
  let ?D = SPRINT_METRIC_DEPENDENCIES
  have sid: "sprint_id s = sid" using assms(1) by (auto simp: find_sprint_def find_Some_iff)
  note k = keeps_own_results [OF assms]
  have sc: "evaluate_sprint_scope_metrics db sid fm \<noteq> []" using scope_metrics_ok(1) [of db sid fm] by force
  have ws: "ws \<noteq> []" using work_state_ok [OF assms(2), of "''rollover_count''"] by force
  let ?shown = "map (\<lambda>name. (name, result_of (evaluate_classification_metrics fm (list_sprint_issues db sid)) name))
      [''open_blockers'', ''open_high_severity_bugs'']"
  obtain items where i: "build_metric_availability_items (sprint_context db sid fm) ?D ?shown = Inr items"
    "items_inv ?D items"
    using sprint_table.build_items [of ?shown] sprint_classification_ok by blast
  let ?b = "has_story_points (sprint_context db sid fm)"
  have kp: "keeps ?D (\<lambda>items. if ?b then apply_delivery_confidence_prerequisite_availability p items else Inr items)"
    using k(6) by (simp add: keeps_def)
  have kr: "keeps ?D (\<lambda>items. if ?b then apply_delivery_confidence_result_availability r
      (Some (creep_summary (compute_sprint_scope_creep db fm s t))) items else Inr items)"
    using k(7) by (simp add: keeps_def)
  have "keeps ?D (\<lambda>items.
      and_then (apply_sprint_scope_metric_availability (evaluate_sprint_scope_metrics db sid fm) items) (\<lambda>items.
      and_then (apply_sprint_work_state_metric_availability ws items) (\<lambda>items.
      and_then (apply_scope_creep_availability (creep_summary (compute_sprint_scope_creep db fm s t)) items) (\<lambda>items.
      and_then (apply_flow_metric_availability (flow_summaries (evaluate_sprint_flow_metrics db sid fm)) items) (\<lambda>items.
      and_then (apply_workload_distribution_availability (workload_summary (compute_workload_distribution db fm sid)) items) (\<lambda>items.
      and_then (if ?b then apply_delivery_confidence_prerequisite_availability p items else Inr items) (\<lambda>items.
        if ?b then apply_delivery_confidence_result_availability r
          (Some (creep_summary (compute_sprint_scope_creep db fm s t))) items else Inr items)))))))"
    by (intro keeps_and_then k(1-5) kp kr)
  from keepsD [OF this i(2)] obtain items' where i': "items_inv ?D items'"
    "build_sprint_availability db sid fm (own_results db s t fm ws r) = Inr \<lparr>ma_context = sprint_context db sid fm, ma_metrics = items'\<rparr>"
    unfolding build_sprint_availability_def Let_def own_results_def sprint_results.select_convs sid
      or_compute_ok [OF sc] or_compute_ok [OF ws] if_given_def option.case i(1) confidence_prerequisites [OF assms(4)]
    by (auto simp: and_then_Inr_iff)
  then show ?thesis by (auto simp: items_inv_def sprint_metric_names)
qed

text \<open>On the results of a recomputation of a stored sprint, availability raises nothing and has one item
  for each metric of the sprint catalog, in catalog order; a computed metric is available, and a metric
  that is not available gives its first explanation as its reason.\<close>

theorem sprint_availability_total:
  assumes "find_sprint db sid = Some s" and "evaluate_sprint_work_state_metrics db sid fm = Inr ws"
    and "evaluate_sprint_delivery_confidence_prerequisites db sid fm cl = Inr p"
    and "compute_delivery_confidence db s t fm n p (compute_sprint_scope_creep db fm s t) = Inr r"
  shows "\<exists>a. build_sprint_availability db sid fm (own_results db s t fm ws r) = Inr a
    \<and> map fst (ma_metrics a) = map md_api_field sprint_metrics
    \<and> (\<forall>i \<in> snd ` set (ma_metrics a). item_ok i)"
  by (rule own_availability [OF assms])

lemma own_confidence_Inr:
  assumes "find_sprint db sid = Some s"
    and "evaluate_sprint_delivery_confidence_prerequisites db sid fm cl = Inr p"
  shows "\<exists>r. compute_delivery_confidence db s t fm n p (compute_sprint_scope_creep db fm s t) = Inr r"
proof -
  have "cp_value (compute_sprint_scope_creep db fm s t) \<noteq> None
      \<longleftrightarrow> cp_status (compute_sprint_scope_creep db fm s t) = COMPUTED" using scope_creep.value_iff by blast
  then show ?thesis unfolding compute_delivery_confidence_cases using prerequisites_time(2) [OF assms(2,1), of t]
    by (auto split: option.splits)
qed

lemma sprint_availability_total_witness:
  "\<exists>ws r a. evaluate_sprint_work_state_metrics baseline_store ''7'' default_mapping = Inr ws
    \<and> build_sprint_availability baseline_store ''7'' default_mapping
        (own_results baseline_store sample_sprint sample_now default_mapping ws r) = Inr a
    \<and> map fst (ma_metrics a) = map md_api_field sprint_metrics"
proof -
  have f: "find_sprint baseline_store ''7'' = Some sample_sprint" by code_simp
  obtain ws where ws: "evaluate_sprint_work_state_metrics baseline_store ''7'' default_mapping = Inr ws"
    unfolding evaluate_sprint_work_state_metrics_def f option.case Let_def by blast
  obtain p where p: "evaluate_sprint_delivery_confidence_prerequisites baseline_store ''7'' default_mapping None = Inr p"
    unfolding evaluate_sprint_delivery_confidence_prerequisites_def f option.case Let_def by blast
  obtain r where r: "compute_delivery_confidence baseline_store sample_sprint sample_now default_mapping 0 p
      (compute_sprint_scope_creep baseline_store default_mapping sample_sprint sample_now) = Inr r"
    using own_confidence_Inr [OF f p] by blast
  show ?thesis using ws sprint_availability_total [OF f ws p r] by blast
qed

end
