(* ===== verification/ConfidenceBreakdown.thy ===== *)
theory ConfidenceBreakdown
  imports Signals DeliveryConfidence Results
begin

text \<open>
  services/confidence_breakdown_service.py: the four components of a release confidence score with
  their explanations, and the components of a sprint score. A comparison of \<open>None\<close> with a number is the
  \<open>TypeError\<close> of Python, the value \<open>Inl None_Compared\<close>.
\<close>

datatype comparison_error = None_Compared

datatype ratio_status = Good | Warning_Status | Critical_Status

record breakdown_component =
  bc_id :: string
  bc_name :: string
  bc_score :: pyfloat
  bc_max_score :: pyfloat
  bc_status :: ratio_status
  bc_explanation :: string

record confidence_breakdown =
  cb_total_score :: pyfloat
  cb_components :: "breakdown_component list"

definition status_for_ratio :: "pyfloat \<Rightarrow> pyfloat \<Rightarrow> ratio_status" where
  "status_for_ratio score max_score =
    (let ratio = (if max_score = 0 then 0 else fdiv score max_score)
     in if ratio \<ge> fl (9 / 10) then Good else if ratio \<ge> fl (75 / 100) then Warning_Status else Critical_Status)"

definition release_component :: "string \<Rightarrow> string \<Rightarrow> pyfloat \<Rightarrow> pyfloat \<Rightarrow> string \<Rightarrow> breakdown_component" where
  "release_component cid name score max_score explanation =
    (let bounded = py_round 1 (max 0 (min score max_score))
     in \<lparr>bc_id = cid, bc_name = name, bc_score = bounded, bc_max_score = max_score,
         bc_status = status_for_ratio bounded max_score, bc_explanation = explanation\<rparr>)"

definition RELEASE_COMPONENT_MAX :: "(string \<times> pyfloat) list" where
  "RELEASE_COMPONENT_MAX = [(''delivery'', 30), (''quality'', 30), (''flow'', 20), (''risk'', 20)]"

definition component_max :: "string \<Rightarrow> pyfloat" where
  "component_max cid = the (map_of RELEASE_COMPONENT_MAX cid)"

definition gt_number :: "pyfloat option \<Rightarrow> pyfloat \<Rightarrow> comparison_error + bool" where
  "gt_number v t = (case v of None \<Rightarrow> Inl None_Compared | Some x \<Rightarrow> Inr (x > t))"

definition threshold_text :: "string \<Rightarrow> pyfloat option \<Rightarrow> pyfloat \<Rightarrow> string" where
  "threshold_text prefix v t =
     prefix @ '' ('' @ format_fixed 1 (the v) @ ''% > '' @ format_fixed 1 t @ ''%).''"

definition release_delivery_explanation :: "release_inputs \<Rightarrow> comparison_error + string" where
  "release_delivery_explanation r =
    (let blocked = int_above (open_blockers r) OPEN_BLOCKERS_RED_THRESHOLD; churn = scope_churn_7d_pct r
     in and_then (if blocked then gt_number churn scope_churn_red_pct else Inr False) (\<lambda>both.
        if both
        then Inr ''Open blockers and Scope churn above the red threshold are reducing delivery confidence.''
        else if blocked
        then Inr ''Open blockers reduce delivery confidence because blocked work can delay release completion.''
        else and_then (gt_number churn scope_churn_red_pct) (\<lambda>red.
          if red then Inr (threshold_text ''Scope churn is above the red threshold'' churn scope_churn_red_pct)
          else and_then (gt_number churn scope_churn_yellow_pct) (\<lambda>yellow.
            Inr (if yellow
              then threshold_text ''Scope churn is above the warning threshold'' churn scope_churn_yellow_pct
              else ''Scope churn and blocker impact are within delivery confidence thresholds.'')))))"

definition release_quality_explanation :: "release_inputs \<Rightarrow> comparison_error + string" where
  "release_quality_explanation r =
    (let bugs = open_high_severity_bugs r; rate = reopen_rate_pct r
     in if int_above bugs HIGH_SEVERITY_BUGS_RED_THRESHOLD
        then Inr (int_str bugs @ '' open high-severity bugs exceed the red quality threshold.'')
        else if int_above bugs HIGH_SEVERITY_BUGS_YELLOW_THRESHOLD
        then Inr (int_str bugs @ '' open high-severity bug is reducing quality confidence.'')
        else and_then (gt_number rate reopen_rate_red_pct) (\<lambda>red.
          if red
          then Inr (threshold_text ''Reopen events per 100 eligible tickets are above the red threshold''
            rate reopen_rate_red_pct)
          else and_then (gt_number rate reopen_rate_yellow_pct) (\<lambda>yellow.
            Inr (if yellow
              then threshold_text ''Reopen events per 100 eligible tickets are above the warning threshold''
                rate reopen_rate_yellow_pct
              else ''High-severity bugs and reopen events per 100 eligible tickets are within quality ''
                @ ''confidence thresholds.''))))"

definition release_flow_explanation :: "release_inputs \<Rightarrow> string" where
  "release_flow_explanation r =
    (case median_cycle_time_days r of
       None \<Rightarrow> ''Cycle time has no completed-work baseline yet, so flow confidence is not penalized.''
     | Some days \<Rightarrow>
         (if days > CYCLE_TIME_YELLOW_THRESHOLD_DAYS
          then ''Median cycle time is above the warning threshold ('' @ format_fixed 1 days @ ''d > ''
            @ format_fixed 1 CYCLE_TIME_YELLOW_THRESHOLD_DAYS @ ''d).''
          else ''Median cycle time is within the flow confidence threshold.''))"

definition release_risk_explanation :: "release_inputs \<Rightarrow> string" where
  "release_risk_explanation r =
    (if int_above (open_blockers r) OPEN_BLOCKERS_RED_THRESHOLD
     then int_str (open_blockers r) @ '' open blocker ''
       @ (if open_blockers r = 1 then ''issue is'' else ''issues are'')
       @ '' consuming release risk capacity.''
     else ''No open blockers are consuming release risk capacity.'')"

definition points_of :: "release_inputs \<Rightarrow> string \<Rightarrow> pyfloat" where
  "points_of r name = (case map_of (compute_release_risk_points r) name of None \<Rightarrow> 0 | Some p \<Rightarrow> p)"

definition penalty :: "release_inputs \<Rightarrow> string \<Rightarrow> pyfloat" where
  "penalty r cid =
    (let blockers = points_of r ''open_blockers''
     in if cid = ''delivery'' then fadd (points_of r ''scope_churn_7d_pct'') (max 0 (fsub blockers 20))
        else if cid = ''quality''
        then fadd (points_of r ''open_high_severity_bugs'') (points_of r ''reopen_rate_pct'')
        else if cid = ''flow'' then points_of r ''median_cycle_time_days''
        else min blockers 20)"

definition scored_component :: "release_inputs \<Rightarrow> string \<Rightarrow> string \<Rightarrow> string \<Rightarrow> breakdown_component" where
  "scored_component r cid name explanation =
     release_component cid name (fsub (component_max cid) (penalty r cid)) (component_max cid) explanation"

definition build_release_breakdown :: "release_inputs \<Rightarrow> comparison_error + confidence_breakdown" where
  "build_release_breakdown r =
     and_then (release_delivery_explanation r) (\<lambda>delivery.
     and_then (release_quality_explanation r) (\<lambda>quality.
       let components =
         [scored_component r ''delivery'' ''Delivery'' delivery,
          scored_component r ''quality'' ''Quality'' quality,
          scored_component r ''flow'' ''Flow'' (release_flow_explanation r),
          scored_component r ''risk'' ''Risk'' (release_risk_explanation r)]
       in Inr \<lparr>cb_total_score = py_round 1 (fsum (map bc_score components)), cb_components = components\<rparr>))"

subsection \<open>Sprint breakdown\<close>

definition sprint_progress_explanation :: "pyfloat \<Rightarrow> pyfloat option \<Rightarrow> pyfloat option \<Rightarrow> string" where
  "sprint_progress_explanation score elapsed completed =
    (case elapsed of
       None \<Rightarrow> ''Sprint progress has no elapsed-time baseline, so progress alignment uses completed scope.''
     | Some e \<Rightarrow>
        (case completed of
           None \<Rightarrow> ''Sprint progress has an elapsed-time baseline but no completed-scope value.''
         | Some c \<Rightarrow>
             (if score \<ge> 90 then ''Completed scope is aligned with elapsed sprint time (''
              else ''Completed scope is behind elapsed sprint time ('')
             @ format_fixed 1 c @ ''% done vs '' @ format_fixed 1 e @ ''% elapsed).''))"

definition sprint_velocity_explanation :: "pyfloat \<Rightarrow> pyfloat option \<Rightarrow> string" where
  "sprint_velocity_explanation score velocity =
    (if velocity = None
     then ''No closed-sprint velocity baseline is available, so velocity fit is scored conservatively.''
     else if score \<ge> 90 then ''Remaining work fits within the historical velocity baseline.''
     else ''Remaining work is high relative to the historical velocity baseline.'')"

definition sprint_scope_explanation :: "pyfloat \<Rightarrow> int \<Rightarrow> string" where
  "sprint_scope_explanation score changes =
    (if changes = 0 then ''No post-start sprint scope changes were detected.''
     else if score \<ge> 75
     then int_str changes @ '' post-start scope changes were detected, within stability thresholds.''
     else int_str changes @ '' post-start scope changes are reducing scope stability.'')"

definition sprint_blocker_explanation :: "pyfloat \<Rightarrow> pyfloat \<Rightarrow> string" where
  "sprint_blocker_explanation score ratio =
    (if ratio = 0 then ''No open blockers are affecting sprint blocker health.''
     else ''Open blockers affect '' @ format_fixed 1 (fmul ratio 100) @ ''% of committed sprint issues''
       @ (if score \<ge> 75 then ''.'' else '' and reduce confidence.''))"

definition sprint_breakdown_component :: "string \<Rightarrow> string \<Rightarrow> pyfloat \<Rightarrow> string \<Rightarrow> breakdown_component" where
  "sprint_breakdown_component cid name score explanation =
     \<lparr>bc_id = cid, bc_name = name, bc_score = py_round 2 score, bc_max_score = 100,
      bc_status = status_for_ratio score 100, bc_explanation = explanation\<rparr>"

definition build_sprint_breakdown ::
  "pyfloat \<Rightarrow> confidence_components \<Rightarrow> confidence_inputs option \<Rightarrow> confidence_breakdown" where
  "build_sprint_breakdown score c inputs =
     \<lparr>cb_total_score = py_round 2 score,
      cb_components =
       [sprint_breakdown_component ''progress_alignment'' ''Progress Alignment'' (cc_progress_alignment c)
          (sprint_progress_explanation (cc_progress_alignment c)
            (map_option ci_time_elapsed_pct inputs) (map_option ci_completed_scope_pct inputs)),
        sprint_breakdown_component ''velocity_fit'' ''Velocity Fit'' (cc_velocity_fit c)
          (sprint_velocity_explanation (cc_velocity_fit c) (Option.bind inputs ci_historical_velocity)),
        sprint_breakdown_component ''scope_stability'' ''Scope Stability'' (cc_scope_stability c)
          (sprint_scope_explanation (cc_scope_stability c)
            (case inputs of None \<Rightarrow> 0 | Some i \<Rightarrow> ci_scope_change_count i)),
        sprint_breakdown_component ''blocker_health'' ''Blocker Health'' (cc_blocker_penalty c)
          (sprint_blocker_explanation (cc_blocker_penalty c)
            (case inputs of None \<Rightarrow> 0 | Some i \<Rightarrow> ci_blocked_issue_ratio i))]\<rparr>"

subsection \<open>The release breakdown adds up to the score\<close>

text \<open>The risk points of a metric as an integer.\<close>

definition int_points_of :: "release_inputs \<Rightarrow> string \<Rightarrow> int" where
  "int_points_of r name =
    (if name = ''open_blockers'' then (if open_blockers r > 0 then 28 else 0)
     else if name = ''open_high_severity_bugs''
     then (if open_high_severity_bugs r > 1 then 18 else if open_high_severity_bugs r > 0 then 9 else 0)
     else if name = ''scope_churn_7d_pct''
     then (if above (scope_churn_7d_pct r) 20 then 8 else if above (scope_churn_7d_pct r) 10 then 4 else 0)
     else if name = ''reopen_rate_pct''
     then (if above (reopen_rate_pct r) 15 then 6 else if above (reopen_rate_pct r) 10 then 3 else 0)
     else if above (median_cycle_time_days r) 7 then 4 else 0)"

lemma points_of_int:
  assumes "name \<in> {''open_blockers'', ''open_high_severity_bugs'', ''scope_churn_7d_pct'', ''reopen_rate_pct'',
    ''median_cycle_time_days''}"
  shows "points_of r name = of_int (int_points_of r name)"
  using assms by (auto simp: points_of_def compute_release_risk_points_def int_points_of_def signal_simps)

lemma sum_int_points:
  "sum_list (int_points r) = int_points_of r ''open_blockers'' + int_points_of r ''open_high_severity_bugs''
     + int_points_of r ''scope_churn_7d_pct'' + int_points_of r ''reopen_rate_pct''
     + int_points_of r ''median_cycle_time_days''"
  by (simp add: int_points.simps int_points_of_def)

lemma component_max: "component_max ''delivery'' = 30" "component_max ''quality'' = 30"
  "component_max ''flow'' = 20" "component_max ''risk'' = 20"
  by (simp_all add: component_max_def RELEASE_COMPONENT_MAX_def)

lemma int_points_range:
  "int_points_of r ''open_blockers'' = 0 \<or> int_points_of r ''open_blockers'' = 28"
  "0 \<le> int_points_of r ''open_high_severity_bugs'' \<and> int_points_of r ''open_high_severity_bugs'' \<le> 18"
  "0 \<le> int_points_of r ''scope_churn_7d_pct'' \<and> int_points_of r ''scope_churn_7d_pct'' \<le> 8"
  "0 \<le> int_points_of r ''reopen_rate_pct'' \<and> int_points_of r ''reopen_rate_pct'' \<le> 6"
  "0 \<le> int_points_of r ''median_cycle_time_days'' \<and> int_points_of r ''median_cycle_time_days'' \<le> 4"
  by (simp_all add: int_points_of_def)

definition bounded :: "pyfloat \<Rightarrow> pyfloat \<Rightarrow> pyfloat" where
  "bounded score m = py_round 1 (max 0 (min score m))"

lemma small_ints:
  assumes "0 \<le> a" "a \<le> 100" "0 \<le> b" "b \<le> 100"
  shows "fsub (of_int a) (of_int b) = of_int (a - b)" and "fadd (of_int a) (of_int b) = of_int (a + b)"
  using fsub_ints [of a b] fadd_ints [of a b] assms by simp_all

lemma bounded_int:
  assumes "0 \<le> k" and "k \<le> m" and "m \<le> 100"
  shows "bounded (of_int k) (of_int m) = of_int k"
proof -
  have "max 0 (min (of_int k) (of_int m)) = (of_int k :: rat)" using assms by (simp add: max_def min_def)
  then show ?thesis using py_round_int [of k 1] assms by (simp add: bounded_def)
qed

lemma bounded_component:
  assumes "0 \<le> p" and "p \<le> m" and "m \<le> 100"
  shows "bounded (fsub (of_int m) (of_int p)) (of_int m) = of_int (m - p)"
  unfolding small_ints(1) [OF order_trans [OF assms(1,2)] assms(3,1) order_trans [OF assms(2,3)]]
  by (rule bounded_int) (use assms in simp_all)

definition int_penalty :: "release_inputs \<Rightarrow> string \<Rightarrow> int" where
  "int_penalty r cid =
    (let b = int_points_of r ''open_blockers''
     in if cid = ''delivery'' then int_points_of r ''scope_churn_7d_pct'' + max 0 (b - 20)
        else if cid = ''quality''
        then int_points_of r ''open_high_severity_bugs'' + int_points_of r ''reopen_rate_pct''
        else if cid = ''flow'' then int_points_of r ''median_cycle_time_days'' else min b 20)"

lemma penalty_int:
  "penalty r ''delivery'' = of_int (int_penalty r ''delivery'')"
  "penalty r ''quality'' = of_int (int_penalty r ''quality'')"
  "penalty r ''flow'' = of_int (int_penalty r ''flow'')"
  "penalty r ''risk'' = of_int (int_penalty r ''risk'')"
proof -
  let ?b = "int_points_of r ''open_blockers''"
  have "max 0 (fsub (of_int ?b) (of_int 20)) = (of_int (max 0 (?b - 20)) :: rat)"
    using int_points_range(1) [of r] small_ints(1) [of ?b 20] by auto
  then have m: "max 0 (fsub (points_of r ''open_blockers'') 20) = (of_int (max 0 (?b - 20)) :: rat)"
    by (simp add: points_of_int del: of_int_max)
  have "0 \<le> max 0 (?b - 20)" "max 0 (?b - 20) \<le> 100" using int_points_range(1) [of r] by auto
  from small_ints(2) [OF _ _ this] show "penalty r ''delivery'' = of_int (int_penalty r ''delivery'')"
    unfolding penalty_def int_penalty_def Let_def m using int_points_range(3) [of r]
    by (simp add: points_of_int)
  show "penalty r ''quality'' = of_int (int_penalty r ''quality'')"
    using small_ints(2) [of "int_points_of r ''open_high_severity_bugs''" "int_points_of r ''reopen_rate_pct''"]
      int_points_range(2,4) [of r] by (simp add: penalty_def int_penalty_def points_of_int)
  show "penalty r ''flow'' = of_int (int_penalty r ''flow'')" "penalty r ''risk'' = of_int (int_penalty r ''risk'')"
    by (simp_all add: penalty_def int_penalty_def points_of_int of_int_min)
qed

definition int_max :: "string \<Rightarrow> int" where
  "int_max cid = (if cid = ''delivery'' \<or> cid = ''quality'' then 30 else 20)"

lemma int_penalty_range:
  assumes "cid \<in> {''delivery'', ''quality'', ''flow'', ''risk''}"
  shows "0 \<le> int_penalty r cid" and "int_penalty r cid \<le> int_max cid"
proof -
  consider "cid = ''delivery''" | "cid = ''quality''" | "cid = ''flow''" | "cid = ''risk''" using assms by blast
  then have "0 \<le> int_penalty r cid \<and> int_penalty r cid \<le> int_max cid"
    using int_points_range [of r] by cases (auto simp: int_penalty_def int_max_def Let_def)
  then show "0 \<le> int_penalty r cid" "int_penalty r cid \<le> int_max cid" by simp_all
qed

lemma component_max_int:
  "cid \<in> {''delivery'', ''quality'', ''flow'', ''risk''} \<Longrightarrow> component_max cid = of_int (int_max cid)"
  by (elim insertE emptyE) (simp_all add: component_max int_max_def)

lemma component_score:
  assumes "cid \<in> {''delivery'', ''quality'', ''flow'', ''risk''}"
  shows "bc_score (scored_component r cid name e) = of_int (int_max cid - int_penalty r cid)"
proof -
  have "bc_score (scored_component r cid name e) = bounded (fsub (component_max cid) (penalty r cid)) (component_max cid)"
    by (simp add: scored_component_def release_component_def bounded_def Let_def)
  moreover have "component_max cid = of_int (int_max cid)"
    by (rule component_max_int [OF assms])
  moreover have "penalty r cid = of_int (int_penalty r cid)"
    using assms by (elim insertE emptyE) (simp_all only: penalty_int)
  ultimately show ?thesis using bounded_component [OF int_penalty_range [OF assms, of r]]
    by (simp add: int_max_def)
qed

definition int_component :: "release_inputs \<Rightarrow> string \<Rightarrow> int" where
  "int_component r cid = int_max cid - int_penalty r cid"

lemma int_component_sum:
  "int_component r ''delivery'' + int_component r ''quality'' + int_component r ''flow'' + int_component r ''risk''
     = 100 - sum_list (int_points r)"
  unfolding sum_int_points by (simp add: int_component_def int_max_def int_penalty_def Let_def)

lemma int_component_range:
  "0 \<le> int_component r ''delivery'' \<and> int_component r ''delivery'' \<le> 30"
  "0 \<le> int_component r ''quality'' \<and> int_component r ''quality'' \<le> 30"
  "0 \<le> int_component r ''flow'' \<and> int_component r ''flow'' \<le> 20"
  "0 \<le> int_component r ''risk'' \<and> int_component r ''risk'' \<le> 20"
  using int_penalty_range [of "''delivery''" r] int_penalty_range [of "''quality''" r]
    int_penalty_range [of "''flow''" r] int_penalty_range [of "''risk''" r]
  by (simp_all add: int_component_def int_max_def)

lemma explanation_total:
  "(\<exists>e. release_delivery_explanation r = Inr e) \<longleftrightarrow> scope_churn_7d_pct r \<noteq> None"
  "(\<exists>e. release_quality_explanation r = Inr e) \<longleftrightarrow> reopen_rate_pct r \<noteq> None \<or> 0 < open_high_severity_bugs r"
  by (auto simp: release_delivery_explanation_def release_quality_explanation_def Let_def gt_number_def
      signal_simps split: option.splits)

lemma release_breakdown_facts:
  "((\<exists>b. build_release_breakdown r = Inr b)
      \<longleftrightarrow> scope_churn_7d_pct r \<noteq> None \<and> (reopen_rate_pct r \<noteq> None \<or> 0 < open_high_severity_bugs r))
   \<and> (\<forall>b. build_release_breakdown r = Inr b \<longrightarrow>
        cb_total_score b = compute_release_confidence_score r
        \<and> (\<forall>c \<in> set (cb_components b). 0 \<le> bc_score c \<and> bc_score c \<le> bc_max_score c))"
proof (intro conjI allI impI ballI)
  show "(\<exists>b. build_release_breakdown r = Inr b)
      \<longleftrightarrow> scope_churn_7d_pct r \<noteq> None \<and> (reopen_rate_pct r \<noteq> None \<or> 0 < open_high_severity_bugs r)"
    unfolding explanation_total [symmetric] by (auto simp: build_release_breakdown_def and_then_Inr_iff Let_def)
next
  fix b assume b: "build_release_breakdown r = Inr b"
  let ?i = "int_component r"
  obtain d q where cs: "cb_components b =
      [scored_component r ''delivery'' ''Delivery'' d, scored_component r ''quality'' ''Quality'' q,
       scored_component r ''flow'' ''Flow'' (release_flow_explanation r),
       scored_component r ''risk'' ''Risk'' (release_risk_explanation r)]"
    "cb_total_score b = py_round 1 (fsum (map bc_score (cb_components b)))"
    using b by (auto simp: build_release_breakdown_def and_then_Inr_iff Let_def)
  have m: "map bc_score (cb_components b)
      = map of_int [?i ''delivery'', ?i ''quality'', ?i ''flow'', ?i ''risk'']"
    by (simp add: cs(1) component_score int_component_def)
  have "fsum (map bc_score (cb_components b)) = of_int (sum_list [?i ''delivery'', ?i ''quality'', ?i ''flow'', ?i ''risk''])"
    unfolding m by (rule fsum_ints) (use int_component_range [of r] in auto)
  then have "fsum (map bc_score (cb_components b)) = of_int (100 - sum_list (int_points r))"
    using int_component_sum [of r] by simp
  then show "cb_total_score b = compute_release_confidence_score r"
    using int_points_bounds(2,3) [of r] by (simp add: cs(2) confidence_score_int py_round_int del: of_int_diff)
  have mx: "bc_max_score (scored_component r cid n e) = component_max cid" for cid n e
    by (simp add: scored_component_def release_component_def Let_def)
  have s: "bc_score (scored_component r cid n e) = of_int (?i cid) \<and> 0 \<le> ?i cid \<and> ?i cid \<le> int_max cid
      \<and> component_max cid = of_int (int_max cid)"
    if "cid \<in> {''delivery'', ''quality'', ''flow'', ''risk''}" for cid n e
    using component_score [OF that, of r n e] int_penalty_range [OF that, of r] component_max_int [OF that]
    by (simp add: int_component_def)
  have "0 \<le> bc_score c \<and> bc_score c \<le> bc_max_score c" if c: "c \<in> set (cb_components b)" for c
  proof -
    obtain cid n e where sc: "c = scored_component r cid n e" "cid \<in> {''delivery'', ''quality'', ''flow'', ''risk''}"
      using c unfolding cs(1) by auto
    show ?thesis using s [OF sc(2), of n e] by (simp add: sc(1) mx)
  qed
  then show "c \<in> set (cb_components b) \<Longrightarrow> 0 \<le> bc_score c"
    "c \<in> set (cb_components b) \<Longrightarrow> bc_score c \<le> bc_max_score c" for c by blast+
qed

text \<open>C14: The breakdown of a release is built, with no \<open>TypeError\<close>, exactly when the scope churn is known and
  the reopen rate is known or a high-severity bug is open. Its total is then exactly the confidence
  score of the release, and each component lies between 0 and its maximum.\<close>

theorem release_breakdown_adds_up:
  "((\<exists>b. build_release_breakdown r = Inr b)
      \<longleftrightarrow> scope_churn_7d_pct r \<noteq> None \<and> (reopen_rate_pct r \<noteq> None \<or> 0 < open_high_severity_bugs r))
   \<and> (\<forall>b. build_release_breakdown r = Inr b \<longrightarrow>
        cb_total_score b = compute_release_confidence_score r
        \<and> (\<forall>c \<in> set (cb_components b). 0 \<le> bc_score c \<and> bc_score c \<le> bc_max_score c))"
  by (rule release_breakdown_facts)

lemma release_breakdown_adds_up_witness:
  "\<exists>b. build_release_breakdown sample_inputs = Inr b
    \<and> cb_total_score b = compute_release_confidence_score sample_inputs"
proof -
  have "scope_churn_7d_pct sample_inputs \<noteq> None \<and> (reopen_rate_pct sample_inputs \<noteq> None
      \<or> 0 < open_high_severity_bugs sample_inputs)" by (simp add: sample_inputs_def)
  then show ?thesis using release_breakdown_adds_up [of sample_inputs] by auto
qed

end
