(* ===== verification/Drivers.thy ===== *)
theory Drivers
  imports Signals DeliveryConfidence
begin

text \<open>
  services/driver_analysis_service.py: the largest drag on the confidence of a release (by risk points)
  and of a sprint (by weighted loss of the four components). The candidates of the code are the records
  \<open>driver_candidate\<close>; the selection is Python's \<open>min\<close> with the pair of impact and position as key.
\<close>

record driver_candidate =
  dr_key :: string
  dr_title :: string
  dr_category :: string
  dr_impact :: pyfloat
  dr_explanation :: string
  dr_recommendation :: string

record driver_analysis =
  da_title :: string
  da_category :: string
  da_impact :: pyfloat
  da_contribution_percent :: pyfloat
  da_explanation :: string
  da_recommendation :: string

type_synonym driver_details = "(string \<times> string \<times> string \<times> string \<times> string) list"

definition RELEASE_DRIVER_DETAILS :: driver_details where
  "RELEASE_DRIVER_DETAILS =
    [(''open_blockers'', ''Open Blockers'', ''Risk'',
      ''Open blockers are consuming the largest share of release confidence.'',
      ''Resolve or explicitly de-scope blocker tickets before moving the release forward.''),
     (''open_high_severity_bugs'', ''High Severity Bugs'', ''Quality'',
      ''Open high-severity bugs are the largest quality drag on release confidence.'',
      ''Prioritize high-severity bug fixes and verify them before release approval.''),
     (''scope_churn_7d_pct'', ''Scope Churn'', ''Delivery'',
      ''Recent fix-version movement is the largest source of release risk.'',
      ''Stabilize the release scope and defer non-critical fix-version changes.''),
     (''reopen_rate_pct'', ''Reopen Events per 100 Eligible Tickets'', ''Quality'',
      ''Reopened work is the largest drag on release confidence.'',
      ''Review reopened tickets for common acceptance or quality gaps and close the loop before release.''),
     (''median_cycle_time_days'', ''Cycle Time'', ''Flow'',
      ''Cycle time is the largest flow drag on release confidence.'',
      ''Reduce aging in-progress work and focus the team on finishing active tickets.'')]"

definition RELEASE_DRIVER_ORDER :: "string list" where
  "RELEASE_DRIVER_ORDER = [''open_blockers'', ''open_high_severity_bugs'', ''scope_churn_7d_pct'',
     ''reopen_rate_pct'', ''median_cycle_time_days'']"

definition SPRINT_DRIVER_DETAILS :: driver_details where
  "SPRINT_DRIVER_DETAILS =
    [(''progress_alignment'', ''Progress Alignment'', ''Delivery'',
      ''Completed work is the largest drag against expected sprint progress.'',
      ''Refocus on finishing committed work that is closest to done.''),
     (''velocity_fit'', ''Velocity Fit'', ''Delivery'',
      ''Remaining work versus historical velocity is the largest delivery drag.'',
      ''Rebalance remaining work against available capacity and de-scope lower priority items if needed.''),
     (''scope_stability'', ''Scope Stability'', ''Delivery'',
      ''Post-start scope movement is the largest drag on delivery confidence.'',
      ''Freeze sprint scope where possible and move new requests into the next planning cycle.''),
     (''blocker_penalty'', ''Blocker Health'', ''Risk'',
      ''Open blockers are the largest drag on sprint delivery confidence.'',
      ''Clear blocker ownership and resolve blocked tickets before pulling more work.'')]"

definition SPRINT_DRIVER_ORDER :: "string list" where
  "SPRINT_DRIVER_ORDER = [''progress_alignment'', ''velocity_fit'', ''scope_stability'', ''blocker_penalty'']"

definition driver_candidate_of :: "driver_details \<Rightarrow> string \<Rightarrow> pyfloat \<Rightarrow> driver_candidate" where
  "driver_candidate_of details key impact =
    (case the (map_of details key) of (title, category, explanation, recommendation) \<Rightarrow>
       \<lparr>dr_key = key, dr_title = title, dr_category = category, dr_impact = impact,
        dr_explanation = explanation, dr_recommendation = recommendation\<rparr>)"

definition release_candidate :: "string \<Rightarrow> pyfloat \<Rightarrow> driver_candidate" where
  "release_candidate name points = driver_candidate_of RELEASE_DRIVER_DETAILS name (py_round 2 (- points))"

definition component_weight :: "string \<Rightarrow> pyfloat" where
  "component_weight name = the (map_of [(''progress_alignment'', W_PROGRESS), (''velocity_fit'', W_VELOCITY),
     (''blocker_penalty'', W_BLOCKER), (''scope_stability'', W_SCOPE)] name)"

definition component_value :: "confidence_components \<Rightarrow> string \<Rightarrow> pyfloat" where
  "component_value c name = the (map_of [(''progress_alignment'', cc_progress_alignment c),
     (''velocity_fit'', cc_velocity_fit c), (''blocker_penalty'', cc_blocker_penalty c),
     (''scope_stability'', cc_scope_stability c)] name)"

definition sprint_candidate :: "string \<Rightarrow> pyfloat \<Rightarrow> driver_candidate" where
  "sprint_candidate name score = driver_candidate_of SPRINT_DRIVER_DETAILS name
     (- py_round 2 (fmul (max 0 (fsub 100 score)) (component_weight name)))"

definition driver_sort_index :: "string \<Rightarrow> nat" where
  "driver_sort_index key = length (takeWhile (\<lambda>k. k \<noteq> key) (RELEASE_DRIVER_ORDER @ SPRINT_DRIVER_ORDER))"

text \<open>\<open>min(xs, key=...)\<close>: the first element with the smallest key.\<close>

fun first_min :: "('a \<Rightarrow> 'b::linorder) \<Rightarrow> 'a \<Rightarrow> 'a list \<Rightarrow> 'a" where
  "first_min f best [] = best"
| "first_min f best (x # xs) = first_min f (if f x < f best then x else best) xs"

definition build_driver_result :: "driver_candidate \<Rightarrow> driver_candidate list \<Rightarrow> pyfloat \<Rightarrow> driver_analysis" where
  "build_driver_result c cs total_loss =
    (let s = first_min (\<lambda>c. (dr_impact c, driver_sort_index (dr_key c))) c cs
     in \<lparr>da_title = dr_title s, da_category = dr_category s, da_impact = dr_impact s,
         da_contribution_percent = (if total_loss \<le> 0 then 0
           else py_round 1 (fmul (fdiv \<bar>dr_impact s\<bar> total_loss) 100)),
         da_explanation = dr_explanation s, da_recommendation = dr_recommendation s\<rparr>)"

definition total_loss :: "driver_candidate list \<Rightarrow> pyfloat" where
  "total_loss cs = fsum (map (\<lambda>c. \<bar>dr_impact c\<bar>) cs)"

definition empty_release_driver :: driver_analysis where
  "empty_release_driver = \<lparr>da_title = ''No Confidence Drag'', da_category = ''None'', da_impact = 0,
     da_contribution_percent = 0,
     da_explanation = ''No active release risk points are reducing confidence.'',
     da_recommendation = ''Maintain release readiness by keeping blockers, quality risk, scope churn, and flow within thresholds.''\<rparr>"

definition empty_sprint_driver :: driver_analysis where
  "empty_sprint_driver = \<lparr>da_title = ''No Delivery Drag'', da_category = ''None'', da_impact = 0,
     da_contribution_percent = 0,
     da_explanation = ''No delivery confidence component is currently reducing the sprint score.'',
     da_recommendation = ''Maintain the current delivery posture and continue monitoring progress, velocity, blockers, and scope stability.''\<rparr>"

definition release_candidates :: "release_inputs \<Rightarrow> driver_candidate list" where
  "release_candidates r = List.map_filter
     (\<lambda>name. map_option (release_candidate name) (map_of (compute_release_risk_points r) name))
     RELEASE_DRIVER_ORDER"

definition build_release_driver :: "release_inputs \<Rightarrow> driver_analysis" where
  "build_release_driver r =
    (case release_candidates r of
       [] \<Rightarrow> empty_release_driver
     | c # cs \<Rightarrow> build_driver_result c cs (total_loss (c # cs)))"

definition sprint_candidates :: "confidence_components \<Rightarrow> driver_candidate list" where
  "sprint_candidates c = filter (\<lambda>d. dr_impact d < 0)
     (map (\<lambda>name. sprint_candidate name (component_value c name)) SPRINT_DRIVER_ORDER)"

definition build_sprint_driver :: "confidence_components \<Rightarrow> driver_analysis" where
  "build_sprint_driver components =
    (case sprint_candidates components of
       [] \<Rightarrow> empty_sprint_driver
     | c # cs \<Rightarrow> build_driver_result c cs (total_loss (c # cs)))"

subsection \<open>The release driver is the primary risk\<close>

lemma first_min_is_first_max:
  fixes w :: "'a \<Rightarrow> rat" and i :: "'a \<Rightarrow> nat"
  assumes "sorted_wrt (\<lambda>x y. i x < i y) (b # xs)"
  shows "first_min (\<lambda>x. (- w x, i x)) b xs = first_max w b xs"
  using assms
proof (induction xs arbitrary: b)
  case (Cons x xs)
  then have "(- w x, i x) < (- w b, i b) \<longleftrightarrow> w x > w b" by auto
  then show ?case using Cons by auto
qed simp

lemma first_max_map: "first_max f (g b) (map g xs) = g (first_max (f \<circ> g) b xs)"
  by (induction xs arbitrary: b) simp_all

lemma first_min_map: "first_min f (g b) (map g xs) = g (first_min (f \<circ> g) b xs)"
  by (induction xs arbitrary: b) simp_all

lemma first_min_cong: "(\<And>x. x \<in> set (b # xs) \<Longrightarrow> f x = g x) \<Longrightarrow> first_min f b xs = first_min g b xs"
  by (induction xs arbitrary: b) auto

text \<open>A dict that is filled key by key: each key is present or not.\<close>

fun optional_entries :: "'k list \<Rightarrow> ('k \<Rightarrow> 'v option) \<Rightarrow> ('k \<times> 'v) list" where
  "optional_entries [] w = []"
| "optional_entries (k # ks) w = (case w k of None \<Rightarrow> [] | Some v \<Rightarrow> [(k, v)]) @ optional_entries ks w"

lemma optional_entries_set: "fst ` set (optional_entries ks w) \<subseteq> set ks"
  by (induction ks) (auto split: option.splits)

lemma optional_entries_sorted:
  "sorted_wrt (\<lambda>a b. i a < i b) ks \<Longrightarrow> sorted_wrt (\<lambda>p q. i (fst p) < i (fst q)) (optional_entries ks w)"
  using optional_entries_set by (induction ks) (fastforce split: option.splits)+

lemma optional_entries_distinct: "distinct ks \<Longrightarrow> distinct (map fst (optional_entries ks w))"
  using optional_entries_set by (induction ks) (fastforce split: option.splits)+

lemma map_of_optional_entries: "k \<in> set ks \<Longrightarrow> map_of (optional_entries ks w) k = w k"
proof (induction ks)
  case (Cons a ks)
  have "k \<notin> set ks \<Longrightarrow> map_of (optional_entries ks w) k = None"
    using optional_entries_set [of ks w] by (auto simp: map_of_eq_None_iff)
  with Cons show ?case by (cases "k \<in> set ks") (auto simp: map_add_def split: option.splits)
qed simp

lemma map_filter_optional_entries:
  "List.map_filter (\<lambda>k. map_option (g k) (w k)) ks = map (\<lambda>(k, v). g k v) (optional_entries ks w)"
  by (induction ks) (auto simp: List.map_filter_simps split: option.splits)

lemma map_filter_cong_set:
  "(\<And>k. k \<in> set ks \<Longrightarrow> f k = g k) \<Longrightarrow> List.map_filter f ks = List.map_filter g ks"
proof (induction ks)
  case (Cons k ks)
  then have "List.map_filter f ks = List.map_filter g ks" "f k = g k" by simp_all
  then show ?case by (simp add: List.map_filter_simps split: option.splits)
qed (simp add: List.map_filter_simps)

lemma risk_points_optional:
  "\<exists>w. compute_release_risk_points r = optional_entries RELEASE_DRIVER_ORDER w"
proof -
  have one: "(if c then [(n, a)] else []) = (case if c then Some a else None of None \<Rightarrow> [] | Some v \<Rightarrow> [(n, v)])"
    for c and n :: string and a :: pyfloat by simp
  have two: "(if c then [(n, a)] else if d then [(n, b)] else [])
      = (case if c then Some a else if d then Some b else None of None \<Rightarrow> [] | Some v \<Rightarrow> [(n, v)])"
    for c d and n :: string and a b :: pyfloat by simp
  have "\<exists>a b c d e. compute_release_risk_points r
    = (case a of None \<Rightarrow> [] | Some v \<Rightarrow> [(''open_blockers'', v)])
    @ (case b of None \<Rightarrow> [] | Some v \<Rightarrow> [(''open_high_severity_bugs'', v)])
    @ (case c of None \<Rightarrow> [] | Some v \<Rightarrow> [(''scope_churn_7d_pct'', v)])
    @ (case d of None \<Rightarrow> [] | Some v \<Rightarrow> [(''reopen_rate_pct'', v)])
    @ (case e of None \<Rightarrow> [] | Some v \<Rightarrow> [(''median_cycle_time_days'', v)])"
    unfolding compute_release_risk_points_def by (intro exI) (rule arg_cong2 [where f = "(@)"] one two)+
  then obtain a b c d e where "compute_release_risk_points r
    = (case a of None \<Rightarrow> [] | Some v \<Rightarrow> [(''open_blockers'', v)])
    @ (case b of None \<Rightarrow> [] | Some v \<Rightarrow> [(''open_high_severity_bugs'', v)])
    @ (case c of None \<Rightarrow> [] | Some v \<Rightarrow> [(''scope_churn_7d_pct'', v)])
    @ (case d of None \<Rightarrow> [] | Some v \<Rightarrow> [(''reopen_rate_pct'', v)])
    @ (case e of None \<Rightarrow> [] | Some v \<Rightarrow> [(''median_cycle_time_days'', v)])"
    by blast
  then show ?thesis
    by (intro exI [of _ "\<lambda>k. if k = ''open_blockers'' then a else if k = ''open_high_severity_bugs'' then b
      else if k = ''scope_churn_7d_pct'' then c else if k = ''reopen_rate_pct'' then d else e"])
      (simp add: RELEASE_DRIVER_ORDER_def)
qed

lemma release_order_facts:
  "sorted_wrt (\<lambda>a b. driver_sort_index a < driver_sort_index b) RELEASE_DRIVER_ORDER"
  "distinct RELEASE_DRIVER_ORDER"
  by (simp_all add: RELEASE_DRIVER_ORDER_def driver_sort_index_def)

lemma risk_points_order:
  "sorted_wrt (\<lambda>p q. driver_sort_index (fst p) < driver_sort_index (fst q)) (compute_release_risk_points r)"
  "distinct (map fst (compute_release_risk_points r))"
  using risk_points_optional [of r] release_order_facts optional_entries_sorted optional_entries_distinct
  by metis+

lemma release_candidates_eq:
  "release_candidates r = map (\<lambda>(name, points). release_candidate name points) (compute_release_risk_points r)"
proof -
  obtain w where w: "compute_release_risk_points r = optional_entries RELEASE_DRIVER_ORDER w"
    using risk_points_optional by blast
  have "release_candidates r
      = List.map_filter (\<lambda>k. map_option (release_candidate k) (w k)) RELEASE_DRIVER_ORDER"
    unfolding release_candidates_def w by (rule map_filter_cong_set) (simp add: map_of_optional_entries)
  then show ?thesis by (simp add: map_filter_optional_entries w)
qed

lemma release_candidate_impact:
  assumes "(name, points) \<in> set (compute_release_risk_points r)"
  shows "dr_impact (release_candidate name points) = - points" and "dr_key (release_candidate name points) = name"
    and "0 < points"
proof -
  have "points \<in> set (map of_int (int_points r))" using assms risk_points_ints by (metis image_eqI list.set_map snd_conv)
  then obtain k where k: "k \<in> set (int_points r)" "points = of_int k" by auto
  have "0 < k" "k \<le> 64" using k(1)
    by (auto simp: int_points.simps split: if_splits)
  then show "dr_impact (release_candidate name points) = - points" "0 < points"
    using py_round_int [of "- k" 2] k(2)
    by (simp_all add: release_candidate_def driver_candidate_of_def split_beta)
  show "dr_key (release_candidate name points) = name"
    by (simp add: release_candidate_def driver_candidate_of_def split_beta)
qed

text \<open>The name of the heaviest risk metric is the name of a risk metric, and its share is the one the
  readiness details list.\<close>

lemma map_of_map_values: "map_of (map (\<lambda>(n, p). (n, f p)) xs) k = map_option f (map_of xs k)"
  by (induction xs) auto

lemma risk_total_pos:
  assumes "(name, points) \<in> set (compute_release_risk_points r)"
  shows "0 < fsum (map snd (compute_release_risk_points r))"
proof -
  have "int_points r \<noteq> []" using assms int_points_Nil_iff by force
  then have "0 < sum_list (int_points r)"
    by (auto simp: int_points.simps split: if_splits)
  then show ?thesis by (simp add: fsum_risk_points)
qed

lemma contribution_of_member:
  assumes "(name, points) \<in> set (compute_release_risk_points r)"
  shows "contribution_of r name
    = py_round 1 (fmul (fdiv points (fsum (map snd (compute_release_risk_points r)))) 100)"
proof -
  let ?rp = "compute_release_risk_points r"
  have pos: "0 < fsum (map snd ?rp)" by (rule risk_total_pos [OF assms])
  have "map_of (map (\<lambda>(n, p). (n, py_round 1 (fmul (fdiv p (fsum (map snd ?rp))) 100))) ?rp) name
    = map_option (\<lambda>p. py_round 1 (fmul (fdiv p (fsum (map snd ?rp))) 100)) (map_of ?rp name)"
    by (rule map_of_map_values)
  also have "map_of ?rp name = Some points" using assms risk_points_order(2) by simp
  finally show ?thesis using pos
    by (simp add: contribution_of_def contribution_by_metric_def Let_def)
qed

lemma release_total_loss:
  "total_loss (release_candidates r) = fsum (map snd (compute_release_risk_points r))"
proof -
  have "map (\<lambda>c. \<bar>dr_impact c\<bar>) (release_candidates r) = map snd (compute_release_risk_points r)"
    unfolding release_candidates_eq
    by (auto simp: release_candidate_impact release_candidate_impact(3) [THEN less_imp_le])
  then show ?thesis by (simp add: total_loss_def)
qed

definition heaviest_risk :: "release_inputs \<Rightarrow> (string \<times> pyfloat) option" where
  "heaviest_risk r = (case compute_release_risk_points r of [] \<Rightarrow> None | p # ps \<Rightarrow> Some (first_max snd p ps))"

lemma build_release_driver_heaviest:
  "build_release_driver r =
    (case heaviest_risk r of
       None \<Rightarrow> empty_release_driver
     | Some (name, points) \<Rightarrow>
        (case the (map_of RELEASE_DRIVER_DETAILS name) of (title, category, explanation, recommendation) \<Rightarrow>
          \<lparr>da_title = title, da_category = category, da_impact = - points,
           da_contribution_percent = contribution_of r name,
           da_explanation = explanation, da_recommendation = recommendation\<rparr>))"
proof (cases "compute_release_risk_points r")
  case Nil
  then show ?thesis by (simp add: build_release_driver_def heaviest_risk_def release_candidates_eq)
next
  case (Cons p ps)
  define key :: "driver_candidate \<Rightarrow> pyfloat \<times> nat"
    where "key = (\<lambda>c. (dr_impact c, driver_sort_index (dr_key c)))"
  define mk where "mk = (\<lambda>(name, points). release_candidate name points)"
  obtain name points where m: "first_max snd p ps = (name, points)" by (meson surj_pair)
  have "(name, points) \<in> set (compute_release_risk_points r)"
    using first_max_in [of snd p ps] m Cons by simp
  note member = this release_candidate_impact [OF this] contribution_of_member [OF this]
  have "first_min key (mk p) (map mk ps) = mk (first_min (key \<circ> mk) p ps)" by (rule first_min_map)
  also have "first_min (key \<circ> mk) p ps
      = first_min (\<lambda>q. (- snd q, driver_sort_index (fst q))) p ps"
  proof (rule first_min_cong)
    fix q assume "q \<in> set (p # ps)"
    then have "(fst q, snd q) \<in> set (compute_release_risk_points r)" by (simp add: Cons)
    from release_candidate_impact(1,2) [OF this]
    show "(key \<circ> mk) q = (- snd q, driver_sort_index (fst q))" by (simp add: key_def mk_def split_beta)
  qed
  also have "\<dots> = first_max snd p ps"
    using risk_points_order(1) [of r] Cons by (intro first_min_is_first_max) simp
  finally have sel: "first_min key (mk p) (map mk ps) = release_candidate name points"
    by (simp add: m mk_def)
  have cs: "release_candidates r = mk p # map mk ps"
    using Cons by (simp add: release_candidates_eq mk_def)
  have loss: "total_loss (mk p # map mk ps) = fsum (map snd (compute_release_risk_points r))"
    using release_total_loss [of r] cs by simp
  have pos: "0 < fsum (map snd (compute_release_risk_points r))"
    using risk_total_pos [OF member(1)] .
  have "build_release_driver r = build_driver_result (mk p) (map mk ps)
      (fsum (map snd (compute_release_risk_points r)))"
    by (simp add: build_release_driver_def cs loss)
  also have "\<dots> = (case the (map_of RELEASE_DRIVER_DETAILS name) of (title, category, explanation, recommendation) \<Rightarrow>
          \<lparr>da_title = title, da_category = category, da_impact = - points,
           da_contribution_percent = contribution_of r name,
           da_explanation = explanation, da_recommendation = recommendation\<rparr>)"
    using pos member unfolding build_driver_result_def sel [unfolded key_def] Let_def
    by (simp add: release_candidate_def driver_candidate_of_def split: prod.splits)
  finally show ?thesis by (simp add: heaviest_risk_def Cons m)
qed

text \<open>the driver analysis of a release and its primary risk agree: there is a driver exactly when there
  is a primary risk, it has the title, category, explanation and recommendation of that metric, its
  impact is the risk points the metric costs, and its share is the contribution the readiness
  details give. Two implementations of the same choice (a minimum of pairs over candidates, a
  maximum over a dict) give the same answer, also on ties.\<close>

theorem release_driver_is_primary_risk:
  "build_release_driver r =
    (case primary_risk_of r of
       None \<Rightarrow> empty_release_driver
     | Some p \<Rightarrow>
        (case the (map_of RELEASE_DRIVER_DETAILS (pr_metric_name p)) of (title, category, explanation, recommendation) \<Rightarrow>
          \<lparr>da_title = title, da_category = category,
           da_impact = - the (map_of (compute_release_risk_points r) (pr_metric_name p)),
           da_contribution_percent = pr_contribution_pct p,
           da_explanation = explanation, da_recommendation = recommendation\<rparr>))"
proof (cases "compute_release_risk_points r")
  case Nil
  then show ?thesis by (simp add: build_release_driver_heaviest heaviest_risk_def primary_risk_of_def)
next
  case (Cons p ps)
  obtain name points where m: "first_max snd p ps = (name, points)" by (meson surj_pair)
  then have "(name, points) \<in> set (compute_release_risk_points r)"
    using first_max_in [of snd p ps] Cons by simp
  then have "map_of (compute_release_risk_points r) name = Some points"
    using risk_points_order(2) by simp
  moreover have "heaviest_risk r = Some (name, points)" by (simp add: heaviest_risk_def Cons m)
  moreover have "primary_risk_of r = Some \<lparr>pr_metric_name = name, pr_label = label_by_metric name,
      pr_message = label_by_metric name @ '' contribute '' @ format_fixed 0 (contribution_of r name)
        @ ''% of total release risk.'', pr_contribution_pct = contribution_of r name\<rparr>"
    unfolding primary_risk_of_def Cons by (simp add: Let_def m)
  ultimately show ?thesis by (simp add: build_release_driver_heaviest)
qed

end
