(* ===== verification/JiraClient.thy ===== *)
theory JiraClient
  imports Store FieldMapper Results
begin

text \<open>
  services/jira_service.py, services/jira_errors.py and services/jira_types.py: requests with retry, the
  two pagination loops, and the normalisation of versions and changelog entries. What Jira and the
  network answer is an argument: an outcome per attempt, a page per call. Response bodies are the
  records of Jira's documented schema, with \<open>None\<close> for an absent field; a body that is not JSON is an
  \<open>Inl\<close>. Loops over pages are partial functions: \<open>None\<close> is a loop that never returns.
\<close>

subsection \<open>Errors and types\<close>

datatype client_error =
    Auth_Error string
  | Request_Error string "int option"
  | Rate_Limit_Error string "int option"
  | Parse_Error string
  | Assertion_Error

text \<open>\<open>isinstance(exc, JiraServiceError)\<close>\<close>

fun is_jira_error :: "client_error \<Rightarrow> bool" where
  "is_jira_error Assertion_Error = False"
| "is_jira_error e = True"

text \<open>\<open>status_code\<close> of a request error; 429 for a rate limit.\<close>

fun error_status :: "client_error \<Rightarrow> int option" where
  "error_status (Request_Error m code) = code"
| "error_status (Rate_Limit_Error m ra) = Some 429"
| "error_status e = None"

record jira_sprint_ref =
  sr_id :: string
  sr_name :: string
  sr_state :: string
  sr_board_id :: "string option"
  sr_start_date :: "string option"
  sr_end_date :: "string option"
  sr_complete_date :: "string option"
  sr_goal :: "string option"

record jira_issue_summary =
  js_key :: string
  js_summary :: string
  js_status :: "string option"
  js_issue_type :: "string option"
  js_priority :: "string option"
  js_assignee :: "string option"
  js_updated :: "py_datetime option"
  js_assignee_id :: "string option"
  js_created :: "py_datetime option"
  js_fix_versions :: "string list"
  js_sprints :: "jira_sprint_ref list"

record jira_issue_detail =
  jd_key :: string
  jd_summary :: string
  jd_status :: "string option"
  jd_issue_type :: "string option"
  jd_priority :: "string option"
  jd_assignee :: "string option"
  jd_updated :: "py_datetime option"
  jd_assignee_id :: "string option"
  jd_created :: "py_datetime option"
  jd_fix_versions :: "string list"
  jd_sprints :: "jira_sprint_ref list"
  jd_story_points :: "py_number option"
  jd_blocker_flag :: "bool option"

record jira_changelog_entry =
  ce_issue_key :: string
  ce_field_name :: string
  ce_from_value :: "string option"
  ce_to_value :: "string option"
  ce_changed_at :: py_datetime

record jira_version =
  ve_id :: string
  ve_name :: string
  ve_project_key :: string
  ve_released :: bool
  ve_release_date :: "string option"
  ve_start_date :: "string option"
  ve_description :: "string option"

subsection \<open>Timestamps\<close>

text \<open>\<open>_parse_datetime\<close> over the library's \<open>datetime.fromisoformat\<close>: an offset written \<open>+0000\<close> gets its
  colon before a second try.\<close>

definition parse_datetime :: "(string \<Rightarrow> py_datetime option) \<Rightarrow> string option \<Rightarrow> py_datetime option" where
  "parse_datetime fromisoformat v =
    (case v of
       None \<Rightarrow> None
     | Some s \<Rightarrow>
        (if s = [] then None
         else (case fromisoformat s of
             Some d \<Rightarrow> Some d
           | None \<Rightarrow>
               (let n = length s in
                if 5 \<le> n \<and> s ! (n - 5) \<in> {CHR ''+'', CHR ''-''} \<and> s ! (n - 3) \<noteq> CHR '':''
                then fromisoformat (take (n - 2) s @ '':'' @ drop (n - 2) s)
                else None))))"

definition datetime_min :: py_datetime where "datetime_min = naive 0"

record raw_item =
  it_field_id :: "string option"
  it_field :: "string option"
  it_from_string :: "string option"
  it_to_string :: "string option"

record raw_history =
  hi_created :: "string option"
  hi_items :: "raw_item list"

definition normalize_changelog_entry ::
  "(string \<Rightarrow> py_datetime option) \<Rightarrow> string \<Rightarrow> raw_history \<Rightarrow> jira_changelog_entry list" where
  "normalize_changelog_entry fromisoformat key h =
    (let changed_at = (case parse_datetime fromisoformat (hi_created h) of None \<Rightarrow> datetime_min | Some d \<Rightarrow> d)
     in map (\<lambda>it. \<lparr>ce_issue_key = key,
          ce_field_name = (if or_empty (it_field_id it) \<noteq> [] then or_empty (it_field_id it) else or_empty (it_field it)),
          ce_from_value = it_from_string it, ce_to_value = it_to_string it, ce_changed_at = changed_at\<rparr>)
        (hi_items h))"

subsection \<open>Requests with retry\<close>

text \<open>The outcome of one attempt: no response, or a status code with the \<open>Retry-After\<close> header and the
  body (\<open>Inl\<close> the text of the exception when it is not JSON).\<close>

datatype 'b http_outcome = Network_Error string | Response int "string option" "string + 'b"

datatype 'b reaction = Return "client_error + 'b" | Retry client_error "int option"

definition is_digits :: "string \<Rightarrow> bool" where
  "is_digits s \<longleftrightarrow> s \<noteq> [] \<and> (\<forall>c \<in> set s. (48 :: nat) \<le> of_char c \<and> (of_char c :: nat) \<le> 57)"

definition digits_value :: "string \<Rightarrow> int" where
  "digits_value s = foldl (\<lambda>n c. 10 * n + (of_char c - 48)) 0 s"

definition retry_after_of :: "string option \<Rightarrow> int option" where
  "retry_after_of h = (case h of None \<Rightarrow> None | Some s \<Rightarrow> if is_digits s then Some (digits_value s) else None)"

definition react :: "string \<Rightarrow> 'b http_outcome \<Rightarrow> 'b reaction" where
  "react call outcome =
    (case outcome of
       Network_Error m \<Rightarrow> Retry (Request_Error (''Network error contacting Jira: '' @ m) None) None
     | Response code header body \<Rightarrow>
        (if code = 401 \<or> code = 403
         then Return (Inl (Auth_Error (''Jira authentication failed ('' @ int_str code @ '') for '' @ call)))
         else if code = 429
         then Retry (Rate_Limit_Error (''Jira rate limit hit for '' @ call) (retry_after_of header)) (retry_after_of header)
         else if code \<ge> 500
         then Retry (Request_Error (''Jira server error '' @ int_str code @ '' for '' @ call) (Some code)) None
         else if \<not> (200 \<le> code \<and> code \<le> 299)
         then Return (Inl (Request_Error (''Jira returned '' @ int_str code @ '' for '' @ call) (Some code)))
         else (case body of
             Inl e \<Rightarrow> Return (Inl (Parse_Error (''Could not parse Jira response for '' @ call @ '': '' @ e)))
           | Inr b \<Rightarrow> Return (Inr b))))"

definition sleep_before_retry :: "int \<Rightarrow> int option \<Rightarrow> int" where
  "sleep_before_retry attempt retry_after =
    (case retry_after of
       Some s \<Rightarrow> if 0 < s then s else min (2 ^ nat (attempt - 1)) 8
     | None \<Rightarrow> min (2 ^ nat (attempt - 1)) 8)"

text \<open>The loop over \<open>range(1, attempts + 1)\<close>: the result and the seconds slept before each retry. \<open>call\<close> is
  the method and the path, \<open>send k\<close> the outcome of attempt \<open>k\<close>.\<close>

function request_loop ::
  "string \<Rightarrow> (int \<Rightarrow> 'b http_outcome) \<Rightarrow> int \<Rightarrow> int \<Rightarrow> client_error option \<Rightarrow> (client_error + 'b) \<times> int list" where
  "request_loop call send attempts attempt last_exc =
    (if attempts < attempt
     then (Inl (case last_exc of None \<Rightarrow> Assertion_Error | Some e \<Rightarrow> e), [])
     else (case react call (send attempt) of
         Return r \<Rightarrow> (r, [])
       | Retry e retry_after \<Rightarrow>
          (case request_loop call send attempts (attempt + 1) (Some e) of (r, sleeps) \<Rightarrow>
             (r, if attempt < attempts then sleep_before_retry attempt retry_after # sleeps else sleeps))))"
  by pat_completeness auto
termination by (relation "measure (\<lambda>(_, _, attempts, attempt, _). nat (attempts + 1 - attempt))") auto

declare request_loop.simps [simp del]

definition request :: "int \<Rightarrow> string \<Rightarrow> (int \<Rightarrow> 'b http_outcome) \<Rightarrow> (client_error + 'b) \<times> int list" where
  "request max_retries call send = request_loop call send (max_retries + 1) 1 None"

subsection \<open>Pagination\<close>

record changelog_page =
  pg_values :: "raw_history list"
  pg_total :: "int option"
  pg_is_last :: "bool option"

partial_function (option) changelog_loop ::
  "(int \<Rightarrow> client_error + changelog_page) \<Rightarrow> (raw_history \<Rightarrow> jira_changelog_entry list) \<Rightarrow> int \<Rightarrow> int
    \<Rightarrow> jira_changelog_entry list \<Rightarrow> (client_error + jira_changelog_entry list) option" where
  "changelog_loop fetch nrm max_results current_start entries =
    (case fetch current_start of
       Inl e \<Rightarrow> Some (Inl e)
     | Inr page \<Rightarrow>
        (let entries' = entries @ concat (map nrm (pg_values page));
             fetched = int (length (pg_values page))
         in if fetched = 0 \<or> pg_is_last page = Some True then Some (Inr entries')
            else if (case pg_total page of None \<Rightarrow> False | Some n \<Rightarrow> current_start + fetched \<ge> n)
            then Some (Inr entries')
            else if fetched < max_results then Some (Inr entries')
            else changelog_loop fetch nrm max_results (current_start + fetched) entries'))"

definition get_issue_changelog ::
  "(string \<Rightarrow> py_datetime option) \<Rightarrow> (int \<Rightarrow> client_error + changelog_page) \<Rightarrow> string \<Rightarrow> int \<Rightarrow> int
    \<Rightarrow> (client_error + jira_changelog_entry list) option" where
  "get_issue_changelog fromisoformat fetch key start_at max_results =
     changelog_loop fetch (normalize_changelog_entry fromisoformat key) max_results start_at []"

text \<open>A page of the search: its issues and the token of the next page, where an empty token is none.\<close>

definition next_token :: "string option \<Rightarrow> string option" where
  "next_token v = (case v of None \<Rightarrow> None | Some s \<Rightarrow> if s = [] then None else Some s)"

partial_function (option) fetch_loop ::
  "(string option \<Rightarrow> client_error + 's list \<times> string option) \<Rightarrow> string option \<Rightarrow> 's list
    \<Rightarrow> (client_error + 's list) option" where
  "fetch_loop search token all_issues =
    (case search token of
       Inl e \<Rightarrow> Some (Inl e)
     | Inr (batch, returned) \<Rightarrow>
        (case next_token returned of
           None \<Rightarrow> Some (Inr (all_issues @ batch))
         | Some t \<Rightarrow> fetch_loop search (Some t) (all_issues @ batch)))"

definition fetch_project_issues ::
  "(string option \<Rightarrow> client_error + 's list \<times> string option) \<Rightarrow> (client_error + 's list) option" where
  "fetch_project_issues search = fetch_loop search None []"

subsection \<open>Versions\<close>

record raw_version =
  rv_id :: "string option"
  rv_name :: "string option"
  rv_released :: "bool option"
  rv_release_date :: "string option"
  rv_start_date :: "string option"
  rv_description :: "string option"

definition normalize_version :: "string \<Rightarrow> raw_version \<Rightarrow> client_error + jira_version" where
  "normalize_version project_key v =
    (case rv_id v of
       None \<Rightarrow> Inl (Parse_Error (''Unexpected versions response structure for project '' @ project_key @ '': '' @ CHR 0x27 # ''id'' @ [CHR 0x27]))
     | Some vid \<Rightarrow> Inr \<lparr>ve_id = vid, ve_name = or_empty (rv_name v), ve_project_key = project_key,
         ve_released = (rv_released v = Some True), ve_release_date = rv_release_date v,
         ve_start_date = rv_start_date v, ve_description = rv_description v\<rparr>)"

definition get_project_versions :: "string \<Rightarrow> client_error + raw_version list \<Rightarrow> client_error + jira_version list" where
  "get_project_versions project_key response =
     and_then response (map_ok (normalize_version project_key))"

subsection \<open>What a request returns and how long it waits\<close>

definition retryable :: "'b http_outcome \<Rightarrow> bool" where
  "retryable outcome = (case outcome of Network_Error m \<Rightarrow> True | Response code h b \<Rightarrow> code = 429 \<or> code \<ge> 500)"

definition final_result :: "string \<Rightarrow> 'b http_outcome \<Rightarrow> client_error + 'b" where
  "final_result call outcome = (case react call outcome of Return r \<Rightarrow> r | Retry e ra \<Rightarrow> Inl e)"

definition requested_wait :: "'b http_outcome \<Rightarrow> int option" where
  "requested_wait outcome = (case outcome of Response code h b \<Rightarrow> if code = 429 then retry_after_of h else None | _ \<Rightarrow> None)"

lemma react_cases:
  "react call outcome = (if retryable outcome
     then Retry (projl (final_result call outcome)) (requested_wait outcome)
     else Return (final_result call outcome))"
  by (cases outcome)
    (auto simp: react_def retryable_def final_result_def requested_wait_def split: sum.splits)

lemma retryable_is_error: "retryable outcome \<Longrightarrow> final_result call outcome = Inl (projl (final_result call outcome))"
  by (cases outcome) (auto simp: react_def retryable_def final_result_def split: sum.splits)

text \<open>The loop stops at attempt \<open>k\<close>, the first that is not retryable or else the last one.\<close>

lemma request_loop_result:
  assumes "a \<le> k" and "k \<le> n" and "\<And>j. a \<le> j \<Longrightarrow> j < k \<Longrightarrow> retryable (send j)" and "k = n \<or> \<not> retryable (send k)"
  shows "request_loop call send n a l = (final_result call (send k),
     map (\<lambda>j. sleep_before_retry j (requested_wait (send j))) [a..k - 1])"
  using assms
proof (induction "nat (k - a)" arbitrary: a l)
  case 0
  then have "k = a" by simp
  have stop: "request_loop call send n (a + 1) l = (Inl (case l of None \<Rightarrow> Assertion_Error | Some e \<Rightarrow> e), [])" if "a = n" for l
    using that by (simp add: request_loop.simps)
  show ?case
  proof (cases "retryable (send a)")
    case True
    then have "a = n" using 0(5) \<open>k = a\<close> by simp
    then show ?thesis unfolding request_loop.simps [of call send n a l]
      using True stop [OF \<open>a = n\<close>] \<open>k = a\<close> retryable_is_error [OF True, of call] by (simp add: react_cases)
  next
    case False
    then show ?thesis using 0(3) \<open>k = a\<close> by (simp add: request_loop.simps [of call send n a] react_cases)
  qed
next
  case (Suc d)
  then have "a < k" by simp
  have r: "retryable (send a)" using Suc(5) \<open>a < k\<close> by simp
  have IH: "request_loop call send n (a + 1) l = (final_result call (send k),
     map (\<lambda>j. sleep_before_retry j (requested_wait (send j))) [a + 1..k - 1])" for l
    by (rule Suc(1)) (use Suc(2,4-6) \<open>a < k\<close> in auto)
  have "[a..k - 1] = a # [a + 1..k - 1]" using \<open>a < k\<close> by (simp add: upto_rec1)
  then show ?case using r IH \<open>a < k\<close> Suc(4) by (simp add: request_loop.simps [of call send n a] react_cases)
qed



subsection \<open>Changelog pages\<close>

text \<open>
  A server that keeps to Jira's description of the changelog pages: the page at \<open>startAt\<close> has the next
  entries, at most \<open>cap\<close>; \<open>isLast\<close> is only true on the last page and \<open>total\<close>, where present, is the
  number of entries.
\<close>

definition serves :: "raw_history list \<Rightarrow> nat \<Rightarrow> (int \<Rightarrow> client_error + changelog_page) \<Rightarrow> bool" where
  "serves hs cap fetch \<longleftrightarrow>
    (\<forall>start. 0 \<le> start \<longrightarrow>
      (case fetch start of
         Inl e \<Rightarrow> False
       | Inr page \<Rightarrow> pg_values page = take cap (drop (nat start) hs)
           \<and> (pg_is_last page = Some True \<longrightarrow> length hs \<le> nat start + cap)
           \<and> (pg_total page = None \<or> pg_total page = Some (int (length hs)))))"

lemma serves_page:
  assumes "serves hs cap fetch" and "0 \<le> start"
  obtains page where "fetch start = Inr page" and "pg_values page = take cap (drop (nat start) hs)"
    and "pg_is_last page = Some True \<Longrightarrow> length hs \<le> nat start + cap"
    and "pg_total page = None \<or> pg_total page = Some (int (length hs))"
  using assms unfolding serves_def by (cases "fetch start") (simp_all, force+)

lemma changelog_loop_complete:
  assumes "serves hs cap fetch" and "0 < cap" and "max_results \<le> int cap" and "0 \<le> start"
  shows "changelog_loop fetch nrm max_results start entries
    = Some (Inr (entries @ concat (map nrm (drop (nat start) hs))))"
  using assms(4)
proof (induction "length hs - nat start" arbitrary: start entries rule: less_induct)
  case less
  obtain page where page: "fetch start = Inr page" "pg_values page = take cap (drop (nat start) hs)"
    "pg_is_last page = Some True \<Longrightarrow> length hs \<le> nat start + cap"
    "pg_total page = None \<or> pg_total page = Some (int (length hs))"
    using serves_page [OF assms(1) less.prems] by blast
  let ?fetched = "int (length (pg_values page))" and ?acc = "entries @ concat (map nrm (pg_values page))"
  have len: "?fetched = int (min cap (length hs - nat start))" by (simp add: page(2))
  show ?case
  proof (cases "length hs \<le> nat start + cap")
    case True
    then have vals: "pg_values page = drop (nat start) hs" by (simp add: page(2))
    have fin: "changelog_loop fetch nrm max_results (start + ?fetched) ?acc = Some (Inr ?acc)" if "?fetched \<noteq> 0"
    proof -
      have "nat (start + ?fetched) = length hs" using len that True less.prems by (auto simp: min_def split: if_splits)
      moreover have "length hs - nat (start + ?fetched) < length hs - nat start"
        using that len less.prems by (auto simp: min_def split: if_splits)
      ultimately show ?thesis using less.hyps [of "start + ?fetched" ?acc] less.prems by simp
    qed
    then show ?thesis unfolding changelog_loop.simps [of fetch nrm max_results start entries]
      using fin by (simp add: page(1) Let_def vals)
  next
    case False
    then have f: "?fetched = int cap" using len by (auto simp: min_def)
    have "\<not> pg_is_last page = Some True" using False page(3) by blast
    moreover have "\<not> (case pg_total page of None \<Rightarrow> False | Some n \<Rightarrow> start + ?fetched \<ge> n)"
      using page(4) f False less.prems by (auto split: option.splits)
    moreover have "\<not> (?fetched = 0)" "\<not> (?fetched < max_results)" using f assms(2,3) by simp_all
    ultimately have "changelog_loop fetch nrm max_results start entries
        = changelog_loop fetch nrm max_results (start + ?fetched) ?acc"
      unfolding changelog_loop.simps [of fetch nrm max_results start entries] page(1) sum.case Let_def
      by (simp only: if_False simp_thms)
    then have "changelog_loop fetch nrm max_results start entries
        = changelog_loop fetch nrm max_results (start + int cap) ?acc" unfolding f .
    also have "\<dots> = Some (Inr (?acc @ concat (map nrm (drop (nat (start + int cap)) hs))))"
      by (rule less.hyps) (use False assms(2) less.prems in auto)
    also have "drop (nat start) hs = pg_values page @ drop (nat (start + int cap)) hs"
      using append_take_drop_id [of cap "drop (nat start) hs"] less.prems
      by (simp add: page(2) nat_add_distrib add.commute)
    then have "?acc @ concat (map nrm (drop (nat (start + int cap)) hs))
        = entries @ concat (map nrm (drop (nat start) hs))" by simp
    finally show ?thesis .
  qed
qed

text \<open>A server that sends shorter pages than the client asks for and names no last page: the client takes
  the first page for the whole changelog.\<close>

lemma changelog_loop_truncated:
  assumes "serves hs cap fetch" and "int cap < max_results" and "0 \<le> start"
  shows "changelog_loop fetch nrm max_results start entries
    = Some (Inr (entries @ concat (map nrm (take cap (drop (nat start) hs)))))"
proof -
  obtain page where page: "fetch start = Inr page" "pg_values page = take cap (drop (nat start) hs)"
    using serves_page [OF assms(1,3)] by blast
  have "int (length (pg_values page)) < max_results" using assms(2) by (simp add: page(2))
  then show ?thesis unfolding changelog_loop.simps [of fetch nrm max_results start entries] page(1) sum.case Let_def
    by (auto simp: page(2) split: option.splits)
qed

text \<open>C34: reading a changelog. Against a server that keeps to Jira's contract for pages the loop returns,
  and what it returns is decided by the page size: when the server grants the requested size, every
  entry of every history exactly once, oldest first; when it grants less, only the first page,
  whatever \<open>total\<close> says, as if it were the whole changelog.\<close>

theorem changelog_pages:
  assumes "serves hs cap fetch" and "0 < cap"
  shows "get_issue_changelog parse_iso fetch key 0 max_results = Some (Inr (concat (map (normalize_changelog_entry parse_iso key)
    (if max_results \<le> int cap then hs else take cap hs))))"
  using changelog_loop_complete [OF assms, of max_results 0 "normalize_changelog_entry parse_iso key" "[]"]
    changelog_loop_truncated [OF assms(1), of max_results 0 "normalize_changelog_entry parse_iso key" "[]"]
  by (simp add: get_issue_changelog_def)

definition sample_history :: "string \<Rightarrow> raw_history" where
  "sample_history v = \<lparr>hi_created = None,
     hi_items = [\<lparr>it_field_id = Some ''status'', it_field = None, it_from_string = None, it_to_string = Some v\<rparr>]\<rparr>"

definition sample_server :: "raw_history list \<Rightarrow> nat \<Rightarrow> int \<Rightarrow> client_error + changelog_page" where
  "sample_server hs cap start = Inr \<lparr>pg_values = take cap (drop (nat start) hs), pg_total = Some (int (length hs)),
     pg_is_last = None\<rparr>"

lemma sample_server_serves: "serves hs cap (sample_server hs cap)"
  by (simp add: serves_def sample_server_def)

lemma changelog_pages_witness:
  "get_issue_changelog (\<lambda>_. None) (sample_server (map sample_history [''a'', ''b'', ''c'']) 2) ''K-1'' 0 2
    = Some (Inr (concat (map (normalize_changelog_entry (\<lambda>_. None) ''K-1'') (map sample_history [''a'', ''b'', ''c'']))))
   \<and> get_issue_changelog (\<lambda>_. None) (sample_server (map sample_history [''a'', ''b'', ''c'']) 2) ''K-1'' 0 100
    = Some (Inr (concat (map (normalize_changelog_entry (\<lambda>_. None) ''K-1'') (map sample_history [''a'', ''b'']))))"
  using changelog_pages [OF sample_server_serves [of "map sample_history [''a'', ''b'', ''c'']" 2], of "\<lambda>_. None" "''K-1''" 2]
    changelog_pages [OF sample_server_serves [of "map sample_history [''a'', ''b'', ''c'']" 2], of "\<lambda>_. None" "''K-1''" 100]
  by simp

subsection \<open>Search pages\<close>

text \<open>The answer to the \<open>n\<close>-th search of a run, \<open>None\<close> when the run has stopped before.\<close>

primrec nth_search ::
  "(string option \<Rightarrow> client_error + 's list \<times> string option) \<Rightarrow> string option \<Rightarrow> nat
    \<Rightarrow> (client_error + 's list \<times> string option) option" where
  "nth_search search token 0 = Some (search token)"
| "nth_search search token (Suc n) =
    (case search token of
       Inl e \<Rightarrow> None
     | Inr (batch, returned) \<Rightarrow>
        (case next_token returned of None \<Rightarrow> None | Some t \<Rightarrow> nth_search search (Some t) n))"

definition last_page :: "(client_error + 's list \<times> string option) option \<Rightarrow> bool" where
  "last_page answer = (case answer of Some (Inl e) \<Rightarrow> True | Some (Inr (b, t)) \<Rightarrow> next_token t = None | None \<Rightarrow> False)"

fun batch_of :: "(client_error + 's list \<times> string option) option \<Rightarrow> 's list" where
  "batch_of (Some (Inr (b, t))) = b"
| "batch_of _ = []"

text \<open>The issues of the first pages, or the error of the last one.\<close>

definition pages_result :: "(client_error + 's list \<times> string option) option \<Rightarrow> 's list \<Rightarrow> client_error + 's list" where
  "pages_result answer all_issues = (case answer of Some (Inl e) \<Rightarrow> Inl e | _ \<Rightarrow> Inr all_issues)"

lemma fetch_loop_stops:
  "last_page (nth_search search token n) \<Longrightarrow> fetch_loop search token acc
    = Some (pages_result (nth_search search token n)
        (acc @ concat (map (\<lambda>k. batch_of (nth_search search token k)) [0..<Suc n])))"
proof (induction n arbitrary: token acc)
  case 0
  then show ?case
    by (auto simp: fetch_loop.simps [of search token] last_page_def pages_result_def split: sum.splits option.splits)
next
  case (Suc n)
  obtain b r t where s: "search token = Inr (b, r)" "next_token r = Some t"
    using Suc.prems by (auto simp: last_page_def split: sum.splits option.splits)
  have n: "nth_search search token (Suc k) = nth_search search (Some t) k" for k by (simp add: s)
  have "map (\<lambda>k. batch_of (nth_search search token k)) [0..<Suc (Suc n)]
      = b # map (\<lambda>k. batch_of (nth_search search (Some t) k)) [0..<Suc n]"
    unfolding map_upt_Suc [of _ "Suc n"] n by (simp add: s)
  moreover have "fetch_loop search token acc = fetch_loop search (Some t) (acc @ b)"
    by (simp add: fetch_loop.simps [of search token] s)
  moreover have "last_page (nth_search search (Some t) n)" using Suc.prems n by simp
  ultimately show ?case using Suc.IH [of "Some t" "acc @ b"] by (simp only: n concat.simps append_assoc)
qed

lemma fetch_loop_returns:
  assumes "fetch_loop search token acc = Some r"
  shows "\<exists>n. last_page (nth_search search token n)"
proof (rule fetch_loop.raw_induct [where P = "\<lambda>search token acc r. \<exists>n. last_page (nth_search search token n)", OF _ assms])
  fix loop search token acc r
  assume IH: "\<And>search token acc r. loop search token acc = Some r \<Longrightarrow> \<exists>n. last_page (nth_search search token n)"
    and eq: "(case search token of
       Inl e \<Rightarrow> Some (Inl e)
     | Inr (batch, returned) \<Rightarrow>
        (case next_token returned of
           None \<Rightarrow> Some (Inr (acc @ batch))
         | Some t \<Rightarrow> loop search (Some t) (acc @ batch))) = Some r"
  show "\<exists>n. last_page (nth_search search token n)"
  proof (cases "last_page (Some (search token))")
    case True
    then show ?thesis by (metis nth_search.simps(1))
  next
    case False
    then obtain b u t where s: "search token = Inr (b, u)" "next_token u = Some t"
      by (auto simp: last_page_def split: sum.splits option.splits)
    then have "loop search (Some t) (acc @ b) = Some r" using eq by simp
    from IH [OF this] obtain n where "last_page (nth_search search (Some t) n)" by blast
    then have "last_page (nth_search search token (Suc n))" by (simp add: s)
    then show ?thesis by blast
  qed
qed

text \<open>C33: fetching the issues of a project. The loop returns exactly when some page of the chain of
  tokens is an error or has no next token; then it returns that error, or the issues of all pages
  in order. A server that always names a next page keeps it running for ever.\<close>

theorem fetch_project_issues_liveness:
  "((\<exists>r. fetch_project_issues search = Some r) \<longleftrightarrow> (\<exists>n. last_page (nth_search search None n)))
   \<and> (\<forall>n. last_page (nth_search search None n) \<longrightarrow>
        fetch_project_issues search
        = Some (pages_result (nth_search search None n)
            (concat (map (\<lambda>k. batch_of (nth_search search None k)) [0..<Suc n]))))"
proof (intro conjI allI impI iffI)
  show "\<exists>n. last_page (nth_search search None n)" if "\<exists>r. fetch_project_issues search = Some r"
    using that fetch_loop_returns unfolding fetch_project_issues_def by blast
  show f: "fetch_project_issues search
        = Some (pages_result (nth_search search None n)
            (concat (map (\<lambda>k. batch_of (nth_search search None k)) [0..<Suc n])))"
    if "last_page (nth_search search None n)" for n
    using fetch_loop_stops [OF that, of "[]"] by (simp add: fetch_project_issues_def)
  show "\<exists>r. fetch_project_issues search = Some r" if "\<exists>n. last_page (nth_search search None n)"
    using that f by blast
qed

definition two_pages :: "string option \<Rightarrow> client_error + nat list \<times> string option" where
  "two_pages token = (case token of None \<Rightarrow> Inr ([1, 2], Some ''p2'') | Some t \<Rightarrow> Inr ([3], Some []))"

lemma fetch_project_issues_liveness_witness:
  "fetch_project_issues two_pages = Some (Inr [1, 2, 3])
   \<and> fetch_project_issues (\<lambda>token. Inr ([1 :: nat], Some ''again'')) = None"
proof
  have n: "nth_search two_pages None 1 = Some (Inr ([3], Some []))" "nth_search two_pages None 0 = Some (Inr ([1, 2], Some ''p2''))"
    by (simp_all add: two_pages_def next_token_def)
  then have "last_page (nth_search two_pages None 1)" by (simp add: last_page_def next_token_def)
  with fetch_project_issues_liveness [of two_pages]
  have "fetch_project_issues two_pages = Some (pages_result (nth_search two_pages None 1)
      (concat (map (\<lambda>k. batch_of (nth_search two_pages None k)) [0..<Suc 1])))" by blast
  then show "fetch_project_issues two_pages = Some (Inr [1, 2, 3])"
    by (simp add: pages_result_def n(1) n(1) [unfolded One_nat_def] n(2) upt_rec del: nth_search.simps)
  let ?loop = "\<lambda>token :: string option. Inr ([1 :: nat], Some ''again'') :: client_error + nat list \<times> string option"
  have "nth_search ?loop token n = Some (?loop token)" for token n
    by (induction n arbitrary: token) (simp_all add: next_token_def)
  then have "\<not> (\<exists>n. last_page (nth_search ?loop None n))" by (simp add: last_page_def next_token_def)
  then show "fetch_project_issues ?loop = None" using fetch_project_issues_liveness [of ?loop] by (cases "fetch_project_issues ?loop") auto
qed

end
