(* ===== verification/ErrorSanitizer.thy ===== *)
theory ErrorSanitizer
  imports Prelude
begin

text \<open>
  utils/error_sanitizer.py: the four regular expressions \<open>key \s* [=:] \s* value\<close>, their substitution by
  \<open>re.sub\<close> (leftmost matches, left to right, without overlap), stripping and shortening. A pattern's key
  is a list of steps: the characters that may precede the literal (\<open>[_-]?\<close>), and the literal in lower
  case. White space never is a separator or a value character, so greedy matching needs no
  backtracking.
\<close>

type_synonym key_pattern = "(string \<times> char) list"

definition literal_key :: "string \<Rightarrow> key_pattern" where
  "literal_key s = map (Pair []) s"

definition SENSITIVE_PATTERNS :: "key_pattern list" where
  "SENSITIVE_PATTERNS =
    [literal_key ''api'' @ [(''_-'', CHR ''t'')] @ literal_key ''oken'',
     literal_key ''authorization'', literal_key ''password'', literal_key ''secret'']"

fun match_key :: "key_pattern \<Rightarrow> string \<Rightarrow> (string \<times> string) option" where
  "match_key [] s = Some ([], s)"
| "match_key ((opts, l) # ks) s =
    (case s of
       [] \<Rightarrow> None
     | x # xs \<Rightarrow>
         (if x \<in> set opts
          then (case xs of
                  [] \<Rightarrow> None
                | y # ys \<Rightarrow> if lower_char y = l then map_option (\<lambda>(k, r). (x # y # k, r)) (match_key ks ys) else None)
          else if lower_char x = l then map_option (\<lambda>(k, r). (x # k, r)) (match_key ks xs) else None))"

definition is_separator :: "char \<Rightarrow> bool" where
  "is_separator c \<longleftrightarrow> c = CHR ''='' \<or> c = CHR '':''"

definition value_char :: "char \<Rightarrow> bool" where
  "value_char c \<longleftrightarrow> \<not> is_space c \<and> c \<noteq> CHR '','' \<and> c \<noteq> CHR '';''"

text \<open>A match at the head of the text: the part that is kept (\<open>\1\<close>), the value, and what follows.\<close>

definition match_at :: "key_pattern \<Rightarrow> string \<Rightarrow> (string \<times> string \<times> string) option" where
  "match_at ks s =
    (case match_key ks s of
       None \<Rightarrow> None
     | Some (k, r) \<Rightarrow>
         (case dropWhile is_space r of
            [] \<Rightarrow> None
          | e # r' \<Rightarrow>
              (let v = takeWhile value_char (dropWhile is_space r')
               in if is_separator e \<and> v \<noteq> []
                  then Some (k @ takeWhile is_space r @ [e] @ takeWhile is_space r', v,
                             dropWhile value_char (dropWhile is_space r'))
                  else None)))"

definition REDACTED :: string where "REDACTED = ''[REDACTED]''"

lemma match_at_shorter: "match_at ks s = Some (pre, v, rest) \<Longrightarrow> length rest < length s"
proof -
  assume m: "match_at ks s = Some (pre, v, rest)"
  then obtain k r where k: "match_key ks s = Some (k, r)" by (auto simp: match_at_def split: option.splits)
  have "length r \<le> length s" using k
    by (induction ks s arbitrary: k r rule: match_key.induct) (fastforce split: list.splits if_splits)+
  moreover have "length rest < length r"
    using m k length_dropWhile_le [of is_space r] length_dropWhile_le [of is_space "tl (dropWhile is_space r)"]
      length_dropWhile_le [of value_char "dropWhile is_space (tl (dropWhile is_space r))"]
    by (auto simp: match_at_def Let_def split: list.splits if_splits)
  ultimately show ?thesis by simp
qed

function redact :: "key_pattern \<Rightarrow> string \<Rightarrow> string" where
  "redact ks [] = []"
| "redact ks (c # cs) =
    (case match_at ks (c # cs) of
       None \<Rightarrow> c # redact ks cs
     | Some (pre, v, rest) \<Rightarrow> pre @ REDACTED @ redact ks rest)"
  by pat_completeness auto
termination by (relation "measure (length \<circ> snd)") (auto dest: match_at_shorter)

text \<open>\<open>s[:n]\<close>\<close>

definition py_prefix :: "int \<Rightarrow> string \<Rightarrow> string" where
  "py_prefix n s = (if 0 \<le> n then take (nat n) s else take (length s - nat (- n)) s)"

definition redact_all :: "string \<Rightarrow> string" where
  "redact_all s = fold redact SENSITIVE_PATTERNS s"

definition sanitize_error_detail :: "string \<Rightarrow> int \<Rightarrow> string" where
  "sanitize_error_detail detail max_length =
    (let s = strip (redact_all detail)
     in if int (length s) > max_length then py_prefix (max_length - 3) s @ ''...'' else s)"

definition DEFAULT_MAX_LENGTH :: int where "DEFAULT_MAX_LENGTH = 280"

subsection \<open>Matches and rewritten values\<close>

definition key_char :: "char \<Rightarrow> bool" where
  "key_char c \<longleftrightarrow> c \<noteq> CHR ''['' \<and> c \<noteq> CHR '']'' \<and> c \<noteq> CHR ''.'' \<and> \<not> is_separator c \<and> \<not> is_space c"

definition plain_key :: "key_pattern \<Rightarrow> bool" where
  "plain_key ks \<longleftrightarrow> (\<forall>(opts, l) \<in> set ks. (\<forall>x \<in> set opts. key_char x) \<and> (\<forall>x. lower_char x = l \<longrightarrow> key_char x))"

text \<open>The characters the kept part of a match consists of.\<close>

definition kept_char :: "char \<Rightarrow> bool" where
  "kept_char c \<longleftrightarrow> c \<noteq> CHR ''['' \<and> c \<noteq> CHR '']'' \<and> c \<noteq> CHR ''.''"

definition gap_char :: "char \<Rightarrow> bool" where
  "gap_char c \<longleftrightarrow> is_separator c \<or> is_space c"

definition ends_word :: "string \<Rightarrow> bool" where
  "ends_word s \<longleftrightarrow> s = [] \<or> \<not> value_char (hd s)"

lemma match_key_split: "match_key ks s = Some (k, r) \<Longrightarrow> k @ r = s"
proof (induction ks arbitrary: s k r)
  case (Cons st ks)
  obtain opts l where st: "st = (opts, l)" by (cases st)
  note IH = Cons.IH
  show ?case using Cons.prems by (auto simp: st dest: IH split: list.splits if_splits)
qed simp

lemma match_key_Cons:
  "match_key ((opts, l) # ks) s = Some (k, r) \<longleftrightarrow>
    (\<exists>x y ys k'. s = x # y # ys \<and> x \<in> set opts \<and> lower_char y = l \<and> match_key ks ys = Some (k', r) \<and> k = x # y # k')
    \<or> (\<exists>x xs k'. s = x # xs \<and> x \<notin> set opts \<and> lower_char x = l \<and> match_key ks xs = Some (k', r) \<and> k = x # k')"
  by (auto split: list.splits if_splits)

lemma match_key_append: "match_key ks s = Some (k, r) \<Longrightarrow> match_key ks (k @ r') = Some (k, r')"
proof (induction ks arbitrary: s k r)
  case (Cons st ks)
  obtain opts l where st: "st = (opts, l)" by (cases st)
  from Cons.prems consider (opt) x y ys k' where "x \<in> set opts" "lower_char y = l"
      "match_key ks ys = Some (k', r)" "k = x # y # k'"
    | (lit) x xs k' where "x \<notin> set opts" "lower_char x = l" "match_key ks xs = Some (k', r)" "k = x # k'"
    unfolding st match_key_Cons by blast
  then show ?case by cases (use Cons.IH in \<open>simp_all add: st\<close>)
qed simp

lemma match_key_chars: "match_key ks s = Some (k, r) \<Longrightarrow> plain_key ks \<Longrightarrow> \<forall>x \<in> set k. key_char x"
proof (induction ks arbitrary: s k r)
  case (Cons st ks)
  obtain opts l where st: "st = (opts, l)" by (cases st)
  have p: "plain_key ks" "\<And>x. x \<in> set opts \<Longrightarrow> key_char x" "\<And>x. lower_char x = l \<Longrightarrow> key_char x"
    using Cons.prems(2) by (auto simp: plain_key_def st)
  show ?case using Cons.prems(1) Cons.IH [OF _ p(1)] p(2,3) unfolding st match_key_Cons by auto
qed simp

lemma span_append:
  assumes "\<forall>x \<in> set a. P x" and "b = [] \<or> \<not> P (hd b)"
  shows "takeWhile P (a @ b) = a" and "dropWhile P (a @ b) = b"
  using assms by (induction a) (auto simp: takeWhile_eq_Nil_iff dropWhile_eq_self_iff)

lemma space_not_separator: "is_space c \<Longrightarrow> \<not> is_separator c"
  by (auto simp: is_separator_def is_space_def Let_def)

lemma space_facts: "is_space c \<Longrightarrow> kept_char c" "is_separator c \<Longrightarrow> kept_char c" "is_separator c \<Longrightarrow> \<not> is_space c"
  by (auto simp: is_separator_def is_space_def kept_char_def Let_def)

text \<open>The shape of a match.\<close>

lemma match_at_shape:
  assumes "match_at ks s = Some (pre, v, rest)" and "plain_key ks"
  obtains k sp e sp' where "pre = k @ sp @ [e] @ sp'" and "is_separator e"
    and "\<And>x. x \<in> set (k @ sp @ sp') \<Longrightarrow> \<not> is_separator x" and "\<And>x. x \<in> set sp' \<Longrightarrow> is_space x"
    and "\<And>x. x \<in> set pre \<Longrightarrow> kept_char x" and "s = pre @ v @ rest" and "v \<noteq> []"
    and "\<And>x. x \<in> set v \<Longrightarrow> value_char x" and "ends_word rest"
    and "\<And>w x. w \<noteq> [] \<Longrightarrow> (\<forall>c \<in> set w. value_char c) \<Longrightarrow> ends_word x \<Longrightarrow> match_at ks (pre @ w @ x) = Some (pre, w, x)"
proof -
  obtain k r where k: "match_key ks s = Some (k, r)" using assms(1) by (auto simp: match_at_def split: option.splits)
  have m: "(case dropWhile is_space r of [] \<Rightarrow> None
     | e # r' \<Rightarrow> if is_separator e \<and> takeWhile value_char (dropWhile is_space r') \<noteq> []
         then Some (k @ takeWhile is_space r @ [e] @ takeWhile is_space r',
           takeWhile value_char (dropWhile is_space r'), dropWhile value_char (dropWhile is_space r'))
         else None) = Some (pre, v, rest)"
    using assms(1) unfolding match_at_def k option.case prod.case Let_def .
  then obtain e r' where e1: "dropWhile is_space r = e # r'" by (auto split: list.splits)
  have e: "is_separator e" "pre = k @ takeWhile is_space r @ [e] @ takeWhile is_space r'"
    "v = takeWhile value_char (dropWhile is_space r')" "rest = dropWhile value_char (dropWhile is_space r')" "v \<noteq> []"
    using m unfolding e1 list.case by (auto split: if_splits)
  note e = e1 e
  let ?sp = "takeWhile is_space r" and ?sp' = "takeWhile is_space r'"
  have r: "r = ?sp @ e # r'" using takeWhile_dropWhile_id [of is_space r] unfolding e(1) by (rule sym)
  have r': "r' = ?sp' @ v @ rest" using e(4,5) by simp
  note kc = match_key_chars [OF k assms(2)]
  have rest: "ends_word rest"
    unfolding e(5) ends_word_def using hd_dropWhile by blast
  have sp: "\<forall>x \<in> set ?sp. is_space x" "\<forall>x \<in> set ?sp'. is_space x" and v: "\<forall>x \<in> set v. value_char x"
    unfolding e(4) by (blast dest: set_takeWhileD)+
  have "?sp @ e # ?sp' @ v @ rest = r" by (simp only: r' [symmetric] r [symmetric])
  then have s: "s = pre @ v @ rest" using match_key_split [OF k] e(3) by simp
  have sep: "\<forall>x \<in> set (k @ ?sp @ ?sp'). \<not> is_separator x"
    using kc sp space_not_separator by (simp add: key_char_def ball_Un)
  have kept: "\<forall>x \<in> set pre. kept_char x"
    using kc sp space_facts(1) space_facts(2) [OF e(2)] unfolding e(3)
    by (simp add: key_char_def kept_char_def ball_Un)
  have frame: "match_at ks (pre @ w @ x) = Some (pre, w, x)"
    if w: "w \<noteq> []" "\<forall>c \<in> set w. value_char c" and x: "ends_word x" for w x
  proof -
    have hw: "\<not> is_space (hd (w @ x))" using w by (cases w) (auto simp: value_char_def)
    note ws = span_append [OF sp(2) disjI2, OF hw]
    have vs: "takeWhile value_char (w @ x) = w" "dropWhile value_char (w @ x) = x"
      using span_append [OF w(2)] x by (simp_all add: ends_word_def)
    have hs: "\<not> is_space (hd (e # y))" for y using space_facts(3) [OF e(2)] by simp
    note es = span_append [OF sp(1) disjI2, OF hs]
    have "match_key ks (pre @ w @ x) = Some (k, ?sp @ e # ?sp' @ w @ x)"
      unfolding e(3) using match_key_append [OF k] by simp
    then show ?thesis using w(1) e(2) unfolding match_at_def
      by (simp add: Let_def es ws vs e(3) [symmetric] del: append_assoc) (simp add: e(3))
  qed
  from that [OF e(3,2) _ _ _ s e(6) _ rest frame] show ?thesis using sep sp(2) kept v by blast
qed

text \<open>\<open>rewritten b s s'\<close>: the text \<open>s'\<close> is \<open>s\<close> with some maximal runs of value characters, each right
  after a separator or white space, replaced; \<open>b\<close> says whether such a character comes before.\<close>

inductive rewritten :: "bool \<Rightarrow> string \<Rightarrow> string \<Rightarrow> bool" where
  empty: "rewritten b [] []"
| keep: "rewritten (gap_char c) s s' \<Longrightarrow> rewritten b (c # s) (c # s')"
| replace: "v \<noteq> [] \<Longrightarrow> \<forall>c \<in> set v. value_char c \<Longrightarrow> ends_word rest \<Longrightarrow> rewritten False rest rest'
    \<Longrightarrow> rewritten True (v @ rest) (REDACTED @ rest')"

lemma rewritten_any: "rewritten False s s' \<Longrightarrow> rewritten b s s'"
  by (cases b) (auto elim: rewritten.cases intro: rewritten.intros)

lemma rewritten_prefix:
  "rewritten (if pre = [] then b else gap_char (last pre)) s s' \<Longrightarrow> rewritten b (pre @ s) (pre @ s')"
proof (induction pre arbitrary: b)
  case (Cons c pre)
  have "rewritten (if pre = [] then gap_char c else gap_char (last pre)) s s'"
    using Cons.prems by (cases "pre = []") simp_all
  from Cons.IH [OF this] show ?case by (simp add: rewritten.keep)
qed simp

lemma redacted_chars: "REDACTED \<noteq> []" "hd REDACTED = CHR ''[''" "last REDACTED = CHR '']''"
  "\<forall>c \<in> set REDACTED. value_char c \<and> \<not> gap_char c"
  by (simp_all add: REDACTED_def value_char_def gap_char_def is_separator_def is_space_def)

lemma rewritten_False_keeps:
  "rewritten False (w @ x) s' \<Longrightarrow> \<forall>c \<in> set w. \<not> gap_char c \<Longrightarrow> \<exists>x'. s' = w @ x' \<and> rewritten False x x'"
proof (induction w arbitrary: s')
  case (Cons c w)
  from Cons.prems(1) obtain s1 where "s' = c # s1" "rewritten (gap_char c) (w @ x) s1"
    by (auto elim: rewritten.cases)
  with Cons show ?case by auto
qed simp

lemma rewritten_ends: "rewritten False rest rest' \<Longrightarrow> ends_word rest \<Longrightarrow> ends_word rest'"
  by (auto elim: rewritten.cases simp: ends_word_def)

lemma append_split:
  assumes "xs @ ys = zs @ ts"
  obtains (left) us where "xs = zs @ us" "us @ ys = ts" | (right) us where "zs = xs @ us" "ys = us @ ts"
  using assms by (auto simp: append_eq_append_conv2)

text \<open>Text without an opening bracket was not written by a replacement.\<close>

lemma rewritten_kept_prefix:
  "rewritten b s (pre @ t') \<Longrightarrow> \<forall>c \<in> set pre. kept_char c
    \<Longrightarrow> \<exists>t. s = pre @ t \<and> rewritten (if pre = [] then b else gap_char (last pre)) t t'"
proof (induction pre arbitrary: s b)
  case (Cons c pre)
  from Cons.prems(1) obtain s1 where s: "s = c # s1" "rewritten (gap_char c) s1 (pre @ t')"
  proof cases
    case (replace v rest rest')
    then have "c = CHR ''[''" by (simp add: REDACTED_def)
    then show ?thesis using Cons.prems(2) by (simp add: kept_char_def)
  qed auto
  with Cons.IH [OF s(2)] Cons.prems(2) show ?case by (cases "pre = []") auto
qed simp

lemma rewritten_value:
  assumes "rewritten True t (v' @ rest')" and "v' \<noteq> []" and "\<forall>c \<in> set v'. value_char c" and "ends_word rest'"
  shows "takeWhile value_char t \<noteq> []" and "takeWhile value_char t = REDACTED \<Longrightarrow> v' = REDACTED"
proof -
  have v': "takeWhile value_char (v' @ rest') = v'"
    using span_append(1) [OF assms(3)] assms(4) by (simp add: ends_word_def)
  from assms(1) show "takeWhile value_char t \<noteq> []"
  proof cases
    case (replace v rest rest2)
    then show ?thesis by (cases v) auto
  next
    case (keep c s s')
    then show ?thesis using assms(2,3) by (cases v') auto
  qed (use assms(2) in auto)
  assume r: "takeWhile value_char t = REDACTED"
  from assms(1) show "v' = REDACTED"
  proof cases
    case (replace v rest rest2)
    have "takeWhile value_char (REDACTED @ rest2) = REDACTED"
      using span_append(1) [of REDACTED value_char rest2] redacted_chars(4) rewritten_ends [OF replace(6,5)]
      by (simp add: ends_word_def)
    then show ?thesis using v' replace(2) by simp
  next
    case (keep c s s')
    have t: "t = REDACTED @ dropWhile value_char t" using takeWhile_dropWhile_id [of value_char t] r by simp
    have c: "c = CHR ''[''" using t keep(1) redacted_chars(1,2) by (metis hd_append2 list.sel(1))
    have "rewritten False (tl REDACTED @ dropWhile value_char t) s'"
      using t keep(1,3) c redacted_chars(1)
      by (metis (full_types) list.sel(3) tl_append2 gap_char_def redacted_chars(2,4) hd_in_set)
    then obtain x' where x: "s' = tl REDACTED @ x'" "rewritten False (dropWhile value_char t) x'"
      using rewritten_False_keeps redacted_chars(1,4) by (metis list.set_sel(2))
    have "ends_word (dropWhile value_char t)" unfolding ends_word_def using hd_dropWhile by blast
    then have "takeWhile value_char (REDACTED @ x') = REDACTED"
      using span_append(1) [of REDACTED value_char x'] redacted_chars(4) rewritten_ends [OF x(2)]
      by (simp add: ends_word_def)
    moreover have "v' @ rest' = REDACTED @ x'" using keep(2) c x(1) by (simp add: REDACTED_def)
    ultimately show ?thesis using v' by simp
  qed (use assms(2) in auto)
qed

subsection \<open>Nothing but the marker after a key\<close>

definition clean :: "key_pattern \<Rightarrow> string \<Rightarrow> bool" where
  "clean ks s \<longleftrightarrow> (\<forall>a t pre v rest. s = a @ t \<longrightarrow> match_at ks t = Some (pre, v, rest) \<longrightarrow> v = REDACTED)"

lemma match_in_rewritten:
  assumes "rewritten b s t'" and "match_at ks t' = Some (pre, v', rest')" and "plain_key ks"
  obtains v rest where "match_at ks s = Some (pre, v, rest)" and "v = REDACTED \<Longrightarrow> v' = REDACTED"
proof -
  from match_at_shape [OF assms(2,3)] obtain k sp e sp' where
    pre: "pre = k @ sp @ [e] @ sp'" "is_separator e" "\<And>x. x \<in> set sp' \<Longrightarrow> is_space x"
      "\<And>x. x \<in> set pre \<Longrightarrow> kept_char x"
    and t': "t' = pre @ v' @ rest'" "v' \<noteq> []" "\<And>x. x \<in> set v' \<Longrightarrow> value_char x" "ends_word rest'"
    and frame: "\<And>w x. w \<noteq> [] \<Longrightarrow> (\<forall>c \<in> set w. value_char c) \<Longrightarrow> ends_word x \<Longrightarrow> match_at ks (pre @ w @ x) = Some (pre, w, x)"
    by (metis (no_types, lifting))
  have gap: "pre \<noteq> []" "gap_char (last pre)" using pre(1-3) by (cases "sp' = []"; simp add: gap_char_def)+
  obtain t where t: "s = pre @ t" "rewritten True t (v' @ rest')"
    using rewritten_kept_prefix [of b s pre "v' @ rest'"] assms(1) t'(1) pre(4) gap by auto
  note tv = rewritten_value [OF t(2) t'(2) _ t'(4)]
  have e: "ends_word (dropWhile value_char t)" unfolding ends_word_def using hd_dropWhile by blast
  have "match_at ks s = Some (pre, takeWhile value_char t, dropWhile value_char t)"
    using frame [OF tv(1) _ e] t'(3) t(1) by (auto dest: set_takeWhileD)
  then show ?thesis using that tv(2) t'(3) by blast
qed

lemma no_match_in_marker:
  assumes "match_at ks (r2 @ x) = Some (pre, v, rest)" and "plain_key ks" and "REDACTED = r1 @ r2" and "r2 \<noteq> []"
  shows False
proof -
  from match_at_shape [OF assms(1,2)] obtain k sp e sp' where
    pre: "pre = k @ sp @ [e] @ sp'" "is_separator e" "\<And>x. x \<in> set pre \<Longrightarrow> kept_char x" "r2 @ x = pre @ v @ rest"
    by (metis (no_types, lifting))
  have last: "last r2 = CHR '']''" using assms(3,4) redacted_chars(3) by (metis last_appendR)
  obtain us where "r2 = pre @ us \<or> pre = r2 @ us" using pre(4) by (auto simp: append_eq_append_conv2)
  then show False
  proof
    assume "r2 = pre @ us"
    then have "e \<in> set REDACTED" unfolding assms(3) pre(1) by simp
    then show False using redacted_chars(4) pre(2) by (auto simp: gap_char_def)
  next
    assume "pre = r2 @ us"
    then have "kept_char (CHR '']'')" using pre(3) last assms(4) by (metis Un_iff last_in_set set_append)
    then show False by (simp add: kept_char_def)
  qed
qed

lemma rewritten_suffix:
  "rewritten b s (a' @ t') \<Longrightarrow>
    (\<exists>a t b'. s = a @ t \<and> rewritten b' t t') \<or> (\<exists>r1 r2 x. REDACTED = r1 @ r2 \<and> r2 \<noteq> [] \<and> t' = r2 @ x)"
proof (induction b s "a' @ t'" arbitrary: a' rule: rewritten.induct)
  case (empty b)
  then show ?case by (auto intro: rewritten.empty)
next
  case (keep c s s' b)
  show ?case
  proof (cases a')
    case Nil
    then have "rewritten b (c # s) t'" using keep(1,3) by (metis append_Nil rewritten.keep)
    then show ?thesis by (metis append_Nil)
  next
    case (Cons c' a2)
    then have "s' = a2 @ t'" using keep(3) by simp
    from keep(2) [OF this] show ?thesis by (metis append_Cons)
  qed
next
  case (replace v rest rest')
  from replace(6) show ?case
  proof (cases rule: append_split)
    case (left us)
    then show ?thesis using replace(4) by (cases "us = []") (auto, blast)
  next
    case (right us)
    from replace(5) [OF right(2)] show ?thesis
    proof
      assume "\<exists>a t b'. rest = a @ t \<and> rewritten b' t t'"
      then obtain a t b' where "rest = a @ t" "rewritten b' t t'" by blast
      then have "v @ rest = (v @ a) @ t \<and> rewritten b' t t'" by simp
      then show ?thesis by blast
    qed blast
  qed
qed

lemma clean_rewritten:
  assumes "clean ks s" and "rewritten b s s'" and "plain_key ks"
  shows "clean ks s'"
  unfolding clean_def
proof (intro allI impI)
  fix a' t' pre v' rest' assume t': "s' = a' @ t'" and m: "match_at ks t' = Some (pre, v', rest')"
  from rewritten_suffix [of b s a' t'] assms(2) t'
  consider a t b' where "s = a @ t" "rewritten b' t t'" | r1 r2 x where "REDACTED = r1 @ r2" "r2 \<noteq> []" "t' = r2 @ x"
    by blast
  then show "v' = REDACTED"
  proof cases
    case 1
    obtain v rest where "match_at ks t = Some (pre, v, rest)" "v = REDACTED \<longrightarrow> v' = REDACTED"
      using match_in_rewritten [OF 1(2) m assms(3)] by blast
    then show ?thesis using assms(1) 1(1) unfolding clean_def by blast
  next
    case 2
    then show ?thesis using no_match_in_marker m assms(3) by blast
  qed
qed

text \<open>A pass of a pattern rewrites values and leaves no other value behind.\<close>

lemma redact_rewritten: "plain_key ks \<Longrightarrow> rewritten b s (redact ks s)"
proof (induction ks s arbitrary: b rule: redact.induct)
  case (1 ks)
  then show ?case by (simp add: rewritten.empty)
next
  case (2 ks c cs)
  show ?case
  proof (cases "match_at ks (c # cs)")
    case None
    then show ?thesis using 2 by (simp add: rewritten.keep)
  next
    case (Some m)
    obtain pre v rest where m: "match_at ks (c # cs) = Some (pre, v, rest)" using Some by (cases m) auto
    from match_at_shape [OF m 2(3)] obtain k sp e sp' where
      pre: "pre = k @ sp @ [e] @ sp'" "is_separator e" "\<And>x. x \<in> set sp' \<Longrightarrow> is_space x"
      and s: "c # cs = pre @ v @ rest" "v \<noteq> []" "\<And>x. x \<in> set v \<Longrightarrow> value_char x" "ends_word rest"
      by (metis (no_types, lifting))
    have "gap_char (last pre)" "pre \<noteq> []" using pre by (cases "sp' = []"; simp add: gap_char_def)+
    moreover have "rewritten True (v @ rest) (REDACTED @ redact ks rest)"
      using s 2(2) [OF m refl refl 2(3)] by (intro rewritten.replace) auto
    ultimately have "rewritten b (pre @ v @ rest) (pre @ REDACTED @ redact ks rest)"
      by (intro rewritten_prefix) simp
    moreover have "redact ks (c # cs) = pre @ REDACTED @ redact ks rest" using m by simp
    ultimately show ?thesis by (simp only: s(1))
  qed
qed

text \<open>A stretch of kept text: after a separator only white space follows.\<close>

definition kept_text :: "string \<Rightarrow> bool" where
  "kept_text u \<longleftrightarrow> (\<forall>p z e. u = p @ z \<longrightarrow> e \<in> set p \<longrightarrow> is_separator e \<longrightarrow> (\<forall>x \<in> set z. is_space x))"

lemma kept_text_suffix: "kept_text (a @ u) \<Longrightarrow> kept_text u"
  unfolding kept_text_def by (metis Un_iff append.assoc set_append)

lemma kept_text_match:
  assumes "\<forall>x \<in> set k. \<not> is_separator x" and "\<forall>x \<in> set sp. is_space x"
  shows "kept_text (k @ [e] @ sp)"
  unfolding kept_text_def
proof (intro allI impI ballI)
  fix p z e' x assume "k @ [e] @ sp = p @ z" and e': "e' \<in> set p" "is_separator e'" and x: "x \<in> set z"
  then show "is_space x"
  proof (cases rule: append_split)
    case (left us)
    then show ?thesis using e' assms(1) by auto
  next
    case (right us)
    then show ?thesis using e' assms x by (cases us) auto
  qed
qed

lemma match_before_marker:
  assumes "match_at ks (u @ REDACTED @ x) = Some (pre, v, rest)" and "plain_key ks" and "kept_text u" and "ends_word x"
  shows "v = REDACTED"
proof -
  from match_at_shape [OF assms(1,2)] obtain k sp e sp' where
    pre: "pre = k @ sp @ [e] @ sp'" "is_separator e" "\<And>x. x \<in> set pre \<Longrightarrow> kept_char x"
    and t: "u @ REDACTED @ x = pre @ v @ rest" "v \<noteq> []" "\<And>x. x \<in> set v \<Longrightarrow> value_char x" "ends_word rest"
    by (metis (no_types, lifting))
  have v: "takeWhile value_char (v @ rest) = v"
    using span_append(1) [of v value_char rest] t(3,4) by (simp add: ends_word_def)
  have marker: "takeWhile value_char (REDACTED @ x) = REDACTED"
    using span_append(1) [of REDACTED value_char x] redacted_chars(4) assms(4) by (simp add: ends_word_def)
  from t(1) have "v @ rest = REDACTED @ x"
  proof (cases rule: append_split)
    case (left z)
    have "e \<in> set pre" using pre(1) by simp
    then have "\<forall>x \<in> set z. is_space x" using assms(3) left(1) pre(2) unfolding kept_text_def by blast
    moreover have "value_char (hd z)" if "z \<noteq> []" using left(2) that t(2,3) by (metis hd_append2 list.set_sel(1))
    ultimately have "z = []" by (metis list.set_sel(1) value_char_def)
    then show ?thesis using left(2) by simp
  next
    case (right z)
    have "z = []"
    proof (rule ccontr)
      assume "z \<noteq> []"
      then have "hd z = CHR ''[''" using right(2) redacted_chars(1,2) by (metis hd_append2)
      then have "kept_char (CHR ''['')" using pre(3) right(1) \<open>z \<noteq> []\<close> by (metis Un_iff list.set_sel(1) set_append)
      then show False by (simp add: kept_char_def)
    qed
    then show ?thesis using right(2) by simp
  qed
  then show ?thesis using v marker by simp
qed

lemma redact_clean_step:
  assumes "kept_text pre" and "ends_word x" and "plain_key ks" and "clean ks x"
  shows "clean ks (pre @ REDACTED @ x)"
  unfolding clean_def
proof (intro allI impI)
  fix a t pre2 v2 rest2
  assume t: "pre @ REDACTED @ x = a @ t" and m2: "match_at ks t = Some (pre2, v2, rest2)"
  from t show "v2 = REDACTED"
  proof (cases rule: append_split)
    case (left us)
    have "kept_text us" using kept_text_suffix assms(1) left(1) by blast
    then show ?thesis using match_before_marker m2 assms(2,3) left(2) by metis
  next
    case (right us)
    from right(2) show ?thesis
    proof (cases rule: append_split)
      case (left w)
      then show ?thesis using no_match_in_marker [of ks w x] m2 assms(3,4) unfolding clean_def
        by (cases "w = []") (metis append_Nil, metis)
    next
      case (right w)
      then show ?thesis using assms(4) m2 unfolding clean_def by blast
    qed
  qed
qed

lemma redact_clean: "plain_key ks \<Longrightarrow> clean ks (redact ks s)"
proof (induction ks s rule: redact.induct)
  case (1 ks)
  have "match_at ks [] = None" by (auto simp: match_at_def split: option.splits dest!: match_key_split)
  then show ?case by (simp add: clean_def)
next
  case (2 ks c cs)
  note p = 2(3)
  show ?case
  proof (cases "match_at ks (c # cs)")
    case None
    then have r: "redact ks (c # cs) = c # redact ks cs" by simp
    show ?thesis unfolding r clean_def
    proof (intro allI impI)
      fix a t pre v rest assume t: "c # redact ks cs = a @ t" and m: "match_at ks t = Some (pre, v, rest)"
      show "v = REDACTED"
      proof (cases a)
        case Nil
        then have "match_at ks (redact ks (c # cs)) = Some (pre, v, rest)" using t r m by simp
        from match_in_rewritten [OF redact_rewritten [OF p] this p] None show ?thesis by (metis option.distinct(1))
      next
        case (Cons x a2)
        then show ?thesis using 2(1) [OF None p] t m unfolding clean_def by simp
      qed
    qed
  next
    case (Some m)
    obtain pre v rest where m: "match_at ks (c # cs) = Some (pre, v, rest)" using Some by (cases m) auto
    have r: "redact ks (c # cs) = pre @ REDACTED @ redact ks rest" using m by simp
    from match_at_shape [OF m p] obtain k sp e sp' where
      pre: "pre = k @ sp @ [e] @ sp'" "\<And>x. x \<in> set (k @ sp @ sp') \<Longrightarrow> \<not> is_separator x" "\<And>x. x \<in> set sp' \<Longrightarrow> is_space x"
      and rest: "ends_word rest"
      by (metis (no_types, lifting))
    have "kept_text ((k @ sp) @ [e] @ sp')" by (rule kept_text_match) (use pre in auto)
    then show ?thesis unfolding r
      using redact_clean_step [of pre "redact ks rest" ks] pre(1)
        rewritten_ends [OF redact_rewritten [OF p] rest] p 2(2) [OF m refl refl p] by simp
  qed
qed

subsection \<open>The sanitised text\<close>

lemma plain_literal:
  assumes "(97 :: nat) \<le> of_char l" and "(of_char l :: nat) \<le> 122" and "lower_char x = l"
  shows "key_char x"
proof -
  have "lower_char x = x" if "(of_char x :: nat) < 65 \<or> 90 < (of_char x :: nat)"
    using that by (auto simp: lower_char_def Let_def)
  then have "65 \<le> (of_char x :: nat) \<and> (of_char x :: nat) \<le> 90 \<or> 97 \<le> (of_char x :: nat) \<and> (of_char x :: nat) \<le> 122"
    using assms by (metis not_less)
  then show ?thesis by (auto simp: key_char_def is_separator_def is_space_def Let_def)
qed

definition literal_steps :: "key_pattern \<Rightarrow> bool" where
  "literal_steps ks \<longleftrightarrow> (\<forall>st \<in> set ks. (\<forall>x \<in> set (fst st). key_char x)
     \<and> (97 :: nat) \<le> of_char (snd st) \<and> (of_char (snd st) :: nat) \<le> 122)"

lemma plain_patterns:
  assumes "ks \<in> set SENSITIVE_PATTERNS"
  shows "plain_key ks"
proof -
  have "list_all literal_steps SENSITIVE_PATTERNS" by code_simp
  then have st: "\<forall>st \<in> set ks. (\<forall>x \<in> set (fst st). key_char x)
     \<and> (97 :: nat) \<le> of_char (snd st) \<and> (of_char (snd st) :: nat) \<le> 122"
    using assms unfolding literal_steps_def list_all_iff by blast
  show ?thesis unfolding plain_key_def
  proof (intro ballI)
    fix s assume s: "s \<in> set ks"
    show "case s of (opts, l) \<Rightarrow> (\<forall>x \<in> set opts. key_char x) \<and> (\<forall>x. lower_char x = l \<longrightarrow> key_char x)"
      using bspec [OF st s] plain_literal [of "snd s"] by (simp add: split_beta)
  qed
qed

lemma redact_all_clean:
  assumes "ks \<in> set SENSITIVE_PATTERNS"
  shows "clean ks (redact_all s)"
proof -
  have "(\<forall>ks \<in> set done. clean ks s) \<Longrightarrow> \<forall>ks \<in> set ps. plain_key ks \<Longrightarrow> \<forall>ks \<in> set done. plain_key ks
      \<Longrightarrow> \<forall>ks \<in> set ps \<union> set done. clean ks (fold redact ps s)" for ps "done" :: "key_pattern list" and s
  proof (induction ps arbitrary: s "done")
    case (Cons p ps)
    have "\<forall>ks \<in> set (p # done). clean ks (redact p s)"
      using Cons.prems redact_clean clean_rewritten [OF _ redact_rewritten] by auto
    from Cons.IH [OF this] Cons.prems(2,3) show ?case by auto
  qed simp
  from this [of "[]" s SENSITIVE_PATTERNS] show ?thesis
    using assms plain_patterns unfolding redact_all_def by simp
qed

lemma clean_suffix: "clean ks (a @ s) \<Longrightarrow> clean ks s"
  unfolding clean_def by (metis append.assoc)

lemma clean_prefix:
  assumes "clean ks (s @ b)" and "\<forall>x \<in> set b. is_space x" and "plain_key ks"
  shows "clean ks s"
  unfolding clean_def
proof (intro allI impI)
  fix a t pre v rest assume s: "s = a @ t" and m: "match_at ks t = Some (pre, v, rest)"
  from match_at_shape [OF m assms(3)] have t: "t = pre @ v @ rest" "v \<noteq> []" "\<forall>c \<in> set v. value_char c" "ends_word rest"
    and frame: "\<And>w x. w \<noteq> [] \<Longrightarrow> (\<forall>c \<in> set w. value_char c) \<Longrightarrow> ends_word x \<Longrightarrow> match_at ks (pre @ w @ x) = Some (pre, w, x)"
    by (metis (no_types, lifting))+
  have "ends_word (rest @ b)" using t(4) assms(2) by (cases rest; cases b) (auto simp: ends_word_def value_char_def)
  from frame [OF t(2,3) this] have "match_at ks (t @ b) = Some (pre, v, rest @ b)" using t(1) by simp
  then show "v = REDACTED" using assms(1) s unfolding clean_def by (metis append.assoc)
qed

lemma strip_parts:
  obtains a b where "s = a @ strip s @ b" and "\<forall>x \<in> set b. is_space x"
proof -
  let ?d = "dropWhile is_space s"
  have "strip s = rev (dropWhile is_space (rev ?d))" by (simp add: strip_def strip_by_def)
  moreover have "?d = rev (dropWhile is_space (rev ?d)) @ rev (takeWhile is_space (rev ?d))"
    by (metis rev_append rev_rev_ident takeWhile_dropWhile_id)
  ultimately have "s = takeWhile is_space s @ strip s @ rev (takeWhile is_space (rev ?d))"
    by (metis takeWhile_dropWhile_id)
  then show ?thesis using that by (metis set_rev set_takeWhileD)
qed

text \<open>Shortening can cut a marker in two.\<close>

definition safe_value :: "string \<Rightarrow> bool" where
  "safe_value v \<longleftrightarrow> v = REDACTED \<or> (\<exists>n. v = take n REDACTED @ ''...'')"

lemma shortened_match:
  assumes "clean ks (w @ u)" and "plain_key ks" and "w @ ''...'' = a @ t" and "match_at ks t = Some (pre, v, rest)"
  shows "safe_value v"
proof -
  from match_at_shape [OF assms(4,2)] obtain k sp e sp' where
    pre: "pre = k @ sp @ [e] @ sp'" "is_separator e" "\<And>x. x \<in> set pre \<Longrightarrow> kept_char x"
    and t: "t = pre @ v @ rest" "v \<noteq> []" "\<And>x. x \<in> set v \<Longrightarrow> value_char x" "ends_word rest"
    and frame: "\<And>w x. w \<noteq> [] \<Longrightarrow> (\<forall>c \<in> set w. value_char c) \<Longrightarrow> ends_word x \<Longrightarrow> match_at ks (pre @ w @ x) = Some (pre, w, x)"
    by (metis (no_types, lifting))
  have "kept_char (last pre)" using pre(1,3) by (metis append_is_Nil_conv last_in_set not_Cons_self2)
  then have last: "last pre \<noteq> CHR ''.''" "pre \<noteq> []" using pre(1) by (auto simp: kept_char_def)
  have dots: "takeWhile value_char ''...'' = ''...''" by (simp add: value_char_def is_space_def)
  have v: "takeWhile value_char (v @ rest) = v"
    using span_append(1) [of v value_char rest] t(3,4) by (simp add: ends_word_def)
  have "w @ ''...'' = (a @ pre) @ v @ rest" using assms(3) t(1) by simp
  then show ?thesis
  proof (cases rule: append_split)
    case (left z)
    show ?thesis
    proof (cases "z = []")
      case True
      then have "v = ''...''" using left(2) v dots by (metis append_Nil)
      then show ?thesis unfolding safe_value_def by (metis append_Nil take_0)
    next
      case False
      let ?y = "takeWhile value_char (z @ u)"
      have "value_char (hd z)" using left(2) False t(2,3) by (metis hd_append2 list.set_sel(1))
      then have y: "?y \<noteq> []" "\<forall>c \<in> set ?y. value_char c" using False by (cases z; auto dest: set_takeWhileD)+
      have "ends_word (dropWhile value_char (z @ u))" unfolding ends_word_def using hd_dropWhile by blast
      from frame [OF y this] have "match_at ks (pre @ z @ u) = Some (pre, ?y, dropWhile value_char (z @ u))"
        by simp
      then have yr: "?y = REDACTED" using assms(1) left(1) unfolding clean_def by (metis append.assoc)
      show ?thesis
      proof (cases "\<forall>c \<in> set z. value_char c")
        case True
        then have "z @ takeWhile value_char u = REDACTED" using yr by simp
        then have "z = take (length z) REDACTED" by (metis append_eq_conv_conj)
        moreover have "takeWhile value_char (z @ ''...'') = z @ ''...''" using True dots by (simp add: takeWhile_append2)
        then have "v = z @ ''...''" using v left(2) by metis
        ultimately show ?thesis unfolding safe_value_def by metis
      next
        case False
        then have "takeWhile value_char (z @ x) = takeWhile value_char z" for x
          by (metis takeWhile_append1)
        then have "v = REDACTED" using yr v left(2) by metis
        then show ?thesis by (simp add: safe_value_def)
      qed
    qed
  next
    case (right z)
    have "z = []"
    proof (rule ccontr)
      assume "z \<noteq> []"
      then have "last z = last pre" using right(1) last(2) by (metis last_appendR)
      moreover have "last z \<in> set ''...''" using right(2) \<open>z \<noteq> []\<close> by (metis Un_iff last_in_set set_append)
      ultimately show False using last(1) by simp
    qed
    then have "v = ''...''" using right(2) v dots by (metis append_Nil)
    then show ?thesis unfolding safe_value_def by (metis append_Nil take_0)
  qed
qed



lemma sanitize_length:
  assumes "3 \<le> max_length"
  shows "int (length (sanitize_error_detail detail max_length)) \<le> max_length"
  using assms by (auto simp: sanitize_error_detail_def py_prefix_def Let_def min_def)

text \<open>The value of a pattern ends at white space: of \<open>Authorization: Bearer <token>\<close> only the scheme is
  replaced.\<close>

lemma bearer_token_survives:
  "sanitize_error_detail ''Authorization: Bearer abc123'' DEFAULT_MAX_LENGTH = ''Authorization: [REDACTED] abc123''"
  by code_simp

end
