(* ===== verification/SyncRepository.thy ===== *)
theory SyncRepository
  imports JiraClient ErrorSanitizer
begin

text \<open>
  repositories/sync_repository.py, repositories/operational_status_repository.py and the rows they write
  (models/jira_project_sync_state.py, models/operational_status.py). The database is the stored Jira evidence,
  the sync state of every project, the operational markers and the derived tables (snapshots and
  signals), of which the repository knows nothing: the type \<open>'m\<close>. Sessions do not flush on their own
  (\<open>autoflush=False\<close>), so a query inside a loop does not see the rows the same loop has added.
\<close>

subsection \<open>Rows\<close>

record sync_result =
  sy_project_key :: string
  sy_sync_mode :: string
  sy_fallback_reason :: "string option"
  sy_cursor_advanced :: bool
  sy_releases_fetched :: nat
  sy_releases_inserted :: nat
  sy_releases_updated :: nat
  sy_sprints_inserted :: nat
  sy_sprints_updated :: nat
  sy_issues_fetched :: nat
  sy_issues_inserted :: nat
  sy_issues_updated :: nat
  sy_issues_skipped :: nat
  sy_issue_details_skipped_unchanged :: nat
  sy_history_fetched :: nat
  sy_history_inserted :: nat
  sy_history_skipped :: nat
  sy_changelogs_skipped_unchanged :: nat

record project_sync_state =
  ps_project_key :: string
  ps_last_successful_jira_updated_at :: "py_datetime option"
  ps_last_successful_sync_at :: "utc option"
  ps_current_sync_status :: string
  ps_last_failed_sync_at :: "utc option"
  ps_last_failure_summary :: "string option"
  ps_latest_sync_result :: "sync_result option"

record operational_status =
  os_last_sync_succeeded_at :: "utc option"
  os_last_sync_failed_at :: "utc option"
  os_last_sync_failure_summary :: "string option"
  os_last_metrics_recompute_at :: "utc option"
  os_last_signal_recompute_at :: "utc option"

record 'm database =
  evidence :: store
  sync_states :: "project_sync_state list"
  op_status :: operational_status
  derived :: 'm

definition new_sync_state :: "string \<Rightarrow> project_sync_state" where
  "new_sync_state key = \<lparr>ps_project_key = key, ps_last_successful_jira_updated_at = None,
     ps_last_successful_sync_at = None, ps_current_sync_status = ''idle'', ps_last_failed_sync_at = None,
     ps_last_failure_summary = None, ps_latest_sync_result = None\<rparr>"

subsection \<open>Rows by key\<close>

text \<open>\<open>upsert_row k f g xs\<close> changes the first row with the key by \<open>f\<close>, or appends \<open>g\<close>; the flag says which.\<close>

definition find_by :: "('r \<Rightarrow> 'k) \<Rightarrow> 'k \<Rightarrow> 'r list \<Rightarrow> 'r option" where
  "find_by key k xs = find (\<lambda>x. key x = k) xs"

fun change_first :: "('r \<Rightarrow> bool) \<Rightarrow> ('r \<Rightarrow> 'r) \<Rightarrow> 'r list \<Rightarrow> 'r list" where
  "change_first p f [] = []"
| "change_first p f (x # xs) = (if p x then f x # xs else x # change_first p f xs)"

definition upsert_row :: "('r \<Rightarrow> 'k) \<Rightarrow> 'k \<Rightarrow> ('r \<Rightarrow> 'r) \<Rightarrow> 'r \<Rightarrow> 'r list \<Rightarrow> 'r list \<times> bool" where
  "upsert_row key k f new xs =
    (case find_by key k xs of
       None \<Rightarrow> (xs @ [new], True)
     | Some x \<Rightarrow> (change_first (\<lambda>y. key y = k) f xs, False))"

lemma find_by_change_first:
  assumes "\<And>x. key x = k' \<Longrightarrow> key (f x) = k'"
  shows "find_by key k (change_first (\<lambda>y. key y = k') f xs)
    = (if k = k' then map_option f (find_by key k xs) else find_by key k xs)"
  using assms by (induction xs) (auto simp: find_by_def)

lemma find_by_append: "find_by key k (xs @ ys) = (case find_by key k xs of None \<Rightarrow> find_by key k ys | Some x \<Rightarrow> Some x)"
  by (induction xs) (auto simp: find_by_def)

lemma find_by_upsert_row:
  assumes "\<And>x. key x = k' \<Longrightarrow> key (f x) = k'" and "key new = k'"
  shows "find_by key k (fst (upsert_row key k' f new xs))
    = (if k = k' then Some (case find_by key k xs of None \<Rightarrow> new | Some x \<Rightarrow> f x) else find_by key k xs)"
proof -
  have "find_by key k [new] = (if k = k' then Some new else None)" using assms(2) by (simp add: find_by_def)
  then show ?thesis using find_by_change_first [of key k' f k xs] assms(1)
    by (auto simp: upsert_row_def find_by_append split: option.splits)
qed

lemma find_by_key: "find_by key k xs = Some x \<Longrightarrow> key x = k \<and> x \<in> set xs"
  by (auto simp: find_by_def find_Some_iff)

lemma map_change_first: "(\<And>x. p x \<Longrightarrow> g (f x) = g x) \<Longrightarrow> map g (change_first p f xs) = map g xs"
  by (induction xs) auto

lemma find_by_None: "find_by key k xs = None \<longleftrightarrow> k \<notin> key ` set xs"
  by (auto simp: find_by_def find_None_iff)

lemma upsert_keys:
  assumes "\<And>x. key x = k \<Longrightarrow> key (f x) = k" and "key new = k"
  shows "map key (fst (upsert_row key k f new xs)) = (if k \<in> key ` set xs then map key xs else map key xs @ [k])"
proof (cases "find_by key k xs")
  case None
  then have "k \<notin> key ` set xs" by (simp add: find_by_None)
  then show ?thesis using None assms(2) by (simp add: upsert_row_def)
next
  case (Some x)
  then have "k \<in> key ` set xs" using find_by_None [of key k xs] by force
  moreover have "map key (change_first (\<lambda>y. key y = k) f xs) = map key xs"
    by (rule map_change_first) (simp add: assms(1))
  ultimately show ?thesis using Some by (simp add: upsert_row_def)
qed

lemma upsert_created: "snd (upsert_row key k f new xs) \<longleftrightarrow> k \<notin> key ` set xs"
  using find_by_None [of key k xs] by (auto simp: upsert_row_def split: option.splits)

subsection \<open>Sync state and operational markers\<close>

definition get_project_sync_state :: "'m database \<Rightarrow> string \<Rightarrow> project_sync_state option" where
  "get_project_sync_state db key = find_by ps_project_key key (sync_states db)"

definition update_sync_state :: "string \<Rightarrow> (project_sync_state \<Rightarrow> project_sync_state) \<Rightarrow> 'm database \<Rightarrow> 'm database" where
  "update_sync_state key f db =
     db\<lparr>sync_states := fst (upsert_row ps_project_key key f (f (new_sync_state key)) (sync_states db))\<rparr>"

definition mark_project_sync_running :: "string \<Rightarrow> 'm database \<Rightarrow> 'm database" where
  "mark_project_sync_running key = update_sync_state key (\<lambda>s. s\<lparr>ps_current_sync_status := ''running''\<rparr>)"

definition mark_project_sync_succeeded ::
  "utc \<Rightarrow> string \<Rightarrow> py_datetime option \<Rightarrow> sync_result \<Rightarrow> 'm database \<Rightarrow> 'm database" where
  "mark_project_sync_succeeded now key cursor result = update_sync_state key (\<lambda>s. s\<lparr>
     ps_current_sync_status := ''succeeded'', ps_last_successful_jira_updated_at := cursor,
     ps_last_successful_sync_at := Some now, ps_last_failure_summary := None,
     ps_latest_sync_result := Some result\<rparr>)"

definition mark_project_sync_failed :: "utc \<Rightarrow> string \<Rightarrow> string \<Rightarrow> 'm database \<Rightarrow> 'm database" where
  "mark_project_sync_failed now key summary = update_sync_state key (\<lambda>s. s\<lparr>
     ps_current_sync_status := ''failed'', ps_last_failed_sync_at := Some now,
     ps_last_failure_summary := Some summary\<rparr>)"

definition mark_sync_succeeded :: "utc \<Rightarrow> 'm database \<Rightarrow> 'm database" where
  "mark_sync_succeeded now db = db\<lparr>op_status := (op_status db)\<lparr>os_last_sync_succeeded_at := Some now,
     os_last_sync_failure_summary := None\<rparr>\<rparr>"

definition mark_sync_failed :: "utc \<Rightarrow> string \<Rightarrow> 'm database \<Rightarrow> 'm database" where
  "mark_sync_failed now summary db = db\<lparr>op_status := (op_status db)\<lparr>os_last_sync_failed_at := Some now,
     os_last_sync_failure_summary := Some summary\<rparr>\<rparr>"

lemma state_of_update:
  assumes "\<And>s. ps_project_key (f s) = ps_project_key s"
  shows "get_project_sync_state (update_sync_state key f db) k = (if k = key
      then Some (f (case get_project_sync_state db k of None \<Rightarrow> new_sync_state key | Some s \<Rightarrow> s))
      else get_project_sync_state db k)"
  using assms unfolding get_project_sync_state_def update_sync_state_def
  by (simp add: find_by_upsert_row new_sync_state_def split: option.splits)

lemma update_sync_state_frame [simp]:
  "evidence (update_sync_state key f db) = evidence db" "derived (update_sync_state key f db) = derived db"
  "op_status (update_sync_state key f db) = op_status db"
  by (simp_all add: update_sync_state_def)

lemma markers_frame [simp]:
  "evidence (mark_sync_succeeded now db) = evidence db" "derived (mark_sync_succeeded now db) = derived db"
  "sync_states (mark_sync_succeeded now db) = sync_states db"
  "evidence (mark_sync_failed now m db) = evidence db" "derived (mark_sync_failed now m db) = derived db"
  "sync_states (mark_sync_failed now m db) = sync_states db"
  by (simp_all add: mark_sync_succeeded_def mark_sync_failed_def)

subsection \<open>Writing evidence\<close>

text \<open>\<open>_parse_iso_date\<close> and \<open>_parse_jira_datetime\<close> over the library's parser.\<close>

definition parse_iso_date :: "(string \<Rightarrow> py_datetime option) \<Rightarrow> string option \<Rightarrow> py_datetime option" where
  "parse_iso_date parse_iso v = (if or_empty v = [] then None else parse_iso (or_empty v @ ''T00:00:00+00:00''))"

text \<open>A datetime as the backend stores it: naive, in UTC.\<close>

definition naive_utc :: "py_datetime \<Rightarrow> py_datetime" where
  "naive_utc d = (case utc_offset d of None \<Rightarrow> d | Some off \<Rightarrow> naive (to_utc d))"

definition parse_jira_datetime :: "(string \<Rightarrow> py_datetime option) \<Rightarrow> string option \<Rightarrow> py_datetime option" where
  "parse_jira_datetime parse_iso v =
    (if or_empty v = [] then None
     else map_option naive_utc
       (parse_iso (concat (map (\<lambda>c. if c = CHR ''Z'' then ''+00:00'' else [c]) (or_empty v)))))"

definition upsert_release :: "(string \<Rightarrow> py_datetime option) \<Rightarrow> jira_version \<Rightarrow> store \<Rightarrow> store \<times> bool" where
  "upsert_release parse_iso v db =
    (let status = Some (if ve_released v then ''released'' else ''unreleased'');
         start = parse_iso_date parse_iso (ve_start_date v);
         rel = parse_iso_date parse_iso (ve_release_date v);
         (rows, created) = upsert_row release_id (ve_id v)
           (\<lambda>r. r\<lparr>release_name := ve_name v, release_project_key := ve_project_key v,
              release_description := ve_description v, release_status := status,
              release_start_date := start, release_release_date := rel\<rparr>)
           \<lparr>release_id = ve_id v, release_name = ve_name v, release_project_key = ve_project_key v,
            release_description = ve_description v, release_status = status,
            release_start_date = start, release_release_date = rel\<rparr> (releases db)
     in (db\<lparr>releases := rows\<rparr>, created))"

definition upsert_sprint :: "(string \<Rightarrow> py_datetime option) \<Rightarrow> string \<Rightarrow> jira_sprint_ref \<Rightarrow> store \<Rightarrow> store \<times> bool" where
  "upsert_sprint parse_iso project_key ref db =
    (let start = parse_jira_datetime parse_iso (sr_start_date ref);
         ende = parse_jira_datetime parse_iso (sr_end_date ref);
         complete = parse_jira_datetime parse_iso (sr_complete_date ref);
         (rows, created) = upsert_row sprint_id (sr_id ref)
           (\<lambda>s. s\<lparr>sprint_name := sr_name ref, sprint_state := sr_state ref, sprint_project_key := project_key,
              sprint_board_id := sr_board_id ref, sprint_start_date := start, sprint_end_date := ende,
              sprint_complete_date := complete, sprint_goal := sr_goal ref\<rparr>)
           \<lparr>sprint_id = sr_id ref, sprint_name = sr_name ref, sprint_state = sr_state ref,
            sprint_project_key = project_key, sprint_board_id = sr_board_id ref, sprint_start_date = start,
            sprint_end_date = ende, sprint_complete_date = complete, sprint_goal = sr_goal ref\<rparr> (sprints db)
     in (db\<lparr>sprints := rows\<rparr>, created))"

definition upsert_issue :: "jira_issue_detail \<Rightarrow> string option \<Rightarrow> bool \<Rightarrow> store \<Rightarrow> store \<times> bool" where
  "upsert_issue d release blocker db =
    (let (rows, created) = upsert_row issue_key (jd_key d)
       (\<lambda>i. i\<lparr>issue_summary := jd_summary d, issue_type := jd_issue_type d, issue_status := jd_status d,
          issue_priority := jd_priority d, issue_assignee := jd_assignee d, issue_assignee_id := jd_assignee_id d,
          issue_story_points := jd_story_points d, issue_release_id := release, issue_is_blocker := blocker,
          issue_created_at := jd_created d, issue_updated_at := jd_updated d, issue_blocker_flag := jd_blocker_flag d\<rparr>)
       \<lparr>issue_key = jd_key d, issue_summary = jd_summary d, issue_type = jd_issue_type d, issue_status = jd_status d,
        issue_priority = jd_priority d, issue_assignee = jd_assignee d, issue_assignee_id = jd_assignee_id d,
        issue_story_points = jd_story_points d, issue_release_id = release, issue_is_blocker = blocker,
        issue_created_at = jd_created d, issue_updated_at = jd_updated d, issue_blocker_flag = jd_blocker_flag d,
        issue_changelog_complete = False\<rparr> (issues db)
     in (db\<lparr>issues := rows\<rparr>, created))"

definition mark_issue_changelog_complete :: "string \<Rightarrow> store \<Rightarrow> store option" where
  "mark_issue_changelog_complete key db =
    (case find_by issue_key key (issues db) of
       None \<Rightarrow> None
     | Some i \<Rightarrow> Some (db\<lparr>issues := change_first (\<lambda>i. issue_key i = key)
         (\<lambda>i. i\<lparr>issue_changelog_complete := True\<rparr>) (issues db)\<rparr>))"

definition replace_issue_sprints :: "string \<Rightarrow> string list \<Rightarrow> store \<Rightarrow> store" where
  "replace_issue_sprints key sids db =
     db\<lparr>issue_sprints := filter (\<lambda>l. link_issue_key l \<noteq> key) (issue_sprints db)
       @ map (\<lambda>sid. \<lparr>link_issue_key = key, link_sprint_id = sid\<rparr>) (dedupe sids)\<rparr>"

definition same_history :: "jira_changelog_entry \<Rightarrow> issue_history \<Rightarrow> bool" where
  "same_history e h \<longleftrightarrow> hist_issue_key h = ce_issue_key e \<and> hist_field_name h = ce_field_name e
     \<and> hist_changed_at h = Some (ce_changed_at e) \<and> hist_old_value h = ce_from_value e
     \<and> hist_new_value h = ce_to_value e"

text \<open>Rows get the next ids; the entries of one call are compared with the rows from before the call.\<close>

definition next_id :: "issue_history list \<Rightarrow> nat" where
  "next_id hs = Suc (fold (\<lambda>h m. max (hist_id h) m) hs 0)"

definition history_row :: "nat \<Rightarrow> jira_changelog_entry \<Rightarrow> issue_history" where
  "history_row n e = \<lparr>hist_id = n, hist_issue_key = ce_issue_key e, hist_field_name = ce_field_name e,
     hist_old_value = ce_from_value e, hist_new_value = ce_to_value e, hist_changed_at = Some (ce_changed_at e)\<rparr>"

definition insert_issue_history_entries :: "jira_changelog_entry list \<Rightarrow> store \<Rightarrow> store \<times> nat \<times> nat" where
  "insert_issue_history_entries es db =
    (let new = filter (\<lambda>e. \<not> (\<exists>h \<in> set (histories db). same_history e h)) es
     in (db\<lparr>histories := histories db @ map2 history_row [next_id (histories db)..<next_id (histories db) + length new] new\<rparr>,
         length new, length es - length new))"

definition get_issue_sync_freshness :: "store \<Rightarrow> string \<Rightarrow> (py_datetime option \<times> bool) option" where
  "get_issue_sync_freshness db key =
     map_option (\<lambda>i. (issue_updated_at i, issue_changelog_complete i)) (find_by issue_key key (issues db))"

definition list_project_sprint_ids :: "store \<Rightarrow> string \<Rightarrow> string list" where
  "list_project_sprint_ids db key = sort (map sprint_id (filter (\<lambda>s. sprint_project_key s = key) (sprints db)))"

subsection \<open>Laws of the writes\<close>

lemma store_updates: "releases (db\<lparr>releases := r\<rparr>) = r" "sprints (db\<lparr>sprints := s\<rparr>) = s"
  "issues (db\<lparr>issues := i\<rparr>) = i"
  by simp_all

lemma upsert_release_releases:
  "map release_id (releases (fst (upsert_release parse_iso v db)))
    = (if ve_id v \<in> release_id ` set (releases db) then map release_id (releases db)
       else map release_id (releases db) @ [ve_id v])"
  unfolding upsert_release_def Let_def split_beta fst_conv store_updates by (rule upsert_keys) simp_all

lemma upsert_release_frame [simp]:
  "issues (fst (upsert_release parse_iso v db)) = issues db"
  "histories (fst (upsert_release parse_iso v db)) = histories db"
  "issue_sprints (fst (upsert_release parse_iso v db)) = issue_sprints db"
  "sprints (fst (upsert_release parse_iso v db)) = sprints db"
  by (simp_all add: upsert_release_def Let_def split_beta)

lemma upsert_sprint_sprints:
  "map sprint_id (sprints (fst (upsert_sprint parse_iso key ref db)))
    = (if sr_id ref \<in> sprint_id ` set (sprints db) then map sprint_id (sprints db)
       else map sprint_id (sprints db) @ [sr_id ref])"
  unfolding upsert_sprint_def Let_def split_beta fst_conv store_updates by (rule upsert_keys) simp_all

lemma upsert_sprint_frame [simp]:
  "issues (fst (upsert_sprint parse_iso key ref db)) = issues db"
  "histories (fst (upsert_sprint parse_iso key ref db)) = histories db"
  "issue_sprints (fst (upsert_sprint parse_iso key ref db)) = issue_sprints db"
  "releases (fst (upsert_sprint parse_iso key ref db)) = releases db"
  by (simp_all add: upsert_sprint_def Let_def split_beta)

lemma upsert_issue_issues:
  "map issue_key (issues (fst (upsert_issue d release blocker db)))
    = (if jd_key d \<in> issue_key ` set (issues db) then map issue_key (issues db)
       else map issue_key (issues db) @ [jd_key d])"
  unfolding upsert_issue_def Let_def split_beta fst_conv store_updates by (rule upsert_keys) simp_all

lemma upsert_issue_frame [simp]:
  "histories (fst (upsert_issue d release blocker db)) = histories db"
  "issue_sprints (fst (upsert_issue d release blocker db)) = issue_sprints db"
  "sprints (fst (upsert_issue d release blocker db)) = sprints db"
  "releases (fst (upsert_issue d release blocker db)) = releases db"
  by (simp_all add: upsert_issue_def Let_def split_beta)

text \<open>The row of an issue after its upsert_row: the fields of the detail; the completeness of its changelog
  stays.\<close>

definition shows_detail :: "jira_issue_detail \<Rightarrow> string option \<Rightarrow> bool \<Rightarrow> issue \<Rightarrow> bool" where
  "shows_detail d release blocker i \<longleftrightarrow>
     issue_key i = jd_key d \<and> issue_summary i = jd_summary d \<and> issue_type i = jd_issue_type d
     \<and> issue_status i = jd_status d \<and> issue_priority i = jd_priority d \<and> issue_assignee i = jd_assignee d
     \<and> issue_assignee_id i = jd_assignee_id d \<and> issue_story_points i = jd_story_points d
     \<and> issue_release_id i = release \<and> issue_is_blocker i = blocker \<and> issue_created_at i = jd_created d
     \<and> issue_updated_at i = jd_updated d \<and> issue_blocker_flag i = jd_blocker_flag d"

lemma upsert_issue_row:
  "\<exists>i. find_by issue_key (jd_key d) (issues (fst (upsert_issue d release blocker db))) = Some i
      \<and> shows_detail d release blocker i"
  "k \<noteq> jd_key d \<Longrightarrow> find_by issue_key k (issues (fst (upsert_issue d release blocker db))) = find_by issue_key k (issues db)"
proof -
  have f: "find_by issue_key k (issues (fst (upsert_issue d release blocker db)))
    = (if k = jd_key d then Some (case find_by issue_key k (issues db) of None \<Rightarrow>
       \<lparr>issue_key = jd_key d, issue_summary = jd_summary d, issue_type = jd_issue_type d, issue_status = jd_status d,
        issue_priority = jd_priority d, issue_assignee = jd_assignee d, issue_assignee_id = jd_assignee_id d,
        issue_story_points = jd_story_points d, issue_release_id = release, issue_is_blocker = blocker,
        issue_created_at = jd_created d, issue_updated_at = jd_updated d, issue_blocker_flag = jd_blocker_flag d,
        issue_changelog_complete = False\<rparr>
      | Some i \<Rightarrow> i\<lparr>issue_summary := jd_summary d, issue_type := jd_issue_type d, issue_status := jd_status d,
          issue_priority := jd_priority d, issue_assignee := jd_assignee d, issue_assignee_id := jd_assignee_id d,
          issue_story_points := jd_story_points d, issue_release_id := release, issue_is_blocker := blocker,
          issue_created_at := jd_created d, issue_updated_at := jd_updated d, issue_blocker_flag := jd_blocker_flag d\<rparr>)
       else find_by issue_key k (issues db))" for k
    unfolding upsert_issue_def Let_def split_beta fst_conv store_updates by (rule find_by_upsert_row) simp_all
  show "k \<noteq> jd_key d \<Longrightarrow> find_by issue_key k (issues (fst (upsert_issue d release blocker db))) = find_by issue_key k (issues db)"
    by (simp add: f)
  show "\<exists>i. find_by issue_key (jd_key d) (issues (fst (upsert_issue d release blocker db))) = Some i
      \<and> shows_detail d release blocker i"
    unfolding f by (auto simp: shows_detail_def dest: find_by_key split: option.splits)
qed

lemma mark_complete:
  assumes "find_by issue_key key (issues db) = Some i"
  shows "\<exists>db'. mark_issue_changelog_complete key db = Some db'
     \<and> find_by issue_key key (issues db') = Some (i\<lparr>issue_changelog_complete := True\<rparr>)
     \<and> (\<forall>k. k \<noteq> key \<longrightarrow> find_by issue_key k (issues db') = find_by issue_key k (issues db))
     \<and> map issue_key (issues db') = map issue_key (issues db)
     \<and> histories db' = histories db \<and> issue_sprints db' = issue_sprints db
     \<and> sprints db' = sprints db \<and> releases db' = releases db"
proof -
  let ?f = "\<lambda>i. i\<lparr>issue_changelog_complete := True\<rparr>"
  have "find_by issue_key k (change_first (\<lambda>i. issue_key i = key) ?f (issues db))
      = (if k = key then map_option ?f (find_by issue_key k (issues db)) else find_by issue_key k (issues db))" for k
    by (rule find_by_change_first) simp
  moreover have "map issue_key (change_first (\<lambda>i. issue_key i = key) ?f (issues db)) = map issue_key (issues db)"
    by (rule map_change_first) simp
  ultimately show ?thesis using assms by (simp add: mark_issue_changelog_complete_def)
qed

lemma replace_issue_sprints_frame [simp]:
  "issues (replace_issue_sprints key sids db) = issues db"
  "histories (replace_issue_sprints key sids db) = histories db"
  "sprints (replace_issue_sprints key sids db) = sprints db"
  "releases (replace_issue_sprints key sids db) = releases db"
  by (simp_all add: replace_issue_sprints_def)

lemma insert_history_frame [simp]:
  "issues (fst (insert_issue_history_entries es db)) = issues db"
  "issue_sprints (fst (insert_issue_history_entries es db)) = issue_sprints db"
  "sprints (fst (insert_issue_history_entries es db)) = sprints db"
  "releases (fst (insert_issue_history_entries es db)) = releases db"
  by (simp_all add: insert_issue_history_entries_def Let_def)

subsection \<open>Changelog entries are stored once per reading\<close>

type_synonym event_content = "string \<times> string \<times> py_datetime option \<times> string option \<times> string option"

definition row_content :: "issue_history \<Rightarrow> event_content" where
  "row_content h = (hist_issue_key h, hist_field_name h, hist_changed_at h, hist_old_value h, hist_new_value h)"

definition entry_content :: "jira_changelog_entry \<Rightarrow> event_content" where
  "entry_content e = (ce_issue_key e, ce_field_name e, Some (ce_changed_at e), ce_from_value e, ce_to_value e)"

lemma same_history_content: "same_history e h \<longleftrightarrow> row_content h = entry_content e"
  by (auto simp: same_history_def row_content_def entry_content_def)

lemma stored_iff: "(\<exists>h \<in> set hs. same_history e h) \<longleftrightarrow> entry_content e \<in> row_content ` set hs"
  by (auto simp: same_history_content image_iff) metis+

lemma map2_row_content:
  "length ns = length es \<Longrightarrow> map row_content (map2 history_row ns es) = map entry_content es"
  by (induction ns es rule: list_induct2) (simp_all add: history_row_def row_content_def entry_content_def)

lemma insert_history_content:
  "map row_content (histories (fst (insert_issue_history_entries es db))) = map row_content (histories db)
     @ map entry_content (filter (\<lambda>e. entry_content e \<notin> row_content ` set (histories db)) es)"
  unfolding insert_issue_history_entries_def Let_def stored_iff fst_conv
  by (simp add: map2_row_content del: map_map)

text \<open>C38: storing changelog entries. Afterwards the history holds exactly the events it held before and the
  events of the entries; storing the same entries again inserts nothing and changes nothing; and
  every entry counts as inserted or as skipped.\<close>

theorem history_insert_idempotent:
  "row_content ` set (histories (fst (insert_issue_history_entries es db)))
      = row_content ` set (histories db) \<union> entry_content ` set es
   \<and> insert_issue_history_entries es (fst (insert_issue_history_entries es db))
      = (fst (insert_issue_history_entries es db), 0, length es)
   \<and> (case snd (insert_issue_history_entries es db) of (inserted, skipped) \<Rightarrow> inserted + skipped = length es)"
proof (intro conjI)
  let ?db = "fst (insert_issue_history_entries es db)"
  have "row_content ` set (histories ?db) = set (map row_content (histories ?db))" by simp
  also have "\<dots> = row_content ` set (histories db) \<union> entry_content ` set es"
    unfolding insert_history_content by auto
  finally show content: "row_content ` set (histories ?db) = row_content ` set (histories db) \<union> entry_content ` set es" .
  then have "filter (\<lambda>e. entry_content e \<notin> row_content ` set (histories ?db)) es = []"
    by (auto simp: filter_empty_conv)
  then show "insert_issue_history_entries es ?db = (?db, 0, length es)"
    unfolding insert_issue_history_entries_def [of es ?db] stored_iff Let_def by simp
  show "case snd (insert_issue_history_entries es db) of (inserted, skipped) \<Rightarrow> inserted + skipped = length es"
    by (simp add: insert_issue_history_entries_def Let_def)
qed

text \<open>Two equal entries of one reading are both stored: the comparison sees only the rows from before.\<close>

lemma equal_entries_stored_twice:
  assumes "entry_content e \<notin> row_content ` set (histories db)"
  shows "map row_content (histories (fst (insert_issue_history_entries [e, e] db)))
    = map row_content (histories db) @ [entry_content e, entry_content e]"
  using assms by (simp add: insert_history_content)

end
