(* ===== verification/SyncService.thy ===== *)
theory SyncService
  imports SyncRepository
begin

text \<open>
  services/sync_service.py: one ingestion run. What Jira answers during the run (the results of the four
  client calls of theory \<open>JiraClient\<close>) is an argument, and so are the recomputations that follow the
  ingestion, the clock and the library's timestamp parser. A run works on the session's view of the
  database: a rollback returns to the state of the last commit, which is the one right after the
  project was marked as running. Every exception of the run is a \<open>run_error\<close>.
\<close>

subsection \<open>Environment\<close>

datatype run_error = Jira_Failure client_error | Value_Failure string string | Database_Failure string string | Other_Failure string string

datatype sync_error = Sync_Service_Error string | Sync_Already_Running

datatype sync_mode = Incremental | Full

record jira_answers =
  an_auth :: "client_error + unit"
  an_versions :: "client_error + jira_version list"
  an_issues :: "client_error + jira_issue_summary list"
  an_detail :: "string \<Rightarrow> client_error + jira_issue_detail"
  an_changelog :: "string \<Rightarrow> client_error + jira_changelog_entry list"

record 'm recompute =
  rc_release_metrics :: "string \<Rightarrow> 'm database \<Rightarrow> run_error + 'm database"
  rc_release_signal :: "string \<Rightarrow> 'm database \<Rightarrow> run_error + 'm database"
  rc_sprint_metrics :: "string \<Rightarrow> 'm database \<Rightarrow> run_error + 'm database"

text \<open>\<open>en_startup\<close> is the result of \<open>validate_startup_settings\<close>; \<open>en_secrets\<close> are the stripped secrets in the
  order in which the set is iterated.\<close>

record sync_env =
  en_sync_enabled :: bool
  en_startup :: "string + unit"
  en_project_key :: string
  en_mapping :: field_mapping
  en_secrets :: "string list"
  en_parse_iso :: "string \<Rightarrow> py_datetime option"

definition error_text :: "client_error \<Rightarrow> string" where
  "error_text e = (case e of Auth_Error m \<Rightarrow> m | Request_Error m c \<Rightarrow> m | Rate_Limit_Error m r \<Rightarrow> m
     | Parse_Error m \<Rightarrow> m | Assertion_Error \<Rightarrow> [])"

definition error_class :: "client_error \<Rightarrow> string" where
  "error_class e = (case e of Auth_Error m \<Rightarrow> ''JiraAuthError'' | Request_Error m c \<Rightarrow> ''JiraRequestError''
     | Rate_Limit_Error m r \<Rightarrow> ''JiraRateLimitError'' | Parse_Error m \<Rightarrow> ''JiraResponseParseError''
     | Assertion_Error \<Rightarrow> ''AssertionError'')"

definition client_failure :: "client_error \<Rightarrow> run_error" where
  "client_failure e = (if is_jira_error e then Jira_Failure e else Other_Failure (error_class e) (error_text e))"

definition lift_client :: "client_error + 'a \<Rightarrow> run_error + 'a" where
  "lift_client r = (case r of Inl e \<Rightarrow> Inl (client_failure e) | Inr a \<Rightarrow> Inr a)"

subsection \<open>Persisted text\<close>

text \<open>\<open>str.replace\<close> with a non-empty search text.\<close>

function py_replace :: "string \<Rightarrow> string \<Rightarrow> string \<Rightarrow> string" where
  "py_replace old new [] = []"
| "py_replace old new (c # cs) =
    (if old \<noteq> [] \<and> take (length old) (c # cs) = old
     then new @ py_replace old new (drop (length old) (c # cs))
     else c # py_replace old new cs)"
  by pat_completeness auto
termination by (relation "measure (\<lambda>(_, _, s). length s)") auto

definition sanitize_persisted_text :: "string list \<Rightarrow> string option \<Rightarrow> string option" where
  "sanitize_persisted_text secrets v = map_option
     (\<lambda>s. fold (\<lambda>secret t. if secret \<noteq> [] then py_replace secret REDACTED t else t) secrets
        (sanitize_error_detail s (max (int (length s) + 64) 280))) v"

definition sanitized :: "string list \<Rightarrow> string \<Rightarrow> string" where
  "sanitized secrets s = or_empty (sanitize_persisted_text secrets (Some s))"

definition sanitize_sprint_ref :: "string list \<Rightarrow> jira_sprint_ref \<Rightarrow> jira_sprint_ref" where
  "sanitize_sprint_ref secrets r = r\<lparr>sr_name := sanitized secrets (sr_name r),
     sr_goal := sanitize_persisted_text secrets (sr_goal r)\<rparr>"

definition sanitize_version :: "string list \<Rightarrow> jira_version \<Rightarrow> jira_version" where
  "sanitize_version secrets v = v\<lparr>ve_name := sanitized secrets (ve_name v),
     ve_description := sanitize_persisted_text secrets (ve_description v)\<rparr>"

definition sanitize_issue_detail :: "string list \<Rightarrow> jira_issue_detail \<Rightarrow> jira_issue_detail" where
  "sanitize_issue_detail secrets d = d\<lparr>jd_summary := sanitized secrets (jd_summary d),
     jd_status := Some (or_empty (sanitize_persisted_text secrets (jd_status d))),
     jd_issue_type := Some (or_empty (sanitize_persisted_text secrets (jd_issue_type d))),
     jd_priority := sanitize_persisted_text secrets (jd_priority d),
     jd_assignee := sanitize_persisted_text secrets (jd_assignee d),
     jd_fix_versions := map (sanitized secrets) (jd_fix_versions d),
     jd_sprints := map (sanitize_sprint_ref secrets) (jd_sprints d),
     jd_created := map_option naive_utc (jd_created d),
     jd_updated := map_option naive_utc (jd_updated d)\<rparr>"

definition sanitize_history_entry :: "string list \<Rightarrow> jira_changelog_entry \<Rightarrow> jira_changelog_entry" where
  "sanitize_history_entry secrets e = e\<lparr>ce_field_name := sanitized secrets (ce_field_name e),
     ce_from_value := sanitize_persisted_text secrets (ce_from_value e),
     ce_to_value := sanitize_persisted_text secrets (ce_to_value e),
     ce_changed_at := naive_utc (ce_changed_at e)\<rparr>"

definition filter_relevant_history :: "field_mapping \<Rightarrow> jira_changelog_entry list \<Rightarrow> jira_changelog_entry list" where
  "filter_relevant_history fm es = filter (\<lambda>e. is_relevant_history_field fm (ce_field_name e)) es"

subsection \<open>One issue\<close>

text \<open>The naive UTC form of a time compares like the instant.\<close>

definition can_skip_unchanged_issue :: "jira_issue_summary \<Rightarrow> utc option \<Rightarrow> (py_datetime option \<times> bool) option \<Rightarrow> bool" where
  "can_skip_unchanged_issue s cursor freshness =
    (case (cursor, coerce_utc (js_updated s), freshness) of
       (Some c, Some u, Some (local_updated, ready)) \<Rightarrow> u \<le> c \<and> local_updated \<noteq> None \<and> ready
     | _ \<Rightarrow> False)"

text \<open>The state of a run: the session's database, the counters, the accepted times and the sprints seen.\<close>

record 'm run =
  ru_db :: "'m database"
  ru_result :: sync_result
  ru_accepted :: "utc list"
  ru_sprints :: "string list"

definition on_evidence :: "(store \<Rightarrow> store) \<Rightarrow> 'm run \<Rightarrow> 'm run" where
  "on_evidence f run = run\<lparr>ru_db := (ru_db run)\<lparr>evidence := f (evidence (ru_db run))\<rparr>\<rparr>"

definition count :: "(sync_result \<Rightarrow> sync_result) \<Rightarrow> 'm run \<Rightarrow> 'm run" where
  "count f run = run\<lparr>ru_result := f (ru_result run)\<rparr>"

definition accept :: "py_datetime option \<Rightarrow> 'm run \<Rightarrow> 'm run" where
  "accept v run = (case coerce_utc v of None \<Rightarrow> run | Some t \<Rightarrow> run\<lparr>ru_accepted := ru_accepted run @ [t]\<rparr>)"

definition store_sprint :: "sync_env \<Rightarrow> jira_sprint_ref \<Rightarrow> 'm run \<Rightarrow> 'm run" where
  "store_sprint env ref run =
    (case upsert_sprint (en_parse_iso env) (en_project_key env) ref (evidence (ru_db run)) of (db, created) \<Rightarrow>
       count (\<lambda>r. if created then r\<lparr>sy_sprints_inserted := Suc (sy_sprints_inserted r)\<rparr>
                else r\<lparr>sy_sprints_updated := Suc (sy_sprints_updated r)\<rparr>)
         ((on_evidence (\<lambda>_. db) run)\<lparr>ru_sprints := ru_sprints run @ [sr_id ref]\<rparr>))"

text \<open>The first fix version the project knows; an empty release id does not count.\<close>

fun linked_release :: "(string \<times> string) list \<Rightarrow> string list \<Rightarrow> string option" where
  "linked_release ids [] = None"
| "linked_release ids (v # vs) =
    (case map_of ids v of
       None \<Rightarrow> linked_release ids vs
     | Some rid \<Rightarrow> if rid = [] then linked_release ids vs else Some rid)"

definition store_issue :: "sync_env \<Rightarrow> (string \<times> string) list \<Rightarrow> jira_issue_detail \<Rightarrow> 'm run \<Rightarrow> 'm run" where
  "store_issue env ids d run =
    (let run = fold (store_sprint env) (jd_sprints d) run
     in case upsert_issue d (linked_release ids (jd_fix_versions d))
          (classify_blocker (en_mapping env) (jd_issue_type d) (jd_priority d) (jd_status d) (jd_blocker_flag d))
          (evidence (ru_db run)) of (db, created) \<Rightarrow>
        on_evidence (replace_issue_sprints (jd_key d) (map sr_id (jd_sprints d)))
          (accept (jd_updated d)
            (count (\<lambda>r. if created then r\<lparr>sy_issues_inserted := Suc (sy_issues_inserted r)\<rparr>
                     else r\<lparr>sy_issues_updated := Suc (sy_issues_updated r)\<rparr>)
              (on_evidence (\<lambda>_. db) run))))"

definition store_changelog :: "sync_env \<Rightarrow> jira_issue_detail \<Rightarrow> jira_changelog_entry list \<Rightarrow> 'm run \<Rightarrow> run_error + 'm run" where
  "store_changelog env d entries run =
    (let history = map (sanitize_history_entry (en_secrets env)) (filter_relevant_history (en_mapping env) entries)
     in case insert_issue_history_entries history (evidence (ru_db run)) of (db, inserted, skipped) \<Rightarrow>
        (case mark_issue_changelog_complete (jd_key d) db of
           None \<Rightarrow> Inl (Value_Failure ''ValueError'' (''Issue not found: '' @ CHR 0x27 # jd_key d @ [CHR 0x27]))
         | Some db' \<Rightarrow> Inr (count (\<lambda>r. r\<lparr>sy_history_fetched := sy_history_fetched r + length history,
               sy_history_inserted := sy_history_inserted r + inserted,
               sy_history_skipped := sy_history_skipped r + skipped\<rparr>) (on_evidence (\<lambda>_. db') run))))"

definition sync_issue ::
  "sync_env \<Rightarrow> jira_answers \<Rightarrow> sync_mode \<Rightarrow> utc option \<Rightarrow> (string \<times> string) list \<Rightarrow> jira_issue_summary
    \<Rightarrow> 'm run \<Rightarrow> run_error + 'm run" where
  "sync_issue env jira mode cursor ids s run =
    (if mode = Incremental \<and> can_skip_unchanged_issue s cursor
          (get_issue_sync_freshness (evidence (ru_db run)) (js_key s))
     then Inr (accept (js_updated s) (count (\<lambda>r. r\<lparr>
         sy_issue_details_skipped_unchanged := Suc (sy_issue_details_skipped_unchanged r),
         sy_changelogs_skipped_unchanged := Suc (sy_changelogs_skipped_unchanged r)\<rparr>) run))
     else (case an_detail jira (js_key s) of
         Inl e \<Rightarrow> if is_jira_error e
           then Inr (count (\<lambda>r. r\<lparr>sy_issues_skipped := Suc (sy_issues_skipped r)\<rparr>) run)
           else Inl (client_failure e)
       | Inr raw \<Rightarrow>
          (let d = sanitize_issue_detail (en_secrets env) raw
           in and_then (lift_client (an_changelog jira (js_key s))) (\<lambda>entries.
                store_changelog env d entries (store_issue env ids d run)))))"

subsection \<open>The run\<close>

definition store_version :: "sync_env \<Rightarrow> jira_version \<Rightarrow> 'm run \<times> (string \<times> string) list \<Rightarrow> 'm run \<times> (string \<times> string) list" where
  "store_version env v acc =
    (case acc of (run, ids) \<Rightarrow>
      (case upsert_release (en_parse_iso env) v (evidence (ru_db run)) of (db, created) \<Rightarrow>
        (count (\<lambda>r. if created then r\<lparr>sy_releases_inserted := Suc (sy_releases_inserted r)\<rparr>
                 else r\<lparr>sy_releases_updated := Suc (sy_releases_updated r)\<rparr>) (on_evidence (\<lambda>_. db) run),
         put (ve_name v) (ve_id v) ids)))"

definition initial_result :: "string \<Rightarrow> sync_result" where
  "initial_result key = \<lparr>sy_project_key = key, sy_sync_mode = ''full'', sy_fallback_reason = None,
     sy_cursor_advanced = False, sy_releases_fetched = 0, sy_releases_inserted = 0, sy_releases_updated = 0,
     sy_sprints_inserted = 0, sy_sprints_updated = 0, sy_issues_fetched = 0, sy_issues_inserted = 0,
     sy_issues_updated = 0, sy_issues_skipped = 0, sy_issue_details_skipped_unchanged = 0,
     sy_history_fetched = 0, sy_history_inserted = 0, sy_history_skipped = 0,
     sy_changelogs_skipped_unchanged = 0\<rparr>"

definition effective_mode :: "sync_mode \<Rightarrow> utc option \<Rightarrow> sync_mode" where
  "effective_mode mode cursor = (if mode = Full \<or> cursor = None then Full else Incremental)"

definition record_mode :: "sync_mode \<Rightarrow> utc option \<Rightarrow> sync_result \<Rightarrow> sync_result" where
  "record_mode mode cursor r =
    (if mode = Full then r\<lparr>sy_sync_mode := ''full''\<rparr>
     else if cursor = None
     then r\<lparr>sy_sync_mode := ''full'', sy_fallback_reason := Some (''No trusted project cursor is available; ''
        @ ''fetched full issue details and changelogs.'')\<rparr>
     else r\<lparr>sy_sync_mode := ''incremental''\<rparr>)"

definition recompute_all :: "'m recompute \<Rightarrow> string list \<Rightarrow> string list \<Rightarrow> 'm database \<Rightarrow> run_error + 'm database" where
  "recompute_all rc rids sids db =
     and_then (fold_ok (\<lambda>rid db. and_then (rc_release_metrics rc rid db) (rc_release_signal rc rid)) rids db)
       (fold_ok (rc_sprint_metrics rc) sids)"

text \<open>The cursor after the run: unchanged when an issue could not be read, otherwise the latest accepted
  time.\<close>

definition next_cursor :: "utc option \<Rightarrow> nat \<Rightarrow> utc list \<Rightarrow> utc option" where
  "next_cursor cursor skipped accepted =
    (if skipped = 0 then (if accepted = [] then cursor else Some (Max (set accepted))) else cursor)"

definition ingest ::
  "sync_env \<Rightarrow> jira_answers \<Rightarrow> sync_mode \<Rightarrow> 'm database \<Rightarrow> run_error + 'm run \<times> (string \<times> string) list \<times> utc option" where
  "ingest env jira mode db =
     and_then (lift_client (an_auth jira)) (\<lambda>_.
     and_then (lift_client (an_versions jira)) (\<lambda>raw_versions.
       let versions = map (sanitize_version (en_secrets env)) raw_versions;
           run0 = \<lparr>ru_db = db, ru_result = (initial_result (en_project_key env))\<lparr>sy_releases_fetched := length versions\<rparr>,
                   ru_accepted = [], ru_sprints = []\<rparr>;
           (run1, ids) = fold (store_version env) versions (run0, [])
       in and_then (lift_client (an_issues jira)) (\<lambda>summaries.
         let cursor = Option.bind (get_project_sync_state (ru_db run1) (en_project_key env))
               (\<lambda>s. coerce_utc (ps_last_successful_jira_updated_at s));
             run2 = count (record_mode mode cursor) (count (\<lambda>r. r\<lparr>sy_issues_fetched := length summaries\<rparr>) run1)
         in and_then (fold_ok (sync_issue env jira (effective_mode mode cursor) cursor ids) summaries run2)
              (\<lambda>run3. Inr (run3, ids, cursor)))))"

definition finish_run ::
  "utc \<Rightarrow> sync_env \<Rightarrow> 'm recompute \<Rightarrow> 'm run \<Rightarrow> (string \<times> string) list \<Rightarrow> utc option \<Rightarrow> run_error + sync_result \<times> 'm database" where
  "finish_run now env rc run ids cursor =
    (let key = en_project_key env;
         sprint_ids = sorted_keys (ru_sprints run @ list_project_sprint_ids (evidence (ru_db run)) key)
     in and_then (recompute_all rc (map snd ids) sprint_ids (ru_db run)) (\<lambda>db.
          let c = next_cursor cursor (sy_issues_skipped (ru_result run)) (ru_accepted run);
              result = (ru_result run)\<lparr>sy_cursor_advanced := (c \<noteq> cursor)\<rparr>
          in Inr (result, mark_project_sync_succeeded now key (map_option naive c) result (mark_sync_succeeded now db))))"

definition sync_run ::
  "utc \<Rightarrow> sync_env \<Rightarrow> jira_answers \<Rightarrow> 'm recompute \<Rightarrow> sync_mode \<Rightarrow> 'm database \<Rightarrow> run_error + sync_result \<times> 'm database" where
  "sync_run now env jira rc mode db =
     and_then (ingest env jira mode db) (\<lambda>(run, ids, cursor). finish_run now env rc run ids cursor)"

definition failure_message :: "run_error \<Rightarrow> string" where
  "failure_message e = (case e of
       Jira_Failure c \<Rightarrow> ''Jira sync failed: '' @ error_text c
     | Value_Failure cls m \<Rightarrow> ''Post-sync recompute failed: '' @ m
     | Database_Failure cls m \<Rightarrow> ''Database sync failed: '' @ m
     | Other_Failure cls m \<Rightarrow> ''Unexpected sync failure: '' @ cls)"

definition failure_summary :: "run_error \<Rightarrow> string" where
  "failure_summary e = sanitize_error_detail (case e of
       Jira_Failure c \<Rightarrow> error_class c @ '': '' @ error_text c
     | Value_Failure cls m \<Rightarrow> cls @ '': '' @ m
     | Database_Failure cls m \<Rightarrow> cls @ '': '' @ m
     | Other_Failure cls m \<Rightarrow> cls @ '': '' @ m) DEFAULT_MAX_LENGTH"

definition persist_sync_failure_status :: "utc \<Rightarrow> string \<Rightarrow> run_error \<Rightarrow> 'm database \<Rightarrow> 'm database" where
  "persist_sync_failure_status now key e db =
     mark_project_sync_failed now key (failure_summary e) (mark_sync_failed now (failure_summary e) db)"

definition validate_sync_settings :: "sync_env \<Rightarrow> sync_error + unit" where
  "validate_sync_settings env =
    (if \<not> en_sync_enabled env then Inl (Sync_Service_Error ''Jira sync is disabled by configuration'')
     else (case en_startup env of Inl m \<Rightarrow> Inl (Sync_Service_Error m) | Inr _ \<Rightarrow> Inr ()))"

text \<open>\<open>sync_from_jira\<close>: what it returns and the committed database afterwards.\<close>

definition sync_from_jira ::
  "utc \<Rightarrow> sync_env \<Rightarrow> jira_answers \<Rightarrow> 'm recompute \<Rightarrow> bool \<Rightarrow> sync_mode \<Rightarrow> 'm database
    \<Rightarrow> (sync_error + sync_result) \<times> 'm database" where
  "sync_from_jira now env jira rc locked mode db =
    (if locked then (Inl Sync_Already_Running, db)
     else (case validate_sync_settings env of
         Inl e \<Rightarrow> (Inl e, db)
       | Inr _ \<Rightarrow>
          (let committed = mark_project_sync_running (en_project_key env) db
           in case sync_run now env jira rc mode committed of
                Inl e \<Rightarrow> (Inl (Sync_Service_Error (failure_message e)),
                          persist_sync_failure_status now (en_project_key env) e committed)
              | Inr (result, db') \<Rightarrow> (Inr result, db'))))"

record sync_status =
  st_project_key :: string
  st_current_sync_status :: string
  st_last_successful_sync_at :: "utc option"
  st_last_successful_jira_updated_at :: "py_datetime option"
  st_last_failed_sync_at :: "utc option"
  st_last_failure_summary :: "string option"
  st_latest_sync_result :: "sync_result option"

definition get_jira_sync_status :: "string \<Rightarrow> bool \<Rightarrow> 'm database \<Rightarrow> sync_status" where
  "get_jira_sync_status key locked db =
    (case get_project_sync_state db key of
       None \<Rightarrow> \<lparr>st_project_key = key, st_current_sync_status = ''idle'', st_last_successful_sync_at = None,
         st_last_successful_jira_updated_at = None, st_last_failed_sync_at = None, st_last_failure_summary = None,
         st_latest_sync_result = None\<rparr>
     | Some s \<Rightarrow>
        (let stale = (ps_current_sync_status s = ''running'' \<and> \<not> locked)
         in \<lparr>st_project_key = ps_project_key s,
             st_current_sync_status = (if stale then ''failed'' else ps_current_sync_status s),
             st_last_successful_sync_at = ps_last_successful_sync_at s,
             st_last_successful_jira_updated_at = ps_last_successful_jira_updated_at s,
             st_last_failed_sync_at = ps_last_failed_sync_at s,
             st_last_failure_summary = (if stale then Some ''Previous sync did not finish.'' else ps_last_failure_summary s),
             st_latest_sync_result = ps_latest_sync_result s\<rparr>))"

subsection \<open>What a run leaves alone\<close>

definition same_frame :: "'m database \<Rightarrow> 'm database \<Rightarrow> bool" where
  "same_frame a b \<longleftrightarrow> sync_states b = sync_states a \<and> op_status b = op_status a \<and> derived b = derived a"

lemma run_simps [simp]:
  "evidence (ru_db (count f run)) = evidence (ru_db run)" "evidence (ru_db (accept v run)) = evidence (ru_db run)"
  "evidence (ru_db (on_evidence g run)) = g (evidence (ru_db run))"
  "ru_result (on_evidence g run) = ru_result run" "ru_result (accept v run) = ru_result run"
  "ru_result (count f run) = f (ru_result run)"
  "same_frame db (ru_db (count f run)) = same_frame db (ru_db run)"
  "same_frame db (ru_db (accept v run)) = same_frame db (ru_db run)"
  "same_frame db (ru_db (on_evidence g run)) = same_frame db (ru_db run)"
  "ru_accepted (on_evidence g run) = ru_accepted run" "ru_accepted (count f run) = ru_accepted run"
  by (simp_all add: count_def accept_def on_evidence_def same_frame_def split: option.splits)

lemma store_sprint_evidence [simp]:
  "evidence (ru_db (store_sprint env ref run))
    = fst (upsert_sprint (en_parse_iso env) (en_project_key env) ref (evidence (ru_db run)))"
  "same_frame db (ru_db (store_sprint env ref run)) = same_frame db (ru_db run)"
  by (simp_all add: store_sprint_def count_def on_evidence_def same_frame_def split: prod.splits)

lemma store_sprints_evidence [simp]:
  "evidence (ru_db (fold (store_sprint env) refs run))
    = fold (\<lambda>ref db. fst (upsert_sprint (en_parse_iso env) (en_project_key env) ref db)) refs (evidence (ru_db run))"
  "same_frame db (ru_db (fold (store_sprint env) refs run)) = same_frame db (ru_db run)"
  by (induction refs arbitrary: run) simp_all

definition linked_sprints :: "sync_env \<Rightarrow> jira_issue_detail \<Rightarrow> store \<Rightarrow> store" where
  "linked_sprints env d db =
     fold (\<lambda>ref db. fst (upsert_sprint (en_parse_iso env) (en_project_key env) ref db)) (jd_sprints d) db"

definition issue_written :: "sync_env \<Rightarrow> (string \<times> string) list \<Rightarrow> jira_issue_detail \<Rightarrow> store \<Rightarrow> store" where
  "issue_written env ids d db = fst (upsert_issue d (linked_release ids (jd_fix_versions d))
     (classify_blocker (en_mapping env) (jd_issue_type d) (jd_priority d) (jd_status d) (jd_blocker_flag d))
     (linked_sprints env d db))"

lemma store_issue_evidence [simp]:
  "evidence (ru_db (store_issue env ids d run))
    = replace_issue_sprints (jd_key d) (map sr_id (jd_sprints d)) (issue_written env ids d (evidence (ru_db run)))"
  "same_frame db (ru_db (store_issue env ids d run)) = same_frame db (ru_db run)"
  by (simp_all add: store_issue_def Let_def issue_written_def linked_sprints_def split: prod.splits)

lemma linked_sprints_frame [simp]:
  "issues (linked_sprints env d db) = issues db" "histories (linked_sprints env d db) = histories db"
  "issue_sprints (linked_sprints env d db) = issue_sprints db" "releases (linked_sprints env d db) = releases db"
proof -
  have "issues (fold (\<lambda>ref db. fst (upsert_sprint p k ref db)) refs db) = issues db
      \<and> histories (fold (\<lambda>ref db. fst (upsert_sprint p k ref db)) refs db) = histories db
      \<and> issue_sprints (fold (\<lambda>ref db. fst (upsert_sprint p k ref db)) refs db) = issue_sprints db
      \<and> releases (fold (\<lambda>ref db. fst (upsert_sprint p k ref db)) refs db) = releases db" for p k refs
    by (induction refs arbitrary: db) simp_all
  then show "issues (linked_sprints env d db) = issues db" "histories (linked_sprints env d db) = histories db"
    "issue_sprints (linked_sprints env d db) = issue_sprints db" "releases (linked_sprints env d db) = releases db"
    by (simp_all add: linked_sprints_def)
qed

text \<open>The stored evidence after the changelog of an issue.\<close>

lemma store_changelog_evidence:
  assumes "find_by issue_key (jd_key d) (issues (evidence (ru_db run))) = Some i"
  shows "\<exists>run' es. store_changelog env d entries run = Inr run' \<and> ru_accepted run' = ru_accepted run
    \<and> sy_issues_skipped (ru_result run') = sy_issues_skipped (ru_result run)
    \<and> mark_issue_changelog_complete (jd_key d) (fst (insert_issue_history_entries es (evidence (ru_db run))))
        = Some (evidence (ru_db run'))
    \<and> (\<forall>db. same_frame db (ru_db run') = same_frame db (ru_db run))"
proof -
  let ?es = "map (sanitize_history_entry (en_secrets env)) (filter_relevant_history (en_mapping env) entries)"
  obtain db inserted skipped where ins: "insert_issue_history_entries ?es (evidence (ru_db run)) = (db, inserted, skipped)"
    using prod_cases3 by blast
  have "issues db = issues (evidence (ru_db run))"
    using insert_history_frame(1) [of ?es "evidence (ru_db run)"] by (simp add: ins)
  then have "find_by issue_key (jd_key d) (issues db) = Some i" using assms by simp
  from mark_complete [OF this] obtain db' where db': "mark_issue_changelog_complete (jd_key d) db = Some db'" by blast
  show ?thesis
    by (intro exI [of _ ?es] exI) (auto simp: store_changelog_def Let_def ins db')
qed

subsection \<open>The three ways an issue goes\<close>

definition changelog_stored :: "sync_env \<Rightarrow> (string \<times> string) list \<Rightarrow> jira_issue_detail \<Rightarrow> store \<Rightarrow> store \<Rightarrow> bool" where
  "changelog_stored env ids d db db' \<longleftrightarrow> (\<exists>es. mark_issue_changelog_complete (jd_key d)
     (fst (insert_issue_history_entries es
       (replace_issue_sprints (jd_key d) (map sr_id (jd_sprints d)) (issue_written env ids d db)))) = Some db')"

lemma issue_written_row:
  "\<exists>i. find_by issue_key (jd_key d) (issues (issue_written env ids d db)) = Some i
     \<and> shows_detail d (linked_release ids (jd_fix_versions d))
         (classify_blocker (en_mapping env) (jd_issue_type d) (jd_priority d) (jd_status d) (jd_blocker_flag d)) i"
  "k \<noteq> jd_key d \<Longrightarrow> find_by issue_key k (issues (issue_written env ids d db)) = find_by issue_key k (issues db)"
  using upsert_issue_row unfolding issue_written_def by (blast, simp add: upsert_issue_row(2))

lemma sync_issue_cases:
  assumes "sync_issue env jira mode cursor ids s run = Inr run'"
  obtains
    (unchanged) "mode = Incremental"
      "can_skip_unchanged_issue s cursor (get_issue_sync_freshness (evidence (ru_db run)) (js_key s))"
      "evidence (ru_db run') = evidence (ru_db run)"
      "sy_issues_skipped (ru_result run') = sy_issues_skipped (ru_result run)"
  | (unread) e where "an_detail jira (js_key s) = Inl e" "evidence (ru_db run') = evidence (ru_db run)"
      "sy_issues_skipped (ru_result run') = Suc (sy_issues_skipped (ru_result run))"
  | (stored) raw where "an_detail jira (js_key s) = Inr raw"
      "changelog_stored env ids (sanitize_issue_detail (en_secrets env) raw) (evidence (ru_db run)) (evidence (ru_db run'))"
      "sy_issues_skipped (ru_result run') = sy_issues_skipped (ru_result run)"
proof (cases "mode = Incremental
    \<and> can_skip_unchanged_issue s cursor (get_issue_sync_freshness (evidence (ru_db run)) (js_key s))")
  case True
  then show ?thesis using assms by (intro unchanged) (auto simp: sync_issue_def)
next
  case False
  show ?thesis
  proof (cases "an_detail jira (js_key s)")
    case (Inl e)
    then show ?thesis using False assms by (intro unread [OF Inl]) (auto simp: sync_issue_def split: if_splits)
  next
    case (Inr raw)
    let ?d = "sanitize_issue_detail (en_secrets env) raw" and ?run = "store_issue env ids (sanitize_issue_detail (en_secrets env) raw) run"
    obtain entries where e: "store_changelog env ?d entries ?run = Inr run'"
      using assms False Inr by (auto simp: sync_issue_def Let_def and_then_Inr_iff)
    obtain i where "find_by issue_key (jd_key ?d) (issues (evidence (ru_db ?run))) = Some i"
      using issue_written_row(1) by fastforce
    from store_changelog_evidence [OF this, of env entries] e obtain es where
      r: "sy_issues_skipped (ru_result run') = sy_issues_skipped (ru_result ?run)"
      "mark_issue_changelog_complete (jd_key ?d) (fst (insert_issue_history_entries es (evidence (ru_db ?run)))) = Some (evidence (ru_db run'))"
      by auto
    have sk: "sy_issues_skipped (ru_result (fold (store_sprint env) refs q)) = sy_issues_skipped (ru_result q)" for refs q
      by (induction refs arbitrary: q) (auto simp: store_sprint_def count_def on_evidence_def split: prod.splits)
    have "sy_issues_skipped (ru_result ?run) = sy_issues_skipped (ru_result run)"
      by (auto simp: store_issue_def Let_def sk split: prod.splits)
    with r show ?thesis using stored [OF Inr] unfolding changelog_stored_def by auto
  qed
qed

lemma sync_issue_frame:
  assumes "sync_issue env jira mode cursor ids s run = Inr run'"
  shows "same_frame db (ru_db run') = same_frame db (ru_db run)"
proof (cases "mode = Incremental
    \<and> can_skip_unchanged_issue s cursor (get_issue_sync_freshness (evidence (ru_db run)) (js_key s))")
  case True
  then show ?thesis using assms by (auto simp: sync_issue_def)
next
  case False
  show ?thesis
  proof (cases "an_detail jira (js_key s)")
    case (Inl e)
    then show ?thesis using False assms by (auto simp: sync_issue_def split: if_splits)
  next
    case (Inr raw)
    let ?d = "sanitize_issue_detail (en_secrets env) raw"
    obtain entries where e: "store_changelog env ?d entries (store_issue env ids ?d run) = Inr run'"
      using assms False Inr by (auto simp: sync_issue_def Let_def and_then_Inr_iff)
    obtain i where "find_by issue_key (jd_key ?d) (issues (evidence (ru_db (store_issue env ids ?d run)))) = Some i"
      using issue_written_row(1) by fastforce
    from store_changelog_evidence [OF this, of env entries] e show ?thesis by auto
  qed
qed

text \<open>What \<open>changelog_stored\<close> does to the issue rows.\<close>

lemma changelog_stored_rows:
  assumes "changelog_stored env ids d db db'"
  shows "\<exists>i. find_by issue_key (jd_key d) (issues db') = Some i \<and> issue_changelog_complete i
      \<and> shows_detail d (linked_release ids (jd_fix_versions d))
         (classify_blocker (en_mapping env) (jd_issue_type d) (jd_priority d) (jd_status d) (jd_blocker_flag d)) i"
    and "k \<noteq> jd_key d \<Longrightarrow> find_by issue_key k (issues db') = find_by issue_key k (issues db)"
proof -
  let ?w = "issue_written env ids d db"
  obtain es where m: "mark_issue_changelog_complete (jd_key d)
     (fst (insert_issue_history_entries es (replace_issue_sprints (jd_key d) (map sr_id (jd_sprints d)) ?w))) = Some db'"
    using assms unfolding changelog_stored_def by blast
  obtain i where i: "find_by issue_key (jd_key d) (issues ?w) = Some i"
    "shows_detail d (linked_release ids (jd_fix_versions d))
       (classify_blocker (en_mapping env) (jd_issue_type d) (jd_priority d) (jd_status d) (jd_blocker_flag d)) i"
    using issue_written_row(1) by blast
  from mark_complete [of "jd_key d" "fst (insert_issue_history_entries es (replace_issue_sprints (jd_key d) (map sr_id (jd_sprints d)) ?w))" i]
    i(1) m
  have f: "find_by issue_key (jd_key d) (issues db') = Some (i\<lparr>issue_changelog_complete := True\<rparr>)"
    "\<And>k. k \<noteq> jd_key d \<Longrightarrow> find_by issue_key k (issues db') = find_by issue_key k (issues ?w)"
    by auto
  show "\<exists>i. find_by issue_key (jd_key d) (issues db') = Some i \<and> issue_changelog_complete i
      \<and> shows_detail d (linked_release ids (jd_fix_versions d))
         (classify_blocker (en_mapping env) (jd_issue_type d) (jd_priority d) (jd_status d) (jd_blocker_flag d)) i"
    using f(1) i(2) by (auto simp: shows_detail_def)
  show "k \<noteq> jd_key d \<Longrightarrow> find_by issue_key k (issues db') = find_by issue_key k (issues db)"
    using f(2) issue_written_row(2) by simp
qed

subsection \<open>Keys stay unique\<close>

lemma upsert_distinct:
  assumes "map key ys = (if k \<in> key ` set xs then map key xs else map key xs @ [k])" and "distinct (map key xs)"
  shows "distinct (map key ys)" and "key ` set xs \<subseteq> key ` set ys" and "k \<in> key ` set ys"
proof -
  show "distinct (map key ys)" using assms by auto
  have "set (map key ys) = insert k (key ` set xs)" using assms(1) by auto
  then show "key ` set xs \<subseteq> key ` set ys" "k \<in> key ` set ys" by auto
qed

lemma wf_upsert_release: "wf_store db \<Longrightarrow> wf_store (fst (upsert_release p v db))"
  using upsert_distinct(1) [OF upsert_release_releases] by (simp add: wf_store_def)

lemma wf_upsert_sprint: "wf_store db \<Longrightarrow> wf_store (fst (upsert_sprint p k r db))"
  using upsert_distinct(1) [OF upsert_sprint_sprints] by (simp add: wf_store_def)

lemma wf_linked_sprints: "wf_store db \<Longrightarrow> wf_store (linked_sprints env d db)"
proof -
  have "wf_store db \<Longrightarrow> wf_store (fold (\<lambda>ref db. fst (upsert_sprint p k ref db)) refs db)" for p k refs
    by (induction refs arbitrary: db) (simp_all add: wf_upsert_sprint)
  then show "wf_store db \<Longrightarrow> wf_store (linked_sprints env d db)" by (simp add: linked_sprints_def)
qed

lemma wf_issue_written:
  assumes "wf_store db"
  shows "wf_store (issue_written env ids d db)" and "jd_key d \<in> issue_key ` set (issues (issue_written env ids d db))"
proof -
  let ?l = "linked_sprints env d db"
  have l: "wf_store ?l" using wf_linked_sprints [OF assms] .
  have d: "distinct (map issue_key (issues ?l))" using l by (simp add: wf_store_def)
  define l1 where "l1 = fst (upsert_issue d (linked_release ids (jd_fix_versions d))
     (classify_blocker (en_mapping env) (jd_issue_type d) (jd_priority d) (jd_status d) (jd_blocker_flag d)) ?l)"
  note u = upsert_distinct [OF upsert_issue_issues d, of d "linked_release ids (jd_fix_versions d)"
     "classify_blocker (en_mapping env) (jd_issue_type d) (jd_priority d) (jd_status d) (jd_blocker_flag d)", folded l1_def]
  have f: "issue_sprints l1 = issue_sprints ?l" "sprints l1 = sprints ?l" "releases l1 = releases ?l"
    by (simp_all add: l1_def)
  have "wf_store l1" using l u(1,2) f unfolding wf_store_def by auto
  then show "wf_store (issue_written env ids d db)" unfolding issue_written_def l1_def .
  show "jd_key d \<in> issue_key ` set (issues (issue_written env ids d db))" using u(3) unfolding issue_written_def l1_def .
qed

lemma wf_replace_issue_sprints:
  assumes "wf_store db" and "key \<in> issue_key ` set (issues db)"
  shows "wf_store (replace_issue_sprints key sids db)"
proof -
  let ?old = "filter (\<lambda>l. link_issue_key l \<noteq> key) (issue_sprints db)"
    and ?new = "map (\<lambda>sid. \<lparr>link_issue_key = key, link_sprint_id = sid\<rparr>) (dedupe sids)"
  have "distinct (map (\<lambda>l. (link_issue_key l, link_sprint_id l)) ?old)"
    using assms(1) by (simp add: wf_store_def distinct_map_filter)
  moreover have "distinct (map (\<lambda>l. (link_issue_key l, link_sprint_id l)) ?new)"
    by (simp add: o_def distinct_map inj_on_def)
  ultimately have "distinct (map (\<lambda>l. (link_issue_key l, link_sprint_id l)) (?old @ ?new))" by auto
  then show ?thesis using assms by (auto simp: wf_store_def replace_issue_sprints_def)
qed

lemma wf_changelog_stored:
  assumes "changelog_stored env ids d db db'" and "wf_store db"
  shows "wf_store db'"
proof -
  let ?w = "issue_written env ids d db"
  obtain es where m: "mark_issue_changelog_complete (jd_key d)
     (fst (insert_issue_history_entries es (replace_issue_sprints (jd_key d) (map sr_id (jd_sprints d)) ?w))) = Some db'"
    using assms unfolding changelog_stored_def by blast
  obtain i where i: "find_by issue_key (jd_key d) (issues ?w) = Some i" using issue_written_row(1) by blast
  have w: "wf_store (replace_issue_sprints (jd_key d) (map sr_id (jd_sprints d)) ?w)"
    using wf_replace_issue_sprints [OF wf_issue_written [OF assms(2)]] .
  from mark_complete [of "jd_key d" "fst (insert_issue_history_entries es (replace_issue_sprints (jd_key d) (map sr_id (jd_sprints d)) ?w))" i]
    i m
  have f: "map issue_key (issues db') = map issue_key (issues (replace_issue_sprints (jd_key d) (map sr_id (jd_sprints d)) ?w))"
    "issue_sprints db' = issue_sprints (replace_issue_sprints (jd_key d) (map sr_id (jd_sprints d)) ?w)"
    "sprints db' = sprints (replace_issue_sprints (jd_key d) (map sr_id (jd_sprints d)) ?w)"
    "releases db' = releases (replace_issue_sprints (jd_key d) (map sr_id (jd_sprints d)) ?w)"
    by auto
  have "issue_key ` set (issues db') = issue_key ` set (issues (replace_issue_sprints (jd_key d) (map sr_id (jd_sprints d)) ?w))"
    using f(1) by (metis list.set_map)
  then show ?thesis using w f unfolding wf_store_def by simp
qed

lemma sync_issue_wf:
  assumes "sync_issue env jira mode cursor ids s run = Inr run'" and "wf_store (evidence (ru_db run))"
  shows "wf_store (evidence (ru_db run'))"
  using assms(1) by (cases rule: sync_issue_cases) (use assms(2) wf_changelog_stored in auto)

subsection \<open>The whole ingestion\<close>

lemma store_version_facts:
  "evidence (ru_db (fst (store_version env v (run, ids)))) = fst (upsert_release (en_parse_iso env) v (evidence (ru_db run)))"
  "same_frame db (ru_db (fst (store_version env v (run, ids)))) = same_frame db (ru_db run)"
  "sy_issues_skipped (ru_result (fst (store_version env v (run, ids)))) = sy_issues_skipped (ru_result run)"
  "ru_accepted (fst (store_version env v (run, ids))) = ru_accepted run"
  by (auto simp: store_version_def split: prod.splits)

lemma store_versions_facts:
  "same_frame db (ru_db (fst (fold (store_version env) vs (run, ids)))) = same_frame db (ru_db run)"
  "wf_store (evidence (ru_db run)) \<Longrightarrow> wf_store (evidence (ru_db (fst (fold (store_version env) vs (run, ids)))))"
  "sy_issues_skipped (ru_result (fst (fold (store_version env) vs (run, ids)))) = sy_issues_skipped (ru_result run)"
  "issues (evidence (ru_db (fst (fold (store_version env) vs (run, ids))))) = issues (evidence (ru_db run))"
  "ru_accepted (fst (fold (store_version env) vs (run, ids))) = ru_accepted run"
proof -
  have "same_frame db (ru_db (fst (fold (store_version env) vs (run, ids)))) = same_frame db (ru_db run)
    \<and> (wf_store (evidence (ru_db run)) \<longrightarrow> wf_store (evidence (ru_db (fst (fold (store_version env) vs (run, ids))))))
    \<and> sy_issues_skipped (ru_result (fst (fold (store_version env) vs (run, ids)))) = sy_issues_skipped (ru_result run)
    \<and> issues (evidence (ru_db (fst (fold (store_version env) vs (run, ids))))) = issues (evidence (ru_db run))
    \<and> ru_accepted (fst (fold (store_version env) vs (run, ids))) = ru_accepted run"
  proof (induction vs arbitrary: run ids)
    case (Cons v vs)
    obtain run1 ids1 where r: "store_version env v (run, ids) = (run1, ids1)" by fastforce
    show ?case using Cons.IH [of run1 ids1] store_version_facts [where env = env and v = v and run = run and ids = ids] wf_upsert_release by (auto simp: r)
  qed simp
  then show "same_frame db (ru_db (fst (fold (store_version env) vs (run, ids)))) = same_frame db (ru_db run)"
    "wf_store (evidence (ru_db run)) \<Longrightarrow> wf_store (evidence (ru_db (fst (fold (store_version env) vs (run, ids)))))"
    "sy_issues_skipped (ru_result (fst (fold (store_version env) vs (run, ids)))) = sy_issues_skipped (ru_result run)"
    "issues (evidence (ru_db (fst (fold (store_version env) vs (run, ids))))) = issues (evidence (ru_db run))"
    "ru_accepted (fst (fold (store_version env) vs (run, ids))) = ru_accepted run"
    by blast+
qed

definition project_cursor :: "'m database \<Rightarrow> string \<Rightarrow> utc option" where
  "project_cursor db key = Option.bind (get_project_sync_state db key)
     (\<lambda>s. coerce_utc (ps_last_successful_jira_updated_at s))"

lemma ingest_parts:
  assumes "ingest env jira mode db = Inr (run, ids, cursor)"
  obtains summaries run2 where "an_issues jira = Inr summaries"
    and "fold_ok (sync_issue env jira (effective_mode mode cursor) cursor ids) summaries run2 = Inr run"
    and "cursor = project_cursor db (en_project_key env)"
    and "same_frame db (ru_db run2)" and "wf_store (evidence db) \<longrightarrow> wf_store (evidence (ru_db run2))"
    and "sy_issues_skipped (ru_result run2) = 0"
    and "issues (evidence (ru_db run2)) = issues (evidence db)"
    and "ru_accepted run2 = []"
proof -
  obtain raw summaries where a: "an_versions jira = Inr raw" "an_issues jira = Inr summaries"
    using assms by (auto simp: ingest_def and_then_Inr_iff lift_client_def Let_def split: sum.splits prod.splits)
  let ?run0 = "\<lparr>ru_db = db, ru_result = (initial_result (en_project_key env))\<lparr>sy_releases_fetched := length raw\<rparr>,
                   ru_accepted = [], ru_sprints = []\<rparr>"
  obtain run1 ids1 where r1: "fold (store_version env) (map (sanitize_version (en_secrets env)) raw) (?run0, []) = (run1, ids1)"
    by fastforce
  let ?run2 = "count (record_mode mode cursor) (count (\<lambda>r. r\<lparr>sy_issues_fetched := length summaries\<rparr>) run1)"
  note v = store_versions_facts [where vs = "map (sanitize_version (en_secrets env)) raw" and run = ?run0 and ids = "[]" and env = env,
      unfolded r1 fst_conv]
  have frame: "same_frame db (ru_db run1)" using v(1) [of db] by (simp add: same_frame_def)
  have "cursor = project_cursor (ru_db run1) (en_project_key env)
      \<and> fold_ok (sync_issue env jira (effective_mode mode cursor) cursor ids) summaries ?run2 = Inr run"
    using assms by (auto simp: ingest_def and_then_Inr_iff lift_client_def Let_def a r1 project_cursor_def
        split: sum.splits)
  moreover have "project_cursor (ru_db run1) (en_project_key env) = project_cursor db (en_project_key env)"
    using frame by (simp add: project_cursor_def get_project_sync_state_def same_frame_def)
  moreover have "sy_issues_skipped (ru_result ?run2) = 0"
    using v(3) by (auto simp: record_mode_def initial_result_def)
  ultimately show ?thesis
    using that [OF a(2), of ?run2] frame v(2,4,5) by auto
qed

lemma ingest_invariants:
  assumes "ingest env jira mode db = Inr (run, ids, cursor)"
  shows "same_frame db (ru_db run)" and "wf_store (evidence db) \<Longrightarrow> wf_store (evidence (ru_db run))"
    and "cursor = project_cursor db (en_project_key env)"
proof -
  obtain summaries run2 where p: "fold_ok (sync_issue env jira (effective_mode mode cursor) cursor ids) summaries run2 = Inr run"
    "cursor = project_cursor db (en_project_key env)" "same_frame db (ru_db run2)"
    "wf_store (evidence db) \<longrightarrow> wf_store (evidence (ru_db run2))"
    using ingest_parts [OF assms] by blast
  show "same_frame db (ru_db run)"
    by (rule fold_ok_inv [where I = "\<lambda>run. same_frame db (ru_db run)", OF p(1,3)]) (simp add: sync_issue_frame)
  show "wf_store (evidence (ru_db run))" if "wf_store (evidence db)"
    by (rule fold_ok_inv [where I = "\<lambda>run. wf_store (evidence (ru_db run))", OF p(1) mp [OF p(4) that]])
      (rule sync_issue_wf)
  show "cursor = project_cursor db (en_project_key env)" by (rule p(2))
qed

subsection \<open>The accepted times\<close>

definition optional :: "'a option \<Rightarrow> 'a list" where
  "optional v = (case v of None \<Rightarrow> [] | Some x \<Rightarrow> [x])"

text \<open>The Jira time of an issue that a run accepts: of its summary when it was skipped as unchanged,
  of its detail otherwise.\<close>

definition accepted_time :: "jira_answers \<Rightarrow> jira_issue_summary \<Rightarrow> utc option \<Rightarrow> bool" where
  "accepted_time jira s t \<longleftrightarrow> t = coerce_utc (js_updated s)
     \<or> (\<exists>raw. an_detail jira (js_key s) = Inr raw \<and> t = coerce_utc (jd_updated raw))"

lemma accept_optional: "ru_accepted (accept v run) = ru_accepted run @ optional (coerce_utc v)"
  by (simp add: accept_def optional_def split: option.splits)

lemma coerce_naive_utc [simp]: "coerce_utc (map_option naive_utc v) = coerce_utc v"
  by (cases v) (simp_all add: naive_utc_def to_utc_def naive_def split: option.splits)

lemma store_sprints_accepted [simp]: "ru_accepted (fold (store_sprint env) refs run) = ru_accepted run"
  by (induction refs arbitrary: run) (simp_all add: store_sprint_def count_def on_evidence_def split: prod.splits)

lemma sync_issue_accepted:
  assumes "sync_issue env jira mode cursor ids s run = Inr run'"
  shows "sy_issues_skipped (ru_result run) \<le> sy_issues_skipped (ru_result run')
    \<and> (sy_issues_skipped (ru_result run') = sy_issues_skipped (ru_result run) \<longrightarrow>
      (\<exists>t. ru_accepted run' = ru_accepted run @ optional t \<and> accepted_time jira s t))"
proof (cases "mode = Incremental
    \<and> can_skip_unchanged_issue s cursor (get_issue_sync_freshness (evidence (ru_db run)) (js_key s))")
  case True
  then have "run' = accept (js_updated s) (count (\<lambda>r. r\<lparr>
         sy_issue_details_skipped_unchanged := Suc (sy_issue_details_skipped_unchanged r),
         sy_changelogs_skipped_unchanged := Suc (sy_changelogs_skipped_unchanged r)\<rparr>) run)"
    using assms by (simp add: sync_issue_def)
  then show ?thesis by (auto simp: accept_optional accepted_time_def)
next
  case False
  show ?thesis
  proof (cases "an_detail jira (js_key s)")
    case (Inl e)
    then show ?thesis using False assms by (auto simp: sync_issue_def split: if_splits)
  next
    case (Inr raw)
    let ?d = "sanitize_issue_detail (en_secrets env) raw"
    obtain entries where e: "store_changelog env ?d entries (store_issue env ids ?d run) = Inr run'"
      using assms False Inr by (auto simp: sync_issue_def Let_def and_then_Inr_iff)
    obtain i where "find_by issue_key (jd_key ?d) (issues (evidence (ru_db (store_issue env ids ?d run)))) = Some i"
      using issue_written_row(1) by fastforce
    from store_changelog_evidence [OF this, of env entries] e
    have "ru_accepted run' = ru_accepted (store_issue env ids ?d run)" by auto
    also have "\<dots> = ru_accepted run @ optional (coerce_utc (jd_updated raw))"
      by (simp add: store_issue_def Let_def accept_optional sanitize_issue_detail_def split: prod.splits)
    finally have acc: "ru_accepted run' = ru_accepted run @ optional (coerce_utc (jd_updated raw))" .
    from assms have "sy_issues_skipped (ru_result run) \<le> sy_issues_skipped (ru_result run')"
      by (cases rule: sync_issue_cases) auto
    then show ?thesis using acc Inr by (auto simp: accepted_time_def)
  qed
qed

lemma sync_issues_accepted:
  assumes "fold_ok (sync_issue env jira mode cursor ids) summaries run = Inr run'"
  shows "sy_issues_skipped (ru_result run) \<le> sy_issues_skipped (ru_result run')
    \<and> (sy_issues_skipped (ru_result run') = sy_issues_skipped (ru_result run) \<longrightarrow>
      (\<exists>ts. ru_accepted run' = ru_accepted run @ concat (map optional ts) \<and> list_all2 (accepted_time jira) summaries ts))"
  using assms
proof (induction summaries arbitrary: run)
  case (Cons s summaries)
  from Cons.prems obtain run1 where r: "sync_issue env jira mode cursor ids s run = Inr run1"
    "fold_ok (sync_issue env jira mode cursor ids) summaries run1 = Inr run'" by (auto simp: and_then_Inr_iff)
  note IH = Cons.IH [OF r(2)] and step = sync_issue_accepted [OF r(1)]
  have "\<exists>ts. ru_accepted run' = ru_accepted run @ concat (map optional ts) \<and> list_all2 (accepted_time jira) (s # summaries) ts"
    if sk: "sy_issues_skipped (ru_result run') = sy_issues_skipped (ru_result run)"
  proof -
    have eq: "sy_issues_skipped (ru_result run1) = sy_issues_skipped (ru_result run)" using IH step sk by linarith
    obtain ts where ts: "ru_accepted run' = ru_accepted run1 @ concat (map optional ts)"
      "list_all2 (accepted_time jira) summaries ts" using IH sk eq by auto
    obtain t where "ru_accepted run1 = ru_accepted run @ optional t" "accepted_time jira s t" using step eq by auto
    with ts have "ru_accepted run' = ru_accepted run @ concat (map optional (t # ts))"
      "list_all2 (accepted_time jira) (s # summaries) (t # ts)" by simp_all
    then show ?thesis by blast
  qed
  then show ?case using IH step by auto
qed simp

subsection \<open>Outcomes of a sync\<close>

definition keeps_evidence :: "'m recompute \<Rightarrow> bool" where
  "keeps_evidence rc \<longleftrightarrow> (\<forall>k db db'. (rc_release_metrics rc k db = Inr db' \<or> rc_release_signal rc k db = Inr db'
      \<or> rc_sprint_metrics rc k db = Inr db') \<longrightarrow> evidence db' = evidence db)"

lemma recompute_all_evidence:
  assumes "keeps_evidence rc" and "recompute_all rc rids sids db = Inr db'"
  shows "evidence db' = evidence db"
proof -
  obtain db1 where r: "fold_ok (\<lambda>rid db. and_then (rc_release_metrics rc rid db) (rc_release_signal rc rid)) rids db = Inr db1"
    "fold_ok (rc_sprint_metrics rc) sids db1 = Inr db'"
    using assms(2) by (auto simp: recompute_all_def and_then_Inr_iff)
  have "evidence db1 = evidence db"
    by (rule fold_ok_inv [where I = "\<lambda>x. evidence x = evidence db", OF r(1)])
      (use assms(1) in \<open>auto simp: keeps_evidence_def and_then_Inr_iff\<close>)
  then show ?thesis
    by (intro fold_ok_inv [where I = "\<lambda>x. evidence x = evidence db", OF r(2)])
      (use assms(1) in \<open>auto simp: keeps_evidence_def\<close>)
qed

lemma sync_success_parts:
  assumes "sync_from_jira now env jira rc locked mode db = (Inr result, db')"
  obtains run ids cursor db1 where "ingest env jira mode (mark_project_sync_running (en_project_key env) db) = Inr (run, ids, cursor)"
    and "recompute_all rc (map snd ids)
      (sorted_keys (ru_sprints run @ list_project_sprint_ids (evidence (ru_db run)) (en_project_key env))) (ru_db run) = Inr db1"
    and "cursor = project_cursor db (en_project_key env)"
    and "result = (ru_result run)\<lparr>sy_cursor_advanced :=
      (next_cursor cursor (sy_issues_skipped (ru_result run)) (ru_accepted run) \<noteq> cursor)\<rparr>"
    and "db' = mark_project_sync_succeeded now (en_project_key env)
      (map_option naive (next_cursor cursor (sy_issues_skipped (ru_result run)) (ru_accepted run))) result
      (mark_sync_succeeded now db1)"
proof -
  let ?key = "en_project_key env" and ?db0 = "mark_project_sync_running (en_project_key env) db"
  have "sync_run now env jira rc mode ?db0 = Inr (result, db')"
    using assms by (auto simp: sync_from_jira_def Let_def split: if_splits sum.splits)
  then obtain run ids cursor where i: "ingest env jira mode ?db0 = Inr (run, ids, cursor)"
    "finish_run now env rc run ids cursor = Inr (result, db')"
    by (auto simp: sync_run_def and_then_Inr_iff)
  have "project_cursor ?db0 ?key = project_cursor db ?key"
    by (simp add: project_cursor_def mark_project_sync_running_def state_of_update new_sync_state_def split: option.splits)
  then have c: "cursor = project_cursor db ?key" using ingest_invariants(3) [OF i(1)] by simp
  obtain db1 where "recompute_all rc (map snd ids)
      (sorted_keys (ru_sprints run @ list_project_sprint_ids (evidence (ru_db run)) ?key)) (ru_db run) = Inr db1"
    "result = (ru_result run)\<lparr>sy_cursor_advanced :=
      (next_cursor cursor (sy_issues_skipped (ru_result run)) (ru_accepted run) \<noteq> cursor)\<rparr>"
    "db' = mark_project_sync_succeeded now ?key
      (map_option naive (next_cursor cursor (sy_issues_skipped (ru_result run)) (ru_accepted run))) result
      (mark_sync_succeeded now db1)"
    using i(2) by (auto simp: finish_run_def Let_def and_then_Inr_iff)
  then show ?thesis using that i(1) c by blast
qed

text \<open>The part of a project's sync state that only a successful sync may change.\<close>

definition trusted_state :: "'m database \<Rightarrow> string \<Rightarrow> py_datetime option \<times> utc option \<times> sync_result option" where
  "trusted_state db key = (case get_project_sync_state db key of
       None \<Rightarrow> (None, None, None)
     | Some s \<Rightarrow> (ps_last_successful_jira_updated_at s, ps_last_successful_sync_at s, ps_latest_sync_result s))"


lemma state_after_success:
  obtains s where "get_project_sync_state (mark_project_sync_succeeded now key c result db) key =
    Some (s\<lparr>ps_current_sync_status := ''succeeded'', ps_last_successful_jira_updated_at := c,
      ps_last_successful_sync_at := Some now, ps_last_failure_summary := None, ps_latest_sync_result := Some result\<rparr>)"
proof -
  have "get_project_sync_state (mark_project_sync_succeeded now key c result db) key =
    Some ((case get_project_sync_state db key of None \<Rightarrow> new_sync_state key | Some s \<Rightarrow> s)
      \<lparr>ps_current_sync_status := ''succeeded'', ps_last_successful_jira_updated_at := c,
      ps_last_successful_sync_at := Some now, ps_last_failure_summary := None, ps_latest_sync_result := Some result\<rparr>)"
    unfolding mark_project_sync_succeeded_def by (subst state_of_update) simp_all
  then show ?thesis using that by blast
qed

lemma complete_ingest:
  assumes "ingest env jira mode db = Inr (run, ids, cursor)" and skipped: "sy_issues_skipped (ru_result run) = 0"
  shows "\<exists>summaries ts. an_issues jira = Inr summaries \<and> list_all2 (accepted_time jira) summaries ts
    \<and> ru_accepted run = concat (map optional ts)"
proof -
  obtain summaries run2 where f: "an_issues jira = Inr summaries"
    "fold_ok (sync_issue env jira (effective_mode mode cursor) cursor ids) summaries run2 = Inr run"
    "sy_issues_skipped (ru_result run2) = 0" "ru_accepted run2 = []"
    using ingest_parts [OF assms(1)] by blast
  have "sy_issues_skipped (ru_result run) = sy_issues_skipped (ru_result run2)" using skipped f(3) by simp
  with sync_issues_accepted [OF f(2)] f(1,4) show ?thesis by auto
qed

text \<open>C16: a successful sync records itself: the project's state says so, holds the result and no failure, and
  its cursor is the latest accepted Jira time, or unchanged when an issue had to be skipped. It
  keeps the keys of the stored evidence unique and its sprint links on existing issues.\<close>

theorem successful_sync_state:
  assumes "sync_from_jira now env jira rc locked mode db = (Inr result, db')"
  shows "\<exists>s. get_project_sync_state db' (en_project_key env) = Some s
      \<and> ps_current_sync_status s = ''succeeded'' \<and> ps_last_successful_sync_at s = Some now
      \<and> ps_latest_sync_result s = Some result \<and> ps_last_failure_summary s = None
      \<and> (sy_issues_skipped result \<noteq> 0 \<longrightarrow> project_cursor db' (en_project_key env) = project_cursor db (en_project_key env))
      \<and> (sy_issues_skipped result = 0 \<longrightarrow>
          (\<exists>summaries ts. an_issues jira = Inr summaries \<and> list_all2 (accepted_time jira) summaries ts
            \<and> project_cursor db' (en_project_key env)
              = next_cursor (project_cursor db (en_project_key env)) 0 (concat (map optional ts))))
      \<and> (sy_cursor_advanced result \<longleftrightarrow> project_cursor db' (en_project_key env) \<noteq> project_cursor db (en_project_key env))
      \<and> (keeps_evidence rc \<longrightarrow> wf_store (evidence db) \<longrightarrow> wf_store (evidence db'))"
proof -
  let ?key = "en_project_key env"
  from sync_success_parts [OF assms] obtain run ids cursor db1 where
    i: "ingest env jira mode (mark_project_sync_running ?key db) = Inr (run, ids, cursor)"
    and rc: "recompute_all rc (map snd ids)
      (sorted_keys (ru_sprints run @ list_project_sprint_ids (evidence (ru_db run)) ?key)) (ru_db run) = Inr db1"
    and c: "cursor = project_cursor db ?key"
    and res: "result = (ru_result run)\<lparr>sy_cursor_advanced :=
      (next_cursor cursor (sy_issues_skipped (ru_result run)) (ru_accepted run) \<noteq> cursor)\<rparr>"
    and db': "db' = mark_project_sync_succeeded now ?key
      (map_option naive (next_cursor cursor (sy_issues_skipped (ru_result run)) (ru_accepted run))) result
      (mark_sync_succeeded now db1)" .
  let ?c = "next_cursor cursor (sy_issues_skipped result) (ru_accepted run)"
  have c': "next_cursor cursor (sy_issues_skipped (ru_result run)) (ru_accepted run) = ?c" by (simp add: res)
  obtain s where s: "get_project_sync_state db' ?key = Some (s\<lparr>ps_current_sync_status := ''succeeded'',
      ps_last_successful_jira_updated_at := map_option naive ?c, ps_last_successful_sync_at := Some now,
      ps_last_failure_summary := None, ps_latest_sync_result := Some result\<rparr>)"
    unfolding db' c' by (rule state_after_success)
  have p: "project_cursor db' ?key = ?c"
    unfolding project_cursor_def s by (cases ?c) simp_all
  have "wf_store (evidence db')" if "keeps_evidence rc" "wf_store (evidence db)"
  proof -
    have "wf_store (evidence (ru_db run))"
      using ingest_invariants(2) [OF i] that(2) by (simp add: mark_project_sync_running_def)
    then have "wf_store (evidence db1)" using recompute_all_evidence [OF that(1) rc] by simp
    then show ?thesis by (simp add: db' mark_project_sync_succeeded_def)
  qed
  moreover have "sy_cursor_advanced result \<longleftrightarrow> ?c \<noteq> cursor" using res by simp
  moreover have "sy_issues_skipped result \<noteq> 0 \<longrightarrow> ?c = cursor" by (simp add: next_cursor_def)
  moreover have "\<exists>summaries ts. an_issues jira = Inr summaries \<and> list_all2 (accepted_time jira) summaries ts
      \<and> ?c = next_cursor cursor 0 (concat (map optional ts))"
    if sk: "sy_issues_skipped result = 0"
  proof -
    have "sy_issues_skipped (ru_result run) = 0" using sk res by simp
    from complete_ingest [OF i this] show ?thesis using sk by (metis (no_types))
  qed
  ultimately show ?thesis using s p c by auto
qed

subsection \<open>Every issue is read\<close>

text \<open>Jira answers a detail request with the issue that was asked for.\<close>

definition answers_by_key :: "jira_answers \<Rightarrow> bool" where
  "answers_by_key jira \<longleftrightarrow> (\<forall>k d. an_detail jira k = Inr d \<longrightarrow> jd_key d = k)"

definition complete_row :: "store \<Rightarrow> string \<Rightarrow> bool" where
  "complete_row db k = (case find_by issue_key k (issues db) of None \<Rightarrow> False | Some i \<Rightarrow> issue_changelog_complete i)"

text \<open>The row of an issue shows the detail Jira gave in this run.\<close>

definition current_row :: "sync_env \<Rightarrow> (string \<times> string) list \<Rightarrow> jira_answers \<Rightarrow> store \<Rightarrow> string \<Rightarrow> bool" where
  "current_row env ids jira db k =
    (case (an_detail jira k, find_by issue_key k (issues db)) of
       (Inr raw, Some i) \<Rightarrow>
         (let d = sanitize_issue_detail (en_secrets env) raw
          in shows_detail d (linked_release ids (jd_fix_versions d))
               (classify_blocker (en_mapping env) (jd_issue_type d) (jd_priority d) (jd_status d) (jd_blocker_flag d)) i)
     | _ \<Rightarrow> False)"

lemma sanitized_key [simp]: "jd_key (sanitize_issue_detail secrets d) = jd_key d"
  by (simp add: sanitize_issue_detail_def)

lemma sync_issue_rows:
  assumes "sync_issue env jira mode cursor ids s run = Inr run'" and "answers_by_key jira"
  shows "sy_issues_skipped (ru_result run) \<le> sy_issues_skipped (ru_result run')"
    and "complete_row (evidence (ru_db run)) k \<Longrightarrow> complete_row (evidence (ru_db run')) k"
    and "current_row env ids jira (evidence (ru_db run)) k \<Longrightarrow> current_row env ids jira (evidence (ru_db run')) k"
    and "sy_issues_skipped (ru_result run') = sy_issues_skipped (ru_result run) \<Longrightarrow>
      complete_row (evidence (ru_db run')) (js_key s)
      \<and> (mode = Full \<longrightarrow> current_row env ids jira (evidence (ru_db run')) (js_key s))"
proof -
  have "sy_issues_skipped (ru_result run) \<le> sy_issues_skipped (ru_result run')
    \<and> (complete_row (evidence (ru_db run)) k \<longrightarrow> complete_row (evidence (ru_db run')) k)
    \<and> (current_row env ids jira (evidence (ru_db run)) k \<longrightarrow> current_row env ids jira (evidence (ru_db run')) k)
    \<and> (sy_issues_skipped (ru_result run') = sy_issues_skipped (ru_result run) \<longrightarrow>
      complete_row (evidence (ru_db run')) (js_key s)
      \<and> (mode = Full \<longrightarrow> current_row env ids jira (evidence (ru_db run')) (js_key s)))"
    using assms(1)
  proof (cases rule: sync_issue_cases)
    case unchanged
    then have "complete_row (evidence (ru_db run)) (js_key s)"
      by (auto simp: can_skip_unchanged_issue_def get_issue_sync_freshness_def complete_row_def split: option.splits)
    then show ?thesis using unchanged by simp
  next
    case (unread e)
    then show ?thesis by simp
  next
    case (stored raw)
    let ?d = "sanitize_issue_detail (en_secrets env) raw"
    have key: "jd_key ?d = js_key s" using assms(2) stored(1) by (auto simp: answers_by_key_def)
    note rows = changelog_stored_rows [OF stored(2), unfolded key]
    have "complete_row (evidence (ru_db run')) (js_key s) \<and> current_row env ids jira (evidence (ru_db run')) (js_key s)"
      using rows(1) by (auto simp: complete_row_def current_row_def stored(1) Let_def)
    moreover have "complete_row (evidence (ru_db run)) k \<longrightarrow> complete_row (evidence (ru_db run')) k"
      "current_row env ids jira (evidence (ru_db run)) k \<longrightarrow> current_row env ids jira (evidence (ru_db run')) k" if "k \<noteq> js_key s"
      using rows(2) [OF that] by (simp_all add: complete_row_def current_row_def)
    ultimately show ?thesis using stored(3) by auto
  qed
  then show "sy_issues_skipped (ru_result run) \<le> sy_issues_skipped (ru_result run')"
    "complete_row (evidence (ru_db run)) k \<Longrightarrow> complete_row (evidence (ru_db run')) k"
    "current_row env ids jira (evidence (ru_db run)) k \<Longrightarrow> current_row env ids jira (evidence (ru_db run')) k"
    "sy_issues_skipped (ru_result run') = sy_issues_skipped (ru_result run) \<Longrightarrow>
      complete_row (evidence (ru_db run')) (js_key s)
      \<and> (mode = Full \<longrightarrow> current_row env ids jira (evidence (ru_db run')) (js_key s))"
    by blast+
qed

lemma sync_issues_rows:
  assumes "fold_ok (sync_issue env jira mode cursor ids) summaries run = Inr run'" and "answers_by_key jira"
    and "sy_issues_skipped (ru_result run') = sy_issues_skipped (ru_result run)"
  shows "\<forall>s \<in> set summaries. complete_row (evidence (ru_db run')) (js_key s)
      \<and> (mode = Full \<longrightarrow> current_row env ids jira (evidence (ru_db run')) (js_key s))"
  using assms(1,3)
proof (induction summaries arbitrary: run)
  case (Cons s summaries)
  from Cons.prems(1) obtain run1 where r: "sync_issue env jira mode cursor ids s run = Inr run1"
    "fold_ok (sync_issue env jira mode cursor ids) summaries run1 = Inr run'" by (auto simp: and_then_Inr_iff)
  note step = sync_issue_rows [OF r(1) assms(2)]
  have mono: "sy_issues_skipped (ru_result run1) \<le> sy_issues_skipped (ru_result run')
      \<and> (complete_row (evidence (ru_db run1)) k \<longrightarrow> complete_row (evidence (ru_db run')) k)
      \<and> (current_row env ids jira (evidence (ru_db run1)) k \<longrightarrow> current_row env ids jira (evidence (ru_db run')) k)" for k
    by (rule fold_ok_inv [where I = "\<lambda>x. sy_issues_skipped (ru_result run1) \<le> sy_issues_skipped (ru_result x)
      \<and> (complete_row (evidence (ru_db run1)) k \<longrightarrow> complete_row (evidence (ru_db x)) k)
      \<and> (current_row env ids jira (evidence (ru_db run1)) k \<longrightarrow> current_row env ids jira (evidence (ru_db x)) k)", OF r(2)])
      (simp, meson sync_issue_rows(1-3) assms(2) le_trans)
  have sk: "sy_issues_skipped (ru_result run1) = sy_issues_skipped (ru_result run)"
    using step(1) mono Cons.prems(2) by (metis le_antisym)
  show ?case using step(4) [OF sk] mono [of "js_key s"] Cons.IH [OF r(2)] Cons.prems(2) sk by simp
qed simp


subsection \<open>Concrete runs\<close>

definition sample_env :: sync_env where
  "sample_env = \<lparr>en_sync_enabled = True, en_startup = Inr (), en_project_key = ''LH'', en_mapping = default_mapping,
     en_secrets = [], en_parse_iso = (\<lambda>_. None)\<rparr>"

definition sample_summary :: "string \<Rightarrow> int \<Rightarrow> jira_issue_summary" where
  "sample_summary k t = \<lparr>js_key = k, js_summary = [], js_status = None, js_issue_type = None, js_priority = None,
     js_assignee = None, js_updated = Some (aware t 0), js_assignee_id = None, js_created = None,
     js_fix_versions = [], js_sprints = []\<rparr>"

definition sample_detail :: "string \<Rightarrow> string \<Rightarrow> int \<Rightarrow> jira_issue_detail" where
  "sample_detail k status t = \<lparr>jd_key = k, jd_summary = [], jd_status = Some status, jd_issue_type = None,
     jd_priority = None, jd_assignee = None, jd_updated = Some (aware t 0), jd_assignee_id = None, jd_created = None,
     jd_fix_versions = [], jd_sprints = [],
     jd_story_points = None, jd_blocker_flag = None\<rparr>"

definition sample_jira :: "jira_issue_detail list \<Rightarrow> jira_answers" where
  "sample_jira ds = \<lparr>an_auth = Inr (),
     an_versions = Inr [],
     an_issues = Inr (map (\<lambda>d. sample_summary (jd_key d) (to_utc (the (jd_updated d)))) ds),
     an_detail = (\<lambda>k. case find (\<lambda>d. jd_key d = k) ds of None \<Rightarrow> Inl (Request_Error ''404'' (Some 404)) | Some d \<Rightarrow> Inr d),
     an_changelog = (\<lambda>k. Inr [])\<rparr>"

definition no_recompute :: "'m recompute" where
  "no_recompute = \<lparr>rc_release_metrics = (\<lambda>_. Inr), rc_release_signal = (\<lambda>_. Inr), rc_sprint_metrics = (\<lambda>_. Inr)\<rparr>"

definition empty_database :: "unit database" where
  "empty_database = \<lparr>evidence = \<lparr>issues = [], histories = [], issue_sprints = [], sprints = [], releases = []\<rparr>,
     sync_states = [], op_status = \<lparr>os_last_sync_succeeded_at = None, os_last_sync_failed_at = None,
       os_last_sync_failure_summary = None, os_last_metrics_recompute_at = None, os_last_signal_recompute_at = None\<rparr>,
     derived = ()\<rparr>"

definition first_run :: "(sync_error + sync_result) \<times> unit database" where
  "first_run = sync_from_jira 100 sample_env (sample_jira [sample_detail ''K1'' ''A'' 5, sample_detail ''K2'' ''B'' 8])
     no_recompute False Incremental empty_database"

definition second_run :: "(sync_error + sync_result) \<times> unit database" where
  "second_run = sync_from_jira 200 sample_env (sample_jira [sample_detail ''K1'' ''B'' 6, sample_detail ''K2'' ''B'' 8])
     no_recompute False Incremental (snd first_run)"

definition stored_status :: "'m database \<Rightarrow> string \<Rightarrow> string option" where
  "stored_status db k = Option.bind (find_by issue_key k (issues (evidence db))) issue_status"

lemma sample_answers_by_key: "answers_by_key (sample_jira ds)"
  by (auto simp: answers_by_key_def sample_jira_def find_Some_iff split: option.splits)

lemma no_recompute_keeps: "keeps_evidence no_recompute"
  by (simp add: keeps_evidence_def no_recompute_def)

lemma sample_runs:
  "(case first_run of (Inr r, db) \<Rightarrow> sy_issues_skipped r = 0 \<and> stored_status db ''K1'' = Some ''A''
      \<and> project_cursor db ''LH'' = Some 8 | _ \<Rightarrow> False)"
  "(case second_run of (Inr r, db) \<Rightarrow> sy_issue_details_skipped_unchanged r = 2 \<and> stored_status db ''K1'' = Some ''A''
     | _ \<Rightarrow> False)"
  by code_simp+

text \<open>An update that Jira records while a run is reading (K1 at time 6, read at 5, before K2 at 8) is not
  read by the next incremental run either: its time is not after the cursor, and the age of the stored
  row is not looked at. The stored status stays.\<close>

lemma update_during_run_is_lost:
  "stored_status (snd second_run) ''K1'' = Some ''A''"
proof -
  obtain x y where f: "second_run = (x, y)" by fastforce
  show ?thesis using sample_runs(2) unfolding f by (cases x) simp_all
qed

lemma first_run_result:
  obtains r db where "first_run = (Inr r, db)" and "sy_issues_skipped r = 0"
proof -
  obtain x y where f: "first_run = (x, y)" by fastforce
  show ?thesis using sample_runs(1) that unfolding f by (cases x) simp_all
qed

lemma successful_sync_state_witness:
  "\<exists>r db s. first_run = (Inr r, db) \<and> get_project_sync_state db ''LH'' = Some s
    \<and> ps_current_sync_status s = ''succeeded'' \<and> ps_latest_sync_result s = Some r"
proof -
  obtain r db where f: "first_run = (Inr r, db)" by (rule first_run_result)
  have k: "en_project_key sample_env = ''LH''" by (simp add: sample_env_def)
  from successful_sync_state [OF f [unfolded first_run_def]] f show ?thesis unfolding k by blast
qed


definition rejected_run :: "(sync_error + sync_result) \<times> unit database" where
  "rejected_run = sync_from_jira 300 sample_env ((sample_jira [])\<lparr>an_auth := Inl (Auth_Error ''Jira authentication failed'')\<rparr>)
     no_recompute False Full (snd first_run)"


subsection \<open>The service over time\<close>

text \<open>The service with its lock and its committed database. A run starts by committing the running mark and
  ends by committing its outcome; the process may die at any moment, which frees the lock and leaves
  the database as committed.\<close>

record 'm service =
  sv_locked :: bool
  sv_db :: "'m database"

inductive service_step :: "sync_env \<Rightarrow> 'm recompute \<Rightarrow> 'm service \<Rightarrow> 'm service \<Rightarrow> bool" for env rc where
  begins: "\<not> sv_locked s \<Longrightarrow> validate_sync_settings env = Inr () \<Longrightarrow>
    service_step env rc s \<lparr>sv_locked = True, sv_db = mark_project_sync_running (en_project_key env) (sv_db s)\<rparr>"
| succeeds: "sv_locked s \<Longrightarrow> sync_run now env jira rc mode (sv_db s) = Inr (result, db) \<Longrightarrow>
    service_step env rc s \<lparr>sv_locked = False, sv_db = db\<rparr>"
| fails: "sv_locked s \<Longrightarrow> sync_run now env jira rc mode (sv_db s) = Inl e \<Longrightarrow>
    service_step env rc s \<lparr>sv_locked = False, sv_db = persist_sync_failure_status now (en_project_key env) e (sv_db s)\<rparr>"
| restarts: "service_step env rc s \<lparr>sv_locked = False, sv_db = sv_db s\<rparr>"

inductive reachable_service :: "sync_env \<Rightarrow> 'm recompute \<Rightarrow> 'm service \<Rightarrow> bool" for env rc where
  start: "sync_states db = [] \<Longrightarrow> reachable_service env rc \<lparr>sv_locked = False, sv_db = db\<rparr>"
| step: "reachable_service env rc s \<Longrightarrow> service_step env rc s s' \<Longrightarrow> reachable_service env rc s'"

definition stored_sync_status :: "'m database \<Rightarrow> string \<Rightarrow> string option" where
  "stored_sync_status db key = map_option ps_current_sync_status (get_project_sync_state db key)"

lemma stored_status_updates:
  "stored_sync_status (mark_project_sync_running key db) key = Some ''running''"
  "stored_sync_status (persist_sync_failure_status now key e db) key = Some ''failed''"
  "stored_sync_status (mark_project_sync_succeeded now key c r db) key = Some ''succeeded''"
  by (simp_all add: stored_sync_status_def mark_project_sync_running_def persist_sync_failure_status_def
      mark_project_sync_failed_def mark_project_sync_succeeded_def state_of_update)

lemma sync_run_succeeded: "sync_run now env jira rc mode db = Inr (result, db') \<Longrightarrow>
    stored_sync_status db' (en_project_key env) = Some ''succeeded''"
  by (auto simp: sync_run_def and_then_Inr_iff finish_run_def Let_def stored_status_updates split: prod.splits)

definition service_inv :: "sync_env \<Rightarrow> 'm service \<Rightarrow> bool" where
  "service_inv env s \<longleftrightarrow> (if sv_locked s then stored_sync_status (sv_db s) (en_project_key env) = Some ''running''
     else stored_sync_status (sv_db s) (en_project_key env)
       \<in> {None, Some ''running'', Some ''succeeded'', Some ''failed''})"

lemma service_step_inv: "service_step env rc s s' \<Longrightarrow> service_inv env s \<Longrightarrow> service_inv env s'"
  by (induction rule: service_step.induct)
    (auto simp: service_inv_def stored_status_updates dest: sync_run_succeeded split: if_splits)

lemma reachable_service_inv: "reachable_service env rc s \<Longrightarrow> service_inv env s"
proof (induction rule: reachable_service.induct)
  case (start db)
  then show ?case by (simp add: service_inv_def stored_sync_status_def get_project_sync_state_def find_by_def)
qed (rule service_step_inv)

lemma reported_status:
  "st_current_sync_status (get_jira_sync_status key locked db) =
    (case stored_sync_status db key of None \<Rightarrow> ''idle''
     | Some st \<Rightarrow> if st = ''running'' \<and> \<not> locked then ''failed'' else st)"
  by (auto simp: get_jira_sync_status_def stored_sync_status_def Let_def split: option.splits)



end
