(* ===== verification/RiskAging.thy ===== *)
theory RiskAging
  imports FieldMapper
begin

text \<open>
  Risk aging of services/signal_service.py: since when an open blocker or an open bug of high severity
  has been one. \<open>risk_start_evidence\<close> undoes the recorded changes of an issue, latest first, from its
  current row, and stops at the first change before which the risk was not there. The theorem says
  that this backward search finds what a forward run over the same history tracks.
\<close>

subsection \<open>The state the replay undoes\<close>

text \<open>The two risk types the callers pass; any other string raises in the code.\<close>

datatype risk_type = Blockers | High_Severity_Bugs

record risk_state =
  st_status :: "string option"
  st_priority :: "string option"
  st_issue_type :: "string option"
  st_blocker_flag :: "bool option"

definition current_risk_state :: "issue \<Rightarrow> risk_state" where
  "current_risk_state i = \<lparr>st_status = issue_status i, st_priority = issue_priority i,
     st_issue_type = issue_type i, st_blocker_flag = issue_blocker_flag i\<rparr>"

definition is_active :: "field_mapping \<Rightarrow> risk_type \<Rightarrow> risk_state \<Rightarrow> bool" where
  "is_active fm rt st =
    (case rt of
       Blockers \<Rightarrow> classify_blocker fm (Some (or_empty (st_issue_type st))) (st_priority st)
         (Some (or_empty (st_status st))) (st_blocker_flag st)
     | High_Severity_Bugs \<Rightarrow> is_bug fm (Some (or_empty (st_issue_type st)))
         \<and> is_high_severity fm (st_priority st)
         \<and> \<not> is_done_status fm (Some (or_empty (st_status st))))"

datatype tracked_field = Status_Field | Priority_Field | Type_Field | Blocker_Flag_Field

definition tracked_field_of :: "field_mapping \<Rightarrow> string \<Rightarrow> tracked_field option" where
  "tracked_field_of fm name =
    (let field_name = casefold (strip name);
         severity_fields = {''priority'', casefold (severity_field fm)};
         blocker = casefold (blocker_field fm)
     in if field_name = ''status'' then Some Status_Field
        else if field_name \<in> severity_fields then Some Priority_Field
        else if field_name \<in> {''issuetype'', ''issue type''} then Some Type_Field
        else if blocker \<noteq> [] \<and> field_name = blocker then Some Blocker_Flag_Field
        else None)"

fun set_field :: "field_mapping \<Rightarrow> tracked_field \<Rightarrow> string option \<Rightarrow> risk_state \<Rightarrow> risk_state" where
  "set_field fm Status_Field v st = st\<lparr>st_status := v\<rparr>"
| "set_field fm Priority_Field v st = st\<lparr>st_priority := v\<rparr>"
| "set_field fm Type_Field v st = st\<lparr>st_issue_type := v\<rparr>"
| "set_field fm Blocker_Flag_Field v st = st\<lparr>st_blocker_flag := parse_blocker_flag fm v\<rparr>"

text \<open>One entry undone; \<open>None\<close> is the \<open>continue\<close> of an entry of another field.\<close>

definition undo_entry :: "field_mapping \<Rightarrow> issue_history \<Rightarrow> risk_state \<Rightarrow> risk_state option" where
  "undo_entry fm e st = map_option (\<lambda>f. set_field fm f (hist_old_value e) st)
     (tracked_field_of fm (hist_field_name e))"

subsection \<open>The search\<close>

record risk_start =
  rs_risk_started_at :: "utc option"
  rs_source_field :: "string option"
  rs_source_changed_at :: "utc option"

definition no_risk_start :: risk_start where
  "no_risk_start = \<lparr>rs_risk_started_at = None, rs_source_field = None, rs_source_changed_at = None\<rparr>"

definition started_by :: "utc \<Rightarrow> string \<Rightarrow> risk_start" where
  "started_by t field = \<lparr>rs_risk_started_at = Some t, rs_source_field = Some field, rs_source_changed_at = Some t\<rparr>"

text \<open>The query selects the entries up to \<open>as_of\<close>; \<open>history_until\<close> is its result in ascending order of
  time and id, the code reads it in descending order.\<close>

definition changed_time :: "issue_history \<Rightarrow> utc" where
  "changed_time e = (case hist_changed_at e of None \<Rightarrow> 0 | Some d \<Rightarrow> to_utc d)"

definition history_until :: "store \<Rightarrow> string \<Rightarrow> utc \<Rightarrow> issue_history list" where
  "history_until db key as_of = sort_key (\<lambda>e. (changed_time e, hist_id e))
     (filter (\<lambda>e. hist_issue_key e = key \<and> hist_changed_at e \<noteq> None \<and> changed_time e \<le> as_of)
       (histories db))"

fun search_back :: "field_mapping \<Rightarrow> risk_type \<Rightarrow> issue_history list \<Rightarrow> risk_state \<Rightarrow> risk_start + risk_state" where
  "search_back fm rt [] st = Inr st"
| "search_back fm rt (e # es) st =
     (case undo_entry fm e st of
        None \<Rightarrow> search_back fm rt es st
      | Some st' \<Rightarrow> if \<not> is_active fm rt st' then Inl (started_by (changed_time e) (hist_field_name e))
                   else search_back fm rt es st')"

definition risk_start_evidence :: "store \<Rightarrow> issue \<Rightarrow> utc \<Rightarrow> field_mapping \<Rightarrow> risk_type \<Rightarrow> risk_start" where
  "risk_start_evidence db i as_of fm rt =
    (if \<not> issue_changelog_complete i then no_risk_start
     else case search_back fm rt (rev (history_until db (issue_key i) as_of)) (current_risk_state i) of
       Inl found \<Rightarrow> found
     | Inr st \<Rightarrow> (case coerce_utc (issue_created_at i) of
         None \<Rightarrow> no_risk_start
       | Some c \<Rightarrow> if is_active fm rt st \<and> c \<le> as_of then started_by c ''jira_created_at'' else no_risk_start))"

subsection \<open>The issues and their ages\<close>

definition sql_lower_in :: "string option \<Rightarrow> string set \<Rightarrow> bool" where
  "sql_lower_in v S = (case v of None \<Rightarrow> False | Some s \<Rightarrow> casefold s \<in> S)"

text \<open>A missing status is not outside a set in SQL, unless the set is empty.\<close>

definition sql_lower_not_in :: "string option \<Rightarrow> string set \<Rightarrow> bool" where
  "sql_lower_not_in v S = (case v of None \<Rightarrow> S = {} | Some s \<Rightarrow> casefold s \<notin> S)"

definition list_risk_aging_issues ::
  "store \<Rightarrow> string \<Rightarrow> field_mapping \<Rightarrow> risk_type \<Rightarrow> string list option \<Rightarrow> issue list" where
  "list_risk_aging_issues db rid fm rt keys =
    (case keys of
       Some ks \<Rightarrow> if ks = [] then []
                  else filter (\<lambda>i. issue_key i \<in> set ks) (release_issues db rid)
     | None \<Rightarrow> (case rt of
         Blockers \<Rightarrow> filter (\<lambda>i. classify_blocker fm (issue_type i) (issue_priority i) (issue_status i)
           (issue_blocker_flag i)) (release_issues db rid)
       | High_Severity_Bugs \<Rightarrow> filter (\<lambda>i. sql_lower_in (issue_type i) (bug_issue_types fm)
           \<and> sql_lower_in (issue_priority i) (high_severity_values fm)
           \<and> sql_lower_not_in (issue_status i) (done_statuses fm)) (release_issues db rid)))"

text \<open>The type of times is a parameter: instants here, texts in the stored evidence.\<close>

record 't aging_ticket =
  at_key :: string
  at_age_days :: "pyfloat option"
  at_issue_age_days :: "pyfloat option"
  at_jira_created_at :: "'t option"
  at_risk_started_at :: "'t option"
  at_risk_start_source_field :: "string option"
  at_risk_start_source_changed_at :: "'t option"
  at_history_complete :: bool
  at_explanation :: "string option"

record 't risk_ages =
  ra_count :: nat
  ra_known_count :: nat
  ra_unknown_count :: nat
  ra_oldest_age_days :: "pyfloat option"
  ra_average_age_days :: "pyfloat option"
  ra_tickets :: "'t aging_ticket list"

record 't risk_aging =
  rk_blockers :: "'t risk_ages"
  rk_high_severity_bugs :: "'t risk_ages"
  rk_as_of :: "'t option"

definition age_in_days :: "utc \<Rightarrow> utc \<Rightarrow> pyfloat" where
  "age_in_days as_of t = py_round 1 (fdiv (max 0 (total_seconds (as_of - t))) 86400)"

definition risk_start_unavailable :: string where
  "risk_start_unavailable = ''Risk start unavailable from Jira history.''"

definition aging_ticket_of :: "store \<Rightarrow> utc \<Rightarrow> field_mapping \<Rightarrow> risk_type \<Rightarrow> issue \<Rightarrow> utc aging_ticket" where
  "aging_ticket_of db as_of fm rt i =
    (let start = risk_start_evidence db i as_of fm rt;
         age_days = map_option (age_in_days as_of) (rs_risk_started_at start);
         created = coerce_utc (issue_created_at i)
     in \<lparr>at_key = issue_key i, at_age_days = age_days,
         at_issue_age_days = map_option (age_in_days as_of) created,
         at_jira_created_at = created,
         at_risk_started_at = rs_risk_started_at start,
         at_risk_start_source_field = rs_source_field start,
         at_risk_start_source_changed_at = rs_source_changed_at start,
         at_history_complete = issue_changelog_complete i,
         at_explanation = (if age_days \<noteq> None then None else Some risk_start_unavailable)\<rparr>)"

definition no_risk_ages :: "'t risk_ages" where
  "no_risk_ages = \<lparr>ra_count = 0, ra_known_count = 0, ra_unknown_count = 0, ra_oldest_age_days = None,
     ra_average_age_days = None, ra_tickets = []\<rparr>"

definition summarize_issue_risk_ages ::
  "store \<Rightarrow> issue list \<Rightarrow> utc \<Rightarrow> field_mapping \<Rightarrow> risk_type \<Rightarrow> utc risk_ages" where
  "summarize_issue_risk_ages db is as_of fm rt =
    (if is = [] then no_risk_ages
     else let tickets = map (aging_ticket_of db as_of fm rt) is;
              ages = List.map_filter at_age_days tickets
       in \<lparr>ra_count = length is, ra_known_count = length ages,
           ra_unknown_count = length is - length ages,
           ra_oldest_age_days = (if ages \<noteq> [] then Some (py_round 1 (Max (set ages))) else None),
           ra_average_age_days =
             (if ages \<noteq> [] then Some (py_round 1 (fdiv (fsum ages) (fint (int (length ages))))) else None),
           ra_tickets = tickets\<rparr>)"

definition build_release_risk_aging ::
  "store \<Rightarrow> field_mapping \<Rightarrow> string \<Rightarrow> utc \<Rightarrow> string list option \<Rightarrow> string list option \<Rightarrow> utc risk_aging" where
  "build_release_risk_aging db fm rid as_of blocker_keys bug_keys =
    (let t = as_of
     in \<lparr>rk_blockers = summarize_issue_risk_ages db (list_risk_aging_issues db rid fm Blockers blocker_keys)
           t fm Blockers,
         rk_high_severity_bugs = summarize_issue_risk_ages db
           (list_risk_aging_issues db rid fm High_Severity_Bugs bug_keys) t fm High_Severity_Bugs,
         rk_as_of = Some t\<rparr>)"

text \<open>\<open>_json_safe_evidence\<close> on the evidence: every time becomes its ISO text.\<close>

definition json_safe_ticket :: "utc aging_ticket \<Rightarrow> string aging_ticket" where
  "json_safe_ticket t = \<lparr>at_key = at_key t, at_age_days = at_age_days t, at_issue_age_days = at_issue_age_days t,
     at_jira_created_at = map_option isoformat_utc (at_jira_created_at t),
     at_risk_started_at = map_option isoformat_utc (at_risk_started_at t),
     at_risk_start_source_field = at_risk_start_source_field t,
     at_risk_start_source_changed_at = map_option isoformat_utc (at_risk_start_source_changed_at t),
     at_history_complete = at_history_complete t, at_explanation = at_explanation t\<rparr>"

definition json_safe_ages :: "utc risk_ages \<Rightarrow> string risk_ages" where
  "json_safe_ages a = \<lparr>ra_count = ra_count a, ra_known_count = ra_known_count a,
     ra_unknown_count = ra_unknown_count a, ra_oldest_age_days = ra_oldest_age_days a,
     ra_average_age_days = ra_average_age_days a, ra_tickets = map json_safe_ticket (ra_tickets a)\<rparr>"

definition json_safe_risk_aging :: "utc risk_aging \<Rightarrow> string risk_aging" where
  "json_safe_risk_aging a = \<lparr>rk_blockers = json_safe_ages (rk_blockers a),
     rk_high_severity_bugs = json_safe_ages (rk_high_severity_bugs a),
     rk_as_of = map_option isoformat_utc (rk_as_of a)\<rparr>"

subsection \<open>The forward run\<close>

definition redo_entry :: "field_mapping \<Rightarrow> issue_history \<Rightarrow> risk_state \<Rightarrow> risk_state" where
  "redo_entry fm e st =
    (case tracked_field_of fm (hist_field_name e) of
       None \<Rightarrow> st | Some f \<Rightarrow> set_field fm f (hist_new_value e) st)"

text \<open>A history fits the state it starts from when every entry's old value is the value it replaces.\<close>

fun fits :: "field_mapping \<Rightarrow> risk_state \<Rightarrow> issue_history list \<Rightarrow> bool" where
  "fits fm st [] \<longleftrightarrow> True"
| "fits fm st (e # es) \<longleftrightarrow>
     (case tracked_field_of fm (hist_field_name e) of
        None \<Rightarrow> True | Some f \<Rightarrow> set_field fm f (hist_old_value e) st = st)
     \<and> fits fm (redo_entry fm e st) es"

definition state_after :: "field_mapping \<Rightarrow> risk_state \<Rightarrow> issue_history list \<Rightarrow> risk_state" where
  "state_after fm st es = fold (redo_entry fm) es st"

text \<open>The time since which the risk has been there: kept while it stays, taken from the entry that
  brings it, dropped by the entry that ends it.\<close>

fun risk_since :: "field_mapping \<Rightarrow> risk_type \<Rightarrow> issue_history list \<Rightarrow> risk_state \<Rightarrow> utc option \<Rightarrow> utc option" where
  "risk_since fm rt [] st since = since"
| "risk_since fm rt (e # es) st since =
     risk_since fm rt es (redo_entry fm e st)
       (if \<not> is_active fm rt (redo_entry fm e st) then None
        else if is_active fm rt st then since else Some (changed_time e))"

lemma set_field_last [simp]: "set_field fm f v (set_field fm f w st) = set_field fm f v st"
  by (cases f) simp_all

lemma fits_snoc: "fits fm st (es @ [e]) \<longleftrightarrow> fits fm st es \<and> fits fm (state_after fm st es) [e]"
  by (induction es arbitrary: st) (simp_all add: state_after_def)

lemma state_after_snoc: "state_after fm st (es @ [e]) = redo_entry fm e (state_after fm st es)"
  by (simp add: state_after_def)

lemma risk_since_snoc:
  "risk_since fm rt (es @ [e]) st since =
    (if \<not> is_active fm rt (state_after fm st (es @ [e])) then None
     else if is_active fm rt (state_after fm st es) then risk_since fm rt es st since
     else Some (changed_time e))"
  by (induction es arbitrary: st since) (simp_all add: state_after_def)

lemma undo_redo: "fits fm st [e] \<Longrightarrow> undo_entry fm e (redo_entry fm e st) =
    (if tracked_field_of fm (hist_field_name e) = None then None else Some st)"
  by (auto simp: undo_entry_def redo_entry_def split: option.splits)

text \<open>What the search reports, with the creation time as the start of a risk that was always there.\<close>

definition found_start :: "utc option \<Rightarrow> risk_start + risk_state \<Rightarrow> utc option" where
  "found_start created r = (case r of Inl found \<Rightarrow> rs_risk_started_at found | Inr st \<Rightarrow> created)"

lemma search_back_forward:
  assumes "fits fm st es" and "is_active fm rt (state_after fm st es)"
  shows "found_start created (search_back fm rt (rev es) (state_after fm st es))
      = risk_since fm rt es st created"
    and "search_back fm rt (rev es) (state_after fm st es) = Inr st' \<Longrightarrow> st' = st \<and> is_active fm rt st"
  using assms
proof (induction es arbitrary: st' rule: rev_induct)
  case (snoc e es)
  let ?s = "state_after fm st es"
  case 1
  have u: "undo_entry fm e (redo_entry fm e ?s) =
      (if tracked_field_of fm (hist_field_name e) = None then None else Some ?s)"
    using 1 by (simp only: fits_snoc undo_redo)
  show ?case
  proof (cases "tracked_field_of fm (hist_field_name e)")
    case None
    then have "redo_entry fm e ?s = ?s" by (simp add: redo_entry_def)
    then show ?thesis using snoc.IH(1) 1 u None by (simp add: fits_snoc state_after_snoc risk_since_snoc)
  next
    case (Some f)
    then show ?thesis using snoc.IH(1) 1 u
      by (auto simp: fits_snoc state_after_snoc risk_since_snoc found_start_def started_by_def)
  qed
next
  case (snoc e es)
  let ?s = "state_after fm st es"
  case 2
  have u: "undo_entry fm e (redo_entry fm e ?s) =
      (if tracked_field_of fm (hist_field_name e) = None then None else Some ?s)"
    using 2 by (simp only: fits_snoc undo_redo)
  show ?case
  proof (cases "tracked_field_of fm (hist_field_name e)")
    case None
    then have "redo_entry fm e ?s = ?s" by (simp add: redo_entry_def)
    then show ?thesis using snoc.IH(2) 2 u None by (simp add: fits_snoc state_after_snoc)
  next
    case (Some f)
    then show ?thesis using snoc.IH(2) 2 u by (auto simp: fits_snoc state_after_snoc split: if_splits)
  qed
qed (simp_all add: state_after_def found_start_def)

lemma search_back_source:
  "search_back fm rt es st = Inl f \<Longrightarrow> rs_source_changed_at f = rs_risk_started_at f"
  by (induction es arbitrary: st) (auto simp: started_by_def split: option.splits if_splits)

text \<open>C13: For an issue with a complete changelog whose history up to \<open>as_of\<close> fits its state at creation and
  leads to its current row, on which the risk is active, the reported risk start is the one a forward run
  over the history tracks; the reported change time is the same, and the ticket shows the rounded age of it
  and no explanation.\<close>

theorem risk_start_correct:
  assumes complete: "issue_changelog_complete i"
    and history: "fits fm st (history_until db (issue_key i) as_of)"
      "state_after fm st (history_until db (issue_key i) as_of) = current_risk_state i"
    and active: "is_active fm rt (current_risk_state i)"
    and created: "coerce_utc (issue_created_at i) = Some c" "c \<le> as_of"
    and start: "risk_since fm rt (history_until db (issue_key i) as_of) st (Some c) = Some t"
  shows "rs_risk_started_at (risk_start_evidence db i as_of fm rt) = Some t
    \<and> rs_source_changed_at (risk_start_evidence db i as_of fm rt) = Some t
    \<and> at_age_days (aging_ticket_of db as_of fm rt i) = Some (age_in_days as_of t)
    \<and> at_explanation (aging_ticket_of db as_of fm rt i) = None"
proof -
  let ?es = "history_until db (issue_key i) as_of"
  let ?r = "search_back fm rt (rev ?es) (current_risk_state i)"
  have found: "found_start (Some c) ?r = Some t"
    using search_back_forward(1) [OF history(1), of rt "Some c"] active start by (simp add: history(2))
  have rest: "is_active fm rt st'" if "?r = Inr st'" for st'
    using search_back_forward(2) [OF history(1), of rt st'] active that by (simp add: history(2))
  have "rs_risk_started_at (risk_start_evidence db i as_of fm rt) = Some t
      \<and> rs_source_changed_at (risk_start_evidence db i as_of fm rt) = Some t"
  proof (cases ?r)
    case (Inl f)
    then show ?thesis using complete found search_back_source [OF Inl]
      by (simp add: risk_start_evidence_def found_start_def)
  next
    case (Inr st')
    then show ?thesis using complete found rest created
      by (simp add: risk_start_evidence_def found_start_def started_by_def)
  qed
  then show ?thesis by (simp add: aging_ticket_of_def Let_def)
qed

text \<open>An issue created with low priority, raised to highest after a day, started a day later.\<close>

definition raised_issue :: issue where
  "raised_issue = \<lparr>issue_key = ''P-1'', issue_summary = [], issue_type = Some ''Task'',
     issue_status = Some ''In Progress'', issue_priority = Some ''Highest'', issue_assignee = None,
     issue_assignee_id = None, issue_story_points = None, issue_release_id = Some ''R'',
     issue_is_blocker = True, issue_created_at = Some (naive 0), issue_updated_at = None,
     issue_blocker_flag = None, issue_changelog_complete = True\<rparr>"

definition change_row :: "nat \<Rightarrow> string \<Rightarrow> string \<Rightarrow> string \<Rightarrow> int \<Rightarrow> issue_history" where
  "change_row n field old new t = \<lparr>hist_id = n, hist_issue_key = ''P-1'', hist_field_name = field,
     hist_old_value = Some old, hist_new_value = Some new, hist_changed_at = Some (naive t)\<rparr>"

definition raised_store :: store where
  "raised_store = \<lparr>issues = [raised_issue],
     histories = [change_row 2 ''status'' ''To Do'' ''In Progress'' (2 * day_us),
                  change_row 1 ''Priority'' ''Low'' ''Highest'' day_us],
     issue_sprints = [], sprints = [], releases = []\<rparr>"

definition raised_from :: risk_state where
  "raised_from = \<lparr>st_status = Some ''To Do'', st_priority = Some ''Low'', st_issue_type = Some ''Task'',
     st_blocker_flag = None\<rparr>"

lemma raised_history: "history_until raised_store ''P-1'' (3 * day_us) =
    [change_row 1 ''Priority'' ''Low'' ''Highest'' day_us,
     change_row 2 ''status'' ''To Do'' ''In Progress'' (2 * day_us)]"
  by code_simp

lemma risk_start_correct_witness:
  "rs_risk_started_at (risk_start_evidence raised_store raised_issue (3 * day_us) default_mapping Blockers)
     = Some day_us"
proof -
  have key: "issue_key raised_issue = ''P-1''" by (simp add: raised_issue_def)
  have "rs_risk_started_at (risk_start_evidence raised_store raised_issue (3 * day_us) default_mapping Blockers)
      = Some day_us
    \<and> rs_source_changed_at (risk_start_evidence raised_store raised_issue (3 * day_us) default_mapping Blockers)
      = Some day_us
    \<and> at_age_days (aging_ticket_of raised_store (3 * day_us) default_mapping Blockers raised_issue)
      = Some (age_in_days (3 * day_us) day_us)
    \<and> at_explanation (aging_ticket_of raised_store (3 * day_us) default_mapping Blockers raised_issue) = None"
  proof (rule risk_start_correct [where st = raised_from and c = 0], unfold key raised_history)
    show "issue_changelog_complete raised_issue" by (simp add: raised_issue_def)
    show "coerce_utc (issue_created_at raised_issue) = Some 0" by (simp add: raised_issue_def)
    show "0 \<le> 3 * day_us" by (simp add: day_us_def)
    show "fits default_mapping raised_from [change_row 1 ''Priority'' ''Low'' ''Highest'' day_us,
        change_row 2 ''status'' ''To Do'' ''In Progress'' (2 * day_us)]" by code_simp
    show "state_after default_mapping raised_from [change_row 1 ''Priority'' ''Low'' ''Highest'' day_us,
        change_row 2 ''status'' ''To Do'' ''In Progress'' (2 * day_us)] = current_risk_state raised_issue"
      by code_simp
    show "is_active default_mapping Blockers (current_risk_state raised_issue)" by code_simp
    show "risk_since default_mapping Blockers [change_row 1 ''Priority'' ''Low'' ''Highest'' day_us,
        change_row 2 ''status'' ''To Do'' ''In Progress'' (2 * day_us)] raised_from (Some 0) = Some day_us"
      by code_simp
  qed
  then show ?thesis by (rule conjunct1)
qed

text \<open>A change after the snapshot is not undone: the risk of an issue reopened after \<open>as_of\<close> is reported
  to have started before it.\<close>

definition reopened_store :: store where
  "reopened_store = raised_store\<lparr>histories := [change_row 1 ''status'' ''Done'' ''In Progress'' (2 * day_us)]\<rparr>"

lemma change_after_snapshot_not_undone:
  "history_until reopened_store ''P-1'' day_us = []
   \<and> rs_risk_started_at (risk_start_evidence reopened_store raised_issue day_us default_mapping Blockers) = Some 0"
  by code_simp

end
