(* ===== verification/DerivedTables.thy ===== *)
theory DerivedTables
  imports AvailabilityContract ConfidenceBreakdown Drivers RiskAging SyncService
begin

text \<open>
  The derived tables: the rows of models/metric_snapshots.py, models/sprint_metric_snapshots.py and
  models/release_signals.py, and the queries of repositories/metric_repository.py,
  repositories/signal_repository.py and the snapshot queries of repositories/sprint_repository.py. Rows
  are only ever added (the models refuse updates and deletions), with ids in order of insertion. JSON
  columns are records of the values the services put into them; the columns the services never read
  (\<open>created_at\<close>, \<open>updated_at\<close>) are left out.
\<close>

subsection \<open>Provenance\<close>

text \<open>An entry of \<open>metric_evidence\<close>, by the service that made it.\<close>

datatype metric_evidence =
    Classification_Evidence "(string \<times> evidence_value) list"
  | Churn_Evidence churn_evidence
  | Creep_Evidence creep_evidence
  | Cycle_Evidence cycle_evidence
  | Reopen_Evidence reopen_evidence
  | Workload_Evidence workload_evidence

record classification_provenance =
  cl_done_statuses :: "string list"
  cl_in_progress_statuses :: "string list"
  cl_high_severity_values :: "string list"
  cl_bug_issue_types :: "string list"
  cl_blocker_issue_types :: "string list"
  cl_blocker_severity_values :: "string list"
  cl_blocked_statuses :: "string list"
  cl_severity_field :: string
  cl_story_points_field :: string
  cl_release_field :: string
  cl_sprint_field :: string
  cl_blocker_field :: string
  cl_blocker_true_values :: "string list"

record history_completeness =
  hc_complete_issue_keys :: "string list"
  hc_incomplete_issue_keys :: "string list"
  hc_complete_count :: nat
  hc_incomplete_count :: nat

record release_outputs =
  ro_risk_points :: "(string \<times> pyfloat) list option"
  ro_confidence_breakdown :: "confidence_breakdown option"
  ro_biggest_driver :: "driver_analysis option"
  ro_release_gates :: "release_gate list"
  ro_readiness_pct :: "pyfloat option"

record release_provenance =
  rv_source_calculated_at :: string
  rv_thresholds :: "(string \<times> py_number) list"
  rv_weights :: "(string \<times> pyfloat) list"
  rv_classification :: classification_provenance
  rv_availability :: metric_availability
  rv_computation_status :: computation_status
  rv_unavailable_reason :: "string option"
  rv_story_point_coverage :: "story_point_coverage option"
  rv_scope_churn_7d :: churn_evidence
  rv_history_completeness :: history_completeness
  rv_component_inputs :: release_inputs
  rv_component_outputs :: release_outputs
  rv_issue_key_evidence :: "(string \<times> string list) list"
  rv_metric_evidence :: "(string \<times> metric_evidence) list"

record sprint_outputs =
  so_components :: "confidence_components option"
  so_confidence_breakdown :: "confidence_breakdown option"
  so_biggest_driver :: "driver_analysis option"

record sprint_provenance =
  sv_source_calculated_at :: string
  sv_thresholds :: "(string \<times> pyfloat) list"
  sv_weights :: "(string \<times> pyfloat) list"
  sv_classification :: classification_provenance
  sv_availability :: metric_availability
  sv_computation_status :: computation_status
  sv_unavailable_reason :: "string option"
  sv_story_point_coverage :: story_point_coverage
  sv_scope_movement :: creep_result
  sv_delivery_confidence_prerequisites :: delivery_prerequisites
  sv_workload_distribution :: workload_result
  sv_history_completeness :: history_completeness
  sv_component_inputs :: "confidence_inputs option"
  sv_component_outputs :: sprint_outputs
  sv_issue_key_evidence :: "(string \<times> string list) list"
  sv_metric_evidence :: "(string \<times> metric_evidence) list"

subsection \<open>Snapshots\<close>

text \<open>The provenance of a row from before the provenance column is the empty dict, \<open>None\<close>.\<close>

record metric_snapshot =
  sn_id :: nat
  sn_release_id :: string
  sn_snapshot_at :: utc
  sn_ruleset_version :: int
  sn_confidence_score :: "pyfloat option"
  sn_confidence_status :: "computation_status option"
  sn_calculation_provenance :: "release_provenance option"
  sn_open_blockers :: int
  sn_open_high_severity_bugs :: int
  sn_open_blocker_issue_keys :: "string list"
  sn_open_high_severity_bug_issue_keys :: "string list"
  sn_scope_completed_pct :: pyfloat
  sn_completed_tickets :: "int option"
  sn_scope_churn_7d_pct :: "pyfloat option"
  sn_scope_added_7d_count :: int
  sn_scope_removed_7d_count :: int
  sn_median_cycle_time_days :: "pyfloat option"
  sn_reopen_rate_pct :: "pyfloat option"

record sprint_metric_snapshot =
  ss_id :: nat
  ss_sprint_id :: string
  ss_snapshot_at :: utc
  ss_ruleset_version :: int
  ss_calculation_provenance :: "sprint_provenance option"
  ss_committed_scope :: "py_number option"
  ss_completed_scope_pct :: "py_number option"
  ss_scope_creep_pct :: "pyfloat option"
  ss_scope_creep_status :: computation_status
  ss_scope_creep_explanations :: "string list"
  ss_scope_creep_evidence :: creep_evidence
  ss_open_blockers :: int
  ss_open_high_severity_bugs :: int
  ss_bugs_created_during_sprint :: int
  ss_open_blocker_issue_keys :: "string list"
  ss_open_high_severity_bug_issue_keys :: "string list"
  ss_bugs_created_during_sprint_issue_keys :: "string list"
  ss_bugs_created_during_sprint_status :: computation_status
  ss_bugs_missing_created_at_issue_keys :: "string list"
  ss_in_progress_count :: "py_number option"
  ss_not_started_count :: "py_number option"
  ss_rollover_count :: "py_number option"
  ss_median_cycle_time_days :: "pyfloat option"
  ss_reopen_rate_pct :: "pyfloat option"
  ss_workload_concentration_pct :: "pyfloat option"
  ss_workload_distribution_status :: computation_status
  ss_workload_distribution_explanations :: "string list"
  ss_workload_distribution_evidence :: workload_evidence
  ss_delivery_confidence_score :: "pyfloat option"
  ss_delivery_confidence_components :: "confidence_components option"
  ss_delivery_confidence_inputs :: "confidence_inputs option"
  ss_story_point_coverage :: story_point_coverage
  ss_delivery_confidence_status :: computation_status
  ss_delivery_confidence_explanations :: "string list"

subsection \<open>Signals\<close>

record unavailable_input =
  ui_metric_name :: string
  ui_status :: computation_status
  ui_reason :: "string option"
  ui_explanations :: "string list"
  ui_missing_issue_keys :: "string list"

text \<open>The stored readiness dict; \<open>None\<close> in the last three fields and in the gates is an absent key.\<close>

record readiness_evidence =
  re_signal :: "signal option"
  re_status_label :: string
  re_confidence_score :: "pyfloat option"
  re_summary :: string
  re_release_gates :: "release_gate list option"
  re_critical_risks :: "risk_item list"
  re_warnings :: "risk_item list"
  re_primary_risk :: "primary_risk option"
  re_unavailable_inputs :: "unavailable_input list option"
  re_reasons :: "string list option"

record release_signal =
  sg_id :: nat
  sg_release_id :: string
  sg_metric_snapshot_id :: "nat option"
  sg_ruleset_version :: int
  sg_signal :: signal
  sg_confidence_score :: "pyfloat option"
  sg_reasons :: "string list"
  sg_reason_details :: "reason_detail list"
  sg_release_gates :: "release_gate list"
  sg_readiness_evidence :: readiness_evidence
  sg_risk_aging_evidence :: "string risk_aging"
  sg_calculated_at :: utc

record derived_tables =
  metric_snapshots :: "metric_snapshot list"
  sprint_snapshots :: "sprint_metric_snapshot list"
  release_signals :: "release_signal list"

type_synonym lighthouse_db = "derived_tables database"

subsection \<open>Queries\<close>

text \<open>\<open>ORDER BY key DESC LIMIT 1\<close>.\<close>

definition latest_by :: "('r \<Rightarrow> 'k::linorder) \<Rightarrow> 'r list \<Rightarrow> 'r option" where
  "latest_by key rows = (case rev (sort_key key rows) of [] \<Rightarrow> None | r # _ \<Rightarrow> Some r)"

definition snapshot_order :: "metric_snapshot \<Rightarrow> utc \<times> nat" where
  "snapshot_order s = (sn_snapshot_at s, sn_id s)"

definition snapshots_of :: "derived_tables \<Rightarrow> string \<Rightarrow> metric_snapshot list" where
  "snapshots_of d rid = filter (\<lambda>s. sn_release_id s = rid) (metric_snapshots d)"

definition get_latest_snapshot :: "derived_tables \<Rightarrow> string \<Rightarrow> metric_snapshot option" where
  "get_latest_snapshot d rid = latest_by snapshot_order (snapshots_of d rid)"

definition get_latest_snapshot_at_or_before :: "derived_tables \<Rightarrow> string \<Rightarrow> utc \<Rightarrow> metric_snapshot option" where
  "get_latest_snapshot_at_or_before d rid t =
     latest_by snapshot_order (filter (\<lambda>s. sn_snapshot_at s \<le> t) (snapshots_of d rid))"

definition get_previous_snapshot :: "derived_tables \<Rightarrow> string \<Rightarrow> utc \<Rightarrow> nat \<Rightarrow> metric_snapshot option" where
  "get_previous_snapshot d rid t n =
     latest_by snapshot_order (filter (\<lambda>s. sn_snapshot_at s < t \<or> (sn_snapshot_at s = t \<and> sn_id s < n))
       (snapshots_of d rid))"

definition list_snapshots_for_release ::
  "derived_tables \<Rightarrow> string \<Rightarrow> nat \<Rightarrow> utc option \<Rightarrow> utc option \<Rightarrow> metric_snapshot list" where
  "list_snapshots_for_release d rid limit from_at to_at =
     rev (take limit (rev (sort_key snapshot_order (filter (\<lambda>s.
       (case from_at of None \<Rightarrow> True | Some t \<Rightarrow> t \<le> sn_snapshot_at s)
       \<and> (case to_at of None \<Rightarrow> True | Some t \<Rightarrow> sn_snapshot_at s \<le> t)) (snapshots_of d rid)))))"

definition sprint_snapshot_order :: "sprint_metric_snapshot \<Rightarrow> utc \<times> nat" where
  "sprint_snapshot_order s = (ss_snapshot_at s, ss_id s)"

definition get_latest_metric_snapshot :: "derived_tables \<Rightarrow> string \<Rightarrow> sprint_metric_snapshot option" where
  "get_latest_metric_snapshot d sid =
     latest_by sprint_snapshot_order (filter (\<lambda>s. ss_sprint_id s = sid) (sprint_snapshots d))"

definition get_latest_signal :: "derived_tables \<Rightarrow> string \<Rightarrow> release_signal option" where
  "get_latest_signal d rid =
     latest_by (\<lambda>g. (sg_calculated_at g, sg_id g)) (filter (\<lambda>g. sg_release_id g = rid) (release_signals d))"

text \<open>The unique key of a signal; \<open>metric_snapshot_id == None\<close> is an \<open>IS NULL\<close> test.\<close>

definition signal_key :: "release_signal \<Rightarrow> string \<times> nat option \<times> int" where
  "signal_key g = (sg_release_id g, sg_metric_snapshot_id g, sg_ruleset_version g)"

definition get_signal_for_snapshot :: "derived_tables \<Rightarrow> string \<Rightarrow> nat \<Rightarrow> int \<Rightarrow> release_signal option" where
  "get_signal_for_snapshot d rid n v = find (\<lambda>g. signal_key g = (rid, Some n, v)) (release_signals d)"

definition next_row_id :: "('r \<Rightarrow> nat) \<Rightarrow> 'r list \<Rightarrow> nat" where
  "next_row_id rid rows = Suc (fold (\<lambda>r m. max (rid r) m) rows 0)"

text \<open>\<open>create_signal\<close> returns the row of the key when there is one and adds the new one otherwise.\<close>

definition create_signal :: "release_signal \<Rightarrow> derived_tables \<Rightarrow> release_signal \<times> derived_tables" where
  "create_signal g d =
    (case find (\<lambda>h. signal_key h = signal_key g) (release_signals d) of
       Some h \<Rightarrow> (h, d)
     | None \<Rightarrow> let g' = g\<lparr>sg_id := next_row_id sg_id (release_signals d)\<rparr>
               in (g', d\<lparr>release_signals := release_signals d @ [g']\<rparr>))"

definition add_snapshot :: "metric_snapshot \<Rightarrow> derived_tables \<Rightarrow> derived_tables" where
  "add_snapshot s d = d\<lparr>metric_snapshots := metric_snapshots d @ [s]\<rparr>"

definition add_sprint_snapshot :: "sprint_metric_snapshot \<Rightarrow> derived_tables \<Rightarrow> derived_tables" where
  "add_sprint_snapshot s d = d\<lparr>sprint_snapshots := sprint_snapshots d @ [s]\<rparr>"

text \<open>The operational markers of the two recomputations.\<close>

definition mark_metrics_recomputed :: "utc \<Rightarrow> 'm database \<Rightarrow> 'm database" where
  "mark_metrics_recomputed now db = db\<lparr>op_status := (op_status db)\<lparr>os_last_metrics_recompute_at := Some now\<rparr>\<rparr>"

definition mark_signal_recomputed :: "utc \<Rightarrow> 'm database \<Rightarrow> 'm database" where
  "mark_signal_recomputed now db = db\<lparr>op_status := (op_status db)\<lparr>os_last_signal_recompute_at := Some now\<rparr>\<rparr>"

lemma recompute_markers_frame [simp]:
  "evidence (mark_metrics_recomputed now db) = evidence db" "derived (mark_metrics_recomputed now db) = derived db"
  "sync_states (mark_metrics_recomputed now db) = sync_states db"
  "evidence (mark_signal_recomputed now db) = evidence db" "derived (mark_signal_recomputed now db) = derived db"
  "sync_states (mark_signal_recomputed now db) = sync_states db"
  by (simp_all add: mark_metrics_recomputed_def mark_signal_recomputed_def)

subsection \<open>Lemmas on the queries\<close>

lemma latest_by_None: "latest_by key rows = None \<longleftrightarrow> rows = []"
proof -
  have "rev (sort_key key rows) = [] \<longleftrightarrow> rows = []" by (metis length_0_conv length_rev length_sort)
  then show ?thesis by (auto simp: latest_by_def split: list.splits)
qed

lemma latest_by_Some:
  assumes "latest_by key rows = Some r"
  shows "r \<in> set rows" and "x \<in> set rows \<Longrightarrow> key x \<le> key r"
proof -
  obtain ys where ys: "rev (sort_key key rows) = r # ys"
    using assms by (auto simp: latest_by_def split: list.splits)
  then have s: "sort_key key rows = rev ys @ [r]" by (metis rev.simps(2) rev_rev_ident)
  have "set (rev ys @ [r]) = set rows" unfolding s [symmetric] by simp
  then show "r \<in> set rows" by auto
  have "sorted (map key (rev ys @ [r]))" unfolding s [symmetric] by simp
  then show "key x \<le> key r" if "x \<in> set rows"
    using that \<open>set (rev ys @ [r]) = set rows\<close> by (auto simp: sorted_append)
qed

lemma latest_by_unique:
  assumes "r \<in> set rows" and "\<And>x. x \<in> set rows \<Longrightarrow> x \<noteq> r \<Longrightarrow> key x < key r"
  shows "latest_by key rows = Some r"
proof -
  obtain q where q: "latest_by key rows = Some q"
    using assms(1) latest_by_None [of key rows] by fastforce
  have "key r \<le> key q" by (rule latest_by_Some(2) [OF q assms(1)])
  then have "q = r" using assms(2) [OF latest_by_Some(1) [OF q]] leD by blast
  then show ?thesis using q by simp
qed

lemma fold_max_ge: "m \<le> fold (\<lambda>r m. max (f r) m) rows (m :: nat)"
proof (induction rows arbitrary: m)
  case (Cons r rows)
  have "m \<le> max (f r) m" by simp
  also have "\<dots> \<le> fold (\<lambda>r m. max (f r) m) rows (max (f r) m)" by (rule Cons)
  finally show ?case by simp
qed simp

lemma next_row_id_fresh: "r \<in> set rows \<Longrightarrow> f r < next_row_id f rows"
proof -
  have "r \<in> set rows \<Longrightarrow> f r \<le> fold (\<lambda>r m. max (f r) m) rows m" for m
  proof (induction rows arbitrary: m)
    case (Cons a rows)
    show ?case
    proof (cases "r = a")
      case True
      then show ?thesis using fold_max_ge [of "max (f a) m" f rows] by simp
    next
      case False
      then show ?thesis using Cons by simp
    qed
  qed simp
  then show "r \<in> set rows \<Longrightarrow> f r < next_row_id f rows" by (simp add: next_row_id_def less_Suc_eq_le)
qed

text \<open>A new snapshot that is not older than the others of its release is the latest one.\<close>

lemma added_snapshot_latest:
  assumes "sn_id s = next_row_id sn_id (metric_snapshots d)"
    and "\<And>r. r \<in> set (snapshots_of d (sn_release_id s)) \<Longrightarrow> sn_snapshot_at r \<le> sn_snapshot_at s"
  shows "get_latest_snapshot (add_snapshot s d) (sn_release_id s) = Some s"
  unfolding get_latest_snapshot_def
proof (rule latest_by_unique)
  show "s \<in> set (snapshots_of (add_snapshot s d) (sn_release_id s))"
    by (simp add: snapshots_of_def add_snapshot_def)
  fix x assume "x \<in> set (snapshots_of (add_snapshot s d) (sn_release_id s))" "x \<noteq> s"
  then have x: "x \<in> set (snapshots_of d (sn_release_id s))" by (auto simp: snapshots_of_def add_snapshot_def)
  then have "sn_id x < sn_id s" using next_row_id_fresh [of x "metric_snapshots d" sn_id] assms(1)
    by (simp add: snapshots_of_def)
  then show "snapshot_order x < snapshot_order s"
    using assms(2) [OF x] by (auto simp: snapshot_order_def less_le)
qed

lemma signal_key_id [simp]: "signal_key (g\<lparr>sg_id := n\<rparr>) = signal_key g"
  by (simp add: signal_key_def)

lemma create_signal_new:
  assumes "signal_key g \<notin> signal_key ` set (release_signals d)"
  shows "create_signal g d = (let g' = g\<lparr>sg_id := next_row_id sg_id (release_signals d)\<rparr>
    in (g', d\<lparr>release_signals := release_signals d @ [g']\<rparr>))"
proof -
  have "find (\<lambda>h. signal_key h = signal_key g) (release_signals d) = None"
    using assms by (auto simp: find_None_iff image_iff)
  then show ?thesis by (simp add: create_signal_def)
qed

lemma create_signal_old:
  assumes "signal_key g \<in> signal_key ` set (release_signals d)"
  shows "\<exists>h \<in> set (release_signals d). signal_key h = signal_key g \<and> create_signal g d = (h, d)"
proof -
  obtain h where h: "find (\<lambda>h. signal_key h = signal_key g) (release_signals d) = Some h"
    using assms by (cases "find (\<lambda>h. signal_key h = signal_key g) (release_signals d)")
      (auto simp: find_None_iff image_iff)
  then have "h \<in> set (release_signals d)" "signal_key h = signal_key g" by (auto simp: find_Some_iff)
  then show ?thesis using h by (auto simp: create_signal_def)
qed

text \<open>Storing a signal for a key of which there is a row changes nothing and returns a row of that key;
  otherwise it adds one row, with a new id and the other columns of the request. In both cases the keys of
  the table stay unique, and no row is changed or lost.\<close>

theorem create_signal_append_only:
  assumes "distinct (map signal_key (release_signals d))"
  shows "distinct (map signal_key (release_signals (snd (create_signal g d))))
    \<and> signal_key (fst (create_signal g d)) = signal_key g
    \<and> fst (create_signal g d) \<in> set (release_signals (snd (create_signal g d)))
    \<and> (if signal_key g \<in> signal_key ` set (release_signals d) then snd (create_signal g d) = d
       else sg_id (fst (create_signal g d)) \<notin> sg_id ` set (release_signals d)
         \<and> fst (create_signal g d) = g\<lparr>sg_id := sg_id (fst (create_signal g d))\<rparr>
         \<and> snd (create_signal g d) = d\<lparr>release_signals := release_signals d @ [fst (create_signal g d)]\<rparr>)"
proof (cases "signal_key g \<in> signal_key ` set (release_signals d)")
  case True
  then show ?thesis using create_signal_old [OF True] assms by auto
next
  case False
  have "next_row_id sg_id (release_signals d) \<notin> sg_id ` set (release_signals d)"
    using next_row_id_fresh [of _ "release_signals d" sg_id] by (metis imageE less_irrefl)
  then show ?thesis using False assms by (simp add: create_signal_new [OF False] Let_def)
qed

end
