(* ===== verification/Recommendations.thy ===== *)
theory Recommendations
  imports DerivedTables
begin

text \<open>
  services/recommendation_engine.py: the actions recommended for a release or a sprint snapshot. A rule is
  a candidate when its metric passes the threshold; the candidates are sorted by falling confidence impact
  and then by the order of the rules, and numbered.
\<close>

datatype effort = Low | Medium | High

record recommendation_rule =
  rr_key :: string
  rr_title :: string
  rr_description :: string
  rr_confidence_impact :: int
  rr_effort :: effort
  rr_category :: string

record recommendation_action =
  ra_title :: string
  ra_description :: string
  ra_priority :: nat
  ra_confidence_impact :: int
  ra_effort :: effort
  ra_category :: string
  ra_data_status :: computation_status
  ra_explanations :: "string list"

definition rule :: "string \<Rightarrow> string \<Rightarrow> string \<Rightarrow> int \<Rightarrow> effort \<Rightarrow> string \<Rightarrow> recommendation_rule" where
  "rule key title description impact effort category =
     \<lparr>rr_key = key, rr_title = title, rr_description = description, rr_confidence_impact = impact,
      rr_effort = effort, rr_category = category\<rparr>"

subsection \<open>The rules\<close>

definition RELEASE_RULES :: "recommendation_rule list" where
  "RELEASE_RULES =
    [rule ''open_blockers'' ''Resolve blockers''
       ''Resolve or explicitly de-scope open blocker tickets before moving the release forward.''
       10 High ''Risk'',
     rule ''open_high_severity_bugs'' ''Resolve critical defects''
       ''Prioritize high-severity defect fixes and verify them before release approval.'' 8 Medium ''Quality'',
     rule ''scope_churn_7d_pct'' ''Stabilize release scope''
       ''Stop non-critical fix-version movement and defer new scope to a later release.'' 7 Medium ''Delivery'',
     rule ''reopen_rate_pct'' ''Reduce reopen events''
       ''Review reopened tickets for acceptance or quality gaps and close the loop before release.''
       6 Medium ''Quality'',
     rule ''median_cycle_time_days'' ''Reduce cycle time''
       ''Focus the team on aging in-progress work before starting additional release scope.'' 4 Low ''Flow'']"

definition RELEASE_ORDER :: "string list" where
  "RELEASE_ORDER = [''open_blockers'', ''open_high_severity_bugs'', ''scope_churn_7d_pct'', ''reopen_rate_pct'',
     ''median_cycle_time_days'']"

definition SPRINT_RULES :: "recommendation_rule list" where
  "SPRINT_RULES =
    [rule ''scope_stability'' ''Reduce scope changes''
       ''Freeze sprint scope where possible and move new requests into the next planning cycle.''
       7 Low ''Delivery'',
     rule ''open_blockers'' ''Resolve sprint blockers''
       ''Assign clear ownership to blocked tickets and clear them before pulling more work.'' 6 High ''Risk'',
     rule ''progress_alignment'' ''Complete committed work''
       ''Refocus on finishing committed work that is closest to done.'' 5 Medium ''Delivery'',
     rule ''open_high_severity_bugs'' ''Resolve sprint defects''
       ''Prioritize high-severity sprint defects before adding more in-progress work.'' 5 Medium ''Quality'',
     rule ''workload_concentration'' ''Reduce workload concentration''
       ''Rebalance active work so no single assignee owns more than the workload concentration threshold.''
       4 Medium ''Risk'',
     rule ''median_cycle_time_days'' ''Reduce sprint cycle time''
       ''Finish aging active work before starting additional sprint items.'' 4 Low ''Flow'',
     rule ''reopen_rate_pct'' ''Reduce reopened sprint work''
       ''Review reopened sprint work for recurring quality or acceptance gaps.'' 4 Medium ''Quality'']"

definition SPRINT_ORDER :: "string list" where
  "SPRINT_ORDER = [''scope_stability'', ''open_blockers'', ''progress_alignment'', ''open_high_severity_bugs'',
     ''workload_concentration'', ''median_cycle_time_days'', ''reopen_rate_pct'']"

definition rule_of :: "recommendation_rule list \<Rightarrow> string \<Rightarrow> recommendation_rule" where
  "rule_of rules key = the (find (\<lambda>r. rr_key r = key) rules)"

definition SPRINT_WORKLOAD_WATCH_MIN_PCT :: pyfloat where
  "SPRINT_WORKLOAD_WATCH_MIN_PCT = number_value (threshold_const ''sprint.workload_concentration_pct'' Watch)"

subsection \<open>Prioritizing\<close>

text \<open>\<open>rule_order.index(key)\<close>, the length of the list for a key it does not have.\<close>

definition order_index :: "string list \<Rightarrow> string \<Rightarrow> nat" where
  "order_index ks k = length (takeWhile (\<lambda>x. x \<noteq> k) ks)"

definition action_of :: "(string \<times> computation_status \<times> string list) list \<Rightarrow> nat \<Rightarrow> recommendation_rule \<Rightarrow> recommendation_action" where
  "action_of notes n r =
    (case (case map_of notes (rr_key r) of None \<Rightarrow> (COMPUTED, []) | Some e \<Rightarrow> e) of (status, explanations) \<Rightarrow>
      \<lparr>ra_title = rr_title r, ra_description = rr_description r, ra_priority = n,
       ra_confidence_impact = rr_confidence_impact r, ra_effort = rr_effort r, ra_category = rr_category r,
       ra_data_status = status, ra_explanations = explanations\<rparr>)"

definition priority_key :: "string list \<Rightarrow> recommendation_rule \<Rightarrow> int \<times> nat" where
  "priority_key rule_order r = (- rr_confidence_impact r, order_index rule_order (rr_key r))"

definition numbered :: "(string \<times> computation_status \<times> string list) list \<Rightarrow> recommendation_rule list \<Rightarrow> recommendation_action list" where
  "numbered notes rules = map (\<lambda>(n, r). action_of notes n r) (zip [1..<Suc (length rules)] rules)"

definition prioritize ::
  "recommendation_rule list \<Rightarrow> string list \<Rightarrow> (string \<times> computation_status \<times> string list) list
     \<Rightarrow> recommendation_action list" where
  "prioritize candidates rule_order notes = numbered notes (sort_key (priority_key rule_order) candidates)"

subsection \<open>Releases\<close>

definition release_metric_available :: "metric_availability option \<Rightarrow> string \<Rightarrow> bool" where
  "release_metric_available availability name =
    (case availability of
       None \<Rightarrow> True
     | Some a \<Rightarrow> (case map_of (ma_metrics a) name of None \<Rightarrow> False | Some i \<Rightarrow> ai_available i))"

definition candidate_if :: "bool \<Rightarrow> recommendation_rule list \<Rightarrow> string \<Rightarrow> recommendation_rule list" where
  "candidate_if b rules key = (if b then [rule_of rules key] else [])"

definition build_release_recommendations ::
  "release_inputs \<Rightarrow> metric_availability option \<Rightarrow> recommendation_action list" where
  "build_release_recommendations s a =
     prioritize
       (candidate_if (release_metric_available a ''open_blockers''
            \<and> int_above (open_blockers s) OPEN_BLOCKERS_RED_THRESHOLD) RELEASE_RULES ''open_blockers''
        @ candidate_if (release_metric_available a ''open_high_severity_bugs''
            \<and> int_above (open_high_severity_bugs s) HIGH_SEVERITY_BUGS_YELLOW_THRESHOLD)
            RELEASE_RULES ''open_high_severity_bugs''
        @ candidate_if (release_metric_available a ''scope_churn_7d_pct''
            \<and> above (scope_churn_7d_pct s) scope_churn_yellow_pct) RELEASE_RULES ''scope_churn_7d_pct''
        @ candidate_if (release_metric_available a ''reopen_rate_pct''
            \<and> above (reopen_rate_pct s) reopen_rate_yellow_pct) RELEASE_RULES ''reopen_rate_pct''
        @ candidate_if (release_metric_available a ''median_cycle_time_days''
            \<and> above (median_cycle_time_days s) CYCLE_TIME_YELLOW_THRESHOLD_DAYS)
            RELEASE_RULES ''median_cycle_time_days'')
       RELEASE_ORDER []"

subsection \<open>Sprints\<close>

definition scope_needs_action :: "confidence_components option \<Rightarrow> confidence_inputs option \<Rightarrow> bool" where
  "scope_needs_action c i \<longleftrightarrow>
     (case i of None \<Rightarrow> False | Some i \<Rightarrow> ci_scope_change_count i > 0)
     \<or> (case c of None \<Rightarrow> False | Some c \<Rightarrow> cc_scope_stability c < 100)"

definition progress_needs_action ::
  "py_number option \<Rightarrow> confidence_components option \<Rightarrow> confidence_inputs option \<Rightarrow> bool" where
  "progress_needs_action completed c i \<longleftrightarrow>
     (case completed of None \<Rightarrow> False | Some v \<Rightarrow> number_value v < 100)
     \<or> (case i of None \<Rightarrow> False | Some i \<Rightarrow> ci_remaining_effective_points i > 0)
     \<or> (case c of None \<Rightarrow> False | Some c \<Rightarrow> cc_progress_alignment c < 100)"

definition workload_needs_action :: "sprint_metric_snapshot \<Rightarrow> bool" where
  "workload_needs_action s \<longleftrightarrow> ss_workload_distribution_status s \<in> {COMPUTED, PARTIAL}
     \<and> (case ss_workload_concentration_pct s of None \<Rightarrow> False | Some p \<Rightarrow> p \<ge> SPRINT_WORKLOAD_WATCH_MIN_PCT)"

definition build_sprint_recommendations :: "sprint_metric_snapshot \<Rightarrow> bool \<Rightarrow> recommendation_action list" where
  "build_sprint_recommendations s include_story_point_rules =
    (let components = (if include_story_point_rules then ss_delivery_confidence_components s else None);
         inputs = (if include_story_point_rules then ss_delivery_confidence_inputs s else None);
         workload = workload_needs_action s
     in prioritize
       (candidate_if (include_story_point_rules \<and> scope_needs_action components inputs) SPRINT_RULES ''scope_stability''
        @ candidate_if (int_above (ss_open_blockers s) OPEN_BLOCKERS_RED_THRESHOLD) SPRINT_RULES ''open_blockers''
        @ candidate_if (include_story_point_rules
            \<and> progress_needs_action (ss_completed_scope_pct s) components inputs) SPRINT_RULES ''progress_alignment''
        @ candidate_if (int_above (ss_open_high_severity_bugs s) HIGH_SEVERITY_BUGS_YELLOW_THRESHOLD)
            SPRINT_RULES ''open_high_severity_bugs''
        @ candidate_if workload SPRINT_RULES ''workload_concentration''
        @ candidate_if (above (ss_median_cycle_time_days s) CYCLE_TIME_YELLOW_THRESHOLD_DAYS)
            SPRINT_RULES ''median_cycle_time_days''
        @ candidate_if (above (ss_reopen_rate_pct s) reopen_rate_yellow_pct) SPRINT_RULES ''reopen_rate_pct'')
       SPRINT_ORDER
       (if workload
        then [(''workload_concentration'', ss_workload_distribution_status s, ss_workload_distribution_explanations s)]
        else []))"

subsection \<open>The sort leaves the candidates in place\<close>

text \<open>The code adds the candidates in the order of its rule tables, which is already the order of priority, so
  the result is a selection of the table.\<close>

lemma rule_keys [simp]: "rr_key (rule k t d n e c) = k" "rr_confidence_impact (rule k t d n e c) = n"
  by (simp_all add: rule_def)

lemma release_rules_sorted: "sorted (map (priority_key RELEASE_ORDER) RELEASE_RULES)"
  by code_simp

lemma sprint_rules_sorted: "sorted (map (priority_key SPRINT_ORDER) SPRINT_RULES)"
  by code_simp

lemma prioritize_selection:
  assumes "sorted (map (priority_key rule_order) rules)"
  shows "prioritize (filter P rules) rule_order notes = numbered notes (filter P rules)"
  unfolding prioritize_def using sorted_filter [OF assms, of P] by (simp add: sorted_sort_id sort_key_id_if_sorted)

lemma selection_concat:
  "filter P (map (rule_of rules) ks) = concat (map (\<lambda>k. candidate_if (P (rule_of rules k)) rules k) ks)"
  by (induction ks) (simp_all add: candidate_if_def)

lemma release_rules_of: "RELEASE_RULES = map (rule_of RELEASE_RULES) RELEASE_ORDER"
  by code_simp

lemma sprint_rules_of: "SPRINT_RULES = map (rule_of SPRINT_RULES) SPRINT_ORDER"
  by code_simp

lemma rule_of_key: "k \<in> set RELEASE_ORDER \<Longrightarrow> rr_key (rule_of RELEASE_RULES k) = k"
  "k \<in> set SPRINT_ORDER \<Longrightarrow> rr_key (rule_of SPRINT_RULES k) = k"
proof -
  have "\<forall>k \<in> set RELEASE_ORDER. rr_key (rule_of RELEASE_RULES k) = k" by code_simp
  then show "k \<in> set RELEASE_ORDER \<Longrightarrow> rr_key (rule_of RELEASE_RULES k) = k" by blast
  have "\<forall>k \<in> set SPRINT_ORDER. rr_key (rule_of SPRINT_RULES k) = k" by code_simp
  then show "k \<in> set SPRINT_ORDER \<Longrightarrow> rr_key (rule_of SPRINT_RULES k) = k" by blast
qed

lemma release_candidates_selection:
  "candidate_if (release_metric_available a ''open_blockers''
            \<and> int_above (open_blockers s) OPEN_BLOCKERS_RED_THRESHOLD) RELEASE_RULES ''open_blockers''
        @ candidate_if (release_metric_available a ''open_high_severity_bugs''
            \<and> int_above (open_high_severity_bugs s) HIGH_SEVERITY_BUGS_YELLOW_THRESHOLD)
            RELEASE_RULES ''open_high_severity_bugs''
        @ candidate_if (release_metric_available a ''scope_churn_7d_pct''
            \<and> above (scope_churn_7d_pct s) scope_churn_yellow_pct) RELEASE_RULES ''scope_churn_7d_pct''
        @ candidate_if (release_metric_available a ''reopen_rate_pct''
            \<and> above (reopen_rate_pct s) reopen_rate_yellow_pct) RELEASE_RULES ''reopen_rate_pct''
        @ candidate_if (release_metric_available a ''median_cycle_time_days''
            \<and> above (median_cycle_time_days s) CYCLE_TIME_YELLOW_THRESHOLD_DAYS)
            RELEASE_RULES ''median_cycle_time_days''
    = filter (\<lambda>r. release_metric_available a (rr_key r)
        \<and> rr_key r \<in> set (map fst (compute_release_risk_points s))) RELEASE_RULES"
  (is "?candidates = filter ?P RELEASE_RULES")
proof -
  have k: "?P (rule_of RELEASE_RULES k)
      \<longleftrightarrow> release_metric_available a k \<and> k \<in> set (map fst (compute_release_risk_points s))"
    if "k \<in> set RELEASE_ORDER" for k using rule_of_key(1) [OF that] by simp
  have "filter ?P RELEASE_RULES = concat (map (\<lambda>k. candidate_if (release_metric_available a k
      \<and> k \<in> set (map fst (compute_release_risk_points s))) RELEASE_RULES k) RELEASE_ORDER)"
    by (subst release_rules_of, unfold selection_concat)
      (rule arg_cong [where f = concat], rule map_cong [OF refl], simp only: k)
  also have "\<dots> = ?candidates"
    by (simp add: RELEASE_ORDER_def risk_point_metrics signal_simps)
  finally show ?thesis by (rule sym)
qed

text \<open>The metrics with points, as a selection of the rules.\<close>

lemma points_selection:
  assumes "ks = filter (\<lambda>k. k \<in> set ks) RELEASE_ORDER"
  shows "filter (\<lambda>r. rr_key r \<in> set ks) RELEASE_RULES = map (rule_of RELEASE_RULES) ks"
proof -
  have "filter (\<lambda>r. rr_key r \<in> set ks) RELEASE_RULES
      = map (rule_of RELEASE_RULES) (filter (\<lambda>k. k \<in> set ks) RELEASE_ORDER)"
    by (subst release_rules_of) (auto simp: filter_map comp_def rule_of_key(1) intro!: arg_cong [where f = "map _"] filter_cong)
  then show ?thesis using assms by simp
qed

lemma risk_metrics_ordered:
  "map fst (compute_release_risk_points s)
    = filter (\<lambda>k. k \<in> set (map fst (compute_release_risk_points s))) RELEASE_ORDER"
  unfolding risk_point_metrics RELEASE_ORDER_def by simp

lemma numbered_sel: "map ra_title (numbered notes rs) = map rr_title rs"
  "map ra_priority (numbered notes rs) = [1..<Suc (length rs)]"
proof -
  have t: "ra_title (action_of notes n r) = rr_title r" "ra_priority (action_of notes n r) = n" for n r
    by (simp_all add: action_of_def case_prod_unfold)
  have "map ra_title (numbered notes rs) = map (\<lambda>p. rr_title (snd p)) (zip [1..<Suc (length rs)] rs)"
    "map ra_priority (numbered notes rs) = map fst (zip [1..<Suc (length rs)] rs)"
    by (simp_all add: numbered_def case_prod_unfold t)
  then show "map ra_title (numbered notes rs) = map rr_title rs"
    "map ra_priority (numbered notes rs) = [1..<Suc (length rs)]"
    by (simp_all add: map_map [symmetric, unfolded comp_def] del: upt_Suc)
qed

text \<open>C30: The actions recommended for a release are exactly the rules of the available metrics that cost it
  confidence points, in the order of the points and numbered from one: no metric without points is
  acted on, and none with points is left out unless its value is unavailable.\<close>

theorem release_recommendations_are_risks:
  "build_release_recommendations s a = numbered [] (filter (\<lambda>r. release_metric_available a (rr_key r))
      (map (rule_of RELEASE_RULES) (map fst (compute_release_risk_points s))))
   \<and> map ra_priority (build_release_recommendations s a)
      = [1..<Suc (length (build_release_recommendations s a))]
   \<and> map ra_title (build_release_recommendations s None)
      = map (\<lambda>k. rr_title (rule_of RELEASE_RULES k)) (map fst (compute_release_risk_points s))"
proof -
  let ?P = "\<lambda>a r. release_metric_available a (rr_key r) \<and> rr_key r \<in> set (map fst (compute_release_risk_points s))"
  have b: "build_release_recommendations s a = numbered [] (filter (?P a) RELEASE_RULES)" for a
    unfolding build_release_recommendations_def release_candidates_selection
    by (rule prioritize_selection [OF release_rules_sorted])
  have f: "filter (?P a) RELEASE_RULES = filter (\<lambda>r. release_metric_available a (rr_key r))
      (map (rule_of RELEASE_RULES) (map fst (compute_release_risk_points s)))" for a
    unfolding points_selection [OF risk_metrics_ordered, symmetric] filter_filter
    by (rule filter_cong [OF refl]) auto
  have n: "length (numbered e rs) = length rs" for e rs using arg_cong [OF numbered_sel(1) [of e rs], of length] by simp
  show ?thesis unfolding b f numbered_sel n by (simp add: release_metric_available_def)
qed

text \<open>The same for a sprint, over its own conditions.\<close>

definition sprint_rule_applies :: "sprint_metric_snapshot \<Rightarrow> bool \<Rightarrow> string \<Rightarrow> bool" where
  "sprint_rule_applies s points key \<longleftrightarrow>
    (let c = (if points then ss_delivery_confidence_components s else None);
         i = (if points then ss_delivery_confidence_inputs s else None)
     in if key = ''scope_stability'' then points \<and> scope_needs_action c i
        else if key = ''open_blockers'' then ss_open_blockers s > 0
        else if key = ''progress_alignment'' then points \<and> progress_needs_action (ss_completed_scope_pct s) c i
        else if key = ''open_high_severity_bugs'' then ss_open_high_severity_bugs s > 0
        else if key = ''workload_concentration'' then workload_needs_action s
        else if key = ''median_cycle_time_days'' then above (ss_median_cycle_time_days s) 7
        else above (ss_reopen_rate_pct s) 10)"

lemma sprint_recommendations_selection:
  "build_sprint_recommendations s points = numbered
     (if workload_needs_action s
        then [(''workload_concentration'', ss_workload_distribution_status s, ss_workload_distribution_explanations s)]
        else [])
     (filter (\<lambda>r. sprint_rule_applies s points (rr_key r)) SPRINT_RULES)"
proof -
  have k: "filter (\<lambda>r. sprint_rule_applies s points (rr_key r)) SPRINT_RULES
      = concat (map (\<lambda>k. candidate_if (sprint_rule_applies s points k) SPRINT_RULES k) SPRINT_ORDER)"
    by (subst sprint_rules_of) (simp add: selection_concat rule_of_key(2) cong: map_cong)
  have "build_sprint_recommendations s points = prioritize (filter (\<lambda>r. sprint_rule_applies s points (rr_key r)) SPRINT_RULES)
      SPRINT_ORDER (if workload_needs_action s
        then [(''workload_concentration'', ss_workload_distribution_status s, ss_workload_distribution_explanations s)]
        else [])"
    unfolding build_sprint_recommendations_def Let_def k
    by (simp add: SPRINT_ORDER_def sprint_rule_applies_def signal_simps)
  then show ?thesis by (simp add: prioritize_selection [OF sprint_rules_sorted])
qed

end
