(* ===== verification/Snapshots.thy ===== *)
theory Snapshots
  imports DerivedTables
begin

text \<open>
  The two recomputations of services/analytics_service.py that write snapshots, with the provenance they
  store. The release part evaluates classification, scope churn and flow once, derives the confidence
  score, and records the availability computed from the same results; the sprint part does the same with
  the sprint metrics. The clock reading is an argument. An exception of a helper is the \<open>run_error\<close> that the
  sync service sees.
\<close>

named_theorems snapshot_simps \<open>fields of new snapshots\<close>

subsection \<open>Errors of the helpers\<close>

definition value_failure :: "string \<Rightarrow> run_error" where
  "value_failure m = Value_Failure ''ValueError'' m"

definition type_failure :: run_error where
  "type_failure = Other_Failure ''TypeError'' ''not supported between instances''"

definition lift_value :: "string + 'a \<Rightarrow> run_error + 'a" where
  "lift_value r = (case r of Inl m \<Rightarrow> Inl (value_failure m) | Inr a \<Rightarrow> Inr a)"

definition lift_comparison :: "comparison_error + 'a \<Rightarrow> run_error + 'a" where
  "lift_comparison r = (case r of Inl e \<Rightarrow> Inl type_failure | Inr a \<Rightarrow> Inr a)"

definition lift_confidence :: "confidence_error + 'a \<Rightarrow> run_error + 'a" where
  "lift_confidence r = (case r of Inl (Runtime_Error m) \<Rightarrow> Inl (Other_Failure ''RuntimeError'' m)
     | Inl Type_Error \<Rightarrow> Inl type_failure | Inr a \<Rightarrow> Inr a)"

text \<open>A validation error of pydantic is a \<open>ValueError\<close>.\<close>

definition lift_availability :: "availability_error + 'a \<Rightarrow> run_error + 'a" where
  "lift_availability r = (case r of Inl (Value_Error m) \<Rightarrow> Inl (value_failure m)
     | Inl (Key_Error k) \<Rightarrow> Inl (Other_Failure ''KeyError'' (quoted k))
     | Inl Validation_Error \<Rightarrow> Inl (Value_Failure ''ValidationError'' []) | Inr a \<Rightarrow> Inr a)"

lemma lift_simps [simp]: "lift_value (Inr a) = Inr a" "lift_comparison (Inr a) = Inr a"
  "lift_confidence (Inr a) = Inr a" "lift_availability (Inr a) = Inr a"
  by (simp_all add: lift_value_def lift_comparison_def lift_confidence_def lift_availability_def)

subsection \<open>Shared parts of the provenance\<close>

definition classification_provenance_of :: "field_mapping \<Rightarrow> classification_provenance" where
  "classification_provenance_of fm =
     \<lparr>cl_done_statuses = sorted_list_of_set (done_statuses fm),
      cl_in_progress_statuses = sorted_list_of_set (in_progress_statuses fm),
      cl_high_severity_values = sorted_list_of_set (high_severity_values fm),
      cl_bug_issue_types = sorted_list_of_set (bug_issue_types fm),
      cl_blocker_issue_types = sorted_list_of_set (blocker_issue_types fm),
      cl_blocker_severity_values = sorted_list_of_set (blocker_severity_values fm),
      cl_blocked_statuses = sorted_list_of_set (blocked_statuses fm),
      cl_severity_field = severity_field fm, cl_story_points_field = story_points_field fm,
      cl_release_field = release_field fm, cl_sprint_field = sprint_field fm,
      cl_blocker_field = blocker_field fm,
      cl_blocker_true_values = sorted_list_of_set (blocker_true_values fm)\<rparr>"

definition history_completeness_evidence :: "store \<Rightarrow> string list \<Rightarrow> history_completeness" where
  "history_completeness_evidence db keys =
    (let xs = order_issues (filter (\<lambda>i. issue_key i \<in> set keys) (issues db));
         complete = map issue_key (filter issue_changelog_complete xs);
         incomplete = map issue_key (filter (\<lambda>i. \<not> issue_changelog_complete i) xs)
     in \<lparr>hc_complete_issue_keys = complete, hc_incomplete_issue_keys = incomplete,
         hc_complete_count = length complete, hc_incomplete_count = length incomplete\<rparr>)"

definition matching_issue_keys :: "(string \<times> metric_result) list \<Rightarrow> string \<Rightarrow> string list" where
  "matching_issue_keys results name = evidence_keys (mr_evidence (result_of results name)) ''matching_issue_keys''"

definition classification_evidence :: "(string \<times> metric_result) list \<Rightarrow> (string \<times> metric_evidence) list" where
  "classification_evidence results = map (\<lambda>(name, r). (name, Classification_Evidence (mr_evidence r))) results"

subsection \<open>Release snapshot\<close>

text \<open>What one recomputation of a release evaluates.\<close>

record release_results =
  rl_classification :: "(string \<times> metric_result) list"
  rl_scope_churn :: churn_result
  rl_flow :: "cycle_result \<times> reopen_result"
  rl_ticket_count :: nat

definition release_results_of :: "store \<Rightarrow> field_mapping \<Rightarrow> release \<Rightarrow> utc \<Rightarrow> release_results" where
  "release_results_of db fm rel now =
     \<lparr>rl_classification = evaluate_release_classification_metrics db (release_id rel) fm,
      rl_scope_churn = compute_release_scope_churn_7d db (release_id rel) (release_project_key rel)
        (release_name rel) fm (aware now 0),
      rl_flow = evaluate_release_flow_metrics db (release_id rel) fm,
      rl_ticket_count = length (release_issues db (release_id rel))\<rparr>"

definition flow_statuses :: "cycle_result \<times> reopen_result \<Rightarrow> computation_status list" where
  "flow_statuses flow = [ct_status (fst flow), rr_status (snd flow)]"

definition release_confidence_partial :: "release_results \<Rightarrow> bool" where
  "release_confidence_partial r \<longleftrightarrow>
     mr_status (result_of (rl_classification r) ''open_blockers'') = PARTIAL
     \<or> mr_status (result_of (rl_classification r) ''open_high_severity_bugs'') = PARTIAL
     \<or> cr_status (rl_scope_churn r) = PARTIAL
     \<or> PARTIAL \<in> set (flow_statuses (rl_flow r))"

definition release_confidence_unavailable :: "release_results \<Rightarrow> bool" where
  "release_confidence_unavailable r \<longleftrightarrow>
     release_confidence_partial r \<or> (\<exists>s \<in> set (flow_statuses (rl_flow r)). s \<noteq> COMPUTED)"

definition open_blocker_keys :: "release_results \<Rightarrow> string list" where
  "open_blocker_keys r = matching_issue_keys (rl_classification r) ''open_blockers''"

definition open_bug_keys :: "release_results \<Rightarrow> string list" where
  "open_bug_keys r = matching_issue_keys (rl_classification r) ''open_high_severity_bugs''"

definition inputs_of_results :: "release_results \<Rightarrow> release_inputs" where
  "inputs_of_results r =
     \<lparr>open_blockers = int (length (open_blocker_keys r)),
      open_high_severity_bugs = int (length (open_bug_keys r)),
      scope_churn_7d_pct = cr_scope_churn_7d_pct (rl_scope_churn r),
      reopen_rate_pct = rr_value (snd (rl_flow r)),
      median_cycle_time_days = ct_value (fst (rl_flow r))\<rparr>"

definition release_confidence_of :: "release_results \<Rightarrow> pyfloat option" where
  "release_confidence_of r =
    (let inputs = inputs_of_results r
     in if rl_ticket_count r > 0 \<and> \<not> release_confidence_unavailable r
           \<and> scope_churn_7d_pct inputs \<noteq> None \<and> reopen_rate_pct inputs \<noteq> None
        then Some (compute_release_confidence_score inputs) else None)"

text \<open>The five inputs of a stored snapshot.\<close>

definition snapshot_inputs :: "metric_snapshot \<Rightarrow> release_inputs" where
  "snapshot_inputs s =
     \<lparr>open_blockers = sn_open_blockers s, open_high_severity_bugs = sn_open_high_severity_bugs s,
      scope_churn_7d_pct = sn_scope_churn_7d_pct s, reopen_rate_pct = sn_reopen_rate_pct s,
      median_cycle_time_days = sn_median_cycle_time_days s\<rparr>"

definition readiness_gates :: "release_results \<Rightarrow> metric_snapshot \<Rightarrow> release_gate list" where
  "readiness_gates r s =
    (if rl_ticket_count r > 0 \<and> \<not> release_confidence_partial r \<and> rr_status (snd (rl_flow r)) = COMPUTED
        \<and> sn_scope_churn_7d_pct s \<noteq> None
     then rn_release_gates (build_release_readiness_details (snapshot_inputs s)) else [])"

definition readiness_pct_of :: "release_gate list \<Rightarrow> pyfloat option" where
  "readiness_pct_of gates =
    (if gates \<noteq> []
     then Some (pct2 (int (length (filter gate_passed gates))) (int (length gates))) else None)"

definition value_or :: "py_number option \<Rightarrow> rat \<Rightarrow> rat" where
  "value_or v d = (case v of None \<Rightarrow> d | Some n \<Rightarrow> number_value n)"

definition release_snapshot_of :: "release_results \<Rightarrow> string \<Rightarrow> nat \<Rightarrow> utc \<Rightarrow> metric_snapshot" where
  "release_snapshot_of r rid n now =
    (let inputs = inputs_of_results r; confidence = release_confidence_of r
     in \<lparr>sn_id = n, sn_release_id = rid, sn_snapshot_at = now, sn_ruleset_version = ruleset_version_const,
         sn_confidence_score = confidence,
         sn_confidence_status = Some (if release_confidence_partial r then PARTIAL
           else if confidence \<noteq> None then COMPUTED else NOT_COMPUTED),
         sn_calculation_provenance = None,
         sn_open_blockers = open_blockers inputs,
         sn_open_high_severity_bugs = open_high_severity_bugs inputs,
         sn_open_blocker_issue_keys = open_blocker_keys r,
         sn_open_high_severity_bug_issue_keys = open_bug_keys r,
         sn_scope_completed_pct = value_or (mr_value (result_of (rl_classification r) ''scope_completed_pct'')) 0,
         sn_completed_tickets =
           Some \<lfloor>value_or (mr_value (result_of (rl_classification r) ''completed_tickets'')) 0\<rfloor>,
         sn_scope_churn_7d_pct = scope_churn_7d_pct inputs,
         sn_scope_added_7d_count = cr_scope_added_7d_count (rl_scope_churn r),
         sn_scope_removed_7d_count = cr_scope_removed_7d_count (rl_scope_churn r),
         sn_median_cycle_time_days = median_cycle_time_days inputs,
         sn_reopen_rate_pct = reopen_rate_pct inputs\<rparr>)"

definition release_outputs_of :: "release_results \<Rightarrow> metric_snapshot \<Rightarrow> run_error + release_outputs" where
  "release_outputs_of r s =
     and_then (if sn_confidence_score s \<noteq> None
         then and_then (lift_comparison (build_release_breakdown (snapshot_inputs s))) (\<lambda>b. Inr (Some b))
         else Inr None) (\<lambda>breakdown.
       Inr \<lparr>ro_risk_points = (if \<not> release_confidence_unavailable r \<and> sn_scope_churn_7d_pct s \<noteq> None
             then Some (compute_release_risk_points (snapshot_inputs s)) else None),
           ro_confidence_breakdown = breakdown,
           ro_biggest_driver = (if sn_confidence_score s \<noteq> None
             then Some (build_release_driver (snapshot_inputs s)) else None),
           ro_release_gates = readiness_gates r s,
           ro_readiness_pct = readiness_pct_of (readiness_gates r s)\<rparr>)"

definition release_calculation_provenance ::
  "store \<Rightarrow> field_mapping \<Rightarrow> release_results \<Rightarrow> metric_snapshot \<Rightarrow> run_error + release_provenance" where
  "release_calculation_provenance db fm r s =
    (let rid = sn_release_id s; churn = rl_scope_churn r; churn_evidence = Churn_Evidence (cr_evidence churn)
     in and_then (lift_availability (build_release_availability db rid fm (Some (churn_summary churn))
            (Some (flow_summaries (rl_flow r))))) (\<lambda>availability.
        case computation_state availability True UNAVAILABLE_REASON_NO_TICKETS of (status, reason) \<Rightarrow>
        and_then (release_outputs_of r s) (\<lambda>outputs.
          Inr \<lparr>rv_source_calculated_at = isoformat_utc (sn_snapshot_at s),
             rv_thresholds = release_threshold_metadata, rv_weights = RISK_WEIGHTS,
             rv_classification = classification_provenance_of fm,
             rv_availability = availability, rv_computation_status = status, rv_unavailable_reason = reason,
             rv_story_point_coverage = None, rv_scope_churn_7d = cr_evidence churn,
             rv_history_completeness =
               history_completeness_evidence db (map issue_key (release_issues db rid)),
             rv_component_inputs = snapshot_inputs s, rv_component_outputs = outputs,
             rv_issue_key_evidence =
               [(''open_blockers'', sn_open_blocker_issue_keys s),
                (''open_high_severity_bugs'', sn_open_high_severity_bug_issue_keys s),
                (''completed_tickets'', matching_issue_keys (rl_classification r) ''completed_tickets''),
                (''scope_added_7d'', ch_added_issue_keys (cr_evidence churn)),
                (''scope_removed_7d'', ch_removed_issue_keys (cr_evidence churn))],
             rv_metric_evidence = classification_evidence (rl_classification r)
               @ [(''scope_churn_7d_pct'', churn_evidence), (''scope_added_7d_count'', churn_evidence),
                  (''scope_removed_7d_count'', churn_evidence),
                  (''median_cycle_time_days'', Cycle_Evidence (ct_evidence (fst (rl_flow r)))),
                  (''reopen_rate_pct'', Reopen_Evidence (rr_evidence (snd (rl_flow r))))]\<rparr>)))"

definition release_not_found :: "string \<Rightarrow> run_error" where
  "release_not_found rid = value_failure (''Release not found: '' @ quoted rid)"

definition recompute_release_metrics ::
  "utc \<Rightarrow> field_mapping \<Rightarrow> string \<Rightarrow> lighthouse_db \<Rightarrow> run_error + metric_snapshot \<times> lighthouse_db" where
  "recompute_release_metrics now fm rid db =
    (case find_release (evidence db) rid of
       None \<Rightarrow> Inl (release_not_found rid)
     | Some rel \<Rightarrow>
        (let r = release_results_of (evidence db) fm rel now;
             s = release_snapshot_of r rid (next_row_id sn_id (metric_snapshots (derived db))) now
         in and_then (release_calculation_provenance (evidence db) fm r s) (\<lambda>p.
              let s' = s\<lparr>sn_calculation_provenance := Some p\<rparr>
              in Inr (s', mark_metrics_recomputed now (db\<lparr>derived := add_snapshot s' (derived db)\<rparr>)))))"

subsection \<open>Sprint snapshot\<close>

definition DELIVERY_CONFIDENCE_WEIGHTS :: "(string \<times> pyfloat) list" where
  "DELIVERY_CONFIDENCE_WEIGHTS = [(''progress_alignment'', W_PROGRESS), (''velocity_fit'', W_VELOCITY),
     (''blocker_penalty'', W_BLOCKER), (''scope_stability'', W_SCOPE)]"

record sprint_evaluation =
  se_classification :: "(string \<times> metric_result) list"
  se_scope :: "(string \<times> metric_result) list"
  se_work_state :: "(string \<times> metric_result) list"
  se_bugs_created :: bugs_created_result
  se_scope_creep :: creep_result
  se_workload :: workload_result
  se_flow :: "cycle_result \<times> reopen_result"
  se_delivery_confidence :: delivery_confidence_result

definition sprint_evaluation_of :: "store \<Rightarrow> field_mapping \<Rightarrow> sprint \<Rightarrow> utc \<Rightarrow> run_error + sprint_evaluation" where
  "sprint_evaluation_of db fm s now =
    (let sid = sprint_id s; t = aware now 0;
         classification = evaluate_sprint_classification_metrics db sid fm;
         creep = compute_sprint_scope_creep db fm s t
     in and_then (lift_value (evaluate_sprint_work_state_metrics db sid fm)) (\<lambda>work_state.
        and_then (lift_value (evaluate_sprint_delivery_confidence_prerequisites db sid fm (Some classification)))
          (\<lambda>prerequisites.
        and_then (lift_confidence (compute_delivery_confidence db s t fm
            (int (length (matching_issue_keys classification ''open_blockers''))) prerequisites creep)) (\<lambda>confidence.
          Inr \<lparr>se_classification = classification, se_scope = evaluate_sprint_scope_metrics db sid fm,
             se_work_state = work_state, se_bugs_created = compute_bugs_created_during_sprint db fm s t,
             se_scope_creep = creep, se_workload = compute_workload_distribution db fm sid,
             se_flow = evaluate_sprint_flow_metrics db sid fm, se_delivery_confidence = confidence\<rparr>))))"

definition sprint_snapshot_of :: "sprint_evaluation \<Rightarrow> string \<Rightarrow> nat \<Rightarrow> utc \<Rightarrow> sprint_metric_snapshot" where
  "sprint_snapshot_of e sid n now =
    (let blockers = matching_issue_keys (se_classification e) ''open_blockers'';
         bugs = matching_issue_keys (se_classification e) ''open_high_severity_bugs'';
         created = se_bugs_created e; creep = se_scope_creep e; workload = se_workload e;
         confidence = se_delivery_confidence e
     in \<lparr>ss_id = n, ss_sprint_id = sid, ss_snapshot_at = now, ss_ruleset_version = ruleset_version_const,
         ss_calculation_provenance = None,
         ss_committed_scope = mr_value (result_of (se_scope e) ''committed_scope''),
         ss_completed_scope_pct = mr_value (result_of (se_scope e) ''completed_scope_pct''),
         ss_scope_creep_pct = cp_value creep, ss_scope_creep_status = cp_status creep,
         ss_scope_creep_explanations = cp_explanations creep, ss_scope_creep_evidence = cp_evidence creep,
         ss_open_blockers = int (length blockers), ss_open_high_severity_bugs = int (length bugs),
         ss_bugs_created_during_sprint = int (length (bc_issue_keys created)),
         ss_open_blocker_issue_keys = blockers, ss_open_high_severity_bug_issue_keys = bugs,
         ss_bugs_created_during_sprint_issue_keys = bc_issue_keys created,
         ss_bugs_created_during_sprint_status = bugs_created_result.bc_status created,
         ss_bugs_missing_created_at_issue_keys = bc_missing_created_at_issue_keys created,
         ss_in_progress_count = mr_value (result_of (se_work_state e) ''in_progress_count''),
         ss_not_started_count = mr_value (result_of (se_work_state e) ''not_started_count''),
         ss_rollover_count = mr_value (result_of (se_work_state e) ''rollover_count''),
         ss_median_cycle_time_days = ct_value (fst (se_flow e)),
         ss_reopen_rate_pct = rr_value (snd (se_flow e)),
         ss_workload_concentration_pct = wr_value workload,
         ss_workload_distribution_status = wr_status workload,
         ss_workload_distribution_explanations = wr_explanations workload,
         ss_workload_distribution_evidence = wr_evidence workload,
         ss_delivery_confidence_score = dc_score confidence,
         ss_delivery_confidence_components = dc_components confidence,
         ss_delivery_confidence_inputs = dc_inputs confidence,
         ss_story_point_coverage = dc_coverage confidence,
         ss_delivery_confidence_status = dc_status confidence,
         ss_delivery_confidence_explanations = dc_explanations confidence\<rparr>)"

text \<open>The results as the availability of a sprint takes them.\<close>

definition results_for_availability :: "sprint_evaluation \<Rightarrow> sprint_results" where
  "results_for_availability e =
     \<lparr>sr_flow = Some (flow_summaries (se_flow e)), sr_scope = Some (se_scope e),
      sr_work_state = Some (se_work_state e), sr_scope_creep = Some (creep_summary (se_scope_creep e)),
      sr_delivery_confidence = Some (se_delivery_confidence e),
      sr_workload = Some (workload_summary (se_workload e))\<rparr>"

definition sprint_outputs_of :: "sprint_metric_snapshot \<Rightarrow> sprint_outputs" where
  "sprint_outputs_of s =
    (case (ss_delivery_confidence_score s, ss_delivery_confidence_components s) of
       (Some score, Some c) \<Rightarrow>
         \<lparr>so_components = Some c,
          so_confidence_breakdown = Some (build_sprint_breakdown score c (ss_delivery_confidence_inputs s)),
          so_biggest_driver = Some (build_sprint_driver c)\<rparr>
     | (_, components) \<Rightarrow>
         \<lparr>so_components = components, so_confidence_breakdown = None, so_biggest_driver = None\<rparr>)"

definition evidence_of :: "(string \<times> metric_result) list \<Rightarrow> string \<Rightarrow> string \<times> metric_evidence" where
  "evidence_of results name = (name, Classification_Evidence (mr_evidence (result_of results name)))"

definition sprint_calculation_provenance ::
  "store \<Rightarrow> field_mapping \<Rightarrow> sprint_evaluation \<Rightarrow> sprint_metric_snapshot \<Rightarrow> run_error + sprint_provenance" where
  "sprint_calculation_provenance db fm e s =
    (let sid = ss_sprint_id s
     in and_then (lift_availability (build_sprint_availability db sid fm (results_for_availability e)))
        (\<lambda>availability.
        case computation_state availability True UNAVAILABLE_REASON_NO_TICKETS of (status, reason) \<Rightarrow>
          Inr \<lparr>sv_source_calculated_at = isoformat_utc (ss_snapshot_at s),
             sv_thresholds = [(''minimum_story_point_coverage_pct'', MIN_STORY_POINT_COVERAGE_PCT)],
             sv_weights = DELIVERY_CONFIDENCE_WEIGHTS,
             sv_classification = classification_provenance_of fm,
             sv_availability = availability, sv_computation_status = status, sv_unavailable_reason = reason,
             sv_story_point_coverage = ss_story_point_coverage s,
             sv_scope_movement = se_scope_creep e,
             sv_delivery_confidence_prerequisites = dc_prerequisites (se_delivery_confidence e),
             sv_workload_distribution = se_workload e,
             sv_history_completeness = history_completeness_evidence db (sprint_issue_keys db sid),
             sv_component_inputs = ss_delivery_confidence_inputs s,
             sv_component_outputs = sprint_outputs_of s,
             sv_issue_key_evidence =
               [(''open_blockers'', ss_open_blocker_issue_keys s),
                (''open_high_severity_bugs'', ss_open_high_severity_bug_issue_keys s),
                (''bugs_created_during_sprint'', ss_bugs_created_during_sprint_issue_keys s),
                (''bugs_missing_jira_created_at'', ss_bugs_missing_created_at_issue_keys s)],
             sv_metric_evidence = classification_evidence (se_classification e)
               @ [(''median_cycle_time_days'', Cycle_Evidence (ct_evidence (fst (se_flow e)))),
                  (''reopen_rate_pct'', Reopen_Evidence (rr_evidence (snd (se_flow e)))),
                  evidence_of (se_scope e) ''committed_scope'', evidence_of (se_scope e) ''completed_scope_pct'',
                  (''scope_creep_pct'', Creep_Evidence (cp_evidence (se_scope_creep e))),
                  evidence_of (se_work_state e) ''in_progress_count'',
                  evidence_of (se_work_state e) ''not_started_count'',
                  evidence_of (se_work_state e) ''rollover_count'',
                  (''workload_concentration_pct'', Workload_Evidence (wr_evidence (se_workload e)))]\<rparr>))"

definition recompute_sprint_metrics ::
  "utc \<Rightarrow> field_mapping \<Rightarrow> string \<Rightarrow> lighthouse_db \<Rightarrow> run_error + sprint_metric_snapshot \<times> lighthouse_db" where
  "recompute_sprint_metrics now fm sid db =
    (case find_sprint (evidence db) sid of
       None \<Rightarrow> Inl (value_failure (sprint_not_found sid))
     | Some sp \<Rightarrow>
         and_then (sprint_evaluation_of (evidence db) fm sp now) (\<lambda>e.
         let s = sprint_snapshot_of e sid (next_row_id ss_id (sprint_snapshots (derived db))) now
         in and_then (sprint_calculation_provenance (evidence db) fm e s) (\<lambda>p.
              let s' = s\<lparr>ss_calculation_provenance := Some p\<rparr>
              in Inr (s', mark_metrics_recomputed now (db\<lparr>derived := add_sprint_snapshot s' (derived db)\<rparr>)))))"

end
