(* ===== verification/SnapshotContract.thy ===== *)
theory SnapshotContract
  imports Snapshots
begin

text \<open>
  What a new release snapshot promises: the recomputation of a stored release never raises, and the score,
  the breakdown and the availability that the snapshot stores agree with each other.
\<close>

subsection \<open>The availability items carry the statuses of the results\<close>

definition item_status :: "items \<Rightarrow> string \<Rightarrow> computation_status option" where
  "item_status items name = map_option ai_status (map_of items name)"

lemma frame_status: "frame n f \<Longrightarrow> f items = Inr items' \<Longrightarrow> item_status items' n = item_status items n"
  by (simp add: item_status_def frameD)

lemma frame_and_then: "frame n f \<Longrightarrow> frame n g \<Longrightarrow> frame n (\<lambda>items. and_then (f items) g)"
  by (auto simp: frame_def and_then_Inr_iff)

lemma frame_unavailable:
  assumes "n \<notin> {''confidence_score'', ''gates_passed_count'', ''readiness_pct''}"
  shows "frame n (apply_unavailable_confidence results)"
proof -
  have f: "frame n (release_item name st e ms)" if "name \<in> {''confidence_score'', ''gates_passed_count'', ''readiness_pct''}"
    for name st e ms
    by (rule frame_release_item) (use assms that in auto)
  have r: "frame n (if rd then Inr else fold_ok (\<lambda>name. release_item name st e ms)
      [''gates_passed_count'', ''readiness_pct''])" for rd st e ms
    by (cases rd) (auto intro!: frame_fold f simp del: fold_ok.simps)
  show ?thesis
  proof (cases "results = []")
    case False
    show ?thesis
      unfolding apply_unavailable_confidence_def if_not_P [OF False] Let_def
      by (intro frame_and_then f r) simp
  qed (simp add: apply_unavailable_confidence_def frame_def)
qed

lemma churn_status_item:
  "apply_scope_churn_availability r items = Inr items' \<Longrightarrow>
     item_status items' ''scope_churn_7d_pct'' = Some (ms_status r)"
  by (auto simp: apply_scope_churn_availability_def and_then_Inr_iff set_item_Inr new_item_def item_status_def
      split: if_splits)

lemma flow_status_item:
  assumes "apply_flow_metric_availability (flow_summaries flow) items = Inr items'"
  shows "item_status items' ''median_cycle_time_days'' = Some (ct_status (fst flow))"
    and "item_status items' ''reopen_rate_pct'' = Some (rr_status (snd flow))"
  using assms
  by (auto simp: apply_flow_metric_availability_def flow_summaries_def lookup_def override_item_def
      and_then_Inr_iff set_item_Inr new_item_def item_status_def split: if_splits)

lemma results_map_of:
  assumes "fold_ok (\<lambda>(name, r). set_item name (classification_item deps name r)) results acc = Inr items"
    and "distinct (map fst results)"
  shows "(\<forall>r. map_of results n = Some r \<longrightarrow> item_status items n = Some (mr_status r))
    \<and> (n \<notin> fst ` set results \<longrightarrow> map_of items n = map_of acc n)"
  using assms
proof (induction results arbitrary: acc)
  case (Cons p results)
  obtain m r where p: "p = (m, r)" by (cases p)
  obtain i where i: "classification_item deps m r = Inr i"
    "fold_ok (\<lambda>(name, r). set_item name (classification_item deps name r)) results (put m i acc) = Inr items"
    using Cons.prems p by (auto simp: and_then_Inr_iff set_item_Inr)
  have s: "ai_status i = mr_status r"
    using i(1) by (auto simp: classification_item_def and_then_Inr_iff new_item_def split: if_splits)
  show ?case using Cons.IH [OF i(2)] Cons.prems(2) p s by (auto simp: item_status_def)
qed simp

lemma distinct_classification: "distinct (map fst (evaluate_classification_metrics fm xs))"
  by (simp add: evaluate_classification_metrics_def)

lemma classification_map_of:
  "n \<in> {''open_blockers'', ''open_high_severity_bugs'', ''scope_completed_pct'', ''completed_tickets''} \<Longrightarrow>
     map_of (evaluate_classification_metrics fm xs) n = Some (result_of (evaluate_classification_metrics fm xs) n)"
  by (auto simp: evaluate_classification_metrics_def result_of_def)

lemma release_item_statuses:
  assumes "build_release_availability db rid fm (Some churn) (Some (flow_summaries flow)) = Inr a"
  shows "n \<in> {''open_blockers'', ''open_high_severity_bugs''} \<Longrightarrow> item_status (ma_metrics a) n
      = Some (mr_status (result_of (evaluate_classification_metrics fm (release_issues db rid)) n))"
    and "item_status (ma_metrics a) ''scope_churn_7d_pct'' = Some (ms_status churn)"
    and "item_status (ma_metrics a) ''reopen_rate_pct'' = Some (rr_status (snd flow))"
    and "item_status (ma_metrics a) ''median_cycle_time_days'' = Some (ct_status (fst flow))"
proof -
  let ?cl = "evaluate_classification_metrics fm (release_issues db rid)"
  obtain i1 i2 i3 u where items:
    "build_metric_availability_items (release_context db rid fm) RELEASE_METRIC_DEPENDENCIES ?cl = Inr i1"
    "apply_scope_churn_availability churn i1 = Inr i2"
    "apply_flow_metric_availability (flow_summaries flow) i2 = Inr i3"
    "apply_unavailable_confidence u i3 = Inr (ma_metrics a)"
    using assms by (auto simp: build_release_availability_def Let_def and_then_Inr_iff)
  have keep: "item_status (ma_metrics a) m = item_status i3 m"
    if "m \<notin> {''confidence_score'', ''gates_passed_count'', ''readiness_pct''}" for m
    by (rule frame_status [OF frame_unavailable [OF that] items(4)])
  have keep3: "item_status i3 m = item_status i2 m"
    if "m \<notin> {''median_cycle_time_days'', ''reopen_rate_pct''}" for m
    by (rule frame_status [OF frame_flow [OF that] items(3)])
  show "item_status (ma_metrics a) ''scope_churn_7d_pct'' = Some (ms_status churn)"
    using keep [of "''scope_churn_7d_pct''"] keep3 [of "''scope_churn_7d_pct''"] churn_status_item [OF items(2)] by simp
  show "item_status (ma_metrics a) ''reopen_rate_pct'' = Some (rr_status (snd flow))"
    using keep [of "''reopen_rate_pct''"] flow_status_item [OF items(3)] by simp
  show "item_status (ma_metrics a) ''median_cycle_time_days'' = Some (ct_status (fst flow))"
    using keep [of "''median_cycle_time_days''"] flow_status_item [OF items(3)] by simp
  assume n: "n \<in> {''open_blockers'', ''open_high_severity_bugs''}"
  have "item_status i1 n = Some (mr_status (result_of ?cl n))"
    using items(1) n results_map_of [OF _ distinct_classification, of RELEASE_METRIC_DEPENDENCIES fm
        "release_issues db rid" _ i1 n] classification_map_of [of n fm "release_issues db rid"]
    by (auto simp: build_metric_availability_items_def and_then_Inr_iff)
  moreover have "item_status i2 n = item_status i1 n"
    by (rule frame_status [OF frame_churn items(2)]) (use n in auto)
  moreover have "item_status (ma_metrics a) n = item_status i2 n"
    using keep [of n] keep3 [of n] n by auto
  ultimately show "item_status (ma_metrics a) n = Some (mr_status (result_of ?cl n))" by simp
qed

subsection \<open>When a release has a score\<close>

lemma finite_observed_scope: "finite (observed_scope db rid pk rname fm t)"
  by (metis List.finite_set observed_scope_keys)

lemma scope_churn_known:
  assumes "release_issues db rid \<noteq> []"
    and "cr_status (compute_release_scope_churn_7d db rid pk rname fm t) \<noteq> PARTIAL"
  shows "cr_scope_churn_7d_pct (compute_release_scope_churn_7d db rid pk rname fm t) \<noteq> None
    \<and> cr_status (compute_release_scope_churn_7d db rid pk rname fm t) = COMPUTED"
proof -
  have "observed_scope db rid pk rname fm t \<noteq> {}"
    using assms(1) by (cases "release_issues db rid") (auto simp: observed_scope_def)
  then have "card (observed_scope db rid pk rname fm t) \<noteq> 0" using finite_observed_scope by simp
  then show ?thesis using churn_status_parts(2) [of db rid pk rname fm t] assms(2) by (auto split: if_splits)
qed

lemma release_results_simps [snapshot_simps]:
  "rl_classification (release_results_of db fm rel now) = evaluate_classification_metrics fm (release_issues db (release_id rel))"
  "rl_scope_churn (release_results_of db fm rel now) = compute_release_scope_churn_7d db (release_id rel)
     (release_project_key rel) (release_name rel) fm (aware now 0)"
  "rl_flow (release_results_of db fm rel now) = evaluate_release_flow_metrics db (release_id rel) fm"
  "rl_ticket_count (release_results_of db fm rel now) = length (release_issues db (release_id rel))"
  by (simp_all add: release_results_of_def evaluate_release_classification_metrics_def)

lemma flow_values:
  "rr_value (snd (evaluate_release_flow_metrics db rid fm)) \<noteq> None
     \<longleftrightarrow> rr_status (snd (evaluate_release_flow_metrics db rid fm)) = COMPUTED"
  "ct_value (fst (evaluate_release_flow_metrics db rid fm)) \<noteq> None
     \<longleftrightarrow> ct_status (fst (evaluate_release_flow_metrics db rid fm)) = COMPUTED"
  unfolding evaluate_release_flow_metrics_def Let_def fst_conv snd_conv
  using reopen_rate.value_iff cycle_time.value_iff by blast+

lemma confidence_inputs_known_results:
  "confidence_inputs_known (rl_classification r) (churn_summary (rl_scope_churn r)) (flow_summaries (rl_flow r))
     \<longleftrightarrow> \<not> release_confidence_unavailable r"
  by (auto simp: confidence_inputs_known_def release_confidence_unavailable_def release_confidence_partial_def
      flow_statuses_def churn_summary_def flow_summaries_def)

lemma release_confidence_iff:
  assumes "r = release_results_of db fm rel now"
  shows "release_confidence_of r \<noteq> None \<longleftrightarrow> release_issues db (release_id rel) \<noteq> [] \<and> \<not> release_confidence_unavailable r"
proof -
  have "scope_churn_7d_pct (inputs_of_results r) \<noteq> None \<and> reopen_rate_pct (inputs_of_results r) \<noteq> None"
    if "release_issues db (release_id rel) \<noteq> []" "\<not> release_confidence_unavailable r"
    using that scope_churn_known [OF that(1)] flow_values(1)
    by (simp add: assms inputs_of_results_def snapshot_simps release_confidence_unavailable_def
        release_confidence_partial_def flow_statuses_def)
  moreover have "release_confidence_of r \<noteq> None \<longleftrightarrow> release_issues db (release_id rel) \<noteq> []
      \<and> \<not> release_confidence_unavailable r \<and> scope_churn_7d_pct (inputs_of_results r) \<noteq> None
      \<and> reopen_rate_pct (inputs_of_results r) \<noteq> None"
    by (simp add: release_confidence_of_def Let_def assms snapshot_simps)
  ultimately show ?thesis by blast
qed

lemma snapshot_inputs_of [snapshot_simps]: "snapshot_inputs (release_snapshot_of r rid n now) = inputs_of_results r"
  by (simp add: snapshot_inputs_def release_snapshot_of_def Let_def)

lemma release_snapshot_sel [snapshot_simps]:
  "sn_id (release_snapshot_of r rid n now) = n" "sn_release_id (release_snapshot_of r rid n now) = rid"
  "sn_snapshot_at (release_snapshot_of r rid n now) = now"
  "sn_confidence_score (release_snapshot_of r rid n now) = release_confidence_of r"
  "sn_scope_churn_7d_pct (release_snapshot_of r rid n now) = scope_churn_7d_pct (inputs_of_results r)"
  by (simp_all add: release_snapshot_of_def Let_def)

text \<open>The outputs of a snapshot with a score have a breakdown that adds up to it.\<close>

lemma release_outputs_total:
  assumes r: "r = release_results_of db fm rel now" and s: "s = release_snapshot_of r (release_id rel) n now"
  shows "\<exists>out. release_outputs_of r s = Inr out
    \<and> (release_confidence_of r = None \<longrightarrow> ro_confidence_breakdown out = None \<and> ro_biggest_driver out = None)
    \<and> (\<forall>c. release_confidence_of r = Some c \<longrightarrow>
         (\<exists>b. ro_confidence_breakdown out = Some b \<and> cb_total_score b = c)
         \<and> ro_biggest_driver out \<noteq> None \<and> ro_risk_points out \<noteq> None)"
proof (cases "release_confidence_of r")
  case None
  then show ?thesis by (simp add: release_outputs_of_def s snapshot_simps)
next
  case (Some c)
  then have i: "scope_churn_7d_pct (inputs_of_results r) \<noteq> None" "reopen_rate_pct (inputs_of_results r) \<noteq> None"
    "\<not> release_confidence_unavailable r" "c = compute_release_confidence_score (inputs_of_results r)"
    by (auto simp: release_confidence_of_def Let_def split: if_splits)
  obtain b where "build_release_breakdown (inputs_of_results r) = Inr b"
    "cb_total_score b = compute_release_confidence_score (inputs_of_results r)"
    using release_breakdown_facts [of "inputs_of_results r"] i by blast
  then show ?thesis using Some i by (simp add: release_outputs_of_def s snapshot_simps)
qed

text \<open>One recomputation, taken apart.\<close>

lemma recompute_release_parts:
  fixes now :: utc and fm :: field_mapping
  assumes rel: "find_release (evidence db) rid = Some rel"
  defines "r \<equiv> release_results_of (evidence db) fm rel now"
  defines "s \<equiv> release_snapshot_of r rid (next_row_id sn_id (metric_snapshots (derived db))) now"
  shows "\<exists>p out a. recompute_release_metrics now fm rid db = Inr (s\<lparr>sn_calculation_provenance := Some p\<rparr>,
      mark_metrics_recomputed now (db\<lparr>derived := add_snapshot (s\<lparr>sn_calculation_provenance := Some p\<rparr>) (derived db)\<rparr>))
    \<and> release_id rel = rid \<and> release_outputs_of r s = Inr out \<and> rv_component_outputs p = out
    \<and> build_release_availability (evidence db) rid fm (Some (churn_summary (rl_scope_churn r)))
        (Some (flow_summaries (rl_flow r))) = Inr a \<and> rv_availability p = a"
proof -
  have rid: "release_id rel = rid" using rel by (auto simp: find_release_def find_Some_iff)
  obtain out where out: "release_outputs_of r s = Inr out"
    using release_outputs_total [of r "evidence db" fm rel now s] by (auto simp: r_def s_def rid)
  obtain a where a: "build_release_availability (evidence db) rid fm (Some (churn_summary (rl_scope_churn r)))
      (Some (flow_summaries (rl_flow r))) = Inr a"
    using build_release_availability_keeps [of "Some (churn_summary (rl_scope_churn r))"
        "Some (flow_summaries (rl_flow r))" "evidence db" rid fm] churn_summary_ok flow_summaries_get(1)
    by (auto simp: r_def snapshot_simps rid)
  obtain st why where c: "computation_state a True UNAVAILABLE_REASON_NO_TICKETS = (st, why)" by fastforce
  have sid: "sn_release_id s = rid" by (simp add: s_def snapshot_simps)
  obtain p where "release_calculation_provenance (evidence db) fm r s = Inr p" "rv_component_outputs p = out"
    "rv_availability p = a"
    unfolding release_calculation_provenance_def Let_def sid a lift_simps and_then_simps c prod.case out
    by fastforce
  then show ?thesis using a out rid
    by (auto simp: recompute_release_metrics_def rel Let_def r_def [symmetric] s_def [symmetric])
qed

text \<open>The score of a snapshot against what is stored beside it.\<close>

definition score_explained :: "metric_snapshot \<Rightarrow> release_provenance \<Rightarrow> bool" where
  "score_explained s p \<longleftrightarrow>
     (\<exists>i. map_of (ma_metrics (rv_availability p)) ''confidence_score'' = Some i
        \<and> (sn_confidence_score s \<noteq> None) = ai_available i
        \<and> (sn_confidence_status s = Some COMPUTED) = ai_available i)
     \<and> (\<forall>c. sn_confidence_score s = Some c \<longrightarrow>
          c = compute_release_confidence_score (snapshot_inputs s)
          \<and> (\<exists>b. ro_confidence_breakdown (rv_component_outputs p) = Some b \<and> cb_total_score b = c)
          \<and> ro_biggest_driver (rv_component_outputs p) \<noteq> None
          \<and> ro_risk_points (rv_component_outputs p) \<noteq> None)"

lemma availability_has_score:
  assumes "build_release_availability db rid fm (Some (churn_summary (compute_release_scope_churn_7d db rid pk rname fm t)))
      (Some (flow_summaries (evaluate_release_flow_metrics db rid fm))) = Inr a"
  shows "\<exists>i. map_of (ma_metrics a) ''confidence_score'' = Some i"
proof -
  have "\<exists>a. build_release_availability db rid fm
        (Some (churn_summary (compute_release_scope_churn_7d db rid pk rname fm t)))
        (Some (flow_summaries (evaluate_release_flow_metrics db rid fm))) = Inr a
     \<and> ma_context a = release_context db rid fm \<and> items_inv RELEASE_METRIC_DEPENDENCIES (ma_metrics a)"
    by (rule build_release_availability_keeps) (use churn_summary_ok flow_summaries_get(1) in auto)
  then have "map fst (ma_metrics a) = map fst RELEASE_METRIC_DEPENDENCIES"
    unfolding assms by (simp add: items_inv_def)
  then have "fst ` set (ma_metrics a) = fst ` set RELEASE_METRIC_DEPENDENCIES"
    unfolding list.set_map [symmetric] by (rule arg_cong)
  moreover have "''confidence_score'' \<in> fst ` set RELEASE_METRIC_DEPENDENCIES"
    by (rule subsetD [OF release_names]) simp
  ultimately have "''confidence_score'' \<in> fst ` set (ma_metrics a)" by (rule ssubst)
  then show ?thesis unfolding dom_map_of_conv_image_fst [symmetric] by (rule domD)
qed

lemma new_snapshot_explained:
  fixes now :: utc
  assumes r: "r = release_results_of db fm rel now" and s: "s = release_snapshot_of r (release_id rel) n now"
    and out: "release_outputs_of r s = Inr (rv_component_outputs p)"
    and a: "build_release_availability db (release_id rel) fm (Some (churn_summary (rl_scope_churn r)))
      (Some (flow_summaries (rl_flow r))) = Inr (rv_availability p)"
  shows "score_explained (s\<lparr>sn_calculation_provenance := Some q\<rparr>) p"
proof -
  obtain i where i: "map_of (ma_metrics (rv_availability p)) ''confidence_score'' = Some i"
    using availability_has_score a unfolding r snapshot_simps by blast
  note k = release_confidence_iff [OF r]
  have av: "ai_available i \<longleftrightarrow> release_confidence_of r \<noteq> None"
    unfolding k using confidence_item [OF a i] confidence_inputs_known_results [of r] by (simp add: r snapshot_simps)
  have st: "sn_confidence_status s = Some COMPUTED \<longleftrightarrow> release_confidence_of r \<noteq> None"
    using k by (auto simp: s release_snapshot_of_def Let_def release_confidence_unavailable_def)
  have sel: "sn_confidence_score s = release_confidence_of r" "snapshot_inputs s = inputs_of_results r"
    by (simp_all add: s snapshot_simps)
  have c: "c = compute_release_confidence_score (inputs_of_results r)" if "release_confidence_of r = Some c" for c
    using that by (auto simp: release_confidence_of_def Let_def split: if_splits)
  have upd: "sn_confidence_score (s\<lparr>sn_calculation_provenance := Some q\<rparr>) = release_confidence_of r"
    "sn_confidence_status (s\<lparr>sn_calculation_provenance := Some q\<rparr>) = sn_confidence_status s"
    "snapshot_inputs (s\<lparr>sn_calculation_provenance := Some q\<rparr>) = inputs_of_results r"
    unfolding sel [symmetric] by (simp_all add: snapshot_inputs_def)
  show ?thesis unfolding score_explained_def upd st using i av c release_outputs_total [OF r s] out by auto
qed

lemma release_snapshot_facts:
  "case find_release (evidence db) rid of
     None \<Rightarrow> recompute_release_metrics now fm rid db = Inl (release_not_found rid)
   | Some rel \<Rightarrow> (\<exists>s db' p. recompute_release_metrics now fm rid db = Inr (s, db')
       \<and> evidence db' = evidence db \<and> sync_states db' = sync_states db
       \<and> derived db' = (derived db)\<lparr>metric_snapshots := metric_snapshots (derived db) @ [s]\<rparr>
       \<and> sn_release_id s = rid \<and> sn_id s \<notin> sn_id ` set (metric_snapshots (derived db))
       \<and> sn_calculation_provenance s = Some p
       \<and> score_explained s p)"
proof (cases "find_release (evidence db) rid")
  case None
  then show ?thesis by (simp add: recompute_release_metrics_def)
next
  case (Some rel)
  define r where "r = release_results_of (evidence db) fm rel now"
  define s where "s = release_snapshot_of r rid (next_row_id sn_id (metric_snapshots (derived db))) now"
  obtain p out a where parts: "recompute_release_metrics now fm rid db = Inr (s\<lparr>sn_calculation_provenance := Some p\<rparr>,
      mark_metrics_recomputed now (db\<lparr>derived := add_snapshot (s\<lparr>sn_calculation_provenance := Some p\<rparr>) (derived db)\<rparr>))"
    "release_id rel = rid" "release_outputs_of r s = Inr out" "rv_component_outputs p = out"
    "build_release_availability (evidence db) rid fm (Some (churn_summary (rl_scope_churn r)))
        (Some (flow_summaries (rl_flow r))) = Inr a" "rv_availability p = a"
    using recompute_release_parts [OF Some, of now fm] unfolding r_def s_def by blast
  have e: "score_explained (s\<lparr>sn_calculation_provenance := Some p\<rparr>) p"
    by (rule new_snapshot_explained [OF r_def]) (use parts in \<open>simp_all add: s_def\<close>)
  have "sn_release_id s = rid" "sn_id s \<notin> sn_id ` set (metric_snapshots (derived db))"
    using next_row_id_fresh [of _ "metric_snapshots (derived db)" sn_id] by (fastforce simp: s_def snapshot_simps)+
  then show ?thesis unfolding Some option.case parts(1) using e by (auto simp: add_snapshot_def)
qed


subsection \<open>Sprint snapshots\<close>

lemma sprint_evaluation_parts:
  assumes "find_sprint db sid = Some sp"
  shows "\<exists>ws p r e. sprint_evaluation_of db fm sp now = Inr e
    \<and> evaluate_sprint_work_state_metrics db sid fm = Inr ws
    \<and> evaluate_sprint_delivery_confidence_prerequisites db sid fm
        (Some (evaluate_sprint_classification_metrics db sid fm)) = Inr p
    \<and> compute_delivery_confidence db sp (aware now 0) fm
        (int (length (matching_issue_keys (evaluate_sprint_classification_metrics db sid fm) ''open_blockers''))) p
        (compute_sprint_scope_creep db fm sp (aware now 0)) = Inr r
    \<and> results_for_availability e = own_results db sp (aware now 0) fm ws r \<and> se_delivery_confidence e = r"
proof -
  have sid: "sprint_id sp = sid" using assms by (auto simp: find_sprint_def find_Some_iff)
  obtain ws where ws: "evaluate_sprint_work_state_metrics db sid fm = Inr ws"
    unfolding evaluate_sprint_work_state_metrics_def assms option.case Let_def by blast
  obtain p where p: "evaluate_sprint_delivery_confidence_prerequisites db sid fm
      (Some (evaluate_sprint_classification_metrics db sid fm)) = Inr p"
    unfolding evaluate_sprint_delivery_confidence_prerequisites_def assms option.case Let_def by blast
  obtain r where r: "compute_delivery_confidence db sp (aware now 0) fm
      (int (length (matching_issue_keys (evaluate_sprint_classification_metrics db sid fm) ''open_blockers''))) p
      (compute_sprint_scope_creep db fm sp (aware now 0)) = Inr r"
    using own_confidence_Inr [OF assms p] by blast
  obtain e where e: "sprint_evaluation_of db fm sp now = Inr e" "se_delivery_confidence e = r"
    "results_for_availability e = own_results db sp (aware now 0) fm ws r"
    unfolding sprint_evaluation_of_def Let_def sid ws p r lift_simps and_then_simps
    by (simp add: results_for_availability_def own_results_def sid)
  show ?thesis using ws p r e by blast
qed

lemma sprint_snapshot_facts:
  "case find_sprint (evidence db) sid of
     None \<Rightarrow> recompute_sprint_metrics now fm sid db = Inl (value_failure (sprint_not_found sid))
   | Some sp \<Rightarrow> (\<exists>s db' p. recompute_sprint_metrics now fm sid db = Inr (s, db')
       \<and> evidence db' = evidence db \<and> sync_states db' = sync_states db
       \<and> derived db' = (derived db)\<lparr>sprint_snapshots := sprint_snapshots (derived db) @ [s]\<rparr>
       \<and> ss_sprint_id s = sid \<and> ss_id s \<notin> ss_id ` set (sprint_snapshots (derived db))
       \<and> ss_calculation_provenance s = Some p
       \<and> map fst (ma_metrics (sv_availability p)) = map md_api_field sprint_metrics
       \<and> (\<forall>i \<in> snd ` set (ma_metrics (sv_availability p)). item_ok i)
       \<and> (ss_delivery_confidence_score s \<noteq> None \<and> ss_delivery_confidence_components s \<noteq> None)
           = (so_confidence_breakdown (sv_component_outputs p) \<noteq> None))"
proof (cases "find_sprint (evidence db) sid")
  case None
  then show ?thesis by (simp add: recompute_sprint_metrics_def)
next
  case (Some sp)
  obtain ws p r e where parts: "sprint_evaluation_of (evidence db) fm sp now = Inr e"
    "evaluate_sprint_work_state_metrics (evidence db) sid fm = Inr ws"
    "evaluate_sprint_delivery_confidence_prerequisites (evidence db) sid fm
        (Some (evaluate_sprint_classification_metrics (evidence db) sid fm)) = Inr p"
    "compute_delivery_confidence (evidence db) sp (aware now 0) fm
        (int (length (matching_issue_keys (evaluate_sprint_classification_metrics (evidence db) sid fm) ''open_blockers''))) p
        (compute_sprint_scope_creep (evidence db) fm sp (aware now 0)) = Inr r"
    "results_for_availability e = own_results (evidence db) sp (aware now 0) fm ws r"
    using sprint_evaluation_parts [OF Some, of fm now] by blast
  from own_availability [OF Some parts(2-4)] obtain a where
    a: "build_sprint_availability (evidence db) sid fm (results_for_availability e) = Inr a"
    "map fst (ma_metrics a) = map md_api_field sprint_metrics" "\<forall>i \<in> snd ` set (ma_metrics a). item_ok i"
    unfolding parts(5) by blast
  define s where "s = sprint_snapshot_of e sid (next_row_id ss_id (sprint_snapshots (derived db))) now"
  have s: "ss_sprint_id s = sid" "ss_id s \<notin> ss_id ` set (sprint_snapshots (derived db))"
    using next_row_id_fresh [of _ "sprint_snapshots (derived db)" ss_id]
    by (fastforce simp: s_def sprint_snapshot_of_def Let_def)+
  obtain st why where c: "computation_state a True UNAVAILABLE_REASON_NO_TICKETS = (st, why)" by fastforce
  obtain q where q: "sprint_calculation_provenance (evidence db) fm e s = Inr q" "sv_availability q = a"
    "sv_component_outputs q = sprint_outputs_of s"
    unfolding sprint_calculation_provenance_def Let_def s(1) a(1) lift_simps and_then_simps c prod.case by simp
  have "(ss_delivery_confidence_score s \<noteq> None \<and> ss_delivery_confidence_components s \<noteq> None)
      = (so_confidence_breakdown (sprint_outputs_of s) \<noteq> None)"
    by (auto simp: sprint_outputs_of_def split: option.splits)
  then show ?thesis using s a(2,3) q
    by (auto simp: recompute_sprint_metrics_def Some parts(1) s_def [symmetric] Let_def add_sprint_snapshot_def)
qed

text \<open>Recomputing an unknown sprint raises exactly the not-found error. For a stored sprint it always
  succeeds, adds one snapshot with a new id, and changes no evidence, sync state, release snapshot or signal.
  The stored availability has one item per metric of the sprint catalog, each with its reason when the
  metric is not available, and a stored score comes with its breakdown.\<close>

theorem sprint_snapshot_contract:
  "case find_sprint (evidence db) sid of
     None \<Rightarrow> recompute_sprint_metrics now fm sid db = Inl (value_failure (sprint_not_found sid))
   | Some sp \<Rightarrow> (\<exists>s db' p. recompute_sprint_metrics now fm sid db = Inr (s, db')
       \<and> evidence db' = evidence db \<and> sync_states db' = sync_states db
       \<and> derived db' = (derived db)\<lparr>sprint_snapshots := sprint_snapshots (derived db) @ [s]\<rparr>
       \<and> ss_sprint_id s = sid \<and> ss_id s \<notin> ss_id ` set (sprint_snapshots (derived db))
       \<and> ss_calculation_provenance s = Some p
       \<and> map fst (ma_metrics (sv_availability p)) = map md_api_field sprint_metrics
       \<and> (\<forall>i \<in> snd ` set (ma_metrics (sv_availability p)). item_ok i)
       \<and> (ss_delivery_confidence_score s \<noteq> None \<and> ss_delivery_confidence_components s \<noteq> None)
           = (so_confidence_breakdown (sv_component_outputs p) \<noteq> None))"
  by (rule sprint_snapshot_facts)

definition sprint_db :: lighthouse_db where
  "sprint_db = \<lparr>evidence = sample_store, sync_states = [],
     op_status = \<lparr>os_last_sync_succeeded_at = None, os_last_sync_failed_at = None,
       os_last_sync_failure_summary = None, os_last_metrics_recompute_at = None,
       os_last_signal_recompute_at = None\<rparr>,
     derived = \<lparr>metric_snapshots = [], sprint_snapshots = [], release_signals = []\<rparr>\<rparr>"

lemma sprint_snapshot_contract_witness:
  "\<exists>s db'. recompute_sprint_metrics 9 default_mapping (sprint_id sample_sprint) sprint_db = Inr (s, db')
    \<and> sprint_snapshots (derived db') = [s] \<and> ss_sprint_id s = sprint_id sample_sprint"
proof -
  have "find_sprint (evidence sprint_db) (sprint_id sample_sprint) = Some sample_sprint"
    by (simp add: find_sprint_def sprint_db_def sample_store_def)
  moreover have "sprint_snapshots (derived sprint_db) = []" by (simp add: sprint_db_def)
  ultimately show ?thesis
    using sprint_snapshot_contract [where db = sprint_db and sid = "sprint_id sample_sprint" and now = 9 and fm = default_mapping] by auto
qed

end
