(* ===== verification/SignalRecompute.thy ===== *)
theory SignalRecompute
  imports SnapshotContract
begin

text \<open>
  \<open>SignalService.recompute_release_signal\<close> (services/signal_service.py): the signal of the latest snapshot
  of a release, its override when the stored availability says that an input is missing, and the row that
  is stored. The theorems say what signal a release gets right after its metrics were recomputed, and that
  the derived tables stay well formed.
\<close>

named_theorems signal_row_simps \<open>fields of new signal rows\<close>

subsection \<open>Missing inputs\<close>

definition CONFIDENCE_INPUTS :: "string list" where
  "CONFIDENCE_INPUTS = [''open_blockers'', ''open_high_severity_bugs'', ''scope_churn_7d_pct'',
     ''reopen_rate_pct'', ''median_cycle_time_days'']"

definition input_unavailable :: "string \<Rightarrow> computation_status \<Rightarrow> bool" where
  "input_unavailable name st \<longleftrightarrow>
     st = PARTIAL \<or> (name \<in> {''reopen_rate_pct'', ''median_cycle_time_days''} \<and> st = NOT_COMPUTED)"

definition unavailable_confidence_items :: "items \<Rightarrow> items" where
  "unavailable_confidence_items metrics = List.map_filter (\<lambda>name. case map_of metrics name of
     None \<Rightarrow> None | Some i \<Rightarrow> if input_unavailable name (ai_status i) then Some (name, i) else None)
     CONFIDENCE_INPUTS"

definition stored_metrics :: "metric_snapshot \<Rightarrow> items" where
  "stored_metrics s = (case sn_calculation_provenance s of
     None \<Rightarrow> [] | Some p \<Rightarrow> ma_metrics (rv_availability p))"

definition unavailable_reason_text :: "string \<times> availability_item \<Rightarrow> string" where
  "unavailable_reason_text ni = (case ni of (name, i) \<Rightarrow>
    (let explanation = (case ai_explanations i of
           e # _ \<Rightarrow> e
         | [] \<Rightarrow> or_default (or_empty (ai_reason i)) ''The required metric input is unavailable.'');
         suffix = (if ai_missing_issue_keys i \<noteq> []
           then '' Missing Jira issue keys: '' @ join '', '' (ai_missing_issue_keys i) @ ''.'' else [])
     in name @ '': '' @ explanation @ suffix))"

definition unavailable_input_of :: "string \<times> availability_item \<Rightarrow> unavailable_input" where
  "unavailable_input_of ni = (case ni of (name, i) \<Rightarrow>
     \<lparr>ui_metric_name = name, ui_status = ai_status i, ui_reason = ai_reason i,
      ui_explanations = ai_explanations i, ui_missing_issue_keys = ai_missing_issue_keys i\<rparr>)"

text \<open>A cycle time without any completed ticket does not hide its gate.\<close>

definition unavailable_gate_metrics :: "items \<Rightarrow> string list" where
  "unavailable_gate_metrics us = map fst (filter (\<lambda>(name, i).
     \<not> (name = ''median_cycle_time_days'' \<and> ai_status i = NOT_COMPUTED)) us)"

subsection \<open>The signal and its readiness\<close>

definition signal_and_reasons :: "items \<Rightarrow> release_inputs \<Rightarrow> signal \<times> string list \<times> reason_detail list" where
  "signal_and_reasons us inputs = (case evaluate_signal_with_details inputs of (sig, reasons, details) \<Rightarrow>
    if us = [] then (sig, reasons, details)
    else ((if \<exists>d \<in> set details. rd_level d = RED then Level RED else INCONCLUSIVE),
          (if reasons = [no_major_risk] then [] else reasons) @ map unavailable_reason_text us, details))"

definition plain_evidence :: "readiness \<Rightarrow> readiness_evidence" where
  "plain_evidence r = \<lparr>re_signal = Some (rn_signal r), re_status_label = rn_status_label r,
     re_confidence_score = rn_confidence_score r, re_summary = rn_summary r,
     re_release_gates = Some (rn_release_gates r), re_critical_risks = rn_critical_risks r,
     re_warnings = rn_warnings r, re_primary_risk = rn_primary_risk r,
     re_unavailable_inputs = None, re_reasons = None\<rparr>"

definition without_contribution :: "risk_item \<Rightarrow> risk_item" where
  "without_contribution r = r\<lparr>ri_contribution_pct := 0\<rparr>"

definition inconclusive_evidence :: "items \<Rightarrow> signal \<Rightarrow> string list \<Rightarrow> readiness \<Rightarrow> readiness_evidence" where
  "inconclusive_evidence us sig reasons r = \<lparr>re_signal = Some sig,
     re_status_label = (if sig = Level RED then ''NOT READY FOR RELEASE'' else ''INCONCLUSIVE''),
     re_confidence_score = None,
     re_summary = (if sig = Level RED
       then ''A confirmed hard RED condition is active, and required metric inputs are unavailable or incomplete.''
       else ''Release status is inconclusive because required metric inputs are unavailable or incomplete.''),
     re_release_gates = Some (filter (\<lambda>g. gate_metric_name g \<notin> set (unavailable_gate_metrics us)) (rn_release_gates r)),
     re_critical_risks = map without_contribution (rn_critical_risks r),
     re_warnings = map without_contribution (rn_warnings r),
     re_primary_risk = None,
     re_unavailable_inputs = Some (map unavailable_input_of us),
     re_reasons = Some reasons\<rparr>"

definition readiness_evidence_of :: "items \<Rightarrow> signal \<Rightarrow> string list \<Rightarrow> readiness \<Rightarrow> readiness_evidence" where
  "readiness_evidence_of us sig reasons r =
     (if us = [] then plain_evidence r else inconclusive_evidence us sig reasons r)"

subsection \<open>The stored row\<close>

definition no_tickets_reason :: string where
  "no_tickets_reason = ''No tickets are assigned to this release.''"

definition no_tickets_evidence :: readiness_evidence where
  "no_tickets_evidence = \<lparr>re_signal = None, re_status_label = ''NOT COMPUTED'', re_confidence_score = None,
     re_summary = ''Release signal is not computed because no tickets are assigned to this release.'',
     re_release_gates = None, re_critical_risks = [], re_warnings = [], re_primary_risk = None,
     re_unavailable_inputs = None, re_reasons = None\<rparr>"

definition not_computed_signal :: "string \<Rightarrow> metric_snapshot option \<Rightarrow> utc \<Rightarrow> release_signal" where
  "not_computed_signal rid snapshot now = \<lparr>sg_id = 0, sg_release_id = rid,
     sg_metric_snapshot_id = map_option sn_id snapshot, sg_ruleset_version = ruleset_version_const,
     sg_signal = SIGNAL_NOT_COMPUTED, sg_confidence_score = None, sg_reasons = [no_tickets_reason],
     sg_reason_details = [], sg_release_gates = [], sg_readiness_evidence = no_tickets_evidence,
     sg_risk_aging_evidence = \<lparr>rk_blockers = no_risk_ages, rk_high_severity_bugs = no_risk_ages,
       rk_as_of = map_option (\<lambda>s. isoformat_utc (sn_snapshot_at s)) snapshot\<rparr>,
     sg_calculated_at = now\<rparr>"

definition stored_keys :: "string list \<Rightarrow> int \<Rightarrow> string list option" where
  "stored_keys keys n = (if keys \<noteq> [] \<or> n = 0 then Some keys else None)"

definition computed_signal :: "store \<Rightarrow> field_mapping \<Rightarrow> string \<Rightarrow> metric_snapshot \<Rightarrow> utc \<Rightarrow> release_signal" where
  "computed_signal db fm rid s now =
    (let us = unavailable_confidence_items (stored_metrics s);
         inputs = snapshot_inputs s
     in case signal_and_reasons us inputs of (sig, reasons, details) \<Rightarrow>
       let evidence = readiness_evidence_of us sig reasons (build_release_readiness_details inputs)
       in \<lparr>sg_id = 0, sg_release_id = rid, sg_metric_snapshot_id = Some (sn_id s),
           sg_ruleset_version = ruleset_version_const, sg_signal = sig,
           sg_confidence_score = sn_confidence_score s, sg_reasons = reasons, sg_reason_details = details,
           sg_release_gates = (case re_release_gates evidence of None \<Rightarrow> [] | Some gs \<Rightarrow> gs),
           sg_readiness_evidence = evidence,
           sg_risk_aging_evidence = json_safe_risk_aging (build_release_risk_aging db fm rid (sn_snapshot_at s)
             (stored_keys (sn_open_blocker_issue_keys s) (sn_open_blockers s))
             (stored_keys (sn_open_high_severity_bug_issue_keys s) (sn_open_high_severity_bugs s))),
           sg_calculated_at = now\<rparr>)"

definition store_signal :: "utc \<Rightarrow> release_signal \<Rightarrow> lighthouse_db \<Rightarrow> release_signal \<times> lighthouse_db" where
  "store_signal now g db =
    (case create_signal g (derived db) of (h, d) \<Rightarrow> (h, (mark_signal_recomputed now db)\<lparr>derived := d\<rparr>))"

definition no_snapshot_found :: "string \<Rightarrow> run_error" where
  "no_snapshot_found rid = value_failure (''No metric snapshot found for release: '' @ quoted rid)"

definition recompute_release_signal ::
  "utc \<Rightarrow> field_mapping \<Rightarrow> string \<Rightarrow> lighthouse_db \<Rightarrow> run_error + release_signal \<times> lighthouse_db" where
  "recompute_release_signal now fm rid db =
    (if find_release (evidence db) rid = None then Inl (release_not_found rid)
     else let snapshot = get_latest_snapshot (derived db) rid
       in if length (release_issues (evidence db) rid) = 0
          then Inr (store_signal now (not_computed_signal rid snapshot now) db)
          else case snapshot of
            None \<Rightarrow> Inl (no_snapshot_found rid)
          | Some s \<Rightarrow> Inr (store_signal now (computed_signal (evidence db) fm rid s now) db))"

lemma store_signal_frame [signal_row_simps]:
  "evidence (snd (store_signal now g db)) = evidence db"
  "sync_states (snd (store_signal now g db)) = sync_states db"
  "fst (store_signal now g db) = fst (create_signal g (derived db))"
  "derived (snd (store_signal now g db)) = snd (create_signal g (derived db))"
  by (simp_all add: store_signal_def case_prod_unfold)

lemma signal_rows_key [signal_row_simps]:
  "signal_key (not_computed_signal rid snapshot now) = (rid, map_option sn_id snapshot, ruleset_version_const)"
  "signal_key (computed_signal db fm rid s now) = (rid, Some (sn_id s), ruleset_version_const)"
  "sg_signal (not_computed_signal rid snapshot now) = SIGNAL_NOT_COMPUTED"
  "sg_confidence_score (not_computed_signal rid snapshot now) = None"
  "sg_signal (computed_signal db fm rid s now)
     = fst (signal_and_reasons (unavailable_confidence_items (stored_metrics s)) (snapshot_inputs s))"
  "sg_confidence_score (computed_signal db fm rid s now) = sn_confidence_score s"
  by (simp_all add: not_computed_signal_def computed_signal_def signal_key_def Let_def case_prod_unfold)

subsection \<open>Well-formed derived tables\<close>

text \<open>Snapshot ids are unique, a signal refers to a stored snapshot or to none, and signal keys are unique.\<close>

definition wf_derived :: "derived_tables \<Rightarrow> bool" where
  "wf_derived d \<longleftrightarrow> distinct (map sn_id (metric_snapshots d))
     \<and> (\<forall>g \<in> set (release_signals d). \<forall>n. sg_metric_snapshot_id g = Some n \<longrightarrow> n \<in> sn_id ` set (metric_snapshots d))
     \<and> distinct (map signal_key (release_signals d))"

lemma wf_add_snapshot:
  assumes "wf_derived d" and "sn_id s \<notin> sn_id ` set (metric_snapshots d)"
  shows "wf_derived (d\<lparr>metric_snapshots := metric_snapshots d @ [s]\<rparr>)"
  using assms by (auto simp: wf_derived_def)

lemma wf_create_signal:
  assumes "wf_derived d" and "\<And>n. sg_metric_snapshot_id g = Some n \<Longrightarrow> n \<in> sn_id ` set (metric_snapshots d)"
  shows "wf_derived (snd (create_signal g d))"
proof (cases "signal_key g \<in> signal_key ` set (release_signals d)")
  case True
  then show ?thesis using create_signal_old [OF True] assms(1) by auto
next
  case False
  then show ?thesis using assms by (auto simp: create_signal_new [OF False] Let_def wf_derived_def)
qed

lemma latest_snapshot_stored: "get_latest_snapshot d rid = Some s \<Longrightarrow> s \<in> set (metric_snapshots d)"
  using latest_by_Some(1) by (fastforce simp: get_latest_snapshot_def snapshots_of_def)

lemma recompute_signal_wf:
  assumes "recompute_release_signal now fm rid db = Inr (g, db')" and "wf_derived (derived db)"
  shows "wf_derived (derived db') \<and> evidence db' = evidence db \<and> sync_states db' = sync_states db"
proof -
  obtain row where row: "(g, db') = store_signal now row db"
    "\<And>n. sg_metric_snapshot_id row = Some n \<Longrightarrow> n \<in> sn_id ` set (metric_snapshots (derived db))"
  proof (cases "length (release_issues (evidence db) rid) = 0")
    case True
    show ?thesis
      by (rule that [of "not_computed_signal rid (get_latest_snapshot (derived db) rid) now"])
        (use assms(1) True latest_snapshot_stored in \<open>auto simp: recompute_release_signal_def Let_def
          not_computed_signal_def split: if_splits\<close>)
  next
    case False
    then obtain s where s: "get_latest_snapshot (derived db) rid = Some s"
      "(g, db') = store_signal now (computed_signal (evidence db) fm rid s now) db"
      using assms(1) by (auto simp: recompute_release_signal_def Let_def split: if_splits option.splits)
    show ?thesis
      by (rule that [OF s(2)])
        (use latest_snapshot_stored [OF s(1)] signal_rows_key(2) [of "evidence db" fm rid s now]
          in \<open>auto simp: signal_key_def\<close>)
  qed
  have "db' = snd (store_signal now row db)" using row(1) by (metis snd_conv)
  then show ?thesis using wf_create_signal [OF assms(2) row(2)] by (simp add: store_signal_frame)
qed

subsection \<open>The signal of fresh metrics\<close>

text \<open>The signal as a function of the evaluated metrics.\<close>

definition fresh_signal :: "release_results \<Rightarrow> signal" where
  "fresh_signal r =
    (if rl_ticket_count r = 0 then SIGNAL_NOT_COMPUTED
     else if red_details (inputs_of_results r) \<noteq> [] then Level RED
     else if release_confidence_unavailable r then INCONCLUSIVE
     else Level (hard_rule_signal (inputs_of_results r)))"

lemma map_filter_Nil: "List.map_filter f xs = [] \<longleftrightarrow> (\<forall>x \<in> set xs. f x = None)"
  by (induction xs) (auto simp: map_filter_simps split: option.splits)

lemma unavailable_items_Nil:
  "unavailable_confidence_items metrics = [] \<longleftrightarrow>
     (\<forall>name \<in> set CONFIDENCE_INPUTS. \<forall>st. item_status metrics name = Some st \<longrightarrow> \<not> input_unavailable name st)"
  unfolding unavailable_confidence_items_def map_filter_Nil
  by (rule ball_cong [OF refl]) (auto simp: item_status_def split: option.splits)

lemma details_RED: "(\<exists>d \<in> set (snd (snd (evaluate_signal_with_details r))). rd_level d = RED) \<longleftrightarrow> red_details r \<noteq> []"
proof -
  have "\<forall>d \<in> set (red_details r). rd_level d = RED" by (auto simp: red_details_def split: option.splits)
  moreover have "\<forall>d \<in> set (yellow_details r). rd_level d = YELLOW"
    by (auto simp: yellow_details_def split: option.splits)
  moreover have "set (snd (snd (evaluate_signal_with_details r))) = set (red_details r) \<union> set (yellow_details r)"
    by (simp add: evaluate_signal_with_details_def Let_def)
  ultimately show ?thesis by (cases "red_details r") auto
qed

lemma signal_of_items:
  "fst (signal_and_reasons us inputs) =
    (if us = [] then fst (evaluate_signal_with_details inputs)
     else if red_details inputs \<noteq> [] then Level RED else INCONCLUSIVE)"
  using details_RED [of inputs] by (simp add: signal_and_reasons_def case_prod_unfold)

lemma flow_status_range:
  "ct_status (evaluate_cycle_time fm hist xs) \<in> {COMPUTED, PARTIAL, NOT_COMPUTED}"
  "rr_status (evaluate_reopen_event_rate fm hist xs) \<in> {COMPUTED, PARTIAL, NOT_COMPUTED}"
  using cycle_time_sel(2) [of fm hist xs] reopen_sel [of fm hist xs] by (auto split: if_splits)

lemma flow_values_double:
  "pred_option is_double (ct_value (evaluate_cycle_time fm hist xs))"
  "pred_option is_double (rr_value (evaluate_reopen_event_rate fm hist xs))"
  using cycle_time_sel(2) [of fm hist xs] reopen_sel [of fm hist xs] by (auto simp: pct2_def split: if_splits)

lemma results_double: "double_inputs (inputs_of_results (release_results_of db fm rel now))"
proof -
  have "pred_option is_double (cr_scope_churn_7d_pct (compute_release_scope_churn_7d db rid pk rname fm t))"
    for rid pk rname t
    using churn_status_parts(2) [of db rid pk rname fm t] by (auto simp: pct2_def split: if_splits)
  then show ?thesis using flow_values_double
    by (simp add: double_inputs_def inputs_of_results_def snapshot_simps evaluate_release_flow_metrics_def Let_def)
qed

lemma stored_items_unavailable:
  assumes r: "r = release_results_of db fm rel now"
    and a: "build_release_availability db (release_id rel) fm (Some (churn_summary (rl_scope_churn r)))
      (Some (flow_summaries (rl_flow r))) = Inr a"
  shows "unavailable_confidence_items (ma_metrics a) = [] \<longleftrightarrow> \<not> release_confidence_unavailable r"
proof -
  note st = release_item_statuses [OF a]
  have fs: "ct_status (fst (rl_flow r)) \<in> {COMPUTED, PARTIAL, NOT_COMPUTED}"
    "rr_status (snd (rl_flow r)) \<in> {COMPUTED, PARTIAL, NOT_COMPUTED}"
    using flow_status_range by (simp_all add: r snapshot_simps evaluate_release_flow_metrics_def Let_def)
  have cl: "rl_classification r = evaluate_classification_metrics fm (release_issues db (release_id rel))"
    by (simp add: r snapshot_simps)
  have "unavailable_confidence_items (ma_metrics a) = [] \<longleftrightarrow>
      mr_status (result_of (rl_classification r) ''open_blockers'') \<noteq> PARTIAL
      \<and> mr_status (result_of (rl_classification r) ''open_high_severity_bugs'') \<noteq> PARTIAL
      \<and> cr_status (rl_scope_churn r) \<noteq> PARTIAL
      \<and> rr_status (snd (rl_flow r)) \<notin> {PARTIAL, NOT_COMPUTED} \<and> ct_status (fst (rl_flow r)) \<notin> {PARTIAL, NOT_COMPUTED}"
    unfolding unavailable_items_Nil
    by (simp add: CONFIDENCE_INPUTS_def st cl input_unavailable_def churn_summary_def)
  then show ?thesis using fs
    by (auto simp: release_confidence_unavailable_def release_confidence_partial_def flow_statuses_def)
qed

lemma fresh_signal_of_snapshot:
  assumes r: "r = release_results_of db fm rel now" and t: "rl_ticket_count r \<noteq> 0"
    and us: "us = [] \<longleftrightarrow> \<not> release_confidence_unavailable r"
  shows "fst (signal_and_reasons us (inputs_of_results r)) = fresh_signal r"
proof (cases "release_confidence_unavailable r")
  case True
  then show ?thesis using us t by (simp add: signal_of_items fresh_signal_def)
next
  case False
  have "release_issues db (release_id rel) \<noteq> []" using t by (simp add: r snapshot_simps)
  then have "release_confidence_of r \<noteq> None" using release_confidence_iff [OF r] False by simp
  then have "scope_churn_7d_pct (inputs_of_results r) \<noteq> None" "reopen_rate_pct (inputs_of_results r) \<noteq> None"
    by (auto simp: release_confidence_of_def Let_def split: if_splits)
  moreover have "median_cycle_time_days (inputs_of_results r) \<noteq> None"
    using flow_values(2) False
    by (simp add: r inputs_of_results_def snapshot_simps release_confidence_unavailable_def flow_statuses_def)
  ultimately have k: "inputs_known (inputs_of_results r)" by (simp add: inputs_known_def)
  have "double_inputs (inputs_of_results r)" unfolding r by (rule results_double)
  from signal_of_known [OF k] band_le_hard_rules [OF this]
  have "fst (evaluate_signal_with_details (inputs_of_results r)) = Level (hard_rule_signal (inputs_of_results r))"
    by (simp add: max_absorb1)
  then show ?thesis using us t False by (simp add: signal_of_items fresh_signal_def hard_rule_signal_def)
qed

lemma fresh_signal_conclusive:
  assumes "r = release_results_of db fm rel now" and "release_confidence_of r \<noteq> None"
  shows "fresh_signal r = Level (hard_rule_signal (inputs_of_results r))"
  using assms(2) release_confidence_iff [OF assms(1)]
  by (simp add: fresh_signal_def hard_rule_signal_def assms(1) snapshot_simps)

lemma fresh_signal_stored:
  fixes t1 t2 :: utc
  assumes wf: "wf_derived (derived db)" and rel: "find_release (evidence db) rid = Some rel"
    and clock: "\<And>q. q \<in> set (snapshots_of (derived db) rid) \<Longrightarrow> sn_snapshot_at q \<le> t1"
  shows "\<exists>s db1 g db2. recompute_release_metrics t1 fm rid db = Inr (s, db1)
    \<and> recompute_release_signal t2 fm rid db1 = Inr (g, db2)
    \<and> signal_key g = (rid, Some (sn_id s), ruleset_version_const)
    \<and> sn_release_id s = rid \<and> sn_snapshot_at s = t1 \<and> sn_id s \<notin> sn_id ` set (metric_snapshots (derived db))
    \<and> sg_signal g = fresh_signal (release_results_of (evidence db) fm rel t1)
    \<and> sg_confidence_score g = sn_confidence_score s
    \<and> sn_confidence_score s = release_confidence_of (release_results_of (evidence db) fm rel t1)
    \<and> derived db2 = (derived db)\<lparr>metric_snapshots := metric_snapshots (derived db) @ [s],
         release_signals := release_signals (derived db) @ [g]\<rparr>
    \<and> wf_derived (derived db2) \<and> evidence db2 = evidence db"
proof -
  define r where "r = release_results_of (evidence db) fm rel t1"
  define s where "s = release_snapshot_of r rid (next_row_id sn_id (metric_snapshots (derived db))) t1"
  obtain p out a where parts: "recompute_release_metrics t1 fm rid db = Inr (s\<lparr>sn_calculation_provenance := Some p\<rparr>,
      mark_metrics_recomputed t1 (db\<lparr>derived := add_snapshot (s\<lparr>sn_calculation_provenance := Some p\<rparr>) (derived db)\<rparr>))"
    "release_id rel = rid" "release_outputs_of r s = Inr out" "rv_component_outputs p = out"
    "build_release_availability (evidence db) rid fm (Some (churn_summary (rl_scope_churn r)))
        (Some (flow_summaries (rl_flow r))) = Inr a" "rv_availability p = a"
    using recompute_release_parts [OF rel, of t1 fm] unfolding r_def s_def by blast
  define s1 where "s1 = s\<lparr>sn_calculation_provenance := Some p\<rparr>"
  define db1 where "db1 = mark_metrics_recomputed t1 (db\<lparr>derived := add_snapshot s1 (derived db)\<rparr>)"
  have sel: "sn_release_id s1 = rid" "sn_id s1 = next_row_id sn_id (metric_snapshots (derived db))"
    "sn_snapshot_at s1 = t1" "sn_confidence_score s1 = release_confidence_of r"
    "snapshot_inputs s1 = inputs_of_results r" "stored_metrics s1 = ma_metrics a"
    by (simp_all add: s1_def s_def snapshot_simps stored_metrics_def parts(6) snapshot_inputs_def)
      (simp_all add: release_snapshot_of_def Let_def)
  have d1: "derived db1 = add_snapshot s1 (derived db)" "evidence db1 = evidence db"
    by (simp_all add: db1_def)
  have latest: "get_latest_snapshot (derived db1) rid = Some s1"
    using added_snapshot_latest [of s1 "derived db"] clock by (simp add: d1 sel)
  have fresh: "sn_id s1 \<notin> sn_id ` set (metric_snapshots (derived db))"
    using next_row_id_fresh [of _ "metric_snapshots (derived db)" sn_id] by (fastforce simp: sel)
  have wf1: "wf_derived (derived db1)"
    using wf_add_snapshot [OF wf fresh] by (simp add: d1 add_snapshot_def)
  define row where "row = (if rl_ticket_count r = 0 then not_computed_signal rid (Some s1) t2
      else computed_signal (evidence db) fm rid s1 t2)"
  have tickets: "rl_ticket_count r = length (release_issues (evidence db) rid)"
    by (simp add: r_def snapshot_simps parts(2))
  have run: "recompute_release_signal t2 fm rid db1 = Inr (store_signal t2 row db1)"
    by (simp add: recompute_release_signal_def Let_def latest d1(2) rel row_def tickets [symmetric])
  have key: "signal_key row = (rid, Some (sn_id s1), ruleset_version_const)"
    by (simp add: row_def signal_row_simps)
  have new: "signal_key row \<notin> signal_key ` set (release_signals (derived db1))"
  proof
    assume "signal_key row \<in> signal_key ` set (release_signals (derived db1))"
    then obtain g where "g \<in> set (release_signals (derived db))"
      "signal_key g = (rid, Some (sn_id s1), ruleset_version_const)"
      by (auto simp: d1 add_snapshot_def key)
    then have "g \<in> set (release_signals (derived db))" "sg_metric_snapshot_id g = Some (sn_id s1)"
      by (simp_all add: signal_key_def)
    then show False using wf fresh by (auto simp: wf_derived_def)
  qed
  have us: "unavailable_confidence_items (stored_metrics s1) = [] \<longleftrightarrow> \<not> release_confidence_unavailable r"
    using stored_items_unavailable [OF r_def] parts(5) by (simp add: sel parts(2))
  have sig: "sg_signal row = fresh_signal r"
    using fresh_signal_of_snapshot [OF r_def _ us]
    by (cases "rl_ticket_count r = 0") (simp_all add: row_def signal_row_simps sel fresh_signal_def)
  have conf: "sg_confidence_score row = sn_confidence_score s1"
    by (simp add: row_def signal_row_simps sel release_confidence_of_def Let_def)
  obtain g db2 where g: "store_signal t2 row db1 = (g, db2)" by fastforce
  have g2: "g = fst (create_signal row (derived db1))" "derived db2 = snd (create_signal row (derived db1))"
    "evidence db2 = evidence db1"
    using store_signal_frame [of t2 row db1] by (simp_all add: g)
  have fields: "signal_key g = signal_key row" "sg_signal g = sg_signal row"
    "sg_confidence_score g = sg_confidence_score row"
    "derived db2 = (derived db1)\<lparr>release_signals := release_signals (derived db1) @ [g]\<rparr>"
    by (simp_all add: g2 create_signal_new [OF new] Let_def signal_key_def)
  have wf2: "wf_derived (derived db2)"
    using recompute_signal_wf [OF run [unfolded g] wf1] by simp
  have run1: "recompute_release_metrics t1 fm rid db = Inr (s1, db1)"
    using parts(1) by (simp only: s1_def db1_def)
  have d2: "derived db2 = (derived db)\<lparr>metric_snapshots := metric_snapshots (derived db) @ [s1],
      release_signals := release_signals (derived db) @ [g]\<rparr>"
    using fields(4) by (simp add: d1(1) add_snapshot_def)
  have run2: "recompute_release_signal t2 fm rid db1 = Inr (g, db2)" using run g by simp
  show ?thesis
    using run1 run2 fields(1-3) key sig conf d2 wf2 sel(1,3,4) fresh g2(3) d1(2) unfolding r_def [symmetric] by metis
qed

text \<open>C4: Recomputing the metrics and then the signal of a stored release, with a clock that did not run
  backwards, succeeds and adds exactly one snapshot and one signal that refers to it. The signal is
  \<open>fresh_signal\<close> of the metrics: not computed without tickets, red when a red rule fires on the known
  metrics, inconclusive when a needed metric is partial or the flow metrics are not computed, and the
  hard-rule signal otherwise; it carries the snapshot's score, and only a green, yellow or red signal
  carries one.\<close>

theorem fresh_release_signal:
  assumes "wf_derived (derived db)" and "find_release (evidence db) rid = Some rel"
    and "\<And>q. q \<in> set (snapshots_of (derived db) rid) \<Longrightarrow> sn_snapshot_at q \<le> t1"
  shows "\<exists>s db1 g db2. recompute_release_metrics t1 fm rid db = Inr (s, db1)
    \<and> recompute_release_signal t2 fm rid db1 = Inr (g, db2)
    \<and> signal_key g = (rid, Some (sn_id s), ruleset_version_const)
    \<and> derived db2 = (derived db)\<lparr>metric_snapshots := metric_snapshots (derived db) @ [s],
         release_signals := release_signals (derived db) @ [g]\<rparr>
    \<and> evidence db2 = evidence db
    \<and> sg_signal g = fresh_signal (release_results_of (evidence db) fm rel t1)
    \<and> sg_confidence_score g = sn_confidence_score s
    \<and> (sg_confidence_score g \<noteq> None \<longrightarrow> sg_signal g \<in> range Level)"
  using fresh_signal_stored [OF assms, of fm t2]
    fresh_signal_conclusive [of "release_results_of (evidence db) fm rel t1" "evidence db" fm rel t1]
  by fastforce

text \<open>A database with one release and one open issue, and nothing derived yet.\<close>

definition sample_release :: release where
  "sample_release = \<lparr>release_id = ''R'', release_name = ''1.0'', release_project_key = ''P'',
     release_description = None, release_status = None, release_start_date = None, release_release_date = None\<rparr>"

definition no_derived :: derived_tables where
  "no_derived = \<lparr>metric_snapshots = [], sprint_snapshots = [], release_signals = []\<rparr>"

definition release_db :: lighthouse_db where
  "release_db = \<lparr>evidence = raised_store\<lparr>releases := [sample_release]\<rparr>, sync_states = [],
     op_status = \<lparr>os_last_sync_succeeded_at = None, os_last_sync_failed_at = None,
       os_last_sync_failure_summary = None, os_last_metrics_recompute_at = None,
       os_last_signal_recompute_at = None\<rparr>, derived = no_derived\<rparr>"

lemma release_db_facts: "wf_derived (derived release_db)"
  "find_release (evidence release_db) ''R'' = Some sample_release" "snapshots_of (derived release_db) ''R'' = []"
  by (simp_all add: release_db_def no_derived_def wf_derived_def snapshots_of_def find_release_def sample_release_def)

lemma fresh_release_signal_witness:
  "\<exists>s db1 g db2. recompute_release_metrics day_us default_mapping ''R'' release_db = Inr (s, db1)
    \<and> recompute_release_signal day_us default_mapping ''R'' db1 = Inr (g, db2)
    \<and> sg_signal g = fresh_signal (release_results_of (evidence release_db) default_mapping sample_release day_us)"
proof -
  have "sn_snapshot_at q \<le> day_us" if "q \<in> set (snapshots_of (derived release_db) ''R'')" for q
    using that by (simp add: release_db_facts)
  from fresh_release_signal [OF release_db_facts(1,2) this, of default_mapping day_us] show ?thesis by blast
qed

end
