(* ===== verification/Pipeline.thy ===== *)
theory Pipeline
  imports SignalRecompute
begin

text \<open>
  The composition: a synchronisation (services/sync_service.py) whose recomputations are the ones of the
  analytics and signal services, and the manual recomputations of services/metric_recompute_service.py.
  A clock reading of the recomputation is any function of the database it starts from.
\<close>

subsection \<open>The recomputations of a sync\<close>

definition lighthouse_recompute :: "(lighthouse_db \<Rightarrow> utc) \<Rightarrow> field_mapping \<Rightarrow> derived_tables recompute" where
  "lighthouse_recompute clock fm = \<lparr>
     rc_release_metrics = (\<lambda>rid db. map_sum id snd (recompute_release_metrics (clock db) fm rid db)),
     rc_release_signal = (\<lambda>rid db. map_sum id snd (recompute_release_signal (clock db) fm rid db)),
     rc_sprint_metrics = (\<lambda>sid db. map_sum id snd (recompute_sprint_metrics (clock db) fm sid db))\<rparr>"

text \<open>The clock never shows a time before a stored snapshot.\<close>

definition steady_clock :: "(lighthouse_db \<Rightarrow> utc) \<Rightarrow> bool" where
  "steady_clock clock \<longleftrightarrow> (\<forall>db. \<forall>q \<in> set (metric_snapshots (derived db)). sn_snapshot_at q \<le> clock db)"

text \<open>A release of which the database holds a snapshot that \<open>old\<close> does not have, with the signal of the
  evidence for it.\<close>

definition signalled :: "field_mapping \<Rightarrow> derived_tables \<Rightarrow> lighthouse_db \<Rightarrow> string \<Rightarrow> bool" where
  "signalled fm old db rid \<longleftrightarrow>
    (\<exists>rel. find_release (evidence db) rid = Some rel
       \<and> (\<exists>s \<in> set (metric_snapshots (derived db)). \<exists>g \<in> set (release_signals (derived db)).
            sn_id s \<notin> sn_id ` set (metric_snapshots old)
            \<and> sn_release_id s = rid \<and> signal_key g = (rid, Some (sn_id s), ruleset_version_const)
            \<and> sg_confidence_score g = sn_confidence_score s
            \<and> sg_signal g = fresh_signal (release_results_of (evidence db) fm rel (sn_snapshot_at s))))"

text \<open>What a sequence of recomputations keeps: evidence, the old rows, and well-formed tables.\<close>

definition extends :: "lighthouse_db \<Rightarrow> lighthouse_db \<Rightarrow> bool" where
  "extends old new \<longleftrightarrow> evidence new = evidence old \<and> wf_derived (derived new)
     \<and> set (metric_snapshots (derived old)) \<subseteq> set (metric_snapshots (derived new))
     \<and> set (release_signals (derived old)) \<subseteq> set (release_signals (derived new))"

lemma extends_trans: "extends a b \<Longrightarrow> extends b c \<Longrightarrow> extends a c"
  by (auto simp: extends_def)

lemma signalled_extends: "signalled fm old a rid \<Longrightarrow> extends a b \<Longrightarrow> signalled fm old b rid"
proof -
  assume s: "signalled fm old a rid" and e: "extends a b"
  from s obtain rel q g where "find_release (evidence a) rid = Some rel" "q \<in> set (metric_snapshots (derived a))"
    "g \<in> set (release_signals (derived a))" "sn_id q \<notin> sn_id ` set (metric_snapshots old)"
    "sn_release_id q = rid" "signal_key g = (rid, Some (sn_id q), ruleset_version_const)"
    "sg_confidence_score g = sn_confidence_score q"
    "sg_signal g = fresh_signal (release_results_of (evidence a) fm rel (sn_snapshot_at q))"
    by (auto simp: signalled_def)
  moreover have "evidence b = evidence a" "q \<in> set (metric_snapshots (derived a)) \<Longrightarrow> q \<in> set (metric_snapshots (derived b))"
    "g \<in> set (release_signals (derived a)) \<Longrightarrow> g \<in> set (release_signals (derived b))"
    using e by (auto simp: extends_def)
  ultimately show "signalled fm old b rid" unfolding signalled_def by (metis (no_types))
qed

lemma release_step:
  assumes "steady_clock clock" and "wf_derived (derived db)"
    and "find_release (evidence db) rid = Some rel"
    and "sn_id ` set (metric_snapshots old) \<subseteq> sn_id ` set (metric_snapshots (derived db))"
  shows "\<exists>db'. and_then (rc_release_metrics (lighthouse_recompute clock fm) rid db)
      (rc_release_signal (lighthouse_recompute clock fm) rid) = Inr db' \<and> extends db db' \<and> signalled fm old db' rid"
proof -
  obtain s db1 where m: "recompute_release_metrics (clock db) fm rid db = Inr (s, db1)"
    using fresh_signal_stored [OF assms(2,3)] assms(1) by (fastforce simp: steady_clock_def snapshots_of_def)
  have c: "\<And>q. q \<in> set (snapshots_of (derived db) rid) \<Longrightarrow> sn_snapshot_at q \<le> clock db"
    using assms(1) by (auto simp: steady_clock_def snapshots_of_def)
  obtain g db2 where g: "recompute_release_signal (clock db1) fm rid db1 = Inr (g, db2)"
    "signal_key g = (rid, Some (sn_id s), ruleset_version_const)" "sn_release_id s = rid" "sn_snapshot_at s = clock db"
    "sn_id s \<notin> sn_id ` set (metric_snapshots (derived db))"
    "sg_signal g = fresh_signal (release_results_of (evidence db) fm rel (clock db))"
    "sg_confidence_score g = sn_confidence_score s"
    "derived db2 = (derived db)\<lparr>metric_snapshots := metric_snapshots (derived db) @ [s],
       release_signals := release_signals (derived db) @ [g]\<rparr>"
    "wf_derived (derived db2)" "evidence db2 = evidence db"
    using fresh_signal_stored [OF assms(2,3) c, of fm "clock db1"] m by auto
  have "and_then (rc_release_metrics (lighthouse_recompute clock fm) rid db)
      (rc_release_signal (lighthouse_recompute clock fm) rid) = Inr db2"
    by (simp add: lighthouse_recompute_def m g(1))
  moreover have "extends db db2" using g(8-10) by (auto simp: extends_def)
  moreover have "signalled fm old db2 rid"
    unfolding signalled_def g(8,10)
    by (rule exI [of _ rel], rule conjI [OF assms(3)], rule bexI [of _ s], rule bexI [of _ g])
      (use g assms(4) in auto)
  ultimately show ?thesis by blast
qed

lemma release_steps:
  assumes "steady_clock clock" and "wf_derived (derived db)"
    and "\<And>rid. rid \<in> set rids \<Longrightarrow> find_release (evidence db) rid \<noteq> None"
    and "sn_id ` set (metric_snapshots old) \<subseteq> sn_id ` set (metric_snapshots (derived db))"
  shows "\<exists>db'. fold_ok (\<lambda>rid db. and_then (rc_release_metrics (lighthouse_recompute clock fm) rid db)
      (rc_release_signal (lighthouse_recompute clock fm) rid)) rids db = Inr db'
    \<and> extends db db' \<and> (\<forall>rid \<in> set rids. signalled fm old db' rid)"
  using assms(2-4)
proof (induction rids arbitrary: db)
  case Nil
  then show ?case by (simp add: extends_def)
next
  case (Cons rid rids)
  obtain rel where "find_release (evidence db) rid = Some rel" using Cons.prems(2) by fastforce
  from release_step [OF assms(1) Cons.prems(1) this Cons.prems(3), of fm] obtain db1 where
    s: "and_then (rc_release_metrics (lighthouse_recompute clock fm) rid db)
      (rc_release_signal (lighthouse_recompute clock fm) rid) = Inr db1" "extends db db1" "signalled fm old db1 rid"
    by blast
  have sub: "set (metric_snapshots (derived db)) \<subseteq> set (metric_snapshots (derived db1))"
    using s(2) by (simp add: extends_def)
  have e: "wf_derived (derived db1)" "evidence db1 = evidence db" using s(2) by (simp_all add: extends_def)
  have e3: "sn_id ` set (metric_snapshots old) \<subseteq> sn_id ` set (metric_snapshots (derived db1))"
    by (rule order_trans [OF Cons.prems(3) image_mono [OF sub]])
  obtain db2 where "fold_ok (\<lambda>rid db. and_then (rc_release_metrics (lighthouse_recompute clock fm) rid db)
      (rc_release_signal (lighthouse_recompute clock fm) rid)) rids db1 = Inr db2"
    "extends db1 db2" "\<forall>rid \<in> set rids. signalled fm old db2 rid"
    using Cons.IH [OF e(1) _ e3] Cons.prems(2) e(2) by fastforce
  then show ?case using s extends_trans signalled_extends by (fastforce simp: s(1))
qed

lemma sprint_steps:
  assumes "wf_derived (derived db)" and "\<And>sid. sid \<in> set sids \<Longrightarrow> find_sprint (evidence db) sid \<noteq> None"
  shows "\<exists>db'. fold_ok (rc_sprint_metrics (lighthouse_recompute clock fm)) sids db = Inr db' \<and> extends db db'"
  using assms
proof (induction sids arbitrary: db)
  case Nil
  then show ?case by (simp add: extends_def)
next
  case (Cons sid sids)
  obtain sp where "find_sprint (evidence db) sid = Some sp" using Cons.prems(2) by fastforce
  then obtain s db1 where s: "recompute_sprint_metrics (clock db) fm sid db = Inr (s, db1)"
    "evidence db1 = evidence db"
    "derived db1 = (derived db)\<lparr>sprint_snapshots := sprint_snapshots (derived db) @ [s]\<rparr>"
    using sprint_snapshot_facts [where db = db and sid = sid and now = "clock db" and fm = fm] by auto
  have e: "extends db db1" using Cons.prems(1) s by (auto simp: extends_def wf_derived_def)
  then have "wf_derived (derived db1)" by (simp add: extends_def)
  then obtain db2 where "fold_ok (rc_sprint_metrics (lighthouse_recompute clock fm)) sids db1 = Inr db2" "extends db1 db2"
    using Cons.IH [of db1] Cons.prems(2) s(2) by auto
  then show ?case using extends_trans [OF e] by (auto simp: lighthouse_recompute_def s(1))
qed

subsection \<open>What the ingestion hands to the recomputations\<close>

text \<open>The releases of \<open>release_ids_by_name\<close> and the sprints seen in the run are stored.\<close>

definition refs_stored :: "(string \<times> string) list \<Rightarrow> 'm run \<Rightarrow> bool" where
  "refs_stored ids run \<longleftrightarrow> snd ` set ids \<subseteq> release_id ` set (releases (evidence (ru_db run)))
     \<and> set (ru_sprints run) \<subseteq> sprint_id ` set (sprints (evidence (ru_db run)))"

lemma set_keys: "map f xs = ys \<Longrightarrow> f ` set xs = set ys"
  by (metis set_map)

lemma release_keys: "release_id ` set (releases (fst (upsert_release p v db)))
    = insert (ve_id v) (release_id ` set (releases db))"
  using upsert_release_releases [THEN set_keys, of p v db] by (auto split: if_splits)

lemma sprint_keys: "sprint_id ` set (sprints (fst (upsert_sprint p k r db)))
    = insert (sr_id r) (sprint_id ` set (sprints db))"
  using upsert_sprint_sprints [THEN set_keys, of p k r db] by (auto split: if_splits)

lemma put_values: "snd ` set (put k v m) \<subseteq> insert v (snd ` set m)"
proof -
  have "x \<in> set (put k v m) \<Longrightarrow> snd x = v \<or> x \<in> set m" for x
    unfolding put_def by (induction m) (auto split: if_splits)
  then show ?thesis by fastforce
qed

lemma store_sprint_refs: "refs_stored ids run \<Longrightarrow> refs_stored ids (store_sprint env ref run)"
proof -
  assume a: "refs_stored ids run"
  have "ru_sprints (store_sprint env ref run) = ru_sprints run @ [sr_id ref]"
    by (simp add: store_sprint_def count_def on_evidence_def split: prod.splits)
  then show ?thesis using a by (auto simp: refs_stored_def sprint_keys)
qed

lemma store_sprints_refs: "refs_stored ids run \<Longrightarrow> refs_stored ids (fold (store_sprint env) refs run)"
  by (induction refs arbitrary: run) (simp_all add: store_sprint_refs)

lemma store_issue_refs: "refs_stored ids run \<Longrightarrow> refs_stored ids (store_issue env links d run)"
proof -
  assume a: "refs_stored ids run"
  let ?run = "fold (store_sprint env) (jd_sprints d) run"
  have s: "ru_sprints (store_issue env links d run) = ru_sprints ?run"
    by (simp add: store_issue_def Let_def count_def on_evidence_def accept_def split: prod.splits option.splits)
  have "releases (evidence (ru_db (store_issue env links d run))) = releases (evidence (ru_db ?run))"
    "sprints (evidence (ru_db (store_issue env links d run))) = sprints (evidence (ru_db ?run))"
    by (simp_all add: issue_written_def linked_sprints_def replace_issue_sprints_def)
  then show ?thesis using store_sprints_refs [OF a, of env "jd_sprints d"] by (simp add: refs_stored_def s)
qed

lemma store_changelog_refs:
  assumes "store_changelog env d entries run = Inr run'" and "refs_stored ids run"
  shows "refs_stored ids run'"
proof -
  let ?es = "map (sanitize_history_entry (en_secrets env)) (filter_relevant_history (en_mapping env) entries)"
  obtain db inserted skipped where i: "insert_issue_history_entries ?es (evidence (ru_db run)) = (db, inserted, skipped)"
    using prod_cases3 by blast
  obtain db' where m: "mark_issue_changelog_complete (jd_key d) db = Some db'"
    using assms(1) by (auto simp: store_changelog_def Let_def i split: option.splits)
  have "releases db = releases (evidence (ru_db run))" "sprints db = sprints (evidence (ru_db run))"
    using insert_history_frame(3,4) [of ?es "evidence (ru_db run)"] by (simp_all add: i)
  moreover have "releases db' = releases db" "sprints db' = sprints db"
    using m by (auto simp: mark_issue_changelog_complete_def split: option.splits)
  moreover have "ru_sprints run' = ru_sprints run" "evidence (ru_db run') = db'"
    using assms(1) by (auto simp: store_changelog_def Let_def i m count_def on_evidence_def)
  ultimately show ?thesis using assms(2) by (simp add: refs_stored_def)
qed

lemma sync_issue_refs:
  assumes "sync_issue env jira mode cursor links s run = Inr run'" and "refs_stored ids run"
  shows "refs_stored ids run'"
proof -
  have count: "refs_stored ids (count f r) = refs_stored ids r" "refs_stored ids (accept v r) = refs_stored ids r" for f v and r :: "'m run"
    by (simp_all add: refs_stored_def count_def accept_def split: option.splits)
  note changelog = store_changelog_refs [OF _ store_issue_refs [OF assms(2)]]
  show ?thesis
    using assms
    by (auto simp: sync_issue_def Let_def and_then_Inr_iff count split: if_splits sum.splits dest: changelog)
qed

lemma store_versions_refs:
  assumes "fold (store_version env) vs (run, ids) = (run', ids')" and "refs_stored ids run"
  shows "refs_stored ids' run'"
  using assms
proof (induction vs arbitrary: run ids)
  case (Cons v vs)
  obtain run1 ids1 where r: "store_version env v (run, ids) = (run1, ids1)" by fastforce
  have "ids1 = put (ve_name v) (ve_id v) ids" "ru_sprints run1 = ru_sprints run"
    "evidence (ru_db run1) = fst (upsert_release (en_parse_iso env) v (evidence (ru_db run)))"
    using r by (auto simp: store_version_def count_def on_evidence_def split: prod.splits)
  then have "refs_stored ids1 run1"
    using Cons.prems(2) put_values [of "ve_name v" "ve_id v" ids] by (auto simp: refs_stored_def release_keys)
  then show ?case using Cons.IH Cons.prems(1) r by simp
qed simp

text \<open>Later versions with the same name take the place of earlier ones.\<close>

lemma store_versions_ids:
  assumes "fold (store_version env) vs (run, ids) = (run', ids')"
  shows "map_of ids' = map_of (rev (map (\<lambda>v. (ve_name v, ve_id v)) vs) @ ids)"
  using assms
proof (induction vs arbitrary: run ids)
  case (Cons v vs)
  obtain run1 ids1 where r: "store_version env v (run, ids) = (run1, ids1)" by fastforce
  have "ids1 = put (ve_name v) (ve_id v) ids" using r by (auto simp: store_version_def split: prod.splits)
  then show ?case using Cons.IH [of run1 ids1] Cons.prems r by (simp add: map_add_def fun_eq_iff split: option.splits)
qed simp

lemma ingest_refs:
  assumes "ingest env jira mode db = Inr (run, ids, cursor)"
  obtains raw where "an_versions jira = Inr raw" and "refs_stored ids run"
    and "map_of ids = map_of (rev (map (\<lambda>v. (sanitized (en_secrets env) (ve_name v), ve_id v)) raw))"
proof -
  obtain raw summaries where a: "an_versions jira = Inr raw" "an_issues jira = Inr summaries"
    using assms by (auto simp: ingest_def and_then_Inr_iff lift_client_def Let_def split: sum.splits prod.splits)
  let ?run0 = "\<lparr>ru_db = db, ru_result = (initial_result (en_project_key env))\<lparr>sy_releases_fetched := length raw\<rparr>,
                   ru_accepted = [], ru_sprints = []\<rparr>"
  let ?vs = "map (sanitize_version (en_secrets env)) raw"
  obtain run1 ids1 where r1: "fold (store_version env) ?vs (?run0, []) = (run1, ids1)" by fastforce
  have f: "ids1 = ids" "fold_ok (sync_issue env jira (effective_mode mode cursor) cursor ids) summaries
      (count (record_mode mode cursor) (count (\<lambda>r. r\<lparr>sy_issues_fetched := length summaries\<rparr>) run1)) = Inr run"
    using assms by (auto simp: ingest_def and_then_Inr_iff lift_client_def Let_def a r1 split: sum.splits)
  have "refs_stored ids run1"
    using store_versions_refs [OF r1] f(1) by (simp add: refs_stored_def)
  then have "refs_stored ids (count (record_mode mode cursor) (count (\<lambda>r. r\<lparr>sy_issues_fetched := length summaries\<rparr>) run1))"
    by (simp add: refs_stored_def count_def)
  then have "refs_stored ids run"
    by (rule fold_ok_inv [where I = "refs_stored ids", OF f(2)]) (rule sync_issue_refs)
  moreover have "map_of ids = map_of (rev (map (\<lambda>v. (sanitized (en_secrets env) (ve_name v), ve_id v)) raw))"
    using store_versions_ids [OF r1] by (simp add: f(1) sanitize_version_def comp_def)
  ultimately show ?thesis using that a(1) by blast
qed

lemma two_versions_one_name:
  assumes "ve_name v = ve_name w"
  shows "map snd (snd (fold (store_version env) [v, w] (run, []))) = [ve_id w]"
  using assms by (simp add: store_version_def put_def split: prod.splits)

subsection \<open>From Jira to the signals\<close>

lemma stored_found: "rid \<in> release_id ` set (releases db) \<Longrightarrow> find_release db rid \<noteq> None"
  "sid \<in> sprint_id ` set (sprints db) \<Longrightarrow> find_sprint db sid \<noteq> None"
  by (auto simp: find_release_def find_sprint_def find_None_iff)

lemma recompute_all_stored:
  assumes "steady_clock clock" and "wf_derived (derived db)"
    and "set rids \<subseteq> release_id ` set (releases (evidence db))" and "set sids \<subseteq> sprint_id ` set (sprints (evidence db))"
  shows "\<exists>db'. recompute_all (lighthouse_recompute clock fm) rids sids db = Inr db' \<and> extends db db'
    \<and> (\<forall>rid \<in> set rids. signalled fm (derived db) db' rid)"
proof -
  have "find_release (evidence db) rid \<noteq> None" if "rid \<in> set rids" for rid
    using that assms(3) by (intro stored_found(1)) auto
  from release_steps [OF assms(1,2) this order_refl, where fm = fm and rids = rids] obtain db1 where
    r: "fold_ok (\<lambda>rid db. and_then (rc_release_metrics (lighthouse_recompute clock fm) rid db)
      (rc_release_signal (lighthouse_recompute clock fm) rid)) rids db = Inr db1"
      "extends db db1" "\<forall>rid \<in> set rids. signalled fm (derived db) db1 rid"
    by blast
  have e: "wf_derived (derived db1)" "evidence db1 = evidence db" using r(2) by (simp_all add: extends_def)
  have "find_sprint (evidence db1) sid \<noteq> None" if "sid \<in> set sids" for sid
    using that assms(4) e(2) by (intro stored_found(2)) auto
  from sprint_steps [OF e(1) this, where clock = clock and fm = fm and sids = sids] obtain db2 where
    "fold_ok (rc_sprint_metrics (lighthouse_recompute clock fm)) sids db1 = Inr db2" "extends db1 db2"
    by blast
  with r show ?thesis by (auto simp: recompute_all_def intro: extends_trans signalled_extends)
qed

lemma pipeline_facts:
  assumes "steady_clock clock" and "wf_derived (derived db)" and "validate_sync_settings env = Inr ()"
    and "ingest env jira mode (mark_project_sync_running (en_project_key env) db) = Inr (run, ids, cursor)"
    and "an_versions jira = Inr vs"
  shows "\<exists>result db'. sync_from_jira now env jira (lighthouse_recompute clock fm) False mode db = (Inr result, db')
      \<and> extends ((ru_db run)\<lparr>derived := derived db\<rparr>) db'
      \<and> (\<forall>name rid. map_of (rev (map (\<lambda>v. (sanitized (en_secrets env) (ve_name v), ve_id v)) vs)) name = Some rid
            \<longrightarrow> signalled fm (derived db) db' rid)"
proof -
  let ?key = "en_project_key env"
  let ?sids = "sorted_keys (ru_sprints run @ list_project_sprint_ids (evidence (ru_db run)) ?key)"
  from ingest_refs [OF assms(4)] assms(5) have
    refs: "refs_stored ids run" and ids: "map_of ids = map_of (rev (map (\<lambda>v. (sanitized (en_secrets env) (ve_name v), ve_id v)) vs))"
    by (metis sum.inject(2), metis sum.inject(2))
  have d: "derived (ru_db run) = derived db"
    using ingest_invariants(1) [OF assms(4)] by (simp add: same_frame_def mark_project_sync_running_def)
  have "set ?sids \<subseteq> sprint_id ` set (sprints (evidence (ru_db run)))"
    using refs by (auto simp: refs_stored_def list_project_sprint_ids_def)
  moreover have "set (map snd ids) \<subseteq> release_id ` set (releases (evidence (ru_db run)))"
    using refs by (simp add: refs_stored_def)
  moreover have "wf_derived (derived (ru_db run))" using assms(2) d by simp
  ultimately obtain db1 where r: "recompute_all (lighthouse_recompute clock fm) (map snd ids) ?sids (ru_db run) = Inr db1"
    "extends (ru_db run) db1" "\<forall>rid \<in> set (map snd ids). signalled fm (derived db) db1 rid"
    using recompute_all_stored [OF assms(1), where fm = fm and rids = "map snd ids" and sids = ?sids and db = "ru_db run"]
    unfolding d by blast
  have marks: "extends a (mark_project_sync_succeeded now k c result (mark_sync_succeeded now b)) = extends a b"
    "signalled fm old (mark_project_sync_succeeded now k c result (mark_sync_succeeded now b)) rid = signalled fm old b rid"
    for a b k c result old rid
    by (simp_all add: extends_def signalled_def mark_project_sync_succeeded_def mark_sync_succeeded_def)
  have "signalled fm (derived db) db1 rid" if "map_of ids name = Some rid" for name rid
    using r(3) map_of_SomeD [OF that] by force
  moreover have "extends ((ru_db run)\<lparr>derived := derived db\<rparr>) db1" using r(2) by (simp add: extends_def d)
  moreover obtain result c where "sync_from_jira now env jira (lighthouse_recompute clock fm) False mode db
      = (Inr result, mark_project_sync_succeeded now ?key c result (mark_sync_succeeded now db1))"
    by (simp add: sync_from_jira_def assms(3) Let_def sync_run_def assms(4) finish_run_def r(1))
  ultimately show ?thesis unfolding ids
    by (intro exI [of _ result] exI [of _ "mark_project_sync_succeeded now ?key c result (mark_sync_succeeded now db1)"])
      (simp add: marks)
qed

text \<open>C1: from Jira to the signals. Once the ingestion of a sync has read Jira, the sync succeeds (the
  recomputations cannot fail on what was ingested), keeps every older snapshot and signal, and stores for
  the release of each version name a new snapshot with the signal of the ingested evidence.\<close>

theorem synced_releases_are_signalled:
  assumes "steady_clock clock" and "wf_derived (derived db)" and "validate_sync_settings env = Inr ()"
    and "ingest env jira mode (mark_project_sync_running (en_project_key env) db) = Inr (run, ids, cursor)"
    and "an_versions jira = Inr vs"
  shows "\<exists>result db'. sync_from_jira now env jira (lighthouse_recompute clock fm) False mode db = (Inr result, db')
      \<and> extends ((ru_db run)\<lparr>derived := derived db\<rparr>) db'
      \<and> (\<forall>name rid. map_of (rev (map (\<lambda>v. (sanitized (en_secrets env) (ve_name v), ve_id v)) vs)) name = Some rid
            \<longrightarrow> signalled fm (derived db) db' rid)"
  using assms by (rule pipeline_facts)

definition newest_clock :: "lighthouse_db \<Rightarrow> utc" where
  "newest_clock db = Max (insert 0 (sn_snapshot_at ` set (metric_snapshots (derived db))))"

lemma newest_clock_steady: "steady_clock newest_clock"
  by (auto simp: steady_clock_def newest_clock_def)

definition sample_version :: jira_version where
  "sample_version = \<lparr>ve_id = ''R'', ve_name = ''1.0'', ve_project_key = ''LH'', ve_released = False,
     ve_release_date = None, ve_start_date = None, ve_description = None\<rparr>"

definition version_jira :: jira_answers where
  "version_jira = (sample_jira [])\<lparr>an_versions := Inr [sample_version]\<rparr>"

lemma synced_releases_are_signalled_witness:
  "\<exists>result db'. sync_from_jira 100 sample_env version_jira (lighthouse_recompute newest_clock default_mapping) False
      Incremental release_db = (Inr result, db') \<and> signalled default_mapping no_derived db' ''R''"
proof -
  have v: "validate_sync_settings sample_env = Inr ()" by (simp add: validate_sync_settings_def sample_env_def)
  have j: "an_versions version_jira = Inr [sample_version]" by (simp add: version_jira_def)
  obtain run ids cursor where "ingest sample_env version_jira Incremental
      (mark_project_sync_running (en_project_key sample_env) release_db) = Inr (run, ids, cursor)"
    by (simp add: ingest_def version_jira_def sample_jira_def lift_client_def Let_def split_beta)
  from synced_releases_are_signalled [OF newest_clock_steady release_db_facts(1) v this j, of 100 default_mapping]
  show ?thesis by (auto simp: sample_version_def release_db_def)
qed

end
