(* ===== verification/MetricRecompute.thy ===== *)
theory MetricRecompute
  imports Pipeline
begin

text \<open>
  services/metric_recompute_service.py: the recomputations an administrator starts, with their
  transactions. The database of a result is the committed one: a rollback gives the one before the
  item. Times of the two services of one recomputation come from the same clock as in a sync.
\<close>

datatype recompute_failure = Not_Found string | Uncaught run_error

record recompute_metrics_response =
  rm_release_id :: string
  rm_snapshot_at :: utc
  rm_ruleset_version :: int
  rm_status :: string

record recompute_sprint_response =
  rs_sprint_id :: string
  rs_snapshot_at :: utc
  rs_ruleset_version :: int
  rs_status :: string

record recompute_all_response =
  rl_releases_total :: nat
  rl_releases_recomputed :: nat
  rl_releases_failed :: nat
  rl_errors :: "(string \<times> string) list"

definition exception_text :: "run_error \<Rightarrow> string" where
  "exception_text e = (case e of Jira_Failure c \<Rightarrow> error_text c | Value_Failure cls m \<Rightarrow> m
     | Database_Failure cls m \<Rightarrow> m | Other_Failure cls m \<Rightarrow> m)"

text \<open>Only a \<open>ValueError\<close> becomes a not-found answer.\<close>

definition not_found_or_raise :: "run_error \<Rightarrow> recompute_failure" where
  "not_found_or_raise e = (case e of Value_Failure cls m \<Rightarrow> Not_Found m | _ \<Rightarrow> Uncaught e)"

definition release_and_signal ::
  "(lighthouse_db \<Rightarrow> utc) \<Rightarrow> field_mapping \<Rightarrow> string \<Rightarrow> lighthouse_db \<Rightarrow> run_error + metric_snapshot \<times> lighthouse_db" where
  "release_and_signal clock fm rid db =
     and_then (recompute_release_metrics (clock db) fm rid db) (\<lambda>(s, db1).
     and_then (recompute_release_signal (clock db1) fm rid db1) (\<lambda>(g, db2). Inr (s, db2)))"

definition recompute_release ::
  "(lighthouse_db \<Rightarrow> utc) \<Rightarrow> field_mapping \<Rightarrow> string \<Rightarrow> lighthouse_db
    \<Rightarrow> (recompute_failure + recompute_metrics_response) \<times> lighthouse_db" where
  "recompute_release clock fm rid db = (case release_and_signal clock fm rid db of
       Inl e \<Rightarrow> (Inl (not_found_or_raise e), db)
     | Inr (s, db') \<Rightarrow> (Inr \<lparr>rm_release_id = sn_release_id s, rm_snapshot_at = sn_snapshot_at s,
         rm_ruleset_version = sn_ruleset_version s, rm_status = ''ok''\<rparr>, db'))"

definition list_release_ids :: "store \<Rightarrow> string list" where
  "list_release_ids db = sort (map release_id (releases db))"

definition recompute_next ::
  "(lighthouse_db \<Rightarrow> utc) \<Rightarrow> field_mapping \<Rightarrow> string \<Rightarrow> nat \<times> (string \<times> string) list \<times> lighthouse_db
    \<Rightarrow> nat \<times> (string \<times> string) list \<times> lighthouse_db" where
  "recompute_next clock fm rid acc = (case acc of (recomputed, errors, db) \<Rightarrow>
     (case release_and_signal clock fm rid db of
        Inl e \<Rightarrow> (recomputed, errors @ [(rid, sanitize_error_detail (exception_text e) DEFAULT_MAX_LENGTH)], db)
      | Inr (s, db') \<Rightarrow> (Suc recomputed, errors, db')))"

definition recompute_all_releases ::
  "(lighthouse_db \<Rightarrow> utc) \<Rightarrow> field_mapping \<Rightarrow> lighthouse_db \<Rightarrow> recompute_all_response \<times> lighthouse_db" where
  "recompute_all_releases clock fm db =
    (let rids = list_release_ids (evidence db)
     in case fold (recompute_next clock fm) rids (0, [], db) of (recomputed, errors, db') \<Rightarrow>
        (\<lparr>rl_releases_total = length rids, rl_releases_recomputed = recomputed,
          rl_releases_failed = length errors, rl_errors = errors\<rparr>, db'))"

definition recompute_sprint ::
  "(lighthouse_db \<Rightarrow> utc) \<Rightarrow> field_mapping \<Rightarrow> string \<Rightarrow> lighthouse_db
    \<Rightarrow> (recompute_failure + recompute_sprint_response) \<times> lighthouse_db" where
  "recompute_sprint clock fm sid db = (case recompute_sprint_metrics (clock db) fm sid db of
       Inl e \<Rightarrow> (Inl (not_found_or_raise e), db)
     | Inr (s, db') \<Rightarrow> (Inr \<lparr>rs_sprint_id = ss_sprint_id s, rs_snapshot_at = ss_snapshot_at s,
         rs_ruleset_version = ss_ruleset_version s, rs_status = ''ok''\<rparr>, db'))"

subsection \<open>The manual recomputations do what the sync does\<close>

lemma release_and_signal_sync:
  "map_sum id snd (release_and_signal clock fm rid db)
     = and_then (rc_release_metrics (lighthouse_recompute clock fm) rid db)
         (rc_release_signal (lighthouse_recompute clock fm) rid)"
  by (cases "recompute_release_metrics (clock db) fm rid db")
    (auto simp: release_and_signal_def lighthouse_recompute_def and_then_def split: sum.splits)

lemma release_and_signal_step:
  assumes "steady_clock clock" and "wf_derived (derived db)" and "find_release (evidence db) rid \<noteq> None"
    and "sn_id ` set (metric_snapshots old) \<subseteq> sn_id ` set (metric_snapshots (derived db))"
  obtains s db' where "release_and_signal clock fm rid db = Inr (s, db')" and "extends db db'" and "signalled fm old db' rid"
proof -
  obtain rel where "find_release (evidence db) rid = Some rel" using assms(3) by blast
  from release_step [OF assms(1,2) this assms(4), of fm] obtain db' where
    "map_sum id snd (release_and_signal clock fm rid db) = Inr db'" "extends db db'" "signalled fm old db' rid"
    unfolding release_and_signal_sync by blast
  then show ?thesis using that by (cases "release_and_signal clock fm rid db") auto
qed

lemma recompute_batch:
  assumes "steady_clock clock" and "wf_derived (derived db)"
    and "\<And>rid. rid \<in> set rids \<Longrightarrow> find_release (evidence db) rid \<noteq> None"
    and "sn_id ` set (metric_snapshots old) \<subseteq> sn_id ` set (metric_snapshots (derived db))"
  shows "\<exists>db'. fold (recompute_next clock fm) rids (n, errors, db) = (n + length rids, errors, db')
    \<and> extends db db' \<and> (\<forall>rid \<in> set rids. signalled fm old db' rid)"
  using assms(2-4)
proof (induction rids arbitrary: db n)
  case Nil
  then show ?case by (simp add: extends_def)
next
  case (Cons rid rids)
  have "find_release (evidence db) rid \<noteq> None" by (rule Cons.prems(2)) simp
  from release_and_signal_step [OF assms(1) Cons.prems(1) this Cons.prems(3)] obtain s db1 where
    s: "release_and_signal clock fm rid db = Inr (s, db1)" "extends db db1" "signalled fm old db1 rid" .
  have e: "wf_derived (derived db1)" "evidence db1 = evidence db"
    "set (metric_snapshots (derived db)) \<subseteq> set (metric_snapshots (derived db1))"
    using s(2) by (simp_all add: extends_def)
  have "find_release (evidence db1) r \<noteq> None" if "r \<in> set rids" for r
    unfolding e(2) by (rule Cons.prems(2)) (simp add: that)
  from Cons.IH [OF e(1) this order_trans [OF Cons.prems(3) image_mono [OF e(3)]], of "Suc n"] obtain db2 where
    r: "fold (recompute_next clock fm) rids (Suc n, errors, db1) = (Suc n + length rids, errors, db2)"
    "extends db1 db2" "\<forall>rid \<in> set rids. signalled fm old db2 rid"
    by blast
  have "fold (recompute_next clock fm) (rid # rids) (n, errors, db) = (n + length (rid # rids), errors, db2)"
    by (simp add: recompute_next_def s(1) r(1) del: fold_append)
  moreover have "extends db db2" by (rule extends_trans [OF s(2) r(2)])
  moreover have "signalled fm old db2 rid" by (rule signalled_extends [OF s(3) r(2)])
  ultimately show ?case using r(3) by (metis set_ConsD)
qed

text \<open>C28: the batch recomputation of all releases, a best-effort loop that turns every exception into an
  entry of its answer, has no such entry on a well-formed database: it counts every stored release as
  recomputed, loses no older row, and leaves each release with a new snapshot and the signal of its
  evidence. A single recomputation fails exactly when there is no such release, with the database as
  it was.\<close>

theorem batch_recomputes_every_release:
  assumes "steady_clock clock" and "wf_derived (derived db)"
  shows "(\<exists>db'. recompute_all_releases clock fm db =
        (\<lparr>rl_releases_total = length (releases (evidence db)), rl_releases_recomputed = length (releases (evidence db)),
          rl_releases_failed = 0, rl_errors = []\<rparr>, db')
        \<and> extends db db' \<and> (\<forall>r \<in> set (releases (evidence db)). signalled fm (derived db) db' (release_id r)))
    \<and> (find_release (evidence db) rid = None \<longrightarrow>
        recompute_release clock fm rid db = (Inl (Not_Found (''Release not found: '' @ quoted rid)), db))
    \<and> (find_release (evidence db) rid \<noteq> None \<longrightarrow> (\<exists>response db'.
        recompute_release clock fm rid db = (Inr response, db') \<and> extends db db' \<and> signalled fm (derived db) db' rid))"
proof (intro conjI impI)
  have "find_release (evidence db) rid \<noteq> None" if "rid \<in> set (list_release_ids (evidence db))" for rid
    using that by (intro stored_found(1)) (auto simp: list_release_ids_def)
  from recompute_batch [OF assms this order_refl, where rids = "list_release_ids (evidence db)" and fm = fm and n = 0 and errors = "[]"]
  show "\<exists>db'. recompute_all_releases clock fm db =
        (\<lparr>rl_releases_total = length (releases (evidence db)), rl_releases_recomputed = length (releases (evidence db)),
          rl_releases_failed = 0, rl_errors = []\<rparr>, db')
        \<and> extends db db' \<and> (\<forall>r \<in> set (releases (evidence db)). signalled fm (derived db) db' (release_id r))"
    by (auto simp: recompute_all_releases_def Let_def list_release_ids_def)
next
  assume "find_release (evidence db) rid = None"
  then show "recompute_release clock fm rid db = (Inl (Not_Found (''Release not found: '' @ quoted rid)), db)"
    by (simp add: recompute_release_def release_and_signal_def recompute_release_metrics_def release_not_found_def
        value_failure_def not_found_or_raise_def)
next
  assume "find_release (evidence db) rid \<noteq> None"
  from release_and_signal_step [OF assms this order_refl, of fm]
  show "\<exists>response db'. recompute_release clock fm rid db = (Inr response, db') \<and> extends db db' \<and> signalled fm (derived db) db' rid"
    by (metis (no_types, lifting) recompute_release_def sum.simps(6) prod.simps(2))
qed

lemma batch_recomputes_every_release_witness:
  "\<exists>db'. recompute_all_releases newest_clock default_mapping release_db =
      (\<lparr>rl_releases_total = 1, rl_releases_recomputed = 1, rl_releases_failed = 0, rl_errors = []\<rparr>, db')
    \<and> signalled default_mapping no_derived db' ''R''"
proof -
  have r: "releases (evidence release_db) = [sample_release]" "derived release_db = no_derived"
    "release_id sample_release = ''R''"
    by (simp_all add: release_db_def sample_release_def)
  from conjunct1 [OF batch_recomputes_every_release [OF newest_clock_steady release_db_facts(1), of default_mapping "[]"]]
  obtain db' where "recompute_all_releases newest_clock default_mapping release_db =
      (\<lparr>rl_releases_total = 1, rl_releases_recomputed = 1, rl_releases_failed = 0, rl_errors = []\<rparr>, db')"
    "signalled default_mapping no_derived db' ''R''"
    unfolding r by (auto simp: r(3))
  then show ?thesis by blast
qed

end
