(* ===== verification/SignalView.thy ===== *)
theory SignalView
  imports SignalRecompute
begin

text \<open>
  What the API says about a release's signal (services/release_signal_response_service.py, and the last
  24 hours and the outlook of services/signal_service.py): the answer is assembled from the stored
  signal and snapshot rows. Parsing a stored value back into a response model is the identity on what the
  program stores, so the stored values are the fields of the answer; \<open>updated_at\<close> is left out.
  The theorem is the round trip: what a recomputation found is what the API then says.
\<close>

named_theorems answer_simps \<open>fields of answers\<close>

subsection \<open>The last 24 hours\<close>

datatype impact = Positive | Negative | Neutral | Unknown_Impact

datatype positive_when = Increase | Decrease

record last_24_item =
  l4_metric_name :: string
  l4_label :: string
  l4_delta :: "pyfloat option"
  l4_value_type :: string
  l4_impact :: impact

record last_24_hours =
  lh_as_of :: "utc option"
  lh_baseline_at :: "utc option"
  lh_has_baseline :: bool
  lh_unavailable_reason :: "string option"
  lh_items :: "last_24_item list"

definition confidence_score_for_snapshot :: "metric_snapshot \<Rightarrow> pyfloat option" where
  "confidence_score_for_snapshot s = (if sn_ruleset_version s > 0 then sn_confidence_score s else None)"

definition numeric_delta :: "pyfloat option \<Rightarrow> pyfloat option \<Rightarrow> pyfloat option" where
  "numeric_delta latest baseline =
    (case (latest, baseline) of (Some l, Some b) \<Rightarrow> Some (py_round 1 (fsub l b)) | _ \<Rightarrow> None)"

definition impact_of :: "pyfloat option \<Rightarrow> positive_when \<Rightarrow> impact" where
  "impact_of delta w =
    (case delta of
       None \<Rightarrow> Unknown_Impact
     | Some d \<Rightarrow> if d = 0 then Neutral
         else (case w of
             Increase \<Rightarrow> if d > 0 then Positive else Negative
           | Decrease \<Rightarrow> if d > 0 then Negative else Positive))"

definition build_last_24_hours_item ::
  "string \<Rightarrow> string \<Rightarrow> string \<Rightarrow> pyfloat option \<Rightarrow> positive_when \<Rightarrow> last_24_item" where
  "build_last_24_hours_item name label value_type delta w =
     \<lparr>l4_metric_name = name, l4_label = label, l4_delta = delta, l4_value_type = value_type,
      l4_impact = impact_of delta w\<rparr>"

definition no_comparison :: "utc \<Rightarrow> utc \<Rightarrow> string \<Rightarrow> last_24_hours" where
  "no_comparison latest_at baseline_at reason = \<lparr>lh_as_of = Some latest_at, lh_baseline_at = Some baseline_at,
     lh_has_baseline = True, lh_unavailable_reason = Some reason, lh_items = []\<rparr>"

definition RULESET_MISMATCH_REASON :: string where
  "RULESET_MISMATCH_REASON = ''Snapshot comparison unavailable because ruleset versions differ.''"

definition LEGACY_RELEASE_CONFIDENCE_REASON :: string where
  "LEGACY_RELEASE_CONFIDENCE_REASON =
     ''Derived legacy release confidence is unavailable because it was not stored at calculation time.''"

definition build_last_24_hours :: "derived_tables \<Rightarrow> string \<Rightarrow> metric_snapshot \<Rightarrow> last_24_hours" where
  "build_last_24_hours d rid latest =
    (let latest_at = sn_snapshot_at latest
     in case get_latest_snapshot_at_or_before d rid (latest_at - day_us) of
          None \<Rightarrow> \<lparr>lh_as_of = Some latest_at, lh_baseline_at = None, lh_has_baseline = False,
             lh_unavailable_reason = None, lh_items = []\<rparr>
        | Some b \<Rightarrow>
            if sn_ruleset_version latest \<noteq> sn_ruleset_version b
            then no_comparison latest_at (sn_snapshot_at b) RULESET_MISMATCH_REASON
            else if sn_ruleset_version latest = 0
            then no_comparison latest_at (sn_snapshot_at b) LEGACY_RELEASE_CONFIDENCE_REASON
            else \<lparr>lh_as_of = Some latest_at, lh_baseline_at = Some (sn_snapshot_at b), lh_has_baseline = True,
              lh_unavailable_reason = None,
              lh_items =
               [build_last_24_hours_item ''open_blockers'' ''blocker'' ''count''
                  (numeric_delta (Some (fint (sn_open_blockers latest))) (Some (fint (sn_open_blockers b)))) Decrease,
                build_last_24_hours_item ''open_high_severity_bugs'' ''high severity bug'' ''count''
                  (numeric_delta (Some (fint (sn_open_high_severity_bugs latest)))
                    (Some (fint (sn_open_high_severity_bugs b)))) Decrease,
                build_last_24_hours_item ''completed_tickets'' ''completed ticket'' ''count''
                  (numeric_delta (map_option fint (sn_completed_tickets latest))
                    (map_option fint (sn_completed_tickets b))) Increase,
                build_last_24_hours_item ''confidence_score'' ''Confidence'' ''percentage''
                  (numeric_delta (confidence_score_for_snapshot latest) (confidence_score_for_snapshot b)) Increase]\<rparr>)"

subsection \<open>The outlook\<close>

record release_outlook =
  ol_label :: string
  ol_signal :: "signal option"
  ol_confidence_score :: "pyfloat option"
  ol_snapshot_at :: "utc option"
  ol_release_date :: "utc option"
  ol_days_remaining :: "int option"
  ol_passed_gate_count :: nat
  ol_failed_gate_count :: nat
  ol_release_gates :: "release_gate list"
  ol_confidence_change_24h :: "pyfloat option"
  ol_confidence_baseline_at :: "utc option"
  ol_active_conditions :: "risk_item list"
  ol_disclaimer :: string

definition RELEASE_OUTLOOK_DISCLAIMER :: string where
  "RELEASE_OUTLOOK_DISCLAIMER = ''This outlook reflects the latest stored snapshot and is not a forecast.''"

fun outlook_label :: "signal option \<Rightarrow> string" where
  "outlook_label (Some (Level GREEN)) = ''ON TRACK''"
| "outlook_label (Some (Level YELLOW)) = ''NEEDS ATTENTION''"
| "outlook_label (Some (Level RED)) = ''AT RISK''"
| "outlook_label (Some INCONCLUSIVE) = ''INCONCLUSIVE''"
| "outlook_label _ = ''NOT COMPUTED''"

text \<open>\<open>.date()\<close> of a UTC time, as the number of its day.\<close>

definition utc_day :: "utc \<Rightarrow> int" where
  "utc_day t = t div day_us"

definition build_release_outlook ::
  "py_datetime option \<Rightarrow> metric_snapshot option \<Rightarrow> signal option \<Rightarrow> pyfloat option \<Rightarrow> release_gate list
    \<Rightarrow> risk_item list \<Rightarrow> risk_item list \<Rightarrow> last_24_hours \<Rightarrow> release_outlook" where
  "build_release_outlook release_date latest final_signal score gates critical warnings last_24 =
    (let snapshot_at = map_option sn_snapshot_at latest;
         date = coerce_utc release_date
     in \<lparr>ol_label = outlook_label final_signal, ol_signal = final_signal, ol_confidence_score = score,
         ol_snapshot_at = snapshot_at, ol_release_date = date,
         ol_days_remaining = (case (date, snapshot_at) of
             (Some d, Some t) \<Rightarrow> Some (utc_day d - utc_day t) | _ \<Rightarrow> None),
         ol_passed_gate_count = length (filter gate_passed gates),
         ol_failed_gate_count = length (filter (\<lambda>g. \<not> gate_passed g) gates),
         ol_release_gates = gates,
         ol_confidence_change_24h = Option.bind (find (\<lambda>i. l4_metric_name i = ''confidence_score'') (lh_items last_24)) l4_delta,
         ol_confidence_baseline_at = lh_baseline_at last_24,
         ol_active_conditions = critical @ warnings,
         ol_disclaimer = RELEASE_OUTLOOK_DISCLAIMER\<rparr>)"

subsection \<open>The answer\<close>

record release_signal_response =
  gr_release_id :: string
  gr_metric_snapshot_id :: "nat option"
  gr_ruleset_version :: int
  gr_signal :: "signal option"
  gr_status_label :: "string option"
  gr_confidence_score :: "pyfloat option"
  gr_confidence_breakdown :: "confidence_breakdown option"
  gr_biggest_driver :: "driver_analysis option"
  gr_summary :: "string option"
  gr_reasons :: "string list"
  gr_reason_details :: "reason_detail list"
  gr_release_gates :: "release_gate list"
  gr_critical_risks :: "risk_item list"
  gr_warnings :: "risk_item list"
  gr_primary_risk :: "primary_risk option"
  gr_risk_aging :: "string risk_aging"
  gr_last_24_hours :: last_24_hours
  gr_release_outlook :: release_outlook
  gr_thresholds :: "(string \<times> py_number) list option"
  gr_calculated_at :: "utc option"

definition empty_risk_aging :: "string risk_aging" where
  "empty_risk_aging = \<lparr>rk_blockers = no_risk_ages, rk_high_severity_bugs = no_risk_ages, rk_as_of = None\<rparr>"

definition empty_last_24_hours :: last_24_hours where
  "empty_last_24_hours = \<lparr>lh_as_of = None, lh_baseline_at = None, lh_has_baseline = False,
     lh_unavailable_reason = None, lh_items = []\<rparr>"

definition not_computed_response ::
  "string \<Rightarrow> string \<Rightarrow> string list \<Rightarrow> py_datetime option \<Rightarrow> metric_snapshot option \<Rightarrow> release_signal option
    \<Rightarrow> release_signal_response" where
  "not_computed_response rid summary reasons release_date latest row =
    (let version = (case row of None \<Rightarrow> 0 | Some g \<Rightarrow> sg_ruleset_version g)
     in \<lparr>gr_release_id = rid, gr_metric_snapshot_id = Option.bind row sg_metric_snapshot_id,
         gr_ruleset_version = version, gr_signal = None, gr_status_label = Some ''NOT COMPUTED'',
         gr_confidence_score = None, gr_confidence_breakdown = None, gr_biggest_driver = None,
         gr_summary = Some summary, gr_reasons = reasons, gr_reason_details = [], gr_release_gates = [],
         gr_critical_risks = [], gr_warnings = [], gr_primary_risk = None, gr_risk_aging = empty_risk_aging,
         gr_last_24_hours = empty_last_24_hours,
         gr_release_outlook = build_release_outlook release_date latest None None [] [] [] empty_last_24_hours,
         gr_thresholds = (if version > 0 then Some release_threshold_metadata else None),
         gr_calculated_at = map_option sg_calculated_at row\<rparr>)"

text \<open>The readiness a signal shows: only of a current ruleset and for the latest snapshot.\<close>

definition shown_readiness :: "release_signal \<Rightarrow> metric_snapshot option \<Rightarrow> readiness_evidence option" where
  "shown_readiness g latest =
    (case latest of
       None \<Rightarrow> None
     | Some s \<Rightarrow> if sg_ruleset_version g > 0 \<and> sg_metric_snapshot_id g = Some (sn_id s)
         then Some (sg_readiness_evidence g) else None)"

definition shown_outputs :: "metric_snapshot option \<Rightarrow> release_outputs option" where
  "shown_outputs latest = Option.bind latest (\<lambda>s. if sn_ruleset_version s > 0
     then map_option rv_component_outputs (sn_calculation_provenance s) else None)"

definition shown_signal :: "release_signal \<Rightarrow> readiness_evidence option \<Rightarrow> signal option" where
  "shown_signal g readiness =
    (case Option.bind readiness re_signal of
       Some sig \<Rightarrow> Some sig
     | None \<Rightarrow> if sg_signal g \<noteq> SIGNAL_NOT_COMPUTED then Some (sg_signal g) else None)"

definition computed_response :: "derived_tables \<Rightarrow> release \<Rightarrow> release_signal \<Rightarrow> metric_snapshot option \<Rightarrow> release_signal_response" where
  "computed_response d rel g latest =
    (let readiness = shown_readiness g latest;
         versioned = sg_ruleset_version g > 0;
         last_24 = (case latest of None \<Rightarrow> empty_last_24_hours
           | Some s \<Rightarrow> build_last_24_hours d (release_id rel) s);
         outputs = shown_outputs latest;
         sig = shown_signal g readiness;
         gates = (if versioned then sg_release_gates g else []);
         critical = (case readiness of None \<Rightarrow> [] | Some e \<Rightarrow> re_critical_risks e);
         warnings = (case readiness of None \<Rightarrow> [] | Some e \<Rightarrow> re_warnings e);
         score = (if versioned then sg_confidence_score g else None)
     in \<lparr>gr_release_id = sg_release_id g, gr_metric_snapshot_id = sg_metric_snapshot_id g,
         gr_ruleset_version = sg_ruleset_version g, gr_signal = sig,
         gr_status_label = (if versioned then map_option re_status_label readiness
           else Some ''Unversioned legacy result''),
         gr_confidence_score = score,
         gr_confidence_breakdown = Option.bind outputs ro_confidence_breakdown,
         gr_biggest_driver = Option.bind outputs ro_biggest_driver,
         gr_summary = map_option re_summary readiness, gr_reasons = sg_reasons g,
         gr_reason_details = (if readiness = None then [] else sg_reason_details g),
         gr_release_gates = gates, gr_critical_risks = critical, gr_warnings = warnings,
         gr_primary_risk = Option.bind readiness re_primary_risk,
         gr_risk_aging = (if readiness = None then empty_risk_aging else sg_risk_aging_evidence g),
         gr_last_24_hours = last_24,
         gr_release_outlook = build_release_outlook (release_release_date rel) latest
           (if versioned then sig else None) score gates critical warnings last_24,
         gr_thresholds = Option.bind latest (\<lambda>s. if sn_ruleset_version s > 0
           then Option.bind (sn_calculation_provenance s) (\<lambda>p. if rv_thresholds p \<noteq> [] then Some (rv_thresholds p) else None)
           else None),
         gr_calculated_at = Some (sg_calculated_at g)\<rparr>)"

definition release_missing :: "string \<Rightarrow> string" where
  "release_missing rid = ''Release '' @ quoted rid @ '' not found''"

text \<open>\<open>Inl\<close> is an \<open>ApplicationNotFoundError\<close>.\<close>

definition get_signal :: "store \<Rightarrow> derived_tables \<Rightarrow> string \<Rightarrow> string + release_signal_response" where
  "get_signal db d rid =
    (case find_release db rid of
       None \<Rightarrow> Inl (release_missing rid)
     | Some rel \<Rightarrow>
        (let row = get_latest_signal d rid; latest = get_latest_snapshot d rid
         in Inr (if length (release_issues db rid) = 0
            then not_computed_response rid
              ''Release signal is not computed because no tickets are assigned to this release.''
              (case row of None \<Rightarrow> [no_tickets_reason] | Some g \<Rightarrow> sg_reasons g)
              (release_release_date rel) latest row
            else (case row of
                None \<Rightarrow> not_computed_response rid ''Signal has not been computed yet for this release snapshot.'' []
                  (release_release_date rel) latest None
              | Some g \<Rightarrow> computed_response d rel g latest))))"

subsection \<open>A recomputed signal is the one served\<close>

text \<open>The row that a recomputation adds.\<close>

lemma added_signal_row:
  assumes "recompute_release_signal t fm rid db1 = Inr (g, db2)"
    and "release_signals (derived db2) = release_signals (derived db1) @ [g]"
    and "get_latest_snapshot (derived db1) rid = Some s"
  shows "sg_calculated_at g = t" "sg_release_id g = rid"
    "sg_id g = next_row_id sg_id (release_signals (derived db1))"
    "re_signal (sg_readiness_evidence g) = (if sg_signal g = SIGNAL_NOT_COMPUTED then None else Some (sg_signal g))"
    "release_issues (evidence db1) rid \<noteq> [] \<Longrightarrow> sg_signal g \<noteq> SIGNAL_NOT_COMPUTED"
proof -
  let ?row = "if release_issues (evidence db1) rid = [] then not_computed_signal rid (Some s) t
    else computed_signal (evidence db1) fm rid s t"
  have e: "(g, db2) = store_signal t ?row db1"
    using assms(1,3) by (auto simp: recompute_release_signal_def Let_def split: if_splits)
  have g: "g = fst (create_signal ?row (derived db1))" "derived db2 = snd (create_signal ?row (derived db1))"
    using store_signal_frame [of t ?row db1] by (simp_all add: e [symmetric])
  have new: "signal_key ?row \<notin> signal_key ` set (release_signals (derived db1))"
  proof
    assume "signal_key ?row \<in> signal_key ` set (release_signals (derived db1))"
    from create_signal_old [OF this] have "derived db2 = derived db1" using g(2) by auto
    then show False using assms(2) by simp
  qed
  have row: "g = ?row\<lparr>sg_id := next_row_id sg_id (release_signals (derived db1))\<rparr>"
    by (simp add: g(1) create_signal_new [OF new] Let_def)
  have not: "fst (signal_and_reasons us inputs) \<noteq> SIGNAL_NOT_COMPUTED" for us inputs
    by (auto simp: signal_and_reasons_def evaluate_signal_with_details_def Let_def)
  have rd: "re_signal (readiness_evidence_of us (fst (signal_and_reasons us inputs)) reasons
      (build_release_readiness_details inputs)) = Some (fst (signal_and_reasons us inputs))" for us inputs reasons
    by (simp add: readiness_evidence_of_def plain_evidence_def inconclusive_evidence_def signal_and_reasons_def
        build_release_readiness_details_def Let_def split_beta)
  show "sg_calculated_at g = t" "sg_release_id g = rid" "sg_id g = next_row_id sg_id (release_signals (derived db1))"
    "re_signal (sg_readiness_evidence g) = (if sg_signal g = SIGNAL_NOT_COMPUTED then None else Some (sg_signal g))"
    "release_issues (evidence db1) rid \<noteq> [] \<Longrightarrow> sg_signal g \<noteq> SIGNAL_NOT_COMPUTED"
    unfolding row using not rd
    by (auto simp: not_computed_signal_def no_tickets_evidence_def computed_signal_def Let_def split_beta)
qed

lemma added_signal_latest:
  assumes "release_signals d' = release_signals d @ [g]" and "sg_release_id g = rid"
    and "sg_id g = next_row_id sg_id (release_signals d)"
    and "\<And>h. h \<in> set (release_signals d) \<Longrightarrow> sg_release_id h = rid \<Longrightarrow> sg_calculated_at h \<le> sg_calculated_at g"
  shows "get_latest_signal d' rid = Some g"
  unfolding get_latest_signal_def
proof (rule latest_by_unique)
  show "g \<in> set (filter (\<lambda>g. sg_release_id g = rid) (release_signals d'))" using assms(1,2) by simp
next
  fix h assume h: "h \<in> set (filter (\<lambda>g. sg_release_id g = rid) (release_signals d'))" "h \<noteq> g"
  then have "h \<in> set (release_signals d)" "sg_release_id h = rid" by (auto simp: assms(1) split: if_splits)
  then have "sg_id h < sg_id g" "sg_calculated_at h \<le> sg_calculated_at g"
    using next_row_id_fresh [of h "release_signals d" sg_id] assms(3,4) by auto
  then show "(sg_calculated_at h, sg_id h) < (sg_calculated_at g, sg_id g)" by auto
qed

lemma filter_partition: "length (filter P xs) + length (filter (\<lambda>x. \<not> P x) xs) = length xs"
  by (induction xs) simp_all

lemma outlook_simps [answer_simps]:
  "ol_signal (build_release_outlook date latest sig score gates critical warnings last_24) = sig"
  "ol_label (build_release_outlook date latest sig score gates critical warnings last_24) = outlook_label sig"
  "ol_passed_gate_count (build_release_outlook date latest sig score gates critical warnings last_24)
    + ol_failed_gate_count (build_release_outlook date latest sig score gates critical warnings last_24)
    = length gates"
  by (simp_all add: build_release_outlook_def Let_def filter_partition)

definition answer_consistent :: "release_signal_response \<Rightarrow> bool" where
  "answer_consistent a \<longleftrightarrow> ol_signal (gr_release_outlook a) = gr_signal a
     \<and> ol_label (gr_release_outlook a) = outlook_label (gr_signal a)
     \<and> ol_passed_gate_count (gr_release_outlook a) + ol_failed_gate_count (gr_release_outlook a)
         = length (gr_release_gates a)
     \<and> (gr_confidence_score a \<noteq> None \<longrightarrow> gr_signal a \<in> Some ` range Level)
     \<and> (\<forall>c. gr_confidence_score a = Some c \<longrightarrow>
          (\<exists>b. gr_confidence_breakdown a = Some b \<and> cb_total_score b = c) \<and> gr_biggest_driver a \<noteq> None)"

lemma recompute_release_frame:
  assumes "recompute_release_metrics t fm rid db = Inr (s, db1)"
  shows "sn_ruleset_version s = ruleset_version_const" "sn_snapshot_at s = t"
    "sn_id s = next_row_id sn_id (metric_snapshots (derived db))" "sn_release_id s = rid"
    "derived db1 = add_snapshot s (derived db)" "evidence db1 = evidence db"
  using assms by (auto simp: recompute_release_metrics_def Let_def and_then_Inr_iff release_snapshot_of_def
      split: option.splits)

text \<open>The rows that a recomputation leaves: the new snapshot and the new signal are the latest ones.\<close>

lemma recomputed_rows:
  assumes wf: "wf_derived (derived db)" and rel: "find_release (evidence db) rid = Some rel"
    and clock: "\<And>q. q \<in> set (snapshots_of (derived db) rid) \<Longrightarrow> sn_snapshot_at q \<le> t1"
    and clock2: "\<And>h. h \<in> set (release_signals (derived db)) \<Longrightarrow> sg_release_id h = rid \<Longrightarrow> sg_calculated_at h \<le> t2"
  obtains s db1 g db2 p where "recompute_release_metrics t1 fm rid db = Inr (s, db1)"
    "recompute_release_signal t2 fm rid db1 = Inr (g, db2)"
    "evidence db2 = evidence db" "wf_derived (derived db2)" "g \<in> set (release_signals (derived db2))"
    "get_latest_snapshot (derived db2) rid = Some s" "get_latest_signal (derived db2) rid = Some g"
    "sn_ruleset_version s = ruleset_version_const" "sn_calculation_provenance s = Some p" "score_explained s p"
    "sn_confidence_score s = release_confidence_of (release_results_of (evidence db) fm rel t1)"
    "sg_signal g = fresh_signal (release_results_of (evidence db) fm rel t1)"
    "sg_confidence_score g = sn_confidence_score s" "signal_key g = (rid, Some (sn_id s), ruleset_version_const)"
    "sg_calculated_at g = t2"
    "re_signal (sg_readiness_evidence g) = (if sg_signal g = SIGNAL_NOT_COMPUTED then None else Some (sg_signal g))"
    "release_issues (evidence db) rid \<noteq> [] \<longrightarrow> sg_signal g \<noteq> SIGNAL_NOT_COMPUTED"
proof -
  define r where "r = release_results_of (evidence db) fm rel t1"
  from fresh_signal_stored [OF wf rel clock, of fm t2] obtain s db1 g db2 where
    m: "recompute_release_metrics t1 fm rid db = Inr (s, db1)"
      "recompute_release_signal t2 fm rid db1 = Inr (g, db2)"
      "signal_key g = (rid, Some (sn_id s), ruleset_version_const)"
      "sg_signal g = fresh_signal r" "sg_confidence_score g = sn_confidence_score s"
      "sn_confidence_score s = release_confidence_of r"
      "derived db2 = (derived db)\<lparr>metric_snapshots := metric_snapshots (derived db) @ [s],
         release_signals := release_signals (derived db) @ [g]\<rparr>" "evidence db2 = evidence db" "wf_derived (derived db2)"
    unfolding r_def by blast
  note fr = recompute_release_frame [OF m(1)]
  obtain p where p: "sn_calculation_provenance s = Some p" "score_explained s p"
    using release_snapshot_facts [where db = db and rid = rid and now = t1 and fm = fm] unfolding rel option.case m(1) by auto
  have c1: "sn_snapshot_at q \<le> sn_snapshot_at s" if "q \<in> set (snapshots_of (derived db) (sn_release_id s))" for q
    using clock that by (simp add: fr)
  have latest1: "get_latest_snapshot (derived db1) rid = Some s"
    using added_snapshot_latest [OF fr(3) c1] by (simp add: fr(4,5))
  have sig1: "release_signals (derived db2) = release_signals (derived db1) @ [g]"
    by (simp add: m(7) fr(5) add_snapshot_def)
  note row = added_signal_row [OF m(2) sig1 latest1]
  have latest2: "get_latest_snapshot (derived db2) rid = Some s"
    using latest1 by (simp add: get_latest_snapshot_def snapshots_of_def m(7) fr(5) add_snapshot_def)
  have lsig: "get_latest_signal (derived db2) rid = Some g"
  proof (rule added_signal_latest)
    show "release_signals (derived db2) = release_signals (derived db) @ [g]" by (simp add: m(7))
    show "sg_release_id g = rid" by (rule row(2))
    show "sg_id g = next_row_id sg_id (release_signals (derived db))" using row(3) by (simp add: fr(5) add_snapshot_def)
    show "sg_calculated_at h \<le> sg_calculated_at g" if "h \<in> set (release_signals (derived db))" "sg_release_id h = rid" for h
      using clock2 [OF that] by (simp add: row(1))
  qed
  have mem: "g \<in> set (release_signals (derived db2))" by (simp add: m(7))
  show thesis
    by (rule that [OF m(1,2,8,9) mem latest2 lsig fr(1) p m(6) [unfolded r_def] m(4) [unfolded r_def] m(5,3) row(1) row(4)])
      (use row(5) in \<open>simp add: fr(6)\<close>)
qed

lemma signal_served_facts:
  assumes wf: "wf_derived (derived db)" and rel: "find_release (evidence db) rid = Some rel"
    and clock: "\<And>q. q \<in> set (snapshots_of (derived db) rid) \<Longrightarrow> sn_snapshot_at q \<le> t1"
    and clock2: "\<And>h. h \<in> set (release_signals (derived db)) \<Longrightarrow> sg_release_id h = rid \<Longrightarrow> sg_calculated_at h \<le> t2"
  shows "\<exists>s db1 g db2 a. recompute_release_metrics t1 fm rid db = Inr (s, db1)
    \<and> recompute_release_signal t2 fm rid db1 = Inr (g, db2)
    \<and> get_signal (evidence db2) (derived db2) rid = Inr a
    \<and> gr_metric_snapshot_id a = Some (sn_id s) \<and> gr_calculated_at a = Some t2
    \<and> gr_signal a = (let sig = fresh_signal (release_results_of (evidence db) fm rel t1)
        in if sig = SIGNAL_NOT_COMPUTED then None else Some sig)
    \<and> gr_confidence_score a = release_confidence_of (release_results_of (evidence db) fm rel t1)
    \<and> answer_consistent a"
proof -
  define r where "r = release_results_of (evidence db) fm rel t1"
  obtain s db1 g db2 p where m: "recompute_release_metrics t1 fm rid db = Inr (s, db1)"
      "recompute_release_signal t2 fm rid db1 = Inr (g, db2)" "evidence db2 = evidence db"
    and "wf_derived (derived db2)" "g \<in> set (release_signals (derived db2))"
    and latest2: "get_latest_snapshot (derived db2) rid = Some s" and lsig: "get_latest_signal (derived db2) rid = Some g"
    and version: "sn_ruleset_version s = ruleset_version_const"
    and p: "sn_calculation_provenance s = Some p" "score_explained s p"
    and found: "sn_confidence_score s = release_confidence_of r" "sg_signal g = fresh_signal r"
      "sg_confidence_score g = sn_confidence_score s" "signal_key g = (rid, Some (sn_id s), ruleset_version_const)"
      "sg_calculated_at g = t2"
      "re_signal (sg_readiness_evidence g) = (if sg_signal g = SIGNAL_NOT_COMPUTED then None else Some (sg_signal g))"
      "release_issues (evidence db) rid \<noteq> [] \<longrightarrow> sg_signal g \<noteq> SIGNAL_NOT_COMPUTED"
    unfolding r_def by (rule recomputed_rows [OF wf rel clock clock2, of fm])
  have key: "sg_metric_snapshot_id g = Some (sn_id s)" "sg_ruleset_version g = ruleset_version_const"
    using found(4) by (simp_all add: signal_key_def)
  have pos: "ruleset_version_const > 0" by (simp add: ruleset_version_const_def)
  have tickets: "rl_ticket_count r = length (release_issues (evidence db) rid)"
    using rel by (auto simp: r_def snapshot_simps find_release_def find_Some_iff)
  note run = m(1,2) and ev = m(3)
  show ?thesis
  proof (cases "release_issues (evidence db) rid = []")
    case True
    then have f: "fresh_signal r = SIGNAL_NOT_COMPUTED" "release_confidence_of r = None"
      by (simp_all add: fresh_signal_def tickets release_confidence_of_def Let_def)
    obtain a where a: "get_signal (evidence db2) (derived db2) rid = Inr a"
      "a = not_computed_response rid ''Release signal is not computed because no tickets are assigned to this release.''
        (sg_reasons g) (release_release_date rel) (Some s) (Some g)"
      by (simp add: get_signal_def ev rel Let_def lsig latest2 True)
    have "answer_consistent a" by (simp add: a(2) answer_consistent_def not_computed_response_def Let_def answer_simps)
    moreover have "gr_metric_snapshot_id a = Some (sn_id s)" "gr_calculated_at a = Some t2" "gr_signal a = None"
      "gr_confidence_score a = None"
      by (simp_all add: a(2) not_computed_response_def Let_def key found(5))
    ultimately show ?thesis using run a(1) f unfolding r_def [symmetric] by auto
  next
    case False
    then have f: "sg_signal g \<noteq> SIGNAL_NOT_COMPUTED" using found(7) by simp
    obtain a where a: "get_signal (evidence db2) (derived db2) rid = Inr a"
      "a = computed_response (derived db2) rel g (Some s)"
      using False by (simp add: get_signal_def ev rel Let_def lsig latest2)
    have ready: "shown_readiness g (Some s) = Some (sg_readiness_evidence g)"
      by (simp add: shown_readiness_def key pos)
    have outs: "shown_outputs (Some s) = Some (rv_component_outputs p)"
      by (simp add: shown_outputs_def version pos p)
    have sig: "shown_signal g (Some (sg_readiness_evidence g)) = Some (sg_signal g)"
      using f by (simp add: shown_signal_def found(6))
    have sel: "gr_metric_snapshot_id a = Some (sn_id s)" "gr_calculated_at a = Some t2" "gr_signal a = Some (sg_signal g)"
      "gr_confidence_score a = sn_confidence_score s" "gr_release_gates a = sg_release_gates g"
      "gr_confidence_breakdown a = ro_confidence_breakdown (rv_component_outputs p)"
      "gr_biggest_driver a = ro_biggest_driver (rv_component_outputs p)"
      "ol_signal (gr_release_outlook a) = gr_signal a"
      "ol_label (gr_release_outlook a) = outlook_label (gr_signal a)"
      "ol_passed_gate_count (gr_release_outlook a) + ol_failed_gate_count (gr_release_outlook a) = length (gr_release_gates a)"
      by (simp_all add: a(2) computed_response_def Let_def ready outs sig key pos found(3,5) answer_simps)
    have "sg_signal g \<in> range Level" if "sn_confidence_score s \<noteq> None"
      using fresh_signal_conclusive [OF r_def] that by (auto simp: found(1,2))
    then have "answer_consistent a"
      using p(2) by (auto simp: answer_consistent_def sel score_explained_def)
    then show ?thesis using run a(1) f sel found(1,2) unfolding r_def [symmetric] by (auto simp: Let_def)
  qed
qed

text \<open>C5: what a recomputation finds is what the API serves. With a clock that does not run backwards,
  the answer for a release right after its recomputation refers to the new snapshot, shows its signal (none
  when it is not computed) and its score, and is consistent in itself: the outlook tells the same signal and
  counts every gate once, a score comes only with a green, yellow or red signal, with a breakdown that adds
  up to it and with a driver.\<close>

theorem recomputed_signal_is_served:
  assumes "wf_derived (derived db)" and "find_release (evidence db) rid = Some rel"
    and "\<And>q. q \<in> set (snapshots_of (derived db) rid) \<Longrightarrow> sn_snapshot_at q \<le> t1"
    and "\<And>h. h \<in> set (release_signals (derived db)) \<Longrightarrow> sg_release_id h = rid \<Longrightarrow> sg_calculated_at h \<le> t2"
  shows "\<exists>s db1 g db2 a. recompute_release_metrics t1 fm rid db = Inr (s, db1)
    \<and> recompute_release_signal t2 fm rid db1 = Inr (g, db2)
    \<and> get_signal (evidence db2) (derived db2) rid = Inr a
    \<and> gr_metric_snapshot_id a = Some (sn_id s) \<and> gr_calculated_at a = Some t2
    \<and> gr_signal a = (let sig = fresh_signal (release_results_of (evidence db) fm rel t1)
        in if sig = SIGNAL_NOT_COMPUTED then None else Some sig)
    \<and> gr_confidence_score a = release_confidence_of (release_results_of (evidence db) fm rel t1)
    \<and> answer_consistent a"
  using assms by (rule signal_served_facts)

lemma recomputed_signal_is_served_witness:
  "\<exists>s db1 g db2 a. recompute_release_metrics day_us default_mapping ''R'' release_db = Inr (s, db1)
    \<and> recompute_release_signal day_us default_mapping ''R'' db1 = Inr (g, db2)
    \<and> get_signal (evidence db2) (derived db2) ''R'' = Inr a \<and> gr_metric_snapshot_id a = Some (sn_id s)
    \<and> answer_consistent a"
proof -
  have "sn_snapshot_at q \<le> day_us" if "q \<in> set (snapshots_of (derived release_db) ''R'')" for q
    using that by (simp add: release_db_facts)
  moreover have "sg_calculated_at h \<le> day_us" if "h \<in> set (release_signals (derived release_db))" for h
    using that by (simp add: release_db_def no_derived_def)
  ultimately show ?thesis
    using recomputed_signal_is_served [OF release_db_facts(1,2), of day_us day_us default_mapping] by blast
qed

end
