(* ===== verification/SnapshotComparison.thy ===== *)
theory SnapshotComparison
  imports Snapshots
begin

text \<open>
  services/snapshot_comparison_service.py with schemas/deltas.py: what changed between two snapshots, as
  rounded differences of the metrics and the share of each in the movement of the score, and the driver of
  the change.
\<close>

datatype delta_direction = Up | Down

record delta_contributor =
  dl_metric :: string
  dl_delta :: pyfloat
  dl_impact :: pyfloat
  dl_direction :: delta_direction

record delta_comparison =
  cm_confidence_delta :: "pyfloat option"
  cm_contributors :: "delta_contributor list"

record 's delta_rule =
  ru_metric :: string
  ru_value :: "'s \<Rightarrow> pyfloat option"
  ru_impact :: "'s \<Rightarrow> 's \<Rightarrow> pyfloat"

definition CLASSIFICATION_MISMATCH_REASON :: string where
  "CLASSIFICATION_MISMATCH_REASON =
     ''Snapshot comparison unavailable because Jira classification mappings differ.''"

text \<open>A snapshot from before the provenance column has no classification.\<close>

definition classification_unavailable_reason ::
  "classification_provenance option \<Rightarrow> classification_provenance option \<Rightarrow> string option" where
  "classification_unavailable_reason current previous =
    (if current = None \<and> previous = None then None
     else if current \<noteq> previous then Some CLASSIFICATION_MISMATCH_REASON else None)"

subsection \<open>Contributors\<close>

definition rounded_delta :: "pyfloat option \<Rightarrow> pyfloat option \<Rightarrow> pyfloat option" where
  "rounded_delta current previous =
    (case (current, previous) of (Some c, Some p) \<Rightarrow> Some (py_round 2 (fsub c p)) | _ \<Rightarrow> None)"

definition contributor_key :: "delta_contributor \<Rightarrow> pyfloat \<times> pyfloat \<times> string" where
  "contributor_key c = (\<bar>dl_impact c\<bar>, \<bar>dl_delta c\<bar>, dl_metric c)"

definition contributor_of :: "'s \<Rightarrow> 's \<Rightarrow> 's delta_rule \<Rightarrow> delta_contributor option" where
  "contributor_of current previous r =
    (case rounded_delta (ru_value r current) (ru_value r previous) of
       None \<Rightarrow> None
     | Some d \<Rightarrow> if d = 0 then None
         else Some \<lparr>dl_metric = ru_metric r, dl_delta = d, dl_impact = py_round 2 (ru_impact r current previous),
           dl_direction = (if d > 0 then Up else Down)\<rparr>)"

text \<open>\<open>sorted(..., reverse=True)\<close>, which keeps the order of equal elements.\<close>

definition sorted_reverse :: "('a \<Rightarrow> 'k::linorder) \<Rightarrow> 'a list \<Rightarrow> 'a list" where
  "sorted_reverse key xs = rev (sort_key key (rev xs))"

definition build_contributors :: "'s \<Rightarrow> 's \<Rightarrow> 's delta_rule list \<Rightarrow> delta_contributor list" where
  "build_contributors current previous rules =
     sorted_reverse contributor_key (List.map_filter (contributor_of current previous) rules)"

subsection \<open>Releases\<close>

definition stored_risk_points :: "metric_snapshot \<Rightarrow> (string \<times> pyfloat) list" where
  "stored_risk_points s = (case sn_calculation_provenance s of
     None \<Rightarrow> []
   | Some p \<Rightarrow> (case ro_risk_points (rv_component_outputs p) of None \<Rightarrow> [] | Some rp \<Rightarrow> rp))"

definition points_or_zero :: "(string \<times> pyfloat) list \<Rightarrow> string \<Rightarrow> pyfloat" where
  "points_or_zero rp m = (case map_of rp m of None \<Rightarrow> 0 | Some p \<Rightarrow> p)"

definition release_risk_impact :: "string \<Rightarrow> metric_snapshot \<Rightarrow> metric_snapshot \<Rightarrow> pyfloat" where
  "release_risk_impact m current previous =
     py_round 2 (fsub (points_or_zero (stored_risk_points previous) m) (points_or_zero (stored_risk_points current) m))"

definition mk_delta_rule :: "string \<Rightarrow> ('s \<Rightarrow> pyfloat option) \<Rightarrow> ('s \<Rightarrow> 's \<Rightarrow> pyfloat) \<Rightarrow> 's delta_rule" where
  "mk_delta_rule m v i = \<lparr>ru_metric = m, ru_value = v, ru_impact = i\<rparr>"

definition release_rules :: "metric_snapshot delta_rule list" where
  "release_rules =
    [mk_delta_rule ''open_blockers'' (\<lambda>s. Some (fint (sn_open_blockers s))) (release_risk_impact ''open_blockers''),
     mk_delta_rule ''open_high_severity_bugs'' (\<lambda>s. Some (fint (sn_open_high_severity_bugs s)))
       (release_risk_impact ''open_high_severity_bugs''),
     mk_delta_rule ''reopen_rate_pct'' sn_reopen_rate_pct (release_risk_impact ''reopen_rate_pct''),
     mk_delta_rule ''median_cycle_time_days'' sn_median_cycle_time_days (release_risk_impact ''median_cycle_time_days''),
     mk_delta_rule ''scope_churn_7d_pct'' sn_scope_churn_7d_pct (release_risk_impact ''scope_churn_7d_pct''),
     mk_delta_rule ''completed_tickets'' (\<lambda>s. map_option fint (sn_completed_tickets s)) (\<lambda>_ _. 0)]"

definition compare_release_snapshots :: "metric_snapshot \<Rightarrow> metric_snapshot \<Rightarrow> delta_comparison" where
  "compare_release_snapshots current previous =
     \<lparr>cm_confidence_delta = rounded_delta (sn_confidence_score current) (sn_confidence_score previous),
      cm_contributors = build_contributors current previous release_rules\<rparr>"

subsection \<open>Sprints\<close>

definition sprint_component_value :: "string \<Rightarrow> sprint_metric_snapshot \<Rightarrow> pyfloat option" where
  "sprint_component_value k s = map_option (\<lambda>c. component_value c k) (ss_delivery_confidence_components s)"

definition sprint_weight :: "string \<Rightarrow> sprint_metric_snapshot \<Rightarrow> pyfloat" where
  "sprint_weight k s = (case ss_calculation_provenance s of
     None \<Rightarrow> 0 | Some p \<Rightarrow> points_or_zero (sv_weights p) k)"

definition sprint_component_impact :: "string \<Rightarrow> sprint_metric_snapshot \<Rightarrow> sprint_metric_snapshot \<Rightarrow> pyfloat" where
  "sprint_component_impact k current previous =
    (case rounded_delta (sprint_component_value k current) (sprint_component_value k previous) of
       None \<Rightarrow> 0 | Some d \<Rightarrow> py_round 2 (fmul d (sprint_weight k current)))"

definition sprint_component_rule :: "string \<Rightarrow> string \<Rightarrow> sprint_metric_snapshot delta_rule" where
  "sprint_component_rule m k = mk_delta_rule m (sprint_component_value k) (sprint_component_impact k)"

definition sprint_rules :: "sprint_metric_snapshot delta_rule list" where
  "sprint_rules =
    [sprint_component_rule ''velocity_fit'' ''velocity_fit'',
     sprint_component_rule ''scope_stability'' ''scope_stability'',
     sprint_component_rule ''progress_alignment'' ''progress_alignment'',
     sprint_component_rule ''blocker_health'' ''blocker_penalty'',
     mk_delta_rule ''reopen_rate_pct'' ss_reopen_rate_pct (\<lambda>_ _. 0),
     mk_delta_rule ''bugs_created_during_sprint'' (\<lambda>s. Some (fint (ss_bugs_created_during_sprint s))) (\<lambda>_ _. 0)]"

definition compare_sprint_snapshots :: "sprint_metric_snapshot \<Rightarrow> sprint_metric_snapshot \<Rightarrow> delta_comparison" where
  "compare_sprint_snapshots current previous =
     \<lparr>cm_confidence_delta =
        rounded_delta (ss_delivery_confidence_score current) (ss_delivery_confidence_score previous),
      cm_contributors = build_contributors current previous sprint_rules\<rparr>"

subsection \<open>The driver of a change\<close>

definition primary_driver :: "delta_comparison \<Rightarrow> string" where
  "primary_driver c =
    (case filter (\<lambda>i. dl_impact i \<noteq> 0) (cm_contributors c) of
       i # is \<Rightarrow> dl_metric (first_max contributor_key i is)
     | [] \<Rightarrow> (case cm_contributors c of
         i # is \<Rightarrow> dl_metric (first_max (\<lambda>i. (\<bar>dl_delta i\<bar>, dl_metric i)) i is)
       | [] \<Rightarrow> ''No material change''))"

subsection \<open>The contributors explain the movement of the score\<close>

lemma sum_list_mset_cong: "mset xs = mset ys \<Longrightarrow> sum_list xs = sum_list (ys :: rat list)"
  by (metis sum_mset_sum_list)

lemma sum_contributors:
  "sum_list (map dl_impact (build_contributors current previous rules))
    = sum_list (map dl_impact (List.map_filter (contributor_of current previous) rules))"
  by (rule sum_list_mset_cong) (simp add: build_contributors_def sorted_reverse_def)

text \<open>A snapshot as the recomputation stores it when it has a score.\<close>

definition scored :: "metric_snapshot \<Rightarrow> bool" where
  "scored s \<longleftrightarrow> sn_confidence_score s = Some (compute_release_confidence_score (snapshot_inputs s))
     \<and> stored_risk_points s = compute_release_risk_points (snapshot_inputs s)"

definition POINT_METRICS :: "string list" where
  "POINT_METRICS = [''open_blockers'', ''open_high_severity_bugs'', ''reopen_rate_pct'', ''median_cycle_time_days'',
     ''scope_churn_7d_pct'']"

definition metric_value :: "string \<Rightarrow> metric_snapshot \<Rightarrow> pyfloat option" where
  "metric_value m = ru_value (the (find (\<lambda>r. ru_metric r = m) release_rules))"

text \<open>A change the comparison can see: the value is the same, or its rounded difference is not zero.\<close>

definition visible_change :: "metric_snapshot \<Rightarrow> metric_snapshot \<Rightarrow> string \<Rightarrow> bool" where
  "visible_change current previous m \<longleftrightarrow> metric_value m current = metric_value m previous
     \<or> (\<exists>d. rounded_delta (metric_value m current) (metric_value m previous) = Some d \<and> d \<noteq> 0)"

lemma point_metrics_cases:
  assumes "m \<in> set POINT_METRICS"
  obtains "m = ''open_blockers''" | "m = ''open_high_severity_bugs''" | "m = ''reopen_rate_pct''"
    | "m = ''median_cycle_time_days''" | "m = ''scope_churn_7d_pct''"
  using assms unfolding POINT_METRICS_def list.set
  by (elim insertE emptyE) (rule that, assumption)+

lemma rounded_delta_same: "rounded_delta v v = map_option (\<lambda>_. 0) v"
  by (cases v) (simp_all add: rounded_delta_def fsub_def py_round_def)

lemma rounded_delta_int:
  assumes "\<bar>a - b\<bar> \<le> 2 ^ 53"
  shows "rounded_delta (Some (of_int a)) (Some (of_int b)) = Some (of_int (a - b))"
  unfolding rounded_delta_def using fsub_ints [OF assms] py_round_int [OF assms, of 2] by simp

lemma metric_value_simps:
  "metric_value ''open_blockers'' s = Some (fint (sn_open_blockers s))"
  "metric_value ''open_high_severity_bugs'' s = Some (fint (sn_open_high_severity_bugs s))"
  "metric_value ''reopen_rate_pct'' = sn_reopen_rate_pct"
  "metric_value ''median_cycle_time_days'' = sn_median_cycle_time_days"
  "metric_value ''scope_churn_7d_pct'' = sn_scope_churn_7d_pct"
  by (simp_all add: metric_value_def release_rules_def mk_delta_rule_def)

lemma fint_gt: "0 < fint n \<longleftrightarrow> 0 < n" "1 < fint n \<longleftrightarrow> 1 < n"
proof -
  have v: "fint 0 = 0" "fint 1 = 1" "fint 2 = 2" by (simp_all add: fint_def fl_numeral)
  show "0 < fint n \<longleftrightarrow> 0 < n" using fint_mono [of n 0] fint_mono [of 1 n] v by fastforce
  show "1 < fint n \<longleftrightarrow> 1 < n" using fint_mono [of n 1] fint_mono [of 2 n] v by fastforce
qed

lemma same_value_same_points:
  assumes "m \<in> set POINT_METRICS" and "metric_value m a = metric_value m b"
  shows "int_points_of (snapshot_inputs a) m = int_points_of (snapshot_inputs b) m"
proof -
  have i: "(0 < x) = (0 < y) \<and> (1 < x) = (1 < y)" if "fint x = fint y" for x y
    using fint_gt [of x] fint_gt [of y] that by simp
  from assms(1) show ?thesis
  proof (cases rule: point_metrics_cases)
    case 1
    then show ?thesis using assms(2) i [of "sn_open_blockers a" "sn_open_blockers b"]
      by (simp add: metric_value_simps int_points_of_def snapshot_inputs_def)
  next
    case 2
    then show ?thesis using assms(2) i [of "sn_open_high_severity_bugs a" "sn_open_high_severity_bugs b"]
      by (simp add: metric_value_simps int_points_of_def snapshot_inputs_def)
  qed (use assms(2) in \<open>simp_all add: metric_value_simps int_points_of_def snapshot_inputs_def\<close>)
qed

lemma int_points_small: "0 \<le> int_points_of r m" "int_points_of r m \<le> 28"
  by (simp_all add: int_points_of_def)

lemma impact_int:
  assumes "m \<in> set POINT_METRICS" and "scored current" and "scored previous"
  shows "release_risk_impact m current previous
    = of_int (int_points_of (snapshot_inputs previous) m - int_points_of (snapshot_inputs current) m)"
proof -
  let ?p = "int_points_of (snapshot_inputs previous) m" and ?c = "int_points_of (snapshot_inputs current) m"
  have "points_or_zero (stored_risk_points s) m = of_int (int_points_of (snapshot_inputs s) m)" if "scored s" for s
  proof -
    have "points_of (snapshot_inputs s) m = of_int (int_points_of (snapshot_inputs s) m)"
      by (rule points_of_int) (rule point_metrics_cases [OF assms(1)], simp_all)
    then show ?thesis using that by (simp add: scored_def points_or_zero_def points_of_def)
  qed
  then have "release_risk_impact m current previous = py_round 2 (fsub (of_int ?p) (of_int ?c))"
    using assms(2,3) by (simp add: release_risk_impact_def)
  also have "fsub (of_int ?p) (of_int ?c) = of_int (?p - ?c)"
    using int_points_small [of "snapshot_inputs previous" m] int_points_small [of "snapshot_inputs current" m]
    by (intro fsub_ints) simp
  also have "py_round 2 (of_int (?p - ?c)) = of_int (?p - ?c)"
    using int_points_small [of "snapshot_inputs previous" m] int_points_small [of "snapshot_inputs current" m]
    by (intro py_round_int) simp
  finally show ?thesis .
qed

definition contribution :: "'s \<Rightarrow> 's \<Rightarrow> 's delta_rule \<Rightarrow> rat" where
  "contribution current previous r = (case contributor_of current previous r of None \<Rightarrow> 0 | Some c \<Rightarrow> dl_impact c)"

lemma sum_map_filter:
  "sum_list (map dl_impact (List.map_filter (contributor_of current previous) rules))
    = sum_list (map (contribution current previous) rules)"
  by (induction rules) (simp_all add: map_filter_simps contribution_def split: option.splits)

lemma contribution_of_metric:
  assumes m: "m \<in> set POINT_METRICS" and s: "scored current" "scored previous"
    and v: "visible_change current previous m"
  shows "contribution current previous (mk_delta_rule m (metric_value m) (release_risk_impact m))
    = of_int (int_points_of (snapshot_inputs previous) m - int_points_of (snapshot_inputs current) m)"
proof -
  let ?d = "int_points_of (snapshot_inputs previous) m - int_points_of (snapshot_inputs current) m"
  have r: "py_round 2 (of_int ?d) = (of_int ?d :: rat)"
    using int_points_small [of "snapshot_inputs previous" m] int_points_small [of "snapshot_inputs current" m]
    by (intro py_round_int) simp
  consider "metric_value m current = metric_value m previous"
    | d where "rounded_delta (metric_value m current) (metric_value m previous) = Some d" "d \<noteq> 0"
    using v by (auto simp: visible_change_def)
  then show ?thesis
  proof cases
    case 1
    have "contribution current previous (mk_delta_rule m (metric_value m) (release_risk_impact m)) = 0"
      by (cases "metric_value m previous")
        (simp_all add: contribution_def contributor_of_def mk_delta_rule_def 1 rounded_delta_same)
    then show ?thesis using same_value_same_points [OF m 1] by simp
  next
    case 2
    then show ?thesis using r impact_int [OF m s] by (simp add: contribution_def contributor_of_def mk_delta_rule_def)
  qed
qed

text \<open>C29: Between two snapshots with a score, the impacts of the contributors add up exactly to the
  difference of the scores, provided each changed metric changed by enough for its rounded difference
  not to be zero.\<close>

theorem contributors_explain_score:
  assumes "scored current" and "scored previous"
    and "\<And>m. m \<in> set POINT_METRICS \<Longrightarrow> visible_change current previous m"
  shows "cm_confidence_delta (compare_release_snapshots current previous)
    = Some (sum_list (map dl_impact (cm_contributors (compare_release_snapshots current previous))))"
proof -
  let ?c = "snapshot_inputs current" and ?p = "snapshot_inputs previous"
  let ?d = "sum_list (int_points ?p) - sum_list (int_points ?c)"
  have "fsub (of_int (100 - sum_list (int_points ?c))) (of_int (100 - sum_list (int_points ?p))) = of_int ?d"
    using fsub_ints [of "100 - sum_list (int_points ?c)" "100 - sum_list (int_points ?p)"]
      int_points_bounds(2,3) [of ?c] int_points_bounds(2,3) [of ?p] by simp
  moreover have "py_round 2 (of_int ?d) = (of_int ?d :: rat)"
    using int_points_bounds(2,3) [of ?c] int_points_bounds(2,3) [of ?p] by (intro py_round_int) simp
  ultimately have delta: "cm_confidence_delta (compare_release_snapshots current previous) = Some (of_int ?d)"
    using assms(1,2) by (simp add: compare_release_snapshots_def rounded_delta_def scored_def confidence_score_int
        del: of_int_diff)
  have k: "contribution current previous (mk_delta_rule m (metric_value m) (release_risk_impact m))
      = of_int (int_points_of ?p m - int_points_of ?c m)" if "m \<in> set POINT_METRICS" for m
    by (rule contribution_of_metric [OF that assms(1,2) assms(3) [OF that]])
  have rules: "release_rules = map (\<lambda>m. mk_delta_rule m (metric_value m) (release_risk_impact m)) POINT_METRICS
      @ [mk_delta_rule ''completed_tickets'' (\<lambda>s. map_option fint (sn_completed_tickets s)) (\<lambda>_ _. 0)]"
    by (simp add: release_rules_def POINT_METRICS_def metric_value_simps [abs_def] fun_eq_iff)
  have last_rule: "contribution current previous
      (mk_delta_rule ''completed_tickets'' (\<lambda>s. map_option fint (sn_completed_tickets s)) (\<lambda>_ _. 0)) = 0"
    by (simp add: contribution_def contributor_of_def mk_delta_rule_def py_round_def split: option.splits)
  have "sum_list (map dl_impact (cm_contributors (compare_release_snapshots current previous)))
      = sum_list (map (\<lambda>m. of_int (int_points_of ?p m - int_points_of ?c m)) POINT_METRICS)"
    unfolding compare_release_snapshots_def delta_comparison.select_convs sum_contributors sum_map_filter rules
    using k last_rule by (simp add: POINT_METRICS_def)
  also have "\<dots> = of_int ?d" by (simp add: POINT_METRICS_def sum_int_points)
  finally show ?thesis by (simp add: delta)
qed

subsection \<open>Concrete comparisons\<close>

definition sample_provenance :: "release_inputs \<Rightarrow> release_provenance" where
  "sample_provenance r =
    (let churn = cr_evidence (compute_release_scope_churn_7d raised_store ''R'' ''P'' ''1.0'' default_mapping (naive 0))
     in \<lparr>rv_source_calculated_at = [], rv_thresholds = release_threshold_metadata, rv_weights = RISK_WEIGHTS,
         rv_classification = classification_provenance_of default_mapping,
         rv_availability = \<lparr>ma_context = release_context raised_store ''R'' default_mapping, ma_metrics = []\<rparr>,
         rv_computation_status = COMPUTED, rv_unavailable_reason = None, rv_story_point_coverage = None,
         rv_scope_churn_7d = churn, rv_history_completeness = history_completeness_evidence raised_store [],
         rv_component_inputs = r,
         rv_component_outputs = \<lparr>ro_risk_points = Some (compute_release_risk_points r),
           ro_confidence_breakdown = None, ro_biggest_driver = None, ro_release_gates = [], ro_readiness_pct = None\<rparr>,
         rv_issue_key_evidence = [], rv_metric_evidence = []\<rparr>)"

definition sample_snapshot :: "int \<Rightarrow> pyfloat \<Rightarrow> metric_snapshot" where
  "sample_snapshot blockers days =
    (let r = \<lparr>open_blockers = blockers, open_high_severity_bugs = 0, scope_churn_7d_pct = Some 0,
           reopen_rate_pct = Some 0, median_cycle_time_days = Some days\<rparr>
     in \<lparr>sn_id = 1, sn_release_id = ''R'', sn_snapshot_at = 0, sn_ruleset_version = ruleset_version_const,
         sn_confidence_score = Some (compute_release_confidence_score r), sn_confidence_status = Some COMPUTED,
         sn_calculation_provenance = Some (sample_provenance r), sn_open_blockers = blockers,
         sn_open_high_severity_bugs = 0, sn_open_blocker_issue_keys = [], sn_open_high_severity_bug_issue_keys = [],
         sn_scope_completed_pct = 0, sn_completed_tickets = Some 0, sn_scope_churn_7d_pct = Some 0,
         sn_scope_added_7d_count = 0, sn_scope_removed_7d_count = 0, sn_median_cycle_time_days = Some days,
         sn_reopen_rate_pct = Some 0\<rparr>)"

lemma sample_snapshot_sel:
  "snapshot_inputs (sample_snapshot n d) = \<lparr>open_blockers = n, open_high_severity_bugs = 0,
     scope_churn_7d_pct = Some 0, reopen_rate_pct = Some 0, median_cycle_time_days = Some d\<rparr>"
  "sn_open_blockers (sample_snapshot n d) = n" "sn_open_high_severity_bugs (sample_snapshot n d) = 0"
  "sn_reopen_rate_pct (sample_snapshot n d) = Some 0" "sn_scope_churn_7d_pct (sample_snapshot n d) = Some 0"
  "sn_median_cycle_time_days (sample_snapshot n d) = Some d" "sn_completed_tickets (sample_snapshot n d) = Some 0"
  by (simp_all add: sample_snapshot_def snapshot_inputs_def Let_def)

lemma sample_snapshot_scored: "scored (sample_snapshot n d)"
  unfolding scored_def sample_snapshot_sel stored_risk_points_def
  by (simp add: sample_snapshot_def sample_provenance_def Let_def)

lemma sample_changes: "m \<in> set POINT_METRICS \<Longrightarrow> visible_change (sample_snapshot 1 8) (sample_snapshot 0 6) m"
proof -
  have r: "rounded_delta (Some (fint 1)) (Some (fint 0)) = Some 1" "rounded_delta (Some 8) (Some 6) = Some 2"
    using rounded_delta_int [of 1 0] rounded_delta_int [of 8 6] by (simp_all add: fint_def)
  show "m \<in> set POINT_METRICS \<Longrightarrow> visible_change (sample_snapshot 1 8) (sample_snapshot 0 6) m"
    by (erule point_metrics_cases) (simp_all add: visible_change_def metric_value_simps sample_snapshot_sel r)
qed

lemma contributors_explain_score_witness:
  "cm_confidence_delta (compare_release_snapshots (sample_snapshot 1 8) (sample_snapshot 0 6))
    = Some (sum_list (map dl_impact (cm_contributors
        (compare_release_snapshots (sample_snapshot 1 8) (sample_snapshot 0 6)))))"
  by (rule contributors_explain_score [OF sample_snapshot_scored sample_snapshot_scored sample_changes])

text \<open>A median cycle time that rises from exactly seven days by less than 0.005 costs four points, and the
  comparison shows the movement of the score without any contributor.\<close>

lemma unseen_change:
  assumes "7 < x" and "py_round 2 (fsub x 7) = 0"
  shows "cm_confidence_delta (compare_release_snapshots (sample_snapshot 0 x) (sample_snapshot 0 7)) = Some (- 4)
    \<and> cm_contributors (compare_release_snapshots (sample_snapshot 0 x) (sample_snapshot 0 7)) = []"
proof -
  have d: "rounded_delta (Some x) (Some 7) = Some 0" by (simp add: rounded_delta_def assms(2))
  have "sn_confidence_score (sample_snapshot 0 x) = Some 96" "sn_confidence_score (sample_snapshot 0 7) = Some 100"
    using sample_snapshot_scored [of 0 x] sample_snapshot_scored [of 0 7] assms(1)
    by (simp_all add: scored_def confidence_score_int sample_snapshot_sel int_points.simps)
  moreover have "rounded_delta (Some 96) (Some 100) = Some (- 4)" using rounded_delta_int [of 96 100] by simp
  moreover have "build_contributors (sample_snapshot 0 x) (sample_snapshot 0 7) release_rules = []"
    by (simp add: build_contributors_def sorted_reverse_def release_rules_def mk_delta_rule_def contributor_of_def
        map_filter_simps sample_snapshot_sel d rounded_delta_same)
  ultimately show ?thesis by (simp add: compare_release_snapshots_def)
qed

lemma small_change_unexplained:
  "cm_confidence_delta (compare_release_snapshots (sample_snapshot 0 (fl (7004 / 1000))) (sample_snapshot 0 7)) = Some (- 4)
   \<and> cm_contributors (compare_release_snapshots (sample_snapshot 0 (fl (7004 / 1000))) (sample_snapshot 0 7)) = []"
proof (rule unseen_change)
  show "7 < fl (7004 / 1000)" by code_simp
  show "py_round 2 (fsub (fl (7004 / 1000)) 7) = 0" by code_simp
qed

end
