(* ===== verification/MetricsView.thy ===== *)
theory MetricsView
  imports SignalView SnapshotComparison Recommendations
begin

text \<open>
  The stored release metrics as the API serves them (services/release_metrics_response_service.py): the
  current values, the chart series, the comparison with a baseline snapshot, and the change history. Parsing
  stored values into response models is the identity on what the program stores. The theorems: a value is
  served exactly when the stored availability says it is there, the charts end in the values served, and
  the change history ends in the comparison with the previous snapshot.
\<close>

subsection \<open>Current values\<close>

datatype view_error = View_Not_Found string | View_Invalid string | View_Failure availability_error

definition lift_view :: "availability_error + 'a \<Rightarrow> view_error + 'a" where
  "lift_view r = (case r of Inl e \<Rightarrow> Inl (View_Failure e) | Inr a \<Rightarrow> Inr a)"

record metric_values =
  mv_open_blockers :: "int option"
  mv_open_high_severity_bugs :: "int option"
  mv_scope_completed_pct :: "pyfloat option"
  mv_completed_tickets :: "int option"
  mv_scope_churn_7d_pct :: "pyfloat option"
  mv_scope_added_7d_count :: "int option"
  mv_scope_removed_7d_count :: "int option"
  mv_median_cycle_time_days :: "pyfloat option"
  mv_reopen_rate_pct :: "pyfloat option"

record metric_issue_keys =
  mk_open_blockers :: "string list"
  mk_open_high_severity_bugs :: "string list"
  mk_completed_tickets :: "string list"

record release_metrics_response =
  me_release_id :: string
  me_ruleset_version :: "int option"
  me_ruleset_label :: "string option"
  me_calculation_provenance :: "release_provenance option"
  me_snapshot_at :: "utc option"
  me_computation_status :: computation_status
  me_unavailable_reason :: "string option"
  me_metrics :: metric_values
  me_metric_issue_keys :: metric_issue_keys
  me_metric_names :: "string list"
  me_metric_availability :: metric_availability
  me_metric_thresholds :: "(string \<times> py_number) list option"
  me_confidence_score :: "pyfloat option"
  me_confidence_breakdown :: "confidence_breakdown option"
  me_biggest_driver :: "driver_analysis option"
  me_recommendations :: "recommendation_action list"
  me_is_computed :: bool
  me_snapshot_age_hours :: "pyfloat option"

definition RELEASE_METRIC_NAMES :: "string list" where
  "RELEASE_METRIC_NAMES = metric_api_fields metric_catalog Release_Scope (Some Metric_values) None"

definition RELEASE_CHART_METRIC_NAMES :: "string list" where
  "RELEASE_CHART_METRIC_NAMES = metric_api_fields metric_catalog Release_Scope None (Some True)"

definition stored_availability :: "metric_snapshot \<Rightarrow> items" where
  "stored_availability s = (case sn_calculation_provenance s of None \<Rightarrow> [] | Some p \<Rightarrow> ma_metrics (rv_availability p))"

definition stored_metric_value :: "metric_snapshot \<Rightarrow> string \<Rightarrow> 'v option \<Rightarrow> 'v option" where
  "stored_metric_value s name v =
    (case map_of (stored_availability s) name of
       Some i \<Rightarrow> if \<not> ai_available i then None else v
     | None \<Rightarrow> v)"

definition no_values :: metric_values where
  "no_values = \<lparr>mv_open_blockers = None, mv_open_high_severity_bugs = None, mv_scope_completed_pct = None,
     mv_completed_tickets = None, mv_scope_churn_7d_pct = None, mv_scope_added_7d_count = None,
     mv_scope_removed_7d_count = None, mv_median_cycle_time_days = None, mv_reopen_rate_pct = None\<rparr>"

definition served_values :: "metric_snapshot \<Rightarrow> metric_values" where
  "served_values s =
     \<lparr>mv_open_blockers = stored_metric_value s ''open_blockers'' (Some (sn_open_blockers s)),
      mv_open_high_severity_bugs =
        stored_metric_value s ''open_high_severity_bugs'' (Some (sn_open_high_severity_bugs s)),
      mv_scope_completed_pct = stored_metric_value s ''scope_completed_pct'' (Some (sn_scope_completed_pct s)),
      mv_completed_tickets = stored_metric_value s ''completed_tickets'' (sn_completed_tickets s),
      mv_scope_churn_7d_pct = stored_metric_value s ''scope_churn_7d_pct'' (sn_scope_churn_7d_pct s),
      mv_scope_added_7d_count =
        stored_metric_value s ''scope_added_7d_count'' (Some (sn_scope_added_7d_count s)),
      mv_scope_removed_7d_count =
        stored_metric_value s ''scope_removed_7d_count'' (Some (sn_scope_removed_7d_count s)),
      mv_median_cycle_time_days = sn_median_cycle_time_days s,
      mv_reopen_rate_pct = sn_reopen_rate_pct s\<rparr>"

definition ruleset_label_of :: "int \<Rightarrow> string" where
  "ruleset_label_of v = (if v = 0 then ''Unversioned legacy result'' else ''Ruleset v'' @ int_str v)"

definition snapshot_age_hours :: "py_datetime \<Rightarrow> utc \<Rightarrow> pyfloat" where
  "snapshot_age_hours now t = py_round 3 (fdiv (total_seconds (to_utc now - t)) 3600)"

definition not_computed_metrics :: "string \<Rightarrow> metric_availability \<Rightarrow> release_metrics_response" where
  "not_computed_metrics rid a =
    (case computation_state a False UNAVAILABLE_REASON_NO_TICKETS of (status, reason) \<Rightarrow>
       \<lparr>me_release_id = rid, me_ruleset_version = None, me_ruleset_label = None, me_calculation_provenance = None,
        me_snapshot_at = None, me_computation_status = status, me_unavailable_reason = reason,
        me_metrics = no_values,
        me_metric_issue_keys = \<lparr>mk_open_blockers = [], mk_open_high_severity_bugs = [], mk_completed_tickets = []\<rparr>,
        me_metric_names = RELEASE_METRIC_NAMES, me_metric_availability = a, me_metric_thresholds = None,
        me_confidence_score = None, me_confidence_breakdown = None, me_biggest_driver = None,
        me_recommendations = [], me_is_computed = False, me_snapshot_age_hours = None\<rparr>)"

text \<open>Whether there are tickets is asked of the live availability, everything else of the stored one. Outputs
  are shown whatever the version of the snapshot.\<close>

definition computed_metrics :: "py_datetime \<Rightarrow> metric_availability \<Rightarrow> metric_snapshot \<Rightarrow> release_metrics_response" where
  "computed_metrics now live s =
    (let current = (if sn_ruleset_version s > 0 then sn_calculation_provenance s else None);
         availability = (case current of None \<Rightarrow> live | Some p \<Rightarrow> rv_availability p);
         (status, reason) = (case current of
             None \<Rightarrow> computation_state live True UNAVAILABLE_REASON_NO_TICKETS
           | Some p \<Rightarrow> (if rv_computation_status p \<in> {COMPUTED, PARTIAL, NOT_COMPUTED} then rv_computation_status p
               else fst (computation_state live True UNAVAILABLE_REASON_NO_TICKETS), rv_unavailable_reason p));
         outputs = map_option rv_component_outputs (sn_calculation_provenance s)
     in \<lparr>me_release_id = sn_release_id s, me_ruleset_version = Some (sn_ruleset_version s),
         me_ruleset_label = Some (ruleset_label_of (sn_ruleset_version s)),
         me_calculation_provenance = sn_calculation_provenance s, me_snapshot_at = Some (sn_snapshot_at s),
         me_computation_status = status, me_unavailable_reason = reason,
         me_metrics = served_values s,
         me_metric_issue_keys = \<lparr>mk_open_blockers = sn_open_blocker_issue_keys s,
           mk_open_high_severity_bugs = sn_open_high_severity_bug_issue_keys s,
           mk_completed_tickets = (case current of None \<Rightarrow> []
             | Some p \<Rightarrow> (case map_of (rv_issue_key_evidence p) ''completed_tickets'' of None \<Rightarrow> [] | Some ks \<Rightarrow> ks))\<rparr>,
         me_metric_names = RELEASE_METRIC_NAMES, me_metric_availability = availability,
         me_metric_thresholds = (case current of None \<Rightarrow> None
           | Some p \<Rightarrow> if rv_thresholds p \<noteq> [] then Some (rv_thresholds p) else None),
         me_confidence_score = (if has_tickets (ma_context live) \<and> sn_ruleset_version s > 0
           then sn_confidence_score s else None),
         me_confidence_breakdown = Option.bind outputs ro_confidence_breakdown,
         me_biggest_driver = Option.bind outputs ro_biggest_driver,
         me_recommendations = (if has_tickets (ma_context live)
           then build_release_recommendations (snapshot_inputs s) (Some availability) else []),
         me_is_computed = True, me_snapshot_age_hours = Some (snapshot_age_hours now (sn_snapshot_at s))\<rparr>)"

definition get_metrics ::
  "store \<Rightarrow> derived_tables \<Rightarrow> field_mapping \<Rightarrow> string \<Rightarrow> py_datetime \<Rightarrow> view_error + release_metrics_response" where
  "get_metrics db d fm rid now =
    (if find_release db rid = None then Inl (View_Not_Found (release_missing rid))
     else and_then (lift_view (build_release_availability db rid fm None None)) (\<lambda>live.
       Inr (case get_latest_snapshot d rid of
           None \<Rightarrow> not_computed_metrics rid live
         | Some s \<Rightarrow> computed_metrics now live s)))"

subsection \<open>Charts\<close>

record 'v chart_point =
  pt_snapshot_at :: utc
  pt_value :: "'v option"
  pt_ruleset_version :: int
  pt_version_boundary :: bool

record metric_series =
  se_open_blockers :: "int chart_point list"
  se_open_high_severity_bugs :: "int chart_point list"
  se_scope_completed_pct :: "pyfloat chart_point list"
  se_completed_tickets :: "int chart_point list"
  se_scope_churn_7d_pct :: "pyfloat chart_point list"
  se_scope_added_7d_count :: "int chart_point list"
  se_scope_removed_7d_count :: "int chart_point list"
  se_median_cycle_time_days :: "pyfloat chart_point list"
  se_reopen_rate_pct :: "pyfloat chart_point list"
  se_confidence_score :: "pyfloat chart_point list"
  se_gates_passed_count :: "int chart_point list"
  se_readiness_pct :: "pyfloat chart_point list"

record release_charts_response =
  ch_release_id :: string
  ch_series :: metric_series
  ch_metric_names :: "string list"
  ch_point_count :: nat
  ch_release_gates_total :: nat

definition build_release_gate_values :: "metric_snapshot \<Rightarrow> int option \<times> nat \<times> pyfloat option" where
  "build_release_gate_values s =
    (if sn_ruleset_version s = 0 then (None, 0, None)
     else case sn_calculation_provenance s of
         None \<Rightarrow> (Some 0, 0, None)
       | Some p \<Rightarrow> (let gates = ro_release_gates (rv_component_outputs p)
           in (Some (int (length (filter gate_passed gates))), length gates, ro_readiness_pct (rv_component_outputs p))))"

definition chart_point_of :: "metric_snapshot list \<Rightarrow> (metric_snapshot \<Rightarrow> 'v option) \<Rightarrow> nat \<Rightarrow> 'v chart_point" where
  "chart_point_of xs f n =
     \<lparr>pt_snapshot_at = sn_snapshot_at (xs ! n), pt_value = f (xs ! n), pt_ruleset_version = sn_ruleset_version (xs ! n),
      pt_version_boundary = (n > 0 \<and> sn_ruleset_version (xs ! (n - 1)) \<noteq> sn_ruleset_version (xs ! n))\<rparr>"

definition chart_points :: "metric_snapshot list \<Rightarrow> (metric_snapshot \<Rightarrow> 'v option) \<Rightarrow> 'v chart_point list" where
  "chart_points xs f = map (chart_point_of xs f) [0..<length xs]"

definition release_charts :: "string \<Rightarrow> bool \<Rightarrow> metric_snapshot list \<Rightarrow> release_charts_response" where
  "release_charts rid tickets xs =
    (let gates = (\<lambda>s. if tickets then build_release_gate_values s else (None, 0, None))
     in \<lparr>ch_release_id = rid,
         ch_series = \<lparr>
           se_open_blockers = chart_points xs (\<lambda>s. stored_metric_value s ''open_blockers'' (Some (sn_open_blockers s))),
           se_open_high_severity_bugs = chart_points xs
             (\<lambda>s. stored_metric_value s ''open_high_severity_bugs'' (Some (sn_open_high_severity_bugs s))),
           se_scope_completed_pct = chart_points xs
             (\<lambda>s. stored_metric_value s ''scope_completed_pct'' (Some (sn_scope_completed_pct s))),
           se_completed_tickets = chart_points xs (\<lambda>s. stored_metric_value s ''completed_tickets'' (sn_completed_tickets s)),
           se_scope_churn_7d_pct = chart_points xs
             (\<lambda>s. stored_metric_value s ''scope_churn_7d_pct'' (sn_scope_churn_7d_pct s)),
           se_scope_added_7d_count = chart_points xs
             (\<lambda>s. stored_metric_value s ''scope_added_7d_count'' (Some (sn_scope_added_7d_count s))),
           se_scope_removed_7d_count = chart_points xs
             (\<lambda>s. stored_metric_value s ''scope_removed_7d_count'' (Some (sn_scope_removed_7d_count s))),
           se_median_cycle_time_days = chart_points xs sn_median_cycle_time_days,
           se_reopen_rate_pct = chart_points xs sn_reopen_rate_pct,
           se_confidence_score = chart_points xs
             (\<lambda>s. if tickets \<and> sn_ruleset_version s > 0 then sn_confidence_score s else None),
           se_gates_passed_count = chart_points xs (\<lambda>s. fst (gates s)),
           se_readiness_pct = chart_points xs (\<lambda>s. snd (snd (gates s)))\<rparr>,
         ch_metric_names = RELEASE_CHART_METRIC_NAMES, ch_point_count = length xs,
         ch_release_gates_total = fold max (map (\<lambda>s. fst (snd (gates s))) xs) 0\<rparr>)"

text \<open>The bounds are instants.\<close>

definition get_charts ::
  "store \<Rightarrow> derived_tables \<Rightarrow> string \<Rightarrow> nat \<Rightarrow> utc option \<Rightarrow> utc option \<Rightarrow> view_error + release_charts_response" where
  "get_charts db d rid limit from_at to_at =
    (if find_release db rid = None then Inl (View_Not_Found (release_missing rid))
     else if (case (from_at, to_at) of (Some f, Some t) \<Rightarrow> f > t | _ \<Rightarrow> False)
     then Inl (View_Invalid (CHR 0x27 # ''from'' @ CHR 0x27 # '' must be less than or equal to '' @ quoted ''to''))
     else Inr (release_charts rid (length (release_issues db rid) > 0)
       (list_snapshots_for_release d rid limit from_at to_at)))"

subsection \<open>Comparison with a baseline\<close>

datatype snapshot_baseline = Previous_Snapshot | Hours_24 | Days_7

record comparison_response =
  cs_entity_id :: string
  cs_baseline :: snapshot_baseline
  cs_current_snapshot_at :: "utc option"
  cs_baseline_snapshot_at :: "utc option"
  cs_has_baseline :: bool
  cs_current_ruleset_version :: "int option"
  cs_baseline_ruleset_version :: "int option"
  cs_unavailable_reason :: "string option"
  cs_comparison :: delta_comparison

definition INCONCLUSIVE_RELEASE_CONFIDENCE_REASON :: string where
  "INCONCLUSIVE_RELEASE_CONFIDENCE_REASON =
     ''Snapshot comparison unavailable because release confidence is inconclusive for one or both snapshots.''"

definition UNAVAILABLE_RELEASE_CONFIDENCE_REASON :: string where
  "UNAVAILABLE_RELEASE_CONFIDENCE_REASON =
     ''Snapshot comparison unavailable because release confidence is unavailable for one or both snapshots.''"

definition empty_comparison :: "string \<Rightarrow> snapshot_baseline \<Rightarrow> utc option \<Rightarrow> int option \<Rightarrow> comparison_response" where
  "empty_comparison entity b current_at version =
     \<lparr>cs_entity_id = entity, cs_baseline = b, cs_current_snapshot_at = current_at, cs_baseline_snapshot_at = None,
      cs_has_baseline = False, cs_current_ruleset_version = version, cs_baseline_ruleset_version = None,
      cs_unavailable_reason = None, cs_comparison = \<lparr>cm_confidence_delta = Some 0, cm_contributors = []\<rparr>\<rparr>"

definition baseline_hours :: "snapshot_baseline \<Rightarrow> int" where
  "baseline_hours b = (if b = Hours_24 then 24 else 24 * 7)"

definition hour_us :: int where "hour_us = 3600 * 1000000"

definition select_release_baseline_snapshot ::
  "derived_tables \<Rightarrow> string \<Rightarrow> metric_snapshot \<Rightarrow> snapshot_baseline \<Rightarrow> metric_snapshot option" where
  "select_release_baseline_snapshot d rid s b =
    (if b = Previous_Snapshot then get_previous_snapshot d rid (sn_snapshot_at s) (sn_id s)
     else get_latest_snapshot_at_or_before d rid (sn_snapshot_at s - baseline_hours b * hour_us))"

definition stored_classification :: "metric_snapshot \<Rightarrow> classification_provenance option" where
  "stored_classification s = map_option rv_classification (sn_calculation_provenance s)"

definition missing_score_reason :: "metric_snapshot \<Rightarrow> metric_snapshot \<Rightarrow> string" where
  "missing_score_reason a b =
    (if sn_confidence_status a = Some PARTIAL \<or> sn_confidence_status b = Some PARTIAL
     then INCONCLUSIVE_RELEASE_CONFIDENCE_REASON else UNAVAILABLE_RELEASE_CONFIDENCE_REASON)"

definition no_release_comparison :: "metric_snapshot \<Rightarrow> metric_snapshot \<Rightarrow> string option" where
  "no_release_comparison s b =
    (if sn_ruleset_version s \<noteq> sn_ruleset_version b then Some RULESET_MISMATCH_REASON
     else if sn_ruleset_version s = 0 then Some LEGACY_RELEASE_CONFIDENCE_REASON
     else case classification_unavailable_reason (stored_classification s) (stored_classification b) of
         Some reason \<Rightarrow> Some reason
       | None \<Rightarrow> if sn_confidence_score s = None \<or> sn_confidence_score b = None
           then Some (missing_score_reason s b) else None)"

definition release_comparison ::
  "string \<Rightarrow> snapshot_baseline \<Rightarrow> metric_snapshot \<Rightarrow> metric_snapshot option \<Rightarrow> comparison_response" where
  "release_comparison rid b s old = (case old of
       None \<Rightarrow> empty_comparison rid b (Some (sn_snapshot_at s)) (Some (sn_ruleset_version s))
     | Some p \<Rightarrow> \<lparr>cs_entity_id = rid, cs_baseline = b, cs_current_snapshot_at = Some (sn_snapshot_at s),
         cs_baseline_snapshot_at = Some (sn_snapshot_at p), cs_has_baseline = True,
         cs_current_ruleset_version = Some (sn_ruleset_version s),
         cs_baseline_ruleset_version = Some (sn_ruleset_version p),
         cs_unavailable_reason = no_release_comparison s p,
         cs_comparison = (if no_release_comparison s p \<noteq> None
           then \<lparr>cm_confidence_delta = None, cm_contributors = []\<rparr> else compare_release_snapshots s p)\<rparr>)"

definition get_snapshot_comparison ::
  "store \<Rightarrow> derived_tables \<Rightarrow> string \<Rightarrow> snapshot_baseline \<Rightarrow> view_error + comparison_response" where
  "get_snapshot_comparison db d rid b =
    (if find_release db rid = None then Inl (View_Not_Found (release_missing rid))
     else Inr (case get_latest_snapshot d rid of
         None \<Rightarrow> empty_comparison rid b None None
       | Some s \<Rightarrow> release_comparison rid b s (select_release_baseline_snapshot d rid s b)))"

subsection \<open>Change history\<close>

record history_item =
  hi_date :: utc
  hi_ruleset_version :: int
  hi_version_boundary :: bool
  hi_confidence :: "pyfloat option"
  hi_delta :: "pyfloat option"
  hi_primary_driver :: string
  hi_comparison_unavailable_reason :: "string option"

definition release_history_item :: "metric_snapshot option \<Rightarrow> metric_snapshot \<Rightarrow> history_item" where
  "release_history_item previous s =
    (let confidence = confidence_score_for_snapshot s;
         item = \<lparr>hi_date = sn_snapshot_at s, hi_ruleset_version = sn_ruleset_version s, hi_version_boundary = False,
           hi_confidence = confidence, hi_delta = None, hi_primary_driver = ''Not available'',
           hi_comparison_unavailable_reason = None\<rparr>
     in case previous of
          None \<Rightarrow> item\<lparr>hi_primary_driver := (if confidence \<noteq> None then ''Baseline snapshot'' else ''Not available''),
            hi_comparison_unavailable_reason :=
              (if sn_ruleset_version s = 0 then Some LEGACY_RELEASE_CONFIDENCE_REASON else None)\<rparr>
        | Some p \<Rightarrow>
            if sn_ruleset_version p \<noteq> sn_ruleset_version s
            then item\<lparr>hi_version_boundary := True, hi_primary_driver := ''Ruleset boundary'',
              hi_comparison_unavailable_reason := Some RULESET_MISMATCH_REASON\<rparr>
            else (case classification_unavailable_reason (stored_classification s) (stored_classification p) of
                Some reason \<Rightarrow> item\<lparr>hi_primary_driver := ''Classification boundary'',
                  hi_comparison_unavailable_reason := Some reason\<rparr>
              | None \<Rightarrow> if confidence = None \<or> sn_confidence_score p = None
                  then item\<lparr>hi_comparison_unavailable_reason := Some (missing_score_reason s p)\<rparr>
                  else let c = compare_release_snapshots s p
                    in item\<lparr>hi_delta := cm_confidence_delta c, hi_primary_driver := primary_driver c\<rparr>))"

fun build_history :: "('s option \<Rightarrow> 's \<Rightarrow> history_item) \<Rightarrow> 's option \<Rightarrow> 's list \<Rightarrow> history_item list" where
  "build_history item previous [] = []"
| "build_history item previous (s # ss) = item previous s # build_history item (Some s) ss"

definition get_snapshot_change_history ::
  "store \<Rightarrow> derived_tables \<Rightarrow> string \<Rightarrow> nat \<Rightarrow> view_error + history_item list" where
  "get_snapshot_change_history db d rid limit =
    (if find_release db rid = None then Inl (View_Not_Found (release_missing rid))
     else Inr (build_history release_history_item None (list_snapshots_for_release d rid limit None None)))"

subsection \<open>The order of snapshots\<close>

text \<open>With distinct keys, the predecessor of the latest row is the second of the descending order.\<close>

lemma sorted_strict:
  assumes "sorted (map key xs)" and "distinct (map key xs)"
  shows "sorted_wrt (\<lambda>x y. key x < key y) xs"
  using assms by (induction xs) (auto simp: le_less)

lemma latest_then_previous:
  assumes l: "latest_by key rows = Some s" and d: "distinct (map key rows)"
  obtains ys where "rev (sort_key key rows) = s # ys"
    and "latest_by key (filter (\<lambda>x. key x < key s) rows) = (case ys of [] \<Rightarrow> None | p # _ \<Rightarrow> Some p)"
proof -
  obtain ys where ys: "rev (sort_key key rows) = s # ys" using l by (auto simp: latest_by_def split: list.splits)
  then have s: "sort_key key rows = rev ys @ [s]" by (metis rev.simps(2) rev_rev_ident)
  have "mset (map key (sort_key key rows)) = mset (map key rows)" by simp
  then have dist: "distinct (map key (sort_key key rows))" using d by (metis mset_eq_imp_distinct_iff)
  have "sorted_wrt (\<lambda>x y. key x < key y) (sort_key key rows)" by (rule sorted_strict [OF sorted_sort_key dist])
  then have lt: "key x < key s" if "x \<in> set ys" for x
    using that unfolding s by (simp add: sorted_wrt_append)
  have "rev (sort_key key (filter (\<lambda>x. key x < key s) rows)) = filter (\<lambda>x. key x < key s) (rev (sort_key key rows))"
    by (simp only: filter_sort [symmetric] rev_filter)
  also have "\<dots> = ys" using lt by (simp add: ys filter_id_conv)
  finally show ?thesis using that [OF ys] by (simp add: latest_by_def)
qed

lemma distinct_order:
  assumes "distinct (map f rows)"
  shows "distinct (map (\<lambda>x. (g x, f x)) rows)"
  using assms by (simp add: distinct_map inj_on_def)

text \<open>What the history and the comparison ask of a table of snapshots; the listing without bounds ends in the
  latest snapshot, after its predecessor.\<close>

locale snapshot_queries =
  fixes time :: "'s \<Rightarrow> utc" and ident :: "'s \<Rightarrow> nat" and rows :: "'d \<Rightarrow> string \<Rightarrow> 's list"
    and latest :: "'d \<Rightarrow> string \<Rightarrow> 's option" and previous :: "'d \<Rightarrow> string \<Rightarrow> utc \<Rightarrow> nat \<Rightarrow> 's option"
    and listing :: "'d \<Rightarrow> string \<Rightarrow> nat \<Rightarrow> 's list"
  assumes latest: "latest d x = latest_by (\<lambda>s. (time s, ident s)) (rows d x)"
    and previous: "previous d x t n = latest_by (\<lambda>s. (time s, ident s))
      (filter (\<lambda>s. time s < t \<or> (time s = t \<and> ident s < n)) (rows d x))"
    and listing: "listing d x limit = rev (take limit (rev (sort_key (\<lambda>s. (time s, ident s)) (rows d x))))"
begin

lemma listing_ends:
  assumes "distinct (map ident (rows d x))" and "latest d x = Some s" and "limit \<ge> 2"
  obtains xs where "listing d x limit = xs @ [s]"
    and "previous d x (time s) (ident s) = (if xs = [] then None else Some (last xs))"
proof -
  let ?order = "\<lambda>s. (time s, ident s)"
  obtain ys where ys: "rev (sort_key ?order (rows d x)) = s # ys"
    "latest_by ?order (filter (\<lambda>y. ?order y < ?order s) (rows d x)) = (case ys of [] \<Rightarrow> None | p # _ \<Rightarrow> Some p)"
    using latest_then_previous [OF assms(2) [unfolded latest] distinct_order [OF assms(1)]] .
  have lt: "(\<lambda>y. ?order y < ?order s) = (\<lambda>y. time y < time s \<or> (time y = time s \<and> ident y < ident s))"
    by auto
  obtain n where n: "limit = Suc (Suc n)" using assms(3) by (metis add_2_eq_Suc le_Suc_ex)
  have "listing d x limit = rev (take (Suc n) ys) @ [s]" by (simp add: listing ys(1) n)
  moreover have "previous d x (time s) (ident s)
      = (if rev (take (Suc n) ys) = [] then None else Some (last (rev (take (Suc n) ys))))"
    using ys(2) unfolding previous lt by (cases ys) (simp_all add: last_rev)
  ultimately show ?thesis using that by blast
qed

lemma listing_latest:
  assumes "latest d x = Some s" and "limit \<ge> 1"
  obtains xs where "listing d x limit = xs @ [s]"
proof -
  obtain ys where ys: "rev (sort_key (\<lambda>s. (time s, ident s)) (rows d x)) = s # ys"
    using assms(1) by (auto simp: latest latest_by_def split: list.splits)
  obtain n where "limit = Suc n" using assms(2) by (metis One_nat_def Suc_le_D)
  then show ?thesis using that [of "rev (take n ys)"] by (simp add: listing ys)
qed

end

interpretation release_rows: snapshot_queries sn_snapshot_at sn_id snapshots_of get_latest_snapshot
  get_previous_snapshot "\<lambda>d rid limit. list_snapshots_for_release d rid limit None None"
  by unfold_locales
    (simp_all add: get_latest_snapshot_def get_previous_snapshot_def list_snapshots_for_release_def
      snapshot_order_def [abs_def])

lemma distinct_snapshots_of:
  "distinct (map sn_id (metric_snapshots d)) \<Longrightarrow> distinct (map sn_id (snapshots_of d rid))"
  by (simp add: snapshots_of_def distinct_map_filter)

lemma build_history_snoc:
  "build_history item p (xs @ [s]) = build_history item p xs @ [item (if xs = [] then p else Some (last xs)) s]"
  by (induction xs arbitrary: p) auto

text \<open>C24: the change history and the comparison with the previous snapshot tell the same story. For a
  release whose latest snapshot is of a numbered ruleset, the last item of any history of at least two
  entries is that snapshot; it has the same reason against a comparison as the comparison itself and the
  same change of the score, and it is the only item exactly when the comparison has no baseline.\<close>

theorem history_agrees_with_comparison:
  assumes "find_release db rid \<noteq> None" and "distinct (map sn_id (metric_snapshots d))"
    and "get_latest_snapshot d rid = Some s" and "sn_ruleset_version s > 0" and "limit \<ge> 2"
  shows "\<exists>c h. get_snapshot_comparison db d rid Previous_Snapshot = Inr c
    \<and> get_snapshot_change_history db d rid limit = Inr h \<and> h \<noteq> [] \<and> hi_date (last h) = sn_snapshot_at s
    \<and> hi_comparison_unavailable_reason (last h) = cs_unavailable_reason c
    \<and> cs_has_baseline c = (length h > 1)
    \<and> hi_delta (last h) = (if cs_has_baseline c then cm_confidence_delta (cs_comparison c) else None)"
proof -
  from release_rows.listing_ends [OF distinct_snapshots_of [OF assms(2)] assms(3,5)] obtain xs where
    xs: "list_snapshots_for_release d rid limit None None = xs @ [s]"
    "get_previous_snapshot d rid (sn_snapshot_at s) (sn_id s) = (if xs = [] then None else Some (last xs))" .
  have h: "get_snapshot_change_history db d rid limit = Inr (build_history release_history_item None xs
      @ [release_history_item (if xs = [] then None else Some (last xs)) s])"
    using assms(1) by (simp add: get_snapshot_change_history_def xs(1) build_history_snoc)
  have c: "get_snapshot_comparison db d rid Previous_Snapshot
      = Inr (release_comparison rid Previous_Snapshot s (if xs = [] then None else Some (last xs)))"
    using assms(1,3) by (simp add: get_snapshot_comparison_def select_release_baseline_snapshot_def xs(2))
  have len: "length (build_history item p zs) = length zs" for item p and zs :: "'b list"
    by (induction zs arbitrary: p) simp_all
  have conf: "confidence_score_for_snapshot s = sn_confidence_score s"
    using assms(4) by (simp add: confidence_score_for_snapshot_def)
  have item: "hi_comparison_unavailable_reason (release_history_item (Some p) s) = no_release_comparison s p
      \<and> hi_delta (release_history_item (Some p) s) =
          (if no_release_comparison s p \<noteq> None then None else cm_confidence_delta (compare_release_snapshots s p))
      \<and> hi_date (release_history_item (Some p) s) = sn_snapshot_at s" for p
    using assms(4)
    by (auto simp: release_history_item_def no_release_comparison_def Let_def conf split: option.splits)
  show ?thesis
  proof (cases "xs = []")
    case True
    then show ?thesis using h c assms(4)
      by (auto simp: release_comparison_def empty_comparison_def release_history_item_def Let_def conf)
  next
    case False
    then show ?thesis using h c item [of "last xs"]
      by (auto simp: release_comparison_def len)
  qed
qed

subsection \<open>The charts end in the served values\<close>

definition last_value :: "'v chart_point list \<Rightarrow> 'v option" where
  "last_value ps = (case rev ps of [] \<Rightarrow> None | p # _ \<Rightarrow> pt_value p)"

definition last_values :: "metric_series \<Rightarrow> metric_values" where
  "last_values c =
     \<lparr>mv_open_blockers = last_value (se_open_blockers c),
      mv_open_high_severity_bugs = last_value (se_open_high_severity_bugs c),
      mv_scope_completed_pct = last_value (se_scope_completed_pct c),
      mv_completed_tickets = last_value (se_completed_tickets c),
      mv_scope_churn_7d_pct = last_value (se_scope_churn_7d_pct c),
      mv_scope_added_7d_count = last_value (se_scope_added_7d_count c),
      mv_scope_removed_7d_count = last_value (se_scope_removed_7d_count c),
      mv_median_cycle_time_days = last_value (se_median_cycle_time_days c),
      mv_reopen_rate_pct = last_value (se_reopen_rate_pct c)\<rparr>"

lemma last_chart_point [simp]: "last_value (chart_points (xs @ [s]) f) = f s"
  by (simp add: last_value_def chart_points_def chart_point_of_def)

lemma live_availability:
  obtains live where "build_release_availability db rid fm None None = Inr live"
    and "has_tickets (ma_context live) = (release_issues db rid \<noteq> [])"
proof -
  obtain live where l: "build_release_availability db rid fm None None = Inr live"
    "ma_context live = release_context db rid fm"
    using build_release_availability_keeps [of None None db rid fm] by auto
  have "has_tickets (release_context db rid fm) = (release_issues db rid \<noteq> [])"
    by (simp add: release_context_def Let_def)
  then show ?thesis using that l by simp
qed

text \<open>the charts end in what the metrics answer shows. For a release with a snapshot, every series of
  its charts (without bounds, with room for a point) has as its last value the value of the metrics
  answer, hidden exactly when that one is, and so has the series of the confidence score.\<close>

theorem charts_end_in_served_values:
  assumes "find_release db rid \<noteq> None" and "get_latest_snapshot d rid = Some s" and "limit \<ge> 1"
  shows "\<exists>c m. get_charts db d rid limit None None = Inr c \<and> get_metrics db d fm rid now = Inr m
    \<and> last_values (ch_series c) = me_metrics m
    \<and> last_value (se_confidence_score (ch_series c)) = me_confidence_score m
    \<and> ch_point_count c \<ge> 1 \<and> ch_point_count c \<le> limit"
proof -
  obtain xs where xs: "list_snapshots_for_release d rid limit None None = xs @ [s]"
    using release_rows.listing_latest [OF assms(2,3)] .
  obtain live where live: "build_release_availability db rid fm None None = Inr live"
    "has_tickets (ma_context live) = (release_issues db rid \<noteq> [])"
    using live_availability .
  have c: "get_charts db d rid limit None None = Inr (release_charts rid (release_issues db rid \<noteq> []) (xs @ [s]))"
    using assms(1) by (simp add: get_charts_def xs)
  have m: "get_metrics db d fm rid now = Inr (computed_metrics now live s)"
    using assms(1,2) by (simp add: get_metrics_def live(1) lift_view_def)
  have "length (list_snapshots_for_release d rid limit None None) \<le> limit"
    by (simp add: list_snapshots_for_release_def)
  then have "ch_point_count (release_charts rid (release_issues db rid \<noteq> []) (xs @ [s])) \<le> limit"
    by (simp add: release_charts_def Let_def xs)
  then show ?thesis using c m
    by (auto simp: release_charts_def computed_metrics_def Let_def last_values_def served_values_def live(2) split_beta)
qed

lemma first_snapshot_stored:
  "\<exists>s db1. recompute_release_metrics day_us default_mapping ''R'' release_db = Inr (s, db1)
    \<and> evidence db1 = evidence release_db \<and> metric_snapshots (derived db1) = [s]
    \<and> get_latest_snapshot (derived db1) ''R'' = Some s \<and> sn_ruleset_version s > 0"
proof -
  obtain s db1 where m: "recompute_release_metrics day_us default_mapping ''R'' release_db = Inr (s, db1)"
    using release_snapshot_facts [where db = release_db and rid = "''R''" and now = day_us and fm = default_mapping]
    unfolding release_db_facts(2) option.case by blast
  note fr = recompute_release_frame [OF m]
  have d: "metric_snapshots (derived db1) = [s]" by (simp add: fr(5) add_snapshot_def release_db_def no_derived_def)
  then have "get_latest_snapshot (derived db1) ''R'' = Some s"
    by (simp add: get_latest_snapshot_def snapshots_of_def fr(4) latest_by_def)
  then show ?thesis using m d fr(1,6) by (simp add: ruleset_version_const_def)
qed

lemma history_agrees_with_comparison_witness:
  "\<exists>s db1 c h. recompute_release_metrics day_us default_mapping ''R'' release_db = Inr (s, db1)
    \<and> get_snapshot_comparison (evidence db1) (derived db1) ''R'' Previous_Snapshot = Inr c
    \<and> get_snapshot_change_history (evidence db1) (derived db1) ''R'' 2 = Inr h
    \<and> hi_date (last h) = sn_snapshot_at s \<and> cs_has_baseline c = (length h > 1)"
proof -
  obtain s db1 where s: "recompute_release_metrics day_us default_mapping ''R'' release_db = Inr (s, db1)"
    "evidence db1 = evidence release_db" "metric_snapshots (derived db1) = [s]"
    "get_latest_snapshot (derived db1) ''R'' = Some s" "sn_ruleset_version s > 0"
    using first_snapshot_stored by blast
  have "find_release (evidence db1) ''R'' \<noteq> None" "distinct (map sn_id (metric_snapshots (derived db1)))"
    by (simp_all add: s(2,3) release_db_facts)
  from history_agrees_with_comparison [OF this s(4,5), of 2] show ?thesis using s(1) by auto
qed

lemma charts_end_in_served_values_witness:
  "\<exists>s db1 c m. recompute_release_metrics day_us default_mapping ''R'' release_db = Inr (s, db1)
    \<and> get_charts (evidence db1) (derived db1) ''R'' 5 None None = Inr c
    \<and> get_metrics (evidence db1) (derived db1) default_mapping ''R'' (naive day_us) = Inr m
    \<and> last_values (ch_series c) = me_metrics m"
proof -
  obtain s db1 where s: "recompute_release_metrics day_us default_mapping ''R'' release_db = Inr (s, db1)"
    "evidence db1 = evidence release_db" "get_latest_snapshot (derived db1) ''R'' = Some s"
    using first_snapshot_stored by blast
  have "find_release (evidence db1) ''R'' \<noteq> None" by (simp add: s(2) release_db_facts)
  from charts_end_in_served_values [OF this s(3), of 5 default_mapping "naive day_us"] show ?thesis using s(1) by auto
qed

subsection \<open>A value is served exactly when it is available\<close>

definition metric_entries :: "metric_values \<Rightarrow> (string \<times> bool) list" where
  "metric_entries v = [(''open_blockers'', mv_open_blockers v \<noteq> None),
     (''open_high_severity_bugs'', mv_open_high_severity_bugs v \<noteq> None),
     (''scope_completed_pct'', mv_scope_completed_pct v \<noteq> None),
     (''completed_tickets'', mv_completed_tickets v \<noteq> None),
     (''scope_churn_7d_pct'', mv_scope_churn_7d_pct v \<noteq> None),
     (''scope_added_7d_count'', mv_scope_added_7d_count v \<noteq> None),
     (''scope_removed_7d_count'', mv_scope_removed_7d_count v \<noteq> None),
     (''median_cycle_time_days'', mv_median_cycle_time_days v \<noteq> None),
     (''reopen_rate_pct'', mv_reopen_rate_pct v \<noteq> None)]"

text \<open>The items that the churn and flow results decide.\<close>

definition item_available :: "items \<Rightarrow> string \<Rightarrow> bool option" where
  "item_available items name = map_option ai_available (map_of items name)"

lemma frame_available: "frame n f \<Longrightarrow> f items = Inr items' \<Longrightarrow> item_available items' n = item_available items n"
  by (simp add: item_available_def frameD)

lemma release_item_available:
  assumes "build_release_availability db rid fm (Some churn) (Some (flow_summaries flow)) = Inr a"
  shows "item_available (ma_metrics a) ''scope_churn_7d_pct'' = Some (ms_status churn = COMPUTED)"
    and "item_available (ma_metrics a) ''reopen_rate_pct'' = Some (rr_status (snd flow) = COMPUTED)"
    and "item_available (ma_metrics a) ''median_cycle_time_days'' = Some (ct_status (fst flow) = COMPUTED)"
proof -
  obtain i1 i2 i3 u where items:
    "apply_scope_churn_availability churn i1 = Inr i2"
    "apply_flow_metric_availability (flow_summaries flow) i2 = Inr i3"
    "apply_unavailable_confidence u i3 = Inr (ma_metrics a)"
    using assms by (auto simp: build_release_availability_def Let_def and_then_Inr_iff)
  have keep: "item_available (ma_metrics a) m = item_available i3 m"
    if "m \<notin> {''confidence_score'', ''gates_passed_count'', ''readiness_pct''}" for m
    by (rule frame_available [OF frame_unavailable [OF that] items(3)])
  have keep3: "item_available i3 m = item_available i2 m"
    if "m \<notin> {''median_cycle_time_days'', ''reopen_rate_pct''}" for m
    by (rule frame_available [OF frame_flow [OF that] items(2)])
  have churn: "item_available i2 ''scope_churn_7d_pct'' = Some (ms_status churn = COMPUTED)"
    using items(1) by (auto simp: apply_scope_churn_availability_def and_then_Inr_iff set_item_Inr new_item_def
        item_available_def split: if_splits)
  have flow: "item_available i3 ''median_cycle_time_days'' = Some (ct_status (fst flow) = COMPUTED)"
    "item_available i3 ''reopen_rate_pct'' = Some (rr_status (snd flow) = COMPUTED)"
    using items(2) by (auto simp: apply_flow_metric_availability_def flow_summaries_def lookup_def override_item_def
        and_then_Inr_iff set_item_Inr new_item_def item_available_def split: if_splits)
  show "item_available (ma_metrics a) ''scope_churn_7d_pct'' = Some (ms_status churn = COMPUTED)"
    using keep [of "''scope_churn_7d_pct''"] keep3 [of "''scope_churn_7d_pct''"] churn by simp
  show "item_available (ma_metrics a) ''reopen_rate_pct'' = Some (rr_status (snd flow) = COMPUTED)"
    using keep [of "''reopen_rate_pct''"] flow(2) by simp
  show "item_available (ma_metrics a) ''median_cycle_time_days'' = Some (ct_status (fst flow) = COMPUTED)"
    using keep [of "''median_cycle_time_days''"] flow(1) by simp
qed

lemma release_item_stored:
  assumes "build_release_availability db rid fm (Some (churn_summary (compute_release_scope_churn_7d db rid pk rname fm t)))
      (Some (flow_summaries (evaluate_release_flow_metrics db rid fm))) = Inr a"
    and "n \<in> fst ` set (metric_entries v)"
  shows "item_available (ma_metrics a) n \<noteq> None"
proof -
  have "\<exists>a. build_release_availability db rid fm
        (Some (churn_summary (compute_release_scope_churn_7d db rid pk rname fm t)))
        (Some (flow_summaries (evaluate_release_flow_metrics db rid fm))) = Inr a
     \<and> ma_context a = release_context db rid fm \<and> items_inv RELEASE_METRIC_DEPENDENCIES (ma_metrics a)"
    by (rule build_release_availability_keeps) (use churn_summary_ok flow_summaries_get(1) in auto)
  then have "map fst (ma_metrics a) = map fst RELEASE_METRIC_DEPENDENCIES"
    unfolding assms(1) by (simp add: items_inv_def)
  then have f: "fst ` set (ma_metrics a) = fst ` set RELEASE_METRIC_DEPENDENCIES"
    unfolding list.set_map [symmetric] by (rule arg_cong)
  have "n \<in> {''open_blockers'', ''open_high_severity_bugs'', ''scope_completed_pct'', ''completed_tickets'',
      ''scope_churn_7d_pct'', ''scope_added_7d_count'', ''scope_removed_7d_count'', ''median_cycle_time_days'',
      ''reopen_rate_pct''}"
    using assms(2) by (simp add: metric_entries_def)
  then have "n \<in> fst ` set RELEASE_METRIC_DEPENDENCIES"
    by (intro subsetD [OF release_names]) (elim insertE emptyE; simp)
  then have "n \<in> dom (map_of (ma_metrics a))" unfolding dom_map_of_conv_image_fst f .
  then show ?thesis by (auto simp: item_available_def)
qed

lemma stored_value_shown:
  assumes "item_available (stored_availability s) name = Some b"
  shows "(stored_metric_value s name v \<noteq> None) = (b \<and> v \<noteq> None)"
  using assms by (auto simp: item_available_def stored_metric_value_def)

lemma served_entries:
  assumes rel: "find_release (evidence db) rid = Some rel"
    and m: "recompute_release_metrics t fm rid db = Inr (s, db1)" and p: "sn_calculation_provenance s = Some p"
    and e: "(name, shown) \<in> set (metric_entries (served_values s))"
  shows "item_available (ma_metrics (rv_availability p)) name = Some shown"
proof -
  define r where "r = release_results_of (evidence db) fm rel t"
  define q where "q = release_snapshot_of r rid (next_row_id sn_id (metric_snapshots (derived db))) t"
  obtain p' out a where parts: "recompute_release_metrics t fm rid db = Inr (q\<lparr>sn_calculation_provenance := Some p'\<rparr>,
      mark_metrics_recomputed t (db\<lparr>derived := add_snapshot (q\<lparr>sn_calculation_provenance := Some p'\<rparr>) (derived db)\<rparr>))"
    "release_id rel = rid"
    "build_release_availability (evidence db) rid fm (Some (churn_summary (rl_scope_churn r)))
        (Some (flow_summaries (rl_flow r))) = Inr a" "rv_availability p' = a"
    using recompute_release_parts [OF rel, of t fm] unfolding r_def q_def by blast
  have s: "s = q\<lparr>sn_calculation_provenance := Some p'\<rparr>" using m parts(1) by simp
  then have pa: "rv_availability p = a" "stored_availability s = ma_metrics a"
    using p parts(4) by (simp_all add: stored_availability_def)
  have sel: "sn_completed_tickets s \<noteq> None" "sn_scope_churn_7d_pct s = cr_scope_churn_7d_pct (rl_scope_churn r)"
    "sn_median_cycle_time_days s = ct_value (fst (rl_flow r))" "sn_reopen_rate_pct s = rr_value (snd (rl_flow r))"
    by (simp_all add: s q_def release_snapshot_of_def Let_def inputs_of_results_def)
  obtain b where b: "item_available (ma_metrics a) name = Some b"
    using release_item_stored [OF parts(3) [unfolded r_def snapshot_simps parts(2)], of name "served_values s"] e
    by force
  note av = release_item_available [OF parts(3)]
  have vals: "(cr_scope_churn_7d_pct (rl_scope_churn r) \<noteq> None) = (cr_status (rl_scope_churn r) = COMPUTED)"
    "(ct_value (fst (rl_flow r)) \<noteq> None) = (ct_status (fst (rl_flow r)) = COMPUTED)"
    "(rr_value (snd (rl_flow r)) \<noteq> None) = (rr_status (snd (rl_flow r)) = COMPUTED)"
    using churn_status_parts(2) [of "evidence db" rid "release_project_key rel" "release_name rel" fm "aware t 0"] flow_values
    by (auto simp: r_def snapshot_simps parts(2) split: if_splits)
  note shown = stored_value_shown [where s = s, unfolded pa(2), OF b]
  from e have "shown = b"
    unfolding metric_entries_def served_values_def list.set metric_values.simps
    by (elim insertE emptyE) (use b shown sel vals av in \<open>auto simp: churn_summary_def\<close>)
  then show ?thesis by (simp add: pa(1) b)
qed

text \<open>After a recomputation, with a clock that does not run backwards, the new snapshot is the one that is served.\<close>

lemma recomputed_metrics_served:
  assumes "find_release (evidence db) rid = Some rel" and m: "recompute_release_metrics t fm rid db = Inr (s, db1)"
    and "\<And>q. q \<in> set (snapshots_of (derived db) rid) \<Longrightarrow> sn_snapshot_at q \<le> t"
  obtains live where "get_latest_snapshot (derived db1) rid = Some s"
    and "get_metrics (evidence db1) (derived db1) fm rid now = Inr (computed_metrics now live s)"
    and "has_tickets (ma_context live) = (release_issues (evidence db) rid \<noteq> [])"
proof -
  note fr = recompute_release_frame [OF m]
  have c1: "sn_snapshot_at q \<le> sn_snapshot_at s" if "q \<in> set (snapshots_of (derived db) (sn_release_id s))" for q
    using assms(3) that by (simp add: fr)
  have latest: "get_latest_snapshot (derived db1) rid = Some s"
    using added_snapshot_latest [OF fr(3) c1] by (simp add: fr(4,5))
  obtain live where live: "build_release_availability (evidence db) rid fm None None = Inr live"
    "has_tickets (ma_context live) = (release_issues (evidence db) rid \<noteq> [])"
    using live_availability .
  have "get_metrics (evidence db1) (derived db1) fm rid now = Inr (computed_metrics now live s)"
    by (simp add: get_metrics_def fr(6) assms(1) live(1) lift_view_def latest)
  then show ?thesis using that latest live(2) by blast
qed

text \<open>C23: what the API serves is what its availability promises. Right after a recomputation of a stored
  release, with a clock that does not run backwards, the metrics answer carries the availability stored with
  the new snapshot, each of its nine values is there exactly when the metric's item says it is available,
  and the confidence score exactly when its item does, with a breakdown that adds up to it.\<close>

theorem served_values_are_available:
  assumes "find_release (evidence db) rid = Some rel"
    and "\<And>q. q \<in> set (snapshots_of (derived db) rid) \<Longrightarrow> sn_snapshot_at q \<le> t"
  shows "\<exists>s db1 m p. recompute_release_metrics t fm rid db = Inr (s, db1)
    \<and> get_metrics (evidence db1) (derived db1) fm rid now = Inr m
    \<and> sn_calculation_provenance s = Some p \<and> me_metric_availability m = rv_availability p
    \<and> (\<forall>(name, shown) \<in> set (metric_entries (me_metrics m)).
         item_available (ma_metrics (me_metric_availability m)) name = Some shown)
    \<and> item_available (ma_metrics (me_metric_availability m)) ''confidence_score''
         = Some (me_confidence_score m \<noteq> None)
    \<and> (\<forall>c. me_confidence_score m = Some c \<longrightarrow> (\<exists>b. me_confidence_breakdown m = Some b \<and> cb_total_score b = c))"
proof -
  obtain s db1 p where s: "recompute_release_metrics t fm rid db = Inr (s, db1)"
    "sn_calculation_provenance s = Some p" "score_explained s p"
    using release_snapshot_facts [where db = db and rid = rid and now = t and fm = fm] unfolding assms(1) option.case by auto
  note fr = recompute_release_frame [OF s(1)]
  obtain live where m: "get_metrics (evidence db1) (derived db1) fm rid now = Inr (computed_metrics now live s)"
    and live: "has_tickets (ma_context live) = (release_issues (evidence db) rid \<noteq> [])"
    using recomputed_metrics_served [OF assms(1) s(1) assms(2)] .
  have none: "sn_confidence_score s = None" if "release_issues (evidence db) rid = []"
  proof -
    have "sn_confidence_score s = release_confidence_of (release_results_of (evidence db) fm rel t)"
      using s(1) assms(1) by (auto simp: recompute_release_metrics_def Let_def and_then_Inr_iff snapshot_simps)
    moreover have "release_id rel = rid" using assms(1) by (auto simp: find_release_def find_Some_iff)
    ultimately show ?thesis using that by (simp add: release_confidence_of_def Let_def snapshot_simps)
  qed
  have sel: "me_metric_availability (computed_metrics now live s) = rv_availability p"
    "me_metrics (computed_metrics now live s) = served_values s"
    "me_confidence_score (computed_metrics now live s) = sn_confidence_score s"
    "me_confidence_breakdown (computed_metrics now live s) = ro_confidence_breakdown (rv_component_outputs p)"
    using none by (auto simp: computed_metrics_def Let_def split_beta fr(1) ruleset_version_const_def s(2) live)
  have "item_available (ma_metrics (rv_availability p)) ''confidence_score'' = Some (sn_confidence_score s \<noteq> None)"
    using s(3) by (auto simp: score_explained_def item_available_def)
  then show ?thesis using s m served_entries [OF assms(1) s(1,2)] sel by (auto simp: score_explained_def)
qed

lemma served_values_are_available_witness:
  "\<exists>s db1 m. recompute_release_metrics day_us default_mapping ''R'' release_db = Inr (s, db1)
    \<and> get_metrics (evidence db1) (derived db1) default_mapping ''R'' (naive day_us) = Inr m
    \<and> item_available (ma_metrics (me_metric_availability m)) ''confidence_score'' = Some (me_confidence_score m \<noteq> None)"
proof -
  have "sn_snapshot_at q \<le> day_us" if "q \<in> set (snapshots_of (derived release_db) ''R'')" for q
    using that by (simp add: release_db_facts)
  from served_values_are_available [OF release_db_facts(2) this, of default_mapping "naive day_us"] show ?thesis by blast
qed

end
