(* ===== verification/SprintView.thy ===== *)
theory SprintView
  imports MetricsView
begin

text \<open>
  Sprints as the API serves them (services/sprint_response_service.py and the queries of
  repositories/sprint_repository.py): the sprint lists, the tickets of a sprint with their initial scope
  flags, the stored metrics, the comparison with a baseline snapshot and the change history. Rows of the
  snapshot table are those the recomputation writes, with scope movement and workload evidence.
\<close>

subsection \<open>Sprint queries\<close>

text \<open>\<open>DESC NULLS LAST\<close> as an ascending key.\<close>

definition desc_nulls_last :: "py_datetime option \<Rightarrow> bool \<times> int" where
  "desc_nulls_last d = (case coerce_utc d of None \<Rightarrow> (True, 0) | Some t \<Rightarrow> (False, - t))"

definition list_sprints :: "store \<Rightarrow> nat \<Rightarrow> nat \<Rightarrow> string option \<Rightarrow> string option \<Rightarrow> sprint list \<times> nat" where
  "list_sprints db skip limit state project =
    (let found = filter (\<lambda>s. (case state of None \<Rightarrow> True | Some st \<Rightarrow> casefold (sprint_state s) = casefold st)
           \<and> (case project of None \<Rightarrow> True | Some k \<Rightarrow> upper (sprint_project_key s) = upper k)) (sprints db)
     in (take limit (drop skip (sort_key (\<lambda>s. (desc_nulls_last (sprint_complete_date s),
           desc_nulls_last (sprint_end_date s), sprint_name s)) found)), length found))"

definition get_current_sprint :: "store \<Rightarrow> string option \<Rightarrow> sprint option" where
  "get_current_sprint db project =
    (case sort_key (\<lambda>s. (desc_nulls_last (sprint_start_date s), sprint_id s))
        (filter (\<lambda>s. casefold (sprint_state s) = ''active''
           \<and> (case project of None \<Rightarrow> True | Some k \<Rightarrow> upper (sprint_project_key s) = upper k)) (sprints db)) of
       [] \<Rightarrow> None | s # _ \<Rightarrow> Some s)"

definition sprint_missing :: "string \<Rightarrow> string" where
  "sprint_missing sid = ''Sprint '' @ quoted sid @ '' not found''"

definition get_sprint :: "store \<Rightarrow> string \<Rightarrow> view_error + sprint" where
  "get_sprint db sid = (case find_sprint db sid of None \<Rightarrow> Inl (View_Not_Found (sprint_missing sid)) | Some s \<Rightarrow> Inr s)"

fun traverse :: "('a \<Rightarrow> 'e + 'b) \<Rightarrow> 'a list \<Rightarrow> 'e + 'b list" where
  "traverse f [] = Inr []"
| "traverse f (x # xs) = and_then (f x) (\<lambda>y. and_then (traverse f xs) (\<lambda>ys. Inr (y # ys)))"

text \<open>A page of the tickets, each with its flag, and the number of all tickets.\<close>

definition get_sprint_issues ::
  "store \<Rightarrow> field_mapping \<Rightarrow> string \<Rightarrow> nat \<Rightarrow> nat \<Rightarrow> py_datetime \<Rightarrow> view_error + (issue \<times> bool) list \<times> nat" where
  "get_sprint_issues db fm sid skip limit now =
    and_then (get_sprint db sid) (\<lambda>s.
    let found = list_sprint_issues db sid;
        page = take limit (drop skip found);
        flags = compute_sprint_initial_scope_flags db fm s (map issue_key page) now
    in and_then (lift_view (traverse (\<lambda>i. map_sum id (Pair i) (lookup flags (issue_key i))) page)) (\<lambda>items.
       Inr (items, length found)))"

subsection \<open>Snapshot queries\<close>

definition sprint_snapshots_of :: "derived_tables \<Rightarrow> string \<Rightarrow> sprint_metric_snapshot list" where
  "sprint_snapshots_of d sid = filter (\<lambda>s. ss_sprint_id s = sid) (sprint_snapshots d)"

definition get_latest_metric_snapshot_at_or_before ::
  "derived_tables \<Rightarrow> string \<Rightarrow> utc \<Rightarrow> sprint_metric_snapshot option" where
  "get_latest_metric_snapshot_at_or_before d sid t =
     latest_by sprint_snapshot_order (filter (\<lambda>s. ss_snapshot_at s \<le> t) (sprint_snapshots_of d sid))"

definition get_previous_metric_snapshot ::
  "derived_tables \<Rightarrow> string \<Rightarrow> utc \<Rightarrow> nat \<Rightarrow> sprint_metric_snapshot option" where
  "get_previous_metric_snapshot d sid t n =
     latest_by sprint_snapshot_order
       (filter (\<lambda>s. ss_snapshot_at s < t \<or> (ss_snapshot_at s = t \<and> ss_id s < n)) (sprint_snapshots_of d sid))"

definition list_metric_snapshots_for_sprint :: "derived_tables \<Rightarrow> string \<Rightarrow> nat \<Rightarrow> sprint_metric_snapshot list" where
  "list_metric_snapshots_for_sprint d sid limit =
     rev (take limit (rev (sort_key sprint_snapshot_order (sprint_snapshots_of d sid))))"

interpretation sprint_rows: snapshot_queries ss_snapshot_at ss_id sprint_snapshots_of get_latest_metric_snapshot
  get_previous_metric_snapshot list_metric_snapshots_for_sprint
  by unfold_locales
    (simp_all add: get_latest_metric_snapshot_def get_previous_metric_snapshot_def sprint_snapshots_of_def
      list_metric_snapshots_for_sprint_def sprint_snapshot_order_def [abs_def])

subsection \<open>Metrics\<close>

record sprint_metric_values =
  pv_committed_scope :: "py_number option"
  pv_completed_scope_pct :: "py_number option"
  pv_scope_creep_pct :: "pyfloat option"
  pv_open_blockers :: "int option"
  pv_open_high_severity_bugs :: "int option"
  pv_bugs_created_during_sprint :: "int option"
  pv_in_progress_count :: "py_number option"
  pv_not_started_count :: "py_number option"
  pv_rollover_count :: "py_number option"
  pv_median_cycle_time_days :: "pyfloat option"
  pv_reopen_rate_pct :: "pyfloat option"
  pv_workload_concentration_pct :: "pyfloat option"
  pv_delivery_confidence_score :: "pyfloat option"

record sprint_metric_issue_keys =
  pk_open_blockers :: "string list"
  pk_open_high_severity_bugs :: "string list"
  pk_bugs_created_during_sprint :: "string list"
  pk_bugs_missing_created_at :: "string list"

record delivery_confidence_detail =
  cd_score :: pyfloat
  cd_weights :: "(string \<times> pyfloat) list"
  cd_components :: confidence_components
  cd_inputs :: confidence_inputs

record scope_movement_detail =
  md_status :: computation_status
  md_percentage :: "pyfloat option"
  md_explanations :: "string list"
  md_evidence :: creep_evidence

record workload_detail =
  wd_status :: computation_status
  wd_percentage :: "pyfloat option"
  wd_explanations :: "string list"
  wd_evidence :: workload_evidence

record sprint_metrics_response =
  pm_sprint_id :: string
  pm_ruleset_version :: "int option"
  pm_ruleset_label :: "string option"
  pm_calculation_provenance :: "sprint_provenance option"
  pm_snapshot_at :: "utc option"
  pm_computation_status :: computation_status
  pm_unavailable_reason :: "string option"
  pm_metrics :: sprint_metric_values
  pm_metric_issue_keys :: sprint_metric_issue_keys
  pm_bugs_created_status :: computation_status
  pm_metric_names :: "string list"
  pm_metric_availability :: metric_availability
  pm_story_point_coverage :: story_point_coverage
  pm_delivery_confidence_status :: computation_status
  pm_delivery_confidence_explanations :: "string list"
  pm_delivery_confidence :: "delivery_confidence_detail option"
  pm_scope_movement :: "scope_movement_detail option"
  pm_workload_distribution :: "workload_detail option"
  pm_confidence_breakdown :: "confidence_breakdown option"
  pm_biggest_driver :: "driver_analysis option"
  pm_recommendations :: "recommendation_action list"
  pm_is_computed :: bool
  pm_snapshot_age_hours :: "pyfloat option"

definition SPRINT_METRIC_NAMES :: "string list" where
  "SPRINT_METRIC_NAMES = metric_api_fields metric_catalog Sprint_Scope (Some Metric_values) None"

definition LEGACY_SCOPE_CREEP_REASON :: string where
  "LEGACY_SCOPE_CREEP_REASON = ''Scope creep is unavailable because this stored snapshot does not contain ''
     @ ''an authoritative scope-creep artifact.''"

definition has_confidence_status :: "sprint_metric_snapshot \<Rightarrow> bool" where
  "has_confidence_status s \<longleftrightarrow> ss_delivery_confidence_status s \<in> {PARTIAL, COMPUTED}"

definition has_delivery_confidence :: "sprint_metric_snapshot \<Rightarrow> bool" where
  "has_delivery_confidence s \<longleftrightarrow> has_confidence_status s \<and> ss_delivery_confidence_score s \<noteq> None"

definition build_delivery_confidence :: "sprint_metric_snapshot \<Rightarrow> delivery_confidence_detail option" where
  "build_delivery_confidence s =
    (case (ss_delivery_confidence_score s, ss_delivery_confidence_components s, ss_delivery_confidence_inputs s) of
       (Some score, Some c, Some i) \<Rightarrow> if has_confidence_status s
         then Some \<lparr>cd_score = score, cd_weights = DELIVERY_CONFIDENCE_WEIGHTS, cd_components = c, cd_inputs = i\<rparr>
         else None
     | _ \<Rightarrow> None)"

definition build_sprint_confidence_breakdown :: "sprint_metric_snapshot \<Rightarrow> confidence_breakdown option" where
  "build_sprint_confidence_breakdown s =
    (case (ss_delivery_confidence_score s, ss_delivery_confidence_components s, ss_delivery_confidence_inputs s) of
       (Some score, Some c, Some i) \<Rightarrow> if has_confidence_status s
         then Some (build_sprint_breakdown score c (Some i)) else None
     | _ \<Rightarrow> None)"

definition build_sprint_biggest_driver :: "sprint_metric_snapshot \<Rightarrow> driver_analysis option" where
  "build_sprint_biggest_driver s =
    (case (ss_delivery_confidence_score s, ss_delivery_confidence_components s) of
       (Some score, Some c) \<Rightarrow> if has_confidence_status s then Some (build_sprint_driver c) else None
     | _ \<Rightarrow> None)"

definition build_workload_distribution :: "sprint_metric_snapshot \<Rightarrow> workload_detail option" where
  "build_workload_distribution s = Some \<lparr>wd_status = ss_workload_distribution_status s,
     wd_percentage = ss_workload_concentration_pct s, wd_explanations = ss_workload_distribution_explanations s,
     wd_evidence = ss_workload_distribution_evidence s\<rparr>"

definition build_scope_movement :: "sprint_metric_snapshot \<Rightarrow> scope_movement_detail option" where
  "build_scope_movement s = Some \<lparr>md_status = ss_scope_creep_status s, md_percentage = ss_scope_creep_pct s,
     md_explanations = ss_scope_creep_explanations s, md_evidence = ss_scope_creep_evidence s\<rparr>"

text \<open>Before the first recomputation the coverage counts every number not below zero, infinity included.\<close>

definition live_coverage :: "issue list \<Rightarrow> story_point_coverage" where
  "live_coverage xs =
    (let pointed = filter (\<lambda>i. sql_has_story_points (issue_story_points i)) xs;
         unpointed = sort (map issue_key (filter (\<lambda>i. \<not> sql_has_story_points (issue_story_points i)) xs))
     in \<lparr>cov_total_ticket_count = int (length xs), cov_pointed_ticket_count = int (length pointed),
         cov_unpointed_ticket_count = int (length unpointed),
         cov_coverage_pct = (if xs \<noteq> [] then pct2 (int (length pointed)) (int (length xs)) else 0),
         cov_unpointed_issue_keys = unpointed\<rparr>)"

definition not_computed_sprint_metrics :: "string \<Rightarrow> metric_availability \<Rightarrow> issue list \<Rightarrow> sprint_metrics_response" where
  "not_computed_sprint_metrics sid a xs =
    (case computation_state a False UNAVAILABLE_REASON_NO_TICKETS of (status, reason) \<Rightarrow>
       \<lparr>pm_sprint_id = sid, pm_ruleset_version = None, pm_ruleset_label = None, pm_calculation_provenance = None,
        pm_snapshot_at = None, pm_computation_status = status, pm_unavailable_reason = reason,
        pm_metrics = \<lparr>pv_committed_scope = None, pv_completed_scope_pct = None, pv_scope_creep_pct = None,
          pv_open_blockers = None, pv_open_high_severity_bugs = None, pv_bugs_created_during_sprint = None,
          pv_in_progress_count = None, pv_not_started_count = None, pv_rollover_count = None,
          pv_median_cycle_time_days = None, pv_reopen_rate_pct = None, pv_workload_concentration_pct = None,
          pv_delivery_confidence_score = None\<rparr>,
        pm_metric_issue_keys = \<lparr>pk_open_blockers = [], pk_open_high_severity_bugs = [],
          pk_bugs_created_during_sprint = [], pk_bugs_missing_created_at = []\<rparr>,
        pm_bugs_created_status = NOT_COMPUTED, pm_metric_names = SPRINT_METRIC_NAMES,
        pm_metric_availability = a, pm_story_point_coverage = live_coverage xs,
        pm_delivery_confidence_status = NOT_COMPUTED,
        pm_delivery_confidence_explanations =
          [''Delivery confidence has not been computed for this sprint snapshot.''],
        pm_delivery_confidence = None, pm_scope_movement = None, pm_workload_distribution = None,
        pm_confidence_breakdown = None, pm_biggest_driver = None, pm_recommendations = [],
        pm_is_computed = False, pm_snapshot_age_hours = None\<rparr>)"

text \<open>An availability stored without scope creep gets an item for it.\<close>

definition with_scope_creep :: "metric_availability \<Rightarrow> availability_error + metric_availability" where
  "with_scope_creep a =
    (if ''scope_creep_pct'' \<in> fst ` set (ma_metrics a) then Inr a
     else and_then (sprint_item ''scope_creep_pct'' NOT_COMPUTED False (Some LEGACY_SCOPE_CREEP_REASON)
            [LEGACY_SCOPE_CREEP_REASON] [] (ma_metrics a)) (\<lambda>items. Inr (a\<lparr>ma_metrics := items\<rparr>)))"

definition shown_if_available :: "items \<Rightarrow> string \<Rightarrow> 'v option \<Rightarrow> availability_error + 'v option" where
  "shown_if_available items name v = and_then (lookup items name) (\<lambda>i. Inr (if ai_available i then v else None))"

definition served_sprint_values :: "sprint_metric_snapshot \<Rightarrow> items \<Rightarrow> availability_error + sprint_metric_values" where
  "served_sprint_values s items =
    and_then (shown_if_available items ''scope_creep_pct'' (ss_scope_creep_pct s)) (\<lambda>creep.
    and_then (shown_if_available items ''open_blockers'' (Some (ss_open_blockers s))) (\<lambda>blockers.
    and_then (shown_if_available items ''open_high_severity_bugs'' (Some (ss_open_high_severity_bugs s))) (\<lambda>bugs.
    and_then (shown_if_available items ''in_progress_count'' (ss_in_progress_count s)) (\<lambda>in_progress.
    and_then (shown_if_available items ''not_started_count'' (ss_not_started_count s)) (\<lambda>not_started.
    and_then (shown_if_available items ''rollover_count'' (ss_rollover_count s)) (\<lambda>rollover.
      Inr \<lparr>pv_committed_scope = ss_committed_scope s, pv_completed_scope_pct = ss_completed_scope_pct s,
        pv_scope_creep_pct = creep, pv_open_blockers = blockers, pv_open_high_severity_bugs = bugs,
        pv_bugs_created_during_sprint = (if ss_bugs_created_during_sprint_status s \<noteq> NOT_COMPUTED
          then Some (ss_bugs_created_during_sprint s) else None),
        pv_in_progress_count = in_progress, pv_not_started_count = not_started, pv_rollover_count = rollover,
        pv_median_cycle_time_days = ss_median_cycle_time_days s, pv_reopen_rate_pct = ss_reopen_rate_pct s,
        pv_workload_concentration_pct = (case map_of items ''workload_concentration_pct'' of
            None \<Rightarrow> None
          | Some i \<Rightarrow> if ai_available i then ss_workload_concentration_pct s else None),
        pv_delivery_confidence_score = (if has_delivery_confidence s
          then ss_delivery_confidence_score s else None)\<rparr>))))))"

definition computed_sprint_metrics ::
  "py_datetime \<Rightarrow> metric_availability \<Rightarrow> sprint_metric_snapshot \<Rightarrow> availability_error + sprint_metrics_response" where
  "computed_sprint_metrics now live s =
    (let current = (if ss_ruleset_version s > 0 then ss_calculation_provenance s else None)
     in and_then (with_scope_creep (case current of None \<Rightarrow> live | Some p \<Rightarrow> sv_availability p)) (\<lambda>a.
        let fresh = computation_state a True UNAVAILABLE_REASON_NO_TICKETS;
            (status, reason) = (case current of None \<Rightarrow> fresh
              | Some p \<Rightarrow> (if sv_computation_status p \<in> {COMPUTED, PARTIAL, NOT_COMPUTED}
                  then sv_computation_status p else fst fresh, sv_unavailable_reason p));
            outputs = map_option sv_component_outputs (ss_calculation_provenance s)
        in and_then (served_sprint_values s (ma_metrics a)) (\<lambda>values.
          Inr \<lparr>pm_sprint_id = ss_sprint_id s, pm_ruleset_version = Some (ss_ruleset_version s),
            pm_ruleset_label = Some (ruleset_label_of (ss_ruleset_version s)),
            pm_calculation_provenance = ss_calculation_provenance s, pm_snapshot_at = Some (ss_snapshot_at s),
            pm_computation_status = status, pm_unavailable_reason = reason, pm_metrics = values,
            pm_metric_issue_keys = \<lparr>pk_open_blockers = ss_open_blocker_issue_keys s,
              pk_open_high_severity_bugs = ss_open_high_severity_bug_issue_keys s,
              pk_bugs_created_during_sprint = ss_bugs_created_during_sprint_issue_keys s,
              pk_bugs_missing_created_at = ss_bugs_missing_created_at_issue_keys s\<rparr>,
            pm_bugs_created_status = ss_bugs_created_during_sprint_status s,
            pm_metric_names = SPRINT_METRIC_NAMES, pm_metric_availability = a,
            pm_story_point_coverage = ss_story_point_coverage s,
            pm_delivery_confidence_status = ss_delivery_confidence_status s,
            pm_delivery_confidence_explanations = ss_delivery_confidence_explanations s,
            pm_delivery_confidence = build_delivery_confidence s,
            pm_scope_movement = build_scope_movement s, pm_workload_distribution = build_workload_distribution s,
            pm_confidence_breakdown = (if ss_ruleset_version s > 0 then Option.bind outputs so_confidence_breakdown
              else build_sprint_confidence_breakdown s),
            pm_biggest_driver = (if ss_ruleset_version s > 0 then Option.bind outputs so_biggest_driver
              else build_sprint_biggest_driver s),
            pm_recommendations = build_sprint_recommendations s (has_delivery_confidence s),
            pm_is_computed = True, pm_snapshot_age_hours = Some (snapshot_age_hours now (ss_snapshot_at s))\<rparr>)))"

definition no_sprint_results :: sprint_results where
  "no_sprint_results = \<lparr>sr_flow = None, sr_scope = None, sr_work_state = None, sr_scope_creep = None,
     sr_delivery_confidence = None, sr_workload = None\<rparr>"

definition get_sprint_metrics ::
  "store \<Rightarrow> derived_tables \<Rightarrow> field_mapping \<Rightarrow> string \<Rightarrow> py_datetime \<Rightarrow> view_error + sprint_metrics_response" where
  "get_sprint_metrics db d fm sid now =
    and_then (get_sprint db sid) (\<lambda>_.
    and_then (lift_view (build_sprint_availability db sid fm no_sprint_results)) (\<lambda>live.
    case get_latest_metric_snapshot d sid of
      None \<Rightarrow> Inr (not_computed_sprint_metrics sid live (list_sprint_issues db sid))
    | Some s \<Rightarrow> lift_view (computed_sprint_metrics now live s)))"

subsection \<open>Comparison with a baseline\<close>

definition UNAVAILABLE_DELIVERY_CONFIDENCE_REASON :: string where
  "UNAVAILABLE_DELIVERY_CONFIDENCE_REASON = ''Delivery confidence is unavailable for one or both snapshots.''"

definition unavailable_comparison ::
  "string \<Rightarrow> snapshot_baseline \<Rightarrow> sprint_metric_snapshot \<Rightarrow> sprint_metric_snapshot option \<Rightarrow> string \<Rightarrow> comparison_response" where
  "unavailable_comparison sid b s old reason =
     \<lparr>cs_entity_id = sid, cs_baseline = b, cs_current_snapshot_at = Some (ss_snapshot_at s),
      cs_baseline_snapshot_at = map_option ss_snapshot_at old, cs_has_baseline = (old \<noteq> None),
      cs_current_ruleset_version = Some (ss_ruleset_version s),
      cs_baseline_ruleset_version = map_option ss_ruleset_version old, cs_unavailable_reason = Some reason,
      cs_comparison = \<lparr>cm_confidence_delta = None, cm_contributors = []\<rparr>\<rparr>"

definition select_sprint_baseline_snapshot ::
  "derived_tables \<Rightarrow> string \<Rightarrow> sprint_metric_snapshot \<Rightarrow> snapshot_baseline \<Rightarrow> sprint_metric_snapshot option" where
  "select_sprint_baseline_snapshot d sid s b =
    (if b = Previous_Snapshot then get_previous_metric_snapshot d sid (ss_snapshot_at s) (ss_id s)
     else get_latest_metric_snapshot_at_or_before d sid (ss_snapshot_at s - baseline_hours b * hour_us))"

definition stored_sprint_classification :: "sprint_metric_snapshot \<Rightarrow> classification_provenance option" where
  "stored_sprint_classification s = map_option sv_classification (ss_calculation_provenance s)"

definition sprint_comparison ::
  "string \<Rightarrow> snapshot_baseline \<Rightarrow> sprint_metric_snapshot \<Rightarrow> sprint_metric_snapshot option \<Rightarrow> comparison_response" where
  "sprint_comparison sid b s old =
    (if (case old of None \<Rightarrow> False | Some p \<Rightarrow> ss_ruleset_version s \<noteq> ss_ruleset_version p)
     then unavailable_comparison sid b s old RULESET_MISMATCH_REASON
     else if \<not> has_delivery_confidence s \<or> (case old of None \<Rightarrow> False | Some p \<Rightarrow> \<not> has_delivery_confidence p)
     then unavailable_comparison sid b s old UNAVAILABLE_DELIVERY_CONFIDENCE_REASON
     else case old of
         None \<Rightarrow> empty_comparison sid b (Some (ss_snapshot_at s)) (Some (ss_ruleset_version s))
       | Some p \<Rightarrow> (case classification_unavailable_reason (stored_sprint_classification s)
             (stored_sprint_classification p) of
           Some reason \<Rightarrow> unavailable_comparison sid b s old reason
         | None \<Rightarrow> \<lparr>cs_entity_id = sid, cs_baseline = b, cs_current_snapshot_at = Some (ss_snapshot_at s),
             cs_baseline_snapshot_at = Some (ss_snapshot_at p), cs_has_baseline = True,
             cs_current_ruleset_version = Some (ss_ruleset_version s),
             cs_baseline_ruleset_version = Some (ss_ruleset_version p), cs_unavailable_reason = None,
             cs_comparison = compare_sprint_snapshots s p\<rparr>))"

definition get_sprint_snapshot_comparison ::
  "store \<Rightarrow> derived_tables \<Rightarrow> string \<Rightarrow> snapshot_baseline \<Rightarrow> view_error + comparison_response" where
  "get_sprint_snapshot_comparison db d sid b =
    and_then (get_sprint db sid) (\<lambda>_. Inr (case get_latest_metric_snapshot d sid of
         None \<Rightarrow> empty_comparison sid b None None
       | Some s \<Rightarrow> sprint_comparison sid b s (select_sprint_baseline_snapshot d sid s b)))"

subsection \<open>Change history\<close>

definition sprint_history_item :: "sprint_metric_snapshot option \<Rightarrow> sprint_metric_snapshot \<Rightarrow> history_item" where
  "sprint_history_item previous s =
    (let confidence = (if has_confidence_status s then ss_delivery_confidence_score s else None);
         item = \<lparr>hi_date = ss_snapshot_at s, hi_ruleset_version = ss_ruleset_version s, hi_version_boundary = False,
           hi_confidence = confidence, hi_delta = None, hi_primary_driver = ''Not available'',
           hi_comparison_unavailable_reason = None\<rparr>
     in case previous of
          None \<Rightarrow> item\<lparr>hi_primary_driver := (if confidence \<noteq> None then ''Baseline snapshot'' else ''Not available'')\<rparr>
        | Some p \<Rightarrow>
            if ss_ruleset_version p \<noteq> ss_ruleset_version s
            then item\<lparr>hi_version_boundary := True, hi_primary_driver := ''Ruleset boundary'',
              hi_comparison_unavailable_reason := Some RULESET_MISMATCH_REASON\<rparr>
            else (case classification_unavailable_reason (stored_sprint_classification s)
                (stored_sprint_classification p) of
                Some reason \<Rightarrow> item\<lparr>hi_primary_driver := ''Classification boundary'',
                  hi_comparison_unavailable_reason := Some reason\<rparr>
              | None \<Rightarrow> if confidence \<noteq> None \<and> has_delivery_confidence p
                  then let c = compare_sprint_snapshots s p
                    in item\<lparr>hi_delta := cm_confidence_delta c, hi_primary_driver := primary_driver c\<rparr>
                  else item))"

definition get_sprint_change_history ::
  "store \<Rightarrow> derived_tables \<Rightarrow> string \<Rightarrow> nat \<Rightarrow> view_error + history_item list" where
  "get_sprint_change_history db d sid limit =
    and_then (get_sprint db sid) (\<lambda>_.
      Inr (build_history sprint_history_item None (list_metric_snapshots_for_sprint d sid limit)))"

lemma get_sprint_Inr: "get_sprint db sid = Inr s \<longleftrightarrow> find_sprint db sid = Some s"
  by (simp add: get_sprint_def split: option.splits)

lemma length_build_history: "length (build_history item p zs) = length zs"
  by (induction zs arbitrary: p) simp_all

lemma distinct_sprint_snapshots_of:
  "distinct (map ss_id (sprint_snapshots d)) \<Longrightarrow> distinct (map ss_id (sprint_snapshots_of d sid))"
  by (simp add: sprint_snapshots_of_def distinct_map_filter)

lemma sprint_item_comparison:
  "hi_delta (sprint_history_item (Some p) s) = cm_confidence_delta (cs_comparison (sprint_comparison sid b s (Some p)))
   \<and> cs_unavailable_reason (sprint_comparison sid b s (Some p)) =
      (if ss_ruleset_version s = ss_ruleset_version p \<and> \<not> (has_delivery_confidence s \<and> has_delivery_confidence p)
       then Some UNAVAILABLE_DELIVERY_CONFIDENCE_REASON
       else hi_comparison_unavailable_reason (sprint_history_item (Some p) s))
   \<and> hi_date (sprint_history_item (Some p) s) = ss_snapshot_at s
   \<and> cs_has_baseline (sprint_comparison sid b s (Some p))"
  by (auto simp: sprint_history_item_def sprint_comparison_def Let_def unavailable_comparison_def
      has_delivery_confidence_def split: option.splits)

text \<open>The change history of a sprint and the comparison of its latest snapshot with the previous one agree:
  the last item of a history of at least two entries is the latest snapshot, has the same change of the
  score, and gives the same reason against a comparison, except that the history gives no score reason
  where the comparison says that delivery confidence is missing.\<close>

theorem sprint_history_agrees_with_comparison:
  assumes "find_sprint db sid \<noteq> None" and "distinct (map ss_id (sprint_snapshots d))"
    and "get_latest_metric_snapshot d sid = Some s" and "limit \<ge> 2"
    and "get_previous_metric_snapshot d sid (ss_snapshot_at s) (ss_id s) = Some p"
  shows "\<exists>c h. get_sprint_snapshot_comparison db d sid Previous_Snapshot = Inr c
    \<and> get_sprint_change_history db d sid limit = Inr h \<and> length h > 1 \<and> hi_date (last h) = ss_snapshot_at s
    \<and> cs_has_baseline c \<and> hi_delta (last h) = cm_confidence_delta (cs_comparison c)
    \<and> cs_unavailable_reason c =
        (if ss_ruleset_version s = ss_ruleset_version p \<and> \<not> (has_delivery_confidence s \<and> has_delivery_confidence p)
         then Some UNAVAILABLE_DELIVERY_CONFIDENCE_REASON else hi_comparison_unavailable_reason (last h))"
proof -
  from sprint_rows.listing_ends [OF distinct_sprint_snapshots_of [OF assms(2)] assms(3,4)] obtain xs where
    xs: "list_metric_snapshots_for_sprint d sid limit = xs @ [s]"
    "get_previous_metric_snapshot d sid (ss_snapshot_at s) (ss_id s) = (if xs = [] then None else Some (last xs))" .
  then have ne: "xs \<noteq> []" and p: "last xs = p" using assms(5) by (auto split: if_splits)
  obtain sp where sp: "get_sprint db sid = Inr sp" using assms(1) by (auto simp: get_sprint_Inr)
  have h: "get_sprint_change_history db d sid limit
      = Inr (build_history sprint_history_item None xs @ [sprint_history_item (Some p) s])"
    using ne p by (simp add: get_sprint_change_history_def sp xs(1) build_history_snoc)
  have c: "get_sprint_snapshot_comparison db d sid Previous_Snapshot
      = Inr (sprint_comparison sid Previous_Snapshot s (Some p))"
    using assms(3,5) by (simp add: get_sprint_snapshot_comparison_def sp select_sprint_baseline_snapshot_def)
  show ?thesis using h c ne sprint_item_comparison [of p s sid Previous_Snapshot]
    by (auto simp: length_build_history)
qed

subsection \<open>Pages of tickets\<close>

definition initial_scope_of :: "store \<Rightarrow> field_mapping \<Rightarrow> sprint \<Rightarrow> py_datetime \<Rightarrow> string \<Rightarrow> bool" where
  "initial_scope_of db fm s now k = (map_of (compute_sprint_initial_scope_flags db fm s [k] now) k = Some True)"

lemma entries_of_issue:
  assumes "k \<in> set keys"
  shows "filter (\<lambda>h. hist_issue_key h = k) (sort_key f (sprint_entries db fm keys a b))
    = sort_key f (filter (\<lambda>h. hist_issue_key h = k) (sprint_entries db fm [k] a b))"
proof -
  have "filter (\<lambda>h. hist_issue_key h = k) (sprint_entries db fm keys a b)
      = filter (\<lambda>h. hist_issue_key h = k) (sprint_entries db fm [k] a b)"
    using assms by (auto simp: sprint_entries_def intro: filter_cong)
  then show ?thesis by (simp only: filter_sort)
qed

lemma flags_by_issue:
  "compute_sprint_initial_scope_flags db fm s keys now =
    (let flags = map (\<lambda>k. (k, True)) (dedupe keys); upper = effective_sprint_window_end s now
     in case coerce_utc (sprint_start_date s) of None \<Rightarrow> flags
      | Some a \<Rightarrow> if upper \<le> a then flags
          else fold (set_flag (\<lambda>v. history_value_references_sprint v s))
            (sort_key (\<lambda>h. (hist_issue_key h, - hist_time h, - int (hist_id h))) (sprint_entries db fm keys a upper)) flags)"
  unfolding compute_sprint_initial_scope_flags_def Let_def
  by (cases "coerce_utc (sprint_start_date s)") (simp_all only: option.case set_flag_def [abs_def])

lemma initial_scope_flag:
  assumes "k \<in> set keys"
  shows "map_of (compute_sprint_initial_scope_flags db fm s keys now) k = Some (initial_scope_of db fm s now k)"
proof -
  have const: "map_of (map (\<lambda>k. (k, True)) (dedupe ks)) k = Some True" if "k \<in> set ks" for ks
    using map_of_const_flags [of k "dedupe ks" True] that by simp
  have k: "k \<in> set [k]" by simp
  have single: "map_of (compute_sprint_initial_scope_flags db fm s keys now) k
      = map_of (compute_sprint_initial_scope_flags db fm s [k] now) k"
    unfolding flags_by_issue Let_def
    by (cases "coerce_utc (sprint_start_date s)")
      (simp_all only: option.case const [OF assms] const [OF k] fold_set_flag entries_of_issue [OF assms]
        entries_of_issue [OF k] if_distrib [of "\<lambda>m. map_of m k"])
  have "map_of (compute_sprint_initial_scope_flags db fm s [k] now) k \<noteq> None"
    unfolding flags_by_issue Let_def
    by (cases "coerce_utc (sprint_start_date s)")
      (simp_all only: option.case const [OF k] fold_set_flag if_distrib [of "\<lambda>m. map_of m k"]
        split: option.splits if_splits, simp_all)
  then show ?thesis by (auto simp: single initial_scope_of_def)
qed

lemma traverse_Inr: "(\<And>x. x \<in> set xs \<Longrightarrow> f x = Inr (g x)) \<Longrightarrow> traverse f xs = Inr (map g xs)"
  by (induction xs) simp_all

text \<open>C27: The pages of the tickets of a sprint are slices of one list of flagged tickets: for a stored sprint no page
  raises, a ticket's initial scope flag does not depend on the page it is on, and every page reports the
  same total.\<close>

theorem sprint_issue_pages_tile:
  assumes "find_sprint db sid = Some s"
  shows "\<exists>tickets. map fst tickets = list_sprint_issues db sid
    \<and> (\<forall>skip limit. get_sprint_issues db fm sid skip limit now
          = Inr (take limit (drop skip tickets), length tickets))"
proof (intro exI conjI allI)
  let ?item = "\<lambda>i. (i, initial_scope_of db fm s now (issue_key i))"
  show "map fst (map ?item (list_sprint_issues db sid)) = list_sprint_issues db sid" by (simp add: comp_def)
  fix skip limit
  define page where "page = take limit (drop skip (list_sprint_issues db sid))"
  have "traverse (\<lambda>i. map_sum id (Pair i)
      (lookup (compute_sprint_initial_scope_flags db fm s (map issue_key page) now) (issue_key i))) page
    = Inr (map ?item page)"
    by (rule traverse_Inr) (simp add: lookup_def initial_scope_flag)
  then show "get_sprint_issues db fm sid skip limit now = Inr
      (take limit (drop skip (map ?item (list_sprint_issues db sid))), length (map ?item (list_sprint_issues db sid)))"
    using assms by (simp add: get_sprint_issues_def get_sprint_def Let_def lift_view_def page_def take_map drop_map)
qed

subsection \<open>What is served after a recomputation\<close>

lemma frame_sprint_item: "n \<noteq> name \<Longrightarrow> frame n (sprint_item name status available reason es missing)"
  by (auto simp: frame_def sprint_item_def and_then_Inr_iff set_item_Inr)

lemma sprint_item_get:
  "sprint_item name status available reason es missing items = Inr items' \<Longrightarrow> item_available items' name = Some available"
  by (auto simp: sprint_item_def and_then_Inr_iff set_item_Inr new_item_def item_available_def split: if_splits)

lemma frame_confidence:
  assumes "n \<noteq> ''delivery_confidence_score''"
  shows "frame n (apply_delivery_confidence_prerequisite_availability p)"
    and "frame n (apply_delivery_confidence_result_availability r creep)"
  using assms frame_sprint_item [OF assms]
  by (auto simp: frame_def apply_delivery_confidence_prerequisite_availability_def
      apply_delivery_confidence_result_availability_def and_then_Inr_iff)

lemma scope_creep_item_available:
  assumes "build_sprint_availability db sid fm rs = Inr a" and "sr_scope_creep rs = Some creep"
    and "sr_flow rs = Some (flow_summaries flow)"
  shows "item_available (ma_metrics a) ''scope_creep_pct'' = Some (ms_status creep = COMPUTED)"
proof -
  let ?n = "''scope_creep_pct''"
  obtain i1 i2 i3 i4 i5 p where items: "apply_scope_creep_availability creep i1 = Inr i2"
    "apply_flow_metric_availability (flow_summaries flow) i2 = Inr i3"
    "if_given apply_workload_distribution_availability (sr_workload rs) i3 = Inr i4"
    "(if has_story_points (sprint_context db sid fm)
        then apply_delivery_confidence_prerequisite_availability p i4 else Inr i4) = Inr i5"
    "(if has_story_points (sprint_context db sid fm)
        then if_given (\<lambda>r. apply_delivery_confidence_result_availability r (sr_scope_creep rs)) (sr_delivery_confidence rs) i5
        else Inr i5) = Inr (ma_metrics a)"
    using assms by (auto simp: build_sprint_availability_def Let_def and_then_Inr_iff if_given_def)
  have "item_available i2 ?n = Some (ms_status creep = COMPUTED)"
    using items(1) unfolding apply_scope_creep_availability_def by (rule sprint_item_get)
  moreover have "item_available i3 ?n = item_available i2 ?n" by (rule frame_available [OF frame_flow items(2)]) simp
  moreover have "frame ?n (apply_workload_distribution_availability r)" for r
    unfolding apply_workload_distribution_availability_def Let_def by (rule frame_sprint_item) simp
  then have "item_available i4 ?n = item_available i3 ?n"
    using items(3) by (auto simp: if_given_def dest: frame_available split: option.splits)
  moreover have c1: "item_available ys ?n = item_available xs ?n"
    if "apply_delivery_confidence_prerequisite_availability q xs = Inr ys" for q xs ys
    by (rule frame_available [OF frame_confidence(1) that]) simp
  have c2: "item_available ys ?n = item_available xs ?n"
    if "apply_delivery_confidence_result_availability q c xs = Inr ys" for q c xs ys
    by (rule frame_available [OF frame_confidence(2) that]) simp
  have "item_available i5 ?n = item_available i4 ?n" using items(4) c1 by (auto split: if_splits)
  moreover have "item_available (ma_metrics a) ?n = item_available i5 ?n"
    using items(5) c2 by (auto simp: if_given_def split: if_splits option.splits)
  ultimately show ?thesis by simp
qed

lemma sprint_scored_result:
  assumes "compute_delivery_confidence db s t fm n p creep = Inr r"
  shows "(dc_score r \<noteq> None) = (dc_status r \<in> {PARTIAL, COMPUTED})"
    and "(dc_components r \<noteq> None) = (dc_score r \<noteq> None)" and "(dc_inputs r \<noteq> None) = (dc_score r \<noteq> None)"
proof -
  let ?xs = "list_sprint_issues db (sprint_id s)"
  consider st es where "r = no_confidence st (story_point_coverage_of ?xs) p es" "st \<notin> {PARTIAL, COMPUTED}"
    | bl e v where "r = score_delivery_confidence db fm n p creep ?xs bl e v"
        "\<not> cov_coverage_pct (story_point_coverage_of ?xs) < 50"
    using assms unfolding compute_delivery_confidence_cases by (auto split: if_splits option.splits)
  then have "(dc_score r \<noteq> None) = (dc_status r \<in> {PARTIAL, COMPUTED}) \<and> (dc_components r \<noteq> None) = (dc_score r \<noteq> None)
      \<and> (dc_inputs r \<noteq> None) = (dc_score r \<noteq> None)"
  proof cases
    case 1
    then show ?thesis by (simp add: no_confidence_def)
  next
    case 2
    have "dc_components r \<noteq> None" "dc_inputs r \<noteq> None"
      by (simp_all add: 2(1) score_delivery_confidence_def Let_def)
    moreover have "dc_status r \<in> {PARTIAL, COMPUTED}" "dc_score r \<noteq> None"
      using 2(2) score_parts(1,2) [of db fm n p creep ?xs bl e v]
        coverage_status_cases [of "cov_coverage_pct (story_point_coverage_of ?xs)"]
      unfolding 2(1) by (auto split: if_splits)
    ultimately show ?thesis by simp
  qed
  then show "(dc_score r \<noteq> None) = (dc_status r \<in> {PARTIAL, COMPUTED})"
    "(dc_components r \<noteq> None) = (dc_score r \<noteq> None)" "(dc_inputs r \<noteq> None) = (dc_score r \<noteq> None)" by blast+
qed

lemma live_sprint_availability:
  assumes "find_sprint db sid = Some s"
  shows "\<exists>a. build_sprint_availability db sid fm no_sprint_results = Inr a
    \<and> map fst (ma_metrics a) = map md_api_field sprint_metrics"
proof -
  let ?D = SPRINT_METRIC_DEPENDENCIES and ?b = "has_story_points (sprint_context db sid fm)"
  let ?cl = "evaluate_classification_metrics fm (list_sprint_issues db sid)"
  obtain ws where ws: "evaluate_sprint_work_state_metrics db sid fm = Inr ws"
    unfolding evaluate_sprint_work_state_metrics_def assms option.case Let_def by blast
  obtain p where p: "evaluate_sprint_delivery_confidence_prerequisites db sid fm (Some ?cl) = Inr p"
    unfolding evaluate_sprint_delivery_confidence_prerequisites_def assms option.case Let_def by blast
  obtain r where "compute_delivery_confidence db s (aware 0 0) fm 0 p (compute_sprint_scope_creep db fm s (aware 0 0)) = Inr r"
    using own_confidence_Inr [OF assms p] by blast
  note k = keeps_own_results [OF assms ws p this]
  let ?shown = "map (\<lambda>name. (name, result_of ?cl name)) [''open_blockers'', ''open_high_severity_bugs'']"
  obtain items where i: "build_metric_availability_items (sprint_context db sid fm) ?D ?shown = Inr items"
    "items_inv ?D items"
    using sprint_table.build_items [of ?shown] sprint_classification_ok by blast
  have kp: "keeps ?D (\<lambda>items. if ?b then apply_delivery_confidence_prerequisite_availability p items else Inr items)"
    using k(6) by (simp add: keeps_def)
  have "keeps ?D (\<lambda>items.
      and_then (apply_sprint_scope_metric_availability (evaluate_sprint_scope_metrics db sid fm) items) (\<lambda>items.
      and_then (apply_sprint_work_state_metric_availability ws items) (\<lambda>items.
        if ?b then apply_delivery_confidence_prerequisite_availability p items else Inr items)))"
    by (intro keeps_and_then k(1,2) kp)
  from keepsD [OF this i(2)] obtain items' where "items_inv ?D items'"
    "build_sprint_availability db sid fm no_sprint_results = Inr \<lparr>ma_context = sprint_context db sid fm, ma_metrics = items'\<rparr>"
    unfolding build_sprint_availability_def Let_def no_sprint_results_def sprint_results.select_convs
      or_compute_def if_given_def option.case i(1) ws p value_error_def sum.case
    by (auto simp: and_then_Inr_iff)
  then show ?thesis by (auto simp: items_inv_def sprint_metric_names)
qed

lemma shown_total:
  assumes "name \<in> fst ` set items"
  shows "shown_if_available items name v = Inr (if item_available items name = Some True then v else None)"
proof -
  obtain i where "map_of items name = Some i" using assms by (metis domD dom_map_of_conv_image_fst)
  then show ?thesis by (simp add: shown_if_available_def lookup_def item_available_def)
qed

lemma served_sprint_total:
  assumes "fst ` set items = fst ` set SPRINT_METRIC_DEPENDENCIES"
  obtains v where "served_sprint_values s items = Inr v"
    and "pv_scope_creep_pct v = (if item_available items ''scope_creep_pct'' = Some True then ss_scope_creep_pct s else None)"
    and "pv_delivery_confidence_score v = (if has_delivery_confidence s then ss_delivery_confidence_score s else None)"
proof -
  have n: "''scope_creep_pct'' \<in> fst ` set items" "''open_blockers'' \<in> fst ` set items"
    "''open_high_severity_bugs'' \<in> fst ` set items" "''in_progress_count'' \<in> fst ` set items"
    "''not_started_count'' \<in> fst ` set items" "''rollover_count'' \<in> fst ` set items"
    unfolding assms by (rule subsetD [OF sprint_names], simp)+
  note shown = shown_total [OF n(1)] shown_total [OF n(2)] shown_total [OF n(3)] shown_total [OF n(4)]
    shown_total [OF n(5)] shown_total [OF n(6)]
  obtain v where v: "served_sprint_values s items = Inr v"
    unfolding served_sprint_values_def shown and_then_simps by blast
  show ?thesis
    by (rule that [OF v]) (use v in \<open>auto simp: served_sprint_values_def shown\<close>)
qed

lemma recomputed_sprint_parts:
  assumes "find_sprint (evidence db) sid = Some sp"
  obtains e p r n s where "recompute_sprint_metrics t fm sid db = Inr (s,
      mark_metrics_recomputed t (db\<lparr>derived := add_sprint_snapshot s (derived db)\<rparr>))"
    and "s = (sprint_snapshot_of e sid (next_row_id ss_id (sprint_snapshots (derived db))) t)\<lparr>ss_calculation_provenance := Some p\<rparr>"
    and "build_sprint_availability (evidence db) sid fm (results_for_availability e) = Inr (sv_availability p)"
    and "map fst (ma_metrics (sv_availability p)) = map md_api_field sprint_metrics"
    and "sv_component_outputs p = sprint_outputs_of s" and "se_scope_creep e = compute_sprint_scope_creep (evidence db) fm sp (aware t 0)"
    and "compute_delivery_confidence (evidence db) sp (aware t 0) fm n (dc_prerequisites r) (se_scope_creep e) = Inr r"
    and "se_delivery_confidence e = r"
proof -
  obtain ws p r e where parts: "sprint_evaluation_of (evidence db) fm sp t = Inr e"
    "evaluate_sprint_work_state_metrics (evidence db) sid fm = Inr ws"
    "evaluate_sprint_delivery_confidence_prerequisites (evidence db) sid fm
        (Some (evaluate_sprint_classification_metrics (evidence db) sid fm)) = Inr p"
    "compute_delivery_confidence (evidence db) sp (aware t 0) fm
        (int (length (matching_issue_keys (evaluate_sprint_classification_metrics (evidence db) sid fm) ''open_blockers''))) p
        (compute_sprint_scope_creep (evidence db) fm sp (aware t 0)) = Inr r"
    "results_for_availability e = own_results (evidence db) sp (aware t 0) fm ws r" "se_delivery_confidence e = r"
    using sprint_evaluation_parts [OF assms, of fm t] by blast
  have creep: "se_scope_creep e = compute_sprint_scope_creep (evidence db) fm sp (aware t 0)"
    using parts(1) by (auto simp: sprint_evaluation_of_def Let_def and_then_Inr_iff)
  from own_availability [OF assms parts(2-4)] obtain a where
    a: "build_sprint_availability (evidence db) sid fm (results_for_availability e) = Inr a"
    "map fst (ma_metrics a) = map md_api_field sprint_metrics"
    unfolding parts(5) by blast
  define s where "s = sprint_snapshot_of e sid (next_row_id ss_id (sprint_snapshots (derived db))) t"
  have sid: "ss_sprint_id s = sid" by (simp add: s_def sprint_snapshot_of_def Let_def)
  obtain st why where c: "computation_state a True UNAVAILABLE_REASON_NO_TICKETS = (st, why)" by fastforce
  obtain q where q: "sprint_calculation_provenance (evidence db) fm e s = Inr q" "sv_availability q = a"
    "sv_component_outputs q = sprint_outputs_of s"
    unfolding sprint_calculation_provenance_def Let_def sid a(1) lift_simps and_then_simps c prod.case by simp
  have out: "sprint_outputs_of (s\<lparr>ss_calculation_provenance := Some q\<rparr>) = sprint_outputs_of s"
    by (simp add: sprint_outputs_of_def split: option.split)
  have run: "recompute_sprint_metrics t fm sid db = Inr (s\<lparr>ss_calculation_provenance := Some q\<rparr>,
      mark_metrics_recomputed t (db\<lparr>derived := add_sprint_snapshot (s\<lparr>ss_calculation_provenance := Some q\<rparr>) (derived db)\<rparr>))"
    by (simp add: recompute_sprint_metrics_def assms parts(1) s_def [symmetric] Let_def q(1))
  show ?thesis
    by (rule that [OF run _ _ _ _ _ parts(4) [folded creep confidence_prerequisites [OF parts(4)]]])
      (use a q out creep parts(6) in \<open>simp_all add: s_def\<close>)
qed

lemma added_sprint_snapshot_latest:
  assumes "ss_id s = next_row_id ss_id (sprint_snapshots d)"
    and "\<And>q. q \<in> set (sprint_snapshots_of d (ss_sprint_id s)) \<Longrightarrow> ss_snapshot_at q \<le> ss_snapshot_at s"
  shows "get_latest_metric_snapshot (add_sprint_snapshot s d) (ss_sprint_id s) = Some s"
  unfolding get_latest_metric_snapshot_def
proof (rule latest_by_unique)
  show "s \<in> set (filter (\<lambda>x. ss_sprint_id x = ss_sprint_id s) (sprint_snapshots (add_sprint_snapshot s d)))"
    by (simp add: add_sprint_snapshot_def)
  fix x assume "x \<in> set (filter (\<lambda>x. ss_sprint_id x = ss_sprint_id s) (sprint_snapshots (add_sprint_snapshot s d)))"
    and "x \<noteq> s"
  then have x: "x \<in> set (sprint_snapshots d)" "x \<in> set (sprint_snapshots_of d (ss_sprint_id s))"
    by (auto simp: sprint_snapshots_of_def add_sprint_snapshot_def)
  have "ss_id x < ss_id s" using next_row_id_fresh [OF x(1), of ss_id] assms(1) by simp
  then show "sprint_snapshot_order x < sprint_snapshot_order s"
    using assms(2) [OF x(2)] by (auto simp: sprint_snapshot_order_def less_le)
qed

lemma creep_shown:
  assumes "build_sprint_availability db sid fm (results_for_availability e) = Inr a"
    and "se_scope_creep e = compute_sprint_scope_creep db fm sp now"
  shows "(if item_available (ma_metrics a) ''scope_creep_pct'' = Some True then cp_value (se_scope_creep e) else None)
    = cp_value (se_scope_creep e)"
proof -
  have "item_available (ma_metrics a) ''scope_creep_pct'' = Some (cp_status (se_scope_creep e) = COMPUTED)"
    using scope_creep_item_available [OF assms(1)] by (simp add: results_for_availability_def creep_summary_def)
  moreover have "cp_value (se_scope_creep e) \<noteq> None \<longleftrightarrow> cp_status (se_scope_creep e) = COMPUTED"
    unfolding assms(2) using scope_creep.value_iff by blast
  ultimately show ?thesis by auto
qed

lemma scored_row_shown:
  assumes "compute_delivery_confidence db sp now fm n p sc = Inr r"
    and sel: "ss_delivery_confidence_score s = dc_score r" "ss_delivery_confidence_components s = dc_components r"
      "ss_delivery_confidence_inputs s = dc_inputs r" "ss_delivery_confidence_status s = dc_status r"
  shows "has_delivery_confidence s = (ss_delivery_confidence_score s \<noteq> None)"
    and "(build_delivery_confidence s \<noteq> None) = (ss_delivery_confidence_score s \<noteq> None)"
    and "(so_confidence_breakdown (sprint_outputs_of s) \<noteq> None) = (ss_delivery_confidence_score s \<noteq> None)"
    and "(so_biggest_driver (sprint_outputs_of s) \<noteq> None) = (ss_delivery_confidence_score s \<noteq> None)"
proof -
  note scored = sprint_scored_result [OF assms(1)]
  show has: "has_delivery_confidence s = (ss_delivery_confidence_score s \<noteq> None)"
    using scored(1) by (auto simp: has_delivery_confidence_def has_confidence_status_def sel(1,4))
  show "(build_delivery_confidence s \<noteq> None) = (ss_delivery_confidence_score s \<noteq> None)"
    using has scored(2,3) by (auto simp: build_delivery_confidence_def has_delivery_confidence_def sel(1-3) split: option.splits)
  show "(so_confidence_breakdown (sprint_outputs_of s) \<noteq> None) = (ss_delivery_confidence_score s \<noteq> None)"
    "(so_biggest_driver (sprint_outputs_of s) \<noteq> None) = (ss_delivery_confidence_score s \<noteq> None)"
    using scored(2) by (auto simp: sprint_outputs_of_def sel(1,2) split: option.splits)
qed

lemma versioned_sprint_metrics:
  assumes row: "ss_ruleset_version s = ruleset_version_const" "ss_snapshot_at s = t" "ss_calculation_provenance s = Some p"
    and metrics: "map fst (ma_metrics (sv_availability p)) = map md_api_field sprint_metrics"
    and outputs: "sv_component_outputs p = sprint_outputs_of s"
  obtains m where "computed_sprint_metrics now live s = Inr m" and "pm_is_computed m" and "pm_snapshot_at m = Some t"
    and "pm_metric_availability m = sv_availability p" and "pm_delivery_confidence m = build_delivery_confidence s"
    and "pm_confidence_breakdown m = so_confidence_breakdown (sprint_outputs_of s)"
    and "pm_biggest_driver m = so_biggest_driver (sprint_outputs_of s)"
    and "pv_scope_creep_pct (pm_metrics m)
      = (if item_available (ma_metrics (sv_availability p)) ''scope_creep_pct'' = Some True then ss_scope_creep_pct s else None)"
    and "pv_delivery_confidence_score (pm_metrics m) = (if has_delivery_confidence s then ss_delivery_confidence_score s else None)"
proof -
  let ?a = "sv_availability p"
  have pos: "ruleset_version_const > 0" by (simp add: ruleset_version_const_def)
  have "map fst (ma_metrics ?a) = map fst SPRINT_METRIC_DEPENDENCIES" by (simp only: metrics sprint_metric_names)
  then have names: "fst ` set (ma_metrics ?a) = fst ` set SPRINT_METRIC_DEPENDENCIES"
    unfolding list.set_map [symmetric] by (rule arg_cong)
  then have "''scope_creep_pct'' \<in> fst ` set (ma_metrics ?a)" using sprint_names by simp
  then have wsc: "with_scope_creep ?a = Inr ?a" by (simp add: with_scope_creep_def)
  obtain v where v: "served_sprint_values s (ma_metrics ?a) = Inr v"
    "pv_scope_creep_pct v = (if item_available (ma_metrics ?a) ''scope_creep_pct'' = Some True then ss_scope_creep_pct s else None)"
    "pv_delivery_confidence_score v = (if has_delivery_confidence s then ss_delivery_confidence_score s else None)"
    by (rule served_sprint_total [OF names])
  obtain m where m: "computed_sprint_metrics now live s = Inr m" "pm_is_computed m" "pm_snapshot_at m = Some t"
    "pm_metric_availability m = ?a" "pm_metrics m = v" "pm_delivery_confidence m = build_delivery_confidence s"
    "pm_confidence_breakdown m = so_confidence_breakdown (sprint_outputs_of s)"
    "pm_biggest_driver m = so_biggest_driver (sprint_outputs_of s)"
    by (simp add: computed_sprint_metrics_def row pos wsc v(1) Let_def outputs split: prod.splits)
  show ?thesis by (rule that [OF m(1-4,6-8)]) (simp_all only: m(5) v(2,3))
qed

text \<open>C26: After a recomputation of a stored sprint its metrics are served, never refused: the answer is the new
  snapshot with the availability stored with it; the score is the evaluated one, and the confidence detail,
  the breakdown and the driver are there exactly with it; the scope creep is the evaluated percentage, with
  none hidden and none invented.\<close>

theorem recomputed_sprint_is_served:
  assumes "find_sprint (evidence db) sid = Some sp"
    and "\<And>q. q \<in> set (sprint_snapshots_of (derived db) sid) \<Longrightarrow> ss_snapshot_at q \<le> t"
  shows "\<exists>s db1 p m. recompute_sprint_metrics t fm sid db = Inr (s, db1)
    \<and> get_sprint_metrics (evidence db1) (derived db1) fm sid now = Inr m
    \<and> ss_calculation_provenance s = Some p
    \<and> pm_is_computed m \<and> pm_snapshot_at m = Some t \<and> pm_metric_availability m = sv_availability p
    \<and> pv_delivery_confidence_score (pm_metrics m) = ss_delivery_confidence_score s
    \<and> (pm_delivery_confidence m \<noteq> None) = (ss_delivery_confidence_score s \<noteq> None)
    \<and> (pm_confidence_breakdown m \<noteq> None) = (ss_delivery_confidence_score s \<noteq> None)
    \<and> (pm_biggest_driver m \<noteq> None) = (ss_delivery_confidence_score s \<noteq> None)
    \<and> pv_scope_creep_pct (pm_metrics m) = cp_value (compute_sprint_scope_creep (evidence db) fm sp (aware t 0))"
proof -
  obtain e p r n s where parts: "recompute_sprint_metrics t fm sid db = Inr (s,
      mark_metrics_recomputed t (db\<lparr>derived := add_sprint_snapshot s (derived db)\<rparr>))"
    "s = (sprint_snapshot_of e sid (next_row_id ss_id (sprint_snapshots (derived db))) t)\<lparr>ss_calculation_provenance := Some p\<rparr>"
    "build_sprint_availability (evidence db) sid fm (results_for_availability e) = Inr (sv_availability p)"
    "map fst (ma_metrics (sv_availability p)) = map md_api_field sprint_metrics"
    "sv_component_outputs p = sprint_outputs_of s" "se_scope_creep e = compute_sprint_scope_creep (evidence db) fm sp (aware t 0)"
    "compute_delivery_confidence (evidence db) sp (aware t 0) fm n (dc_prerequisites r) (se_scope_creep e) = Inr r"
    "se_delivery_confidence e = r"
    by (rule recomputed_sprint_parts [OF assms(1), of t fm])
  have sel: "ss_sprint_id s = sid" "ss_snapshot_at s = t" "ss_ruleset_version s = ruleset_version_const"
    "ss_id s = next_row_id ss_id (sprint_snapshots (derived db))" "ss_calculation_provenance s = Some p"
    "ss_scope_creep_pct s = cp_value (se_scope_creep e)" "ss_delivery_confidence_score s = dc_score r"
    "ss_delivery_confidence_components s = dc_components r" "ss_delivery_confidence_inputs s = dc_inputs r"
    "ss_delivery_confidence_status s = dc_status r"
    by (simp_all add: parts(2) sprint_snapshot_of_def Let_def parts(8))
  have "get_latest_metric_snapshot (add_sprint_snapshot s (derived db)) (ss_sprint_id s) = Some s"
    by (rule added_sprint_snapshot_latest) (use assms(2) in \<open>simp_all add: sel\<close>)
  then have latest: "get_latest_metric_snapshot (add_sprint_snapshot s (derived db)) sid = Some s" by (simp only: sel(1))
  obtain live where live: "build_sprint_availability (evidence db) sid fm no_sprint_results = Inr live"
    using live_sprint_availability [OF assms(1)] by blast
  let ?a = "sv_availability p"
  obtain m where m: "computed_sprint_metrics now live s = Inr m" "pm_is_computed m" "pm_snapshot_at m = Some t"
    "pm_metric_availability m = ?a" "pm_delivery_confidence m = build_delivery_confidence s"
    "pm_confidence_breakdown m = so_confidence_breakdown (sprint_outputs_of s)"
    "pm_biggest_driver m = so_biggest_driver (sprint_outputs_of s)"
    and v: "pv_scope_creep_pct (pm_metrics m) = (if item_available (ma_metrics ?a) ''scope_creep_pct'' = Some True then ss_scope_creep_pct s else None)"
    "pv_delivery_confidence_score (pm_metrics m) = (if has_delivery_confidence s then ss_delivery_confidence_score s else None)"
    by (rule versioned_sprint_metrics [OF sel(3,2,5) parts(4,5)])
  have creep: "pv_scope_creep_pct (pm_metrics m) = cp_value (se_scope_creep e)"
    unfolding v(1) sel(6) by (rule creep_shown [OF parts(3,6)])
  note shown = scored_row_shown [OF parts(7) sel(7-10)]
  have served: "get_sprint_metrics (evidence db) (add_sprint_snapshot s (derived db)) fm sid now = Inr m"
    using assms(1) by (simp add: get_sprint_metrics_def get_sprint_def live lift_view_def latest m(1))
  have frame: "evidence (mark_metrics_recomputed t x) = evidence x" "derived (mark_metrics_recomputed t x) = derived x" for x :: lighthouse_db
    by (simp_all add: mark_metrics_recomputed_def)
  show ?thesis using parts(1) served m(2-7) sel(5) v(2) shown creep parts(6)
    by (auto simp: frame)
qed

subsection \<open>Witnesses\<close>

lemma sprint_db_sprint:
  "find_sprint (evidence sprint_db) (sprint_id sample_sprint) = Some sample_sprint"
  "sprint_snapshots (derived sprint_db) = []"
  by (simp_all add: find_sprint_def sprint_db_def sample_store_def)

lemma sprint_issue_pages_tile_witness:
  "\<exists>tickets. map fst tickets = list_sprint_issues (evidence sprint_db) (sprint_id sample_sprint)
    \<and> get_sprint_issues (evidence sprint_db) default_mapping (sprint_id sample_sprint) 1 2 sample_now
        = Inr (take 2 (drop 1 tickets), length tickets)"
  using sprint_issue_pages_tile [OF sprint_db_sprint(1), of default_mapping sample_now] by blast

lemma recomputed_sprint_is_served_witness:
  "\<exists>s db1 m. recompute_sprint_metrics 9 default_mapping (sprint_id sample_sprint) sprint_db = Inr (s, db1)
    \<and> get_sprint_metrics (evidence db1) (derived db1) default_mapping (sprint_id sample_sprint) sample_now = Inr m
    \<and> pm_is_computed m \<and> pm_snapshot_at m = Some 9"
proof -
  have "ss_snapshot_at q \<le> 9" if "q \<in> set (sprint_snapshots_of (derived sprint_db) (sprint_id sample_sprint))" for q
    using that by (simp add: sprint_snapshots_of_def sprint_db_sprint(2))
  from recomputed_sprint_is_served [OF sprint_db_sprint(1) this, where fm = default_mapping and now = sample_now]
  show ?thesis by blast
qed

lemma recomputed_sprint_frame:
  assumes "find_sprint (evidence db) sid = Some sp"
  obtains s db1 where "recompute_sprint_metrics t fm sid db = Inr (s, db1)" and "evidence db1 = evidence db"
    and "sprint_snapshots (derived db1) = sprint_snapshots (derived db) @ [s]" and "ss_sprint_id s = sid"
    and "ss_snapshot_at s = t" and "ss_id s = next_row_id ss_id (sprint_snapshots (derived db))"
proof -
  obtain e p s where parts: "recompute_sprint_metrics t fm sid db = Inr (s,
      mark_metrics_recomputed t (db\<lparr>derived := add_sprint_snapshot s (derived db)\<rparr>))"
    "s = (sprint_snapshot_of e sid (next_row_id ss_id (sprint_snapshots (derived db))) t)\<lparr>ss_calculation_provenance := Some p\<rparr>"
    by (rule recomputed_sprint_parts [OF assms, of t fm])
  show ?thesis by (rule that [OF parts(1)])
    (simp_all add: parts(2) mark_metrics_recomputed_def add_sprint_snapshot_def sprint_snapshot_of_def Let_def)
qed

lemma sprint_history_agrees_with_comparison_witness:
  "\<exists>s1 db1 s2 db2 c h. recompute_sprint_metrics 9 default_mapping (sprint_id sample_sprint) sprint_db = Inr (s1, db1)
    \<and> recompute_sprint_metrics 10 default_mapping (sprint_id sample_sprint) db1 = Inr (s2, db2)
    \<and> get_sprint_snapshot_comparison (evidence db2) (derived db2) (sprint_id sample_sprint) Previous_Snapshot = Inr c
    \<and> get_sprint_change_history (evidence db2) (derived db2) (sprint_id sample_sprint) 2 = Inr h
    \<and> hi_delta (last h) = cm_confidence_delta (cs_comparison c)"
proof -
  let ?sid = "sprint_id sample_sprint"
  obtain s1 db1 where r1: "recompute_sprint_metrics 9 default_mapping ?sid sprint_db = Inr (s1, db1)"
    "evidence db1 = evidence sprint_db" "sprint_snapshots (derived db1) = [s1]" "ss_sprint_id s1 = ?sid" "ss_snapshot_at s1 = 9"
    by (rule recomputed_sprint_frame [OF sprint_db_sprint(1), of 9 default_mapping]) (simp add: sprint_db_sprint(2))
  have f: "find_sprint (evidence db1) ?sid = Some sample_sprint" by (simp only: r1(2) sprint_db_sprint(1))
  obtain s2 db2 where r2: "recompute_sprint_metrics 10 default_mapping ?sid db1 = Inr (s2, db2)"
    "evidence db2 = evidence db1" "sprint_snapshots (derived db2) = [s1, s2]" "ss_sprint_id s2 = ?sid" "ss_snapshot_at s2 = 10"
    "ss_id s2 = next_row_id ss_id [s1]"
    by (rule recomputed_sprint_frame [OF f, of 10 default_mapping]) (simp add: r1(3))
  have id: "ss_id s1 < ss_id s2" using next_row_id_fresh [of s1 "[s1]" ss_id] by (simp add: r2(6))
  have rows: "sprint_snapshots_of (derived db2) ?sid = [s1, s2]" by (simp add: sprint_snapshots_of_def r1(4) r2(3,4))
  have latest: "get_latest_metric_snapshot (derived db2) ?sid = Some s2"
    by (simp add: sprint_rows.latest rows latest_by_def r1(5) r2(5))
  have prev: "get_previous_metric_snapshot (derived db2) ?sid (ss_snapshot_at s2) (ss_id s2) = Some s1"
    by (simp add: sprint_rows.previous rows latest_by_def r1(5) r2(5))
  have "find_sprint (evidence db2) ?sid \<noteq> None" "distinct (map ss_id (sprint_snapshots (derived db2)))"
    using id by (simp_all add: r2(2,3) f)
  from sprint_history_agrees_with_comparison [OF this latest _ prev, of 2] show ?thesis
    using r1(1) r2(1) by auto
qed

end
