(* ===== verification/Deployment.thy ===== *)
theory Deployment
  imports JiraClient
begin

text \<open>
  The deployment part of \<open>Settings\<close> (config.py): secrets from the environment or from files, the database URL,
  and the startup validation of the security boundary. The file system is an argument, the state of each
  path; so is SQLAlchemy's \<open>make_url\<close>. Of the standard library, \<open>urlsplit\<close> is modelled for ASCII text; the
  check of an address in brackets (\<open>ipaddress\<close>) is an argument. A \<open>ValueError\<close> is its message.
\<close>

subsection \<open>Settings\<close>

datatype environment = Env_Dev | Env_Test | Env_Prod

datatype deployment = Desktop | Local_Browser | Docker

text \<open>The settings that the validation and the configuration service read, beside the classification.\<close>

record app_settings = settings +
  app_env :: environment
  deployment_mode :: deployment
  app_host :: string
  cors_origins :: string
  database_url :: string
  postgres_password :: string
  postgres_password_file :: string
  lighthouse_api_token :: string
  lighthouse_api_token_file :: string
  jira_base_url :: string
  jira_user_email :: string
  jira_api_token :: string
  jira_api_token_file :: string
  jira_project_key :: string
  jira_sync_enabled :: bool
  jira_sync_page_size :: int
  jira_sync_changelog_page_size :: int
  jira_sync_interval_seconds :: int

definition LOOPBACK_HOSTS :: "string list" where
  "LOOPBACK_HOSTS = [''127.0.0.1'', ''::1'', ''localhost'']"

definition MAX_SECRET_FILE_BYTES :: int where "MAX_SECRET_FILE_BYTES = 4096"

definition cors_origin_list :: "app_settings \<Rightarrow> string list" where
  "cors_origin_list s = map strip (filter (\<lambda>w. strip w \<noteq> []) (split_on (\<lambda>c. c = CHR '','') (cors_origins s)))"

definition is_loopback_binding :: "app_settings \<Rightarrow> bool" where
  "is_loopback_binding s \<longleftrightarrow> casefold (strip (app_host s)) \<in> set LOOPBACK_HOSTS"

definition api_token_required :: "app_settings \<Rightarrow> bool" where
  "api_token_required s \<longleftrightarrow> app_env s = Env_Prod \<or> \<not> is_loopback_binding s \<or> deployment_mode s \<in> {Desktop, Docker}"

subsection \<open>Secrets\<close>

text \<open>What a path holds: no regular file (or a symbolic link), a file that an \<open>OSError\<close> keeps from being read,
  or a file with its size and its text, \<open>None\<close> when that is not UTF-8.\<close>

datatype path_state = Not_Regular | Unreadable | Regular int "string option"

definition without_newline :: "string \<Rightarrow> string" where
  "without_newline v =
    (if drop (length v - 2) v = [CHR 0x0D, CHR 0x0A] then take (length v - 2) v
     else if v \<noteq> [] \<and> last v \<in> {CHR 0x0D, CHR 0x0A} then butlast v else v)"

definition read_secret_file :: "(string \<Rightarrow> path_state) \<Rightarrow> string \<Rightarrow> string \<Rightarrow> string + string" where
  "read_secret_file files path name =
    (case files path of
       Not_Regular \<Rightarrow> Inl (name @ '' must identify a readable regular file'')
     | Unreadable \<Rightarrow> Inl (name @ '' must identify a readable UTF-8 file'')
     | Regular bytes text \<Rightarrow>
        (if bytes \<le> 0 \<or> bytes > MAX_SECRET_FILE_BYTES
         then Inl (name @ '' must contain 1 to '' @ int_str MAX_SECRET_FILE_BYTES @ '' bytes'')
         else case text of
             None \<Rightarrow> Inl (name @ '' must identify a readable UTF-8 file'')
           | Some v \<Rightarrow> let value = without_newline v
              in if strip value = [] then Inl (name @ '' must contain a non-empty secret'') else Inr value))"

definition resolve_secret :: "(string \<Rightarrow> path_state) \<Rightarrow> string \<Rightarrow> string \<Rightarrow> string \<Rightarrow> string \<Rightarrow> string + string" where
  "resolve_secret files direct file_value direct_setting file_setting =
    (let secret_file = strip file_value
     in if direct \<noteq> [] \<and> secret_file \<noteq> []
        then Inl (direct_setting @ '' and '' @ file_setting @ '' cannot both be configured'')
        else if secret_file \<noteq> [] then read_secret_file files secret_file file_setting
        else Inr direct)"

definition effective_lighthouse_api_token :: "(string \<Rightarrow> path_state) \<Rightarrow> app_settings \<Rightarrow> string + string" where
  "effective_lighthouse_api_token files s =
     resolve_secret files (lighthouse_api_token s) (lighthouse_api_token_file s) ''LIGHTHOUSE_API_TOKEN'' ''LIGHTHOUSE_API_TOKEN_FILE''"

definition effective_jira_api_token :: "(string \<Rightarrow> path_state) \<Rightarrow> app_settings \<Rightarrow> string + string" where
  "effective_jira_api_token files s =
     resolve_secret files (jira_api_token s) (jira_api_token_file s) ''JIRA_API_TOKEN'' ''JIRA_API_TOKEN_FILE''"

definition effective_postgres_password :: "(string \<Rightarrow> path_state) \<Rightarrow> app_settings \<Rightarrow> string + string" where
  "effective_postgres_password files s =
     resolve_secret files (postgres_password s) (postgres_password_file s) ''POSTGRES_PASSWORD'' ''POSTGRES_PASSWORD_FILE''"

subsection \<open>The database URL\<close>

text \<open>A parsed URL: its backend, its password, and its text with a given password.\<close>

record db_url =
  du_backend_name :: string
  du_password :: "string option"
  du_render :: "string option \<Rightarrow> string"

definition effective_database_url ::
  "(string \<Rightarrow> path_state) \<Rightarrow> (string \<Rightarrow> db_url option) \<Rightarrow> app_settings \<Rightarrow> string + string" where
  "effective_database_url files make_url s =
    (case make_url (database_url s) of
       None \<Rightarrow> Inl ''DATABASE_URL must be a valid SQLAlchemy database URL''
     | Some u \<Rightarrow>
        (if du_backend_name u \<noteq> ''postgresql'' then Inr (database_url s)
         else and_then (effective_postgres_password files s) (\<lambda>external.
           if du_password u \<noteq> None \<and> external \<noteq> []
           then Inl (''DATABASE_URL and POSTGRES_PASSWORD or POSTGRES_PASSWORD_FILE cannot both ''
                     @ ''provide the PostgreSQL password'')
           else if du_password u \<noteq> None \<and> (app_env s = Env_Prod \<or> deployment_mode s = Docker)
           then Inl (''PostgreSQL passwords must not be embedded in DATABASE_URL in production '' @ ''or Docker mode'')
           else Inr (du_render u (if external \<noteq> [] then Some external else du_password u)))))"

definition api_auth_enabled :: "(string \<Rightarrow> path_state) \<Rightarrow> app_settings \<Rightarrow> string + bool" where
  "api_auth_enabled files s = map_sum id (\<lambda>t. strip t \<noteq> []) (effective_lighthouse_api_token files s)"

subsection \<open>URLs\<close>

text \<open>\<open>str.partition(c)\<close> and \<open>str.rpartition(c)\<close>: the part before, whether \<open>c\<close> occurs, the part after.\<close>

definition partition_at :: "char \<Rightarrow> string \<Rightarrow> string \<times> bool \<times> string" where
  "partition_at c s = (takeWhile (\<lambda>x. x \<noteq> c) s, c \<in> set s, after_first c s)"

definition rpartition_at :: "char \<Rightarrow> string \<Rightarrow> string \<times> bool \<times> string" where
  "rpartition_at c s =
    (if c \<in> set s then (take (last_index_of c s) s, True, drop (last_index_of c s + 1) s) else ([], False, s))"

record split_url =
  su_scheme :: string
  su_netloc :: string
  su_path :: string
  su_query :: string
  su_fragment :: string

definition is_alpha :: "char \<Rightarrow> bool" where
  "is_alpha c \<longleftrightarrow> (let n = (of_char c :: nat) in (65 \<le> n \<and> n \<le> 90) \<or> (97 \<le> n \<and> n \<le> 122))"

definition is_digit_char :: "char \<Rightarrow> bool" where
  "is_digit_char c \<longleftrightarrow> (let n = (of_char c :: nat) in 48 \<le> n \<and> n \<le> 57)"

definition scheme_char :: "char \<Rightarrow> bool" where
  "scheme_char c \<longleftrightarrow> is_alpha c \<or> is_digit_char c \<or> c \<in> {CHR ''+'', CHR ''-'', CHR ''.''}"

definition split_scheme :: "string \<Rightarrow> string \<times> string" where
  "split_scheme url =
    (case partition_at (CHR '':'') url of (before, found, rest) \<Rightarrow>
       if found \<and> before \<noteq> [] \<and> is_alpha (hd before) \<and> list_all scheme_char before
       then (casefold before, rest) else ([], url))"

definition urlsplit :: "(string \<Rightarrow> bool) \<Rightarrow> string \<Rightarrow> string + split_url" where
  "urlsplit valid_literal text =
    (let url = filter (\<lambda>c. c \<notin> {CHR 0x09, CHR 0x0A, CHR 0x0D}) (dropWhile (\<lambda>c. (of_char c :: nat) \<le> 32) text);
         (scheme, url) = split_scheme url;
         (netloc, url) = (if take 2 url = ''//''
            then (takeWhile (\<lambda>c. c \<notin> set ''/?#'') (drop 2 url), dropWhile (\<lambda>c. c \<notin> set ''/?#'') (drop 2 url))
            else ([], url));
         (url, _, fragment) = partition_at (CHR ''#'') url;
         (path, _, query) = partition_at (CHR ''?'') url
     in if (CHR ''['' \<in> set netloc) \<noteq> (CHR '']'' \<in> set netloc) then Inl ''Invalid IPv6 URL''
        else if CHR ''['' \<in> set netloc
          \<and> \<not> valid_literal (fst (partition_at (CHR '']'') (snd (snd (partition_at (CHR ''['') netloc)))))
        then Inl ''Invalid IPv6 URL''
        else Inr \<lparr>su_scheme = scheme, su_netloc = netloc, su_path = path, su_query = query, su_fragment = fragment\<rparr>)"

definition hostinfo :: "split_url \<Rightarrow> string \<times> string option" where
  "hostinfo u =
    (let info = snd (snd (rpartition_at (CHR ''@'') (su_netloc u)));
         (_, bracket, bracketed) = partition_at (CHR ''['') info;
         (host, port) = (if bracket
            then (case partition_at (CHR '']'') bracketed of (h, _, rest) \<Rightarrow> (h, snd (snd (partition_at (CHR '':'') rest))))
            else (case partition_at (CHR '':'') info of (h, _, p) \<Rightarrow> (h, p)))
     in (host, if port = [] then None else Some port))"

definition has_userinfo :: "split_url \<Rightarrow> bool" where
  "has_userinfo u = (CHR ''@'' \<in> set (su_netloc u))"

definition port_ok :: "split_url \<Rightarrow> bool" where
  "port_ok u = (case snd (hostinfo u) of None \<Rightarrow> True | Some p \<Rightarrow> is_digits p \<and> digits_value p \<le> 65535)"

subsection \<open>Startup validation\<close>

definition origin_error :: "(string \<Rightarrow> bool) \<Rightarrow> string \<Rightarrow> string option" where
  "origin_error valid_literal origin =
    (if CHR ''*'' \<in> set origin then Some ''CORS_ORIGINS must contain exact origins and cannot use wildcards''
     else case urlsplit valid_literal origin of
         Inl m \<Rightarrow> Some m
       | Inr u \<Rightarrow>
          (if \<not> port_ok u then Some ''CORS_ORIGINS entries must contain a valid port''
           else if su_scheme u \<notin> {''http'', ''https''} \<or> su_netloc u = [] \<or> fst (hostinfo u) = []
              \<or> has_userinfo u \<or> su_path u \<noteq> [] \<or> su_query u \<noteq> [] \<or> su_fragment u \<noteq> []
           then Some (''CORS_ORIGINS entries must be exact HTTP or HTTPS origins without paths, ''
             @ ''credentials, queries, or fragments'')
           else None))"

definition sqlite_url :: "string \<Rightarrow> bool" where
  "sqlite_url url \<longleftrightarrow> (let u = casefold (strip url) in starts_with ''sqlite://'' u \<or> starts_with ''sqlite+pysqlite://'' u)"

definition validate_deployment_settings :: "(string \<Rightarrow> bool) \<Rightarrow> app_settings \<Rightarrow> string + unit" where
  "validate_deployment_settings valid_literal s =
    (if casefold (strip (app_host s)) = [] then Inl ''APP_HOST must identify the effective backend bind host''
     else case List.map_filter (origin_error valid_literal) (cors_origin_list s) of
         m # _ \<Rightarrow> Inl m
       | [] \<Rightarrow>
          (if deployment_mode s \<noteq> Desktop then Inr ()
           else if \<not> is_loopback_binding s then Inl ''Desktop deployment requires APP_HOST to be a loopback address''
           else if \<not> sqlite_url (database_url s) then Inl ''Desktop deployment requires a managed SQLite DATABASE_URL''
           else if cors_origin_list s \<noteq> [] then Inl ''Desktop deployment requires CORS_ORIGINS to be empty''
           else Inr ()))"

definition validate_api_auth_settings :: "(string \<Rightarrow> path_state) \<Rightarrow> app_settings \<Rightarrow> string + unit" where
  "validate_api_auth_settings files s =
    and_then (effective_lighthouse_api_token files s) (\<lambda>token.
      if api_token_required s \<and> strip token = []
      then Inl (''LIGHTHOUSE_API_TOKEN or LIGHTHOUSE_API_TOKEN_FILE is required for the ''
        @ ''configured deployment mode, environment, and bind host'')
      else Inr ())"

definition validate_secret_settings ::
  "(string \<Rightarrow> path_state) \<Rightarrow> (string \<Rightarrow> db_url option) \<Rightarrow> app_settings \<Rightarrow> string + unit" where
  "validate_secret_settings files make_url s =
    and_then (effective_lighthouse_api_token files s) (\<lambda>_.
    and_then (effective_jira_api_token files s) (\<lambda>_.
    and_then (effective_postgres_password files s) (\<lambda>_.
    and_then (effective_database_url files make_url s) (\<lambda>_. Inr ()))))"

definition missing_jira_settings :: "app_settings \<Rightarrow> string \<Rightarrow> string list" where
  "missing_jira_settings s token = map fst (filter (\<lambda>(name, given). \<not> given)
     [(''JIRA_BASE_URL'', strip (jira_base_url s) \<noteq> []), (''JIRA_USER_EMAIL'', strip (jira_user_email s) \<noteq> []),
      (''JIRA_API_TOKEN or JIRA_API_TOKEN_FILE'', strip token \<noteq> []),
      (''JIRA_PROJECT_KEY'', strip (jira_project_key s) \<noteq> []),
      (''JIRA_FIELD_SEVERITY'', strip (jira_field_severity s) \<noteq> []),
      (''JIRA_FIELD_RELEASE'', strip (jira_field_release s) \<noteq> []),
      (''JIRA_CHANGELOG_FIX_VERSION_FIELDS'', csv_to_set (jira_changelog_fix_version_fields s) \<noteq> {})])"

definition validate_startup_settings ::
  "(string \<Rightarrow> bool) \<Rightarrow> (string \<Rightarrow> path_state) \<Rightarrow> (string \<Rightarrow> db_url option) \<Rightarrow> app_settings \<Rightarrow> string + unit" where
  "validate_startup_settings valid_literal files make_url s =
    and_then (validate_deployment_settings valid_literal s) (\<lambda>_.
    and_then (validate_secret_settings files make_url s) (\<lambda>_.
    and_then (validate_api_auth_settings files s) (\<lambda>_.
    and_then (validate_classification_settings (settings.truncate s)) (\<lambda>_.
      if \<not> jira_sync_enabled s then Inr ()
      else and_then (effective_jira_api_token files s) (\<lambda>token.
        let missing = missing_jira_settings s token
        in if missing \<noteq> [] then Inl (''Missing required Jira startup settings: '' @ join '', '' missing)
           else if \<not> (starts_with ''http://'' (jira_base_url s) \<or> starts_with ''https://'' (jira_base_url s))
           then Inl ''JIRA_BASE_URL must start with http:// or https://''
           else Inr ())))))"

text \<open>Direct secrets must come from the process environment, whose names are given, not from a file.\<close>

definition validate_env_file_secret_sources :: "string set \<Rightarrow> app_settings \<Rightarrow> string + unit" where
  "validate_env_file_secret_sources environ s =
    (if deployment_mode s = Local_Browser \<and> app_env s \<in> {Env_Dev, Env_Test} \<and> is_loopback_binding s then Inr ()
     else let file_only = map fst (filter (\<lambda>(name, value). value \<noteq> [] \<and> name \<notin> environ)
              [(''LIGHTHOUSE_API_TOKEN'', lighthouse_api_token s), (''JIRA_API_TOKEN'', jira_api_token s),
               (''POSTGRES_PASSWORD'', postgres_password s)])
       in if file_only \<noteq> []
          then Inl (''Direct secrets must not be loaded from an environment file in this deployment: ''
            @ join '', '' file_only @ ''; use the process environment or the corresponding '' @ ''*_FILE setting'')
          else Inr ())"

subsection \<open>A sample deployment\<close>

text \<open>A desktop deployment with a token file.\<close>

definition desktop_settings :: app_settings where
  "desktop_settings = settings.extend default_settings
     \<lparr>app_env = Env_Prod, deployment_mode = Desktop, app_host = ''127.0.0.1'', cors_origins = [],
      database_url = ''sqlite:///lighthouse.db'', postgres_password = [], postgres_password_file = [],
      lighthouse_api_token = [], lighthouse_api_token_file = ''/run/token'', jira_base_url = [],
      jira_user_email = [], jira_api_token = [], jira_api_token_file = [], jira_project_key = [],
      jira_sync_enabled = False, jira_sync_page_size = 50, jira_sync_changelog_page_size = 100,
      jira_sync_interval_seconds = 0\<rparr>"

definition token_file :: "string \<Rightarrow> path_state" where
  "token_file path = (if path = ''/run/token'' then Regular 7 (Some (''s3cret'' @ [CHR 0x0A])) else Not_Regular)"

definition sqlite_only :: "string \<Rightarrow> db_url option" where
  "sqlite_only url = Some \<lparr>du_backend_name = ''sqlite'', du_password = None, du_render = (\<lambda>_. url)\<rparr>"

lemma desktop_valid:
  "validate_startup_settings (\<lambda>_. True) token_file sqlite_only desktop_settings = Inr ()"
  "api_token_required desktop_settings"
  "effective_lighthouse_api_token token_file desktop_settings = Inr ''s3cret''"
  by code_simp+

end
