(* ===== verification/Security.thy ===== *)
theory Security
  imports Deployment
begin

text \<open>
  The access rules of the API (security.py): the table of routes by class, its validation at startup, and the
  bearer token check before a request. The routes that the web framework has registered are an argument.
  The theorem joins them with the startup validation: a deployment that needs a token answers 401 to every
  request but the health check that does not carry it.
\<close>

subsection \<open>Routes\<close>

datatype route_class = Public_Health | Protected_Read | Privileged_Operation

type_synonym route_key = "string \<times> string"

definition ROUTES_BY_SECURITY_CLASS :: "(route_class \<times> route_key list) list" where
  "ROUTES_BY_SECURITY_CLASS =
    [(Public_Health, [(''GET'', ''/health'')]),
     (Protected_Read,
       [(''GET'', ''/openapi.json''), (''HEAD'', ''/openapi.json''), (''GET'', ''/docs''), (''HEAD'', ''/docs''),
        (''GET'', ''/docs/oauth2-redirect''), (''HEAD'', ''/docs/oauth2-redirect''), (''GET'', ''/redoc''),
        (''HEAD'', ''/redoc''), (''GET'', ''/metadata/metrics''), (''GET'', ''/sync/jira/status''),
        (''GET'', ''/releases''), (''GET'', ''/releases/{release_id}''), (''GET'', ''/releases/{release_id}/issues''),
        (''GET'', ''/issues/{jira_key}''), (''GET'', ''/releases/{release_id}/metrics''),
        (''GET'', ''/releases/{release_id}/charts''), (''GET'', ''/releases/{release_id}/snapshot-comparison''),
        (''GET'', ''/releases/{release_id}/snapshot-change-history''),
        (''GET'', ''/releases/{release_id}/reports/overview.pdf''), (''GET'', ''/reports/documentation.pdf''),
        (''GET'', ''/releases/{release_id}/reports/{depth}.pdf''),
        (''GET'', ''/sprints/{sprint_id}/reports/{depth}.pdf''), (''GET'', ''/releases/{release_id}/signal''),
        (''GET'', ''/sprints''), (''GET'', ''/sprints/current''), (''GET'', ''/sprints/{sprint_id}''),
        (''GET'', ''/sprints/{sprint_id}/issues''), (''GET'', ''/sprints/{sprint_id}/metrics''),
        (''GET'', ''/sprints/{sprint_id}/snapshot-comparison''),
        (''GET'', ''/sprints/{sprint_id}/snapshot-change-history'')]),
     (Privileged_Operation,
       [(''GET'', ''/admin/status''), (''GET'', ''/config/jira''), (''PUT'', ''/config/jira''),
        (''POST'', ''/config/jira/test''), (''POST'', ''/releases/{release_id}/recompute''),
        (''POST'', ''/releases/recompute-all''), (''POST'', ''/sprints/{sprint_id}/recompute''),
        (''POST'', ''/sync/jira'')])]"

definition routes_of :: "route_class \<Rightarrow> route_key list" where
  "routes_of c = (case map_of ROUTES_BY_SECURITY_CLASS c of None \<Rightarrow> [] | Some rs \<Rightarrow> rs)"

definition AUTH_EXEMPT_ROUTES :: "route_key list" where
  "AUTH_EXEMPT_ROUTES = routes_of Public_Health"

definition route_text :: "route_key \<Rightarrow> string" where
  "route_text k = fst k @ '' '' @ snd k"

definition route_security_class :: "route_key \<Rightarrow> string + route_class" where
  "route_security_class k =
    (let matches = map fst (filter (\<lambda>(c, rs). k \<in> set rs) ROUTES_BY_SECURITY_CLASS)
     in if length matches \<noteq> 1
        then Inl (''Route security classification must be exclusive for '' @ route_text k @ ''; found ''
          @ nat_str (length matches) @ '' classifications'')
        else Inr (hd matches))"

definition declared_routes :: "(route_class \<times> route_key list) list \<Rightarrow> route_key list" where
  "declared_routes table = concat (map snd table)"

fun duplicate_routes :: "(route_class \<times> route_key list) list \<Rightarrow> route_key list \<Rightarrow> route_key list" where
  "duplicate_routes [] declared = []"
| "duplicate_routes ((c, rs) # table) declared =
     filter (\<lambda>k. k \<in> set declared) rs @ duplicate_routes table (declared @ rs)"

definition validate_route_security_inventory :: "route_key list \<Rightarrow> string + unit" where
  "validate_route_security_inventory registered =
    (let declared = declared_routes ROUTES_BY_SECURITY_CLASS;
         duplicates = sorted_keys (duplicate_routes ROUTES_BY_SECURITY_CLASS []);
         unclassified = sorted_keys (filter (\<lambda>k. k \<notin> set declared) registered);
         stale = sorted_keys (filter (\<lambda>k. k \<notin> set registered) declared)
     in if duplicates \<noteq> []
        then Inl (''Routes have multiple security classifications: '' @ join '', '' (map route_text duplicates))
        else if set (routes_of Public_Health) \<noteq> {(''GET'', ''/health'')}
        then Inl ''GET /health must be the only public route''
        else if unclassified \<noteq> [] \<or> stale \<noteq> []
        then Inl (''Route security inventory mismatch ('' @ join ''; ''
          ((if unclassified \<noteq> [] then [''unclassified: '' @ join '', '' (map route_text unclassified)] else [])
           @ (if stale \<noteq> [] then [''stale: '' @ join '', '' (map route_text stale)] else [])) @ '')'')
        else Inr ())"

text \<open>The class of a request: \<open>None\<close> without a matched route, or with one that is not registered.\<close>

definition request_route_security_class ::
  "route_key list \<Rightarrow> string \<Rightarrow> string option \<Rightarrow> string + route_class option" where
  "request_route_security_class registered verb route_path =
    (case route_path of
       None \<Rightarrow> Inr None
     | Some p \<Rightarrow> if (upper verb, p) \<notin> set registered then Inr None
         else map_sum id Some (route_security_class (upper verb, p)))"

subsection \<open>The token check\<close>

record auth_response =
  ar_status_code :: int
  ar_detail :: string
  ar_headers :: "(string \<times> string) list"

definition auth_failed :: auth_response where
  "auth_failed = \<lparr>ar_status_code = 401, ar_detail = ''API authentication failed.'',
     ar_headers = [(''Cache-Control'', ''no-store''), (''WWW-Authenticate'', ''Bearer'')]\<rparr>"

text \<open>\<open>None\<close> lets the request pass.\<close>

definition enforce_local_api_auth ::
  "(string \<Rightarrow> path_state) \<Rightarrow> app_settings \<Rightarrow> string \<Rightarrow> string \<Rightarrow> string option \<Rightarrow> string + auth_response option" where
  "enforce_local_api_auth files s verb route authorization =
    (if (upper verb, route) \<in> set AUTH_EXEMPT_ROUTES then Inr None
     else and_then (api_auth_enabled files s) (\<lambda>enabled.
       if \<not> enabled then Inr None
       else and_then (effective_lighthouse_api_token files s) (\<lambda>expected.
         case partition_at (CHR '' '') (or_empty authorization) of (scheme, _, provided) \<Rightarrow>
           Inr (if casefold scheme \<noteq> ''bearer'' \<or> provided \<noteq> expected then Some auth_failed else None))))"

subsection \<open>Who gets in\<close>

lemma partition_at_first: "c \<notin> set a \<Longrightarrow> partition_at c (a @ c # b) = (a, True, b)"
proof -
  assume "c \<notin> set a"
  then have "takeWhile (\<lambda>x. x \<noteq> c) (a @ c # b) = a" "dropWhile (\<lambda>x. x \<noteq> c) (a @ c # b) = c # b"
    by (induction a) auto
  then show ?thesis by (simp add: partition_at_def after_first_def)
qed

lemma partition_at_found:
  assumes "partition_at c s = (a, found, b)" and "b \<noteq> []"
  shows "s = a @ c # b"
proof (cases "c \<in> set s")
  case True
  then obtain x y where s: "s = x @ c # y" "c \<notin> set x" by (metis split_list_first)
  then show ?thesis using assms(1) partition_at_first [OF s(2), of y] by simp
next
  case False
  then have "\<forall>x \<in> set s. x \<noteq> c" by blast
  then have nil: "dropWhile (\<lambda>x. x \<noteq> c) s = []" unfolding dropWhile_eq_Nil_conv .
  have "b = after_first c s" using assms(1) by (simp add: partition_at_def)
  then have "b = []" unfolding after_first_def nil by simp
  then show ?thesis using assms(2) by simp
qed

lemma startup_needs_token:
  assumes "validate_startup_settings valid_literal files make_url s = Inr ()" and "api_token_required s"
  obtains token where "effective_lighthouse_api_token files s = Inr token" and "strip token \<noteq> []"
proof -
  have "validate_api_auth_settings files s = Inr ()"
    using assms(1) unfolding validate_startup_settings_def and_then_Inr_iff by fastforce
  then obtain token where "effective_lighthouse_api_token files s = Inr token" "\<not> (api_token_required s \<and> strip token = [])"
    unfolding validate_api_auth_settings_def and_then_Inr_iff by (metis sum.distinct(1))
  then show ?thesis using assms(2) that by blast
qed

lemma bearer_header:
  assumes p: "partition_at (CHR '' '') (or_empty authorization) = (a, found, b)" and token: "strip token \<noteq> []"
  shows "(casefold a = ''bearer'' \<and> b = token)
      \<longleftrightarrow> (\<exists>scheme. authorization = Some (scheme @ '' '' @ token) \<and> casefold scheme = ''bearer'')"
proof
  assume l: "casefold a = ''bearer'' \<and> b = token"
  have "token \<noteq> []" using token by auto
  then have "or_empty authorization = a @ CHR '' '' # token" using partition_at_found [OF p] l by simp
  then have "authorization = Some (a @ '' '' @ token)" by (cases authorization) simp_all
  then show "\<exists>scheme. authorization = Some (scheme @ '' '' @ token) \<and> casefold scheme = ''bearer''" using l by blast
next
  assume "\<exists>scheme. authorization = Some (scheme @ '' '' @ token) \<and> casefold scheme = ''bearer''"
  then obtain scheme where sch: "authorization = Some (scheme @ '' '' @ token)" "casefold scheme = ''bearer''" by blast
  have "CHR '' '' \<notin> set scheme"
  proof
    assume "CHR '' '' \<in> set scheme"
    then have "lower_char (CHR '' '') \<in> set (casefold scheme)" unfolding casefold_def set_map by (rule imageI)
    moreover have "lower_char (CHR '' '') = CHR '' ''" by code_simp
    ultimately show False unfolding sch(2) by simp
  qed
  then have "partition_at (CHR '' '') (or_empty authorization) = (scheme, True, token)"
    using partition_at_first [of _ scheme token] by (simp add: sch(1))
  then show "casefold a = ''bearer'' \<and> b = token" using p sch(2) by simp
qed

text \<open>C18: In a deployment that passes the startup validation and needs a token (production, a bind host that is
  not loopback, desktop or docker) there is one token, not blank, and a request other than the health check
  gets past the check exactly when its authorization header is the scheme Bearer, in any case, one blank and
  that token; every other request is answered with the status 401. The health check always passes.\<close>

theorem only_bearers_pass:
  assumes "validate_startup_settings valid_literal files make_url s = Inr ()" and "api_token_required s"
  shows "\<exists>token. strip token \<noteq> [] \<and> effective_lighthouse_api_token files s = Inr token
    \<and> (\<forall>verb route authorization. enforce_local_api_auth files s verb route authorization =
        (if (upper verb, route) = (''GET'', ''/health'')
            \<or> (\<exists>scheme. authorization = Some (scheme @ '' '' @ token) \<and> casefold scheme = ''bearer'')
         then Inr None else Inr (Some auth_failed)))"
proof -
  obtain token where token: "effective_lighthouse_api_token files s = Inr token" "strip token \<noteq> []"
    by (rule startup_needs_token [OF assms])
  have enabled: "api_auth_enabled files s = Inr True" using token by (simp add: api_auth_enabled_def)
  have exempt: "AUTH_EXEMPT_ROUTES = [(''GET'', ''/health'')]"
    by (simp add: AUTH_EXEMPT_ROUTES_def routes_of_def ROUTES_BY_SECURITY_CLASS_def)
  have "enforce_local_api_auth files s verb route authorization =
        (if (upper verb, route) = (''GET'', ''/health'')
            \<or> (\<exists>scheme. authorization = Some (scheme @ '' '' @ token) \<and> casefold scheme = ''bearer'')
         then Inr None else Inr (Some auth_failed))" for verb route authorization
  proof -
    obtain a found b where p: "partition_at (CHR '' '') (or_empty authorization) = (a, found, b)"
      by (metis prod_cases3)
    show ?thesis unfolding bearer_header [OF p token(2), symmetric]
      by (auto simp: enforce_local_api_auth_def exempt enabled token(1) p)
  qed
  then show ?thesis using token by blast
qed

subsection \<open>Witness\<close>

lemma only_bearers_pass_witness:
  "enforce_local_api_auth token_file desktop_settings ''get'' ''/releases'' (Some ''bearer s3cret'') = Inr None
   \<and> enforce_local_api_auth token_file desktop_settings ''GET'' ''/releases'' None = Inr (Some auth_failed)"
proof -
  have up: "upper ''get'' = ''GET''" "upper ''GET'' = ''GET''" by code_simp+
  have low: "casefold ''bearer'' = ''bearer''" by code_simp
  have b: "\<exists>scheme. Some ''bearer s3cret'' = Some (scheme @ '' '' @ ''s3cret'') \<and> casefold scheme = ''bearer''"
    by (rule exI [of _ "''bearer''"]) (simp add: low)
  from only_bearers_pass [OF desktop_valid(1,2)] show ?thesis
    using b desktop_valid(3) by (auto simp: up)
qed

end
