(* ===== verification/Configuration.thy ===== *)
theory Configuration
  imports Deployment
begin

text \<open>
  The configuration service (services/configuration_service.py): an update of the Jira settings is checked,
  written into the environment file line by line, and put into the process environment. The theorem on the
  file says what an update leaves of it; values that contain line breaks are outside it, and the last lemma
  shows why. Reading settings from the file and the environment (\<open>pydantic_settings\<close>) is an argument.
\<close>

subsection \<open>Lines of the environment file\<close>

text \<open>\<open>str.splitlines(keepends=True)\<close> on ASCII text.\<close>

definition line_break :: "char \<Rightarrow> bool" where
  "line_break c \<longleftrightarrow> c \<in> {CHR 0x0A, CHR 0x0B, CHR 0x0C, CHR 0x0D, CHR 0x1C, CHR 0x1D, CHR 0x1E}"

fun splitlines :: "string \<Rightarrow> string list" where
  "splitlines [] = []"
| "splitlines (c # cs) =
    (if c = CHR 0x0D \<and> cs \<noteq> [] \<and> hd cs = CHR 0x0A then [c, hd cs] # splitlines (tl cs)
     else if line_break c then [c] # splitlines cs
     else (case splitlines cs of [] \<Rightarrow> [[c]] | l # ls \<Rightarrow> (c # l) # ls))"

text \<open>\<open>_ENV_ASSIGNMENT.match\<close>: white space, optionally \<open>export\<close> and white space, a name, white space, an equals
  sign. The result is the prefix and the name. No other way to match the pattern succeeds: after white space
  or a name taken as long as possible only a shorter \<open>export\<close> part, none, can help.\<close>

definition name_char :: "char \<Rightarrow> bool" where
  "name_char c \<longleftrightarrow> is_alpha c \<or> is_digit_char c \<or> c = CHR ''_''"

definition match_name :: "string \<Rightarrow> string \<Rightarrow> (string \<times> string) option" where
  "match_name prefix r =
    (let name = takeWhile name_char r; rest = dropWhile is_space (dropWhile name_char r)
     in if name \<noteq> [] \<and> \<not> is_digit_char (hd name) \<and> rest \<noteq> [] \<and> hd rest = CHR ''='' then Some (prefix, name) else None)"

definition env_assignment :: "string \<Rightarrow> (string \<times> string) option" where
  "env_assignment line =
    (let ws = takeWhile is_space line; r = dropWhile is_space line;
         r' = drop 6 r; ws' = takeWhile is_space r'
     in case (if starts_with ''export'' r \<and> ws' \<noteq> []
              then match_name (ws @ ''export'' @ ws') (dropWhile is_space r') else None) of
          Some m \<Rightarrow> Some m
        | None \<Rightarrow> match_name ws r)"

text \<open>\<open>value.replace("_", "").isalnum()\<close>, and the quoting of a value.\<close>

definition is_alnum :: "char \<Rightarrow> bool" where "is_alnum c \<longleftrightarrow> is_alpha c \<or> is_digit_char c"

definition quote_env_value :: "string \<Rightarrow> string" where
  "quote_env_value v =
    (let plain = filter (\<lambda>c. c \<noteq> CHR ''_'') v
     in if plain \<noteq> [] \<and> list_all is_alnum plain then v
        else CHR 0x27 # concat (map (\<lambda>c. if c = CHR 0x27 then [CHR 0x5C, CHR 0x27] else [c]) v) @ [CHR 0x27])"

definition crlf :: string where "crlf = [CHR 0x0D, CHR 0x0A]"

definition env_line :: "string \<Rightarrow> string \<Rightarrow> string \<Rightarrow> string \<Rightarrow> string" where
  "env_line prefix key value newline = prefix @ key @ ''='' @ quote_env_value value @ newline"

text \<open>The loop over the lines: the output and the replacements not yet made.\<close>

fun update_lines ::
  "(string \<times> string) list \<Rightarrow> string list \<Rightarrow> string list \<Rightarrow> string list \<times> (string \<times> string) list" where
  "update_lines remaining updated [] = ([], remaining)"
| "update_lines remaining updated (line # lines) =
    (case env_assignment line of
       None \<Rightarrow> map_prod (Cons line) id (update_lines remaining updated lines)
     | Some (prefix, key) \<Rightarrow>
        (if key \<in> set updated then update_lines remaining updated lines
         else case map_of remaining key of
             None \<Rightarrow> map_prod (Cons line) id (update_lines remaining updated lines)
           | Some value \<Rightarrow>
               map_prod (Cons (env_line prefix key value (if ends_with crlf line then crlf else [CHR 0x0A]))) id
                 (update_lines (filter (\<lambda>(k, v). k \<noteq> key) remaining) (key # updated) lines)))"

definition close_last :: "string list \<Rightarrow> string list" where
  "close_last out =
    (if out \<noteq> [] \<and> \<not> (ends_with [CHR 0x0A] (last out) \<or> ends_with [CHR 0x0D] (last out))
     then butlast out @ [last out @ [CHR 0x0A]] else out)"

definition update_env_text :: "string \<Rightarrow> (string \<times> string) list \<Rightarrow> string" where
  "update_env_text original replacements =
    (if replacements = [] then original
     else case update_lines replacements [] (splitlines original) of (out, remaining) \<Rightarrow>
       concat (close_last out @ map (\<lambda>(k, v). env_line [] k v [CHR 0x0A]) remaining))"

text \<open>\<open>read_text\<close> translates CR LF and CR to LF; the new text is written as it is.\<close>

fun universal_newlines :: "string \<Rightarrow> string" where
  "universal_newlines [] = []"
| "universal_newlines (c # cs) =
    (if c = CHR 0x0D then CHR 0x0A # universal_newlines (if cs \<noteq> [] \<and> hd cs = CHR 0x0A then tl cs else cs)
     else c # universal_newlines cs)"

subsection \<open>Operations of the service\<close>

text \<open>\<open>JIRA_FIELD_TO_ENV\<close>, and the value of a setting. An update is what \<open>model_dump(exclude_unset=True)\<close>
  gives: the fields that the client set, in the order of the schema, with \<open>None\<close> for a null.\<close>

datatype config_value = Value_Str string | Value_Bool bool | Value_Int int

definition JIRA_FIELD_TO_ENV :: "(string \<times> string) list" where
  "JIRA_FIELD_TO_ENV = [
     (''jira_base_url'', ''JIRA_BASE_URL''), (''jira_user_email'', ''JIRA_USER_EMAIL''),
     (''jira_api_token'', ''JIRA_API_TOKEN''), (''jira_project_key'', ''JIRA_PROJECT_KEY''),
     (''jira_sync_enabled'', ''JIRA_SYNC_ENABLED''), (''jira_sync_page_size'', ''JIRA_SYNC_PAGE_SIZE''),
     (''jira_sync_changelog_page_size'', ''JIRA_SYNC_CHANGELOG_PAGE_SIZE''),
     (''jira_sync_interval_seconds'', ''JIRA_SYNC_INTERVAL_SECONDS''),
     (''jira_field_story_points'', ''JIRA_FIELD_STORY_POINTS''), (''jira_field_severity'', ''JIRA_FIELD_SEVERITY''),
     (''jira_field_release'', ''JIRA_FIELD_RELEASE''), (''jira_field_sprint'', ''JIRA_FIELD_SPRINT''),
     (''jira_field_blocker'', ''JIRA_FIELD_BLOCKER''),
     (''jira_changelog_fix_version_fields'', ''JIRA_CHANGELOG_FIX_VERSION_FIELDS''),
     (''jira_changelog_sprint_fields'', ''JIRA_CHANGELOG_SPRINT_FIELDS''),
     (''jira_done_statuses'', ''JIRA_DONE_STATUSES''), (''jira_in_progress_statuses'', ''JIRA_IN_PROGRESS_STATUSES''),
     (''jira_high_severity_values'', ''JIRA_HIGH_SEVERITY_VALUES''), (''jira_bug_issue_types'', ''JIRA_BUG_ISSUE_TYPES''),
     (''jira_blocker_issue_types'', ''JIRA_BLOCKER_ISSUE_TYPES''),
     (''jira_blocker_severity_values'', ''JIRA_BLOCKER_SEVERITY_VALUES''), (''jira_blocked_statuses'', ''JIRA_BLOCKED_STATUSES'')]"

definition env_name :: "string \<Rightarrow> string" where
  "env_name field = the (map_of JIRA_FIELD_TO_ENV field)"

definition to_env_value :: "config_value \<Rightarrow> string" where
  "to_env_value v = (case v of Value_Bool b \<Rightarrow> if b then ''true'' else ''false'' | Value_Int i \<Rightarrow> int_str i | Value_Str s \<Rightarrow> s)"

text \<open>The schema gives the page sizes and the interval integers, so \<open>int(value)\<close> is their value.\<close>

definition value_below :: "config_value \<Rightarrow> int \<Rightarrow> bool" where
  "value_below v n = (case v of Value_Int i \<Rightarrow> i < n | _ \<Rightarrow> False)"

definition normalize_update_value :: "string \<times> config_value option \<Rightarrow> string + (string \<times> config_value) list" where
  "normalize_update_value fv =
    (case fv of (field, value) \<Rightarrow>
      if map_of JIRA_FIELD_TO_ENV field = None then Inr []
      else case value of None \<Rightarrow> Inr []
        | Some v \<Rightarrow>
           (if field \<in> {''jira_sync_page_size'', ''jira_sync_changelog_page_size''} \<and> value_below v 1
            then Inl ''Jira sync page sizes must be at least 1''
            else if field = ''jira_sync_interval_seconds'' \<and> value_below v 0
            then Inl ''Jira sync interval must be zero or greater''
            else Inr [(field, case v of Value_Str s \<Rightarrow> Value_Str (strip s) | _ \<Rightarrow> v)]))"

definition normalize_update_values ::
  "(string \<times> config_value option) list \<Rightarrow> string + (string \<times> config_value) list" where
  "normalize_update_values values = map_sum id concat (map_ok normalize_update_value values)"

text \<open>A setting of the candidate; the three required mappings are stripped by their validator.\<close>

definition set_text :: "string \<Rightarrow> string \<Rightarrow> app_settings \<Rightarrow> app_settings" where
  "set_text field v s =
    (if field = ''jira_base_url'' then s\<lparr>jira_base_url := v\<rparr>
     else if field = ''jira_user_email'' then s\<lparr>jira_user_email := v\<rparr>
     else if field = ''jira_api_token'' then s\<lparr>jira_api_token := v\<rparr>
     else if field = ''jira_project_key'' then s\<lparr>jira_project_key := v\<rparr>
     else if field = ''jira_field_story_points'' then s\<lparr>jira_field_story_points := v\<rparr>
     else if field = ''jira_field_severity'' then s\<lparr>jira_field_severity := strip v\<rparr>
     else if field = ''jira_field_release'' then s\<lparr>jira_field_release := strip v\<rparr>
     else if field = ''jira_field_sprint'' then s\<lparr>jira_field_sprint := v\<rparr>
     else if field = ''jira_field_blocker'' then s\<lparr>jira_field_blocker := v\<rparr>
     else if field = ''jira_changelog_fix_version_fields'' then s\<lparr>jira_changelog_fix_version_fields := strip v\<rparr>
     else if field = ''jira_changelog_sprint_fields'' then s\<lparr>jira_changelog_sprint_fields := v\<rparr>
     else if field = ''jira_done_statuses'' then s\<lparr>jira_done_statuses := v\<rparr>
     else if field = ''jira_in_progress_statuses'' then s\<lparr>jira_in_progress_statuses := v\<rparr>
     else if field = ''jira_high_severity_values'' then s\<lparr>jira_high_severity_values := v\<rparr>
     else if field = ''jira_bug_issue_types'' then s\<lparr>jira_bug_issue_types := v\<rparr>
     else if field = ''jira_blocker_issue_types'' then s\<lparr>jira_blocker_issue_types := v\<rparr>
     else if field = ''jira_blocker_severity_values'' then s\<lparr>jira_blocker_severity_values := v\<rparr>
     else if field = ''jira_blocked_statuses'' then s\<lparr>jira_blocked_statuses := v\<rparr>
     else s)"

definition set_setting :: "string \<times> config_value \<Rightarrow> app_settings \<Rightarrow> app_settings" where
  "set_setting fv s =
    (case fv of (field, Value_Str v) \<Rightarrow> set_text field v s
     | (field, Value_Bool b) \<Rightarrow> (if field = ''jira_sync_enabled'' then s\<lparr>jira_sync_enabled := b\<rparr> else s)
     | (field, Value_Int i) \<Rightarrow>
        (if field = ''jira_sync_page_size'' then s\<lparr>jira_sync_page_size := i\<rparr>
         else if field = ''jira_sync_changelog_page_size'' then s\<lparr>jira_sync_changelog_page_size := i\<rparr>
         else if field = ''jira_sync_interval_seconds'' then s\<lparr>jira_sync_interval_seconds := i\<rparr>
         else s))"

definition build_candidate_settings :: "app_settings \<Rightarrow> (string \<times> config_value) list \<Rightarrow> app_settings" where
  "build_candidate_settings s values =
    fold set_setting values (if ''jira_api_token'' \<in> fst ` set values then s\<lparr>jira_api_token_file := []\<rparr> else s)"

definition validate_update_allowed ::
  "(string \<times> string) list \<Rightarrow> app_settings \<Rightarrow> (string \<times> config_value option) list \<Rightarrow> string + unit" where
  "validate_update_allowed environ s values =
    (if ''jira_api_token'' \<in> fst ` set values \<and> deployment_mode s \<noteq> Desktop
     then Inl (''Jira API token persistence is unavailable in this deployment mode; configure ''
       @ ''JIRA_API_TOKEN or JIRA_API_TOKEN_FILE externally and restart the backend'')
     else if deployment_mode s = Docker \<and> strip (or_empty (map_of environ ''LIGHTHOUSE_CONFIG_FILE'')) = []
     then Inl (''Docker configuration writes require a writable file mounted through '' @ ''LIGHTHOUSE_CONFIG_FILE'')
     else Inr ())"

text \<open>The text of the configuration file after the write; no file reads as an empty one. The file is replaced
  atomically, so it is either as before or has this text.\<close>

definition write_configuration :: "string option \<Rightarrow> (string \<times> config_value) list \<Rightarrow> string" where
  "write_configuration file values =
     update_env_text (universal_newlines (or_empty file))
       (map (\<lambda>(field, v). (env_name field, to_env_value v)) (filter (\<lambda>(field, v). field \<noteq> ''jira_api_token'') values))"

definition apply_runtime_environment ::
  "app_settings \<Rightarrow> (string \<times> config_value) list \<Rightarrow> (string \<times> string) list \<Rightarrow> (string \<times> string) list" where
  "apply_runtime_environment s values environ =
    fold (\<lambda>(field, v) env. if field = ''jira_api_token'' \<and> deployment_mode s \<noteq> Desktop then env
                           else put (env_name field) (to_env_value v) env) values environ"

subsection \<open>Facts on lines and assignments\<close>

text \<open>A closed line: no line break but a final LF.\<close>

definition unbroken :: "string \<Rightarrow> bool" where "unbroken s \<longleftrightarrow> list_all (\<lambda>c. \<not> line_break c) s"

definition closed_line :: "string \<Rightarrow> bool" where
  "closed_line l \<longleftrightarrow> l \<noteq> [] \<and> last l = CHR 0x0A \<and> unbroken (butlast l)"

lemma unbroken_simps [simp]: "unbroken []" "unbroken (c # s) \<longleftrightarrow> \<not> line_break c \<and> unbroken s"
    "unbroken (s @ t) \<longleftrightarrow> unbroken s \<and> unbroken t"
  by (simp_all add: unbroken_def)

lemma break_chars [simp]: "line_break (CHR 0x0A)" "line_break (CHR 0x0D)"
    "\<not> line_break (CHR ''='')" "\<not> line_break (CHR 0x27)" "\<not> line_break (CHR 0x5C)"
  by (simp_all add: line_break_def)

lemma closed_lineE:
  assumes "closed_line l" obtains body where "l = body @ [CHR 0x0A]" "unbroken body"
  using assms unfolding closed_line_def by (metis append_butlast_last_id)

lemma closed_line_intro: "unbroken body \<Longrightarrow> closed_line (body @ [CHR 0x0A])"
  by (simp add: closed_line_def)

lemma splitlines_unbroken: "unbroken body \<Longrightarrow> body \<noteq> [] \<Longrightarrow> splitlines body = [body]"
proof (induction body)
  case (Cons c body)
  then have "c \<noteq> CHR 0x0D" by (cases "c = CHR 0x0D") simp_all
  moreover have "splitlines body = (if body = [] then [] else [body])" using Cons by simp
  ultimately show ?case using Cons(2) by simp
qed simp

lemma splitlines_closed: "unbroken body \<Longrightarrow> splitlines (body @ CHR 0x0A # s) = (body @ [CHR 0x0A]) # splitlines s"
proof (induction body)
  case (Cons c body)
  then have "c \<noteq> CHR 0x0D" by (cases "c = CHR 0x0D") simp_all
  then show ?case using Cons by simp
qed simp

lemma splitlines_concat: "list_all closed_line ls \<Longrightarrow> splitlines (concat ls @ s) = ls @ splitlines s"
  by (induction ls) (auto elim!: closed_lineE simp: splitlines_closed)

text \<open>A text without other breaks than LF is its closed lines and a rest.\<close>

definition lf_text :: "string \<Rightarrow> bool" where "lf_text s \<longleftrightarrow> (\<forall>c\<in>set s. line_break c \<longrightarrow> c = CHR 0x0A)"

lemma lf_text_lines:
  "lf_text s \<Longrightarrow> \<exists>ls rest. s = concat ls @ rest \<and> list_all closed_line ls \<and> unbroken rest"
proof (induction s rule: length_induct)
  case (1 s)
  show ?case
  proof (cases "unbroken s")
    case True
    then show ?thesis by (intro exI [of _ "[]"] exI [of _ s]) simp
  next
    case False
    then have "\<exists>c\<in>set s. line_break c" by (auto simp: unbroken_def list_all_iff)
    from split_list_first_propE [OF this] obtain b c t
      where s: "s = b @ c # t" "line_break c" "\<forall>x\<in>set b. \<not> line_break x" by metis
    then have c: "c = CHR 0x0A" "lf_text t" using 1(2) by (simp_all add: lf_text_def)
    have "length t < length s" using s(1) by simp
    then obtain ls rest where t: "t = concat ls @ rest" "list_all closed_line ls" "unbroken rest"
      using 1(1) [rule_format, of t] c(2) by auto
    have "closed_line (b @ [CHR 0x0A])" using s(3) by (intro closed_line_intro) (simp add: unbroken_def list_all_iff)
    then show ?thesis unfolding s(1) c(1) t(1)
      by (intro exI [of _ "(b @ [CHR 0x0A]) # ls"] exI [of _ rest]) (simp add: t(2,3))
  qed
qed

lemma set_universal_newlines: "set (universal_newlines s) \<subseteq> insert (CHR 0x0A) (set s - {CHR 0x0D})"
proof (induction s rule: universal_newlines.induct)
  case (2 c cs)
  have t: "set (tl cs) \<subseteq> set cs" by (cases cs) auto
  show ?case
  proof (cases "c = CHR 0x0D")
    case True
    then have "set (universal_newlines (c # cs)) \<subseteq> insert (CHR 0x0A) (set (if cs \<noteq> [] \<and> hd cs = CHR 0x0A then tl cs else cs) - {CHR 0x0D})"
      using 2(1) by simp
    also have "\<dots> \<subseteq> insert (CHR 0x0A) (set (c # cs) - {CHR 0x0D})" using t by (cases "cs \<noteq> [] \<and> hd cs = CHR 0x0A") auto
    finally show ?thesis .
  next
    case False
    then show ?thesis using 2(2) by auto
  qed
qed simp

lemma universal_newlines_lf:
  assumes "\<forall>c\<in>set s. line_break c \<longrightarrow> c \<in> {CHR 0x0A, CHR 0x0D}"
  shows "lf_text (universal_newlines s)"
  unfolding lf_text_def
proof (intro ballI impI)
  fix c assume "c \<in> set (universal_newlines s)" "line_break c"
  then show "c = CHR 0x0A" using set_universal_newlines [of s] assms by blast
qed

text \<open>What the assignment pattern accepts.\<close>

definition good_name :: "string \<Rightarrow> bool" where
  "good_name k \<longleftrightarrow> k \<noteq> [] \<and> list_all name_char k \<and> \<not> is_digit_char (hd k)"

definition good_prefix :: "string \<Rightarrow> bool" where
  "good_prefix p \<longleftrightarrow> list_all is_space p
     \<or> (\<exists>ws ws'. p = ws @ ''export'' @ ws' \<and> list_all is_space ws \<and> list_all is_space ws' \<and> ws' \<noteq> [])"

definition assigns :: "string \<Rightarrow> string \<Rightarrow> string \<Rightarrow> bool" where
  "assigns p k l \<longleftrightarrow> good_prefix p \<and> good_name k \<and> (\<exists>sp rest. l = p @ k @ sp @ CHR ''='' # rest \<and> list_all is_space sp)"

lemma name_char_not_space: "name_char c \<Longrightarrow> \<not> is_space c"
  by (auto simp: name_char_def is_alpha_def is_digit_char_def is_space_def Let_def)

lemma equals_sign [simp]: "\<not> name_char (CHR ''='')" "\<not> is_space (CHR ''='')"
  by (simp_all add: name_char_def is_alpha_def is_digit_char_def is_space_def)

lemma take_drop_while:
  "list_all P a \<Longrightarrow> b \<noteq> [] \<Longrightarrow> \<not> P (hd b) \<Longrightarrow> takeWhile P (a @ b) = a \<and> dropWhile P (a @ b) = b"
  by (induction a) (cases b, simp_all)

lemma match_name_line:
  assumes "good_name k" "list_all is_space sp"
  shows "match_name p (k @ sp @ CHR ''='' # rest) = Some (p, k)"
proof -
  have "\<not> name_char (hd (sp @ CHR ''='' # rest))" using assms(2) name_char_not_space by (cases sp) auto
  then have "takeWhile name_char (k @ sp @ CHR ''='' # rest) = k \<and> dropWhile name_char (k @ sp @ CHR ''='' # rest) = sp @ CHR ''='' # rest"
    using assms(1) by (intro take_drop_while) (simp_all add: good_name_def)
  moreover have "dropWhile is_space (sp @ CHR ''='' # rest) = CHR ''='' # rest"
    using take_drop_while [of is_space sp "CHR ''='' # rest"] assms(2) by simp
  ultimately show ?thesis using assms(1) by (simp add: match_name_def Let_def good_name_def)
qed

lemma match_name_Some:
  assumes "match_name p r = Some (q, k)"
  shows "q = p \<and> good_name k \<and> (\<exists>sp rest. r = k @ sp @ CHR ''='' # rest \<and> list_all is_space sp)"
proof -
  let ?rest = "dropWhile is_space (dropWhile name_char r)"
  have m: "q = p" "k = takeWhile name_char r" "k \<noteq> []" "\<not> is_digit_char (hd k)" "?rest \<noteq> []" "hd ?rest = CHR ''=''"
    using assms by (auto simp: match_name_def Let_def split: if_splits)
  have "r = k @ takeWhile is_space (dropWhile name_char r) @ hd ?rest # tl ?rest"
    using m(2,5) by simp
  moreover have "list_all is_space (takeWhile is_space (dropWhile name_char r))" "list_all name_char k"
    using m(2) by (auto simp: list_all_iff dest: set_takeWhileD)
  ultimately show ?thesis using m by (auto simp: good_name_def)
qed

lemma starts_with_export: "starts_with ''export'' s \<Longrightarrow> s = ''export'' @ drop 6 s"
proof -
  have "length ''export'' = 6" by simp
  then show "starts_with ''export'' s \<Longrightarrow> s = ''export'' @ drop 6 s"
    unfolding starts_with_def by (metis append_take_drop_id)
qed

lemma six_nth:
  assumes "starts_with ''export'' s" "n < 6"
  shows "s ! n = ''export'' ! n"
proof -
  obtain t where "s = ''export'' @ t" using starts_with_export [OF assms(1)] by blast
  moreover have "n < length ''export''" using assms(2) by simp
  ultimately show ?thesis by (simp only: nth_append if_True)
qed

lemma export_shape:
  assumes k: "good_name k" and sp: "list_all is_space sp"
    and e: "starts_with ''export'' (k @ sp @ CHR ''='' # rest)" "takeWhile is_space (drop 6 (k @ sp @ CHR ''='' # rest)) \<noteq> []"
  shows "match_name q (dropWhile is_space (drop 6 (k @ sp @ CHR ''='' # rest))) = None"
proof -
  have six: "\<not> length k < 6"
  proof
    assume "length k < 6"
    moreover have "(k @ sp @ CHR ''='' # rest) ! length k = ''export'' ! length k"
      using six_nth [of "k @ sp @ CHR ''='' # rest"] e(1) \<open>length k < 6\<close> by blast
    moreover have "\<not> name_char ((k @ sp @ CHR ''='' # rest) ! length k)"
      using sp name_char_not_space by (cases sp) (auto simp: nth_append)
    moreover have "list_all (\<lambda>n. name_char (''export'' ! n)) [0..<6]" by code_simp
    ultimately show False by (simp add: list_all_iff)
  qed
  have "drop 6 k = []"
  proof (rule ccontr)
    assume "drop 6 k \<noteq> []"
    moreover have "name_char (hd (drop 6 k))" if "drop 6 k \<noteq> []"
      using k subsetD [OF set_drop_subset hd_in_set [OF that]] by (simp add: good_name_def list_all_iff)
    ultimately show False using e(2) name_char_not_space by (cases "drop 6 k") auto
  qed
  then have "dropWhile is_space (drop 6 (k @ sp @ CHR ''='' # rest)) = CHR ''='' # rest"
    using six sp take_drop_while [of is_space sp "CHR ''='' # rest"] by simp
  then show ?thesis by (simp add: match_name_def)
qed

lemma env_assignment_sound:
  assumes "env_assignment l = Some (p, k)"
  shows "assigns p k l"
proof -
  define ws r where wr: "ws = takeWhile is_space l" "r = dropWhile is_space l"
  define r' ws' where r'w: "r' = drop 6 r" "ws' = takeWhile is_space r'"
  have ws: "list_all is_space ws" "list_all is_space ws'" "l = ws @ r" "r' = ws' @ dropWhile is_space r'"
    by (auto simp: wr r'w list_all_iff dest: set_takeWhileD)
  have e: "env_assignment l = (case (if starts_with ''export'' r \<and> ws' \<noteq> []
      then match_name (ws @ ''export'' @ ws') (dropWhile is_space r') else None) of Some m \<Rightarrow> Some m | None \<Rightarrow> match_name ws r)"
    unfolding env_assignment_def Let_def wr r'w by (rule refl)
  show ?thesis
  proof (cases "starts_with ''export'' r \<and> ws' \<noteq> [] \<and> match_name (ws @ ''export'' @ ws') (dropWhile is_space r') \<noteq> None")
    case True
    then have m: "match_name (ws @ ''export'' @ ws') (dropWhile is_space r') = Some (p, k)" using assms e by auto
    have "r = ''export'' @ r'" using starts_with_export True unfolding r'w by blast
    then have "l = (ws @ ''export'' @ ws') @ dropWhile is_space r'" using ws(3,4) by simp
    moreover have "good_prefix (ws @ ''export'' @ ws')" using ws True unfolding good_prefix_def by blast
    ultimately show ?thesis using match_name_Some [OF m] unfolding assigns_def by auto
  next
    case False
    then have "env_assignment l = match_name ws r" unfolding e by (auto split: option.splits)
    then have "match_name ws r = Some (p, k)" using assms by simp
    from match_name_Some [OF this] show ?thesis using ws(1,3) unfolding assigns_def good_prefix_def by auto
  qed
qed

lemma env_assignment_complete:
  assumes "assigns p k l"
  shows "env_assignment l = Some (p, k)"
proof -
  obtain sp rest where l: "l = p @ k @ sp @ CHR ''='' # rest" "list_all is_space sp" and p: "good_prefix p" and k: "good_name k"
    using assms unfolding assigns_def by blast
  obtain c cs where kc: "k = c # cs" "\<not> is_space c" using k by (cases k) (auto simp: good_name_def name_char_not_space)
  have name: "match_name q (k @ sp @ CHR ''='' # rest) = Some (q, k)" for q by (rule match_name_line [OF k l(2)])
  show ?thesis
  proof (cases "list_all is_space p")
    case True
    then have w: "takeWhile is_space l = p" "dropWhile is_space l = k @ sp @ CHR ''='' # rest"
      using take_drop_while [of is_space p "k @ sp @ CHR ''='' # rest"] kc l(1) by simp_all
    have "match_name q (dropWhile is_space (drop 6 (k @ sp @ CHR ''='' # rest))) = None"
      if "starts_with ''export'' (k @ sp @ CHR ''='' # rest)" "takeWhile is_space (drop 6 (k @ sp @ CHR ''='' # rest)) \<noteq> []" for q
      using export_shape [OF k l(2) that] .
    then show ?thesis using name by (simp add: env_assignment_def Let_def w del: append.simps)
  next
    case False
    then obtain ws ws' where p': "p = ws @ ''export'' @ ws'" "list_all is_space ws" "list_all is_space ws'" "ws' \<noteq> []"
      using p unfolding good_prefix_def by blast
    have w: "takeWhile is_space l = ws" "dropWhile is_space l = ''export'' @ ws' @ k @ sp @ CHR ''='' # rest"
      using take_drop_while [of is_space ws "''export'' @ ws' @ k @ sp @ CHR ''='' # rest"] p'(2) l(1)
      by (simp_all add: p'(1) is_space_def)
    have w': "takeWhile is_space (ws' @ k @ sp @ CHR ''='' # rest) = ws'"
        "dropWhile is_space (ws' @ k @ sp @ CHR ''='' # rest) = k @ sp @ CHR ''='' # rest"
      using take_drop_while [of is_space ws' "k @ sp @ CHR ''='' # rest"] p'(3) kc by simp_all
    have "drop 6 (''export'' @ ws' @ k @ sp @ CHR ''='' # rest) = ws' @ k @ sp @ CHR ''='' # rest" by simp
    then show ?thesis using name p'(4) unfolding env_assignment_def Let_def w
      by (simp add: w' starts_with_def p'(1))
  qed
qed

lemma env_assignment_iff: "env_assignment l = Some (p, k) \<longleftrightarrow> assigns p k l"
  using env_assignment_sound env_assignment_complete by blast

subsection \<open>What an update does to the lines\<close>

definition env_key :: "string \<Rightarrow> string option" where
  "env_key l = map_option snd (env_assignment l)"

definition lines_of :: "string \<Rightarrow> string list \<Rightarrow> string list" where
  "lines_of k ls = filter (\<lambda>l. env_key l = Some k) ls"

definition other_lines :: "string set \<Rightarrow> string list \<Rightarrow> string list" where
  "other_lines K ls = filter (\<lambda>l. env_key l \<notin> Some ` K) ls"

lemma lines_simps [simp]:
  "lines_of k [] = []" "lines_of k (l # ls) = (if env_key l = Some k then l # lines_of k ls else lines_of k ls)"
  "lines_of k (ls @ ms) = lines_of k ls @ lines_of k ms"
  "other_lines K [] = []" "other_lines K (l # ls) = (if env_key l \<in> Some ` K then other_lines K ls else l # other_lines K ls)"
  "other_lines K (ls @ ms) = other_lines K ls @ other_lines K ms"
  by (simp_all add: lines_of_def other_lines_def)

lemma env_key_iff: "env_key l = Some k \<longleftrightarrow> (\<exists>p. env_assignment l = Some (p, k))"
  by (auto simp: env_key_def)

lemma env_assignment_closing: "env_assignment (l @ [CHR 0x0A]) = env_assignment l"
proof -
  have "assigns p k (l @ [CHR 0x0A]) \<longleftrightarrow> assigns p k l" for p k
  proof
    assume "assigns p k (l @ [CHR 0x0A])"
    then obtain sp rest where a: "good_prefix p" "good_name k" "list_all is_space sp" "l @ [CHR 0x0A] = p @ k @ sp @ CHR ''='' # rest"
      unfolding assigns_def by blast
    have "l @ [CHR 0x0A] = (p @ k @ sp @ [CHR ''='']) @ rest" using a(4) by simp
    moreover from this have "rest \<noteq> []" by (cases rest) auto
    ultimately have "l = (p @ k @ sp @ [CHR ''='']) @ butlast rest" by (metis butlast_append butlast_snoc)
    then show "assigns p k l" using a unfolding assigns_def by (intro conjI exI [of _ sp] exI [of _ "butlast rest"]) simp_all
  next
    assume "assigns p k l"
    then obtain sp rest where a: "good_prefix p" "good_name k" "list_all is_space sp" "l = p @ k @ sp @ CHR ''='' # rest"
      unfolding assigns_def by blast
    then show "assigns p k (l @ [CHR 0x0A])" unfolding assigns_def
      by (intro conjI exI [of _ sp] exI [of _ "rest @ [CHR 0x0A]"]) simp_all
  qed
  then have "env_assignment (l @ [CHR 0x0A]) = Some (p, k) \<longleftrightarrow> env_assignment l = Some (p, k)" for p k
    by (simp add: env_assignment_iff)
  then show ?thesis by (metis option.exhaust surj_pair)
qed

lemma env_line_assignment: "good_prefix p \<Longrightarrow> good_name k \<Longrightarrow> env_assignment (env_line p k v nl) = Some (p, k)"
  unfolding env_assignment_iff assigns_def env_line_def
  by (intro conjI, simp, simp, rule exI [of _ "[]"], rule exI [of _ "quote_env_value v @ nl"]) simp

lemma good_prefix_Nil [simp]: "good_prefix []"
  by (simp add: good_prefix_def)

lemma name_char_not_break: "name_char c \<Longrightarrow> \<not> line_break c"
  by (auto simp: name_char_def is_alpha_def is_digit_char_def line_break_def Let_def)

lemma good_name_unbroken: "good_name k \<Longrightarrow> unbroken k"
  by (auto simp: good_name_def unbroken_def list_all_iff name_char_not_break)

lemma quote_unbroken: "unbroken v \<Longrightarrow> unbroken (quote_env_value v)"
proof -
  have "unbroken v \<Longrightarrow> unbroken (concat (map (\<lambda>c. if c = CHR 0x27 then [CHR 0x5C, CHR 0x27] else [c]) v))"
    by (induction v) simp_all
  then show "unbroken v \<Longrightarrow> unbroken (quote_env_value v)" by (simp add: quote_env_value_def Let_def)
qed

lemma closed_env_line: "unbroken p \<Longrightarrow> unbroken k \<Longrightarrow> unbroken v \<Longrightarrow> closed_line (env_line p k v [CHR 0x0A])"
  using closed_line_intro [of "p @ k @ ''='' @ quote_env_value v"] quote_unbroken [of v] by (simp add: env_line_def)

lemma closed_line_parts:
  assumes "closed_line l" "env_assignment l = Some (p, k)"
  shows "good_prefix p \<and> good_name k \<and> unbroken p \<and> unbroken k"
proof -
  obtain sp rest where a: "good_prefix p" "good_name k" "l = p @ k @ sp @ CHR ''='' # rest"
    using assms(2) unfolding env_assignment_iff assigns_def by blast
  have "butlast l = p @ k @ sp @ butlast (CHR ''='' # rest)" unfolding a(3) by (simp add: butlast_append)
  then show ?thesis using assms(1) a(1,2) by (simp add: closed_line_def)
qed

lemma closed_not_crlf: "closed_line l \<Longrightarrow> \<not> ends_with crlf l"
proof
  assume l: "closed_line l" and e: "ends_with crlf l"
  obtain body where b: "l = body @ [CHR 0x0A]" "unbroken body" using closed_lineE [OF l] .
  have "\<exists>pre. l = pre @ crlf" using e unfolding ends_with_def by (metis append_take_drop_id)
  then obtain pre where "body = pre @ [CHR 0x0D]" using b(1) by (auto simp: crlf_def)
  then show False using b(2) by simp
qed

text \<open>The loop as a relation: what happens to each line. The lines that other proofs talk about are closed.\<close>

definition without_key :: "string \<Rightarrow> (string \<times> string) list \<Rightarrow> (string \<times> string) list" where
  "without_key k R = filter (\<lambda>(k', v). k' \<noteq> k) R"

lemma keys_without [simp]: "fst ` set (without_key k R) = fst ` set R - {k}"
  by (force simp: without_key_def)

lemma map_of_without: "map_of (without_key k R) k' = (if k' = k then None else map_of R k')"
  unfolding without_key_def by (induction R) auto

inductive updates ::
  "(string \<times> string) list \<Rightarrow> string set \<Rightarrow> string list \<Rightarrow> string list \<Rightarrow> (string \<times> string) list \<Rightarrow> bool" where
  finished: "updates R U [] [] R"
| kept: "env_key l \<notin> Some ` (fst ` set R \<union> U) \<Longrightarrow> updates R U ls out rem \<Longrightarrow> updates R U (l # ls) (l # out) rem"
| dropped: "env_key l = Some k \<Longrightarrow> k \<in> U \<Longrightarrow> updates R U ls out rem \<Longrightarrow> updates R U (l # ls) out rem"
| replaced: "env_assignment l = Some (p, k) \<Longrightarrow> map_of R k = Some v \<Longrightarrow> k \<notin> U \<Longrightarrow>
    updates (without_key k R) (insert k U) ls out rem \<Longrightarrow> updates R U (l # ls) (env_line p k v [CHR 0x0A] # out) rem"

lemma update_lines_updates:
  assumes "fst ` set R \<inter> set U = {}" "list_all closed_line ls"
  shows "updates R (set U) ls (fst (update_lines R U ls)) (snd (update_lines R U ls))"
  using assms
proof (induction ls arbitrary: R U)
  case (Cons l ls)
  then have d: "fst ` set R \<inter> set U = {}" and l: "list_all closed_line ls" "\<not> ends_with crlf l"
    by (simp_all add: closed_not_crlf)
  note IH = Cons.IH [OF d l(1)]
  show ?case
  proof (cases "env_assignment l")
    case None
    then have "env_key l \<notin> Some ` (fst ` set R \<union> set U)" by (auto simp: env_key_def)
    from updates.kept [OF this IH] None show ?thesis by simp
  next
    case (Some a)
    obtain p k where a: "env_assignment l = Some (p, k)" using Some by (cases a) simp
    then have key: "env_key l = Some k" by (simp add: env_key_def)
    consider (U) "k \<in> set U" | (R) v where "k \<notin> set U" "map_of R k = Some v" | (none) "k \<notin> set U" "map_of R k = None"
      by (cases "map_of R k") auto
    then show ?thesis
    proof cases
      case U
      from updates.dropped [OF key U IH] U a show ?thesis by simp
    next
      case R
      have "fst ` set (without_key k R) \<inter> set (k # U) = {}" using d by auto
      note IH' = Cons.IH [OF this l(1), unfolded list.set(2)]
      from updates.replaced [OF a R(2,1) IH'] show ?thesis using R a l(2) by (simp add: without_key_def)
    next
      case none
      then have "env_key l \<notin> Some ` (fst ` set R \<union> set U)" using key by (auto simp: map_of_eq_None_iff image_iff)
      from updates.kept [OF this IH] none a show ?thesis by simp
    qed
  qed
qed (simp add: updates.finished)

lemma remaining_unused:
  assumes "env_key l \<notin> Some ` fst ` set R"
  shows "filter (\<lambda>(k, v). lines_of k (l # ls) = []) R = filter (\<lambda>(k, v). lines_of k ls = []) R"
proof (rule filter_cong [OF refl])
  fix x assume "x \<in> set R"
  then have "env_key l \<noteq> Some (fst x)" using assms by auto
  then show "(case x of (k, v) \<Rightarrow> lines_of k (l # ls) = []) = (case x of (k, v) \<Rightarrow> lines_of k ls = [])"
    by (cases x) simp
qed

lemma updates_remaining:
  "updates R U ls out rem \<Longrightarrow> fst ` set R \<inter> U = {} \<Longrightarrow> rem = filter (\<lambda>(k, v). lines_of k ls = []) R"
proof (induction rule: updates.induct)
  case (finished R U)
  show ?case by (simp add: case_prod_beta)
next
  case (kept l R U ls out rem)
  have "filter (\<lambda>(k, v). lines_of k (l # ls) = []) R = filter (\<lambda>(k, v). lines_of k ls = []) R"
    using kept.hyps(1) by (intro remaining_unused) auto
  then show ?case using kept by simp
next
  case (dropped l k U R ls out rem)
  then have "k \<notin> fst ` set R" by auto
  then have "filter (\<lambda>(k, v). lines_of k (l # ls) = []) R = filter (\<lambda>(k, v). lines_of k ls = []) R"
    using dropped.hyps(1) by (intro remaining_unused) auto
  then show ?case using dropped by simp
next
  case (replaced l p k R v U ls out rem)
  have "filter (\<lambda>(k, v). lines_of k ls = []) (without_key k R) = filter (\<lambda>(k, v). lines_of k (l # ls) = []) R"
    unfolding without_key_def filter_filter using replaced.hyps(1)
    by (intro filter_cong) (auto simp: env_key_def split: if_splits)
  moreover have "fst ` set (without_key k R) \<inter> insert k U = {}" using replaced.prems by auto
  ultimately show ?case using replaced.IH by simp
qed

lemma updates_other_lines:
  "updates R U ls out rem \<Longrightarrow> list_all closed_line ls \<Longrightarrow>
     other_lines (fst ` set R \<union> U) out = other_lines (fst ` set R \<union> U) ls"
proof (induction rule: updates.induct)
  case (replaced l p k R v U ls out rem)
  have K: "fst ` set R \<union> U = fst ` set (without_key k R) \<union> insert k U"
    using map_of_SomeD [OF replaced.hyps(2)] by (force simp: image_iff)
  have "good_prefix p \<and> good_name k" using closed_line_parts [OF _ replaced.hyps(1)] replaced.prems by simp
  then have "env_key (env_line p k v [CHR 0x0A]) = Some k" by (simp add: env_key_def env_line_assignment)
  moreover have "env_key l = Some k" using replaced.hyps(1) by (simp add: env_key_def)
  ultimately show ?case using replaced.IH replaced.prems unfolding K by simp
qed auto

lemma updates_closed:
  "updates R U ls out rem \<Longrightarrow> list_all closed_line ls \<Longrightarrow> \<forall>(k, v)\<in>set R. unbroken v \<Longrightarrow> list_all closed_line out"
proof (induction rule: updates.induct)
  case (replaced l p k R v U ls out rem)
  have "unbroken p \<and> unbroken k" using closed_line_parts [OF _ replaced.hyps(1)] replaced.prems(1) by simp
  moreover have "unbroken v" using map_of_SomeD [OF replaced.hyps(2)] replaced.prems(2) by blast
  ultimately have "closed_line (env_line p k v [CHR 0x0A])" by (simp add: closed_env_line)
  then show ?case using replaced.IH replaced.prems by (simp add: without_key_def)
qed simp_all

lemma updates_dropped: "updates R U ls out rem \<Longrightarrow> list_all closed_line ls \<Longrightarrow> k \<in> U \<Longrightarrow> lines_of k out = []"
proof (induction rule: updates.induct)
  case (replaced l p k' R v U ls out rem)
  have "good_prefix p \<and> good_name k'" using closed_line_parts [OF _ replaced.hyps(1)] replaced.prems(1) by simp
  then have "env_key (env_line p k' v [CHR 0x0A]) = Some k'" by (simp add: env_key_def env_line_assignment)
  then show ?case using replaced by auto
qed auto

lemma updates_one_line:
  "updates R U ls out rem \<Longrightarrow> list_all closed_line ls \<Longrightarrow> fst ` set R \<inter> U = {} \<Longrightarrow> map_of R k = Some v \<Longrightarrow>
     (lines_of k ls = [] \<longrightarrow> lines_of k out = [])
     \<and> (lines_of k ls \<noteq> [] \<longrightarrow> (\<exists>p. good_prefix p \<and> good_name k \<and> lines_of k out = [env_line p k v [CHR 0x0A]]))"
proof (induction rule: updates.induct)
  case (kept l R U ls out rem)
  then have "env_key l \<noteq> Some k" using map_of_SomeD [OF kept.prems(3)] by (force simp: image_iff)
  then show ?case using kept by simp
next
  case (dropped l k' U R ls out rem)
  then have "k' \<noteq> k" using map_of_SomeD [OF dropped.prems(3)] by force
  then show ?case using dropped by simp
next
  case (replaced l p k' R v' U ls out rem)
  have g: "good_prefix p \<and> good_name k'" using closed_line_parts [OF _ replaced.hyps(1)] replaced.prems(1) by simp
  then have n: "env_key (env_line p k' v' [CHR 0x0A]) = Some k'" by (simp add: env_key_def env_line_assignment)
  have l: "env_key l = Some k'" using replaced.hyps(1) by (simp add: env_key_def)
  show ?case
  proof (cases "k' = k")
    case True
    have "lines_of k out = []" using updates_dropped [OF replaced.hyps(4)] replaced.prems(1) True by simp
    then show ?thesis using g n l True replaced.hyps(2) replaced.prems(3) by auto
  next
    case False
    have "fst ` set (without_key k' R) \<inter> insert k' U = {}" using replaced.prems(2) by auto
    then show ?thesis using replaced.IH replaced.prems False n l by (simp add: map_of_without)
  qed
qed simp_all

text \<open>Lines that already say what the update says stay as they are.\<close>

definition settled :: "(string \<times> string) list \<Rightarrow> string list \<Rightarrow> bool" where
  "settled R ls \<longleftrightarrow> (\<forall>k v. map_of R k = Some v \<longrightarrow>
     (\<exists>p. good_prefix p \<and> good_name k \<and> lines_of k ls = [env_line p k v [CHR 0x0A]]))"

lemma updates_settled:
  "updates R U ls out rem \<Longrightarrow> settled R ls \<Longrightarrow> \<forall>k\<in>U. lines_of k ls = [] \<Longrightarrow> out = ls"
proof (induction rule: updates.induct)
  case (kept l R U ls out rem)
  have "env_key l \<noteq> Some k" if "map_of R k = Some v" for k v
    using kept.hyps(1) map_of_SomeD [OF that] by (force simp: image_iff)
  then have "settled R ls" using kept.prems(1) by (simp add: settled_def)
  moreover have "\<forall>k\<in>U. lines_of k ls = []" using kept.prems(2) by (auto split: if_splits)
  ultimately show ?case using kept.IH by simp
next
  case (replaced l p k R v U ls out rem)
  have l: "env_key l = Some k" using replaced.hyps(1) by (simp add: env_key_def)
  obtain q where q: "good_prefix q" "good_name k" "l = env_line q k v [CHR 0x0A]" "lines_of k ls = []"
    using replaced.prems(1) replaced.hyps(2) l unfolding settled_def by fastforce
  have "q = p" using replaced.hyps(1) env_line_assignment [OF q(1,2)] q(3) by simp
  moreover have "settled (without_key k R) ls"
    unfolding settled_def
  proof (intro allI impI)
    fix k' v' assume "map_of (without_key k R) k' = Some v'"
    then have "k' \<noteq> k" "map_of R k' = Some v'" by (simp_all add: map_of_without split: if_splits)
    then show "\<exists>p. good_prefix p \<and> good_name k' \<and> lines_of k' ls = [env_line p k' v' [CHR 0x0A]]"
      using replaced.prems(1) l unfolding settled_def by force
  qed
  moreover have "\<forall>k\<in>insert k U. lines_of k ls = []" using replaced.prems(2) q(4) by (auto split: if_splits)
  ultimately show ?case using replaced.IH q(3) by simp
next
  case (dropped l k U R ls out rem)
  then have "lines_of k (l # ls) = []" by blast
  with dropped.hyps(1) show ?case by simp
qed (rule refl)

lemma update_lines_settled:
  assumes "list_all closed_line ls" "settled R ls"
  shows "update_lines R [] ls = (ls, [])"
proof -
  have u: "updates R {} ls (fst (update_lines R [] ls)) (snd (update_lines R [] ls))"
    using update_lines_updates [of R "[]" ls] assms(1) by simp
  have "lines_of k ls \<noteq> []" if "(k, v) \<in> set R" for k v
  proof -
    have "k \<in> fst ` set R" using that by force
    then obtain v' where "map_of R k = Some v'" by (cases "map_of R k") (simp_all add: map_of_eq_None_iff)
    then obtain p where "lines_of k ls = [env_line p k v' [CHR 0x0A]]" using assms(2) unfolding settled_def by blast
    then show ?thesis by simp
  qed
  then have "filter (\<lambda>(k, v). lines_of k ls = []) R = []" by (force simp: filter_empty_conv)
  then have "snd (update_lines R [] ls) = []" using updates_remaining [OF u] by simp
  then show ?thesis using updates_settled [OF u assms(2)] by (simp add: prod_eq_iff)
qed

subsection \<open>The end of the file\<close>

lemma ends_with_char: "ends_with [c] s \<longleftrightarrow> s \<noteq> [] \<and> last s = c"
  by (cases s rule: rev_cases) (auto simp: ends_with_def)

lemma length_crlf: "length crlf = 2"
  by (simp add: crlf_def)

lemma ends_with_last: "ends_with crlf s \<Longrightarrow> last s = CHR 0x0A"
proof -
  assume e: "ends_with crlf s"
  have "s = take (length s - 2) s @ crlf" using e by (metis ends_with_def append_take_drop_id length_crlf)
  then show "last s = CHR 0x0A" by (metis crlf_def last_appendR last.simps list.discI)
qed

lemma close_last_Cons: "x \<noteq> [] \<Longrightarrow> last x = CHR 0x0A \<Longrightarrow> close_last (x # out) = x # close_last out"
  by (cases "out = []") (simp_all add: close_last_def ends_with_char)

lemma close_last_Nil [simp]: "close_last [] = []"
  by (simp add: close_last_def)

lemma close_last_ended: "list_all (\<lambda>l. l \<noteq> [] \<and> last l = CHR 0x0A) out \<Longrightarrow> close_last out = out"
  by (induction out) (simp_all add: close_last_Cons)

lemma env_line_last: "env_line p k v [CHR 0x0A] \<noteq> []" "last (env_line p k v [CHR 0x0A]) = CHR 0x0A"
  by (simp_all add: env_line_def)

lemma update_lines_ends:
  "list_all closed_line ls \<Longrightarrow> list_all (\<lambda>l. l \<noteq> [] \<and> last l = CHR 0x0A) (fst (update_lines R U ls))"
proof (induction ls arbitrary: R U)
  case (Cons l ls)
  then have l: "\<not> ends_with crlf l" "l \<noteq> []" "last l = CHR 0x0A" by (simp_all add: closed_not_crlf closed_line_def)
  then show ?case using Cons by (simp add: env_line_last split: option.split)
qed simp

lemma update_last_line:
  assumes "unbroken rest" "rest \<noteq> []" "list_all closed_line ls"
  shows "close_last (fst (update_lines R U (ls @ [rest]))) = fst (update_lines R U (ls @ [rest @ [CHR 0x0A]]))
    \<and> snd (update_lines R U (ls @ [rest])) = snd (update_lines R U (ls @ [rest @ [CHR 0x0A]]))"
  using assms(3)
proof (induction ls arbitrary: R U)
  case Nil
  have e: "\<not> ends_with crlf (rest @ [CHR 0x0A])" using closed_not_crlf closed_line_intro assms(1) by blast
  have "last rest \<notin> {CHR 0x0A, CHR 0x0D}" using assms(1,2) by (cases rest rule: rev_cases) auto
  then have c: "close_last [rest] = [rest @ [CHR 0x0A]]" "\<not> ends_with crlf rest"
    using assms(2) ends_with_last [of rest] by (auto simp: close_last_def ends_with_char)
  have "close_last [env_line p k v [CHR 0x0A]] = [env_line p k v [CHR 0x0A]]" for p k v
    by (simp add: close_last_Cons env_line_last)
  then show ?case using c e by (simp add: env_assignment_closing split: option.split)
next
  case (Cons l ls)
  then have l: "\<not> ends_with crlf l" "l \<noteq> []" "last l = CHR 0x0A" by (simp_all add: closed_not_crlf closed_line_def)
  note IH = Cons.IH [of R U] Cons.IH [of "filter (\<lambda>(k, v). k \<noteq> k') R" "k' # U" for k']
  show ?case
    using IH Cons.prems l by (simp add: close_last_Cons env_line_last split: option.split)
qed

subsection \<open>The text after an update\<close>

text \<open>The lines of the text before the update, the last one closed.\<close>

definition closed_text :: "string \<Rightarrow> string" where
  "closed_text s = (if s = [] \<or> last s = CHR 0x0A then s else s @ [CHR 0x0A])"

lemma closed_text_lines:
  assumes "lf_text s"
  obtains ls where "splitlines (closed_text s) = ls" "list_all closed_line ls"
    "R \<noteq> [] \<Longrightarrow> update_env_text s R = concat (fst (update_lines R [] ls)
       @ map (\<lambda>(k, v). env_line [] k v [CHR 0x0A]) (snd (update_lines R [] ls)))"
proof -
  obtain ls rest where s: "s = concat ls @ rest" "list_all closed_line ls" "unbroken rest"
    using lf_text_lines [OF assms] by blast
  show ?thesis
  proof (cases "rest = []")
    case True
    have "s = [] \<or> last s = CHR 0x0A"
      using s(1,2) True by (cases ls rule: rev_cases) (auto elim: closed_lineE)
    then have "closed_text s = s" by (simp add: closed_text_def)
    then have l: "splitlines (closed_text s) = ls" "splitlines s = ls" using s True splitlines_concat [of ls "[]"] by simp_all
    have "close_last (fst (update_lines R [] ls)) = fst (update_lines R [] ls)"
      using update_lines_ends [OF s(2)] by (intro close_last_ended)
    then show ?thesis using l(2) by (intro that [OF l(1) s(2)]) (simp add: update_env_text_def case_prod_beta)
  next
    case False
    then have "s \<noteq> []" "last s = last rest" using s(1) by simp_all
    moreover have "last rest \<noteq> CHR 0x0A" using s(3) False by (cases rest rule: rev_cases) auto
    ultimately have "closed_text s = concat (ls @ [rest @ [CHR 0x0A]])" using s(1) by (simp add: closed_text_def)
    moreover have c: "list_all closed_line (ls @ [rest @ [CHR 0x0A]])" using s(2,3) by (simp add: closed_line_intro)
    ultimately have l: "splitlines (closed_text s) = ls @ [rest @ [CHR 0x0A]]" using splitlines_concat [OF c, of "[]"] by simp
    have "splitlines s = ls @ [rest]"
      using splitlines_concat [OF s(2), of rest] splitlines_unbroken [OF s(3) False] s(1) by simp
    then show ?thesis using update_last_line [OF s(3) False s(2), of R "[]"]
      by (intro that [OF l c]) (simp add: update_env_text_def case_prod_beta)
  qed
qed

lemma new_lines_of:
  assumes "distinct (map fst R)" "\<forall>(k, v)\<in>set R. good_name k \<and> unbroken v" "map_of R k = Some v"
  shows "lines_of k (map (\<lambda>(k, v). env_line [] k v [CHR 0x0A]) (filter (\<lambda>(k, v). P k) R))
    = (if P k then [env_line [] k v [CHR 0x0A]] else [])"
  using assms
proof (induction R)
  case (Cons r R)
  obtain k' v' where r: "r = (k', v')" by (cases r)
  then have key: "env_key (env_line [] k' v' [CHR 0x0A]) = Some k'"
    using Cons.prems(2) by (simp add: env_key_def env_line_assignment)
  show ?case
  proof (cases "k' = k")
    case True
    have "lines_of k (map (\<lambda>(k, v). env_line [] k v [CHR 0x0A]) (filter (\<lambda>(k, v). P k) R)) = []"
      unfolding lines_of_def filter_empty_conv using Cons.prems(1,2) r True
      by (force simp: env_key_def env_line_assignment)
    then show ?thesis using Cons.prems(3) r True key by simp
  next
    case False
    then show ?thesis using Cons r key by simp
  qed
qed simp

lemma update_env_text_lines:
  assumes lf: "lf_text s" and R: "R \<noteq> []" "distinct (map fst R)" "\<forall>(k, v)\<in>set R. good_name k \<and> unbroken v"
  shows "list_all closed_line (splitlines (update_env_text s R))
    \<and> concat (splitlines (update_env_text s R)) = update_env_text s R
    \<and> settled R (splitlines (update_env_text s R))
    \<and> other_lines (fst ` set R) (splitlines (update_env_text s R)) = other_lines (fst ` set R) (splitlines (closed_text s))"
proof -
  obtain ls where ls: "splitlines (closed_text s) = ls" "list_all closed_line ls"
    "update_env_text s R = concat (fst (update_lines R [] ls)
       @ map (\<lambda>(k, v). env_line [] k v [CHR 0x0A]) (snd (update_lines R [] ls)))"
    using closed_text_lines [OF lf, of R] R(1) by metis
  let ?out = "fst (update_lines R [] ls)" and ?new = "map (\<lambda>(k, v). env_line [] k v [CHR 0x0A]) (snd (update_lines R [] ls))"
  have u: "updates R {} ls ?out (snd (update_lines R [] ls))"
    using update_lines_updates [of R "[]" ls] ls(2) by simp
  have rem: "snd (update_lines R [] ls) = filter (\<lambda>(k, v). lines_of k ls = []) R"
    using updates_remaining [OF u] by simp
  have new: "list_all closed_line ?new"
    unfolding rem using R(3) by (auto simp: list_all_iff closed_env_line good_name_unbroken)
  have out: "list_all closed_line ?out" using updates_closed [OF u ls(2)] R(3) by auto
  have l: "splitlines (update_env_text s R) = ?out @ ?new"
    using splitlines_concat [of "?out @ ?new" "[]"] out new by (simp add: ls(3))
  have new_key: "lines_of k ?new = (if lines_of k ls = [] then [env_line [] k v [CHR 0x0A]] else [])"
    if "map_of R k = Some v" for k v
    unfolding rem using new_lines_of [OF R(2,3) that] .
  have "settled R (?out @ ?new)"
    unfolding settled_def
  proof (intro allI impI)
    fix k v assume k: "map_of R k = Some v"
    have "good_name k" using R(3) map_of_SomeD [OF k] by blast
    then show "\<exists>p. good_prefix p \<and> good_name k \<and> lines_of k (?out @ ?new) = [env_line p k v [CHR 0x0A]]"
      using updates_one_line [OF u ls(2) _ k] new_key [OF k]
      by (cases "lines_of k ls = []") (auto intro: good_prefix_Nil)
  qed
  moreover have "other_lines (fst ` set R) ?new = []"
    unfolding other_lines_def filter_empty_conv
  proof (intro ballI)
    fix l assume "l \<in> set ?new"
    then obtain k v where l: "l = env_line [] k v [CHR 0x0A]" "(k, v) \<in> set R" unfolding rem by auto
    then have "env_key l = Some k" using R(3) by (auto simp: env_key_def env_line_assignment)
    moreover have "k \<in> fst ` set R" using l(2) by force
    ultimately show "\<not> env_key l \<notin> Some ` fst ` set R" by simp
  qed
  moreover have "other_lines (fst ` set R) ?out = other_lines (fst ` set R) ls"
    using updates_other_lines [OF u ls(2)] by simp
  ultimately show ?thesis using out new l ls(1,3) by simp
qed

lemma settled_text_kept:
  assumes "list_all closed_line (splitlines t)" "concat (splitlines t) = t" "settled R (splitlines t)"
  shows "update_env_text t R = t"
proof -
  have "close_last (splitlines t) = splitlines t"
    using assms(1) by (intro close_last_ended) (auto simp: list_all_iff closed_line_def)
  then show ?thesis using update_lines_settled [OF assms(1,3)] assms(2) by (simp add: update_env_text_def)
qed

lemma universal_newlines_id: "CHR 0x0D \<notin> set s \<Longrightarrow> universal_newlines s = s"
  by (induction s rule: universal_newlines.induct) auto

lemma known_fields:
  "\<forall>f\<in>fst ` set JIRA_FIELD_TO_ENV. good_name (env_name f) \<and> (env_name f = ''JIRA_API_TOKEN'' \<longrightarrow> f = ''jira_api_token'')"
  by code_simp

lemma token_field: "f \<in> fst ` set JIRA_FIELD_TO_ENV \<Longrightarrow> env_name f = ''JIRA_API_TOKEN'' \<Longrightarrow> f = ''jira_api_token''"
  using bspec [OF known_fields, of f] by simp

lemma distinct_env_names: "distinct (map (\<lambda>p. env_name (fst p)) JIRA_FIELD_TO_ENV)"
  by code_simp

lemma env_name_inj: "inj_on env_name (fst ` set JIRA_FIELD_TO_ENV)"
  using distinct_env_names unfolding distinct_map by (auto intro!: inj_onI dest: inj_onD)

text \<open>The replacements of an update.\<close>

definition replacements :: "(string \<times> config_value) list \<Rightarrow> (string \<times> string) list" where
  "replacements values =
     map (\<lambda>(field, v). (env_name field, to_env_value v)) (filter (\<lambda>(field, v). field \<noteq> ''jira_api_token'') values)"

lemma write_configuration_replacements:
  "write_configuration stored values = update_env_text (universal_newlines (or_empty stored)) (replacements values)"
  by (simp add: write_configuration_def replacements_def)

lemma replacements_ok:
  assumes "distinct (map fst values)" "fst ` set values \<subseteq> fst ` set JIRA_FIELD_TO_ENV"
    "\<forall>(field, v)\<in>set values. unbroken (to_env_value v)"
  shows "distinct (map fst (replacements values)) \<and> (\<forall>(k, v)\<in>set (replacements values). good_name k \<and> unbroken v)"
proof
  let ?w = "filter (\<lambda>(field, v). field \<noteq> ''jira_api_token'') values"
  have w: "distinct (map fst ?w)" "fst ` set ?w \<subseteq> fst ` set JIRA_FIELD_TO_ENV"
    using assms(1,2) by (auto simp: distinct_map_filter)
  have "map fst (replacements values) = map env_name (map fst ?w)" by (simp add: replacements_def case_prod_beta)
  moreover have "inj_on env_name (set (map fst ?w))" using inj_on_subset [OF env_name_inj] w(2) by simp
  ultimately show "distinct (map fst (replacements values))" using w(1) by (simp only: distinct_map)
  show "\<forall>(k, v)\<in>set (replacements values). good_name k \<and> unbroken v"
  proof (clarsimp simp: replacements_def)
    fix f v assume "(f, v) \<in> set values"
    then have "f \<in> fst ` set JIRA_FIELD_TO_ENV" "unbroken (to_env_value v)" using assms(2,3) by force+
    then show "good_name (env_name f) \<and> unbroken (to_env_value v)" using known_fields by blast
  qed
qed

lemma lines_of_other: "k \<notin> K \<Longrightarrow> lines_of k ls = lines_of k (other_lines K ls)"
  unfolding lines_of_def other_lines_def filter_filter by (intro filter_cong) auto

lemma closed_no_return: "list_all closed_line ls \<Longrightarrow> CHR 0x0D \<notin> set (concat ls)"
proof -
  have body: "unbroken b \<Longrightarrow> CHR 0x0D \<notin> set b" for b by (induction b) (simp, metis set_ConsD break_chars(2) unbroken_simps(2))
  then have "closed_line l \<Longrightarrow> CHR 0x0D \<notin> set l" for l by (elim closed_lineE) simp
  then show "list_all closed_line ls \<Longrightarrow> CHR 0x0D \<notin> set (concat ls)" by (auto simp: list_all_iff)
qed

subsection \<open>Properties\<close>

text \<open>C19: Writing an update of Jira settings into an environment file without line breaks other than LF and CR:
  each setting written has exactly one line, an optional \<open>export\<close>, its variable and its quoted value; the
  lines of all other variables, the API token among them, and the comments stay as they were, in their order;
  and writing the same update again changes nothing. The values must not contain line breaks.\<close>

theorem written_update_contract:
  fixes stored :: "string option" and vals :: "(string \<times> config_value) list"
  defines "old \<equiv> splitlines (closed_text (universal_newlines (or_empty stored)))"
    and "new \<equiv> splitlines (write_configuration stored vals)"
    and "written \<equiv> filter (\<lambda>(field, v). field \<noteq> ''jira_api_token'') vals"
  assumes breaks: "\<forall>c\<in>set (or_empty stored). line_break c \<longrightarrow> c \<in> {CHR 0x0A, CHR 0x0D}"
    and fields: "distinct (map fst vals)" "fst ` set vals \<subseteq> fst ` set JIRA_FIELD_TO_ENV" "written \<noteq> []"
    and plain: "\<forall>(field, v)\<in>set vals. unbroken (to_env_value v)"
  shows "(\<forall>(field, v)\<in>set written. \<exists>prefix. good_prefix prefix
            \<and> lines_of (env_name field) new = [env_line prefix (env_name field) (to_env_value v) [CHR 0x0A]])
    \<and> other_lines (env_name ` fst ` set written) new = other_lines (env_name ` fst ` set written) old
    \<and> lines_of ''JIRA_API_TOKEN'' new = lines_of ''JIRA_API_TOKEN'' old
    \<and> write_configuration (Some (write_configuration stored vals)) vals = write_configuration stored vals"
proof -
  let ?s = "universal_newlines (or_empty stored)"
  define R where "R = replacements vals"
  note w = write_configuration_replacements [of _ vals, folded R_def]
  have wr: "set written \<subseteq> set vals" "\<And>f v. (f, v) \<in> set written \<Longrightarrow> f \<noteq> ''jira_api_token''"
    by (auto simp: written_def)
  have R: "R = map (\<lambda>(field, v). (env_name field, to_env_value v)) written"
    by (simp add: R_def replacements_def written_def)
  have keys: "fst ` set R = env_name ` fst ` set written" unfolding R by force
  have R': "R \<noteq> []" "distinct (map fst R)" "\<forall>(k, v)\<in>set R. good_name k \<and> unbroken v"
    using fields(3) R replacements_ok [OF fields(1,2) plain, folded R_def] by blast+
  have no_token: "''JIRA_API_TOKEN'' \<notin> fst ` set R"
  proof
    assume "''JIRA_API_TOKEN'' \<in> fst ` set R"
    then obtain f v where f: "(f, v) \<in> set written" "env_name f = ''JIRA_API_TOKEN''" unfolding keys by auto
    have "f \<in> fst ` set JIRA_FIELD_TO_ENV" using f(1) wr(1) fields(2) by force
    then show False using known_fields f wr(2) by blast
  qed
  note u = update_env_text_lines [OF universal_newlines_lf [OF breaks] R', folded w [of stored], folded new_def old_def]
  have one: "\<exists>prefix. good_prefix prefix
      \<and> lines_of (env_name f) new = [env_line prefix (env_name f) (to_env_value v) [CHR 0x0A]]"
    if "(f, v) \<in> set written" for f v
  proof -
    have "(env_name f, to_env_value v) \<in> set R" using that unfolding R by force
    then have "map_of R (env_name f) = Some (to_env_value v)" using R'(2) by simp
    then show ?thesis using u unfolding settled_def by blast
  qed
  have other: "other_lines (env_name ` fst ` set written) new = other_lines (env_name ` fst ` set written) old"
    using u unfolding keys by blast
  have tok: "lines_of ''JIRA_API_TOKEN'' new = lines_of ''JIRA_API_TOKEN'' old"
    using lines_of_other [OF no_token, of new] lines_of_other [OF no_token, of old] u by simp
  have "CHR 0x0D \<notin> set (write_configuration stored vals)"
    using closed_no_return [of new] u unfolding new_def by metis
  then have "write_configuration (Some (write_configuration stored vals)) vals = update_env_text (write_configuration stored vals) R"
    unfolding w [of "Some _"] by (simp add: universal_newlines_id)
  also have "\<dots> = write_configuration stored vals"
    using u unfolding new_def by (intro settled_text_kept) blast+
  finally show ?thesis using one other tok by blast
qed

definition sample_env_file :: string where
  "sample_env_file = ''# Jira'' @ [CHR 0x0A] @ ''export JIRA_PROJECT_KEY=OLD'' @ [CHR 0x0D, CHR 0x0A]
     @ ''JIRA_API_TOKEN=secret'' @ [CHR 0x0A] @ ''JIRA_PROJECT_KEY=TWICE''"

definition sample_update :: "(string \<times> config_value) list" where
  "sample_update = [(''jira_project_key'', Value_Str ''NEW KEY''), (''jira_sync_enabled'', Value_Bool True)]"

lemma written_update_contract_witness:
  "lines_of ''JIRA_PROJECT_KEY'' (splitlines (write_configuration (Some sample_env_file) sample_update))
     = [env_line ''export '' ''JIRA_PROJECT_KEY'' ''NEW KEY'' [CHR 0x0A]]
   \<and> write_configuration (Some (write_configuration (Some sample_env_file) sample_update)) sample_update
     = write_configuration (Some sample_env_file) sample_update"
proof
  have h: "\<forall>c\<in>set (or_empty (Some sample_env_file)). line_break c \<longrightarrow> c \<in> {CHR 0x0A, CHR 0x0D}"
    "distinct (map fst sample_update)" "fst ` set sample_update \<subseteq> fst ` set JIRA_FIELD_TO_ENV"
    "filter (\<lambda>(field, v). field \<noteq> ''jira_api_token'') sample_update \<noteq> []"
    "\<forall>(field, v)\<in>set sample_update. unbroken (to_env_value v)"
    by code_simp+
  show "write_configuration (Some (write_configuration (Some sample_env_file) sample_update)) sample_update
     = write_configuration (Some sample_env_file) sample_update"
    using written_update_contract [OF h] by blast
  show "lines_of ''JIRA_PROJECT_KEY'' (splitlines (write_configuration (Some sample_env_file) sample_update))
     = [env_line ''export '' ''JIRA_PROJECT_KEY'' ''NEW KEY'' [CHR 0x0A]]"
    by code_simp
qed

text \<open>Three limits of the file's text. A value that ends in a backslash is quoted so that the backslash escapes the
  closing quote; a value with a line break that is followed by the text of an assignment is cut by the next
  update of that variable; and CR LF, which the loop means to keep, is gone after the file is read.\<close>

lemma backslash_is_not_escaped: "quote_env_value [CHR ''a'', CHR 0x5C] = [CHR 0x27, CHR ''a'', CHR 0x5C, CHR 0x27]"
  by code_simp

lemma value_with_line_break_is_cut:
  "write_configuration (Some (write_configuration None [(''jira_done_statuses'', Value_Str (''done'' @ [CHR 0x0A] @ ''JIRA_PROJECT_KEY=x''))]))
     [(''jira_project_key'', Value_Str ''NEW'')]
   = ''JIRA_DONE_STATUSES='' @ [CHR 0x27] @ ''done'' @ [CHR 0x0A] @ ''JIRA_PROJECT_KEY=NEW'' @ [CHR 0x0A]"
  by code_simp

lemma return_is_lost:
  "write_configuration (Some (''JIRA_PROJECT_KEY=OLD'' @ crlf)) [(''jira_project_key'', Value_Str ''NEW'')]
     = ''JIRA_PROJECT_KEY=NEW'' @ [CHR 0x0A]"
  by code_simp

end
