(* ===== verification/ConfigurationUpdate.thy ===== *)
theory ConfigurationUpdate
  imports Configuration
begin

text \<open>
  Reading, updating and testing the Jira configuration (services/configuration_service.py, with \<open>get_settings\<close>
  of config.py): the operations on the configuration files, the process environment and the cached settings.
  How \<open>pydantic_settings\<close> loads settings from a file and the environment is an argument, and so are path
  resolution, \<open>make_url\<close> and what Jira answers. A \<open>ValueError\<close> is its message; an operating system error
  while writing leaves everything as it was and is not modelled.
\<close>

subsection \<open>Files, environment and cache\<close>

text \<open>The files by resolved path; \<open>None\<close> is the default one beside the backend.\<close>

record config_world =
  config_files :: "string option \<Rightarrow> string option"
  environ :: "(string \<times> string) list"
  cached_settings :: "app_settings option"

definition configured_path :: "(string \<times> string) list \<Rightarrow> string" where
  "configured_path env = or_empty (map_of env ''LIGHTHOUSE_CONFIG_FILE'')"

definition get_configuration_file_path :: "(string \<Rightarrow> string) \<Rightarrow> (string \<times> string) list \<Rightarrow> string option" where
  "get_configuration_file_path resolve env =
    (let path = configured_path env in if path \<noteq> [] then Some (resolve path) else None)"

definition settings_file_path :: "(string \<Rightarrow> string) \<Rightarrow> (string \<times> string) list \<Rightarrow> string option" where
  "settings_file_path resolve env =
    (let path = strip (configured_path env) in if path \<noteq> [] then Some (resolve path) else None)"

type_synonym settings_loader = "string option \<Rightarrow> (string \<times> string) list \<Rightarrow> string + app_settings"

definition get_settings ::
  "settings_loader \<Rightarrow> (string \<Rightarrow> string) \<Rightarrow> config_world \<Rightarrow> (string + app_settings) \<times> config_world" where
  "get_settings load resolve w =
    (case cached_settings w of
       Some s \<Rightarrow> (Inr s, w)
     | None \<Rightarrow>
        (case and_then (load (config_files w (settings_file_path resolve (environ w))) (environ w)) (\<lambda>s.
                and_then (validate_env_file_secret_sources (fst ` set (environ w)) s) (\<lambda>_. Inr s)) of
           Inl e \<Rightarrow> (Inl e, w)
         | Inr s \<Rightarrow> (Inr s, w\<lparr>cached_settings := Some s\<rparr>)))"

subsection \<open>The response\<close>

record jira_configuration_response =
  jc_config_path :: "string option"
  jc_base_url :: string
  jc_user_email :: string
  jc_api_token_configured :: bool
  jc_project_key :: string
  jc_sync_enabled :: bool
  jc_sync_page_size :: int
  jc_sync_changelog_page_size :: int
  jc_sync_interval_seconds :: int
  jc_mapping :: settings
  jc_is_complete :: bool

text \<open>\<open>jc_mapping\<close> stands for the fields of the response that repeat the field mapping and the classification.\<close>

definition is_complete :: "app_settings \<Rightarrow> string \<Rightarrow> bool" where
  "is_complete s token = list_all id
     [strip (jira_base_url s) \<noteq> [], strip (jira_user_email s) \<noteq> [], strip token \<noteq> [], strip (jira_project_key s) \<noteq> [],
      strip (jira_field_severity s) \<noteq> [], strip (jira_field_release s) \<noteq> [],
      csv_to_set (jira_changelog_fix_version_fields s) \<noteq> {}, csv_to_set (jira_done_statuses s) \<noteq> {},
      csv_to_set (jira_in_progress_statuses s) \<noteq> {}, csv_to_set (jira_high_severity_values s) \<noteq> {},
      csv_to_set (jira_bug_issue_types s) \<noteq> {}]"

definition build_configuration_response ::
  "(string \<Rightarrow> path_state) \<Rightarrow> app_settings \<Rightarrow> string option \<Rightarrow> string + jira_configuration_response" where
  "build_configuration_response files s path =
    and_then (effective_jira_api_token files s) (\<lambda>token. Inr
      \<lparr>jc_config_path = path, jc_base_url = jira_base_url s, jc_user_email = jira_user_email s,
       jc_api_token_configured = (strip token \<noteq> []), jc_project_key = jira_project_key s,
       jc_sync_enabled = jira_sync_enabled s, jc_sync_page_size = jira_sync_page_size s,
       jc_sync_changelog_page_size = jira_sync_changelog_page_size s,
       jc_sync_interval_seconds = jira_sync_interval_seconds s, jc_mapping = settings.truncate s,
       jc_is_complete = is_complete s token\<rparr>)"

subsection \<open>Reading and updating\<close>

definition get_jira_configuration ::
  "settings_loader \<Rightarrow> (string \<Rightarrow> string) \<Rightarrow> (string \<Rightarrow> path_state) \<Rightarrow> config_world
    \<Rightarrow> (string + jira_configuration_response) \<times> config_world" where
  "get_jira_configuration load resolve files w =
    (case get_settings load resolve w of (r, w') \<Rightarrow>
      (and_then r (\<lambda>s. build_configuration_response files s (get_configuration_file_path resolve (environ w'))), w'))"

definition check_update ::
  "(string \<Rightarrow> bool) \<Rightarrow> (string \<Rightarrow> path_state) \<Rightarrow> (string \<Rightarrow> db_url option) \<Rightarrow> (string \<times> string) list \<Rightarrow> app_settings
    \<Rightarrow> (string \<times> config_value option) list \<Rightarrow> string + (string \<times> config_value) list" where
  "check_update literal files make_url env s update =
    and_then (validate_update_allowed env s update) (\<lambda>_.
    and_then (normalize_update_values update) (\<lambda>values.
    and_then (validate_startup_settings literal files make_url (build_candidate_settings s values)) (\<lambda>_. Inr values)))"

definition write_update ::
  "(string \<Rightarrow> string) \<Rightarrow> app_settings \<Rightarrow> (string \<times> config_value) list \<Rightarrow> config_world \<Rightarrow> config_world" where
  "write_update resolve s values w =
    (let path = get_configuration_file_path resolve (environ w)
     in \<lparr>config_files = (config_files w)(path \<mapsto> write_configuration (config_files w path) values),
         environ = apply_runtime_environment s values (environ w), cached_settings = None\<rparr>)"

definition update_jira_configuration ::
  "settings_loader \<Rightarrow> (string \<Rightarrow> string) \<Rightarrow> (string \<Rightarrow> bool) \<Rightarrow> (string \<Rightarrow> path_state) \<Rightarrow> (string \<Rightarrow> db_url option)
    \<Rightarrow> (string \<times> config_value option) list \<Rightarrow> config_world
    \<Rightarrow> (string + jira_configuration_response) \<times> config_world" where
  "update_jira_configuration load resolve literal files make_url update w =
    (case get_settings load resolve w of
       (Inl e, w) \<Rightarrow> (Inl e, w)
     | (Inr s, w) \<Rightarrow>
        (case check_update literal files make_url (environ w) s update of
           Inl e \<Rightarrow> (Inl e, w)
         | Inr values \<Rightarrow>
             let path = get_configuration_file_path resolve (environ w)
             in case get_settings load resolve (write_update resolve s values w) of (r, w') \<Rightarrow>
               (and_then r (\<lambda>s'. build_configuration_response files s' path), w')))"

subsection \<open>Testing the connection\<close>

record connection_test =
  ct_ok :: bool
  ct_message :: string
  ct_account_id :: "string option"
  ct_display_name :: "string option"
  ct_project_key :: "string option"
  ct_project_accessible :: bool

fun error_message :: "client_error \<Rightarrow> string" where
  "error_message (Auth_Error m) = m"
| "error_message (Request_Error m code) = m"
| "error_message (Rate_Limit_Error m ra) = m"
| "error_message (Parse_Error m) = m"
| "error_message Assertion_Error = []"

definition given_text :: "string option \<Rightarrow> string option" where
  "given_text v = (if or_empty v \<noteq> [] then v else None)"

definition validate_jira_connection_settings ::
  "(string \<Rightarrow> bool) \<Rightarrow> (string \<Rightarrow> path_state) \<Rightarrow> (string \<Rightarrow> db_url option) \<Rightarrow> app_settings \<Rightarrow> string + unit" where
  "validate_jira_connection_settings literal files make_url s =
     validate_startup_settings literal files make_url (build_candidate_settings s [(''jira_sync_enabled'', Value_Bool True)])"

text \<open>Jira's answers: the account and name of the user, and the versions of a project. The two requests are made
  in this order; a failure that is not a Jira error passes.\<close>

definition test_jira_connection ::
  "settings_loader \<Rightarrow> (string \<Rightarrow> string) \<Rightarrow> (string \<Rightarrow> bool) \<Rightarrow> (string \<Rightarrow> path_state) \<Rightarrow> (string \<Rightarrow> db_url option)
    \<Rightarrow> (app_settings \<Rightarrow> client_error + string option \<times> string option)
    \<Rightarrow> (app_settings \<Rightarrow> string \<Rightarrow> client_error + raw_version list)
    \<Rightarrow> (string \<times> config_value option) list \<Rightarrow> config_world
    \<Rightarrow> ((string + client_error) + connection_test) \<times> config_world" where
  "test_jira_connection load resolve literal files make_url myself versions update w =
    (case get_settings load resolve w of
       (Inl e, w') \<Rightarrow> (Inl (Inl e), w')
     | (Inr s, w') \<Rightarrow>
        ((case normalize_update_values update of
           Inl e \<Rightarrow> Inl (Inl e)
         | Inr values \<Rightarrow>
            let c = build_candidate_settings s values;
                key = strip (jira_project_key c)
            in (case validate_jira_connection_settings literal files make_url c of
                 Inl m \<Rightarrow> Inr \<lparr>ct_ok = False, ct_message = m, ct_account_id = None, ct_display_name = None,
                             ct_project_key = Some (jira_project_key c), ct_project_accessible = False\<rparr>
               | Inr _ \<Rightarrow>
                  (case and_then (myself c) (\<lambda>me. and_then (get_project_versions key (versions c key)) (\<lambda>vs. Inr (me, vs))) of
                     Inl e \<Rightarrow>
                       (if is_jira_error e
                        then Inr \<lparr>ct_ok = False, ct_message = error_message e, ct_account_id = None, ct_display_name = None,
                               ct_project_key = (if key \<noteq> [] then Some key else None), ct_project_accessible = False\<rparr>
                        else Inl (Inr e))
                   | Inr ((account, name), vs) \<Rightarrow>
                       Inr \<lparr>ct_ok = True,
                            ct_message = ''Connected to Jira and found '' @ int_str (int (length vs))
                              @ '' releases for project '' @ key @ ''.'',
                            ct_account_id = given_text account, ct_display_name = given_text name,
                            ct_project_key = Some key, ct_project_accessible = True\<rparr>))), w'))"

subsection \<open>Facts\<close>

lemma map_of_apply_runtime_environment:
  assumes "f \<in> fst ` set JIRA_FIELD_TO_ENV" "fst ` set vals \<subseteq> fst ` set JIRA_FIELD_TO_ENV" "distinct (map fst vals)"
  shows "map_of (apply_runtime_environment s vals env) (env_name f) =
    (case map_of vals f of
       Some v \<Rightarrow> if f = ''jira_api_token'' \<and> deployment_mode s \<noteq> Desktop then map_of env (env_name f) else Some (to_env_value v)
     | None \<Rightarrow> map_of env (env_name f))"
  using assms(2,3)
proof (induction vals arbitrary: env)
  case (Cons fv vals)
  obtain g v where fv: "fv = (g, v)" by (cases fv)
  define env' where "env' = (if g = ''jira_api_token'' \<and> deployment_mode s \<noteq> Desktop then env
    else put (env_name g) (to_env_value v) env)"
  have step: "apply_runtime_environment s (fv # vals) env = apply_runtime_environment s vals env'"
    by (simp add: apply_runtime_environment_def env'_def fv)
  have IH: "map_of (apply_runtime_environment s vals env') (env_name f) =
    (case map_of vals f of
       Some v \<Rightarrow> if f = ''jira_api_token'' \<and> deployment_mode s \<noteq> Desktop then map_of env' (env_name f) else Some (to_env_value v)
     | None \<Rightarrow> map_of env' (env_name f))"
    using Cons by simp
  show ?case
  proof (cases "g = f")
    case True
    have "map_of vals f = None" using Cons.prems(2) fv True by (simp add: map_of_eq_None_iff)
    then show ?thesis unfolding step IH by (simp add: fv True env'_def)
  next
    case False
    have "env_name g \<noteq> env_name f" using env_name_inj assms(1) Cons.prems(1) fv False by (auto dest: inj_onD)
    then have same: "map_of env' (env_name f) = map_of env (env_name f)" by (simp add: env'_def)
    show ?thesis unfolding step IH same using False by (simp add: fv)
  qed
qed (simp add: apply_runtime_environment_def)

lemma map_of_apply_other:
  "name \<notin> env_name ` fst ` set vals \<Longrightarrow> map_of (apply_runtime_environment s vals env) name = map_of env name"
  by (induction vals arbitrary: env) (auto simp: apply_runtime_environment_def)

lemma normalized_fields:
  assumes "normalize_update_values update = Inr vals" "distinct (map fst update)"
  shows "fst ` set vals \<subseteq> fst ` set JIRA_FIELD_TO_ENV \<and> fst ` set vals \<subseteq> fst ` set update \<and> distinct (map fst vals)"
  using assms
proof (induction update arbitrary: vals)
  case (Cons fv update)
  obtain f v where fv: "fv = (f, v)" by (cases fv)
  obtain zs where "map_ok normalize_update_value (fv # update) = Inr zs" "vals = concat zs"
    using Cons.prems(1) unfolding normalize_update_values_def
    by (cases "map_ok normalize_update_value (fv # update)") (simp_all del: map_ok.simps)
  then obtain y ys where y: "normalize_update_value fv = Inr y" "map_ok normalize_update_value update = Inr ys" "vals = y @ concat ys"
    by (auto simp: and_then_Inr_iff)
  have IH: "fst ` set (concat ys) \<subseteq> fst ` set JIRA_FIELD_TO_ENV \<and> fst ` set (concat ys) \<subseteq> fst ` set update \<and> distinct (map fst (concat ys))"
    using Cons.IH [of "concat ys"] Cons.prems(2) y(2) by (simp add: normalize_update_values_def)
  have "y = [] \<or> (\<exists>v'. y = [(f, v')] \<and> f \<in> fst ` set JIRA_FIELD_TO_ENV)"
    using y(1) fv by (auto simp: normalize_update_value_def map_of_eq_None_iff split: option.splits if_splits)
  then show ?case
  proof
    assume "y = []"
    then have "vals = concat ys" using y(3) by simp
    moreover have "fst ` set update \<subseteq> fst ` set (fv # update)" by auto
    ultimately show ?thesis using IH by blast
  next
    assume "\<exists>v'. y = [(f, v')] \<and> f \<in> fst ` set JIRA_FIELD_TO_ENV"
    then obtain v' where v': "vals = (f, v') # concat ys" "f \<in> fst ` set JIRA_FIELD_TO_ENV" using y(3) by auto
    have keys: "fst ` set vals = insert f (fst ` set (concat ys))" "fst ` set (fv # update) = insert f (fst ` set update)"
      by (simp_all add: v'(1) fv del: set_concat)
    have "f \<notin> fst ` set update" using Cons.prems(2) fv by simp
    then have "f \<notin> set (map fst (concat ys))" using IH by (simp del: set_concat) blast
    then have "distinct (map fst vals)" using IH v'(1) by simp
    then show ?thesis using IH v'(2) unfolding keys by blast
  qed
qed (simp add: normalize_update_values_def)

lemma get_settings_keeps:
  "config_files (snd (get_settings load resolve w)) = config_files w \<and> environ (snd (get_settings load resolve w)) = environ w"
  by (simp add: get_settings_def split: option.split sum.split)

lemma check_update_Inr:
  assumes "check_update literal files make_url env s update = Inr vals"
  shows "validate_update_allowed env s update = Inr () \<and> normalize_update_values update = Inr vals
    \<and> validate_startup_settings literal files make_url (build_candidate_settings s vals) = Inr ()"
  using assms by (simp add: check_update_def and_then_Inr_iff)

lemma token_only_on_desktop:
  assumes "check_update literal files make_url env s update = Inr vals" "distinct (map fst update)"
    "''jira_api_token'' \<in> fst ` set vals"
  shows "deployment_mode s = Desktop"
proof -
  have "''jira_api_token'' \<in> fst ` set update"
    using check_update_Inr [OF assms(1)] normalized_fields [of update vals] assms(2,3) by blast
  then show ?thesis using check_update_Inr [OF assms(1)] by (auto simp: validate_update_allowed_def split: if_splits)
qed

subsection \<open>Properties\<close>

lemma checked_environment:
  assumes ok: "check_update literal files make_url env s update = Inr vals" and dict: "distinct (map fst update)"
  shows "\<forall>(f, v)\<in>set vals. map_of (apply_runtime_environment s vals env) (env_name f) = Some (to_env_value v)"
    and "deployment_mode s \<noteq> Desktop \<Longrightarrow>
      map_of (apply_runtime_environment s vals env) ''JIRA_API_TOKEN'' = map_of env ''JIRA_API_TOKEN''"
proof -
  note fields = normalized_fields [OF conjunct1 [OF conjunct2 [OF check_update_Inr [OF ok]]] dict]
  have "map_of (apply_runtime_environment s vals env) (env_name f) = Some (to_env_value v)" if "(f, v) \<in> set vals" for f v
  proof -
    have f: "f \<in> fst ` set JIRA_FIELD_TO_ENV" "f \<in> fst ` set vals" using that fields by force+
    have "map_of vals f = Some v" using that fields by simp
    moreover have "\<not> (f = ''jira_api_token'' \<and> deployment_mode s \<noteq> Desktop)"
      using token_only_on_desktop [OF ok dict] f(2) by blast
    moreover have "map_of (apply_runtime_environment s vals env) (env_name f) = (case map_of vals f of
        Some v \<Rightarrow> if f = ''jira_api_token'' \<and> deployment_mode s \<noteq> Desktop then map_of env (env_name f) else Some (to_env_value v)
      | None \<Rightarrow> map_of env (env_name f))"
      using map_of_apply_runtime_environment [OF f(1)] fields by blast
    ultimately show ?thesis by (simp only: option.case if_False)
  qed
  then show "\<forall>(f, v)\<in>set vals. map_of (apply_runtime_environment s vals env) (env_name f) = Some (to_env_value v)" by blast
  assume "deployment_mode s \<noteq> Desktop"
  then have t: "''jira_api_token'' \<notin> fst ` set vals" using token_only_on_desktop [OF ok dict] by blast
  have "''JIRA_API_TOKEN'' \<notin> env_name ` fst ` set vals"
  proof
    assume "''JIRA_API_TOKEN'' \<in> env_name ` fst ` set vals"
    then obtain f where f: "''JIRA_API_TOKEN'' = env_name f" "f \<in> fst ` set vals" by (rule imageE)
    then have "f \<in> fst ` set JIRA_FIELD_TO_ENV" using fields by blast
    from token_field [OF this f(1) [symmetric]] show False using f(2) t by simp
  qed
  then show "map_of (apply_runtime_environment s vals env) ''JIRA_API_TOKEN'' = map_of env ''JIRA_API_TOKEN''"
    by (rule map_of_apply_other)
qed


text \<open>The file that is written is not always the one that is read: only the reader strips the path.\<close>

lemma padded_path_diverges:
  "get_configuration_file_path id [(''LIGHTHOUSE_CONFIG_FILE'', '' '')] = Some '' ''
   \<and> settings_file_path id [(''LIGHTHOUSE_CONFIG_FILE'', '' '')] = None"
  by code_simp

definition sample_world :: config_world where
  "sample_world = \<lparr>config_files = Map.empty, environ = [], cached_settings = Some desktop_settings\<rparr>"

definition sample_change :: "(string \<times> config_value option) list" where
  "sample_change = [(''jira_project_key'', Some (Value_Str '' NEW '')), (''jira_api_token'', None)]"


end
