(* ===== verification/JiraExtraction.thy ===== *)
theory JiraExtraction
  imports JiraClient
begin

text \<open>
  From Jira's JSON to the normalised issues: the extraction methods of services/jira_field_mapper.py, and
  \<open>search_issues\<close> and \<open>get_issue_details\<close> of services/jira_service.py on the answer of a request. Python's
  own texts of numbers with a fraction and of containers, \<open>datetime.fromisoformat\<close> and \<open>float\<close> on text are
  arguments. A value of a type that the result record does not declare is passed on unchecked by Python;
  here it is the outcome \<open>Untyped\<close>.
\<close>

subsection \<open>JSON\<close>

datatype json = J_Null | J_Bool bool | J_Num py_number | J_Str string | J_List "json list" | J_Obj "(string \<times> json) list"

text \<open>What reading an answer can raise.\<close>

datatype access_error = Attribute_Error | Key_Error string | Type_Error string | Overflow_Error | Untyped

fun truthy_number :: "py_number \<Rightarrow> bool" where
  "truthy_number (PyBool b) = b"
| "truthy_number (PyInt i) = (i \<noteq> 0)"
| "truthy_number (PyFloat x) = (x \<noteq> 0)"
| "truthy_number _ = True"

fun truthy :: "json \<Rightarrow> bool" where
  "truthy J_Null = False"
| "truthy (J_Bool b) = b"
| "truthy (J_Num n) = truthy_number n"
| "truthy (J_Str s) = (s \<noteq> [])"
| "truthy (J_List vs) = (vs \<noteq> [])"
| "truthy (J_Obj m) = (m \<noteq> [])"

definition or_else :: "json \<Rightarrow> json \<Rightarrow> json" where
  "or_else a b = (if truthy a then a else b)"

definition field_of :: "(string \<times> json) list \<Rightarrow> string \<Rightarrow> json" where
  "field_of m k = (case map_of m k of None \<Rightarrow> J_Null | Some v \<Rightarrow> v)"

text \<open>\<open>value.get(k, dflt)\<close>; only objects have it.\<close>

definition get_field :: "json \<Rightarrow> string \<Rightarrow> json \<Rightarrow> access_error + json" where
  "get_field v k dflt = (case v of J_Obj m \<Rightarrow> Inr (case map_of m k of None \<Rightarrow> dflt | Some x \<Rightarrow> x) | _ \<Rightarrow> Inl Attribute_Error)"

definition text_or_none :: "json \<Rightarrow> access_error + string option" where
  "text_or_none v = (case v of J_Null \<Rightarrow> Inr None | J_Str s \<Rightarrow> Inr (Some s) | _ \<Rightarrow> Inl Untyped)"

definition text_value :: "json \<Rightarrow> access_error + string" where
  "text_value v = (case v of J_Str s \<Rightarrow> Inr s | _ \<Rightarrow> Inl Untyped)"

text \<open>\<open>str(value)\<close>; \<open>render\<close> is Python's text of the values that are not spelled out.\<close>

fun str_of :: "(json \<Rightarrow> string) \<Rightarrow> json \<Rightarrow> string" where
  "str_of render J_Null = ''None''"
| "str_of render (J_Bool b) = (if b then ''True'' else ''False'')"
| "str_of render (J_Num (PyInt i)) = int_str i"
| "str_of render (J_Str s) = s"
| "str_of render v = render v"

subsection \<open>Fields of an issue\<close>

definition display_name_of :: "json \<Rightarrow> access_error + string option" where
  "display_name_of v =
    (case v of
       J_Null \<Rightarrow> Inr None
     | J_Obj m \<Rightarrow> text_or_none (or_else (field_of m ''displayName'') (field_of m ''name''))
     | _ \<Rightarrow> Inl Attribute_Error)"

definition assignee_identifier :: "(json \<Rightarrow> string) \<Rightarrow> json \<Rightarrow> string option" where
  "assignee_identifier render v =
    (case v of
       J_Obj m \<Rightarrow>
        (let w = or_else (or_else (field_of m ''accountId'') (field_of m ''key'')) (field_of m ''name'');
             s = strip (str_of render w)
         in if w \<noteq> J_Null \<and> s \<noteq> [] then Some s else None)
     | _ \<Rightarrow> None)"

definition stringify_field_value :: "(json \<Rightarrow> string) \<Rightarrow> json \<Rightarrow> access_error + string option" where
  "stringify_field_value render v =
    (case v of
       J_Null \<Rightarrow> Inr None
     | J_Bool b \<Rightarrow> Inr (Some (if b then ''true'' else ''false''))
     | J_Num n \<Rightarrow> Inr (Some (str_of render v))
     | J_Str s \<Rightarrow> Inr (Some s)
     | J_Obj m \<Rightarrow> text_or_none (or_else (or_else (field_of m ''displayName'') (field_of m ''name'')) (field_of m ''value''))
     | J_List vs \<Rightarrow> Inr None)"

text \<open>The items of a list value; a value that is not a list gives none.\<close>

definition version_name :: "(json \<Rightarrow> string) \<Rightarrow> json \<Rightarrow> access_error + string list" where
  "version_name render version =
    (let name = (case version of J_Obj m \<Rightarrow> (case map_of m ''name'' of None \<Rightarrow> J_Str [] | Some x \<Rightarrow> x)
                 | _ \<Rightarrow> J_Str (str_of render version))
     in if truthy name then map_sum id (\<lambda>s. [s]) (text_value name) else Inr [])"

definition extract_fix_versions ::
  "(json \<Rightarrow> string) \<Rightarrow> field_mapping \<Rightarrow> (string \<times> json) list \<Rightarrow> access_error + string list" where
  "extract_fix_versions render fm flds =
    (case field_of flds (release_field fm) of
       J_List vs \<Rightarrow> map_sum id concat (map_ok (version_name render) vs)
     | _ \<Rightarrow> Inr [])"

definition parse_sprint_object :: "(json \<Rightarrow> string) \<Rightarrow> (string \<times> json) list \<Rightarrow> access_error + jira_sprint_ref option" where
  "parse_sprint_object render m =
    (let sprint_id = field_of m ''id''; name = field_of m ''name'';
         board = or_else (or_else (field_of m ''rapidViewId'') (field_of m ''originBoardId'')) (field_of m ''boardId'')
     in if sprint_id = J_Null \<or> \<not> truthy name then Inr None
        else and_then (text_or_none (field_of m ''startDate'')) (\<lambda>start.
          and_then (text_or_none (field_of m ''endDate'')) (\<lambda>finish.
          and_then (text_or_none (field_of m ''completeDate'')) (\<lambda>complete.
          and_then (text_or_none (field_of m ''goal'')) (\<lambda>goal.
          Inr (Some \<lparr>sr_id = str_of render sprint_id, sr_name = str_of render name,
            sr_state = casefold (str_of render (or_else (field_of m ''state'') (J_Str ''unknown''))),
            sr_board_id = (if board \<noteq> J_Null then Some (str_of render board) else None),
            sr_start_date = start, sr_end_date = finish, sr_complete_date = complete, sr_goal = goal\<rparr>))))))"

text \<open>The older form of a sprint is one text.\<close>

definition parse_sprint_text :: "string \<Rightarrow> jira_sprint_ref option" where
  "parse_sprint_text v =
    (let parsed = map_of (parse_legacy_sprint_string v)
     in if or_empty (parsed ''id'') \<noteq> [] \<and> or_empty (parsed ''name'') \<noteq> []
        then Some \<lparr>sr_id = or_empty (parsed ''id''), sr_name = or_empty (parsed ''name''),
          sr_state = casefold (case parsed ''state'' of None \<Rightarrow> ''unknown'' | Some s \<Rightarrow> s),
          sr_board_id = (if or_empty (parsed ''rapidViewId'') \<noteq> [] then parsed ''rapidViewId'' else parsed ''originBoardId''),
          sr_start_date = parsed ''startDate'', sr_end_date = parsed ''endDate'',
          sr_complete_date = parsed ''completeDate'', sr_goal = parsed ''goal''\<rparr>
        else None)"

definition parse_sprint_value :: "(json \<Rightarrow> string) \<Rightarrow> json \<Rightarrow> access_error + jira_sprint_ref option" where
  "parse_sprint_value render v =
    (case v of J_Obj m \<Rightarrow> parse_sprint_object render m | J_Str s \<Rightarrow> Inr (parse_sprint_text s) | _ \<Rightarrow> Inr None)"

definition sprint_values :: "json \<Rightarrow> json list" where
  "sprint_values v = (if \<not> truthy v then [] else case v of J_List vs \<Rightarrow> vs | _ \<Rightarrow> [v])"

definition extract_sprints ::
  "(json \<Rightarrow> string) \<Rightarrow> field_mapping \<Rightarrow> (string \<times> json) list \<Rightarrow> access_error + jira_sprint_ref list" where
  "extract_sprints render fm flds =
    (if sprint_field fm = [] then Inr []
     else map_sum id (List.map_filter id) (map_ok (parse_sprint_value render) (sprint_values (field_of flds (sprint_field fm)))))"

definition extract_severity ::
  "(json \<Rightarrow> string) \<Rightarrow> field_mapping \<Rightarrow> (string \<times> json) list \<Rightarrow> access_error + string option" where
  "extract_severity render fm flds = stringify_field_value render (field_of flds (severity_field fm))"

text \<open>\<open>float(raw)\<close>: an integer that is too large raises an \<open>OverflowError\<close>, which is not caught.\<close>

definition float_of_number :: "py_number \<Rightarrow> access_error + py_number option" where
  "float_of_number n =
    (case n of
       PyBool b \<Rightarrow> Inr (Some (PyFloat (if b then 1 else 0)))
     | PyInt i \<Rightarrow> (let x = fl (of_int i) in if \<bar>x\<bar> \<ge> 2 ^ 1024 then Inl Overflow_Error else Inr (Some (PyFloat x)))
     | _ \<Rightarrow> Inr (Some n))"

definition extract_story_points ::
  "(string \<Rightarrow> py_number option) \<Rightarrow> field_mapping \<Rightarrow> (string \<times> json) list \<Rightarrow> access_error + py_number option" where
  "extract_story_points parse_float fm flds =
    (if story_points_field fm = [] then Inr None
     else case field_of flds (story_points_field fm) of
         J_Num n \<Rightarrow> float_of_number n
       | J_Bool b \<Rightarrow> float_of_number (PyBool b)
       | J_Str s \<Rightarrow> Inr (parse_float s)
       | _ \<Rightarrow> Inr None)"

definition extract_blocker_flag ::
  "(json \<Rightarrow> string) \<Rightarrow> field_mapping \<Rightarrow> (string \<times> json) list \<Rightarrow> access_error + bool option" where
  "extract_blocker_flag render fm flds =
    (if blocker_field fm = [] then Inr None
     else and_then (stringify_field_value render (field_of flds (blocker_field fm))) (\<lambda>raw.
       let t = casefold (strip (or_empty raw))
       in Inr (if t = [] then None else Some (t \<in> blocker_true_values fm))))"

subsection \<open>Issues\<close>

text \<open>What a summary and a detail share, in the order of the evaluation.\<close>

definition normalize_issue_summary ::
  "(json \<Rightarrow> string) \<Rightarrow> field_mapping \<Rightarrow> json \<Rightarrow> py_datetime option \<Rightarrow> py_datetime option \<Rightarrow> access_error + jira_issue_summary" where
  "normalize_issue_summary render fm raw updated created =
    and_then (get_field raw ''fields'' (J_Obj [])) (\<lambda>f.
    case f of J_Obj flds \<Rightarrow>
      and_then (extract_fix_versions render fm flds) (\<lambda>versions.
      and_then (extract_sprints render fm flds) (\<lambda>sprints.
      and_then (case raw of J_Obj m \<Rightarrow> (case map_of m ''key'' of None \<Rightarrow> Inl (Key_Error ''key'') | Some k \<Rightarrow> text_value k) | _ \<Rightarrow> Inl Attribute_Error) (\<lambda>key.
      and_then (text_value (case map_of flds ''summary'' of None \<Rightarrow> J_Str [] | Some v \<Rightarrow> v)) (\<lambda>summary.
      and_then (display_name_of (field_of flds ''status'')) (\<lambda>status.
      and_then (display_name_of (field_of flds ''issuetype'')) (\<lambda>issue_type.
      and_then (extract_severity render fm flds) (\<lambda>priority.
      and_then (display_name_of (field_of flds ''assignee'')) (\<lambda>assignee.
      Inr \<lparr>js_key = key, js_summary = summary, js_status = status, js_issue_type = issue_type, js_priority = priority,
        js_assignee = assignee, js_updated = updated,
        js_assignee_id = assignee_identifier render (field_of flds ''assignee''),
        js_created = created, js_fix_versions = versions, js_sprints = sprints\<rparr>))))))))
    | _ \<Rightarrow> Inl Attribute_Error)"

text \<open>The detail of the same raw issue has the fields of its summary, and the points and the blocker flag, which
  are extracted last.\<close>

definition normalize_issue_detail ::
  "(json \<Rightarrow> string) \<Rightarrow> (string \<Rightarrow> py_number option) \<Rightarrow> field_mapping \<Rightarrow> json \<Rightarrow> py_datetime option \<Rightarrow> py_datetime option
    \<Rightarrow> access_error + jira_issue_detail" where
  "normalize_issue_detail render parse_float fm raw updated created =
    and_then (normalize_issue_summary render fm raw updated created) (\<lambda>s.
    and_then (get_field raw ''fields'' (J_Obj [])) (\<lambda>f.
    case f of J_Obj flds \<Rightarrow>
      and_then (extract_story_points parse_float fm flds) (\<lambda>points.
      and_then (extract_blocker_flag render fm flds) (\<lambda>flag.
      Inr \<lparr>jd_key = js_key s, jd_summary = js_summary s, jd_status = js_status s, jd_issue_type = js_issue_type s,
        jd_priority = js_priority s, jd_assignee = js_assignee s, jd_updated = js_updated s,
        jd_assignee_id = js_assignee_id s, jd_created = js_created s, jd_fix_versions = js_fix_versions s,
        jd_sprints = js_sprints s, jd_story_points = points, jd_blocker_flag = flag\<rparr>))
    | _ \<Rightarrow> Inl Attribute_Error))"

subsection \<open>Answers\<close>

text \<open>\<open>_parse_datetime\<close> on a JSON value.\<close>

definition time_of :: "(string \<Rightarrow> py_datetime option) \<Rightarrow> json \<Rightarrow> access_error + py_datetime option" where
  "time_of fromiso v =
    (if \<not> truthy v then Inr None
     else case v of J_Str s \<Rightarrow> Inr (parse_datetime fromiso (Some s)) | _ \<Rightarrow> Inl (Type_Error ''fromisoformat: argument must be str''))"

definition issue_time :: "(string \<Rightarrow> py_datetime option) \<Rightarrow> string \<Rightarrow> json \<Rightarrow> access_error + py_datetime option" where
  "issue_time fromiso k issue =
     and_then (get_field issue ''fields'' (J_Obj [])) (\<lambda>f. and_then (get_field f k J_Null) (time_of fromiso))"

fun type_name :: "json \<Rightarrow> string" where
  "type_name J_Null = ''NoneType''"
| "type_name (J_Bool b) = ''bool''"
| "type_name (J_Num (PyInt i)) = ''int''"
| "type_name (J_Num n) = ''float''"
| "type_name (J_Str s) = ''str''"
| "type_name (J_List vs) = ''list''"
| "type_name (J_Obj m) = ''dict''"

text \<open>Iteration over a value: the items of a list, the keys of an object, the characters of a text.\<close>

definition iterate :: "json \<Rightarrow> access_error + json list" where
  "iterate v =
    (case v of
       J_List vs \<Rightarrow> Inr vs
     | J_Obj m \<Rightarrow> Inr (map (\<lambda>p. J_Str (fst p)) m)
     | J_Str s \<Rightarrow> Inr (map (\<lambda>c. J_Str [c]) s)
     | _ \<Rightarrow> Inl (Type_Error (CHR 0x27 # type_name v @ CHR 0x27 # '' object is not iterable'')))"

text \<open>A \<open>KeyError\<close> or \<open>TypeError\<close> becomes a parse error; any other exception passes.\<close>

definition as_parse_error :: "string \<Rightarrow> access_error + 'a \<Rightarrow> (client_error + access_error) + 'a" where
  "as_parse_error what r =
    (case r of
       Inr a \<Rightarrow> Inr a
     | Inl (Key_Error k) \<Rightarrow> Inl (Inl (Parse_Error (what @ '': '' @ CHR 0x27 # k @ [CHR 0x27])))
     | Inl (Type_Error m) \<Rightarrow> Inl (Inl (Parse_Error (what @ '': '' @ m)))
     | Inl e \<Rightarrow> Inl (Inr e))"

definition search_payload :: "field_mapping \<Rightarrow> string \<Rightarrow> string option \<Rightarrow> int \<Rightarrow> string list option \<Rightarrow> (string \<times> json) list" where
  "search_payload fm jql token max_results flds =
    [(''jql'', J_Str jql), (''maxResults'', J_Num (PyInt max_results)),
     (''fields'', J_List (map J_Str (case flds of Some (f # fs) \<Rightarrow> f # fs | _ \<Rightarrow> search_issue_fields fm)))]
    @ (case token of None \<Rightarrow> [] | Some t \<Rightarrow> [(''nextPageToken'', J_Str t)])"

definition read_summary ::
  "(json \<Rightarrow> string) \<Rightarrow> (string \<Rightarrow> py_datetime option) \<Rightarrow> field_mapping \<Rightarrow> json \<Rightarrow> access_error + jira_issue_summary" where
  "read_summary render fromiso fm issue =
     and_then (issue_time fromiso ''updated'' issue) (\<lambda>updated.
     and_then (issue_time fromiso ''created'' issue) (\<lambda>created.
     normalize_issue_summary render fm issue updated created))"

definition read_search_answer ::
  "(json \<Rightarrow> string) \<Rightarrow> (string \<Rightarrow> py_datetime option) \<Rightarrow> field_mapping \<Rightarrow> json
    \<Rightarrow> access_error + jira_issue_summary list \<times> string option" where
  "read_search_answer render fromiso fm data =
     and_then (get_field data ''issues'' (J_List [])) (\<lambda>v.
     and_then (iterate v) (\<lambda>issues.
     and_then (map_ok (read_summary render fromiso fm) issues) (\<lambda>summaries.
     and_then (get_field data ''nextPageToken'' J_Null) (\<lambda>token.
     and_then (text_or_none (or_else token J_Null)) (\<lambda>t. Inr (summaries, t))))))"

definition search_issues ::
  "(json \<Rightarrow> string) \<Rightarrow> (string \<Rightarrow> py_datetime option) \<Rightarrow> field_mapping \<Rightarrow> ((string \<times> json) list \<Rightarrow> client_error + json)
    \<Rightarrow> string \<Rightarrow> string option \<Rightarrow> int \<Rightarrow> string list option
    \<Rightarrow> (client_error + access_error) + jira_issue_summary list \<times> string option" where
  "search_issues render fromiso fm post jql token max_results flds =
    (case post (search_payload fm jql token max_results flds) of
       Inl e \<Rightarrow> Inl (Inl e)
     | Inr data \<Rightarrow> as_parse_error ''Unexpected search response structure'' (read_search_answer render fromiso fm data))"

definition read_detail ::
  "(json \<Rightarrow> string) \<Rightarrow> (string \<Rightarrow> py_number option) \<Rightarrow> (string \<Rightarrow> py_datetime option) \<Rightarrow> field_mapping \<Rightarrow> json
    \<Rightarrow> access_error + jira_issue_detail" where
  "read_detail render parse_float fromiso fm data =
     and_then (issue_time fromiso ''updated'' data) (\<lambda>updated.
     and_then (issue_time fromiso ''created'' data) (\<lambda>created.
     normalize_issue_detail render parse_float fm data updated created))"

definition get_issue_details ::
  "(json \<Rightarrow> string) \<Rightarrow> (string \<Rightarrow> py_number option) \<Rightarrow> (string \<Rightarrow> py_datetime option) \<Rightarrow> field_mapping
    \<Rightarrow> (string \<Rightarrow> string \<Rightarrow> client_error + json) \<Rightarrow> string \<Rightarrow> string list option
    \<Rightarrow> (client_error + access_error) + jira_issue_detail" where
  "get_issue_details render parse_float fromiso fm get_issue key flds =
    (case get_issue key (join '','' (case flds of Some (f # fs) \<Rightarrow> f # fs | _ \<Rightarrow> detail_issue_fields fm)) of
       Inl e \<Rightarrow> Inl (Inl e)
     | Inr data \<Rightarrow> as_parse_error (''Unexpected issue detail response structure for '' @ key)
                    (read_detail render parse_float fromiso fm data))"

subsection \<open>Documented answers\<close>

text \<open>The types that Jira documents for the fields that are read.\<close>

definition optional_text :: "json \<Rightarrow> bool" where
  "optional_text v = (case v of J_Null \<Rightarrow> True | J_Str s \<Rightarrow> True | _ \<Rightarrow> False)"

definition optional_texts :: "(string \<times> json) list \<Rightarrow> string list \<Rightarrow> bool" where
  "optional_texts m ks = list_all (\<lambda>k. optional_text (field_of m k)) ks"

definition named_object :: "json \<Rightarrow> bool" where
  "named_object v = (case v of J_Null \<Rightarrow> True | J_Obj m \<Rightarrow> optional_texts m [''displayName'', ''name''] | _ \<Rightarrow> False)"

definition plain_field :: "json \<Rightarrow> bool" where
  "plain_field v = (case v of J_Obj m \<Rightarrow> optional_texts m [''displayName'', ''name'', ''value''] | _ \<Rightarrow> True)"

definition sprint_value_ok :: "json \<Rightarrow> bool" where
  "sprint_value_ok v = (case v of J_Obj m \<Rightarrow> optional_texts m [''startDate'', ''endDate'', ''completeDate'', ''goal''] | _ \<Rightarrow> True)"

definition version_ok :: "json \<Rightarrow> bool" where
  "version_ok v = (case v of J_Obj m \<Rightarrow> optional_texts m [''name''] | _ \<Rightarrow> True)"

definition points_ok :: "json \<Rightarrow> bool" where
  "points_ok v = (case v of J_Num (PyInt i) \<Rightarrow> \<bar>fl (of_int i)\<bar> < 2 ^ 1024 | _ \<Rightarrow> True)"

definition documented_fields :: "field_mapping \<Rightarrow> (string \<times> json) list \<Rightarrow> bool" where
  "documented_fields fm f \<longleftrightarrow>
     (case map_of f ''summary'' of None \<Rightarrow> True | Some (J_Str s) \<Rightarrow> True | _ \<Rightarrow> False)
     \<and> list_all (\<lambda>k. named_object (field_of f k)) [''status'', ''issuetype'', ''assignee'']
     \<and> optional_texts f [''updated'', ''created'']
     \<and> (case field_of f (release_field fm) of J_List vs \<Rightarrow> list_all version_ok vs | _ \<Rightarrow> True)
     \<and> list_all sprint_value_ok (sprint_values (field_of f (sprint_field fm)))
     \<and> plain_field (field_of f (severity_field fm)) \<and> plain_field (field_of f (blocker_field fm))
     \<and> points_ok (field_of f (story_points_field fm))"

fun documented_issue :: "field_mapping \<Rightarrow> json \<Rightarrow> bool" where
  "documented_issue fm (J_Obj m) =
    (case map_of m ''key'' of
       Some (J_Str k) \<Rightarrow> (case map_of m ''fields'' of Some (J_Obj f) \<Rightarrow> documented_fields fm f | _ \<Rightarrow> False)
     | _ \<Rightarrow> False)"
| "documented_issue fm _ = False"

subsection \<open>Facts\<close>

lemma text_or_none_ok: "optional_text v \<Longrightarrow> \<exists>t. text_or_none v = Inr t"
  by (cases v) (simp_all add: optional_text_def text_or_none_def)

lemma or_else_ok: "optional_text a \<Longrightarrow> optional_text b \<Longrightarrow> optional_text (or_else a b)"
  by (simp add: or_else_def)

lemma display_name_ok: "named_object v \<Longrightarrow> \<exists>t. display_name_of v = Inr t"
  by (cases v) (auto simp: named_object_def display_name_of_def optional_texts_def intro: text_or_none_ok or_else_ok)

lemma stringify_ok: "plain_field v \<Longrightarrow> \<exists>t. stringify_field_value render v = Inr t"
  by (cases v) (auto simp: plain_field_def stringify_field_value_def optional_texts_def intro: text_or_none_ok or_else_ok)

lemma map_ok_total: "list_all (\<lambda>x. \<exists>y. f x = Inr y) xs \<Longrightarrow> \<exists>ys. map_ok f xs = Inr ys"
  by (induction xs) auto

lemma version_name_ok:
  assumes "version_ok v"
  shows "\<exists>ns. version_name render v = Inr ns \<and> (\<forall>n\<in>set ns. n \<noteq> [])"
proof (cases v)
  case (J_Obj m)
  then have "optional_text (field_of m ''name'')" using assms by (simp add: version_ok_def optional_texts_def)
  then show ?thesis using J_Obj
    by (cases "map_of m ''name''")
      (auto simp: version_name_def field_of_def optional_text_def text_value_def split: json.splits)
qed (auto simp: version_name_def text_value_def Let_def)

lemma fix_versions_ok:
  assumes "case field_of flds (release_field fm) of J_List vs \<Rightarrow> list_all version_ok vs | _ \<Rightarrow> True"
  shows "\<exists>ns. extract_fix_versions render fm flds = Inr ns \<and> (\<forall>n\<in>set ns. n \<noteq> [])"
proof (cases "field_of flds (release_field fm)")
  case (J_List vs)
  then have v: "list_all version_ok vs" using assms by simp
  have "\<exists>yss. map_ok (version_name render) vs = Inr yss \<and> (\<forall>ys\<in>set yss. \<forall>n\<in>set ys. n \<noteq> [])" if "list_all version_ok vs" for vs
    using that
  proof (induction vs)
    case (Cons v vs)
    then obtain ns where "version_name render v = Inr ns" "\<forall>n\<in>set ns. n \<noteq> []" using version_name_ok [of v render] by auto
    then show ?case using Cons by auto
  qed simp
  from this [OF v] show ?thesis using J_List by (auto simp: extract_fix_versions_def)
qed (simp_all add: extract_fix_versions_def)

lemma sprint_object_ok:
  assumes "optional_texts m [''startDate'', ''endDate'', ''completeDate'', ''goal'']"
  shows "\<exists>r. parse_sprint_object render m = Inr r"
proof -
  have t: "optional_text (field_of m ''startDate'')" "optional_text (field_of m ''endDate'')"
      "optional_text (field_of m ''completeDate'')" "optional_text (field_of m ''goal'')"
    using assms by (simp_all add: optional_texts_def)
  obtain a where a: "text_or_none (field_of m ''startDate'') = Inr a" using text_or_none_ok [OF t(1)] by blast
  obtain b where b: "text_or_none (field_of m ''endDate'') = Inr b" using text_or_none_ok [OF t(2)] by blast
  obtain c where c: "text_or_none (field_of m ''completeDate'') = Inr c" using text_or_none_ok [OF t(3)] by blast
  obtain d where d: "text_or_none (field_of m ''goal'') = Inr d" using text_or_none_ok [OF t(4)] by blast
  show ?thesis by (simp add: parse_sprint_object_def Let_def a b c d)
qed

lemma sprint_value_total: "sprint_value_ok v \<Longrightarrow> \<exists>r. parse_sprint_value render v = Inr r"
proof (cases v)
  case (J_Obj m)
  assume "sprint_value_ok v"
  then have "optional_texts m [''startDate'', ''endDate'', ''completeDate'', ''goal'']" by (simp add: sprint_value_ok_def J_Obj)
  from sprint_object_ok [OF this] show ?thesis by (simp add: parse_sprint_value_def J_Obj)
qed (simp_all add: parse_sprint_value_def)

lemma sprints_ok:
  "list_all sprint_value_ok (sprint_values (field_of flds (sprint_field fm))) \<Longrightarrow> \<exists>r. extract_sprints render fm flds = Inr r"
proof -
  assume a: "list_all sprint_value_ok (sprint_values (field_of flds (sprint_field fm)))"
  have "list_all (\<lambda>v. \<exists>r. parse_sprint_value render v = Inr r) (sprint_values (field_of flds (sprint_field fm)))"
    using a by (rule list.pred_mono_strong) (rule sprint_value_total)
  from map_ok_total [OF this] obtain rs
    where "map_ok (parse_sprint_value render) (sprint_values (field_of flds (sprint_field fm))) = Inr rs" by blast
  then show ?thesis by (simp add: extract_sprints_def)
qed

lemma story_points_ok: "points_ok (field_of flds (story_points_field fm)) \<Longrightarrow> \<exists>p. extract_story_points pf fm flds = Inr p"
  by (auto simp: extract_story_points_def points_ok_def float_of_number_def Let_def split: json.splits py_number.splits)

lemma blocker_flag_ok: "plain_field (field_of flds (blocker_field fm)) \<Longrightarrow> \<exists>b. extract_blocker_flag render fm flds = Inr b"
  using stringify_ok [of "field_of flds (blocker_field fm)" render] by (auto simp: extract_blocker_flag_def Let_def)

lemma time_ok: "optional_text v \<Longrightarrow> \<exists>t. time_of fromiso v = Inr t"
  by (cases v) (simp_all add: optional_text_def time_of_def)

text \<open>A documented issue gives a summary, and a detail with the same fields.\<close>

definition agrees_with_detail :: "jira_issue_summary \<Rightarrow> jira_issue_detail \<Rightarrow> bool" where
  "agrees_with_detail s d \<longleftrightarrow> jd_key d = js_key s \<and> jd_summary d = js_summary s \<and> jd_status d = js_status s
     \<and> jd_issue_type d = js_issue_type s \<and> jd_priority d = js_priority s \<and> jd_assignee d = js_assignee s
     \<and> jd_updated d = js_updated s \<and> jd_assignee_id d = js_assignee_id s \<and> jd_created d = js_created s
     \<and> jd_fix_versions d = js_fix_versions s \<and> jd_sprints d = js_sprints s"

lemma documented_issue_read:
  assumes "documented_issue fm issue"
  shows "\<exists>s d m. read_summary render fromiso fm issue = Inr s \<and> read_detail render pf fromiso fm issue = Inr d
    \<and> agrees_with_detail s d \<and> issue = J_Obj m \<and> map_of m ''key'' = Some (J_Str (js_key s)) \<and> (\<forall>n\<in>set (js_fix_versions s). n \<noteq> [])"
proof -
  obtain m k f where m: "issue = J_Obj m" "map_of m ''key'' = Some (J_Str k)" "map_of m ''fields'' = Some (J_Obj f)"
    and f: "documented_fields fm f"
    using assms by (cases issue) (auto split: option.splits json.splits)
  have times: "optional_text (field_of f ''updated'')" "optional_text (field_of f ''created'')"
    and named: "named_object (field_of f ''status'')" "named_object (field_of f ''issuetype'')" "named_object (field_of f ''assignee'')"
    using f by (simp_all add: documented_fields_def optional_texts_def)
  obtain u where u: "issue_time fromiso ''updated'' issue = Inr u"
    using time_ok [OF times(1), of fromiso] m by (auto simp: issue_time_def get_field_def field_of_def)
  obtain c where c: "issue_time fromiso ''created'' issue = Inr c"
    using time_ok [OF times(2), of fromiso] m by (auto simp: issue_time_def get_field_def field_of_def)
  obtain sm where sm: "text_value (case map_of f ''summary'' of None \<Rightarrow> J_Str [] | Some v \<Rightarrow> v) = Inr sm"
    using f by (auto simp: documented_fields_def text_value_def split: option.splits json.splits)
  obtain st where st: "display_name_of (field_of f ''status'') = Inr st" using display_name_ok [OF named(1)] by blast
  obtain ty where ty: "display_name_of (field_of f ''issuetype'') = Inr ty" using display_name_ok [OF named(2)] by blast
  obtain asg where asg: "display_name_of (field_of f ''assignee'') = Inr asg" using display_name_ok [OF named(3)] by blast
  obtain vs where vs: "extract_fix_versions render fm f = Inr vs" "\<forall>n\<in>set vs. n \<noteq> []"
    using fix_versions_ok [of f fm render] f by (auto simp: documented_fields_def)
  obtain sp where sp: "extract_sprints render fm f = Inr sp" using sprints_ok f unfolding documented_fields_def by blast
  obtain pr where pr: "extract_severity render fm f = Inr pr"
    using stringify_ok f unfolding documented_fields_def extract_severity_def by blast
  obtain pt where pt: "extract_story_points pf fm f = Inr pt" using story_points_ok f unfolding documented_fields_def by blast
  obtain bf where bf: "extract_blocker_flag render fm f = Inr bf" using blocker_flag_ok f unfolding documented_fields_def by blast
  define s where "s = \<lparr>js_key = k, js_summary = sm, js_status = st, js_issue_type = ty, js_priority = pr, js_assignee = asg,
    js_updated = u, js_assignee_id = assignee_identifier render (field_of f ''assignee''), js_created = c,
    js_fix_versions = vs, js_sprints = sp\<rparr>"
  have sum: "normalize_issue_summary render fm issue u c = Inr s"
    using sm by (simp add: normalize_issue_summary_def get_field_def m vs sp st ty asg pr s_def text_value_def)
  define d where "d = \<lparr>jd_key = js_key s, jd_summary = js_summary s, jd_status = js_status s, jd_issue_type = js_issue_type s,
    jd_priority = js_priority s, jd_assignee = js_assignee s, jd_updated = js_updated s, jd_assignee_id = js_assignee_id s,
    jd_created = js_created s, jd_fix_versions = js_fix_versions s, jd_sprints = js_sprints s,
    jd_story_points = pt, jd_blocker_flag = bf\<rparr>"
  have det: "normalize_issue_detail render pf fm issue u c = Inr d"
    using sum by (simp add: normalize_issue_detail_def get_field_def m pt bf d_def)
  have "agrees_with_detail s d" by (simp add: agrees_with_detail_def d_def)
  then show ?thesis using sum det u c m vs(2) by (simp add: read_summary_def read_detail_def s_def)
qed

lemma documented_summaries:
  assumes "list_all (documented_issue fm) raws"
  shows "\<exists>xs. map_ok (read_summary render fromiso fm) raws = Inr xs
    \<and> list_all2 (\<lambda>issue s. (\<exists>d. read_detail render pf fromiso fm issue = Inr d \<and> agrees_with_detail s d)
         \<and> (\<forall>n\<in>set (js_fix_versions s). n \<noteq> [])) raws xs"
  using assms
proof (induction raws)
  case (Cons issue raws)
  then obtain s d where "read_summary render fromiso fm issue = Inr s" "read_detail render pf fromiso fm issue = Inr d"
    "agrees_with_detail s d" "\<forall>n\<in>set (js_fix_versions s). n \<noteq> []"
    using documented_issue_read [of fm issue render fromiso pf] by auto
  then show ?case using Cons by auto
qed simp

subsection \<open>Properties\<close>

text \<open>C32: A search answer with the types that Jira documents is read without an error: one summary per issue, in the
  order of the answer, with the token of the next page unless it is blank; release names are never blank; and
  reading the same issue as a detail gives the same shared fields.\<close>

theorem documented_search_is_read:
  assumes answer: "post (search_payload fm jql token n fs) = Inr (J_Obj data)"
    and raws: "map_of data ''issues'' = Some (J_List raws)" "list_all (documented_issue fm) raws"
    and next_page: "optional_text (field_of data ''nextPageToken'')"
  shows "\<exists>xs. search_issues render fromiso fm post jql token n fs
        = Inr (xs, case field_of data ''nextPageToken'' of J_Str (c # cs) \<Rightarrow> Some (c # cs) | _ \<Rightarrow> None)
    \<and> list_all2 (\<lambda>issue s. (\<forall>key. \<exists>d. get_issue_details render parse_float fromiso fm (\<lambda>_ _. Inr issue) key None = Inr d
          \<and> agrees_with_detail s d) \<and> (\<forall>v\<in>set (js_fix_versions s). v \<noteq> [])) raws xs"
proof -
  obtain xs where xs: "map_ok (read_summary render fromiso fm) raws = Inr xs"
    "list_all2 (\<lambda>issue s. (\<exists>d. read_detail render parse_float fromiso fm issue = Inr d \<and> agrees_with_detail s d)
         \<and> (\<forall>v\<in>set (js_fix_versions s). v \<noteq> [])) raws xs"
    using documented_summaries [OF raws(2)] by blast
  have details: "list_all2 (\<lambda>issue s. (\<forall>key. \<exists>d. get_issue_details render parse_float fromiso fm (\<lambda>_ _. Inr issue) key None = Inr d
          \<and> agrees_with_detail s d) \<and> (\<forall>v\<in>set (js_fix_versions s). v \<noteq> [])) raws xs"
    by (rule list_all2_mono [OF xs(2)]) (auto simp: get_issue_details_def as_parse_error_def)
  have "text_or_none (or_else (field_of data ''nextPageToken'') J_Null)
      = Inr (case field_of data ''nextPageToken'' of J_Str (c # cs) \<Rightarrow> Some (c # cs) | _ \<Rightarrow> None)"
    using next_page by (auto simp: optional_text_def or_else_def text_or_none_def split: json.splits list.splits)
  then have "read_search_answer render fromiso fm (J_Obj data)
      = Inr (xs, case field_of data ''nextPageToken'' of J_Str (c # cs) \<Rightarrow> Some (c # cs) | _ \<Rightarrow> None)"
    using xs(1) by (simp add: read_search_answer_def get_field_def iterate_def raws(1) field_of_def)
  then show ?thesis using details by (simp add: search_issues_def answer as_parse_error_def)
qed

text \<open>A sample answer: an issue with a release, a sprint of each form, and points.\<close>

definition sample_mapping :: field_mapping where
  "sample_mapping = (make_mapping default_settings)\<lparr>sprint_field := ''sprint'', story_points_field := ''points''\<rparr>"

definition sample_issue_json :: json where
  "sample_issue_json = J_Obj [(''key'', J_Str ''A-1''), (''fields'', J_Obj [
     (''summary'', J_Str ''First''), (''status'', J_Obj [(''name'', J_Str ''Done'')]),
     (''assignee'', J_Obj [(''displayName'', J_Str ''Ann''), (''accountId'', J_Str ''u1'')]),
     (''fixVersions'', J_List [J_Obj [(''name'', J_Str ''R1'')], J_Obj []]),
     (''sprint'', J_List [J_Obj [(''id'', J_Num (PyInt 7)), (''name'', J_Str ''S7''), (''state'', J_Str ''ACTIVE'')],
        J_Str ''Sprint@1[id=8,name=S8,state=FUTURE]'']),
     (''points'', J_Num (PyInt 3))])]"

definition sample_answer :: "(string \<times> json) list" where
  "sample_answer = [(''issues'', J_List [sample_issue_json]), (''nextPageToken'', J_Str ''p2'')]"

lemma documented_search_is_read_witness:
  "\<exists>xs. search_issues (\<lambda>_. []) (\<lambda>_. None) sample_mapping (\<lambda>_. Inr (J_Obj sample_answer)) ''project = A'' None 50 None = Inr (xs, Some ''p2'')
    \<and> length xs = 1"
proof -
  have h: "map_of sample_answer ''issues'' = Some (J_List [sample_issue_json])" by (simp add: sample_answer_def)
  have d: "list_all (documented_issue sample_mapping) [sample_issue_json]" by code_simp
  have t: "optional_text (field_of sample_answer ''nextPageToken'')" by code_simp
  have f: "field_of sample_answer ''nextPageToken'' = J_Str ''p2''" by (simp add: sample_answer_def field_of_def)
  obtain xs where xs: "search_issues (\<lambda>_. []) (\<lambda>_. None) sample_mapping (\<lambda>_. Inr (J_Obj sample_answer)) ''project = A'' None 50 None
        = Inr (xs, case field_of sample_answer ''nextPageToken'' of J_Str (c # cs) \<Rightarrow> Some (c # cs) | _ \<Rightarrow> None)"
      "list_all2 (\<lambda>issue s. (\<forall>key. \<exists>d. get_issue_details (\<lambda>_. []) (\<lambda>_. None) (\<lambda>_. None) sample_mapping (\<lambda>_ _. Inr issue) key None = Inr d
          \<and> agrees_with_detail s d) \<and> (\<forall>v\<in>set (js_fix_versions s). v \<noteq> [])) [sample_issue_json] xs"
    using documented_search_is_read [where post = "\<lambda>_. Inr (J_Obj sample_answer)" and render = "\<lambda>_. []" and fromiso = "\<lambda>_. None"
      and parse_float = "\<lambda>_. None" and jql = "''project = A''" and token = None and n = 50 and fs = None, OF refl h d t] by blast
  show ?thesis using xs(1) list_all2_lengthD [OF xs(2)] f by simp
qed

lemma sample_detail_read:
  "map_sum id (\<lambda>d. (jd_key d, jd_status d, jd_assignee_id d, jd_fix_versions d, map sr_id (jd_sprints d), map sr_state (jd_sprints d), jd_story_points d))
     (get_issue_details (\<lambda>_. []) (\<lambda>_. None) (\<lambda>_. None) sample_mapping (\<lambda>_ _. Inr sample_issue_json) ''A-1'' None)
   = Inr (''A-1'', Some ''Done'', Some ''u1'', [''R1''], [''7'', ''8''], [''active'', ''future''], Some (PyFloat 3))"
  by code_simp

text \<open>An issue whose fields are null is not a parse error: the exception passes the handler.\<close>

lemma null_fields_escape:
  "search_issues (\<lambda>_. []) (\<lambda>_. None) sample_mapping
     (\<lambda>_. Inr (J_Obj [(''issues'', J_List [J_Obj [(''key'', J_Str ''A-1''), (''fields'', J_Null)]])])) ''project = A'' None 50 None
   = Inl (Inr Attribute_Error)"
  by code_simp

end
