(* ===== verification/ReportData.thy ===== *)
theory ReportData
  imports SprintView
begin

text \<open>
  What the PDF reports are made from (services/report_data_preparation.py): the prepared data of a release, of a
  sprint and of the project overview, from the stored rows and the services that the API uses. The texts of
  the documentation files and the version of the installed package are arguments. The texts made from this
  data are in \<open>ReportTexts\<close>. The theorem says that a release report agrees with the API; the last lemma says where it does not.
\<close>

subsection \<open>Prepared data\<close>

record prepared_comparison =
  pq_confidence_delta :: "pyfloat option"
  pq_primary_driver :: string

record prepared_portfolio =
  pf_project_key :: string
  pf_release_count :: nat
  pf_active_release_count :: nat
  pf_computed_release_count :: nat
  pf_sprint_count :: nat
  pf_active_sprint_count :: nat

text \<open>The readiness mapping: the keys that the program reads of it. A key that is absent is \<open>None\<close>.\<close>

record prepared_readiness =
  rp_signal :: "signal option"
  rp_status_label :: "string option"
  rp_summary :: "string option"
  rp_confidence_score :: "pyfloat option"
  rp_reasons :: "string list"
  rp_release_gates :: "release_gate list"
  rp_critical_risks :: "risk_item list"
  rp_warnings :: "risk_item list"
  rp_readiness_pct :: "pyfloat option"

record prepared_release =
  pl_release :: release
  pl_snapshot :: "metric_snapshot option"
  pl_snapshots :: "metric_snapshot list"
  pl_availability :: metric_availability
  pl_readiness :: prepared_readiness
  pl_readiness_history :: "prepared_readiness list"
  pl_recommendations :: "recommendation_action list"
  pl_outlook :: release_outlook
  pl_risk_aging :: "string risk_aging option"
  pl_comparison :: "prepared_comparison option"
  pl_version :: string

record prepared_sprint =
  ps_sprint :: sprint
  ps_snapshot :: "sprint_metric_snapshot option"
  ps_snapshots :: "sprint_metric_snapshot list"
  ps_availability :: "metric_availability option"
  ps_has_story_points :: bool
  ps_recommendations :: "recommendation_action list"
  ps_comparison :: "prepared_comparison option"
  ps_version :: string

record prepared_overview =
  po_release_data :: prepared_release
  po_sprint :: "sprint option"
  po_sprint_snapshot :: "sprint_metric_snapshot option"
  po_sprint_snapshots :: "sprint_metric_snapshot list"
  po_sprint_availability :: "metric_availability option"
  po_sprint_has_story_points :: bool
  po_sprint_recommendations :: "recommendation_action list"
  po_portfolio :: prepared_portfolio
  po_version :: string

subsection \<open>Availability and comparison\<close>

definition stored_metric_availability :: "metric_snapshot option \<Rightarrow> metric_availability option" where
  "stored_metric_availability snapshot = Option.bind snapshot (\<lambda>s.
     if sn_ruleset_version s > 0 then map_option rv_availability (sn_calculation_provenance s) else None)"

definition stored_sprint_availability :: "sprint_metric_snapshot option \<Rightarrow> metric_availability option" where
  "stored_sprint_availability snapshot = Option.bind snapshot (\<lambda>s.
     if ss_ruleset_version s > 0 then map_option sv_availability (ss_calculation_provenance s) else None)"

definition release_metric_availability ::
  "store \<Rightarrow> field_mapping \<Rightarrow> string \<Rightarrow> metric_snapshot option \<Rightarrow> view_error + metric_availability" where
  "release_metric_availability db fm rid snapshot =
    (case stored_metric_availability snapshot of
       Some a \<Rightarrow> Inr a
     | None \<Rightarrow> lift_view (build_release_availability db rid fm None None))"

definition last_two :: "'a list \<Rightarrow> ('a \<times> 'a) option" where
  "last_two xs = (case rev xs of current # previous # _ \<Rightarrow> Some (current, previous) | _ \<Rightarrow> None)"

definition prepared_of :: "delta_comparison \<Rightarrow> prepared_comparison" where
  "prepared_of c = \<lparr>pq_confidence_delta = cm_confidence_delta c, pq_primary_driver = primary_driver c\<rparr>"

definition prepare_release_comparison :: "metric_snapshot list \<Rightarrow> prepared_comparison option" where
  "prepare_release_comparison snapshots = Option.bind (last_two snapshots) (\<lambda>(current, previous).
     if sn_ruleset_version current \<noteq> sn_ruleset_version previous \<or> sn_ruleset_version current = 0 then None
     else Some (prepared_of (compare_release_snapshots current previous)))"

definition prepare_sprint_comparison :: "sprint_metric_snapshot list \<Rightarrow> prepared_comparison option" where
  "prepare_sprint_comparison snapshots = Option.bind (last_two snapshots) (\<lambda>(current, previous).
     if ss_ruleset_version current \<noteq> ss_ruleset_version previous then None
     else Some (prepared_of (compare_sprint_snapshots current previous)))"

definition sprint_confidence_available :: "sprint_metric_snapshot option \<Rightarrow> bool" where
  "sprint_confidence_available snapshot = (case snapshot of None \<Rightarrow> False | Some s \<Rightarrow> has_delivery_confidence s)"

definition sprint_recommendations_of :: "sprint_metric_snapshot option \<Rightarrow> recommendation_action list" where
  "sprint_recommendations_of snapshot =
    (case snapshot of None \<Rightarrow> [] | Some s \<Rightarrow> build_sprint_recommendations s (has_delivery_confidence s))"

subsection \<open>Readiness\<close>

definition RELEASE_NO_TICKETS_MESSAGE :: string where
  "RELEASE_NO_TICKETS_MESSAGE = ''No tickets are available for this scope.''"

text \<open>The readiness without gates, risks or score.\<close>

definition plain_readiness :: "signal option \<Rightarrow> string \<Rightarrow> string \<Rightarrow> string list \<Rightarrow> prepared_readiness" where
  "plain_readiness sig label summary reasons =
     \<lparr>rp_signal = sig, rp_status_label = Some label, rp_summary = Some summary, rp_confidence_score = None,
      rp_reasons = reasons, rp_release_gates = [], rp_critical_risks = [], rp_warnings = [], rp_readiness_pct = None\<rparr>"

definition readiness_pct :: "metric_snapshot \<Rightarrow> release_gate list \<Rightarrow> pyfloat option" where
  "readiness_pct s gates =
    (if gates = [] \<or> sn_confidence_status s = Some PARTIAL then None
     else Some (py_round 2 (fmul (fdiv (fint (int (length (filter gate_passed gates)))) (fint (int (length gates)))) 100)))"

definition versioned_readiness :: "metric_snapshot \<Rightarrow> release_signal option \<Rightarrow> prepared_readiness" where
  "versioned_readiness s row =
    (let evidence = map_option sg_readiness_evidence row;
         gates = (case row of None \<Rightarrow> [] | Some g \<Rightarrow> sg_release_gates g)
     in \<lparr>rp_signal = Option.bind evidence re_signal, rp_status_label = map_option re_status_label evidence,
         rp_summary = map_option re_summary evidence,
         rp_confidence_score = (case row of None \<Rightarrow> sn_confidence_score s | Some g \<Rightarrow> sg_confidence_score g),
         rp_reasons = (case row of None \<Rightarrow> [] | Some g \<Rightarrow> sg_reasons g), rp_release_gates = gates,
         rp_critical_risks = (case evidence of None \<Rightarrow> [] | Some e \<Rightarrow> re_critical_risks e),
         rp_warnings = (case evidence of None \<Rightarrow> [] | Some e \<Rightarrow> re_warnings e),
         rp_readiness_pct = readiness_pct s gates\<rparr>)"

definition prepare_release_readiness ::
  "derived_tables \<Rightarrow> string \<Rightarrow> metric_snapshot option \<Rightarrow> metric_availability \<Rightarrow> prepared_readiness" where
  "prepare_release_readiness d rid snapshot availability =
    (case snapshot of
       None \<Rightarrow>
        (let row = get_latest_signal d rid
         in plain_readiness (map_option sg_signal row) ''Not computed'' ''Metrics have not been computed yet for this release.''
              (case row of None \<Rightarrow> [] | Some g \<Rightarrow> sg_reasons g))
     | Some s \<Rightarrow>
        (if \<not> has_tickets (ma_context availability)
         then plain_readiness None ''NOT COMPUTED''
           (''Release signal is not computed because no tickets are '' @ ''available for this scope.'') [RELEASE_NO_TICKETS_MESSAGE]
         else let row = get_signal_for_snapshot d rid (sn_id s) (sn_ruleset_version s)
           in if sn_ruleset_version s = 0
              then plain_readiness (map_option sg_signal row) ''Unversioned legacy result''
                (''Legacy raw metrics are shown; derived release confidence '' @ ''is unavailable.'')
                (case row of None \<Rightarrow> [] | Some g \<Rightarrow> sg_reasons g)
              else versioned_readiness s row))"

subsection \<open>Outlook, risk aging, portfolio\<close>

definition shown_in_outlook :: "signal option \<Rightarrow> signal option" where
  "shown_in_outlook sig =
    (if sig \<in> {Some (Level GREEN), Some (Level YELLOW), Some (Level RED), Some INCONCLUSIVE} then sig else None)"

definition prepare_release_outlook ::
  "derived_tables \<Rightarrow> release \<Rightarrow> metric_snapshot option \<Rightarrow> prepared_readiness \<Rightarrow> release_outlook" where
  "prepare_release_outlook d rel snapshot readiness =
     build_release_outlook (release_release_date rel) snapshot (shown_in_outlook (rp_signal readiness))
       (rp_confidence_score readiness) (rp_release_gates readiness) (rp_critical_risks readiness) (rp_warnings readiness)
       (case snapshot of None \<Rightarrow> empty_last_24_hours | Some s \<Rightarrow> build_last_24_hours d (release_id rel) s)"

definition prepare_risk_aging_evidence ::
  "derived_tables \<Rightarrow> string \<Rightarrow> metric_snapshot option \<Rightarrow> string risk_aging option" where
  "prepare_risk_aging_evidence d rid snapshot =
     Option.bind snapshot (\<lambda>s. Option.bind (get_signal_for_snapshot d rid (sn_id s) (sn_ruleset_version s)) (\<lambda>g.
       if sg_ruleset_version g > 0 then Some (sg_risk_aging_evidence g) else None))"

text \<open>\<open>ReleaseRepository.list_releases\<close>: a page of the releases of a project, and how many there are.\<close>

definition list_releases :: "store \<Rightarrow> nat \<Rightarrow> nat \<Rightarrow> string option \<Rightarrow> release list \<times> nat" where
  "list_releases db skip limit project =
    (let found = filter (\<lambda>r. case project of None \<Rightarrow> True | Some k \<Rightarrow> upper (release_project_key r) = upper k) (releases db)
     in (take limit (drop skip (sort_key release_id found)), length found))"

definition prepare_portfolio :: "store \<Rightarrow> derived_tables \<Rightarrow> string \<Rightarrow> prepared_portfolio" where
  "prepare_portfolio db d project =
    (case (list_releases db 0 1000 (Some project), list_sprints db 0 1000 None (Some project)) of
       ((rels, release_count), (sprs, sprint_count)) \<Rightarrow>
         \<lparr>pf_project_key = project, pf_release_count = release_count,
          pf_active_release_count =
            length (filter (\<lambda>r. casefold (or_empty (release_status r)) \<in> {''active'', ''unreleased''}) rels),
          pf_computed_release_count = length (filter (\<lambda>r. get_latest_snapshot d (release_id r) \<noteq> None) rels),
          pf_sprint_count = sprint_count,
          pf_active_sprint_count = length (filter (\<lambda>s. casefold (sprint_state s) = ''active'') sprs)\<rparr>)"

subsection \<open>Releases, sprints, the overview\<close>

definition prepare_stored_release ::
  "store \<Rightarrow> derived_tables \<Rightarrow> field_mapping \<Rightarrow> string \<Rightarrow> release \<Rightarrow> view_error + prepared_release" where
  "prepare_stored_release db d fm version rel =
    (let rid = release_id rel; snapshot = get_latest_snapshot d rid;
         snapshots = list_snapshots_for_release d rid 30 None None
     in and_then (release_metric_availability db fm rid snapshot) (\<lambda>availability.
        and_then (traverse (\<lambda>s. map_sum id (prepare_release_readiness d rid (Some s))
          (release_metric_availability db fm rid (Some s))) snapshots) (\<lambda>history.
        let readiness = prepare_release_readiness d rid snapshot availability
        in Inr \<lparr>pl_release = rel, pl_snapshot = snapshot, pl_snapshots = snapshots, pl_availability = availability,
          pl_readiness = readiness, pl_readiness_history = history,
          pl_recommendations = (case snapshot of None \<Rightarrow> []
            | Some s \<Rightarrow> build_release_recommendations (snapshot_inputs s) (Some availability)),
          pl_outlook = prepare_release_outlook d rel snapshot readiness,
          pl_risk_aging = prepare_risk_aging_evidence d rid snapshot,
          pl_comparison = prepare_release_comparison snapshots, pl_version = version\<rparr>)))"

definition prepare_release_report ::
  "store \<Rightarrow> derived_tables \<Rightarrow> field_mapping \<Rightarrow> string \<Rightarrow> string \<Rightarrow> view_error + prepared_release" where
  "prepare_release_report db d fm version rid =
    (case find_release db rid of
       None \<Rightarrow> Inl (View_Invalid (release_missing rid))
     | Some rel \<Rightarrow> prepare_stored_release db d fm version rel)"

definition prepare_sprint_report ::
  "store \<Rightarrow> derived_tables \<Rightarrow> string \<Rightarrow> string \<Rightarrow> view_error + prepared_sprint" where
  "prepare_sprint_report db d version sid =
    (case find_sprint db sid of
       None \<Rightarrow> Inl (View_Invalid (sprint_missing sid))
     | Some spr \<Rightarrow>
        (let snapshot = get_latest_metric_snapshot d sid; snapshots = list_metric_snapshots_for_sprint d sid 30
         in Inr \<lparr>ps_sprint = spr, ps_snapshot = snapshot, ps_snapshots = snapshots,
           ps_availability = stored_sprint_availability snapshot,
           ps_has_story_points = sprint_confidence_available snapshot,
           ps_recommendations = sprint_recommendations_of snapshot,
           ps_comparison = prepare_sprint_comparison snapshots, ps_version = version\<rparr>))"

definition prepare_overview_report ::
  "store \<Rightarrow> derived_tables \<Rightarrow> field_mapping \<Rightarrow> string \<Rightarrow> string \<Rightarrow> view_error + prepared_overview" where
  "prepare_overview_report db d fm version rid =
    and_then (prepare_release_report db d fm version rid) (\<lambda>data.
      let project = release_project_key (pl_release data);
          spr = get_current_sprint db (Some project);
          snapshot = Option.bind spr (\<lambda>s. get_latest_metric_snapshot d (sprint_id s))
      in Inr \<lparr>po_release_data = data, po_sprint = spr, po_sprint_snapshot = snapshot,
        po_sprint_snapshots = (case spr of None \<Rightarrow> [] | Some s \<Rightarrow> list_metric_snapshots_for_sprint d (sprint_id s) 30),
        po_sprint_availability = stored_sprint_availability snapshot,
        po_sprint_has_story_points = sprint_confidence_available snapshot,
        po_sprint_recommendations = sprint_recommendations_of snapshot,
        po_portfolio = prepare_portfolio db d project, po_version = pl_version data\<rparr>)"

text \<open>The documentation is the first of the places that has it.\<close>

definition read_about_documentation :: "string option list \<Rightarrow> view_error + string" where
  "read_about_documentation files =
    (case List.map_filter id files of [] \<Rightarrow> Inl (View_Invalid ''ABOUT.md documentation was not found'') | t # _ \<Rightarrow> Inr t)"

definition prepare_documentation :: "string option list \<Rightarrow> string \<Rightarrow> view_error + string \<times> string" where
  "prepare_documentation files version = map_sum id (\<lambda>text. (text, version)) (read_about_documentation files)"

subsection \<open>Facts\<close>

lemma find_distinct: "distinct (map f xs) \<Longrightarrow> x \<in> set xs \<Longrightarrow> find (\<lambda>y. f y = f x) xs = Some x"
  by (induction xs) (auto simp: image_iff)

lemma signal_for_snapshot:
  assumes "wf_derived d" "g \<in> set (release_signals d)" "signal_key g = (rid, Some n, v)"
  shows "get_signal_for_snapshot d rid n v = Some g"
  using find_distinct [of signal_key "release_signals d" g] assms by (simp add: get_signal_for_snapshot_def wf_derived_def)

lemma stored_context:
  assumes rel: "find_release (evidence db) rid = Some rel" and run: "recompute_release_metrics t fm rid db = Inr (s, db1)"
    and p: "sn_calculation_provenance s = Some p"
  shows "has_tickets (ma_context (rv_availability p)) = (release_issues (evidence db) rid \<noteq> [])"
proof -
  define r where "r = release_results_of (evidence db) fm rel t"
  obtain q out a where parts: "recompute_release_metrics t fm rid db = Inr ((release_snapshot_of r rid
        (next_row_id sn_id (metric_snapshots (derived db))) t)\<lparr>sn_calculation_provenance := Some q\<rparr>,
      mark_metrics_recomputed t (db\<lparr>derived := add_snapshot ((release_snapshot_of r rid
        (next_row_id sn_id (metric_snapshots (derived db))) t)\<lparr>sn_calculation_provenance := Some q\<rparr>) (derived db)\<rparr>))"
    "build_release_availability (evidence db) rid fm (Some (churn_summary (rl_scope_churn r)))
        (Some (flow_summaries (rl_flow r))) = Inr a" "rv_availability q = a"
    using recompute_release_parts [OF rel, of t fm] unfolding r_def by blast
  have "q = p" using parts(1) run p by auto
  moreover have "ma_context a = release_context (evidence db) rid fm"
    using parts(2) by (auto simp: build_release_availability_def Let_def and_then_Inr_iff)
  moreover have "has_tickets (release_context (evidence db) rid fm) = (release_issues (evidence db) rid \<noteq> [])"
    by (simp add: release_context_def Let_def)
  ultimately show ?thesis using parts(3) by simp
qed

lemma release_availability_of_any: "\<exists>a. release_metric_availability db fm rid snapshot = Inr a"
proof -
  obtain live where "build_release_availability db rid fm None None = Inr live" using live_availability .
  then show ?thesis by (simp add: release_metric_availability_def lift_view_def split: option.split)
qed

lemma traverse_total: "(\<And>x. x \<in> set xs \<Longrightarrow> \<exists>y. f x = Inr y) \<Longrightarrow> \<exists>ys. traverse f xs = Inr ys"
proof (induction xs)
  case (Cons x xs)
  obtain y where "f x = Inr y" using Cons.prems [of x] by auto
  moreover obtain ys where "traverse f xs = Inr ys" using Cons by auto
  ultimately show ?case by simp
qed simp

text \<open>A release report is prepared for every stored release.\<close>

lemma prepared_release_exists:
  assumes "release_metric_availability db fm (release_id rel) (get_latest_snapshot d (release_id rel)) = Inr a"
  shows "\<exists>h. prepare_stored_release db d fm version rel = Inr
     \<lparr>pl_release = rel, pl_snapshot = get_latest_snapshot d (release_id rel),
      pl_snapshots = list_snapshots_for_release d (release_id rel) 30 None None, pl_availability = a,
      pl_readiness = prepare_release_readiness d (release_id rel) (get_latest_snapshot d (release_id rel)) a,
      pl_readiness_history = h,
      pl_recommendations = (case get_latest_snapshot d (release_id rel) of None \<Rightarrow> []
        | Some s \<Rightarrow> build_release_recommendations (snapshot_inputs s) (Some a)),
      pl_outlook = prepare_release_outlook d rel (get_latest_snapshot d (release_id rel))
        (prepare_release_readiness d (release_id rel) (get_latest_snapshot d (release_id rel)) a),
      pl_risk_aging = prepare_risk_aging_evidence d (release_id rel) (get_latest_snapshot d (release_id rel)),
      pl_comparison = prepare_release_comparison (list_snapshots_for_release d (release_id rel) 30 None None),
      pl_version = version\<rparr>"
proof -
  let ?f = "\<lambda>s. map_sum id (prepare_release_readiness d (release_id rel) (Some s))
      (release_metric_availability db fm (release_id rel) (Some s))"
  have "\<exists>y. ?f s = Inr y" for s
    using release_availability_of_any [of db fm "release_id rel" "Some s"] by auto
  then obtain h where "traverse ?f (list_snapshots_for_release d (release_id rel) 30 None None) = Inr h"
    using traverse_total [of _ ?f] by blast
  then show ?thesis using assms by (simp add: prepare_stored_release_def Let_def)
qed

lemma computed_is_shown: "sig \<noteq> SIGNAL_NOT_COMPUTED \<Longrightarrow> shown_in_outlook (Some sig) = Some sig"
proof (cases sig)
  case (Level l)
  then show ?thesis by (cases l) (simp_all add: shown_in_outlook_def)
qed (simp_all add: shown_in_outlook_def)

text \<open>What the report and the API take from a stored signal.\<close>

lemma readiness_of_signal:
  assumes "re_signal (sg_readiness_evidence g) = Some (sg_signal g)"
  shows "rp_signal (versioned_readiness s (Some g)) = Some (sg_signal g)"
    and "rp_confidence_score (versioned_readiness s (Some g)) = sg_confidence_score g"
    and "rp_status_label (versioned_readiness s (Some g)) = Some (re_status_label (sg_readiness_evidence g))"
    and "rp_summary (versioned_readiness s (Some g)) = Some (re_summary (sg_readiness_evidence g))"
    and "rp_reasons (versioned_readiness s (Some g)) = sg_reasons g"
    and "rp_release_gates (versioned_readiness s (Some g)) = sg_release_gates g"
    and "rp_critical_risks (versioned_readiness s (Some g)) = re_critical_risks (sg_readiness_evidence g)"
    and "rp_warnings (versioned_readiness s (Some g)) = re_warnings (sg_readiness_evidence g)"
  by (simp_all add: versioned_readiness_def Let_def assms)

lemma response_of_signal:
  assumes ready: "re_signal (sg_readiness_evidence g) = Some (sg_signal g)"
    and key: "sg_metric_snapshot_id g = Some (sn_id s)" "sg_ruleset_version g = ruleset_version_const"
  shows "gr_signal (computed_response dt rel g (Some s)) = Some (sg_signal g)"
    and "gr_confidence_score (computed_response dt rel g (Some s)) = sg_confidence_score g"
    and "gr_status_label (computed_response dt rel g (Some s)) = Some (re_status_label (sg_readiness_evidence g))"
    and "gr_summary (computed_response dt rel g (Some s)) = Some (re_summary (sg_readiness_evidence g))"
    and "gr_reasons (computed_response dt rel g (Some s)) = sg_reasons g"
    and "gr_release_gates (computed_response dt rel g (Some s)) = sg_release_gates g"
    and "gr_critical_risks (computed_response dt rel g (Some s)) = re_critical_risks (sg_readiness_evidence g)"
    and "gr_warnings (computed_response dt rel g (Some s)) = re_warnings (sg_readiness_evidence g)"
    and "gr_risk_aging (computed_response dt rel g (Some s)) = sg_risk_aging_evidence g"
    and "gr_release_outlook (computed_response dt rel g (Some s)) = build_release_outlook (release_release_date rel) (Some s)
       (Some (sg_signal g)) (sg_confidence_score g) (sg_release_gates g) (re_critical_risks (sg_readiness_evidence g))
       (re_warnings (sg_readiness_evidence g)) (build_last_24_hours dt (release_id rel) s)"
proof -
  have pos: "ruleset_version_const > 0" by (simp add: ruleset_version_const_def)
  have sr: "shown_readiness g (Some s) = Some (sg_readiness_evidence g)" by (simp add: shown_readiness_def key pos)
  have ss: "shown_signal g (Some (sg_readiness_evidence g)) = Some (sg_signal g)" by (simp add: shown_signal_def ready)
  note simps = computed_response_def Let_def sr ss key pos
  show "gr_signal (computed_response dt rel g (Some s)) = Some (sg_signal g)"
    "gr_confidence_score (computed_response dt rel g (Some s)) = sg_confidence_score g"
    "gr_status_label (computed_response dt rel g (Some s)) = Some (re_status_label (sg_readiness_evidence g))"
    "gr_summary (computed_response dt rel g (Some s)) = Some (re_summary (sg_readiness_evidence g))"
    "gr_reasons (computed_response dt rel g (Some s)) = sg_reasons g"
    "gr_release_gates (computed_response dt rel g (Some s)) = sg_release_gates g"
    "gr_critical_risks (computed_response dt rel g (Some s)) = re_critical_risks (sg_readiness_evidence g)"
    "gr_warnings (computed_response dt rel g (Some s)) = re_warnings (sg_readiness_evidence g)"
    "gr_risk_aging (computed_response dt rel g (Some s)) = sg_risk_aging_evidence g"
    "gr_release_outlook (computed_response dt rel g (Some s)) = build_release_outlook (release_release_date rel) (Some s)
       (Some (sg_signal g)) (sg_confidence_score g) (sg_release_gates g) (re_critical_risks (sg_readiness_evidence g))
       (re_warnings (sg_readiness_evidence g)) (build_last_24_hours dt (release_id rel) s)"
    by (simp_all add: simps)
qed

text \<open>The report and the answer of the API on the same stored snapshot and its signal.\<close>

lemma report_of_current_rows:
  assumes rel: "find_release e rid = Some rel" and "release_issues e rid \<noteq> []"
    and latest: "get_latest_snapshot dt rid = Some s" and lsig: "get_latest_signal dt rid = Some g"
    and row: "get_signal_for_snapshot dt rid (sn_id s) ruleset_version_const = Some g"
    and key: "signal_key g = (rid, Some (sn_id s), ruleset_version_const)"
    and version: "sn_ruleset_version s = ruleset_version_const" and p: "sn_calculation_provenance s = Some p"
    and tickets: "has_tickets (ma_context (rv_availability p))" and sig: "sg_signal g \<noteq> SIGNAL_NOT_COMPUTED"
    and ready: "re_signal (sg_readiness_evidence g) = Some (sg_signal g)"
  shows "\<exists>a d. get_signal e dt rid = Inr a \<and> prepare_release_report e dt fm package rid = Inr d
    \<and> pl_snapshot d = Some s \<and> rp_signal (pl_readiness d) = gr_signal a
    \<and> rp_confidence_score (pl_readiness d) = gr_confidence_score a
    \<and> rp_status_label (pl_readiness d) = gr_status_label a \<and> rp_summary (pl_readiness d) = gr_summary a
    \<and> rp_reasons (pl_readiness d) = gr_reasons a \<and> rp_release_gates (pl_readiness d) = gr_release_gates a
    \<and> rp_critical_risks (pl_readiness d) = gr_critical_risks a \<and> rp_warnings (pl_readiness d) = gr_warnings a
    \<and> pl_outlook d = gr_release_outlook a \<and> pl_risk_aging d = Some (gr_risk_aging a)"
proof -
  have rid: "release_id rel = rid" using rel by (auto simp: find_release_def find_Some_iff)
  have pos: "ruleset_version_const > 0" by (simp add: ruleset_version_const_def)
  have key: "sg_metric_snapshot_id g = Some (sn_id s)" "sg_ruleset_version g = ruleset_version_const"
    using key by (simp_all add: signal_key_def)
  have shown: "shown_in_outlook (Some (sg_signal g)) = Some (sg_signal g)" using computed_is_shown [OF sig] .
  have av: "release_metric_availability e fm (release_id rel) (get_latest_snapshot dt (release_id rel)) = Inr (rv_availability p)"
    by (simp add: release_metric_availability_def stored_metric_availability_def version pos p rid latest)
  define r where "r = versioned_readiness s (Some g)"
  have rd: "prepare_release_readiness dt rid (Some s) (rv_availability p) = r"
    using tickets row version pos by (simp add: prepare_release_readiness_def r_def)
  define a where "a = computed_response dt rel g (Some s)"
  have a: "get_signal e dt rid = Inr a" using rel assms(2) by (simp add: get_signal_def latest lsig a_def)
  obtain h where d: "prepare_release_report e dt fm package rid = Inr
     \<lparr>pl_release = rel, pl_snapshot = Some s, pl_snapshots = list_snapshots_for_release dt rid 30 None None,
      pl_availability = rv_availability p, pl_readiness = r, pl_readiness_history = h,
      pl_recommendations = build_release_recommendations (snapshot_inputs s) (Some (rv_availability p)),
      pl_outlook = prepare_release_outlook dt rel (Some s) r,
      pl_risk_aging = prepare_risk_aging_evidence dt rid (Some s),
      pl_comparison = prepare_release_comparison (list_snapshots_for_release dt rid 30 None None),
      pl_version = package\<rparr>"
    using prepared_release_exists [OF av, of package] by (auto simp: prepare_release_report_def rel rid latest rd)
  note r = readiness_of_signal [OF ready, of s, folded r_def]
  note ga = response_of_signal [OF ready key, of dt rel, folded a_def]
  have ol: "prepare_release_outlook dt rel (Some s) r = gr_release_outlook a"
    by (simp add: prepare_release_outlook_def r shown ga rid)
  have ra: "prepare_risk_aging_evidence dt rid (Some s) = Some (gr_risk_aging a)"
    by (simp add: prepare_risk_aging_evidence_def row version key pos ga)
  show ?thesis
    by (rule exI [of _ a], rule exI) (intro conjI, rule a, rule d, simp_all add: r ga ol ra)
qed

text \<open>C17: The report of a release says what the API says. Right after a recomputation of a stored release with
  tickets, with a clock that does not run backwards, the prepared report has the new snapshot, and its
  readiness and outlook have the signal, score, label, summary, reasons, gates, risks and warnings of the
  answer about the release's signal, and its risk aging is the same.\<close>

theorem report_agrees_with_api:
  assumes "wf_derived (derived db)" and "find_release (evidence db) rid = Some rel"
    and clock: "\<forall>q\<in>set (snapshots_of (derived db) rid). sn_snapshot_at q \<le> t1"
    and clock2: "\<forall>h\<in>set (release_signals (derived db)). sg_release_id h = rid \<longrightarrow> sg_calculated_at h \<le> t2"
    and "release_issues (evidence db) rid \<noteq> []"
  shows "\<exists>s db1 g db2 a d. recompute_release_metrics t1 fm rid db = Inr (s, db1)
    \<and> recompute_release_signal t2 fm rid db1 = Inr (g, db2)
    \<and> get_signal (evidence db2) (derived db2) rid = Inr a
    \<and> prepare_release_report (evidence db2) (derived db2) fm version rid = Inr d
    \<and> pl_snapshot d = Some s \<and> rp_signal (pl_readiness d) = gr_signal a
    \<and> rp_confidence_score (pl_readiness d) = gr_confidence_score a
    \<and> rp_status_label (pl_readiness d) = gr_status_label a \<and> rp_summary (pl_readiness d) = gr_summary a
    \<and> rp_reasons (pl_readiness d) = gr_reasons a \<and> rp_release_gates (pl_readiness d) = gr_release_gates a
    \<and> rp_critical_risks (pl_readiness d) = gr_critical_risks a \<and> rp_warnings (pl_readiness d) = gr_warnings a
    \<and> pl_outlook d = gr_release_outlook a \<and> pl_risk_aging d = Some (gr_risk_aging a)"
proof -
  obtain s db1 g db2 p where m: "recompute_release_metrics t1 fm rid db = Inr (s, db1)"
      "recompute_release_signal t2 fm rid db1 = Inr (g, db2)" "evidence db2 = evidence db"
    and wf: "wf_derived (derived db2)" "g \<in> set (release_signals (derived db2))"
    and latest: "get_latest_snapshot (derived db2) rid = Some s" and lsig: "get_latest_signal (derived db2) rid = Some g"
    and version: "sn_ruleset_version s = ruleset_version_const"
    and p: "sn_calculation_provenance s = Some p" "score_explained s p"
    and found: "sn_confidence_score s = release_confidence_of (release_results_of (evidence db) fm rel t1)"
      "sg_signal g = fresh_signal (release_results_of (evidence db) fm rel t1)"
      "sg_confidence_score g = sn_confidence_score s" "signal_key g = (rid, Some (sn_id s), ruleset_version_const)"
      "sg_calculated_at g = t2"
      "re_signal (sg_readiness_evidence g) = (if sg_signal g = SIGNAL_NOT_COMPUTED then None else Some (sg_signal g))"
      "release_issues (evidence db) rid \<noteq> [] \<longrightarrow> sg_signal g \<noteq> SIGNAL_NOT_COMPUTED"
    by (rule recomputed_rows [OF assms(1,2) bspec [OF clock] bspec [OF clock2, THEN mp], of fm])
  have tickets: "has_tickets (ma_context (rv_availability p))"
    using stored_context [OF assms(2) m(1) p(1)] assms(5) by simp
  have "sg_signal g \<noteq> SIGNAL_NOT_COMPUTED" using found(7) assms(5) by blast
  moreover from this have "re_signal (sg_readiness_evidence g) = Some (sg_signal g)" using found(6) by simp
  moreover have "find_release (evidence db2) rid = Some rel" "release_issues (evidence db2) rid \<noteq> []"
    using assms(2,5) by (simp_all add: m(3))
  ultimately show ?thesis
    using report_of_current_rows [OF _ _ latest lsig signal_for_snapshot [OF wf found(4)] found(4) version p(1) tickets, where rel = rel and fm = fm and package = version]
      m(1,2) by blast
qed

lemma report_agrees_with_api_witness:
  "\<exists>(db2 :: lighthouse_db) a d. get_signal (evidence db2) (derived db2) ''R'' = Inr a
    \<and> prepare_release_report (evidence db2) (derived db2) default_mapping ''1.0'' ''R'' = Inr d
    \<and> rp_signal (pl_readiness d) = gr_signal a \<and> pl_outlook d = gr_release_outlook a"
proof -
  have c: "\<forall>q\<in>set (snapshots_of (derived release_db) ''R''). sn_snapshot_at q \<le> day_us"
    "\<forall>h\<in>set (release_signals (derived release_db)). sg_release_id h = ''R'' \<longrightarrow> sg_calculated_at h \<le> day_us"
    by (simp_all add: release_db_facts) (simp add: release_db_def no_derived_def)
  have ne: "release_issues (evidence release_db) ''R'' \<noteq> []" by code_simp
  from report_agrees_with_api [OF release_db_facts(1,2) c ne, of default_mapping "''1.0''"] show ?thesis
    by blast
qed

text \<open>Where the report and the API part: the report compares its last two snapshots even when their
  classification settings differ, where the API gives the reason why they cannot be compared.\<close>

lemma last_two_of: "last_two (xs @ [p, s]) = Some (s, p)"
  by (simp add: last_two_def)

lemma report_compares_across_classifications:
  assumes "sn_ruleset_version s = sn_ruleset_version p" "sn_ruleset_version s \<noteq> 0"
    and "stored_classification s \<noteq> stored_classification p"
  shows "prepare_release_comparison (xs @ [p, s]) = Some (prepared_of (compare_release_snapshots s p))
    \<and> cs_unavailable_reason (release_comparison rid b s (Some p)) = Some CLASSIFICATION_MISMATCH_REASON
    \<and> cm_confidence_delta (cs_comparison (release_comparison rid b s (Some p))) = None"
  using assms
  by (auto simp: prepare_release_comparison_def last_two_of release_comparison_def no_release_comparison_def
      classification_unavailable_reason_def)

end
