(* ===== verification/ReportTexts.thy ===== *)
theory ReportTexts
  imports ReportData Configuration
begin

text \<open>
  The texts of the reports (services/report_template_helpers.py, services/report_formatting.py): how numbers, times and
  metric values are written, and the rows and bullets that the templates put together. A metric key of the
  code is here the catalog entry of that name; the lookup by key and its two exceptions are
  \<open>report_metric_definition\<close>, and a lemma says that it finds the entries. Numbers are finite, as in the columns they
  come from, and years have four digits; a negative zero is written as zero. Rows older than the columns for scope movement
  or workload evidence are not modelled. The lemmas show that a metric row prints the value the API serves, and that the
  parser of the documentation keeps every text once.
\<close>

type_synonym report_rows = "(string \<times> string) list"

subsection \<open>Python's text operations\<close>

definition remove_prefix :: "string \<Rightarrow> string \<Rightarrow> string" where
  "remove_prefix p s = (if starts_with p s then drop (length p) s else s)"

definition capitalize :: "string \<Rightarrow> string" where
  "capitalize s = (case s of [] \<Rightarrow> [] | c # cs \<Rightarrow> upper_char c # casefold cs)"

fun contains :: "string \<Rightarrow> string \<Rightarrow> bool" where
  "contains p [] = (p = [])"
| "contains p (c # cs) = (starts_with p (c # cs) \<or> contains p cs)"

definition or_text :: "string option \<Rightarrow> string \<Rightarrow> string" where
  "or_text v fallback = (case v of None \<Rightarrow> fallback | Some s \<Rightarrow> if s = [] then fallback else s)"

subsection \<open>Times\<close>

definition clock_text :: "utc \<Rightarrow> string" where
  "clock_text t = (let s = (t mod day_us) div seconds_us in zpad 2 (s div 3600) @ '':'' @ zpad 2 (s mod 3600 div 60))"

definition format_utc :: "utc option \<Rightarrow> string" where
  "format_utc v =
    (case v of
       None \<Rightarrow> ''N/A''
     | Some t \<Rightarrow> (case civil_of_days (t div day_us) of (y, mo, da) \<Rightarrow>
         zpad 4 y @ ''-'' @ zpad 2 mo @ ''-'' @ zpad 2 da @ '' '' @ clock_text t @ '' UTC''))"

definition format_datetime :: "py_datetime option \<Rightarrow> string" where
  "format_datetime v = format_utc (coerce_utc v)"

definition format_short_datetime :: "utc \<Rightarrow> string" where
  "format_short_datetime t =
    (case civil_of_days (t div day_us) of (y, mo, da) \<Rightarrow> zpad 2 mo @ ''-'' @ zpad 2 da @ '' '' @ clock_text t)"

subsection \<open>Numbers\<close>

definition as_float :: "py_number \<Rightarrow> pyfloat" where
  "as_float n = fl (number_value n)"

definition format_percent :: "py_number option \<Rightarrow> string" where
  "format_percent v = (case v of None \<Rightarrow> ''N/A'' | Some n \<Rightarrow> py_repr (py_round 2 (as_float n)) @ ''%'')"

definition format_number :: "py_number option \<Rightarrow> string" where
  "format_number v =
    (case v of
       None \<Rightarrow> ''N/A''
     | Some n \<Rightarrow> if as_float n = of_int \<lfloor>as_float n\<rfloor> then int_str \<lfloor>number_value n\<rfloor> else py_repr (py_round 2 (as_float n)))"

definition tally_text :: "nat \<Rightarrow> string" where
  "tally_text n = format_number (Some (PyInt (int n)))"

definition format_delta :: "pyfloat \<Rightarrow> string" where
  "format_delta v = (if v = 0 then ''0%'' else (if v > 0 then ''+'' else []) @ py_repr (py_round 2 v) @ ''%'')"

text \<open>What looking up a metric for a report can raise.\<close>

datatype report_error = Unknown_Metric string | Not_In_Reports string

definition report_metric_definition :: "string \<Rightarrow> report_error + metric_definition" where
  "report_metric_definition key =
    (case metric_by_key metric_catalog key of
       None \<Rightarrow> Inl (Unknown_Metric key)
     | Some d \<Rightarrow> if \<not> md_report_participation d
         then Inl (Not_In_Reports (''Metric '' @ quoted key @ '' does not participate in reports.'')) else Inr d)"

definition format_report_metric_value :: "metric_definition \<Rightarrow> bool \<Rightarrow> py_number option \<Rightarrow> string" where
  "format_report_metric_value d include_unit v =
    (case v of
       None \<Rightarrow> ''N/A''
     | Some n \<Rightarrow>
        (let x = as_float n;
             text = (case md_formatting d of
                 Format_integer \<Rightarrow> int_str (rne x)
               | Format_decimal_1 \<Rightarrow> format_fixed 1 x
               | Format_decimal_2 \<Rightarrow> format_fixed 2 x
               | Format_decimal_4 \<Rightarrow> format_fixed 4 x
               | Format_percent_2 \<Rightarrow> format_fixed 2 x @ ''%'')
         in if md_unit d = Days \<and> include_unit then text @ '' days''
            else if md_unit d \<in> {Percent, Score} \<and> last text \<noteq> CHR ''%'' then text @ ''%''
            else text))"

text \<open>A metric value with its unit.\<close>

definition report_value :: "metric_definition \<Rightarrow> py_number option \<Rightarrow> string" where
  "report_value d v = format_report_metric_value d True v"

definition band_minimum :: "string \<Rightarrow> pyfloat" where
  "band_minimum name = number_value (the (map_of release_threshold_metadata name))"

definition confidence_band :: "pyfloat option \<Rightarrow> string" where
  "confidence_band v =
    (case v of
       None \<Rightarrow> ''Not computed''
     | Some x \<Rightarrow> if x \<ge> band_minimum ''confidence_score_green_min'' then ''High Confidence''
         else if x \<ge> band_minimum ''confidence_score_yellow_min'' then ''Medium Confidence'' else ''Low Confidence'')"

text \<open>Statuses as \<open>status.replace("_", " ").title()\<close> writes them; the values of the other enumerations.\<close>

fun status_title :: "computation_status \<Rightarrow> string" where
  "status_title COMPUTED = ''Computed''"
| "status_title PARTIAL = ''Partial''"
| "status_title NOT_COMPUTED = ''Not Computed''"
| "status_title NOT_APPLICABLE = ''Not Applicable''"
| "status_title STATUS_INCONCLUSIVE = ''Inconclusive''"

fun ratio_status_text :: "ratio_status \<Rightarrow> string" where
  "ratio_status_text Good = ''good''"
| "ratio_status_text Warning_Status = ''warning''"
| "ratio_status_text Critical_Status = ''critical''"

fun risk_band_title :: "risk_band \<Rightarrow> string" where
  "risk_band_title Healthy_Band = ''Healthy''"
| "risk_band_title Watch_Band = ''Watch''"
| "risk_band_title Critical_Band = ''Critical''"

fun effort_text :: "effort \<Rightarrow> string" where
  "effort_text Low = ''low''"
| "effort_text Medium = ''medium''"
| "effort_text High = ''high''"

fun signal_text :: "signal \<Rightarrow> string" where
  "signal_text (Level RED) = ''RED''"
| "signal_text (Level YELLOW) = ''YELLOW''"
| "signal_text (Level GREEN) = ''GREEN''"
| "signal_text INCONCLUSIVE = ''INCONCLUSIVE''"
| "signal_text SIGNAL_NOT_COMPUTED = ''NOT_COMPUTED''"

subsection \<open>Breakdown, driver, recommendations, gates\<close>

definition percent_text :: "pyfloat \<Rightarrow> string" where
  "percent_text x = format_percent (Some (PyFloat x))"

definition breakdown_rows :: "confidence_breakdown option \<Rightarrow> report_rows" where
  "breakdown_rows b =
    (case b of
       None \<Rightarrow> [(''Status'', ''No confidence breakdown available.'')]
     | Some b \<Rightarrow> (''Total score'', percent_text (cb_total_score b)) #
         map (\<lambda>c. (bc_name c, percent_text (bc_score c) @ '' of '' @ percent_text (bc_max_score c) @ '' | ''
           @ ratio_status_text (bc_status c) @ '' | '' @ bc_explanation c)) (cb_components b))"

definition driver_rows :: "driver_analysis option \<Rightarrow> report_rows" where
  "driver_rows d =
    (case d of
       None \<Rightarrow> [(''Status'', ''No biggest driver is available.'')]
     | Some d \<Rightarrow> [(''Title'', da_title d), (''Category'', da_category d), (''Impact'', percent_text (da_impact d)),
         (''Contribution'', percent_text (da_contribution_percent d)), (''Explanation'', da_explanation d),
         (''Recommendation'', da_recommendation d)])"

definition recommendation_text :: "recommendation_action \<Rightarrow> string" where
  "recommendation_text a =
     ''P'' @ nat_str (ra_priority a) @ '' '' @ ra_title a @ '': '' @ ra_description a @ '' Confidence impact ''
     @ int_str (ra_confidence_impact a) @ ''%, effort '' @ effort_text (ra_effort a) @ '', category '' @ ra_category a @ ''.''"

definition up_to :: "nat option \<Rightarrow> 'a list \<Rightarrow> 'a list" where
  "up_to limit xs = (case limit of None \<Rightarrow> xs | Some n \<Rightarrow> take n xs)"

definition recommendation_bullets :: "recommendation_action list \<Rightarrow> nat option \<Rightarrow> string list" where
  "recommendation_bullets actions limit =
    (if actions = [] then [''No deterministic recommended actions are active for this snapshot.'']
     else map recommendation_text (up_to limit actions))"

text \<open>The texts in order, each once; \<open>list(dict.fromkeys(...))\<close> is \<open>dedupe\<close>.\<close>

definition or_bullet :: "string \<Rightarrow> string list \<Rightarrow> string list" where
  "or_bullet fallback bullets = (if bullets = [] then [fallback] else bullets)"

definition risk_messages :: "prepared_readiness \<Rightarrow> string list" where
  "risk_messages r = filter (\<lambda>m. m \<noteq> []) (map ri_message (rp_critical_risks r @ rp_warnings r)) @ rp_reasons r"

definition release_top_risk_bullets :: "prepared_readiness \<Rightarrow> nat \<Rightarrow> string list" where
  "release_top_risk_bullets r limit =
     or_bullet ''No active top release risks found in the latest computed signal.'' (take limit (dedupe (risk_messages r)))"

definition decision_recommendation_lines :: "prepared_readiness \<Rightarrow> string list" where
  "decision_recommendation_lines r =
    (case rp_signal r of
       Some (Level GREEN) \<Rightarrow> [''Release can proceed from the current deterministic risk posture. Continue monitoring gates and confidence before final approval.'']
     | Some (Level YELLOW) \<Rightarrow> [''Proceed only with named mitigation owners for the top risks. Recheck confidence after recommended actions are completed.'']
     | Some (Level RED) \<Rightarrow> [''Do not release until red-level risks are resolved and a fresh LighthousePM snapshot confirms improved confidence.'']
     | Some INCONCLUSIVE \<Rightarrow> [''Do not make a release decision until the missing required Jira metric inputs are completed and a fresh snapshot is computed.'']
     | _ \<Rightarrow> [''Do not make a release decision until release metrics and signal have been computed.''])"

definition gate_rows :: "release_gate list \<Rightarrow> report_rows" where
  "gate_rows gates =
    (if gates = [] then [(''Status'', ''No release gates available.'')]
     else map (\<lambda>g. (or_text (Some (gate_label g)) (or_text (Some (gate_metric_name g)) ''Gate''),
       (if gate_passed g then ''Passed'' else ''Not passed'') @ '' | value '' @ format_number (gate_value g) @ '' ''
       @ gate_comparison g @ '' '' @ format_number (Some (gate_threshold g)))) gates)"

subsection \<open>Metric rows\<close>

text \<open>\<open>getattr(snapshot, name)\<close> for the columns of the reported metrics.\<close>

definition release_attribute :: "metric_snapshot \<Rightarrow> string \<Rightarrow> py_number option" where
  "release_attribute s name =
    (if name = ''open_blockers'' then Some (PyInt (sn_open_blockers s))
     else if name = ''open_high_severity_bugs'' then Some (PyInt (sn_open_high_severity_bugs s))
     else if name = ''scope_completed_pct'' then Some (PyFloat (sn_scope_completed_pct s))
     else if name = ''completed_tickets'' then map_option PyInt (sn_completed_tickets s)
     else if name = ''scope_churn_7d_pct'' then map_option PyFloat (sn_scope_churn_7d_pct s)
     else if name = ''scope_added_7d_count'' then Some (PyInt (sn_scope_added_7d_count s))
     else if name = ''scope_removed_7d_count'' then Some (PyInt (sn_scope_removed_7d_count s))
     else if name = ''median_cycle_time_days'' then map_option PyFloat (sn_median_cycle_time_days s)
     else if name = ''reopen_rate_pct'' then map_option PyFloat (sn_reopen_rate_pct s)
     else None)"

definition sprint_attribute :: "sprint_metric_snapshot \<Rightarrow> string \<Rightarrow> py_number option" where
  "sprint_attribute s name =
    (if name = ''committed_scope'' then ss_committed_scope s
     else if name = ''completed_scope_pct'' then ss_completed_scope_pct s
     else if name = ''open_blockers'' then Some (PyInt (ss_open_blockers s))
     else if name = ''open_high_severity_bugs'' then Some (PyInt (ss_open_high_severity_bugs s))
     else if name = ''bugs_created_during_sprint'' then Some (PyInt (ss_bugs_created_during_sprint s))
     else if name = ''in_progress_count'' then ss_in_progress_count s
     else if name = ''not_started_count'' then ss_not_started_count s
     else if name = ''rollover_count'' then ss_rollover_count s
     else if name = ''median_cycle_time_days'' then map_option PyFloat (ss_median_cycle_time_days s)
     else if name = ''reopen_rate_pct'' then map_option PyFloat (ss_reopen_rate_pct s)
     else None)"

definition availability_of :: "metric_availability option \<Rightarrow> string \<Rightarrow> availability_item option" where
  "availability_of a name = Option.bind a (\<lambda>a. map_of (ma_metrics a) name)"

definition release_metric_value :: "metric_snapshot \<Rightarrow> metric_availability option \<Rightarrow> metric_definition \<Rightarrow> string" where
  "release_metric_value s a d =
    (case availability_of a (md_api_field d) of
       Some i \<Rightarrow> if \<not> ai_available i then ''N/A | '' @ or_text (ai_reason i) ''Metric is unavailable.''
         else report_value d (release_attribute s (md_api_field d))
     | None \<Rightarrow> report_value d (release_attribute s (md_api_field d)))"

definition snapshot_metric_value ::
  "(string \<Rightarrow> py_number option) \<Rightarrow> metric_availability option \<Rightarrow> metric_definition \<Rightarrow> string" where
  "snapshot_metric_value attribute a d =
    (case availability_of a (md_api_field d) of
       Some i \<Rightarrow> if \<not> ai_available i
         then ''N/A | '' @ or_text (case ai_explanations i of e # _ \<Rightarrow> Some e | [] \<Rightarrow> ai_reason i) ''Metric is unavailable.''
         else report_value d (attribute (md_api_field d))
     | None \<Rightarrow> report_value d (attribute (md_api_field d)))"

definition catalog_row ::
  "(string \<Rightarrow> py_number option) \<Rightarrow> metric_availability option \<Rightarrow> metric_definition \<Rightarrow> string option \<Rightarrow> string \<times> string" where
  "catalog_row attribute a d label = (or_text label (md_label d), snapshot_metric_value attribute a d)"

text \<open>The first of the rows has its own label.\<close>

definition numbered_rows :: "string \<Rightarrow> string \<Rightarrow> string list \<Rightarrow> report_rows" where
  "numbered_rows label further texts = (case texts of [] \<Rightarrow> [] | t # ts \<Rightarrow> (label, t) # map (Pair further) ts)"

definition metric_explanation_rows :: "metric_availability option \<Rightarrow> metric_definition \<Rightarrow> report_rows" where
  "metric_explanation_rows a d =
    (case availability_of a (md_api_field d) of
       None \<Rightarrow> []
     | Some i \<Rightarrow> numbered_rows ''Reopen event evidence'' ''Additional reopen event evidence''
         (filter (\<lambda>e. starts_with ''Ticket '' e \<and> contains '' was counted '' e) (ai_explanations i)))"

definition RELEASE_NO_STORY_POINTS_MESSAGE :: string where
  "RELEASE_NO_STORY_POINTS_MESSAGE = ''No tickets in this scope have story points.''"

definition SPRINT_STORY_POINT_UNAVAILABLE_MESSAGE :: string where
  "SPRINT_STORY_POINT_UNAVAILABLE_MESSAGE =
     ''Delivery confidence requires at least 50% of sprint tickets to have valid story points.''"

definition report_metrics :: "metric_definition list" where
  "report_metrics = filter (\<lambda>d. md_api_location d = Metric_values \<and> md_report_participation d)
     (metrics_for_scope metric_catalog Release_Scope)"

definition release_metric_rows :: "metric_snapshot option \<Rightarrow> metric_availability option \<Rightarrow> report_rows" where
  "release_metric_rows snapshot a =
    (case snapshot of
       None \<Rightarrow> [(''Status'', ''No release metrics have been computed yet.'')]
     | Some s \<Rightarrow>
        (case a of Some av \<Rightarrow> if \<not> has_tickets (ma_context av) then [(''Status'', RELEASE_NO_TICKETS_MESSAGE)] else [] | None \<Rightarrow> [])
        @ map (\<lambda>d. (md_label d, release_metric_value s a d)) report_metrics
        @ metric_explanation_rows a release_reopen_rate_pct
        @ (case a of
             Some av \<Rightarrow> if has_tickets (ma_context av) \<and> \<not> has_story_points (ma_context av)
               then [(''Story-point metrics'', ''N/A | '' @ RELEASE_NO_STORY_POINTS_MESSAGE)] else []
           | None \<Rightarrow> []))"

subsection \<open>Sprint rows\<close>

definition no_values_rows :: "metric_definition list \<Rightarrow> report_rows" where
  "no_values_rows ds = map (\<lambda>d. (md_label d, ''N/A'')) ds"

definition sprint_ticket_scope_rows :: "sprint_metric_snapshot option \<Rightarrow> metric_availability option \<Rightarrow> report_rows" where
  "sprint_ticket_scope_rows snapshot a =
    (case snapshot of
       None \<Rightarrow> no_values_rows [sprint_committed_scope, sprint_completed_scope_pct]
     | Some s \<Rightarrow> [catalog_row (sprint_attribute s) a sprint_committed_scope None,
         catalog_row (sprint_attribute s) a sprint_completed_scope_pct None])"

definition partial_rows :: "metric_availability option \<Rightarrow> metric_definition \<times> string \<Rightarrow> report_rows" where
  "partial_rows a = (\<lambda>(d, label).
    (case availability_of a (md_api_field d) of
       Some i \<Rightarrow> if ai_status i = PARTIAL then map (Pair label) (ai_explanations i) else []
     | None \<Rightarrow> []))"

definition sprint_work_state_rows :: "sprint_metric_snapshot option \<Rightarrow> metric_availability option \<Rightarrow> report_rows" where
  "sprint_work_state_rows snapshot a =
    (case snapshot of
       None \<Rightarrow> no_values_rows [sprint_in_progress_count, sprint_not_started_count, sprint_rollover_count]
     | Some s \<Rightarrow> map (\<lambda>d. catalog_row (sprint_attribute s) a d None)
           [sprint_in_progress_count, sprint_not_started_count, sprint_rollover_count]
         @ concat (map (partial_rows a)
             [(sprint_in_progress_count, ''In-progress count evidence''), (sprint_not_started_count, ''Not-started count evidence''),
              (sprint_rollover_count, ''Unfinished closed-sprint scope evidence'')]))"

definition sprint_quality_rows :: "sprint_metric_snapshot option \<Rightarrow> metric_availability option \<Rightarrow> report_rows" where
  "sprint_quality_rows snapshot a =
    (case snapshot of
       None \<Rightarrow> [(''Status'', ''No sprint quality metrics have been computed yet.'')]
     | Some s \<Rightarrow> map (\<lambda>d. catalog_row (sprint_attribute s) a d None)
           [sprint_open_high_severity_bugs, sprint_bugs_created_during_sprint, sprint_reopen_rate_pct, sprint_median_cycle_time_days]
         @ metric_explanation_rows a sprint_reopen_rate_pct)"

definition sprint_confidence_status_rows :: "sprint_metric_snapshot option \<Rightarrow> report_rows" where
  "sprint_confidence_status_rows snapshot =
    (case snapshot of
       None \<Rightarrow> [(''Status'', ''Delivery confidence has not been computed yet.'')]
     | Some s \<Rightarrow> [(''Status'', status_title (ss_delivery_confidence_status s)),
           (''Story-point coverage'', percent_text (cov_coverage_pct (ss_story_point_coverage s)))]
         @ numbered_rows ''Explanation'' ''Coverage guidance'' (ss_delivery_confidence_explanations s))"

definition velocity_health :: "confidence_inputs \<Rightarrow> pyfloat option" where
  "velocity_health i =
    (case ci_historical_velocity i of
       Some v \<Rightarrow> if v > 0 then Some (py_round 2 (fmul (fdiv (ci_completed_effective_points i) v) 100)) else None
     | None \<Rightarrow> None)"

definition sprint_velocity_rows :: "sprint_metric_snapshot option \<Rightarrow> bool \<Rightarrow> report_rows" where
  "sprint_velocity_rows snapshot has_points =
    (if \<not> has_points then [(''Status'', SPRINT_STORY_POINT_UNAVAILABLE_MESSAGE)]
     else case Option.bind snapshot ss_delivery_confidence_inputs of
         None \<Rightarrow> [(''Status'', ''No velocity baseline is available.'')]
       | Some i \<Rightarrow> [(''Historical velocity'', format_number (map_option PyFloat (ci_historical_velocity i))),
           (''Completed effective points'', format_number (Some (PyFloat (ci_completed_effective_points i)))),
           (''Velocity health'', format_percent (map_option PyFloat (velocity_health i))),
           (''Baseline sprint count'', format_number (Some (PyInt (ci_baseline_sprint_count i))))])"

definition sprint_scope_rows :: "sprint_metric_snapshot option \<Rightarrow> bool \<Rightarrow> report_rows" where
  "sprint_scope_rows snapshot has_points =
    (case snapshot of
       None \<Rightarrow> [(''Status'', ''Scope movement has not been computed yet.'')]
     | Some s \<Rightarrow>
        (let e = ss_scope_creep_evidence s; number = (\<lambda>i. format_number (Some (PyInt i)))
         in [(''Status'', status_title (ss_scope_creep_status s)),
             (md_label sprint_scope_creep_pct, report_value sprint_scope_creep_pct (map_option PyFloat (ss_scope_creep_pct s))),
             (''Initial commitment'', number (ce_initial_commitment_count e)), (''Addition events'', number (ce_scope_added_count e)),
             (''Removal events'', number (ce_scope_removed_count e)), (''Net scope change'', number (ce_net_scope_change e)),
             (''Scope change count'', number (ce_scope_change_count e))]
            @ (case ss_delivery_confidence_components s of
                 Some c \<Rightarrow> if has_points then [(''Scope stability component'', percent_text (cc_scope_stability c))] else []
               | None \<Rightarrow> [])
            @ map (Pair ''Explanation'') (ss_scope_creep_explanations s)))"

definition sprint_workload_rows :: "sprint_metric_snapshot option \<Rightarrow> report_rows" where
  "sprint_workload_rows snapshot =
    (case snapshot of
       None \<Rightarrow> [(''Status'', ''Workload distribution has not been computed yet.'')]
     | Some s \<Rightarrow>
        (let e = ss_workload_distribution_evidence s; d = sprint_workload_concentration_pct
         in [(''Status'', status_title (ss_workload_distribution_status s)),
             (capitalize (remove_prefix ''Workload '' (md_label d)), report_value d (map_option PyFloat (ss_workload_concentration_pct s))),
             (''Risk band'', case we_risk_band e of None \<Rightarrow> ''N/A'' | Some b \<Rightarrow> risk_band_title b),
             (''Top assignee'', or_text (map_option at_assignee (we_top_assignee e)) ''N/A''),
             (''Top-assignee points'', format_number (map_option (\<lambda>t. PyFloat (at_story_points t)) (we_top_assignee e))),
             (''Total included active points'', format_number (map_option PyFloat (we_total_active_points e)))]
            @ numbered_rows ''Explanation'' ''Additional explanation'' (ss_workload_distribution_explanations s)))"

definition sprint_risk_bullets :: "sprint_metric_snapshot option \<Rightarrow> metric_availability option \<Rightarrow> string list" where
  "sprint_risk_bullets snapshot a =
    (case snapshot of
       None \<Rightarrow> [''No sprint risk metrics have been computed yet.'']
     | Some s \<Rightarrow>
        (let item = availability_of (case a of Some av \<Rightarrow> Some av | None \<Rightarrow> stored_sprint_availability (Some s)) ''rollover_count'';
             unfinished = ss_rollover_count s;
             bullets =
               (if ss_open_blockers s > 0 then [int_str (ss_open_blockers s) @ '' open blockers require attention.''] else [])
               @ (if ss_open_high_severity_bugs s > 0
                  then [int_str (ss_open_high_severity_bugs s) @ '' open high-severity bugs add quality risk.''] else [])
               @ (case unfinished of
                    Some n \<Rightarrow> if number_value n > 0
                      then [number_str n @ '' current closed-sprint tickets are unfinished and require follow-up.''] else []
                  | None \<Rightarrow> [])
               @ (case item of
                    Some i \<Rightarrow> if ai_status i = PARTIAL then ai_explanations i
                      else if ai_status i = NOT_APPLICABLE
                      then [''Unfinished closed-sprint scope is not applicable to this sprint state.''] else []
                  | None \<Rightarrow> [])
         in if bullets \<noteq> [] then bullets
            else if unfinished = None
            then [''No computed blocker or high-severity bug risk is active. Unfinished closed-sprint scope is unavailable: ''
              @ (case Option.bind item (\<lambda>i. case ai_explanations i of [] \<Rightarrow> None | e # _ \<Rightarrow> Some e) of
                   Some e \<Rightarrow> e | None \<Rightarrow> ''The metric is unavailable.'')]
            else [''No blocker, high-severity bug, or unfinished closed-sprint risk is active in this snapshot.'']))"

subsection \<open>The overview\<close>

definition release_snapshot_label :: "metric_snapshot option \<Rightarrow> string" where
  "release_snapshot_label snapshot =
    (case snapshot of None \<Rightarrow> ''No snapshot available yet.'' | Some s \<Rightarrow> format_utc (Some (sn_snapshot_at s)))"

definition sprint_snapshot_label :: "sprint option \<Rightarrow> sprint_metric_snapshot option \<Rightarrow> string" where
  "sprint_snapshot_label spr snapshot =
    (case (spr, snapshot) of
       (Some _, Some s) \<Rightarrow> format_utc (Some (ss_snapshot_at s))
     | _ \<Rightarrow> ''No sprint snapshot available yet.'')"

definition overview_sprint_metric_rows ::
  "sprint option \<Rightarrow> sprint_metric_snapshot option \<Rightarrow> bool \<Rightarrow> metric_availability option \<Rightarrow> report_rows" where
  "overview_sprint_metric_rows spr snapshot has_points a =
    (case spr of
       None \<Rightarrow> [(''Status'', ''No active sprint is available for the overview dashboard.'')]
     | Some sp \<Rightarrow>
        (case snapshot of
           None \<Rightarrow> [(''Sprint'', sprint_name sp), (''State'', sprint_state sp), (''Status'', ''No sprint snapshot available yet.'')]
         | Some s \<Rightarrow>
            [(''Sprint'', sprint_name sp), (''State'', sprint_state sp), (''Goal'', or_text (sprint_goal sp) ''N/A''),
             (''Start'', format_datetime (sprint_start_date sp)), (''End'', format_datetime (sprint_end_date sp))]
            @ sprint_ticket_scope_rows (Some s) a @ sprint_work_state_rows (Some s) a
            @ [catalog_row (sprint_attribute s) a sprint_open_blockers None,
               catalog_row (sprint_attribute s) a sprint_open_high_severity_bugs
                 (Some (capitalize (remove_prefix ''Open '' (md_label sprint_open_high_severity_bugs)))),
               catalog_row (sprint_attribute s) a sprint_reopen_rate_pct None]
            @ metric_explanation_rows a sprint_reopen_rate_pct
            @ (if has_points
               then [(md_label sprint_delivery_confidence_score,
                      report_value sprint_delivery_confidence_score (map_option PyFloat (ss_delivery_confidence_score s)))]
               else [(''Story-point metrics'', SPRINT_STORY_POINT_UNAVAILABLE_MESSAGE)])))"

definition overview_risk_bullets ::
  "prepared_readiness \<Rightarrow> metric_snapshot option \<Rightarrow> sprint_metric_snapshot option \<Rightarrow> string list" where
  "overview_risk_bullets r snapshot sprint_snapshot =
     or_bullet ''No active overview risk indicators found.'' (dedupe
       (release_top_risk_bullets r 5
        @ (case snapshot of
             None \<Rightarrow> []
           | Some s \<Rightarrow> [''Release blockers: '' @ int_str (sn_open_blockers s) @ ''.'',
               ''Release high-severity bugs: '' @ int_str (sn_open_high_severity_bugs s) @ ''.'',
               ''Release scope churn: '' @ report_value release_scope_churn_7d_pct (map_option PyFloat (sn_scope_churn_7d_pct s)) @ ''.''])
        @ (case sprint_snapshot of
             None \<Rightarrow> []
           | Some s \<Rightarrow> [''Sprint blockers: '' @ int_str (ss_open_blockers s) @ ''.'',
               ''Sprint high-severity bugs: '' @ int_str (ss_open_high_severity_bugs s) @ ''.'',
               ''Sprint bugs created during sprint: '' @ int_str (ss_bugs_created_during_sprint s) @ ''.''])))"

definition signal_or :: "prepared_readiness \<Rightarrow> string" where
  "signal_or r = or_text (map_option signal_text (rp_signal r)) ''Not computed''"

definition overview_signal_rows :: "prepared_readiness \<Rightarrow> report_rows" where
  "overview_signal_rows r =
     [(''Signal'', signal_or r), (''Status'', or_text (rp_status_label r) ''Not computed''),
      (remove_prefix ''Release '' (md_label release_confidence_score),
        report_value release_confidence_score (map_option PyFloat (rp_confidence_score r))),
      (md_label release_readiness_pct, report_value release_readiness_pct (map_option PyFloat (rp_readiness_pct r))),
      (''Reasons'', or_text (Some (join '', '' (rp_reasons r))) ''No signal reasons recorded.'')]"

definition shown_delivery_confidence :: "sprint_metric_snapshot option \<Rightarrow> bool \<Rightarrow> pyfloat option" where
  "shown_delivery_confidence snapshot has_points =
    (case snapshot of Some s \<Rightarrow> if has_points then ss_delivery_confidence_score s else None | None \<Rightarrow> None)"

definition overview_health_rows ::
  "prepared_readiness \<Rightarrow> metric_snapshot option \<Rightarrow> sprint_metric_snapshot option \<Rightarrow> bool \<Rightarrow> report_rows" where
  "overview_health_rows r snapshot sprint_snapshot has_points =
    (let gates = rp_release_gates r
     in [(''Release gates passed'', if gates = [] then ''N/A''
            else nat_str (length (filter gate_passed gates)) @ '' of '' @ nat_str (length gates)),
         (''Release confidence band'', confidence_band (rp_confidence_score r)),
         (''Release '' @ casefold (md_label release_scope_completed_pct),
           report_value release_scope_completed_pct (map_option (\<lambda>s. PyFloat (sn_scope_completed_pct s)) snapshot)),
         (''Release '' @ casefold (remove_prefix ''Median '' (md_label release_median_cycle_time_days)),
           format_report_metric_value release_median_cycle_time_days False
             (map_option PyFloat (Option.bind snapshot sn_median_cycle_time_days))),
         (''Sprint delivery band'', confidence_band (shown_delivery_confidence sprint_snapshot has_points)),
         (''Sprint '' @ casefold (md_label sprint_completed_scope_pct),
           report_value sprint_completed_scope_pct (Option.bind sprint_snapshot ss_completed_scope_pct)),
         (''Sprint '' @ casefold (md_label sprint_reopen_rate_pct),
           report_value sprint_reopen_rate_pct (map_option PyFloat (Option.bind sprint_snapshot ss_reopen_rate_pct)))])"

definition overview_recommendation_bullets ::
  "recommendation_action list \<Rightarrow> recommendation_action list \<Rightarrow> string list" where
  "overview_recommendation_bullets release_actions sprint_actions =
     or_bullet ''No deterministic recommendations are active for the overview dashboard.''
       (map (\<lambda>t. ''Release: '' @ t) (recommendation_bullets release_actions (Some 3))
        @ (if sprint_actions = [] then [] else map (\<lambda>t. ''Sprint: '' @ t) (recommendation_bullets sprint_actions (Some 3))))"

subsection \<open>Values the templates take from a snapshot\<close>

definition first_last_delta :: "pyfloat option list \<Rightarrow> pyfloat option" where
  "first_last_delta vs =
    (let xs = List.map_filter (\<lambda>v. v) vs in if length xs < 2 then None else Some (fsub (last xs) (hd xs)))"

definition release_confidence_for_report :: "metric_snapshot \<Rightarrow> metric_availability option \<Rightarrow> pyfloat option" where
  "release_confidence_for_report s a =
    (if (case a of Some av \<Rightarrow> \<not> has_tickets (ma_context av) | None \<Rightarrow> False) then None
     else if sn_ruleset_version s > 0 then sn_confidence_score s else None)"

definition stored_release_confidence_artifacts ::
  "metric_snapshot option \<Rightarrow> confidence_breakdown option \<times> driver_analysis option" where
  "stored_release_confidence_artifacts snapshot =
    (case snapshot of
       None \<Rightarrow> (None, None)
     | Some s \<Rightarrow> if sn_ruleset_version s = 0 then (None, None)
         else (case sn_calculation_provenance s of
             None \<Rightarrow> (None, None)
           | Some p \<Rightarrow> (ro_confidence_breakdown (rv_component_outputs p), ro_biggest_driver (rv_component_outputs p))))"

definition stored_sprint_confidence_artifacts ::
  "sprint_metric_snapshot option \<Rightarrow> confidence_breakdown option \<times> driver_analysis option" where
  "stored_sprint_confidence_artifacts snapshot =
    (case snapshot of
       None \<Rightarrow> (None, None)
     | Some s \<Rightarrow> if ss_ruleset_version s = 0 then (None, None)
         else (case ss_calculation_provenance s of
             None \<Rightarrow> (None, None)
           | Some p \<Rightarrow> (so_confidence_breakdown (sv_component_outputs p), so_biggest_driver (sv_component_outputs p))))"

definition ruleset_text :: "int option \<Rightarrow> string" where
  "ruleset_text v =
    (case v of
       None \<Rightarrow> ''N/A''
     | Some n \<Rightarrow> if n = 0 then ''Unversioned legacy result (v0)'' else ''Ruleset v'' @ int_str n)"

subsection \<open>The documentation\<close>

text \<open>A section of a document: title, lines, rows, bullets, charts and the colour of its heading, here as the
  hexadecimal text of it. A chart has the name of its colour in the theme.\<close>

datatype chart_kind = Line_Chart | Bar_Chart

record chart_spec =
  ch_title :: string
  ch_kind :: chart_kind
  ch_points :: "(string \<times> py_number option) list"
  ch_color :: string
  ch_y_max :: "nat option"
  ch_value_suffix :: string

record report_section =
  rs_title :: string
  rs_lines :: "string list"
  rs_rows :: report_rows
  rs_bullets :: "string list"
  rs_charts :: "chart_spec list"
  rs_heading_color :: "string option"

definition plain_section :: "string \<Rightarrow> report_section" where
  "plain_section title = \<lparr>rs_title = title, rs_lines = [], rs_rows = [], rs_bullets = [], rs_charts = [], rs_heading_color = None\<rparr>"

text \<open>The local variables of the parser. The lines it reads end with their line breaks here; every line is stripped first.\<close>

record documentation_state =
  ds_document_title :: string
  ds_sections :: "report_section list"
  ds_title :: "string option"
  ds_lines :: "string list"
  ds_bullets :: "string list"
  ds_heading_color :: "string option"
  ds_include_empty :: bool
  ds_page :: string

definition flush_section :: "documentation_state \<Rightarrow> documentation_state" where
  "flush_section d =
     d\<lparr>ds_sections := ds_sections d
         @ (case ds_title d of
              Some t \<Rightarrow> if t \<noteq> [] \<and> (ds_lines d \<noteq> [] \<or> ds_bullets d \<noteq> [] \<or> ds_include_empty d)
                then [(plain_section t)\<lparr>rs_lines := ds_lines d, rs_bullets := ds_bullets d, rs_heading_color := ds_heading_color d\<rparr>]
                else []
            | None \<Rightarrow> []),
       ds_title := None, ds_lines := [], ds_bullets := [], ds_heading_color := None, ds_include_empty := False\<rparr>"

definition documentation_heading_color :: "string \<Rightarrow> string option" where
  "documentation_heading_color page =
     map_of [(''Overview'', ''#4b22d4''), (''Releases'', ''#0b6bcb''), (''Sprints'', ''#237445'')] page"

text \<open>The text of a numbered item.\<close>

definition numbered_item :: "string \<Rightarrow> string option" where
  "numbered_item line =
    (let number = takeWhile (\<lambda>c. c \<noteq> CHR ''.'') line; rest = drop 1 (dropWhile (\<lambda>c. c \<noteq> CHR ''.'') line)
     in if CHR ''.'' \<in> set line \<and> number \<noteq> [] \<and> list_all is_digit_char number \<and> starts_with '' '' rest
        then Some (strip rest) else None)"

definition start_heading :: "string \<Rightarrow> documentation_state \<Rightarrow> documentation_state" where
  "start_heading heading d =
    (let d' = flush_section d
     in d'\<lparr>ds_title := Some heading, ds_heading_color := documentation_heading_color (ds_page d')\<rparr>)"

definition documentation_line :: "string \<Rightarrow> documentation_state \<Rightarrow> documentation_state" where
  "documentation_line raw d =
    (let line = strip raw
     in if line = [] then d
        else if starts_with ''# '' line then d\<lparr>ds_document_title := strip (drop 2 line)\<rparr>
        else if starts_with ''## '' line
        then (let page = strip (drop 3 line); d' = flush_section d
              in d'\<lparr>ds_page := page, ds_title := Some page, ds_heading_color := documentation_heading_color page,
                 ds_include_empty := True\<rparr>)
        else if starts_with ''### '' line then start_heading (strip (drop 4 line)) d
        else if starts_with ''#### '' line then start_heading (strip (drop 5 line)) d
        else if starts_with ''- '' line then d\<lparr>ds_bullets := ds_bullets d @ [strip (drop 2 line)]\<rparr>
        else case numbered_item line of
            Some text \<Rightarrow> d\<lparr>ds_bullets := ds_bullets d @ [text]\<rparr>
          | None \<Rightarrow> d\<lparr>ds_lines := ds_lines d @ [line]\<rparr>)"

definition initial_documentation :: documentation_state where
  "initial_documentation = \<lparr>ds_document_title = ''Lighthouse PM Documentation'', ds_sections = [], ds_title = None,
     ds_lines = [], ds_bullets = [], ds_heading_color = None, ds_include_empty = False, ds_page = []\<rparr>"

definition documentation_sections_from_markdown :: "string \<Rightarrow> string \<times> report_section list" where
  "documentation_sections_from_markdown markdown =
    (let d = flush_section (fold documentation_line (splitlines markdown) initial_documentation)
     in (ds_document_title d, ds_sections d))"

subsection \<open>The keys of the templates\<close>

text \<open>Looking a catalog entry up by its key finds it, and every entry participates in reports.\<close>

lemma report_keys: "d \<in> set metric_catalog \<Longrightarrow> report_metric_definition (md_key d) = Inr d"
proof -
  assume d: "d \<in> set metric_catalog"
  have "distinct (map md_key metric_catalog)" "list_all md_report_participation metric_catalog" by code_simp+
  then show ?thesis using d metric_by_key_distinct [of metric_catalog d]
    by (simp add: report_metric_definition_def list_all_iff)
qed

subsection \<open>The metric rows and the values the API serves\<close>

text \<open>The values of the metrics answer by their names.\<close>

definition served_numbers :: "metric_values \<Rightarrow> (string \<times> py_number option) list" where
  "served_numbers v =
     [(''open_blockers'', map_option PyInt (mv_open_blockers v)),
      (''open_high_severity_bugs'', map_option PyInt (mv_open_high_severity_bugs v)),
      (''scope_completed_pct'', map_option PyFloat (mv_scope_completed_pct v)),
      (''completed_tickets'', map_option PyInt (mv_completed_tickets v)),
      (''scope_churn_7d_pct'', map_option PyFloat (mv_scope_churn_7d_pct v)),
      (''scope_added_7d_count'', map_option PyInt (mv_scope_added_7d_count v)),
      (''scope_removed_7d_count'', map_option PyInt (mv_scope_removed_7d_count v)),
      (''median_cycle_time_days'', map_option PyFloat (mv_median_cycle_time_days v)),
      (''reopen_rate_pct'', map_option PyFloat (mv_reopen_rate_pct v))]"

definition served_number :: "metric_values \<Rightarrow> string \<Rightarrow> py_number option" where
  "served_number v name = Option.bind (map_of (served_numbers v) name) id"

lemma entries_of_numbers: "metric_entries v = map (\<lambda>(name, x). (name, x \<noteq> None)) (served_numbers v)"
  by (simp add: metric_entries_def served_numbers_def)

lemma served_number_in: "(name, x) \<in> set (served_numbers v) \<Longrightarrow> served_number v name = x"
proof -
  assume x: "(name, x) \<in> set (served_numbers v)"
  have "distinct (map fst (served_numbers v))" by (simp add: served_numbers_def)
  then show ?thesis using x by (simp add: served_number_def map_of_is_SomeI)
qed

lemma report_metric_fields: "map md_api_field report_metrics = map fst (served_numbers v)"
proof -
  have "map md_api_field report_metrics = [''open_blockers'', ''open_high_severity_bugs'', ''scope_completed_pct'',
      ''completed_tickets'', ''scope_churn_7d_pct'', ''scope_added_7d_count'', ''scope_removed_7d_count'',
      ''median_cycle_time_days'', ''reopen_rate_pct'']" by code_simp
  then show ?thesis by (simp add: served_numbers_def)
qed

text \<open>A value that is served is the column of the snapshot.\<close>

lemma served_columns: "list_all (\<lambda>(name, x). x \<noteq> None \<longrightarrow> release_attribute s name = x) (served_numbers (served_values s))"
  unfolding served_numbers_def served_values_def metric_values.simps list.pred_inject prod.case
  by (intro conjI TrueI; simp add: release_attribute_def stored_metric_value_def split: option.split)

lemma metric_text_of_served:
  assumes items: "\<And>name shown. (name, shown) \<in> set (metric_entries (served_values s)) \<Longrightarrow> item_available (ma_metrics a) name = Some shown"
    and "d \<in> set report_metrics"
  shows "case served_number (served_values s) (md_api_field d) of
      Some n \<Rightarrow> release_metric_value s (Some a) d = report_value d (Some n)
    | None \<Rightarrow> starts_with ''N/A'' (release_metric_value s (Some a) d)"
proof -
  have "md_api_field d \<in> set (map fst (served_numbers (served_values s)))"
    using assms(2) report_metric_fields [of "served_values s"] by (metis image_eqI set_map)
  then obtain x where x: "(md_api_field d, x) \<in> set (served_numbers (served_values s))" by auto
  then have "(md_api_field d, x \<noteq> None) \<in> set (metric_entries (served_values s))" by (force simp: entries_of_numbers)
  then obtain i where "map_of (ma_metrics a) (md_api_field d) = Some i" "ai_available i = (x \<noteq> None)"
    using items by (fastforce simp: item_available_def)
  moreover have "x \<noteq> None \<longrightarrow> release_attribute s (md_api_field d) = x"
    using served_columns [of s] x by (auto simp: list_all_iff)
  ultimately show ?thesis
    using served_number_in [OF x] by (cases x) (simp_all add: release_metric_value_def availability_of_def starts_with_def)
qed

text \<open>Every reported metric has one row, found by its label.\<close>

lemma metric_row_found:
  assumes "d \<in> set report_metrics"
  shows "map_of (release_metric_rows (Some s) a) (md_label d) = Some (release_metric_value s a d)"
proof -
  have labels: "distinct (map md_label report_metrics)" "''Status'' \<notin> set (map md_label report_metrics)" by code_simp+
  have "map_of (map (\<lambda>d. (md_label d, release_metric_value s a d)) report_metrics) (md_label d) = Some (release_metric_value s a d)"
    using labels(1) assms by (auto intro!: map_of_is_SomeI simp: comp_def)
  moreover have "md_label d \<noteq> ''Status''" using labels(2) assms by (metis image_eqI set_map)
  ultimately show ?thesis by (simp add: release_metric_rows_def map_add_Some_iff split: option.split)
qed

subsection \<open>Top risks\<close>

text \<open>The top risks are distinct texts of the readiness, at least one line and at most as many as asked for.\<close>

lemma top_risks:
  assumes "limit > 0"
  shows "distinct (release_top_risk_bullets r limit)" and "length (release_top_risk_bullets r limit) \<in> {1..limit}"
    and "risk_messages r \<noteq> [] \<Longrightarrow> set (release_top_risk_bullets r limit) \<subseteq> set (risk_messages r)"
proof -
  have d: "distinct (take limit (dedupe (risk_messages r)))" "set (take limit (dedupe (risk_messages r))) \<subseteq> set (risk_messages r)"
    using set_dedupe [of "risk_messages r"] distinct_dedupe [of "risk_messages r"] by (auto dest: in_set_takeD)
  show "distinct (release_top_risk_bullets r limit)" "length (release_top_risk_bullets r limit) \<in> {1..limit}"
    using d assms by (auto simp: release_top_risk_bullets_def or_bullet_def Suc_le_eq)
  assume "risk_messages r \<noteq> []"
  then have "dedupe (risk_messages r) \<noteq> []" by (metis set_dedupe set_empty)
  then show "set (release_top_risk_bullets r limit) \<subseteq> set (risk_messages r)"
    using d(2) assms by (auto simp: release_top_risk_bullets_def or_bullet_def)
qed

subsection \<open>No text of the documentation is lost\<close>

definition is_heading :: "string \<Rightarrow> bool" where
  "is_heading raw \<longleftrightarrow> (let line = strip raw in starts_with ''## '' line \<or> starts_with ''### '' line \<or> starts_with ''#### '' line)"

text \<open>The text of a line that is neither blank nor a heading nor the title.\<close>

definition content_text :: "string \<Rightarrow> string option" where
  "content_text raw =
    (let line = strip raw
     in if line = [] \<or> starts_with ''# '' line \<or> is_heading raw then None
        else if starts_with ''- '' line then Some (strip (drop 2 line))
        else Some (case numbered_item line of Some t \<Rightarrow> t | None \<Rightarrow> line))"

definition section_texts :: "report_section \<Rightarrow> string list" where
  "section_texts s = rs_lines s @ rs_bullets s"

definition state_texts :: "documentation_state \<Rightarrow> string multiset" where
  "state_texts d = mset (concat (map section_texts (ds_sections d))) + mset (ds_lines d) + mset (ds_bullets d)"

definition titled :: "documentation_state \<Rightarrow> bool" where
  "titled d \<longleftrightarrow> (\<exists>t. ds_title d = Some t \<and> t \<noteq> [])"

lemma flushed_texts:
  "titled d \<or> (ds_lines d = [] \<and> ds_bullets d = []) \<Longrightarrow> state_texts (flush_section d) = state_texts d"
  "ds_lines (flush_section d) = []" "ds_bullets (flush_section d) = []"
  by (auto simp: flush_section_def state_texts_def titled_def section_texts_def plain_section_def split: option.splits)

text \<open>A stripped line with a heading mark has a heading.\<close>

lemma last_strip: "strip s \<noteq> [] \<Longrightarrow> \<not> is_space (last (strip s))"
  unfolding strip_def strip_by_def by (simp add: last_rev hd_dropWhile)

lemma strip_blank: "strip s = [] \<Longrightarrow> \<forall>c\<in>set s. is_space c"
proof -
  assume "strip s = []"
  then have "\<forall>c\<in>set (dropWhile is_space s). is_space c" by (auto simp: strip_def strip_by_def dropWhile_eq_Nil_conv)
  then have "dropWhile is_space s = []" by (metis hd_dropWhile hd_in_set)
  then show ?thesis by (simp add: dropWhile_eq_Nil_conv)
qed

lemma heading_text:
  assumes "starts_with p (strip raw)" and "p \<noteq> []" and "is_space (last p)"
  shows "strip (drop (length p) (strip raw)) \<noteq> []"
proof
  assume "strip (drop (length p) (strip raw)) = []"
  then have blank: "\<forall>c\<in>set (drop (length p) (strip raw)). is_space c" by (rule strip_blank)
  have line: "strip raw = p @ drop (length p) (strip raw)"
    using assms(1) unfolding starts_with_def by (metis append_take_drop_id)
  then have "strip raw \<noteq> []" using assms(2) by (metis append_is_Nil_conv)
  moreover have "is_space (last (strip raw))"
  proof (cases "drop (length p) (strip raw) = []")
    case True
    then show ?thesis using line assms(3) by simp
  next
    case False
    then have "last (strip raw) \<in> set (drop (length p) (strip raw))" by (metis last_appendR last_in_set line)
    then show ?thesis using blank by blast
  qed
  ultimately show False using last_strip by blast
qed

lemma heading_cases:
  assumes "is_heading raw"
  obtains (second_level) "starts_with ''## '' (strip raw)"
    | (third_level) "starts_with ''### '' (strip raw)" "\<not> starts_with ''## '' (strip raw)"
    | (fourth_level) "starts_with ''#### '' (strip raw)" "\<not> starts_with ''## '' (strip raw)" "\<not> starts_with ''### '' (strip raw)"
  using assms by (auto simp: is_heading_def Let_def)

text \<open>A heading closes the section before it and opens one.\<close>

lemma heading_line:
  assumes h: "is_heading raw" and "titled d \<or> (ds_lines d = [] \<and> ds_bullets d = [])"
  shows "titled (documentation_line raw d)" and "state_texts (documentation_line raw d) = state_texts d"
proof -
  have nonblank: "strip raw \<noteq> []" "\<not> starts_with ''# '' (strip raw)"
    using h by (cases "strip raw"; cases "tl (strip raw)"; auto simp: is_heading_def starts_with_def Let_def)+
  have texts: "state_texts (flush_section d) = state_texts d" using assms(2) by (rule flushed_texts(1))
  have "titled (documentation_line raw d) \<and> state_texts (documentation_line raw d) = state_texts (flush_section d)"
    using h
  proof (cases rule: heading_cases)
    case second_level
    then show ?thesis using nonblank heading_text [of "''## ''" raw]
      by (simp add: eval_nat_numeral is_space_def documentation_line_def titled_def state_texts_def Let_def)
  next
    case third_level
    then show ?thesis using nonblank heading_text [of "''### ''" raw]
      by (simp add: eval_nat_numeral is_space_def documentation_line_def start_heading_def titled_def state_texts_def Let_def)
  next
    case fourth_level
    then show ?thesis using nonblank heading_text [of "''#### ''" raw]
      by (simp add: eval_nat_numeral is_space_def documentation_line_def start_heading_def titled_def state_texts_def Let_def)
  qed
  then show "titled (documentation_line raw d)" and "state_texts (documentation_line raw d) = state_texts d"
    using texts by auto
qed

text \<open>Any other line adds its text, if it has one.\<close>

lemma other_line:
  assumes "\<not> is_heading raw"
  shows "titled (documentation_line raw d) = titled d"
    and "state_texts (documentation_line raw d) = state_texts d + mset (case content_text raw of None \<Rightarrow> [] | Some t \<Rightarrow> [t])"
  using assms
  by (auto simp: documentation_line_def content_text_def is_heading_def titled_def state_texts_def Let_def split: option.splits)

lemma content_of_heading: "is_heading raw \<Longrightarrow> content_text raw = None"
  by (simp add: content_text_def)

lemma documentation_lines:
  assumes "titled d"
  shows "titled (fold documentation_line raws d)"
    and "state_texts (fold documentation_line raws d) = state_texts d + mset (List.map_filter content_text raws)"
  using assms
proof (induction raws arbitrary: d)
  case (Cons raw raws)
  {
    case 1
    then show ?case using Cons.IH(1) [of "documentation_line raw d"] heading_line [of raw d] other_line [of raw d] by auto
  next
    case 2
    then show ?case
      using Cons.IH(2) [of "documentation_line raw d"] heading_line [of raw d] other_line [of raw d]
      by (cases "is_heading raw") (auto simp: List.map_filter_simps content_of_heading split: option.splits)
  }
qed (simp_all add: List.map_filter_simps)

lemma lines_before_heading:
  assumes "\<And>raw. raw \<in> set raws \<Longrightarrow> \<not> is_heading raw \<and> content_text raw = None"
    and "ds_title d = None" and "ds_lines d = []" and "ds_bullets d = []"
  shows "ds_lines (fold documentation_line raws d) = [] \<and> ds_bullets (fold documentation_line raws d) = [] \<and>
    ds_sections (fold documentation_line raws d) = ds_sections d"
  using assms
proof (induction raws arbitrary: d)
  case (Cons raw raws)
  have "strip raw = [] \<or> starts_with ''# '' (strip raw)"
    using Cons.prems(1) [of raw] by (auto simp: content_text_def Let_def split: if_splits)
  then have "documentation_line raw d = d \<or> documentation_line raw d = d\<lparr>ds_document_title := strip (drop 2 (strip raw))\<rparr>"
    by (auto simp: documentation_line_def Let_def)
  then show ?case using Cons.IH [of "documentation_line raw d"] Cons.prems by auto
qed simp

text \<open>C37: When a documentation text has no item or paragraph before its first heading, the sections the parser makes hold
  the text of every later paragraph line, list item and numbered item exactly once each, and nothing else.\<close>

theorem documentation_keeps_texts:
  assumes "splitlines markdown = before @ heading # after" and "is_heading heading"
    and "\<forall>raw\<in>set before. \<not> is_heading raw \<and> content_text raw = None"
  shows "mset (concat (map section_texts (snd (documentation_sections_from_markdown markdown))))
    = mset (List.map_filter content_text after)"
proof -
  define d where "d = fold documentation_line before initial_documentation"
  have d: "ds_lines d = []" "ds_bullets d = []" "state_texts d = {#}"
    using lines_before_heading [of before initial_documentation] assms(3)
    by (auto simp: d_def initial_documentation_def state_texts_def)
  define e where "e = fold documentation_line after (documentation_line heading d)"
  have e: "titled e" "state_texts e = mset (List.map_filter content_text after)"
    using heading_line [OF assms(2), of d] documentation_lines [of "documentation_line heading d" after] d by (simp_all add: e_def)
  have "documentation_sections_from_markdown markdown = (ds_document_title (flush_section e), ds_sections (flush_section e))"
    by (simp add: documentation_sections_from_markdown_def assms(1) d_def e_def Let_def)
  then show ?thesis using flushed_texts [of e] e by (simp add: state_texts_def)
qed

definition sample_documentation :: string where
  "sample_documentation = ''# Guide'' @ [CHR 0x0A] @ ''## Overview'' @ [CHR 0x0A] @ ''- First'' @ [CHR 0x0A] @ ''2. Second''
     @ [CHR 0x0A] @ ''Closing words''"

lemma documentation_keeps_texts_witness:
  "mset (concat (map section_texts (snd (documentation_sections_from_markdown sample_documentation))))
    = mset [''First'', ''Second'', ''Closing words'']"
proof -
  have lines: "splitlines sample_documentation = [''# Guide'' @ [CHR 0x0A]] @ (''## Overview'' @ [CHR 0x0A])
      # [''- First'' @ [CHR 0x0A], ''2. Second'' @ [CHR 0x0A], ''Closing words'']"
    by code_simp
  have "is_heading (''## Overview'' @ [CHR 0x0A])" by code_simp
  moreover have "\<forall>raw\<in>set [''# Guide'' @ [CHR 0x0A]]. \<not> is_heading raw \<and> content_text raw = None" by code_simp
  moreover have "List.map_filter content_text [''- First'' @ [CHR 0x0A], ''2. Second'' @ [CHR 0x0A], ''Closing words'']
      = [''First'', ''Second'', ''Closing words'']"
    by code_simp
  ultimately show ?thesis using documentation_keeps_texts [OF lines] by metis
qed

text \<open>The paragraphs of a section come before its items, whatever their order in the text.\<close>

lemma closing_words_come_first:
  "map section_texts (snd (documentation_sections_from_markdown sample_documentation)) = [[''Closing words'', ''First'', ''Second'']]"
  by code_simp

end
