(* ===== verification/ReportDocuments.thy ===== *)
theory ReportDocuments
  imports ReportTexts
begin

text \<open>
  The documents of the reports (services/report_release_template.py, services/report_sprint_template.py,
  services/report_overview_template.py, services/report_documentation_template.py over
  services/report_document_models.py): the sections of a release, sprint, overview and documentation report from the
  prepared data. The theme is a mapping from the names of colours to colours; a chart keeps the name. Drawing the document
  as a PDF is not modelled. The theorem says that the metrics in a release report are those the API serves; the last
  lemma says where charts and overview differ from it.
\<close>

datatype report_depth = Summary | Full

record report_document =
  rd_title :: string
  rd_subtitle :: string
  rd_entity_id :: string
  rd_generated_at :: py_datetime
  rd_version :: string
  rd_sections :: "report_section list"

subsection \<open>Sections\<close>

definition lines_section :: "string \<Rightarrow> string list \<Rightarrow> report_section" where
  "lines_section title ls = (plain_section title)\<lparr>rs_lines := ls\<rparr>"

definition rows_section :: "string \<Rightarrow> report_rows \<Rightarrow> report_section" where
  "rows_section title rows = (plain_section title)\<lparr>rs_rows := rows\<rparr>"

definition bullets_section :: "string \<Rightarrow> string list \<Rightarrow> report_section" where
  "bullets_section title bullets = (plain_section title)\<lparr>rs_bullets := bullets\<rparr>"

definition charts_section :: "string \<Rightarrow> chart_spec list \<Rightarrow> report_section" where
  "charts_section title charts = (plain_section title)\<lparr>rs_charts := charts\<rparr>"

definition series :: "('s \<Rightarrow> utc) \<Rightarrow> ('s \<Rightarrow> py_number option) \<Rightarrow> 's list \<Rightarrow> (string \<times> py_number option) list" where
  "series taken_at val snapshots = map (\<lambda>s. (format_short_datetime (taken_at s), val s)) snapshots"

definition chart :: "string \<Rightarrow> chart_kind \<Rightarrow> string \<Rightarrow> (string \<times> py_number option) list \<Rightarrow> chart_spec" where
  "chart title kind color points =
     \<lparr>ch_title = title, ch_kind = kind, ch_points = points, ch_color = color, ch_y_max = None, ch_value_suffix = []\<rparr>"

definition percent_chart :: "string \<Rightarrow> string \<Rightarrow> (string \<times> py_number option) list \<Rightarrow> chart_spec" where
  "percent_chart title color points = (chart title Line_Chart color points)\<lparr>ch_y_max := Some 100, ch_value_suffix := ''%''\<rparr>"

definition open_percent_chart :: "string \<Rightarrow> string \<Rightarrow> (string \<times> py_number option) list \<Rightarrow> chart_spec" where
  "open_percent_chart title color points = (chart title Line_Chart color points)\<lparr>ch_value_suffix := ''%''\<rparr>"

subsection \<open>Release sections\<close>

text \<open>The seven rows are those of the outlook mapping, in its order.\<close>

definition outlook_section :: "release_outlook \<Rightarrow> report_section" where
  "outlook_section ol =
     (plain_section ''Release Outlook'')\<lparr>
       rs_lines := [ol_disclaimer ol],
       rs_rows := [(''Outlook'', ol_label ol), (''Final signal'', or_text (map_option signal_text (ol_signal ol)) ''Not computed''),
         (''Current '' @ casefold (remove_prefix ''Release '' (md_label release_confidence_score)),
           report_value release_confidence_score (map_option PyFloat (ol_confidence_score ol))),
         (''Passed release gates'', report_value release_gates_passed_count (Some (PyInt (int (ol_passed_gate_count ol))))),
         (''Failed release gates'', report_value release_gates_passed_count (Some (PyInt (int (ol_failed_gate_count ol))))),
         (''24-hour confidence change'', case ol_confidence_change_24h ol of None \<Rightarrow> ''N/A'' | Some d \<Rightarrow> format_delta d),
         (''Calendar days remaining'', format_number (map_option PyInt (ol_days_remaining ol)))],
       rs_bullets := or_bullet ''No active hard RED or YELLOW conditions.''
         (filter (\<lambda>m. m \<noteq> []) (map ri_message (ol_active_conditions ol)))\<rparr>"

definition aging_rows :: "string \<Rightarrow> string risk_ages \<Rightarrow> report_rows" where
  "aging_rows label g =
     [(label @ '' active'', tally_text (ra_count g)), (label @ '' known age'', tally_text (ra_known_count g)),
      (label @ '' unknown age'', tally_text (ra_unknown_count g)),
      (label @ '' oldest risk age days'', format_number (map_option PyFloat (ra_oldest_age_days g))),
      (label @ '' average risk age days'', format_number (map_option PyFloat (ra_average_age_days g)))]"

definition bool_text :: "bool \<Rightarrow> string" where "bool_text b = (if b then ''True'' else ''False'')"

definition aging_bullet :: "string aging_ticket \<Rightarrow> string" where
  "aging_bullet t =
     at_key t @ '': issue age '' @ format_number (map_option PyFloat (at_issue_age_days t)) @ '' days; risk age ''
     @ format_number (map_option PyFloat (at_age_days t)) @ '' days; Jira created '' @ or_text (at_jira_created_at t) ''N/A''
     @ ''; risk start '' @ or_text (at_risk_started_at t) ''N/A'' @ ''; source '' @ or_text (at_risk_start_source_field t) ''N/A''
     @ ''; history complete '' @ bool_text (at_history_complete t) @ ''; ''
     @ or_text (at_explanation t) ''Risk start proven from stored Jira evidence.''"

definition risk_aging_section :: "metric_snapshot option \<Rightarrow> string risk_aging option \<Rightarrow> report_section" where
  "risk_aging_section snapshot aging =
    (case snapshot of
       None \<Rightarrow> lines_section ''Risk Aging Evidence'' [''No release snapshot is available.'']
     | Some s \<Rightarrow>
        (case aging of
           None \<Rightarrow> lines_section ''Risk Aging Evidence'' [''Stored risk-aging evidence is unavailable for this result.'']
         | Some e \<Rightarrow> (plain_section ''Risk Aging Evidence'')\<lparr>
             rs_rows := (''Snapshot boundary'', format_utc (Some (sn_snapshot_at s)))
               # aging_rows ''Blockers'' (rk_blockers e) @ aging_rows ''High-severity bugs'' (rk_high_severity_bugs e),
             rs_bullets := or_bullet ''No active blocker or high-severity-bug aging evidence.''
               (map aging_bullet (ra_tickets (rk_blockers e) @ ra_tickets (rk_high_severity_bugs e)))\<rparr>))"

definition comparison_section :: "utc \<Rightarrow> utc \<Rightarrow> prepared_comparison \<Rightarrow> string \<Rightarrow> report_section" where
  "comparison_section current baseline c entity =
     rows_section ''Snapshot Changes''
       [(''Current snapshot'', format_utc (Some current)), (''Baseline snapshot'', format_utc (Some baseline)),
        (''Confidence delta'', case pq_confidence_delta c of None \<Rightarrow> ''N/A'' | Some d \<Rightarrow> format_delta d),
        (''Primary driver'', pq_primary_driver c), (''Entity'', entity)]"

definition different_rulesets :: "int \<Rightarrow> int \<Rightarrow> report_section" where
  "different_rulesets current baseline =
     (plain_section ''Snapshot Changes'')\<lparr>
       rs_lines := [''Snapshot comparison unavailable because ruleset versions differ.''],
       rs_rows := [(''Current ruleset'', ruleset_text (Some current)), (''Baseline ruleset'', ruleset_text (Some baseline))]\<rparr>"

definition release_snapshot_changes :: "string \<Rightarrow> metric_snapshot list \<Rightarrow> prepared_comparison option \<Rightarrow> report_section" where
  "release_snapshot_changes rid snapshots comparison =
    (case last_two snapshots of
       None \<Rightarrow> lines_section ''Snapshot Changes'' [''No baseline snapshot is available yet.'']
     | Some (current, baseline) \<Rightarrow>
        (if sn_ruleset_version current \<noteq> sn_ruleset_version baseline
         then different_rulesets (sn_ruleset_version current) (sn_ruleset_version baseline)
         else if sn_ruleset_version current = 0
         then lines_section ''Snapshot Changes''
           [''Derived legacy release confidence is unavailable because it was not stored at calculation time.'']
         else case comparison of
             None \<Rightarrow> lines_section ''Snapshot Changes'' [''Snapshot comparison is unavailable for this result.'']
           | Some c \<Rightarrow> comparison_section (sn_snapshot_at current) (sn_snapshot_at baseline) c rid))"

definition gate_passed_count :: "metric_snapshot \<Rightarrow> metric_availability option \<Rightarrow> nat option" where
  "gate_passed_count s a =
    (if (case a of Some av \<Rightarrow> \<not> has_tickets (ma_context av) | None \<Rightarrow> False) then None
     else Some (case sn_calculation_provenance s of
         None \<Rightarrow> 0
       | Some p \<Rightarrow> length (filter gate_passed (ro_release_gates (rv_component_outputs p)))))"

definition confidence_series :: "metric_snapshot list \<Rightarrow> metric_availability option \<Rightarrow> (string \<times> py_number option) list" where
  "confidence_series snapshots a = series sn_snapshot_at (\<lambda>s. map_option PyFloat (release_confidence_for_report s a)) snapshots"

definition gates_series :: "metric_snapshot list \<Rightarrow> metric_availability option \<Rightarrow> (string \<times> py_number option) list" where
  "gates_series snapshots a = series sn_snapshot_at (\<lambda>s. map_option (\<lambda>n. PyInt (int n)) (gate_passed_count s a)) snapshots"

definition release_historical_charts :: "metric_snapshot list \<Rightarrow> metric_availability option \<Rightarrow> chart_spec list" where
  "release_historical_charts snapshots a =
    (let of_metric = (\<lambda>name. series sn_snapshot_at (\<lambda>s. release_attribute s name) snapshots)
     in [percent_chart ''Historical Confidence'' ''sprintConfidence'' (confidence_series snapshots a),
         chart ''Historical Release Gates Passed'' Line_Chart ''gatesPassed'' (gates_series snapshots a),
         chart ''Historical Open Blockers'' Bar_Chart ''blockers'' (of_metric ''open_blockers''),
         chart ''Historical High-Severity Bugs'' Bar_Chart ''bugs'' (of_metric ''open_high_severity_bugs''),
         percent_chart ''Historical Scope Completed'' ''scopeCompleted'' (of_metric ''scope_completed_pct''),
         open_percent_chart ''Historical Scope Churn'' ''scopeChurn'' (of_metric ''scope_churn_7d_pct''),
         chart ''Historical Median Cycle Time'' Line_Chart ''cycleTime'' (of_metric ''median_cycle_time_days''),
         open_percent_chart ''Historical Reopen Events per 100 Eligible Tickets'' ''reopenRate'' (of_metric ''reopen_rate_pct'')])"

text \<open>The breakdown and the driver are not shown for a release without tickets.\<close>

definition shown_artifacts :: "prepared_release \<Rightarrow> confidence_breakdown option \<times> driver_analysis option" where
  "shown_artifacts d =
    (if \<not> has_tickets (ma_context (pl_availability d)) then (None, None) else stored_release_confidence_artifacts (pl_snapshot d))"

definition release_summary_rows :: "prepared_release \<Rightarrow> report_rows" where
  "release_summary_rows d =
    (let rel = pl_release d
     in [(''Release'', release_name rel), (''Project'', release_project_key rel),
         (''Status'', or_text (release_status rel) ''Unknown''), (''Release date'', format_datetime (release_release_date rel)),
         (''Latest snapshot'', format_utc (map_option sn_snapshot_at (pl_snapshot d))),
         (''Ruleset'', ruleset_text (map_option sn_ruleset_version (pl_snapshot d)))])"

definition signal_line :: "prepared_readiness \<Rightarrow> string" where
  "signal_line r = or_text (rp_status_label r) (signal_or r)"

definition release_sections :: "prepared_release \<Rightarrow> report_section list" where
  "release_sections d =
    (let r = pl_readiness d; a = Some (pl_availability d); (breakdown, driver) = shown_artifacts d
     in [(plain_section ''Executive Summary'')\<lparr>
           rs_lines := [or_text (rp_summary r) ''Release report generated from deterministic LighthousePM snapshots.''],
           rs_rows := release_summary_rows d
             @ [(''Signal'', signal_line r),
                (capitalize (remove_prefix ''Release '' (md_label release_confidence_score)),
                  report_value release_confidence_score (map_option PyFloat (rp_confidence_score r)))]\<rparr>,
         outlook_section (pl_outlook d),
         risk_aging_section (pl_snapshot d) (pl_risk_aging d),
         rows_section ''Confidence Breakdown'' (breakdown_rows breakdown),
         charts_section ''Confidence Trend''
           [percent_chart ''Confidence Score'' ''sprintConfidence'' (confidence_series (pl_snapshots d) a),
            percent_chart ''Readiness %'' ''readiness''
              (map (\<lambda>(s, h). (format_short_datetime (sn_snapshot_at s), map_option PyFloat (rp_readiness_pct h)))
                (zip (pl_snapshots d) (pl_readiness_history d)))],
         release_snapshot_changes (release_id (pl_release d)) (pl_snapshots d) (pl_comparison d),
         rows_section ''Biggest Driver'' (driver_rows driver),
         bullets_section ''Risk Analysis'' (or_bullet ''No active release risks found in the latest computed signal.''
           (rp_reasons r @ map ri_message (rp_critical_risks r) @ map ri_message (rp_warnings r))),
         bullets_section ''Recommended Actions'' (recommendation_bullets (pl_recommendations d) None),
         rows_section ''Release Gates'' (gate_rows (rp_release_gates r)),
         rows_section ''Evidence Metrics'' (release_metric_rows (pl_snapshot d) a),
         charts_section ''Historical Trends'' (release_historical_charts (pl_snapshots d) a)])"

definition release_summary_sections :: "prepared_release \<Rightarrow> report_section list" where
  "release_summary_sections d =
    (let r = pl_readiness d; (breakdown, driver) = shown_artifacts d
     in [(plain_section ''Executive Summary'')\<lparr>
           rs_lines := [or_text (rp_summary r) ''Release summary generated from deterministic LighthousePM metrics.''],
           rs_rows := release_summary_rows d\<rparr>,
         outlook_section (pl_outlook d),
         risk_aging_section (pl_snapshot d) (pl_risk_aging d),
         rows_section ''Confidence Score''
           [(''Score'', report_value release_confidence_score (map_option PyFloat (rp_confidence_score r))),
            (''Signal'', signal_line r), (''Band'', confidence_band (rp_confidence_score r))],
         rows_section ''Confidence Breakdown'' (breakdown_rows breakdown),
         rows_section ''Biggest Driver'' (driver_rows driver),
         bullets_section ''Top Risks'' (release_top_risk_bullets r 3),
         bullets_section ''Top Recommendations'' (recommendation_bullets (pl_recommendations d) (Some 3)),
         lines_section ''Decision Recommendation'' (decision_recommendation_lines r)])"

definition release_subtitle :: "release \<Rightarrow> string" where
  "release_subtitle rel = release_project_key rel @ '' | '' @ release_id rel @ '' | '' @ or_text (release_status rel) ''Unknown status''"

definition build_release_document :: "prepared_release \<Rightarrow> report_depth \<Rightarrow> py_datetime \<Rightarrow> report_document" where
  "build_release_document d depth generated_at =
     \<lparr>rd_title = (if depth = Summary then ''Release Summary Report: '' else ''Release Report: '') @ release_name (pl_release d),
      rd_subtitle = release_subtitle (pl_release d), rd_entity_id = release_id (pl_release d), rd_generated_at = generated_at,
      rd_version = pl_version d,
      rd_sections = (if depth = Summary then release_summary_sections d else release_sections d)\<rparr>"

subsection \<open>Sprint sections\<close>

definition sprint_summary_rows :: "prepared_sprint \<Rightarrow> report_rows" where
  "sprint_summary_rows d =
    (let sp = ps_sprint d
     in [(''Sprint'', sprint_name sp), (''Project'', sprint_project_key sp), (''State'', sprint_state sp),
         (''Start'', format_datetime (sprint_start_date sp)), (''End'', format_datetime (sprint_end_date sp)),
         (''Latest snapshot'', format_utc (map_option ss_snapshot_at (ps_snapshot d))),
         (''Ruleset'', ruleset_text (map_option ss_ruleset_version (ps_snapshot d)))])"

definition sprint_snapshot_changes ::
  "string \<Rightarrow> sprint_metric_snapshot list \<Rightarrow> bool \<Rightarrow> prepared_comparison option \<Rightarrow> report_section" where
  "sprint_snapshot_changes sid snapshots has_points comparison =
    (if \<not> has_points then lines_section ''Snapshot Changes'' [SPRINT_STORY_POINT_UNAVAILABLE_MESSAGE]
     else case last_two snapshots of
         None \<Rightarrow> lines_section ''Snapshot Changes'' [''No baseline snapshot is available yet.'']
       | Some (current, baseline) \<Rightarrow>
          (if ss_ruleset_version current \<noteq> ss_ruleset_version baseline
           then different_rulesets (ss_ruleset_version current) (ss_ruleset_version baseline)
           else case comparison of
               None \<Rightarrow> lines_section ''Snapshot Changes'' [''Snapshot comparison is unavailable for this result.'']
             | Some c \<Rightarrow> comparison_section (ss_snapshot_at current) (ss_snapshot_at baseline) c sid))"

definition sprint_component_series ::
  "(confidence_components \<Rightarrow> pyfloat) \<Rightarrow> sprint_metric_snapshot list \<Rightarrow> (string \<times> py_number option) list" where
  "sprint_component_series component snapshots =
     series ss_snapshot_at (\<lambda>s. map_option (\<lambda>c. PyFloat (component c)) (ss_delivery_confidence_components s)) snapshots"

definition delivery_series :: "sprint_metric_snapshot list \<Rightarrow> (string \<times> py_number option) list" where
  "delivery_series snapshots = series ss_snapshot_at (\<lambda>s. map_option PyFloat (ss_delivery_confidence_score s)) snapshots"

definition sprint_historical_charts :: "sprint_metric_snapshot list \<Rightarrow> bool \<Rightarrow> chart_spec list" where
  "sprint_historical_charts snapshots has_points =
    (let of_metric = (\<lambda>name. series ss_snapshot_at (\<lambda>s. sprint_attribute s name) snapshots);
         component = (\<lambda>c. sprint_component_series c snapshots)
     in (if has_points
         then [percent_chart ''Historical Delivery Confidence'' ''sprintConfidence'' (delivery_series snapshots),
               percent_chart ''Historical Progress Alignment'' ''progressAlignment'' (component cc_progress_alignment),
               percent_chart ''Historical Velocity Fit'' ''velocityFit'' (component cc_velocity_fit),
               percent_chart ''Historical Scope Stability'' ''scopeStability'' (component cc_scope_stability),
               percent_chart ''Historical Blocker Health'' ''blockerHealth'' (component cc_blocker_penalty)]
         else [])
        @ [percent_chart ''Historical Scope Completion'' ''scopeCompleted'' (of_metric ''completed_scope_pct''),
           open_percent_chart ''Historical Scope Creep'' ''scopeChurn''
             (series ss_snapshot_at (\<lambda>s. map_option PyFloat (ss_scope_creep_pct s)) snapshots),
           chart ''Historical High-Severity Bugs'' Bar_Chart ''bugs'' (of_metric ''open_high_severity_bugs''),
           chart ''Historical Bugs Created During Sprint'' Bar_Chart ''confidenceWatch'' (of_metric ''bugs_created_during_sprint''),
           chart ''Historical Median Cycle Time'' Line_Chart ''cycleTime'' (of_metric ''median_cycle_time_days''),
           open_percent_chart ''Historical Reopen Events per 100 Eligible Tickets'' ''reopenRate'' (of_metric ''reopen_rate_pct'')])"

definition delivery_score_text :: "prepared_sprint \<Rightarrow> string" where
  "delivery_score_text d = report_value sprint_delivery_confidence_score
     (map_option PyFloat (shown_delivery_confidence (ps_snapshot d) (ps_has_story_points d)))"

definition sprint_sections :: "prepared_sprint \<Rightarrow> report_section list" where
  "sprint_sections d =
    (let snapshot = ps_snapshot d; has_points = ps_has_story_points d; a = ps_availability d;
         (breakdown, driver) = stored_sprint_confidence_artifacts snapshot
     in [(plain_section ''Executive Summary'')\<lparr>
           rs_lines := [''Sprint report generated from deterministic LighthousePM sprint metrics.''],
           rs_rows := sprint_summary_rows d @ [(md_label sprint_delivery_confidence_score, delivery_score_text d)]\<rparr>,
         (plain_section ''Delivery Confidence'')\<lparr>
           rs_rows := sprint_confidence_status_rows snapshot @ [(''Score'', delivery_score_text d)]
             @ sprint_ticket_scope_rows snapshot a @ sprint_work_state_rows snapshot a
             @ [(md_label sprint_open_blockers,
                 report_value sprint_open_blockers (map_option (\<lambda>s. PyInt (ss_open_blockers s)) snapshot))],
           rs_charts := (if has_points
             then [percent_chart ''Delivery Confidence Trend'' ''sprintConfidence'' (delivery_series (ps_snapshots d))] else [])\<rparr>,
         rows_section ''Confidence Breakdown'' (breakdown_rows breakdown),
         sprint_snapshot_changes (sprint_id (ps_sprint d)) (ps_snapshots d) has_points (ps_comparison d),
         rows_section ''Biggest Driver'' (driver_rows driver),
         rows_section ''Velocity Health'' (sprint_velocity_rows snapshot has_points),
         rows_section ''Workload Distribution'' (sprint_workload_rows snapshot),
         rows_section ''Scope Movement'' (sprint_scope_rows snapshot has_points),
         rows_section ''Quality Signals'' (sprint_quality_rows snapshot a),
         bullets_section ''Risk Drivers'' (sprint_risk_bullets snapshot a),
         bullets_section ''Recommended Actions'' (recommendation_bullets (ps_recommendations d) None),
         charts_section ''Historical Trends'' (sprint_historical_charts (ps_snapshots d) has_points)])"

definition sprint_summary_sections :: "prepared_sprint \<Rightarrow> report_section list" where
  "sprint_summary_sections d =
    (let snapshot = ps_snapshot d; a = ps_availability d;
         (breakdown, driver) = stored_sprint_confidence_artifacts snapshot
     in [(plain_section ''Executive Summary'')\<lparr>
           rs_lines := [''Sprint summary generated from deterministic LighthousePM sprint metrics.''],
           rs_rows := sprint_summary_rows d\<rparr>,
         rows_section ''Delivery Confidence''
           (sprint_confidence_status_rows snapshot
            @ [(''Score'', delivery_score_text d),
               (''Band'', confidence_band (shown_delivery_confidence snapshot (ps_has_story_points d)))]
            @ sprint_ticket_scope_rows snapshot a @ sprint_work_state_rows snapshot a),
         rows_section ''Confidence Breakdown'' (breakdown_rows breakdown),
         rows_section ''Biggest Driver'' (driver_rows driver),
         rows_section ''Workload Distribution'' (sprint_workload_rows snapshot),
         bullets_section ''Top Risks'' (take 3 (sprint_risk_bullets snapshot a)),
         bullets_section ''Top Recommendations'' (recommendation_bullets (ps_recommendations d) (Some 3))])"

definition build_sprint_document :: "prepared_sprint \<Rightarrow> report_depth \<Rightarrow> py_datetime \<Rightarrow> report_document" where
  "build_sprint_document d depth generated_at =
    (let sp = ps_sprint d
     in \<lparr>rd_title = (if depth = Summary then ''Sprint Summary Report: '' else ''Sprint Report: '') @ sprint_name sp,
         rd_subtitle = sprint_project_key sp @ '' | '' @ sprint_id sp @ '' | '' @ sprint_state sp,
         rd_entity_id = sprint_id sp, rd_generated_at = generated_at, rd_version = ps_version d,
         rd_sections = (if depth = Summary then sprint_summary_sections d else sprint_sections d)\<rparr>)"

subsection \<open>Overview and documentation\<close>

definition portfolio_metric_rows :: "prepared_portfolio \<Rightarrow> report_rows" where
  "portfolio_metric_rows p =
     [(''Project'', pf_project_key p), (''Total releases'', tally_text (pf_release_count p)),
      (''Active releases'', tally_text (pf_active_release_count p)), (''Computed releases'', tally_text (pf_computed_release_count p)),
      (''Total sprints'', tally_text (pf_sprint_count p)), (''Active sprints'', tally_text (pf_active_sprint_count p))]"

definition overview_charts ::
  "metric_snapshot list \<Rightarrow> sprint_metric_snapshot list \<Rightarrow> bool \<Rightarrow> metric_availability option \<Rightarrow> chart_spec list" where
  "overview_charts snapshots sprint_rows has_points a =
     [percent_chart ''Overview Confidence Trend'' ''velocityFit'' (confidence_series snapshots a),
      chart ''Overview Readiness Trend'' Line_Chart ''gatesPassed'' (gates_series snapshots a)]
     @ (if sprint_rows \<noteq> [] \<and> has_points
        then [percent_chart ''Overview Sprint Delivery Trend'' ''sprintConfidence'' (delivery_series sprint_rows)] else [])"

definition overview_sections :: "prepared_overview \<Rightarrow> report_section list" where
  "overview_sections d =
    (let rd = po_release_data d; rel = pl_release rd; snapshot = pl_snapshot rd; r = pl_readiness rd;
         a = Some (pl_availability rd); spr = po_sprint d; sprint_snapshot = po_sprint_snapshot d;
         has_points = po_sprint_has_story_points d;
         delivery = shown_delivery_confidence sprint_snapshot has_points;
         delta = first_last_delta (map (\<lambda>s. release_confidence_for_report s a) (pl_snapshots rd))
     in [(plain_section ''Executive Summary'')\<lparr>
           rs_lines := [or_text (rp_summary r) ''Overview dashboard exported from deterministic LighthousePM data.''],
           rs_rows := [(''Release'', release_name rel), (''Project'', release_project_key rel),
             (''Release status'', or_text (release_status rel) ''Unknown''),
             (''Release date'', format_datetime (release_release_date rel)),
             (''Current sprint'', case spr of None \<Rightarrow> ''No active sprint'' | Some sp \<Rightarrow> sprint_name sp),
             (''Latest release snapshot'', release_snapshot_label snapshot),
             (''Release ruleset'', ruleset_text (map_option sn_ruleset_version snapshot)),
             (''Latest sprint snapshot'', sprint_snapshot_label spr sprint_snapshot),
             (''Sprint ruleset'', ruleset_text (map_option ss_ruleset_version sprint_snapshot))]\<rparr>,
         outlook_section (pl_outlook rd),
         risk_aging_section snapshot (pl_risk_aging rd),
         rows_section ''Project Portfolio Metrics'' (portfolio_metric_rows (po_portfolio d)),
         rows_section ''Release Metrics'' (release_metric_rows snapshot a),
         rows_section ''Sprint Metrics'' (overview_sprint_metric_rows spr sprint_snapshot has_points (po_sprint_availability d)),
         rows_section ''Confidence Metrics''
           [(md_label release_confidence_score, report_value release_confidence_score (map_option PyFloat (rp_confidence_score r))),
            (''Release confidence band'', confidence_band (rp_confidence_score r)),
            (''Confidence delta'', case delta of None \<Rightarrow> ''N/A'' | Some x \<Rightarrow> format_delta x),
            (md_label release_readiness_pct, report_value release_readiness_pct (map_option PyFloat (rp_readiness_pct r))),
            (''Sprint '' @ casefold (md_label sprint_delivery_confidence_score),
              report_value sprint_delivery_confidence_score (map_option PyFloat delivery)),
            (''Sprint confidence band'', confidence_band delivery)],
         bullets_section ''Risk Indicators'' (overview_risk_bullets r snapshot sprint_snapshot),
         rows_section ''Signals'' (overview_signal_rows r),
         charts_section ''Trends'' (overview_charts (pl_snapshots rd) (po_sprint_snapshots d) has_points a),
         rows_section ''Health Indicators'' (overview_health_rows r snapshot sprint_snapshot has_points),
         bullets_section ''Recommendations''
           (overview_recommendation_bullets (pl_recommendations rd) (po_sprint_recommendations d))])"

definition build_overview_document :: "prepared_overview \<Rightarrow> py_datetime \<Rightarrow> report_document" where
  "build_overview_document d generated_at =
    (let rel = pl_release (po_release_data d)
     in \<lparr>rd_title = ''Overview Dashboard Report: '' @ release_name rel, rd_subtitle = release_subtitle rel,
         rd_entity_id = release_id rel, rd_generated_at = generated_at, rd_version = po_version d,
         rd_sections = overview_sections d\<rparr>)"

definition build_documentation_document :: "string \<times> string \<Rightarrow> py_datetime \<Rightarrow> report_document" where
  "build_documentation_document d generated_at =
    (case documentation_sections_from_markdown (fst d) of (title, sections) \<Rightarrow>
       \<lparr>rd_title = title, rd_subtitle = ''Product documentation for Overview, Releases, and Sprints'',
        rd_entity_id = ''documentation'', rd_generated_at = generated_at, rd_version = snd d, rd_sections = sections\<rparr>)"

subsection \<open>The metric rows of a release report\<close>

text \<open>The availability of a report after a recomputation is the one stored with the new snapshot.\<close>

lemma report_after_recomputation:
  assumes "find_release (evidence db) rid = Some rel" and "recompute_release_metrics t fm rid db = Inr (s, db1)"
    and "get_latest_snapshot (derived db1) rid = Some s" and "sn_calculation_provenance s = Some p"
  obtains d where "prepare_release_report (evidence db1) (derived db1) fm version rid = Inr d"
    and "pl_snapshot d = Some s" and "pl_availability d = rv_availability p"
proof -
  note fr = recompute_release_frame [OF assms(2)]
  have rid: "release_id rel = rid" using assms(1) by (auto simp: find_release_def find_Some_iff)
  have "release_metric_availability (evidence db1) fm (release_id rel) (get_latest_snapshot (derived db1) (release_id rel))
      = Inr (rv_availability p)"
    by (simp add: release_metric_availability_def stored_metric_availability_def fr(1) ruleset_version_const_def assms(3,4) rid)
  then show ?thesis
    using prepared_release_exists [of "evidence db1" fm rel "derived db1" "rv_availability p" version] that
    by (fastforce simp: prepare_release_report_def fr(6) assms(1,3) rid)
qed

text \<open>C25: The metrics of a release report are those the API serves. Right after a recomputation of a stored release, with a
  clock that does not run backwards, the full report has an evidence section in which every reported metric has a row under
  its label: the formatted value where the metrics answer has a value, and a text starting with N/A where it has none.\<close>

theorem report_rows_show_served_values:
  assumes "find_release (evidence db) rid = Some rel"
    and "\<And>q. q \<in> set (snapshots_of (derived db) rid) \<Longrightarrow> sn_snapshot_at q \<le> t"
  shows "\<exists>s db1 m d sec. recompute_release_metrics t fm rid db = Inr (s, db1)
    \<and> get_metrics (evidence db1) (derived db1) fm rid now = Inr m
    \<and> prepare_release_report (evidence db1) (derived db1) fm version rid = Inr d
    \<and> sec \<in> set (rd_sections (build_release_document d Full generated_at)) \<and> rs_title sec = ''Evidence Metrics''
    \<and> (\<forall>metric \<in> set report_metrics. \<exists>txt. map_of (rs_rows sec) (md_label metric) = Some txt
         \<and> (case served_number (me_metrics m) (md_api_field metric) of
              Some n \<Rightarrow> txt = report_value metric (Some n)
            | None \<Rightarrow> starts_with ''N/A'' txt))"
proof -
  obtain s db1 p where s: "recompute_release_metrics t fm rid db = Inr (s, db1)" "sn_calculation_provenance s = Some p"
    using release_snapshot_facts [where db = db and rid = rid and now = t and fm = fm] unfolding assms(1) option.case by auto
  obtain live where latest: "get_latest_snapshot (derived db1) rid = Some s"
    and m: "get_metrics (evidence db1) (derived db1) fm rid now = Inr (computed_metrics now live s)"
    using recomputed_metrics_served [OF assms(1) s(1) assms(2)] .
  obtain d where d: "prepare_release_report (evidence db1) (derived db1) fm version rid = Inr d"
    "pl_snapshot d = Some s" "pl_availability d = rv_availability p"
    using report_after_recomputation [OF assms(1) s(1) latest s(2)] .
  define sec where "sec = rows_section ''Evidence Metrics'' (release_metric_rows (Some s) (Some (rv_availability p)))"
  have sec: "sec \<in> set (rd_sections (build_release_document d Full generated_at))" "rs_title sec = ''Evidence Metrics''"
    "rs_rows sec = release_metric_rows (Some s) (Some (rv_availability p))"
    by (simp_all add: sec_def build_release_document_def release_sections_def d rows_section_def plain_section_def Let_def split_beta)
  have "me_metrics (computed_metrics now live s) = served_values s"
    by (simp add: computed_metrics_def Let_def split_beta)
  then have rows: "\<exists>txt. map_of (rs_rows sec) (md_label metric) = Some txt
      \<and> (case served_number (me_metrics (computed_metrics now live s)) (md_api_field metric) of
           Some n \<Rightarrow> txt = report_value metric (Some n) | None \<Rightarrow> starts_with ''N/A'' txt)"
    if "metric \<in> set report_metrics" for metric
    using metric_text_of_served [OF served_entries [OF assms(1) s] that] metric_row_found [OF that] by (simp add: sec(3))
  show ?thesis using s(1) m d(1) sec(1,2) rows by blast
qed

lemma report_rows_show_served_values_witness:
  "\<exists>(db1 :: lighthouse_db) d sec. prepare_release_report (evidence db1) (derived db1) default_mapping ''1.0'' ''R'' = Inr d
    \<and> sec \<in> set (rd_sections (build_release_document d Full (naive day_us))) \<and> rs_title sec = ''Evidence Metrics''
    \<and> map_of (rs_rows sec) (md_label release_open_blockers) \<noteq> None"
proof -
  have clock: "sn_snapshot_at q \<le> day_us" if "q \<in> set (snapshots_of (derived release_db) ''R'')" for q
    using that by (simp add: release_db_facts)
  have metric: "release_open_blockers \<in> set report_metrics" by code_simp
  from report_rows_show_served_values [OF release_db_facts(2) clock, of default_mapping "naive day_us" "''1.0''" "naive day_us"] show ?thesis
    using metric by blast
qed

text \<open>The charts and the overview do not look at the availability: where the answer of the API withholds an unavailable
  metric, they show the confirmed minimum stored with the snapshot.\<close>

lemma charts_show_unavailable_blockers:
  assumes "map_of (stored_availability s) ''open_blockers'' = Some i" and "\<not> ai_available i"
  shows "mv_open_blockers (served_values s) = None"
    and "(format_short_datetime (sn_snapshot_at s), Some (PyInt (sn_open_blockers s)))
      \<in> set (ch_points (release_historical_charts [s] a ! 2))"
    and "(''Release blockers: '' @ int_str (sn_open_blockers s) @ ''.'') \<in> set (overview_risk_bullets r (Some s) None)"
proof -
  show "mv_open_blockers (served_values s) = None"
    using assms by (simp add: served_values_def stored_metric_value_def)
  show "(format_short_datetime (sn_snapshot_at s), Some (PyInt (sn_open_blockers s)))
      \<in> set (ch_points (release_historical_charts [s] a ! 2))"
    by (simp add: release_historical_charts_def chart_def series_def release_attribute_def Let_def)
  have "x \<in> set xs \<Longrightarrow> x \<in> set (or_bullet m (dedupe xs))" for x m and xs :: "string list"
    using set_dedupe [of xs] by (cases "dedupe xs = []") (auto simp: or_bullet_def)
  then show "(''Release blockers: '' @ int_str (sn_open_blockers s) @ ''.'') \<in> set (overview_risk_bullets r (Some s) None)"
    unfolding overview_risk_bullets_def by (simp only: option.case) (simp only: set_append list.set Un_iff insert_iff simp_thms)
qed

end
