(* ===== verification/SchemaRevision.thy ===== *)
theory SchemaRevision
  imports Results
begin

text \<open>
  Which schema revision a database has (db/schema_revision.py): the registry of the shapes that each legacy
  revision added, the inference of the revision of a database without a version table, and the
  identification of any database. What the inspector and Alembic say of the database, its tables with their
  columns and the recorded heads, is an argument; an exception is its message.
\<close>

subsection \<open>The registry\<close>

record revision_shape =
  sh_revision :: string
  sh_tables :: "string list"
  sh_columns :: "(string \<times> string list) list"

datatype revision_kind = Alembic | Recognized_Legacy

record schema_identity =
  si_revision :: string
  si_kind :: revision_kind

definition LEGACY_REVISION_SHAPES :: "revision_shape list" where
  "LEGACY_REVISION_SHAPES = [
    \<lparr>sh_revision = ''20260407_0001'',
      sh_tables = [''releases'', ''issues'', ''issue_history'', ''metric_snapshots'', ''release_signals''],
      sh_columns = []\<rparr>,
    \<lparr>sh_revision = ''20260424_0002'',
      sh_tables = [''sprints'', ''issue_sprints'', ''sprint_metric_snapshots''],
      sh_columns = []\<rparr>,
    \<lparr>sh_revision = ''20260425_0003'',
      sh_tables = [],
      sh_columns = [(''metric_snapshots'', [''open_blocker_issue_keys'', ''open_high_severity_bug_issue_keys'']),
        (''sprint_metric_snapshots'', [''open_blocker_issue_keys'', ''open_high_severity_bug_issue_keys''])]\<rparr>,
    \<lparr>sh_revision = ''20260427_0004'',
      sh_tables = [],
      sh_columns = [(''issues'', [''story_points'']),
        (''sprint_metric_snapshots'', [''delivery_confidence_score'', ''delivery_confidence_components'', ''delivery_confidence_inputs''])]\<rparr>,
    \<lparr>sh_revision = ''20260428_0005'',
      sh_tables = [],
      sh_columns = [(''sprint_metric_snapshots'', [''bugs_created_during_sprint'', ''bugs_created_during_sprint_issue_keys''])]\<rparr>,
    \<lparr>sh_revision = ''20260429_0006'',
      sh_tables = [],
      sh_columns = [(''metric_snapshots'', [''completed_tickets''])]\<rparr>,
    \<lparr>sh_revision = ''20260430_0007'',
      sh_tables = [],
      sh_columns = [(''metric_snapshots'', [''scope_added_7d_count'', ''scope_removed_7d_count''])]\<rparr>,
    \<lparr>sh_revision = ''20260716_0008'',
      sh_tables = [],
      sh_columns = [(''sprint_metric_snapshots'', [''story_point_total_count'', ''story_point_pointed_count'', ''story_point_unpointed_count'', ''story_point_coverage_pct'', ''story_point_unpointed_issue_keys'', ''delivery_confidence_status'', ''delivery_confidence_explanations''])]\<rparr>,
    \<lparr>sh_revision = ''20260716_0009'',
      sh_tables = [],
      sh_columns = [(''issues'', [''jira_created_at'', ''jira_updated_at'', ''jira_blocker_flag'', ''jira_changelog_complete'']),
        (''sprint_metric_snapshots'', [''bugs_created_during_sprint_status'', ''bugs_created_during_sprint_missing_created_at_issue_keys''])]\<rparr>,
    \<lparr>sh_revision = ''20260716_0010'',
      sh_tables = [],
      sh_columns = [(''metric_snapshots'', [''ruleset_version'', ''confidence_score'', ''confidence_status'', ''calculation_provenance'']),
        (''sprint_metric_snapshots'', [''ruleset_version'', ''calculation_provenance'']),
        (''release_signals'', [''metric_snapshot_id'', ''ruleset_version'', ''confidence_score'', ''reason_details'', ''release_gates'', ''readiness_evidence'', ''risk_aging_evidence'', ''calculated_at''])]\<rparr>]"

definition POST_LEGACY_REVISION_MARKERS :: "revision_shape list" where
  "POST_LEGACY_REVISION_MARKERS = [
    \<lparr>sh_revision = ''20260716_0011'',
      sh_tables = [''operational_status''],
      sh_columns = []\<rparr>,
    \<lparr>sh_revision = ''20260720_0017'',
      sh_tables = [],
      sh_columns = [(''sprint_metric_snapshots'', [''workload_concentration_pct'', ''workload_distribution_status'', ''workload_distribution_explanations'', ''workload_distribution_evidence''])]\<rparr>,
    \<lparr>sh_revision = ''20260724_0018'',
      sh_tables = [''jira_project_sync_state''],
      sh_columns = []\<rparr>,
    \<lparr>sh_revision = ''20260724_0019'',
      sh_tables = [],
      sh_columns = [(''jira_project_sync_state'', [''current_sync_status'', ''last_failed_sync_at'', ''last_failure_summary'', ''latest_sync_result''])]\<rparr>,
    \<lparr>sh_revision = ''20260726_0020'',
      sh_tables = [],
      sh_columns = [(''sprint_metric_snapshots'', [''scope_creep_pct'', ''scope_creep_status'', ''scope_creep_explanations'', ''scope_creep_evidence''])]\<rparr>]"

subsection \<open>Shapes in a database\<close>

text \<open>A database schema: its tables with their columns. A table that is missing has no columns.\<close>

type_synonym db_schema = "(string \<times> string list) list"

definition columns_of :: "db_schema \<Rightarrow> string \<Rightarrow> string list" where
  "columns_of db t = (case map_of db t of None \<Rightarrow> [] | Some cs \<Rightarrow> cs)"

definition shape_is_complete :: "db_schema \<Rightarrow> revision_shape \<Rightarrow> bool" where
  "shape_is_complete db sh \<longleftrightarrow>
     list_all (\<lambda>t. t \<in> fst ` set db) (sh_tables sh)
     \<and> list_all (\<lambda>(t, required). list_all (\<lambda>c. c \<in> set (columns_of db t)) required) (sh_columns sh)"

definition shape_is_partially_present :: "db_schema \<Rightarrow> revision_shape \<Rightarrow> bool" where
  "shape_is_partially_present db sh \<longleftrightarrow>
     list_ex (\<lambda>t. t \<in> fst ` set db) (sh_tables sh)
     \<or> list_ex (\<lambda>(t, required). list_ex (\<lambda>c. c \<in> set (columns_of db t)) required) (sh_columns sh)"

text \<open>The loop over the registry: the revision inferred so far, and the shapes that are left.\<close>

fun infer_loop :: "db_schema \<Rightarrow> string option \<Rightarrow> revision_shape list \<Rightarrow> string + string option" where
  "infer_loop db inferred [] = Inr inferred"
| "infer_loop db inferred (sh # shs) =
    (if shape_is_complete db sh then infer_loop db (Some (sh_revision sh)) shs
     else if list_ex (shape_is_partially_present db) (sh # shs)
     then Inl (''Existing unversioned database schema is incomplete or inconsistent; ''
            @ ''automatic revision detection was stopped'')
     else Inr inferred)"

definition infer_legacy_revision :: "db_schema \<Rightarrow> string + string" where
  "infer_legacy_revision db =
    (if list_ex (shape_is_partially_present db) POST_LEGACY_REVISION_MARKERS
     then Inl (''Existing unversioned database contains application schema newer than the supported ''
            @ ''legacy registry; automatic migration was stopped'')
     else and_then (infer_loop db None LEGACY_REVISION_SHAPES) (\<lambda>inferred.
       case inferred of
         None \<Rightarrow> Inl (''Existing unversioned database schema is not a recognized LighthousePM revision; ''
                    @ ''automatic migration was stopped'')
       | Some r \<Rightarrow> Inr r))"

text \<open>The recorded revision is quoted as Python quotes a text without quotes and backslashes.\<close>

definition identify_schema_revision :: "db_schema \<Rightarrow> string list \<Rightarrow> string list \<Rightarrow> string + schema_identity" where
  "identify_schema_revision db heads known =
    (if length heads > 1 then Inl ''Database records multiple Alembic revisions''
     else case heads of
         [] \<Rightarrow>
          (if ''alembic_version'' \<in> fst ` set db then Inl ''Alembic version table exists without a recorded revision''
           else if \<not> list_ex (\<lambda>t. t \<noteq> ''alembic_version'') (map fst db)
           then Inl ''Database does not contain a LighthousePM application schema''
           else map_sum id (\<lambda>r. \<lparr>si_revision = r, si_kind = Recognized_Legacy\<rparr>) (infer_legacy_revision db))
       | r # _ \<Rightarrow>
          (if r \<notin> set known then Inl (''Database records unknown Alembic revision '' @ quoted r)
           else Inr \<lparr>si_revision = r, si_kind = Alembic\<rparr>))"

subsection \<open>What is inferred\<close>

lemma infer_loop_split:
  "list_all (shape_is_complete db) before \<Longrightarrow> rest = [] \<or> \<not> shape_is_complete db (hd rest) \<Longrightarrow>
     \<not> list_ex (shape_is_partially_present db) rest \<Longrightarrow>
     infer_loop db inferred (before @ rest) = Inr (if before = [] then inferred else Some (sh_revision (last before)))"
  by (induction before arbitrary: inferred) (cases rest, simp_all)

lemma infer_loop_Inr:
  "infer_loop db inferred shs = Inr r \<Longrightarrow>
     \<exists>before rest. shs = before @ rest \<and> list_all (shape_is_complete db) before
        \<and> \<not> list_ex (shape_is_partially_present db) rest
        \<and> r = (if before = [] then inferred else Some (sh_revision (last before)))"
proof (induction shs arbitrary: inferred)
  case (Cons sh shs)
  show ?case
  proof (cases "shape_is_complete db sh")
    case True
    then have "infer_loop db (Some (sh_revision sh)) shs = Inr r" using Cons.prems by simp
    from Cons.IH [OF this] obtain before rest where "shs = before @ rest" "list_all (shape_is_complete db) before"
      "\<not> list_ex (shape_is_partially_present db) rest" "r = (if before = [] then Some (sh_revision sh) else Some (sh_revision (last before)))"
      by blast
    then show ?thesis using True by (intro exI [of _ "sh # before"] exI [of _ rest]) simp
  next
    case False
    then have "\<not> list_ex (shape_is_partially_present db) (sh # shs)" "r = inferred"
      using Cons.prems by (auto split: if_splits)
    then show ?thesis by (intro exI [of _ "[]"] exI [of _ "sh # shs"]) simp
  qed
qed simp

text \<open>A shape that asks for something is not complete where nothing of it is present.\<close>

definition asks_for_something :: "revision_shape \<Rightarrow> bool" where
  "asks_for_something sh \<longleftrightarrow> sh_tables sh \<noteq> [] \<or> list_ex (\<lambda>(t, required). required \<noteq> []) (sh_columns sh)"

lemma complete_is_present: "asks_for_something sh \<Longrightarrow> shape_is_complete db sh \<Longrightarrow> shape_is_partially_present db sh"
  unfolding asks_for_something_def shape_is_complete_def shape_is_partially_present_def list_all_iff list_ex_iff
  by (elim disjE bexE conjE) (fastforce simp: neq_Nil_conv)+

lemma registry_asks: "list_all asks_for_something LEGACY_REVISION_SHAPES" "LEGACY_REVISION_SHAPES \<noteq> []"
    "distinct (map sh_revision LEGACY_REVISION_SHAPES)"
  by code_simp+

lemma registry_length: "length LEGACY_REVISION_SHAPES = 10"
  by code_simp

text \<open>C39: The revision of an unversioned database is inferred to be the \<open>n\<close>-th legacy revision exactly when everything
  that the first \<open>n\<close> revisions added is there, and nothing of what any later revision, up to the newest marker,
  added. So a database is never taken for an older or newer revision than the one whose schema it has.\<close>

theorem inferred_revision_is_exact:
  "infer_legacy_revision db = Inr r \<longleftrightarrow>
     (\<exists>n. 0 < n \<and> n \<le> length LEGACY_REVISION_SHAPES \<and> r = sh_revision (LEGACY_REVISION_SHAPES ! (n - 1))
        \<and> list_all (shape_is_complete db) (take n LEGACY_REVISION_SHAPES)
        \<and> \<not> list_ex (shape_is_partially_present db) (drop n LEGACY_REVISION_SHAPES @ POST_LEGACY_REVISION_MARKERS))"
  (is "?L \<longleftrightarrow> ?R")
proof
  assume ?L
  then have m: "\<not> list_ex (shape_is_partially_present db) POST_LEGACY_REVISION_MARKERS"
    and i: "infer_loop db None LEGACY_REVISION_SHAPES = Inr (Some r)"
    by (auto simp: infer_legacy_revision_def and_then_Inr_iff split: if_splits option.splits)
  obtain before rest where b: "LEGACY_REVISION_SHAPES = before @ rest" "list_all (shape_is_complete db) before"
    "\<not> list_ex (shape_is_partially_present db) rest" "Some r = (if before = [] then None else Some (sh_revision (last before)))"
    using infer_loop_Inr [OF i] by blast
  then have ne: "before \<noteq> []" "r = sh_revision (last before)" by (auto split: if_splits)
  then have "r = sh_revision ((before @ rest) ! (length before - 1))" by (simp add: last_conv_nth nth_append)
  then show ?R using b(2,3) m ne unfolding b(1) by (intro exI [of _ "length before"]) simp
next
  assume ?R
  then obtain n where n: "0 < n" "n \<le> length LEGACY_REVISION_SHAPES" "r = sh_revision (LEGACY_REVISION_SHAPES ! (n - 1))"
    "list_all (shape_is_complete db) (take n LEGACY_REVISION_SHAPES)"
    "\<not> list_ex (shape_is_partially_present db) (drop n LEGACY_REVISION_SHAPES)"
    "\<not> list_ex (shape_is_partially_present db) POST_LEGACY_REVISION_MARKERS" by auto
  let ?rest = "drop n LEGACY_REVISION_SHAPES"
  have "?rest = [] \<or> \<not> shape_is_complete db (hd ?rest)"
  proof (cases ?rest)
    case (Cons sh shs)
    then have "sh \<in> set LEGACY_REVISION_SHAPES" using in_set_dropD [of sh n] by simp
    then have "asks_for_something sh" using registry_asks(1) by (simp add: list_all_iff)
    then show ?thesis using complete_is_present n(5) Cons by auto
  qed simp
  from infer_loop_split [OF n(4) this n(5), of None]
  moreover have "last (take n LEGACY_REVISION_SHAPES) = LEGACY_REVISION_SHAPES ! (n - 1)"
    using n(1,2) registry_asks(2) by (simp add: last_conv_nth)
  ultimately have "infer_loop db None LEGACY_REVISION_SHAPES = Inr (Some r)"
    using n(1,3) registry_asks(2) by simp
  then show ?L using n(6) by (simp add: infer_legacy_revision_def)
qed

text \<open>A database with the tables of the first two revisions is of the second; one with a column of a later revision
  is refused.\<close>

lemma inferred_revision_examples:
  "infer_legacy_revision (map (\<lambda>t. (t, [])) [''releases'', ''issues'', ''issue_history'', ''metric_snapshots'',
      ''release_signals'', ''sprints'', ''issue_sprints'', ''sprint_metric_snapshots'']) = Inr ''20260424_0002''
   \<and> infer_legacy_revision [(''releases'', []), (''issues'', [''story_points'']), (''issue_history'', []),
        (''metric_snapshots'', []), (''release_signals'', [])]
     = Inl (''Existing unversioned database schema is incomplete or inconsistent; '' @ ''automatic revision detection was stopped'')"
  by code_simp

end
