(* ===== verification/Migration.thy ===== *)
theory Migration
  imports SchemaRevision
begin

text \<open>
  The migration at startup (db/migrations.py, db/migration_graph.py) and the SQLite backups it makes and checks
  (db/backup_validation.py). The state is the file system and the database of the engine. What SQLite, Alembic and
  other processes do is an argument: the outcome of copying a database, of stamping and upgrading it, and the
  changes to the file system between the check of a target path and the publication of the file. The theorems
  say that the database of a SQLite file is not touched before a valid backup of its revision is in place, that no
  existing backup is overwritten, and when a migration goes through.
\<close>

subsection \<open>Files and databases\<close>

text \<open>A database: its schema, the recorded Alembic heads, and the rows.\<close>

record 'd image =
  im_schema :: db_schema
  im_heads :: "string list"
  im_data :: 'd

text \<open>A file as SQLite sees it: it cannot be opened, the integrity check cannot be run, or it holds a database
  for which the check has these results. The texts are those of the exceptions.\<close>

datatype 'd content = Unopenable string | No_Database string | Database "string list" "'d image"

text \<open>What a path holds: a symbolic link and whether it leads to something, a directory or device, or a file.\<close>

datatype 'd node = Symbolic_Link bool | Other_Node | File "'d content"

type_synonym 'd files = "string \<Rightarrow> 'd node option"

definition path_exists :: "'d files \<Rightarrow> string \<Rightarrow> bool" where
  "path_exists fs p = (case fs p of None \<Rightarrow> False | Some (Symbolic_Link leads) \<Rightarrow> leads | Some _ \<Rightarrow> True)"

text \<open>\<open>expanduser().absolute()\<close> and \<open>expanduser().resolve()\<close>; the name of a path, and the path with another name.\<close>

record path_functions =
  absolute_path :: "string \<Rightarrow> string"
  resolved_path :: "string \<Rightarrow> string"

definition path_name :: "string \<Rightarrow> string" where
  "path_name p = rev (takeWhile (\<lambda>c. c \<noteq> CHR ''/'') (rev p))"

definition with_name :: "string \<Rightarrow> string \<Rightarrow> string" where
  "with_name p n = rev (dropWhile (\<lambda>c. c \<noteq> CHR ''/'') (rev p)) @ n"

subsection \<open>Validation of a backup\<close>

text \<open>\<open>BackupValidationError\<close> with its path, rule and detail; \<open>RuntimeError\<close>; any other exception.\<close>

datatype migration_error = Backup_Invalid string string string | Runtime_Error string | Other_Exception string

record backup_validation =
  bv_path :: string
  bv_source_revision :: string
  bv_revision_kind :: revision_kind
  bv_target_revision :: "string option"

fun kind_text :: "revision_kind \<Rightarrow> string" where
  "kind_text Alembic = ''alembic''"
| "kind_text Recognized_Legacy = ''recognized_legacy''"

definition validate_regular_file :: "'d files \<Rightarrow> string \<Rightarrow> migration_error + 'd content" where
  "validate_regular_file fs p =
    (case fs p of
       Some (Symbolic_Link _) \<Rightarrow> Inl (Backup_Invalid p ''file_type'' ''backup must not be a symbolic link'')
     | Some (File c) \<Rightarrow> Inr c
     | _ \<Rightarrow> Inl (Backup_Invalid p ''file_type'' ''backup must be a readable regular file''))"

definition validate_integrity :: "string \<Rightarrow> 'd content \<Rightarrow> migration_error + 'd image" where
  "validate_integrity p c =
    (case c of
       Unopenable m \<Rightarrow> Inl (Backup_Invalid p ''sqlite_open'' m)
     | No_Database m \<Rightarrow> Inl (Backup_Invalid p ''sqlite_integrity'' m)
     | Database results im \<Rightarrow>
        (if results \<noteq> [''ok'']
         then Inl (Backup_Invalid p ''sqlite_integrity''
                (let detail = join ''; '' results in if detail = [] then ''integrity check returned no result'' else detail))
         else Inr im))"

definition identify_image :: "string list \<Rightarrow> 'd image \<Rightarrow> string + schema_identity" where
  "identify_image known im = identify_schema_revision (im_schema im) (im_heads im) known"

definition identify_revision :: "string \<Rightarrow> string list \<Rightarrow> 'd image \<Rightarrow> migration_error + schema_identity" where
  "identify_revision p known im = map_sum (Backup_Invalid p ''schema_revision'') id (identify_image known im)"

definition validate_source :: "string \<Rightarrow> schema_identity option \<Rightarrow> schema_identity \<Rightarrow> migration_error + unit" where
  "validate_source p expected i =
    (case expected of
       None \<Rightarrow> Inr ()
     | Some s \<Rightarrow> if i = s then Inr () else Inl (Backup_Invalid p ''source_revision''
          (''backup source '' @ kind_text (si_kind i) @ '':'' @ si_revision i @ '' does not match active source ''
           @ kind_text (si_kind s) @ '':'' @ si_revision s)))"

text \<open>\<open>tuple.index\<close> of a member.\<close>

definition position_in :: "string list \<Rightarrow> string \<Rightarrow> nat" where
  "position_in chain r = length (takeWhile (\<lambda>x. x \<noteq> r) chain)"

definition older_revision :: "string list \<Rightarrow> string \<Rightarrow> string \<Rightarrow> bool" where
  "older_revision chain source target \<longleftrightarrow>
     target \<in> set chain \<and> source \<in> set chain \<and> position_in chain source < position_in chain target"

definition validate_revision_relationship ::
  "string \<Rightarrow> string \<Rightarrow> string \<Rightarrow> string list \<Rightarrow> migration_error + unit" where
  "validate_revision_relationship p source target chain =
    (if target \<notin> set chain then Inl (Backup_Invalid p ''target_revision''
        (''target revision '' @ quoted target @ '' is not in the installed migration chain''))
     else if source \<notin> set chain then Inl (Backup_Invalid p ''source_revision''
        (''source revision '' @ quoted source @ '' is not in the installed migration chain''))
     else if position_in chain source \<ge> position_in chain target then Inl (Backup_Invalid p ''revision_relationship''
        (''source revision '' @ quoted source @ '' is not an ancestor of target '' @ quoted target))
     else Inr ())"

definition backup_suffix :: "string \<Rightarrow> string" where
  "backup_suffix target = ''.pre-'' @ target @ ''.bak''"

definition validate_filename_target :: "string \<Rightarrow> string option \<Rightarrow> migration_error + unit" where
  "validate_filename_target p target =
    (case target of
       None \<Rightarrow> Inl (Backup_Invalid p ''filename_target'' ''expected target revision is unavailable'')
     | Some t \<Rightarrow> if ends_with (backup_suffix t) (path_name p) then Inr ()
         else Inl (Backup_Invalid p ''filename_target'' (''filename must end with '' @ quoted (backup_suffix t))))"

definition validate_sqlite_backup ::
  "path_functions \<Rightarrow> 'd files \<Rightarrow> string \<Rightarrow> string list \<Rightarrow> schema_identity option \<Rightarrow> string option \<Rightarrow> bool
    \<Rightarrow> migration_error + backup_validation" where
  "validate_sqlite_backup pf fs backup_path chain expected target require_target =
    and_then (validate_regular_file fs (absolute_path pf backup_path)) (\<lambda>c.
      let p = resolved_path pf (absolute_path pf backup_path) in
      and_then (validate_integrity p c) (\<lambda>im.
      and_then (identify_revision p chain im) (\<lambda>i.
      and_then (validate_source p expected i) (\<lambda>_.
      and_then (case target of None \<Rightarrow> Inr () | Some t \<Rightarrow> validate_revision_relationship p (si_revision i) t chain) (\<lambda>_.
      and_then (if require_target then validate_filename_target p target else Inr ()) (\<lambda>_.
        Inr \<lparr>bv_path = p, bv_source_revision = si_revision i, bv_revision_kind = si_kind i, bv_target_revision = target\<rparr>))))))"

text \<open>The target in the name of a migration backup: the pattern \<open>\.pre-(?P<target>[^.]+)\.bak$\<close>, whose
  dollar also matches before a final line feed.\<close>

definition match_target :: "string \<Rightarrow> string option" where
  "match_target s =
    (if starts_with ''.pre-'' s
     then let t = takeWhile (\<lambda>c. c \<noteq> CHR ''.'') (drop 5 s); e = dropWhile (\<lambda>c. c \<noteq> CHR ''.'') (drop 5 s)
          in if t \<noteq> [] \<and> (e = ''.bak'' \<or> e = ''.bak'' @ [CHR 0x0A]) then Some t else None
     else None)"

fun search_target :: "string \<Rightarrow> string option" where
  "search_target [] = None"
| "search_target (c # cs) = (case match_target (c # cs) of Some t \<Rightarrow> Some t | None \<Rightarrow> search_target cs)"

definition migration_target_from_filename :: "path_functions \<Rightarrow> string \<Rightarrow> migration_error + string" where
  "migration_target_from_filename pf backup_path =
    (let p = resolved_path pf backup_path
     in case search_target (path_name p) of
          None \<Rightarrow> Inl (Backup_Invalid p ''filename_target'' ''filename must end with .pre-<target-revision>.bak'')
        | Some t \<Rightarrow> Inr t)"

subsection \<open>Standalone backups\<close>

text \<open>The environment of one backup: the outcome of making the directory and the temporary file in it, what a
  copy leaves in that file and whether it raised, the errors of the flush, what other processes do to the files before
  the result is published, whether a rename replaces an existing file (POSIX) or raises (Windows), and
  whether the temporary file can be removed.\<close>

record 'd surroundings =
  so_temporary :: "string + string"
  so_copy :: "'d content \<Rightarrow> string option \<times> 'd content"
  so_flush_error :: "string option"
  so_others :: "'d files \<Rightarrow> 'd files"
  so_rename_replaces :: bool
  so_unlink_works :: bool

definition remove_temporary :: "'d surroundings \<Rightarrow> string \<Rightarrow> 'd files \<Rightarrow> 'd files" where
  "remove_temporary so tmp fs = (if so_unlink_works so then fs(tmp := None) else fs)"

definition with_failure :: "string option \<Rightarrow> migration_error + unit" where
  "with_failure e = (case e of None \<Rightarrow> Inr () | Some m \<Rightarrow> Inl (Other_Exception m))"

definition rename_file :: "'d surroundings \<Rightarrow> string \<Rightarrow> string \<Rightarrow> 'd files \<Rightarrow> (migration_error + unit) \<times> 'd files" where
  "rename_file so tmp target fs =
    (case fs tmp of
       None \<Rightarrow> (Inl (Other_Exception ''No such file or directory''), fs)
     | Some n \<Rightarrow>
        (if fs target = None \<or> (so_rename_replaces so \<and> fs target \<noteq> Some Other_Node) then (Inr (), fs(target \<mapsto> n, tmp := None))
         else if so_rename_replaces so then (Inl (Other_Exception ''Is a directory''), fs)
         else (Inl (Backup_Invalid target ''target_exists'' ''standalone backup target already exists''), fs)))"

definition create_standalone_sqlite_backup ::
  "path_functions \<Rightarrow> 'd surroundings \<Rightarrow> string \<Rightarrow> string \<Rightarrow> string list \<Rightarrow> 'd files
    \<Rightarrow> (migration_error + backup_validation) \<times> 'd files" where
  "create_standalone_sqlite_backup pf so source_path target_path chain fs =
    (case validate_sqlite_backup pf fs (absolute_path pf source_path) chain None None False of
       Inl e \<Rightarrow> (Inl e, fs)
     | Inr source \<Rightarrow>
        let identity = \<lparr>si_revision = bv_source_revision source, si_kind = bv_revision_kind source\<rparr>;
            candidate = absolute_path pf target_path;
            target = resolved_path pf candidate
        in if (case fs candidate of Some (Symbolic_Link _) \<Rightarrow> True | _ \<Rightarrow> False)
           then (Inl (Backup_Invalid candidate ''file_type'' ''standalone backup target must not be a symbolic link''), fs)
           else if path_exists fs target
           then (Inl (Backup_Invalid target ''target_exists'' ''standalone backup target already exists''), fs)
           else case so_temporary so of
             Inl m \<Rightarrow> (Inl (Other_Exception m), fs)
           | Inr tmp \<Rightarrow>
              (let (failure, c) = (case fs (absolute_path pf (absolute_path pf source_path)) of
                     Some (File s) \<Rightarrow> so_copy so s
                   | _ \<Rightarrow> (Some ''unable to open database file'', No_Database []));
                   fs1 = fs(tmp \<mapsto> File c)
               in case and_then (with_failure failure) (\<lambda>_.
                       and_then (with_failure (so_flush_error so)) (\<lambda>_.
                         validate_sqlite_backup pf fs1 tmp chain (Some identity) None False)) of
                    Inl e \<Rightarrow> (Inl e, remove_temporary so tmp fs1)
                  | Inr v \<Rightarrow>
                     let (r, fs2) = rename_file so tmp target (so_others so fs1)
                     in (map_sum id (\<lambda>_. v\<lparr>bv_path := target, bv_target_revision := None\<rparr>) r,
                         remove_temporary so tmp fs2)))"

subsection \<open>Startup\<close>

text \<open>Alembic and the engine: the installed migrations (their heads, and the revisions from the oldest on), what
  stamping and upgrading leave of a database and whether they raised, whether the engine is of SQLite, the
  database name of its URL, and the results of the integrity check on the live database.\<close>

record 'd migrator =
  mi_script_location :: string
  mi_scripts_available :: bool
  mi_heads :: "string list"
  mi_chain :: "string list"
  mi_stamp :: "string \<Rightarrow> 'd image \<Rightarrow> string option \<times> 'd image"
  mi_upgrade :: "'d image \<Rightarrow> string option \<times> 'd image"
  mi_sqlite :: bool
  mi_database :: "string option"
  mi_integrity :: "string list"

record 'd migration_world =
  mw_files :: "'d files"
  mw_database :: "'d image"

definition build_alembic_config :: "'d migrator \<Rightarrow> migration_error + unit" where
  "build_alembic_config mi =
    (if mi_scripts_available mi then Inr ()
     else Inl (Runtime_Error (''Alembic migration scripts are unavailable at '' @ mi_script_location mi)))"

definition single_head :: "'d migrator \<Rightarrow> migration_error + string" where
  "single_head mi =
    (if length (mi_heads mi) \<noteq> 1
     then Inl (Runtime_Error (''Expected one Alembic head, found '' @ nat_str (length (mi_heads mi))))
     else Inr (hd (mi_heads mi)))"

definition installed_revision_chain :: "'d migrator \<Rightarrow> migration_error + string list" where
  "installed_revision_chain mi =
    and_then (build_alembic_config mi) (\<lambda>_. and_then (single_head mi) (\<lambda>_. Inr (mi_chain mi)))"

definition has_database_file :: "string option \<Rightarrow> bool" where
  "has_database_file name \<longleftrightarrow>
     (case name of None \<Rightarrow> False | Some n \<Rightarrow> n \<noteq> [] \<and> n \<noteq> '':memory:'' \<and> \<not> starts_with ''file:'' n)"

definition migration_backup_path :: "path_functions \<Rightarrow> 'd migrator \<Rightarrow> string \<Rightarrow> string" where
  "migration_backup_path pf mi target =
    (let p = resolved_path pf (or_empty (mi_database mi)) in with_name p (path_name p @ backup_suffix target))"

text \<open>What the copy of the live database leaves in the temporary file, with the error it raised.\<close>

definition live_copy :: "'d surroundings \<Rightarrow> 'd migrator \<Rightarrow> 'd image \<Rightarrow> string option \<times> 'd content" where
  "live_copy so mi db = so_copy so (Database (mi_integrity mi) db)"

text \<open>\<open>os.link\<close> never replaces a path; one that exists by now is checked instead.\<close>

definition publish_backup ::
  "path_functions \<Rightarrow> 'd migrator \<Rightarrow> string \<Rightarrow> schema_identity \<Rightarrow> string \<Rightarrow> string \<Rightarrow> 'd files
    \<Rightarrow> (migration_error + unit) \<times> 'd files" where
  "publish_backup pf mi target source b tmp fs =
    (if fs b \<noteq> None
     then (map_sum id (\<lambda>_. ()) (validate_sqlite_backup pf fs b (mi_chain mi) (Some source) (Some target) True), fs)
     else if fs tmp = None then (Inl (Other_Exception ''No such file or directory''), fs)
     else (Inr (), fs(b := fs tmp)))"

definition create_sqlite_backup ::
  "path_functions \<Rightarrow> 'd surroundings \<Rightarrow> 'd migrator \<Rightarrow> string \<Rightarrow> schema_identity \<Rightarrow> 'd migration_world
    \<Rightarrow> (migration_error + string option) \<times> 'd files" where
  "create_sqlite_backup pf so mi target source w =
    (let fs = mw_files w; b = migration_backup_path pf mi target in
     if \<not> has_database_file (mi_database mi) then (Inr None, fs)
     else if path_exists fs b
     then (map_sum id (\<lambda>_. Some b) (validate_sqlite_backup pf fs b (mi_chain mi) (Some source) (Some target) True), fs)
     else case so_temporary so of
       Inl m \<Rightarrow> (Inl (Other_Exception m), fs)
     | Inr tmp \<Rightarrow>
        (let (failure, c) = live_copy so mi (mw_database w); fs1 = fs(tmp \<mapsto> File c)
         in case and_then (with_failure failure) (\<lambda>_.
                 and_then (with_failure (so_flush_error so)) (\<lambda>_.
                   validate_sqlite_backup pf fs1 tmp (mi_chain mi) (Some source) (Some target) False)) of
              Inl e \<Rightarrow> (Inl e, remove_temporary so tmp fs1)
            | Inr _ \<Rightarrow>
               let (r, fs2) = publish_backup pf mi target source b tmp (so_others so fs1)
               in (map_sum id (\<lambda>_. Some b) r, remove_temporary so tmp fs2)))"

definition has_application_schema :: "'d image \<Rightarrow> bool" where
  "has_application_schema db \<longleftrightarrow> list_ex (\<lambda>t. t \<noteq> ''alembic_version'') (map fst (im_schema db))"

definition source_identity :: "string option \<Rightarrow> 'd image \<Rightarrow> migration_error + schema_identity option" where
  "source_identity current db =
    (case current of
       Some r \<Rightarrow> Inr (Some \<lparr>si_revision = r, si_kind = Alembic\<rparr>)
     | None \<Rightarrow>
        (if has_application_schema db
         then map_sum Runtime_Error (\<lambda>r. Some \<lparr>si_revision = r, si_kind = Recognized_Legacy\<rparr>) (infer_legacy_revision (im_schema db))
         else Inr None))"

text \<open>\<open>command.stamp\<close> for a recognized legacy database, then \<open>command.upgrade\<close>.\<close>

definition run_migrations ::
  "'d migrator \<Rightarrow> string option \<Rightarrow> schema_identity option \<Rightarrow> 'd image \<Rightarrow> string option \<times> 'd image" where
  "run_migrations mi current source db =
    (case (if current = None then source else None) of
       None \<Rightarrow> mi_upgrade mi db
     | Some s \<Rightarrow> (case mi_stamp mi (si_revision s) db of (Some m, db1) \<Rightarrow> (Some m, db1) | (None, db1) \<Rightarrow> mi_upgrade mi db1))"

definition migrate_database ::
  "path_functions \<Rightarrow> 'd surroundings \<Rightarrow> 'd migrator \<Rightarrow> 'd migration_world \<Rightarrow> (migration_error + unit) \<times> 'd migration_world" where
  "migrate_database pf so mi w =
    (case and_then (build_alembic_config mi) (\<lambda>_. single_head mi) of
       Inl e \<Rightarrow> (Inl e, w)
     | Inr target \<Rightarrow>
        let db = mw_database w;
            current = (case im_heads db of [] \<Rightarrow> None | r # _ \<Rightarrow> Some r)
        in if length (im_heads db) > 1
           then (Inl (Runtime_Error ''Database records multiple Alembic revisions; automatic migration was stopped''), w)
           else if ''alembic_version'' \<in> set (map fst (im_schema db)) \<and> current = None
           then (Inl (Runtime_Error (''Alembic version table exists without a recorded revision; ''
                    @ ''automatic migration was stopped'')), w)
           else if (case current of None \<Rightarrow> False | Some r \<Rightarrow> r \<notin> set (mi_chain mi))
           then (Inl (Runtime_Error (''Database records unknown Alembic revision '' @ quoted (or_empty current)
                    @ ''; automatic migration was stopped'')), w)
           else if current = Some target then (Inr (), w)
           else case source_identity current db of
             Inl e \<Rightarrow> (Inl e, w)
           | Inr source \<Rightarrow>
              (case (if has_application_schema db \<and> mi_sqlite mi
                     then (case source of
                         None \<Rightarrow> (Inl (Runtime_Error ''Existing SQLite schema revision could not be identified''), mw_files w)
                       | Some s \<Rightarrow> create_sqlite_backup pf so mi target s w)
                     else (Inr None, mw_files w)) of
                 (Inl e, fs) \<Rightarrow> (Inl e, w\<lparr>mw_files := fs\<rparr>)
               | (Inr _, fs) \<Rightarrow>
                  let (failure, db') = run_migrations mi current source db
                  in (with_failure failure, \<lparr>mw_files = fs, mw_database = db'\<rparr>)))"

subsection \<open>What a valid backup is\<close>

definition valid_backup :: "string list \<Rightarrow> string \<Rightarrow> schema_identity \<Rightarrow> 'd node option \<Rightarrow> bool" where
  "valid_backup chain target s n \<longleftrightarrow>
     (\<exists>im. n = Some (File (Database [''ok''] im)) \<and> identify_image chain im = Inr s)
     \<and> older_revision chain (si_revision s) target"

lemma relationship_ok:
  "validate_revision_relationship p source target chain = Inr () \<longleftrightarrow> older_revision chain source target"
  by (auto simp: validate_revision_relationship_def older_revision_def)

lemma integrity_ok: "validate_integrity p c = Inr im \<longleftrightarrow> c = Database [''ok''] im"
  by (auto simp: validate_integrity_def Let_def split: content.splits)

lemma regular_file_ok: "validate_regular_file fs p = Inr c \<longleftrightarrow> fs p = Some (File c)"
  by (auto simp: validate_regular_file_def split: option.splits node.splits)

lemma map_sum_Inr: "map_sum f g r = Inr b \<longleftrightarrow> (\<exists>a. r = Inr a \<and> b = g a)"
  by (cases r) auto

lemma source_ok: "validate_source p (Some s) i = Inr () \<longleftrightarrow> i = s"
  by (simp add: validate_source_def)

lemma validation_ok:
  "(\<exists>v. validate_sqlite_backup pf fs b chain (Some s) (Some t) req = Inr v) \<longleftrightarrow>
     valid_backup chain t s (fs (absolute_path pf b))
     \<and> (req \<longrightarrow> ends_with (backup_suffix t) (path_name (resolved_path pf (absolute_path pf b))))"
  unfolding validate_sqlite_backup_def and_then_Inr_iff Let_def regular_file_ok integrity_ok identify_revision_def
    map_sum_Inr valid_backup_def
  by (auto simp: source_ok relationship_ok validate_filename_target_def split: if_splits)

lemma with_failure_ok [simp]: "with_failure e = Inr () \<longleftrightarrow> e = None"
  by (simp add: with_failure_def split: option.splits)

lemma removed_other [simp]: "p \<noteq> tmp \<Longrightarrow> remove_temporary so tmp fs p = fs p"
  by (simp add: remove_temporary_def)

text \<open>The revision that startup takes a database for is the one a check of its copy finds.\<close>

lemma source_identity_image:
  assumes "length (im_heads db) \<le> 1" and "current = (case im_heads db of [] \<Rightarrow> None | r # _ \<Rightarrow> Some r)"
    and "\<not> (''alembic_version'' \<in> set (map fst (im_schema db)) \<and> current = None)"
    and "\<not> (case current of None \<Rightarrow> False | Some r \<Rightarrow> r \<notin> set chain)"
    and "has_application_schema db"
  shows "source_identity current db = map_sum Runtime_Error Some (identify_image chain db)"
  using assms
  by (cases "infer_legacy_revision (im_schema db)")
    (auto simp: source_identity_def identify_image_def identify_schema_revision_def has_application_schema_def split: list.splits)

subsection \<open>No migration without a backup\<close>

text \<open>The files and the rely condition of a backup: the paths involved are absolute, the temporary file has a
  name of its own, and other processes leave it alone.\<close>

definition private_temporary :: "path_functions \<Rightarrow> 'd surroundings \<Rightarrow> string \<Rightarrow> bool" where
  "private_temporary pf so b \<longleftrightarrow> absolute_path pf b = b
     \<and> (\<forall>tmp. so_temporary so = Inr tmp \<longrightarrow> absolute_path pf tmp = tmp \<and> tmp \<noteq> b \<and> (\<forall>fs. so_others so fs tmp = fs tmp))"

lemma published:
  assumes "publish_backup pf mi target s b tmp fs = (Inr u, fs')" and "absolute_path pf b = b"
    and "valid_backup (mi_chain mi) target s (fs tmp)"
  shows "valid_backup (mi_chain mi) target s (fs' b) \<and> fs' b = (case fs b of Some n \<Rightarrow> Some n | None \<Rightarrow> fs tmp)"
proof (cases "fs b")
  case None
  then show ?thesis using assms by (auto simp: publish_backup_def split: if_splits)
next
  case (Some n)
  then have "fs' = fs" "\<exists>v. validate_sqlite_backup pf fs b (mi_chain mi) (Some s) (Some target) True = Inr v"
    using assms(1) by (auto simp: publish_backup_def map_sum_Inr)
  then show ?thesis unfolding validation_ok assms(2) using Some by simp
qed

lemma fresh_backup:
  assumes run: "create_sqlite_backup pf so mi target s w = (Inr v, fs')" and stored: "has_database_file (mi_database mi)"
    and own: "private_temporary pf so (migration_backup_path pf mi target)"
    and fresh: "\<not> path_exists (mw_files w) (migration_backup_path pf mi target)"
  defines "b \<equiv> migration_backup_path pf mi target" and "copy \<equiv> File (snd (live_copy so mi (mw_database w)))"
  shows "valid_backup (mi_chain mi) target s (fs' b)"
    and "\<exists>tmp. so_temporary so = Inr tmp
      \<and> fs' b = (case so_others so ((mw_files w)(tmp \<mapsto> copy)) b of Some n \<Rightarrow> Some n | None \<Rightarrow> Some copy)"
proof -
  obtain failure c where c: "live_copy so mi (mw_database w) = (failure, c)" by fastforce
  obtain tmp where tmp: "so_temporary so = Inr tmp"
    using run stored fresh by (cases "so_temporary so") (simp_all add: create_sqlite_backup_def Let_def)
  have t: "absolute_path pf b = b" "absolute_path pf tmp = tmp" "tmp \<noteq> b" "\<And>fs. so_others so fs tmp = fs tmp"
    using own tmp by (simp_all add: private_temporary_def b_def)
  let ?fs1 = "(mw_files w)(tmp \<mapsto> File c)"
  let ?checked = "and_then (with_failure failure) (\<lambda>_. and_then (with_failure (so_flush_error so)) (\<lambda>_.
    validate_sqlite_backup pf ?fs1 tmp (mi_chain mi) (Some s) (Some target) False))"
  have run': "(case ?checked of Inl e \<Rightarrow> (Inl e, remove_temporary so tmp ?fs1) | Inr _ \<Rightarrow>
      let (r, fs2) = publish_backup pf mi target s b tmp (so_others so ?fs1)
      in (map_sum id (\<lambda>_. Some b) r, remove_temporary so tmp fs2)) = (Inr v, fs')"
    unfolding b_def using run stored fresh c tmp by (simp add: create_sqlite_backup_def Let_def)
  obtain x where x: "?checked = Inr x" using run' by (cases ?checked) auto
  then have copied: "valid_backup (mi_chain mi) target s (Some (File c))"
    using validation_ok [of pf ?fs1 tmp "mi_chain mi" s target False] t(2) by (auto simp: and_then_Inr_iff)
  have tmp1: "so_others so ?fs1 tmp = Some (File c)" by (simp add: t(4))
  obtain u fs2 where p: "publish_backup pf mi target s b tmp (so_others so ?fs1) = (Inr u, fs2)"
    and fs': "fs' = remove_temporary so tmp fs2"
    using run' unfolding x by (auto simp: map_sum_Inr split: prod.splits)
  have "valid_backup (mi_chain mi) target s (fs2 b)
    \<and> fs2 b = (case so_others so ?fs1 b of Some n \<Rightarrow> Some n | None \<Rightarrow> Some (File c))"
    using published [OF p t(1), unfolded tmp1, OF copied] .
  moreover have fb: "fs' b = fs2 b" using t(3) by (simp add: fs')
  ultimately show "valid_backup (mi_chain mi) target s (fs' b)" and "\<exists>tmp. so_temporary so = Inr tmp
      \<and> fs' b = (case so_others so ((mw_files w)(tmp \<mapsto> copy)) b of Some n \<Rightarrow> Some n | None \<Rightarrow> Some copy)"
    unfolding fb copy_def c snd_conv using tmp by blast+
qed

lemma existing_backup:
  assumes "create_sqlite_backup pf so mi target s w = (Inr v, fs')" and "has_database_file (mi_database mi)"
    and "absolute_path pf (migration_backup_path pf mi target) = migration_backup_path pf mi target"
    and "path_exists (mw_files w) (migration_backup_path pf mi target)"
  shows "fs' = mw_files w" and "valid_backup (mi_chain mi) target s (fs' (migration_backup_path pf mi target))"
proof -
  let ?b = "migration_backup_path pf mi target"
  show fs': "fs' = mw_files w" using assms(1,2,4) by (auto simp: create_sqlite_backup_def Let_def)
  have "\<exists>v. validate_sqlite_backup pf (mw_files w) ?b (mi_chain mi) (Some s) (Some target) True = Inr v"
    using assms(1,2,4) by (auto simp: create_sqlite_backup_def Let_def map_sum_Inr)
  then show "valid_backup (mi_chain mi) target s (fs' ?b)" unfolding validation_ok assms(3) fs' by blast
qed

lemma migrated_parts:
  assumes run: "migrate_database pf so mi w = (r, w')" and changed: "mw_database w' \<noteq> mw_database w"
    and "mi_sqlite mi" and schema: "has_application_schema (mw_database w)"
  obtains s v where "mi_heads mi = [hd (mi_heads mi)]" and "identify_image (mi_chain mi) (mw_database w) = Inr s"
    and "create_sqlite_backup pf so mi (hd (mi_heads mi)) s w = (Inr v, mw_files w')"
proof -
  let ?db = "mw_database w"
  define current where "current = (case im_heads ?db of [] \<Rightarrow> None | r # _ \<Rightarrow> Some r)"
  obtain target where t: "and_then (build_alembic_config mi) (\<lambda>_. single_head mi) = Inr target"
    using run changed by (cases "and_then (build_alembic_config mi) (\<lambda>_. single_head mi)") (auto simp: migrate_database_def)
  then have heads: "mi_heads mi = [hd (mi_heads mi)]" and tgt: "target = hd (mi_heads mi)"
    by (auto simp: single_head_def and_then_Inr_iff length_Suc_conv split: if_splits)
  note config = t [unfolded tgt]
  have guards: "\<not> length (im_heads ?db) > 1" "\<not> (''alembic_version'' \<in> set (map fst (im_schema ?db)) \<and> current = None)"
    "\<not> (case current of None \<Rightarrow> False | Some r \<Rightarrow> r \<notin> set (mi_chain mi))" "current \<noteq> Some (hd (mi_heads mi))"
    using run changed unfolding migrate_database_def config Let_def sum.case current_def [symmetric]
    by (auto split: if_splits)
  note source = source_identity_image [OF leI [OF guards(1)] current_def guards(2,3) schema]
  have gate: "(has_application_schema ?db \<and> mi_sqlite mi) = True" using assms(3) schema by simp
  have rest: "(case source_identity current ?db of Inl e \<Rightarrow> (Inl e, w) | Inr source \<Rightarrow>
      (case (case source of None \<Rightarrow> (Inl (Runtime_Error ''Existing SQLite schema revision could not be identified''), mw_files w)
                       | Some s \<Rightarrow> create_sqlite_backup pf so mi (hd (mi_heads mi)) s w) of
         (Inl e, fs) \<Rightarrow> (Inl e, w\<lparr>mw_files := fs\<rparr>)
       | (Inr _, fs) \<Rightarrow> let (failure, db') = run_migrations mi current source ?db
           in (with_failure failure, \<lparr>mw_files = fs, mw_database = db'\<rparr>))) = (r, w')"
    using run unfolding migrate_database_def config Let_def sum.case current_def [symmetric] gate if_True
      if_not_P [OF guards(1)] if_not_P [OF guards(2)] if_not_P [OF guards(3)] if_not_P [OF guards(4)] .
  obtain s where s: "identify_image (mi_chain mi) ?db = Inr s"
    using rest changed unfolding source by (cases "identify_image (mi_chain mi) ?db") auto
  obtain v fs where v: "create_sqlite_backup pf so mi (hd (mi_heads mi)) s w = (Inr v, fs)"
    using rest changed unfolding source s by (auto split: prod.splits sum.splits)
  then have "mw_files w' = fs" using rest unfolding source s by (auto split: prod.splits)
  then show ?thesis using that heads s v by blast
qed

text \<open>C21: Startup does not touch the database of a SQLite file with an application schema before a backup is in
  place. When a run changed the database, whatever became of the migration, the file beside it that is named after the
  target revision is a sound backup of the revision that the database had, an older one than the target. A backup
  that was there before the run or that another process put there in the meantime is that same file: none is ever
  overwritten; otherwise it is the copy of the database taken before the migration.\<close>

theorem no_migration_without_backup:
  assumes "migrate_database pf so mi w = (r, w')" and "mw_database w' \<noteq> mw_database w"
    and "mi_sqlite mi" and "has_application_schema (mw_database w)" and "has_database_file (mi_database mi)"
    and "b = migration_backup_path pf mi (hd (mi_heads mi))" and "private_temporary pf so b"
    and "copy = File (snd (live_copy so mi (mw_database w)))"
  shows "\<exists>s. identify_image (mi_chain mi) (mw_database w) = Inr s
    \<and> valid_backup (mi_chain mi) (hd (mi_heads mi)) s (mw_files w' b)
    \<and> (path_exists (mw_files w) b \<longrightarrow> mw_files w' = mw_files w)
    \<and> (\<not> path_exists (mw_files w) b \<longrightarrow> (\<exists>tmp. so_temporary so = Inr tmp
         \<and> mw_files w' b = (case so_others so ((mw_files w)(tmp \<mapsto> copy)) b of Some n \<Rightarrow> Some n | None \<Rightarrow> Some copy)))"
proof -
  obtain s v where s: "identify_image (mi_chain mi) (mw_database w) = Inr s"
    and run: "create_sqlite_backup pf so mi (hd (mi_heads mi)) s w = (Inr v, mw_files w')"
    by (rule migrated_parts [OF assms(1-4)])
  have own: "absolute_path pf b = b" using assms(7) by (simp add: private_temporary_def)
  show ?thesis
  proof (cases "path_exists (mw_files w) b")
    case True
    then show ?thesis using s existing_backup [OF run assms(5)] own assms(6) by blast
  next
    case False
    then show ?thesis using s fresh_backup [OF run assms(5)] assms(6-8) by blast
  qed
qed

subsection \<open>A recognized database is migrated\<close>

lemma ends_with_append: "ends_with suffix (s @ suffix)"
  by (simp add: ends_with_def)

lemma fresh_backup_made:
  assumes "has_database_file (mi_database mi)" and "\<not> path_exists (mw_files w) (migration_backup_path pf mi target)"
    and "mw_files w (migration_backup_path pf mi target) = None"
    and "so_temporary so = Inr tmp" and "mw_files w tmp = None" and "tmp \<noteq> migration_backup_path pf mi target"
    and "absolute_path pf tmp = tmp" and "live_copy so mi (mw_database w) = (None, Database [''ok''] (mw_database w))"
    and "so_flush_error so = None" and "\<And>fs. so_others so fs = fs" and "so_unlink_works so"
    and "identify_image (mi_chain mi) (mw_database w) = Inr s" and "older_revision (mi_chain mi) (si_revision s) target"
  shows "create_sqlite_backup pf so mi target s w = (Inr (Some (migration_backup_path pf mi target)),
    (mw_files w)(migration_backup_path pf mi target \<mapsto> File (Database [''ok''] (mw_database w))))"
proof -
  let ?fs1 = "(mw_files w)(tmp \<mapsto> File (Database [''ok''] (mw_database w)))"
  obtain v where v: "validate_sqlite_backup pf ?fs1 tmp (mi_chain mi) (Some s) (Some target) False = Inr v"
    using validation_ok [of pf ?fs1 tmp "mi_chain mi" s target False] assms(7,12,13) by (auto simp: valid_backup_def)
  show ?thesis using assms(1-6,8-11)
    by (auto simp: create_sqlite_backup_def Let_def v with_failure_def publish_backup_def remove_temporary_def)
qed

text \<open>C22: A SQLite database whose revision is recognized and older than the head is migrated: when the copy is
  faithful and nothing else happens in the directory, the run goes through to Alembic, with the result of
  Alembic as its own, and the one change to the files is the new backup, which holds the database as it was.\<close>

theorem recognized_database_is_migrated:
  assumes "mi_scripts_available mi" and "mi_heads mi = [target]" and "mi_sqlite mi" and "has_application_schema (mw_database w)"
    and "identify_image (mi_chain mi) (mw_database w) = Inr s" and "older_revision (mi_chain mi) (si_revision s) target"
    and "has_database_file (mi_database mi)" and "b = migration_backup_path pf mi target" and "mw_files w b = None"
    and "so_temporary so = Inr tmp" and "mw_files w tmp = None" and "private_temporary pf so b"
    and "live_copy so mi (mw_database w) = (None, Database [''ok''] (mw_database w))"
    and "so_flush_error so = None" and "\<And>fs. so_others so fs = fs" and "so_unlink_works so"
  shows "\<exists>failure db'. run_migrations mi (if si_kind s = Alembic then Some (si_revision s) else None) (Some s) (mw_database w)
        = (failure, db')
     \<and> migrate_database pf so mi w = (with_failure failure,
         \<lparr>mw_files = (mw_files w)(b \<mapsto> File (Database [''ok''] (mw_database w))), mw_database = db'\<rparr>)"
proof -
  let ?db = "mw_database w"
  define current where "current = (case im_heads ?db of [] \<Rightarrow> None | r # _ \<Rightarrow> Some r)"
  have guards: "length (im_heads ?db) \<le> 1" "\<not> (''alembic_version'' \<in> set (map fst (im_schema ?db)) \<and> current = None)"
    "\<not> (case current of None \<Rightarrow> False | Some r \<Rightarrow> r \<notin> set (mi_chain mi))"
    "current = (if si_kind s = Alembic then Some (si_revision s) else None)"
    using assms(5) by (auto simp: identify_image_def identify_schema_revision_def current_def map_sum_Inr split: list.splits if_splits)
  have "current \<noteq> Some target" using assms(6) guards(4) by (auto simp: older_revision_def)
  moreover have config: "and_then (build_alembic_config mi) (\<lambda>_. single_head mi) = Inr target"
    using assms(1,2) by (simp add: build_alembic_config_def single_head_def)
  moreover note source = source_identity_image [OF guards(1) current_def guards(2,3) assms(4), unfolded assms(5)]
  moreover have "create_sqlite_backup pf so mi target s w = (Inr (Some b), (mw_files w)(b \<mapsto> File (Database [''ok''] ?db)))"
    using fresh_backup_made [of mi w pf target so tmp s] assms(5-7,9-11,13-16) assms(12) unfolding assms(8)
    by (auto simp: private_temporary_def path_exists_def)
  moreover obtain failure db' where "run_migrations mi current (Some s) ?db = (failure, db')" by fastforce
  ultimately have "migrate_database pf so mi w = (with_failure failure,
      \<lparr>mw_files = (mw_files w)(b \<mapsto> File (Database [''ok''] ?db)), mw_database = db'\<rparr>)"
    using guards(1-3) assms(3,4) unfolding migrate_database_def config Let_def sum.case current_def [symmetric] by auto
  then show ?thesis using \<open>run_migrations mi current (Some s) ?db = (failure, db')\<close> unfolding guards(4) by blast
qed

subsection \<open>The name of a backup\<close>

lemma dropWhile_to: "\<exists>x. dropWhile (\<lambda>c. c \<noteq> d) (a @ d # b) = x @ d # b"
proof (induction a)
  case (Cons c a)
  then show ?case by (cases "c = d") (auto intro: exI [of _ "c # a"])
qed auto

lemma search_backup_suffix:
  assumes "t \<noteq> []" and dots: "CHR ''.'' \<notin> set t"
  shows "search_target (n @ backup_suffix t) = Some t"
proof (induction n)
  case Nil
  have "takeWhile (\<lambda>c. c \<noteq> CHR ''.'') (t @ CHR ''.'' # ''bak'') = t" "dropWhile (\<lambda>c. c \<noteq> CHR ''.'') (t @ CHR ''.'' # ''bak'') = ''.bak''"
    using dots by (induction t) auto
  then have "match_target (backup_suffix t) = Some t" using assms(1) by (simp add: match_target_def backup_suffix_def starts_with_def)
  then show ?case by (simp add: backup_suffix_def)
next
  case (Cons c n)
  let ?s = "(c # n) @ backup_suffix t"
  have "match_target ?s = None"
  proof (cases "length (c # n) \<ge> 5")
    case True
    then have "drop 5 ?s = drop 5 (c # n) @ CHR ''.'' # (''pre-'' @ t @ ''.bak'')" by (simp add: backup_suffix_def)
    moreover obtain x where "dropWhile (\<lambda>c. c \<noteq> CHR ''.'') (drop 5 (c # n) @ CHR ''.'' # (''pre-'' @ t @ ''.bak'')) = x @ CHR ''.'' # (''pre-'' @ t @ ''.bak'')"
      by (rule exE [OF dropWhile_to])
    ultimately have "length (dropWhile (\<lambda>c. c \<noteq> CHR ''.'') (drop 5 ?s)) > 5" by simp
    then have "dropWhile (\<lambda>c. c \<noteq> CHR ''.'') (drop 5 ?s) \<notin> {''.bak'', ''.bak'' @ [CHR 0x0A]}" by auto
    then show ?thesis by (simp add: match_target_def Let_def)
  next
    case False
    have "\<not> starts_with ''.pre-'' ?s"
    proof
      assume s: "starts_with ''.pre-'' ?s"
      have "length ''.pre-'' = 5" by simp
      with s have "take 5 ?s ! length (c # n) = ''.pre-'' ! length (c # n)" unfolding starts_with_def by metis
      moreover have "take 5 ?s ! length (c # n) = CHR ''.''" using False by (simp add: nth_append backup_suffix_def)
      moreover have "length n = 0 \<or> length n = 1 \<or> length n = 2 \<or> length n = 3" using False unfolding list.size by arith
      ultimately show False by auto
    qed
    then show ?thesis by (simp add: match_target_def)
  qed
  then show ?case using Cons by simp
qed

lemma path_name_with: "CHR ''/'' \<notin> set n \<Longrightarrow> path_name (with_name p n) = n"
proof -
  assume n: "CHR ''/'' \<notin> set n"
  have "takeWhile (\<lambda>c. c \<noteq> CHR ''/'') (dropWhile (\<lambda>c. c \<noteq> CHR ''/'') xs) = []" for xs :: string
    by (induction xs) auto
  then have "takeWhile (\<lambda>c. c \<noteq> CHR ''/'') (rev n @ dropWhile (\<lambda>c. c \<noteq> CHR ''/'') (rev p)) = rev n"
    using n by (subst takeWhile_append2) auto
  then show ?thesis by (simp add: path_name_def with_name_def)
qed

lemma name_has_no_slash: "CHR ''/'' \<notin> set (path_name p)"
  by (auto simp: path_name_def dest: set_takeWhileD)

text \<open>The target revision can be read off the name of a migration backup, whatever the database is called.\<close>

lemma migration_target_read_back:
  assumes "t \<noteq> []" and "CHR ''.'' \<notin> set t" and "CHR ''/'' \<notin> set t"
    and "resolved_path pf (migration_backup_path pf mi t) = migration_backup_path pf mi t"
  shows "migration_target_from_filename pf (migration_backup_path pf mi t) = Inr t"
proof -
  let ?p = "resolved_path pf (or_empty (mi_database mi))"
  have "path_name (migration_backup_path pf mi t) = path_name ?p @ backup_suffix t"
    unfolding migration_backup_path_def Let_def using name_has_no_slash [of ?p] assms(3)
    by (intro path_name_with) (simp add: backup_suffix_def)
  then show ?thesis using search_backup_suffix [OF assms(1,2)] by (simp add: migration_target_from_filename_def assms(4) Let_def)
qed

subsection \<open>Witnesses\<close>

definition sample_paths :: path_functions where
  "sample_paths = \<lparr>absolute_path = (\<lambda>p. p), resolved_path = (\<lambda>p. p)\<rparr>"

definition quiet_surroundings :: "nat surroundings" where
  "quiet_surroundings = \<lparr>so_temporary = Inr ''/d/.tmp'', so_copy = (\<lambda>c. (None, c)), so_flush_error = None,
     so_others = (\<lambda>fs. fs), so_rename_replaces = True, so_unlink_works = True\<rparr>"

definition sample_migrator :: "nat migrator" where
  "sample_migrator = \<lparr>mi_script_location = ''/app/alembic'', mi_scripts_available = True, mi_heads = [''0002''],
     mi_chain = [''0001'', ''0002''], mi_stamp = (\<lambda>r db. (None, db\<lparr>im_heads := [r]\<rparr>)),
     mi_upgrade = (\<lambda>db. (None, db\<lparr>im_heads := [''0002'']\<rparr>)), mi_sqlite = True, mi_database = Some ''/d/app.db'',
     mi_integrity = [''ok'']\<rparr>"

definition sample_database :: "nat image" where
  "sample_database = \<lparr>im_schema = [(''alembic_version'', []), (''issues'', [])], im_heads = [''0001''], im_data = 7\<rparr>"

definition sample_world :: "nat migration_world" where
  "sample_world = \<lparr>mw_files = Map.empty, mw_database = sample_database\<rparr>"

lemma sample_migration:
  "migration_backup_path sample_paths sample_migrator ''0002'' = ''/d/app.db.pre-0002.bak''"
  "has_application_schema sample_database" "has_database_file (mi_database sample_migrator)"
  "identify_image (mi_chain sample_migrator) sample_database = Inr \<lparr>si_revision = ''0001'', si_kind = Alembic\<rparr>"
  "older_revision (mi_chain sample_migrator) ''0001'' ''0002''"
  by code_simp+

lemma sample_private: "private_temporary sample_paths quiet_surroundings ''/d/app.db.pre-0002.bak''"
  by (simp add: private_temporary_def sample_paths_def quiet_surroundings_def)

lemma recognized_database_is_migrated_witness:
  "migrate_database sample_paths quiet_surroundings sample_migrator sample_world =
    (Inr (), \<lparr>mw_files = [''/d/app.db.pre-0002.bak'' \<mapsto> File (Database [''ok''] sample_database)],
       mw_database = sample_database\<lparr>im_heads := [''0002'']\<rparr>\<rparr>)"
  using recognized_database_is_migrated [of sample_migrator "''0002''" sample_world "\<lparr>si_revision = ''0001'', si_kind = Alembic\<rparr>"
      "''/d/app.db.pre-0002.bak''" sample_paths quiet_surroundings "''/d/.tmp''"] sample_migration sample_private
  by (simp add: sample_world_def sample_migrator_def quiet_surroundings_def live_copy_def run_migrations_def with_failure_def)

lemma no_migration_without_backup_witness:
  "\<exists>w'. migrate_database sample_paths quiet_surroundings sample_migrator sample_world = (Inr (), w')
    \<and> valid_backup [''0001'', ''0002''] ''0002'' \<lparr>si_revision = ''0001'', si_kind = Alembic\<rparr> (mw_files w' ''/d/app.db.pre-0002.bak'')"
proof -
  let ?w = "snd (migrate_database sample_paths quiet_surroundings sample_migrator sample_world)"
  have "fst (migrate_database sample_paths quiet_surroundings sample_migrator sample_world) = Inr ()" by code_simp
  then have run: "migrate_database sample_paths quiet_surroundings sample_migrator sample_world = (Inr (), ?w)"
    by (metis prod.collapse)
  have simps: "mi_heads sample_migrator = [''0002'']" "mi_chain sample_migrator = [''0001'', ''0002'']"
    "mi_sqlite sample_migrator" "mw_database sample_world = sample_database"
    by (simp_all add: sample_migrator_def sample_world_def)
  have "mw_database ?w \<noteq> mw_database sample_world" by code_simp
  from no_migration_without_backup [OF run this simps(3) _ sample_migration(3) refl _ refl] sample_migration sample_private
  have "valid_backup [''0001'', ''0002''] ''0002'' \<lparr>si_revision = ''0001'', si_kind = Alembic\<rparr> (mw_files ?w ''/d/app.db.pre-0002.bak'')"
    by (auto simp: simps)
  then show ?thesis using run by blast
qed

text \<open>A standalone backup is published by a rename, which on POSIX replaces a file that another process has put
  under the target's name after the check: its contents are lost, and the backup is reported as made.\<close>

definition racing_surroundings :: "nat surroundings" where
  "racing_surroundings = quiet_surroundings\<lparr>so_others := (\<lambda>fs. fs(''/d/copy.db'' \<mapsto> File (No_Database ''other'')))\<rparr>"

lemma rename_replaces_target:
  "let fs = [''/d/app.db'' \<mapsto> File (Database [''ok''] sample_database)];
       (r, fs') = create_standalone_sqlite_backup sample_paths racing_surroundings ''/d/app.db'' ''/d/copy.db'' [''0001'', ''0002''] fs
   in fs ''/d/copy.db'' = None \<and> r \<noteq> Inl (Backup_Invalid ''/d/copy.db'' ''target_exists'' ''standalone backup target already exists'')
      \<and> fs' ''/d/copy.db'' = Some (File (Database [''ok''] sample_database))"
  by code_simp

end
