(* ===== verification/Spec2Isabelle.thy ===== *)
theory Spec2Isabelle
  imports Signals Classification AvailabilityContract ConfidenceBreakdown Drivers SyncService Recommendations
    MetricRecompute SprintView Security ConfigurationUpdate JiraExtraction
    ReportDocuments Migration
begin

text \<open>
  LighthousePM: the backend that reads a Jira project and answers how ready its releases are
  (src/backend/app, Python). This theory is the root of a library that models its rules and its state
  changes, and states what makes them right.

  The program. A synchronisation (services/sync_service.py) takes a lock, reads versions, issues, details and
  changelogs from Jira through a retrying client (services/jira_service.py), maps custom fields by configuration
  (services/jira_field_mapper.py), and stores them as evidence: releases, sprints, issues, histories
  (models/, repositories/sync_repository.py). It then recomputes every release and sprint: the analytics service
  (services/analytics_service.py) computes the metrics with the evaluators of
  services/metric_availability_service.py and appends a snapshot with availability, confidence, breakdown, driver
  and provenance; the signal service (services/signal_service.py) appends a signal for the latest snapshot.
  Snapshots and signals are never changed. The response services and the report preparation read only stored rows
  and answer with them. Settings, secrets, routes and tokens are checked at the boundary (config.py, security.py,
  services/configuration_service.py).

  Foundations. \<open>Prelude\<close>: string functions of Python on ASCII text, list and map lemmas, the collections of
  simplification rules. \<open>PyFloat\<close>: finite binary64 numbers as the rationals they denote, every operation rounded
  by \<open>fl\<close> (nearest, ties to even), and \<open>round(x, n)\<close>; values of the program stay far below the largest double, so
  overflow is not modelled. \<open>PyTime\<close>: naive and aware times in microseconds. \<open>Results\<close>: sequencing of
  operations that may raise, \<open>Inl\<close> the exception, \<open>Inr\<close> the value. \<open>Store\<close>: the rows of the evidence tables, one
  record per model class, a table a list in order of insertion.

  Configuration of the rules. \<open>Catalog\<close> is metric_catalog.py entry by entry with its validation at import.
  \<open>FieldMapper\<close> is the classification part of config.py with the mapping and the predicates of
  services/jira_field_mapper.py.

  Metrics. \<open>StoryPoints\<close>, \<open>ScopeMovement\<close>, \<open>ScopeMetrics\<close> and \<open>FlowMetrics\<close> hold the computations of
  services/analytics_service.py: points and workload, scope at sprint start by reverse replay of the
  changelog, seven-day churn, scope creep, cycle time, reopen rate. \<open>Classification\<close> holds the evaluators of
  services/metric_availability_service.py, \<open>DeliveryConfidence\<close> the velocity baseline and the score of a sprint,
  \<open>Availability\<close> and \<open>AvailabilityContract\<close> the availability table and its promises, \<open>ConfidenceBreakdown\<close> and
  \<open>Drivers\<close> the services of these names. The lemmas say exactly when a value is produced and that it is the one of
  a reference definition, give its range, and show that availability is total and explained.

  Signals. \<open>Signals\<close>: risk points, confidence, hard rules, gates and risks of services/signal_service.py; the
  lemmas give the exact condition of each signal and show that the score is monotone. \<open>RiskAging\<close>: the backward
  search for the start of a risk, proved equal to a forward run. \<open>Recommendations\<close> and \<open>SnapshotComparison\<close>:
  services/recommendation_engine.py and services/snapshot_comparison_service.py.

  Ingestion. \<open>JiraClient\<close>: retries, pagination, errors; \<open>JiraExtraction\<close>: the reading of Jira's JSON;
  \<open>ErrorSanitizer\<close>: utils/error_sanitizer.py as matchers; \<open>SyncRepository\<close> and \<open>SyncService\<close>: every write of a
  run, its failure handling and its status. The lemmas show termination, completeness of what is read, idempotent
  storing, and what a successful and a failed run leave in the database; \<open>service_step\<close> and \<open>reachable_service\<close> are
  the service over time with its lock, with invariants by rule induction.

  Derived state. \<open>DerivedTables\<close>: snapshot and signal rows, queries and appends; \<open>Snapshots\<close> and
  \<open>SnapshotContract\<close>: the two recomputations of the analytics service and what a new row promises;
  \<open>SignalRecompute\<close>: the signal of a snapshot; \<open>Pipeline\<close>: a sync with these recomputations in place of its
  argument; \<open>MetricRecompute\<close>: services/metric_recompute_service.py.

  Answers. \<open>SignalView\<close>, \<open>MetricsView\<close> and \<open>SprintView\<close>: services/release_signal_response_service.py,
  services/release_metrics_response_service.py and services/sprint_response_service.py; \<open>ReportData\<close>:
  services/report_data_preparation.py; \<open>ReportTexts\<close>: services/report_template_helpers.py, the formats, rows and bullets
  of the reports and the parser of the documentation; \<open>ReportDocuments\<close>: the documents of
  services/report_release_template.py and its three siblings, section by section. The lemmas show that after a
  recomputation the answers are the computed values, that charts, history and comparison agree with each other, that
  pages tile their list, that a report agrees with the API in its signal and in the metrics it prints, and that the
  documentation keeps every text.

  Boundary. \<open>Deployment\<close>: secrets, database URL, origins and the startup validation of config.py; \<open>Security\<close>:
  security.py; \<open>Configuration\<close> and \<open>ConfigurationUpdate\<close>: services/configuration_service.py, the rewriting of the
  environment file (also as the relation \<open>updates\<close>) and the checked update; \<open>SchemaRevision\<close>:
  db/schema_revision.py; \<open>Migration\<close>: db/migrations.py, db/migration_graph.py and db/backup_validation.py over the
  files and the database, with the rely condition on other processes stated as \<open>private_temporary\<close>. The lemmas show
  that startup changes no SQLite database before a valid backup is in place.

  Interfaces. Each locale is interpreted on the model: \<open>grid_rounding\<close> by float and by decimal rounding,
  \<open>status_classifier\<close> by the field mapper, \<open>evidence_metric\<close> by the four metrics that carry evidence,
  \<open>membership_log\<close> by sprint and release references, \<open>availability_table\<close> by the two dependency tables,
  \<open>snapshot_queries\<close> by the release and the sprint snapshots.

  Termination. Pagination loops are partial functions (\<open>changelog_loop\<close>, \<open>fetch_loop\<close>): \<open>None\<close> is a loop that never
  returns, and the theorems say when it returns. The retry loop and all other loops are total, by structure
  or by a measure; no fuel is used.

  Arguments. Code and data outside the repository are arguments of the definitions that use them: what Jira
  answers, clock readings, \<open>datetime.fromisoformat\<close>, \<open>float\<close> on text, Python's own texts of fractions and
  containers, \<open>make_url\<close>, the address check of \<open>urlsplit\<close>, the file system, path resolution, the loading of
  settings by pydantic, the routes registered with the web framework, the answers of the database inspector,
  SQLite's copy and integrity check, Alembic's commands and revisions, the version of the installed package. Text is ASCII. Reading a stored JSON value back into a
  response model is the identity on what the program stores.

  Not modelled: the drawing of a report document as a PDF (services/report_pdf_renderer.py,
  report_chart_renderer.py, report_theme.py, and report_template_engine.py and reporting_service.py, which pass
  data between the steps); the routes of api/, main.py and openapi.py, which
  call one service each; services/metric_catalog_service.py, which copies the catalog; jobs/scheduler.py, which
  starts a sync in an interval; engine and sessions in db/ and the migration scripts of alembic/; the scripts,
  sample data and desktop entry; the connection of the HTTP client; log lines, elapsed times and audit columns;
  the frontend and the desktop shell, which are in other languages.
\<close>

end
